(* ===== verification/Prelude.thy ===== *)
theory Prelude
  imports Main "HOL-Library.Word" "HOL-Library.Monad_Syntax"
begin

text \<open>
  Shared vocabulary of the development: the machine types of the streamer and
  encoder sources, C integer conversions and remainder, buffers addressed by
  offset, and the generic list facts the component theories lean on. The lemma
  collection \<open>buf_simps\<close> gathers the facts on byte buffers.
\<close>

unbundle bit_operations_syntax

named_theorems buf_simps \<open>facts on reading and writing byte buffers\<close>

type_synonym u8 = "8 word"
type_synonym u16 = "16 word"
type_synonym u32 = "32 word"
type_synonym u64 = "64 word"
type_synonym bytes = "u8 list"

section \<open>C integers\<close>

text \<open>
  A C \<open>int\<close> is modelled as an \<open>int\<close>; where a value is converted to a narrower
  type the conversion is written out: \<open>to_int32\<close> is the two's complement
  conversion to a 32-bit \<open>int\<close>, \<open>to_uint32\<close> and \<open>to_uint64\<close> the
  conversions to \<open>unsigned\<close> and \<open>size_t\<close>.
\<close>

definition INT_MAX :: int where "INT_MAX = 2147483647"

definition INT_MIN :: int where "INT_MIN = -2147483648"

definition to_int32 :: "int \<Rightarrow> int" where
  "to_int32 x = (x + 2 ^ 31) mod 2 ^ 32 - 2 ^ 31"

definition to_uint32 :: "int \<Rightarrow> int" where
  "to_uint32 x = x mod 2 ^ 32"

definition to_uint64 :: "int \<Rightarrow> int" where
  "to_uint64 x = x mod 2 ^ 64"

text \<open>
  Arithmetic whose overflow the language leaves undefined: \<open>None\<close> is a result
  outside the range of \<open>int\<close>.
\<close>

definition chk32 :: "int \<Rightarrow> int option" where
  "chk32 x = (if INT_MIN \<le> x \<and> x \<le> INT_MAX then Some x else None)"

text \<open>C division and remainder truncate towards zero.\<close>

definition c_div :: "int \<Rightarrow> int \<Rightarrow> int" where
  "c_div a b = sgn a * sgn b * (\<bar>a\<bar> div \<bar>b\<bar>)"

definition c_mod :: "int \<Rightarrow> int \<Rightarrow> int" where
  "c_mod a b = sgn a * (\<bar>a\<bar> mod \<bar>b\<bar>)"

section \<open>Outcomes that leave the program\<close>

text \<open>A call either returns to its caller or ends the process with \<open>exit\<close>.\<close>

datatype 'a outcome = Ret 'a | Exit int

fun obind :: "'a outcome \<Rightarrow> ('a \<Rightarrow> 'b outcome) \<Rightarrow> 'b outcome" where
  "obind (Ret x) f = f x"
| "obind (Exit c) f = Exit c"

section \<open>Buffers\<close>

text \<open>
  \<open>buf_read off n b\<close> is what a copy of \<open>n\<close> bytes from offset \<open>off\<close> sees, and
  \<open>buf_write off d b\<close> the buffer after a copy of \<open>d\<close> to offset \<open>off\<close>. Both
  are used with the range inside the buffer only.
\<close>

definition buf_read :: "nat \<Rightarrow> nat \<Rightarrow> 'a list \<Rightarrow> 'a list" where
  "buf_read off n b = take n (drop off b)"

definition buf_write :: "nat \<Rightarrow> 'a list \<Rightarrow> 'a list \<Rightarrow> 'a list" where
  "buf_write off d b = take off b @ d @ drop (off + length d) b"

section \<open>C integer facts\<close>

lemma to_int32_id: "INT_MIN \<le> x \<Longrightarrow> x \<le> INT_MAX \<Longrightarrow> to_int32 x = x"
  by (simp add: to_int32_def INT_MIN_def INT_MAX_def)

lemma to_int32_wrap:
  assumes "INT_MAX < x" "x \<le> INT_MAX + 2 ^ 32"
  shows "to_int32 x = x - 2 ^ 32"
proof -
  have "(x + 2 ^ 31) mod 2 ^ 32 = (x + 2 ^ 31 - 2 ^ 32) mod 2 ^ 32" by (rule minus_mod_self2 [symmetric])
  also have "\<dots> = x + 2 ^ 31 - 2 ^ 32"
    using assms by (intro mod_pos_pos_trivial) (simp_all add: INT_MAX_def)
  finally show ?thesis by (simp add: to_int32_def)
qed

lemma to_int32_range: "INT_MIN \<le> to_int32 x \<and> to_int32 x \<le> INT_MAX"
proof -
  have "0 \<le> (x + 2 ^ 31) mod 2 ^ 32" "(x + 2 ^ 31) mod 2 ^ 32 < (2 ^ 32 :: int)"
    by simp_all
  then show ?thesis by (simp add: to_int32_def INT_MIN_def INT_MAX_def)
qed

lemma c_mod_nonneg: "0 \<le> a \<Longrightarrow> 0 < b \<Longrightarrow> c_mod a b = a mod b"
  by (cases "a = 0") (simp_all add: c_mod_def sgn_if)

lemma c_div_nonneg: "0 \<le> a \<Longrightarrow> 0 < b \<Longrightarrow> c_div a b = a div b"
  by (cases "a = 0") (simp_all add: c_div_def sgn_if)

lemma chk32_Some: "INT_MIN \<le> x \<Longrightarrow> x \<le> INT_MAX \<Longrightarrow> chk32 x = Some x"
  by (simp add: chk32_def)

section \<open>Buffer facts\<close>

lemma length_buf_read [buf_simps]: "length (buf_read off n b) = min n (length b - off)"
  by (simp add: buf_read_def)

lemma length_buf_write [buf_simps]:
  "off + length d \<le> length b \<Longrightarrow> length (buf_write off d b) = length b"
  by (simp add: buf_write_def)

lemma buf_read_write_same [buf_simps]:
  "off + length d \<le> length b \<Longrightarrow> buf_read off (length d) (buf_write off d b) = d"
  by (simp add: buf_read_def buf_write_def)

lemma buf_read_write_below [buf_simps]:
  "off' + n \<le> off \<Longrightarrow> off + length d \<le> length b \<Longrightarrow>
   buf_read off' n (buf_write off d b) = buf_read off' n b"
  by (simp add: buf_read_def buf_write_def take_drop min_def)

lemma buf_read_write_above [buf_simps]:
  "off + length d \<le> off' \<Longrightarrow> off + length d \<le> length b \<Longrightarrow>
   buf_read off' n (buf_write off d b) = buf_read off' n b"
  by (simp add: buf_read_def buf_write_def)

lemma buf_read_append:
  "buf_read off (m + n) b = buf_read off m b @ buf_read (off + m) n b"
  by (simp add: buf_read_def take_add add.commute)

lemma buf_write_Nil [simp]: "buf_write off [] b = b"
  by (simp add: buf_write_def)

section \<open>Outcome facts\<close>

lemma obind_Ret_iff: "obind m f = Ret y \<longleftrightarrow> (\<exists>x. m = Ret x \<and> f x = Ret y)"
  by (cases m) auto

lemma obind_assoc: "obind (obind m f) g = obind m (\<lambda>x. obind (f x) g)"
  by (cases m) auto

end
