(* ===== verification/StdMap.thy ===== *)
theory StdMap
  imports Prelude
begin

text \<open>
  The containers the sources share. \<open>std::map\<close> is an association list in strictly
  increasing key order, which is what iteration over the C++ container observes;
  an iterator is the key of the node it points at, the end position, or dangling
  once that node was erased. The locale \<open>std_map\<close> states the contract the
  components rely on and is interpreted here on the model's own operations.
\<close>

section \<open>Operations\<close>

type_synonym ('k, 'v) omap = "('k \<times> 'v) list"

definition om_empty :: "('k, 'v) omap" where
  "om_empty = []"

definition om_find :: "('k, 'v) omap \<Rightarrow> 'k \<Rightarrow> 'v option" where
  "om_find m k = map_of m k"

fun om_put :: "'k::linorder \<Rightarrow> 'v \<Rightarrow> ('k, 'v) omap \<Rightarrow> ('k, 'v) omap" where
  "om_put k v [] = [(k, v)]"
| "om_put k v ((a, b) # m) =
     (if k < a then (k, v) # (a, b) # m
      else if k = a then (k, v) # m
      else (a, b) # om_put k v m)"

definition om_erase :: "'k \<Rightarrow> ('k, 'v) omap \<Rightarrow> ('k, 'v) omap" where
  "om_erase k m = filter (\<lambda>e. fst e \<noteq> k) m"

definition om_keys :: "('k, 'v) omap \<Rightarrow> 'k list" where
  "om_keys m = map fst m"

definition om_wf :: "('k::linorder, 'v) omap \<Rightarrow> bool" where
  "om_wf m \<longleftrightarrow> sorted_wrt (<) (map fst m)"

section \<open>Iterators\<close>

datatype 'k iter = At 'k | End | Dangling

definition om_begin :: "('k, 'v) omap \<Rightarrow> 'k iter" where
  "om_begin m = (case m of [] \<Rightarrow> End | e # _ \<Rightarrow> At (fst e))"

text \<open>\<open>++it\<close>: the node with the least key above the current one.\<close>

definition om_next :: "('k::linorder, 'v) omap \<Rightarrow> 'k \<Rightarrow> 'k iter" where
  "om_next m k = om_begin (filter (\<lambda>e. k < fst e) m)"

text \<open>Erasing a node invalidates the iterators that point at it and no other.\<close>

definition iter_erase :: "'k \<Rightarrow> 'k iter \<Rightarrow> 'k iter" where
  "iter_erase k i = (if i = At k then Dangling else i)"

text \<open>An iterator that may be dereferenced or compared with the end.\<close>

definition iter_ok :: "('k, 'v) omap \<Rightarrow> 'k iter \<Rightarrow> bool" where
  "iter_ok m i \<longleftrightarrow> (case i of At k \<Rightarrow> k \<in> set (om_keys m) | End \<Rightarrow> True | Dangling \<Rightarrow> False)"

section \<open>The contract of the container\<close>

locale std_map =
  fixes empty :: "'m"
    and find :: "'m \<Rightarrow> 'k::linorder \<Rightarrow> 'v option"
    and put :: "'k \<Rightarrow> 'v \<Rightarrow> 'm \<Rightarrow> 'm"
    and erase :: "'k \<Rightarrow> 'm \<Rightarrow> 'm"
    and keys :: "'m \<Rightarrow> 'k list"
    and wf :: "'m \<Rightarrow> bool"
  assumes wf_empty: "wf empty"
    and wf_put: "wf m \<Longrightarrow> wf (put k v m)"
    and wf_erase: "wf m \<Longrightarrow> wf (erase k m)"
    and find_empty: "find empty k = None"
    and find_put: "find (put k v m) k' = (if k' = k then Some v else find m k')"
    and find_erase: "find (erase k m) k' = (if k' = k then None else find m k')"
    and keys_sorted: "wf m \<Longrightarrow> sorted_wrt (<) (keys m)"
    and keys_find: "k \<in> set (keys m) \<longleftrightarrow> find m k \<noteq> None"
begin

lemma find_put_same: "find (put k v m) k = Some v"
  by (simp add: find_put)

lemma find_erase_same: "find (erase k m) k = None"
  by (simp add: find_erase)

lemma set_keys_put: "set (keys (put k v m)) = insert k (set (keys m))"
  by (auto simp: keys_find find_put split: if_splits)

lemma set_keys_erase: "set (keys (erase k m)) = set (keys m) - {k}"
  by (auto simp: keys_find find_erase split: if_splits)

lemma set_keys_empty: "set (keys empty) = {}"
  using keys_find [of _ empty] by (metis find_empty equals0I)

lemma keys_distinct: "wf m \<Longrightarrow> distinct (keys m)"
  using keys_sorted strict_sorted_iff by blast

lemma length_keys_put:
  "wf m \<Longrightarrow> length (keys (put k v m)) = (if find m k = None then 1 else 0) + length (keys m)"
proof -
  assume wf: "wf m"
  have d: "distinct (keys m)" "distinct (keys (put k v m))"
    using wf by (auto intro: keys_distinct wf_put)
  have "length (keys (put k v m)) = card (insert k (set (keys m)))"
    using d(2) set_keys_put by (metis distinct_card)
  also have "\<dots> = (if k \<in> set (keys m) then 0 else 1) + length (keys m)"
    using d(1) by (simp add: distinct_card card_insert_if)
  finally show ?thesis by (simp add: keys_find)
qed

lemma length_keys_erase:
  "wf m \<Longrightarrow> length (keys (erase k m)) = length (keys m) - (if find m k = None then 0 else 1)"
proof -
  assume wf: "wf m"
  have d: "distinct (keys m)" "distinct (keys (erase k m))"
    using wf by (auto intro: keys_distinct wf_erase)
  have "length (keys (erase k m)) = card (set (keys m) - {k})"
    using d(2) set_keys_erase by (metis distinct_card)
  also have "\<dots> = length (keys m) - (if k \<in> set (keys m) then 1 else 0)"
    using d(1) by (simp add: distinct_card card_Diff_singleton_if)
  finally show ?thesis by (simp add: keys_find)
qed

end

section \<open>The operations satisfy the contract\<close>

lemma set_om_put: "fst ` set (om_put k v m) = insert k (fst ` set m)"
  by (induction k v m rule: om_put.induct) auto

lemma om_wf_Nil [simp]: "om_wf []"
  by (simp add: om_wf_def)

lemma om_wf_Cons: "om_wf ((k, v) # m) \<longleftrightarrow> (\<forall>x \<in> fst ` set m. k < x) \<and> om_wf m"
  by (auto simp: om_wf_def)

lemma om_wf_put: "om_wf m \<Longrightarrow> om_wf (om_put k v m)"
proof (induction k v m rule: om_put.induct)
  case (1 k v)
  then show ?case by (simp add: om_wf_Cons)
next
  case (2 k v a b m)
  consider "k < a" | "k = a" | "a < k" by (rule linorder_cases)
  then show ?case
  proof cases
    case 1
    with "2.prems" show ?thesis by (auto simp: om_wf_Cons)
  next
    case 2
    with "2.prems" show ?thesis by (auto simp: om_wf_Cons)
  next
    case 3
    then have "om_wf (om_put k v m)" using "2.IH" "2.prems" by (auto simp: om_wf_Cons)
    moreover have "\<forall>x \<in> fst ` set (om_put k v m). a < x"
      unfolding set_om_put using "2.prems" 3 by (auto simp: om_wf_Cons)
    ultimately show ?thesis using 3 by (auto simp: om_wf_Cons)
  qed
qed

lemma om_wf_erase: "om_wf m \<Longrightarrow> om_wf (om_erase k m)"
  by (induction m) (auto simp: om_wf_def om_erase_def)

lemma om_find_put: "om_find (om_put k v m) k' = (if k' = k then Some v else om_find m k')"
  by (induction k v m rule: om_put.induct) (auto simp: om_find_def)

lemma om_find_erase: "om_find (om_erase k m) k' = (if k' = k then None else om_find m k')"
  by (induction m) (auto simp: om_find_def om_erase_def)

interpretation om: std_map om_empty om_find om_put om_erase om_keys om_wf
proof unfold_locales
  show "om_wf m \<Longrightarrow> sorted_wrt (<) (om_keys m)" for m :: "('a, 'b) omap"
    by (simp add: om_wf_def om_keys_def)
  show "k \<in> set (om_keys m) \<longleftrightarrow> om_find m k \<noteq> None" for k and m :: "('a, 'b) omap"
    by (force simp: om_keys_def om_find_def map_of_eq_None_iff)
qed (simp_all add: om_wf_put om_wf_erase om_find_put om_find_erase om_empty_def om_find_def [of "[]"])

lemmas om_find_simps [simp] = om.find_empty om.find_put_same om.find_erase_same om_find_put om_find_erase

lemma om_find_Cons: "om_find ((k, v) # m) k' = (if k' = k then Some v else om_find m k')"
  by (simp add: om_find_def)

lemma om_erase_absent: "om_find m k = None \<Longrightarrow> om_erase k m = m"
  by (force simp: om_find_def om_erase_def map_of_eq_None_iff filter_id_conv)

text \<open>Two well-formed maps with the same lookups are the same list.\<close>

lemma om_ext:
  "om_wf m \<Longrightarrow> om_wf m' \<Longrightarrow> (\<And>k. om_find m k = om_find m' k) \<Longrightarrow> m = m'"
proof -
  assume wf: "om_wf m" "om_wf m'" and eq: "\<And>k. om_find m k = om_find m' k"
  have d: "distinct (map fst m)" "distinct (map fst m')"
    using om.keys_distinct wf by (auto simp: om_keys_def)
  have "map_of m = map_of m'"
    using eq by (simp add: om_find_def fun_eq_iff)
  then have "set m = set m'"
    using d by (simp add: map_of_inject_set)
  moreover have "sorted (map fst m)" "sorted (map fst m')"
    using wf by (simp_all add: om_wf_def strict_sorted_iff)
  ultimately show ?thesis
    using d by (auto intro: map_sorted_distinct_set_unique [where f = fst] simp: distinct_map)
qed

section \<open>Iteration\<close>

text \<open>
  Walking from \<open>begin\<close> by \<open>++\<close> until \<open>end\<close> visits the suffix of the key list
  that starts at the iterator.
\<close>

lemma om_next_begin_suffix:
  "om_wf (xs @ (k, v) # ys) \<Longrightarrow> om_next (xs @ (k, v) # ys) k = om_begin ys"
proof -
  assume wf: "om_wf (xs @ (k, v) # ys)"
  then have below: "\<And>e. e \<in> set xs \<Longrightarrow> fst e < k" and above: "\<And>e. e \<in> set ys \<Longrightarrow> k < fst e"
    by (auto simp: om_wf_def sorted_wrt_append)
  have "filter (\<lambda>e. k < fst e) xs = []"
    using below by (force simp: filter_empty_conv)
  moreover have "filter (\<lambda>e. k < fst e) ys = ys"
    using above by (simp add: filter_id_conv)
  ultimately show ?thesis by (simp add: om_next_def)
qed

lemma iter_ok_begin [simp]: "iter_ok m (om_begin m)"
  by (cases m) (auto simp: iter_ok_def om_begin_def om_keys_def)

lemma iter_ok_put: "iter_ok m i \<Longrightarrow> iter_ok (om_put k v m) i"
  by (cases i) (auto simp: iter_ok_def om.set_keys_put)

lemma iter_ok_erase:
  fixes m :: "('k::linorder, 'v) omap"
  shows "iter_ok m i \<Longrightarrow> i \<noteq> At k \<Longrightarrow> iter_ok (om_erase k m) (iter_erase k i)"
  by (cases i) (auto simp: iter_ok_def iter_erase_def om.set_keys_erase)

lemma iter_ok_next: "iter_ok m (om_next m k)"
  by (auto simp: iter_ok_def om_next_def om_begin_def om_keys_def
      split: list.splits iter.splits dest: filter_eq_ConsD)

end
