(* ===== verification/CString.thy ===== *)
theory CString
  imports Prelude
begin

text \<open>
  The parts of the C library's string functions that the configuration code uses.
  A C string is the list of its characters before the terminating NUL; a character
  array is the list of all its characters. \<open>strtol\<close> is the 64-bit LP64 variant with
  base 0, as every call of the sources has it. Decimal formatting (\<open>%d\<close>,
  \<open>std::to_string\<close>) is \<open>dec_of_int\<close>; the round trip of the two is proved at the end.
\<close>

section \<open>Characters\<close>

abbreviation NUL :: char where "NUL \<equiv> CHR 0x00"

definition isspace :: "char \<Rightarrow> bool" where
  "isspace c \<longleftrightarrow> c = CHR '' '' \<or> c = CHR 0x09 \<or> c = CHR 0x0A \<or> c = CHR 0x0B \<or> c = CHR 0x0C \<or> c = CHR 0x0D"

definition chr_of_nat :: "nat \<Rightarrow> char" where
  "chr_of_nat n = char_of n"

definition nat_of_chr :: "char \<Rightarrow> nat" where
  "nat_of_chr c = of_char c"

definition tolower :: "char \<Rightarrow> char" where
  "tolower c = (if 65 \<le> nat_of_chr c \<and> nat_of_chr c \<le> 90 then chr_of_nat (nat_of_chr c + 32) else c)"

definition digit_val :: "char \<Rightarrow> nat option" where
  "digit_val c =
     (let n = nat_of_chr c in
      if 48 \<le> n \<and> n \<le> 57 then Some (n - 48)
      else if 97 \<le> n \<and> n \<le> 122 then Some (n - 87)
      else if 65 \<le> n \<and> n \<le> 90 then Some (n - 55)
      else None)"

definition is_digit :: "nat \<Rightarrow> char \<Rightarrow> bool" where
  "is_digit base c \<longleftrightarrow> (case digit_val c of None \<Rightarrow> False | Some d \<Rightarrow> d < base)"

section \<open>Searching, comparing, copying\<close>

definition strchr :: "string \<Rightarrow> char \<Rightarrow> string option" where
  "strchr s c = (case dropWhile (\<lambda>x. x \<noteq> c) s of [] \<Rightarrow> None | t \<Rightarrow> Some t)"

definition strcaseeq :: "string \<Rightarrow> string \<Rightarrow> bool" where
  "strcaseeq a b \<longleftrightarrow> map tolower a = map tolower b"

text \<open>\<open>strncpy\<close> fills all \<open>n\<close> bytes and leaves no terminator when the source does not fit.\<close>

definition strncpy :: "string \<Rightarrow> nat \<Rightarrow> char list" where
  "strncpy s n = take n (s @ replicate n NUL)"

text \<open>Reading an array as a C string; \<open>None\<close> is a read past an unterminated array.\<close>

definition cstr_of :: "char list \<Rightarrow> string option" where
  "cstr_of b = (if NUL \<in> set b then Some (takeWhile (\<lambda>c. c \<noteq> NUL) b) else None)"

section \<open>strtol with base 0\<close>

fun digits_run :: "nat \<Rightarrow> nat \<Rightarrow> string \<Rightarrow> nat \<times> string" where
  "digits_run base acc [] = (acc, [])"
| "digits_run base acc (c # s) =
     (case digit_val c of
        None \<Rightarrow> (acc, c # s)
      | Some d \<Rightarrow> if d < base then digits_run base (acc * base + d) s else (acc, c # s))"

definition strtol_sign :: "string \<Rightarrow> bool \<times> string" where
  "strtol_sign s = (case s of [] \<Rightarrow> (False, [])
     | c # t \<Rightarrow> if c = CHR ''-'' then (True, t) else if c = CHR ''+'' then (False, t) else (False, s))"

definition strtol_base :: "string \<Rightarrow> nat \<times> string" where
  "strtol_base s =
     (case s of
        c # x # d # t \<Rightarrow>
          if c = CHR ''0'' \<and> (x = CHR ''x'' \<or> x = CHR ''X'') \<and> is_digit 16 d then (16, d # t)
          else if c = CHR ''0'' then (8, s) else (10, s)
      | c # t \<Rightarrow> if c = CHR ''0'' then (8, s) else (10, s)
      | [] \<Rightarrow> (10, s))"

definition LONG_MAX :: int where "LONG_MAX = 9223372036854775807"

definition LONG_MIN :: int where "LONG_MIN = -9223372036854775808"

text \<open>
  The result is the value, what \<open>endptr\<close> points at, and whether \<open>errno\<close> is
  \<open>ERANGE\<close>. With no digits \<open>endptr\<close> is the start of the input.
\<close>

definition strtol :: "string \<Rightarrow> int \<times> string \<times> bool" where
  "strtol s =
     (let (neg, u) = strtol_sign (dropWhile isspace s);
          (base, v) = strtol_base u;
          (n, rest) = digits_run base 0 v;
          x = (if neg then - int n else int n)
      in if rest = v then (0, s, False)
         else if x > LONG_MAX then (LONG_MAX, rest, True)
         else if x < LONG_MIN then (LONG_MIN, rest, True)
         else (x, rest, False))"

section \<open>Decimal formatting\<close>

fun dec_of_nat :: "nat \<Rightarrow> string" where
  "dec_of_nat n = (if n < 10 then [chr_of_nat (48 + n)]
                   else dec_of_nat (n div 10) @ [chr_of_nat (48 + n mod 10)])"

declare dec_of_nat.simps [simp del]

definition dec_of_int :: "int \<Rightarrow> string" where
  "dec_of_int z = (if z < 0 then CHR ''-'' # dec_of_nat (nat (- z)) else dec_of_nat (nat z))"

section \<open>Facts on searching\<close>

lemma dropWhile_neq_append:
  "c \<notin> set a \<Longrightarrow> dropWhile (\<lambda>x. x \<noteq> c) (a @ c # b) = c # b"
  by (induction a) auto

lemma takeWhile_neq_append:
  "c \<notin> set a \<Longrightarrow> takeWhile (\<lambda>x. x \<noteq> c) (a @ c # b) = a"
  by (induction a) auto

lemma takeWhile_neq_id: "c \<notin> set a \<Longrightarrow> takeWhile (\<lambda>x. x \<noteq> c) a = a"
  by (induction a) auto

lemma strchr_None: "strchr s c = None \<longleftrightarrow> c \<notin> set s"
  by (induction s) (auto simp: strchr_def)

lemma strchr_Some:
  "strchr s c = Some t \<longleftrightarrow> (\<exists>a b. s = a @ c # b \<and> c \<notin> set a \<and> t = c # b)"
proof
  assume "strchr s c = Some t"
  then have t: "t = dropWhile (\<lambda>x. x \<noteq> c) s" "t \<noteq> []"
    by (auto simp: strchr_def split: list.splits)
  then have "hd t = c" using hd_dropWhile [of "\<lambda>x. x \<noteq> c" s] by simp
  then obtain b where "t = c # b" using t(2) by (cases t) auto
  then show "\<exists>a b. s = a @ c # b \<and> c \<notin> set a \<and> t = c # b"
    using t takeWhile_dropWhile_id [of "\<lambda>x. x \<noteq> c" s]
    by (metis (mono_tags, lifting) set_takeWhileD)
next
  assume "\<exists>a b. s = a @ c # b \<and> c \<notin> set a \<and> t = c # b"
  then show "strchr s c = Some t"
    by (auto simp: strchr_def dropWhile_neq_append)
qed

lemma strchr_append: "c \<notin> set a \<Longrightarrow> strchr (a @ c # b) c = Some (c # b)"
  by (auto simp: strchr_Some)

lemma strncpy_fits: "length s < n \<Longrightarrow> NUL \<notin> set s \<Longrightarrow> cstr_of (strncpy s n) = Some s"
proof -
  assume "length s < n" "NUL \<notin> set s"
  then obtain m where "strncpy s n = s @ NUL # replicate m NUL"
    by (cases "n - length s") (auto simp: strncpy_def)
  then show ?thesis using \<open>NUL \<notin> set s\<close> by (simp add: cstr_of_def takeWhile_append)
qed

lemma strncpy_no_room: "n \<le> length s \<Longrightarrow> NUL \<notin> set s \<Longrightarrow> cstr_of (strncpy s n) = None"
  by (auto simp: strncpy_def cstr_of_def dest: in_set_takeD)

section \<open>Decimal round trip\<close>

lemma nat_of_chr_of_nat [simp]: "n < 256 \<Longrightarrow> nat_of_chr (chr_of_nat n) = n"
  by (simp add: nat_of_chr_def chr_of_nat_def)

lemma digit_val_dec [simp]: "d < 10 \<Longrightarrow> digit_val (chr_of_nat (48 + d)) = Some d"
  by (simp add: digit_val_def)

lemma digits_run_append:
  "digits_run base acc s = (n, []) \<Longrightarrow> digits_run base acc (s @ t) = digits_run base n t"
  by (induction base acc s rule: digits_run.induct) (auto split: option.splits if_splits)

lemma digits_run_dec: "digits_run 10 0 (dec_of_nat n) = (n, [])"
proof (induction n rule: dec_of_nat.induct)
  case (1 n)
  show ?case
  proof (cases "n < 10")
    case True
    then show ?thesis by (simp add: dec_of_nat.simps [of n])
  next
    case False
    with 1 have "digits_run 10 0 (dec_of_nat (n div 10)) = (n div 10, [])" by simp
    with False show ?thesis
      by (simp add: dec_of_nat.simps [of n] digits_run_append)
  qed
qed

lemma dec_of_nat_neq_Nil [simp]: "dec_of_nat n \<noteq> []" "[] \<noteq> dec_of_nat n"
  by (simp_all add: dec_of_nat.simps)

lemma dec_of_nat_set: "c \<in> set (dec_of_nat n) \<Longrightarrow> \<exists>d<10. c = chr_of_nat (48 + d)"
proof (induction n rule: dec_of_nat.induct)
  case (1 n)
  show ?case
  proof (cases "n < 10 \<or> c \<notin> set (dec_of_nat (n div 10))")
    case True
    with "1.prems" have "c = chr_of_nat (48 + n mod 10)"
      by (auto simp: dec_of_nat.simps [of n] split: if_splits)
    then show ?thesis by (intro exI [of _ "n mod 10"]) simp
  next
    case False
    with "1.IH" show ?thesis by auto
  qed
qed

lemma dec_of_nat_hd: "dec_of_nat n = c # s \<Longrightarrow> \<exists>d<10. c = chr_of_nat (48 + d)"
  using dec_of_nat_set [of c n] by simp

lemma dec_of_nat_no_lead_zero: "0 < n \<Longrightarrow> hd (dec_of_nat n) \<noteq> chr_of_nat 48"
proof (induction n rule: dec_of_nat.induct)
  case (1 n)
  show ?case
  proof (cases "n < 10")
    case True
    with "1.prems" have "nat_of_chr (chr_of_nat (48 + n)) \<noteq> nat_of_chr (chr_of_nat 48)"
      by simp
    then have "chr_of_nat (48 + n) \<noteq> chr_of_nat 48" by metis
    with True show ?thesis by (simp add: dec_of_nat.simps [of n])
  next
    case False
    with 1 have "hd (dec_of_nat (n div 10)) \<noteq> chr_of_nat 48" by simp
    with False show ?thesis by (simp add: dec_of_nat.simps [of n])
  qed
qed

lemma chr_digit_cases:
  assumes "d < 10"
  shows "chr_of_nat (48 + d) \<in>
    set ''0123456789''"
proof -
  have "\<forall>d \<in> set [0..<10]. chr_of_nat (48 + d) \<in>
    set ''0123456789''"
    by code_simp
  with assms show ?thesis by simp
qed

lemma dec_char_plain:
  assumes "d < 10"
  shows "\<not> isspace (chr_of_nat (48 + d)) \<and>
    chr_of_nat (48 + d) \<notin> {CHR ''#'', CHR '';'', CHR ''/'', CHR ''['', CHR '']'', CHR ''='', CHR ''-'', CHR ''+'', NUL}"
  using chr_digit_cases [OF assms] by (auto simp: isspace_def)

lemma dropWhile_space_dec: "dropWhile isspace (dec_of_nat n @ t) = dec_of_nat n @ t"
  using dec_of_nat_hd [of n] dec_char_plain
  by (cases "dec_of_nat n") (auto simp: neq_Nil_conv)

lemma strtol_sign_dec_append: "strtol_sign (dec_of_nat n @ t) = (False, dec_of_nat n @ t)"
proof (cases "dec_of_nat n")
  case (Cons c s)
  with dec_of_nat_hd obtain d where "d < 10" "c = chr_of_nat (48 + d)" by blast
  with dec_char_plain [of d] have "c \<noteq> CHR ''-''" "c \<noteq> CHR ''+''" by auto
  with Cons show ?thesis by (simp add: strtol_sign_def)
qed simp

lemma strtol_sign_dec: "strtol_sign (dec_of_nat n) = (False, dec_of_nat n)"
  using strtol_sign_dec_append [of n "[]"] by simp

lemma strtol_base_dec: "0 < n \<Longrightarrow> strtol_base (dec_of_nat n) = (10, dec_of_nat n)"
proof -
  assume "0 < n"
  moreover have "chr_of_nat 48 = CHR ''0''" by code_simp
  ultimately obtain c s where "dec_of_nat n = c # s" "c \<noteq> CHR ''0''"
    using dec_of_nat_no_lead_zero [of n] by (cases "dec_of_nat n") auto
  then show ?thesis by (auto simp: strtol_base_def split: list.splits)
qed

lemma strtol_dec_of_nat:
  assumes "int n \<le> LONG_MAX"
  shows "strtol (dec_of_nat n) = (int n, [], False)"
proof (cases "n = 0")
  case True
  have "strtol (dec_of_nat 0) = (0, [], False)" by code_simp
  with True show ?thesis by simp
next
  case False
  have "dropWhile isspace (dec_of_nat n) = dec_of_nat n"
    using dropWhile_space_dec [of n "[]"] by simp
  with False assms show ?thesis
    by (simp add: strtol_def Let_def strtol_sign_dec strtol_base_dec digits_run_dec LONG_MIN_def)
qed

lemma strtol_dec_of_int:
  assumes "LONG_MIN \<le> z" "z \<le> LONG_MAX"
  shows "strtol (dec_of_int z) = (z, [], False)"
proof (cases "z < 0")
  case False
  with assms show ?thesis by (simp add: dec_of_int_def strtol_dec_of_nat)
next
  case True
  let ?s = "dec_of_nat (nat (- z))"
  have sign: "strtol_sign (dropWhile isspace (CHR ''-'' # ?s)) = (True, ?s)"
    by (simp add: isspace_def strtol_sign_def)
  from True assms show ?thesis
    by (simp add: dec_of_int_def strtol_def sign strtol_base_dec digits_run_dec LONG_MAX_def
        del: dropWhile.simps)
qed

lemma strtol_dec_of_int_erange:
  assumes "z < LONG_MIN \<or> LONG_MAX < z"
  shows "\<exists>v r. strtol (dec_of_int z) = (v, r, True)"
proof (cases "z < 0")
  case True
  let ?s = "dec_of_nat (nat (- z))"
  have sign: "strtol_sign (dropWhile isspace (CHR ''-'' # ?s)) = (True, ?s)"
    by (simp add: isspace_def strtol_sign_def)
  from True assms show ?thesis
    by (auto simp: dec_of_int_def strtol_def sign strtol_base_dec digits_run_dec LONG_MAX_def LONG_MIN_def
        simp del: dropWhile.simps)
next
  case False
  have "dropWhile isspace (dec_of_nat (nat z)) = dec_of_nat (nat z)"
    using dropWhile_space_dec [of "nat z" "[]"] by simp
  with False assms show ?thesis
    by (auto simp: dec_of_int_def strtol_def Let_def strtol_sign_dec strtol_base_dec digits_run_dec
        LONG_MIN_def LONG_MAX_def)
qed

text \<open>Whatever the input, the value is in the range of \<open>long\<close> and \<open>endptr\<close> stays inside the input.\<close>

lemma digits_run_suffix: "\<exists>p. s = p @ snd (digits_run base acc s)"
proof (induction base acc s rule: digits_run.induct)
  case (2 base acc c s)
  show ?case
  proof (cases "is_digit base c")
    case True
    then obtain d where d: "digit_val c = Some d" "d < base"
      by (auto simp: is_digit_def split: option.splits)
    with 2 obtain p where "s = p @ snd (digits_run base (acc * base + d) s)" by blast
    with d show ?thesis by (intro exI [of _ "c # p"]) simp
  next
    case False
    then show ?thesis by (auto simp: is_digit_def split: option.splits)
  qed
qed simp

lemma strtol_range: "strtol s = (v, r, e) \<Longrightarrow> LONG_MIN \<le> v \<and> v \<le> LONG_MAX"
  by (auto simp: strtol_def Let_def LONG_MIN_def LONG_MAX_def split: prod.splits if_splits)

lemma strtol_sign_suffix: "\<exists>p. s = p @ snd (strtol_sign s)"
  by (cases s) (auto simp: strtol_sign_def)

lemma strtol_base_suffix: "\<exists>p. s = p @ snd (strtol_base s)"
  by (auto simp: strtol_base_def split: list.splits)

lemma strtol_rest_shorter:
  assumes "strtol s = (v, r, e)" and "r \<noteq> s"
  shows "length r < length s"
proof -
  obtain neg u where u: "strtol_sign (dropWhile isspace s) = (neg, u)" by fastforce
  obtain base w where w: "strtol_base u = (base, w)" by fastforce
  obtain n rest where r: "digits_run base 0 w = (n, rest)" by fastforce
  obtain p1 where p1: "dropWhile isspace s = p1 @ u" using strtol_sign_suffix [of "dropWhile isspace s"] u by auto
  obtain p2 where p2: "u = p2 @ w" using strtol_base_suffix [of u] w by auto
  obtain p3 where p3: "w = p3 @ rest" using digits_run_suffix [of w base 0] r by auto
  have "r = rest" "rest \<noteq> w"
    using assms u w r by (auto simp: strtol_def Let_def split: if_splits)
  then have "length r < length w" using p3 by (cases p3) auto
  also have "length w \<le> length s"
    using p1 p2 length_dropWhile_le [of isspace s] by simp
  finally show ?thesis .
qed

end
