(* ===== verification/ConfVar.thy ===== *)
theory ConfVar
  imports StdMap CString "HOL-Library.List_Lexorder" "HOL-Library.Char_ord"
begin

text \<open>
  One configuration variable, the class \<open>gaConfVar\<close> of
  \<open>sources/streamer/core/ga-confvar.cpp\<close>: a plain text value, a parameter map
  and the iterator the enumeration interface advances. The invariant \<open>gcv_wf\<close>
  says the map is a proper \<open>std::map\<close> and the iterator may be dereferenced.
\<close>

section \<open>State and operations\<close>

record gaConfVar =
  gcv_data :: string
  gcv_mapdata :: "(string, string) omap"
  gcv_mi :: "string iter"

definition gaConfVar_clear :: gaConfVar where
  "gaConfVar_clear = \<lparr>gcv_data = [], gcv_mapdata = om_empty, gcv_mi = om_begin (om_empty :: (string, string) omap)\<rparr>"

definition gaConfVar_value :: "gaConfVar \<Rightarrow> string" where
  "gaConfVar_value v = gcv_data v"

text \<open>The two \<open>operator=\<close> from text drop the map; the copy keeps it and rewinds.\<close>

definition gaConfVar_assign :: "string \<Rightarrow> gaConfVar \<Rightarrow> gaConfVar" where
  "gaConfVar_assign value v = v\<lparr>gcv_data := value, gcv_mapdata := om_empty, gcv_mi := om_begin (om_empty :: (string, string) omap)\<rparr>"

definition gaConfVar_assign_string :: "string \<Rightarrow> gaConfVar \<Rightarrow> gaConfVar" where
  "gaConfVar_assign_string value v = v\<lparr>gcv_data := value, gcv_mapdata := om_empty, gcv_mi := om_begin (om_empty :: (string, string) omap)\<rparr>"

definition gaConfVar_copy :: "gaConfVar \<Rightarrow> gaConfVar \<Rightarrow> gaConfVar" where
  "gaConfVar_copy var v = v\<lparr>gcv_data := gcv_data var, gcv_mapdata := gcv_mapdata var,
     gcv_mi := om_begin (gcv_mapdata var)\<rparr>"

text \<open>\<open>operator[]\<close> inserts an empty entry for a missing key and yields the entry.\<close>

definition gaConfVar_index :: "string \<Rightarrow> gaConfVar \<Rightarrow> string \<times> gaConfVar" where
  "gaConfVar_index key v =
     (case om_find (gcv_mapdata v) key of
        Some s \<Rightarrow> (s, v)
      | None \<Rightarrow> ([], v\<lparr>gcv_mapdata := om_put key [] (gcv_mapdata v)\<rparr>))"

definition gaConfVar_index_set :: "string \<Rightarrow> string \<Rightarrow> gaConfVar \<Rightarrow> gaConfVar" where
  "gaConfVar_index_set key value v = v\<lparr>gcv_mapdata := om_put key value (gcv_mapdata v)\<rparr>"

definition gaConfVar_haskey :: "string \<Rightarrow> gaConfVar \<Rightarrow> bool" where
  "gaConfVar_haskey key v \<longleftrightarrow> om_find (gcv_mapdata v) key \<noteq> None"

definition gaConfVar_msize :: "gaConfVar \<Rightarrow> int" where
  "gaConfVar_msize v = int (length (gcv_mapdata v))"

definition gaConfVar_mreset :: "gaConfVar \<Rightarrow> gaConfVar" where
  "gaConfVar_mreset v = v\<lparr>gcv_mi := om_begin (gcv_mapdata v)\<rparr>"

text \<open>The iterator is never dangling: no operation erases a single node of the map.\<close>

definition gaConfVar_mkey :: "gaConfVar \<Rightarrow> string" where
  "gaConfVar_mkey v = (case gcv_mi v of At k \<Rightarrow> k | _ \<Rightarrow> [])"

definition gaConfVar_mvalue :: "gaConfVar \<Rightarrow> string" where
  "gaConfVar_mvalue v =
     (case gcv_mi v of
        At k \<Rightarrow> (case om_find (gcv_mapdata v) k of Some s \<Rightarrow> s | None \<Rightarrow> [])
      | _ \<Rightarrow> [])"

definition gaConfVar_mnextkey :: "gaConfVar \<Rightarrow> string \<times> gaConfVar" where
  "gaConfVar_mnextkey v =
     (case gcv_mi v of
        At k \<Rightarrow>
          let it = om_next (gcv_mapdata v) k
          in (case it of At k' \<Rightarrow> k' | _ \<Rightarrow> [], v\<lparr>gcv_mi := it\<rparr>)
      | _ \<Rightarrow> ([], v))"

section \<open>Invariant\<close>

definition gcv_wf :: "gaConfVar \<Rightarrow> bool" where
  "gcv_wf v \<longleftrightarrow> om_wf (gcv_mapdata v) \<and> iter_ok (gcv_mapdata v) (gcv_mi v)"

lemmas gcv_defs = gaConfVar_clear_def gaConfVar_assign_def gaConfVar_assign_string_def
  gaConfVar_copy_def gaConfVar_index_def gaConfVar_index_set_def gaConfVar_mreset_def
  gaConfVar_mnextkey_def

lemma gcv_wf_clear [simp]: "gcv_wf gaConfVar_clear"
  by (simp add: gcv_wf_def gcv_defs om.wf_empty)

lemma gcv_wf_assign [simp]: "gcv_wf (gaConfVar_assign s v)"
  by (simp add: gcv_wf_def gcv_defs om.wf_empty)

lemma gcv_wf_copy: "gcv_wf var \<Longrightarrow> gcv_wf (gaConfVar_copy var v)"
  by (simp add: gcv_wf_def gcv_defs)

lemma gcv_wf_index: "gcv_wf v \<Longrightarrow> gcv_wf (snd (gaConfVar_index k v))"
  by (auto simp: gcv_wf_def gcv_defs om.wf_put iter_ok_put split: option.splits)

lemma gcv_wf_index_set: "gcv_wf v \<Longrightarrow> gcv_wf (gaConfVar_index_set k s v)"
  by (auto simp: gcv_wf_def gcv_defs om.wf_put iter_ok_put)

lemma gcv_wf_mreset: "gcv_wf v \<Longrightarrow> gcv_wf (gaConfVar_mreset v)"
  by (simp add: gcv_wf_def gcv_defs)

lemma gcv_wf_mnextkey: "gcv_wf v \<Longrightarrow> gcv_wf (snd (gaConfVar_mnextkey v))"
  by (auto simp: gcv_wf_def gcv_defs iter_ok_next Let_def split: iter.splits)

section \<open>Enumeration\<close>

text \<open>
  The enumeration idiom of the callers, as one function: starting from the current
  position, collect key and value until the key read is empty. The recursion is on
  the number of steps allowed.
\<close>

fun gcv_enum :: "nat \<Rightarrow> string \<Rightarrow> gaConfVar \<Rightarrow> (string \<times> string) list \<times> gaConfVar" where
  "gcv_enum 0 k v = ([], v)"
| "gcv_enum (Suc n) k v =
     (if k = [] then ([], v)
      else let x = gaConfVar_mvalue v; (k', v') = gaConfVar_mnextkey v; (r, v'') = gcv_enum n k' v'
           in ((k, x) # r, v''))"

lemma gcv_enum_suffix:
  assumes "om_wf (xs @ ys)" and "[] \<notin> fst ` set ys" and "length ys < n"
    and "gcv_mapdata v = xs @ ys" and "gcv_mi v = om_begin ys"
  shows "fst (gcv_enum n (gaConfVar_mkey v) v) = ys"
  using assms
proof (induction ys arbitrary: xs n v)
  case Nil
  then show ?case by (cases n) (auto simp: gaConfVar_mkey_def om_begin_def)
next
  case (Cons y ys)
  obtain k s where y: "y = (k, s)" by fastforce
  obtain m where n: "n = Suc m" using Cons.prems by (cases n) auto
  have wf: "om_wf (xs @ (k, s) # ys)" using Cons.prems y by simp
  have mi: "gcv_mi v = At k" using Cons.prems y by (simp add: om_begin_def)
  have d: "distinct (map fst (xs @ (k, s) # ys))"
    using om.keys_distinct [OF wf] by (simp add: om_keys_def)
  then have "k \<notin> fst ` set xs" by auto
  then have find: "om_find (gcv_mapdata v) k = Some s"
    using Cons.prems y map_of_eq_None_iff [of xs k] by (simp add: om_find_def map_add_def)
  let ?v = "v\<lparr>gcv_mi := om_begin ys\<rparr>"
  have next_it: "om_next (gcv_mapdata v) k = om_begin ys"
    using om_next_begin_suffix [OF wf] Cons.prems y by simp
  have nxt: "gaConfVar_mnextkey v = (gaConfVar_mkey ?v, ?v)"
    using mi next_it by (simp add: gaConfVar_mnextkey_def gaConfVar_mkey_def Let_def)
  have "fst (gcv_enum m (gaConfVar_mkey ?v) ?v) = ys"
    using Cons.prems y n by (intro Cons.IH [where xs = "xs @ [(k, s)]"]) auto
  moreover have "k \<noteq> []" using Cons.prems y by auto
  ultimately show ?case
    using n mi find nxt y by (auto simp: gaConfVar_mkey_def gaConfVar_mvalue_def split: prod.splits)
qed

lemma gcv_enum_all:
  assumes "gcv_wf v" and "[] \<notin> fst ` set (gcv_mapdata v)" and "length (gcv_mapdata v) < n"
  shows "fst (gcv_enum n (gaConfVar_mkey (gaConfVar_mreset v)) (gaConfVar_mreset v)) = gcv_mapdata v"
  using assms gcv_enum_suffix [of "[]" "gcv_mapdata v" n "gaConfVar_mreset v"]
  by (simp add: gcv_wf_def gaConfVar_mreset_def)

end
