(* ===== verification/Conf.thy ===== *)
theory Conf
  imports ConfVar
begin

text \<open>
  The configuration store of \<open>sources/streamer/core/ga-conf.cpp\<close>: the global map
  \<open>ga_vars\<close> with its iterator \<open>ga_vmi\<close>, the line parser, the file loader with
  \<open>include\<close>, and the typed readers. The file system is a parameter (path to
  contents). \<open>ga_conf_load\<close> recurses through \<open>include\<close> with the including file
  still open, so its first argument is the number of files the process may still
  open: at 0 \<open>fopen\<close> fails. \<open>strtod\<close> based readers are left out.
\<close>

section \<open>Trimming a line\<close>

definition cut_comment_slash :: "string \<Rightarrow> string" where
  "cut_comment_slash s =
     (case strchr s (CHR ''/'') of
        Some (c # d # t) \<Rightarrow> if d = CHR ''/'' then takeWhile (\<lambda>x. x \<noteq> CHR ''/'') s else s
      | _ \<Rightarrow> s)"

definition strip_tail :: "string \<Rightarrow> string" where
  "strip_tail s = rev (dropWhile isspace (rev s))"

text \<open>
  Writing NUL at a found character cuts the string there. The second pass over
  the buffer for comment characters runs from the end and cuts at each one, so
  what is left is again the part before the first.
\<close>

definition ga_conf_trim :: "string \<Rightarrow> string" where
  "ga_conf_trim buf =
     (let b = dropWhile isspace buf
      in if b \<noteq> [] \<and> hd b = CHR ''['' then []
         else let b1 = takeWhile (\<lambda>x. x \<noteq> CHR ''#'') b;
                  b2 = takeWhile (\<lambda>x. x \<noteq> CHR '';'') b1;
                  b3 = cut_comment_slash b2;
                  b4 = takeWhile (\<lambda>x. x \<noteq> CHR ''#'') b3
              in strip_tail b4)"

section \<open>State and runtime configuration\<close>

record ga_conf =
  ga_vars :: "(string, gaConfVar) omap"
  ga_vmi :: "string iter"

definition ga_conf_initial :: ga_conf where
  "ga_conf_initial = \<lparr>ga_vars = [], ga_vmi = End\<rparr>"

text \<open>\<open>ga_vars[key]\<close>, which default-constructs a missing variable.\<close>

definition conf_var :: "string \<Rightarrow> ga_conf \<Rightarrow> gaConfVar" where
  "conf_var key c = (case om_find (ga_vars c) key of Some v \<Rightarrow> v | None \<Rightarrow> gaConfVar_clear)"

definition conf_put :: "string \<Rightarrow> gaConfVar \<Rightarrow> ga_conf \<Rightarrow> ga_conf" where
  "conf_put key v c = c\<lparr>ga_vars := om_put key v (ga_vars c)\<rparr>"

definition ga_conf_writev :: "string \<Rightarrow> string \<Rightarrow> ga_conf \<Rightarrow> int \<times> ga_conf" where
  "ga_conf_writev key value c = (0, conf_put key (gaConfVar_assign value (conf_var key c)) c)"

definition ga_conf_mapwritev :: "string \<Rightarrow> string \<Rightarrow> string \<Rightarrow> ga_conf \<Rightarrow> int \<times> ga_conf" where
  "ga_conf_mapwritev mapname key value c =
     (0, conf_put mapname (gaConfVar_index_set key value (conf_var mapname c)) c)"

definition ga_conf_erase :: "string \<Rightarrow> ga_conf \<Rightarrow> ga_conf" where
  "ga_conf_erase key c = c\<lparr>ga_vars := om_erase key (ga_vars c), ga_vmi := iter_erase key (ga_vmi c)\<rparr>"

definition ga_conf_clear :: "ga_conf \<Rightarrow> ga_conf" where
  "ga_conf_clear c = c\<lparr>ga_vars := [], ga_vmi := End\<rparr>"

section \<open>Parsing one line\<close>

text \<open>\<open>std::filesystem::path\<close> on POSIX, as the include directive uses it.\<close>

definition path_is_absolute :: "string \<Rightarrow> bool" where
  "path_is_absolute p \<longleftrightarrow> p \<noteq> [] \<and> hd p = CHR ''/''"

definition path_parent :: "string \<Rightarrow> string" where
  "path_parent p =
     (let d = rev (dropWhile (\<lambda>c. c \<noteq> CHR ''/'') (rev p));
          e = rev (dropWhile (\<lambda>c. c = CHR ''/'') (rev d))
      in if e = [] then take 1 d else e)"

definition path_append :: "string \<Rightarrow> string \<Rightarrow> string" where
  "path_append d f = (if d = [] \<or> last d = CHR ''/'' then d @ f else d @ CHR ''/'' # f)"

definition include_path :: "string \<Rightarrow> string \<Rightarrow> string" where
  "include_path filename token =
     (if path_is_absolute token then token else path_append (path_parent filename) token)"

definition ga_conf_parse ::
  "(string \<Rightarrow> ga_conf \<Rightarrow> int \<times> ga_conf) \<Rightarrow> string \<Rightarrow> int \<Rightarrow> string \<Rightarrow> ga_conf \<Rightarrow> int \<times> ga_conf" where
  "ga_conf_parse load filename lineno buf c =
     (case strchr buf (CHR ''='') of
        None \<Rightarrow> (0, c)
      | Some token \<Rightarrow>
          if tl token = [] then (0, c)
          else let option = ga_conf_trim (takeWhile (\<lambda>x. x \<noteq> CHR ''='') buf)
               in if option = [] then (0, c)
          else let token = ga_conf_trim (tl token)
               in if token = [] then (0, c)
          else if option = ''include'' then load (include_path filename token) c
          else (case strchr option (CHR ''['') of
                  None \<Rightarrow> ga_conf_writev option token c
                | Some leftbracket \<Rightarrow>
                    (case strchr (tl leftbracket) (CHR '']'') of
                       None \<Rightarrow> (-1, c)
                     | Some rightbracket \<Rightarrow>
                         if tl leftbracket = rightbracket then (-1, c)
                         else if tl rightbracket \<noteq> [] then (-1, c)
                         else ga_conf_mapwritev
                                (takeWhile (\<lambda>x. x \<noteq> CHR ''['') option)
                                (takeWhile (\<lambda>x. x \<noteq> CHR '']'') (tl leftbracket)) token c)))"

section \<open>Loading a file\<close>

text \<open>\<open>fgets\<close> on a buffer of 8192 bytes: at most 8191 characters, up to and with a newline.\<close>

fun fgets_take :: "nat \<Rightarrow> string \<Rightarrow> string \<times> string" where
  "fgets_take 0 s = ([], s)"
| "fgets_take (Suc n) [] = ([], [])"
| "fgets_take (Suc n) (c # s) =
     (if c = CHR 0x0A then ([c], s)
      else let (a, b) = fgets_take n s in (c # a, b))"

lemma fgets_take_append: "fgets_take n s = (a, b) \<Longrightarrow> s = a @ b"
  by (induction n s arbitrary: a b rule: fgets_take.induct) (auto split: if_splits prod.splits)

lemma fgets_take_shorter: "fgets_take (Suc n) (c # s) = (a, b) \<Longrightarrow> length b \<le> length s"
  using fgets_take_append [of n s] by (auto split: if_splits prod.splits)

function fgets_all :: "string \<Rightarrow> string list" where
  "fgets_all [] = []"
| "fgets_all (c # s) = (let (a, b) = fgets_take (Suc 8190) (c # s) in a # fgets_all b)"
  by pat_completeness auto
termination
proof (relation "measure length")
  show "(b, c # s) \<in> measure length"
    if "x = fgets_take (Suc 8190) (c # s)" "(a, b) = x" for c s x a b
    using that fgets_take_shorter [of 8190 c s a b] by simp
qed simp

declare fgets_all.simps(2) [simp del]

fun conf_load_lines ::
  "(int \<Rightarrow> string \<Rightarrow> ga_conf \<Rightarrow> int \<times> ga_conf) \<Rightarrow> int \<Rightarrow> string list \<Rightarrow> ga_conf \<Rightarrow> int \<times> ga_conf" where
  "conf_load_lines parse lineno [] c = (lineno, c)"
| "conf_load_lines parse lineno (buf # bufs) c =
     (let (r, c') = parse (lineno + 1) (takeWhile (\<lambda>x. x \<noteq> NUL) buf) c
      in if r < 0 then (-1, c') else conf_load_lines parse (lineno + 1) bufs c')"

primrec ga_conf_load :: "nat \<Rightarrow> (string \<Rightarrow> string option) \<Rightarrow> string option \<Rightarrow> ga_conf \<Rightarrow> int \<times> ga_conf" where
  "ga_conf_load 0 fs filename c = (-1, c)"
| "ga_conf_load (Suc n) fs filename c =
     (case filename of
        None \<Rightarrow> (-1, c)
      | Some f \<Rightarrow>
          (case fs f of
             None \<Rightarrow> (-1, c)
           | Some txt \<Rightarrow>
               conf_load_lines (ga_conf_parse (\<lambda>p. ga_conf_load n fs (Some p)) f) 0 (fgets_all txt) c))"

section \<open>Reading parameters\<close>

text \<open>
  A reader with a caller buffer gets its size; \<open>None\<close> stands for a NULL buffer,
  for which the code duplicates the value.
\<close>

definition ga_conf_readv :: "string \<Rightarrow> nat option \<Rightarrow> ga_conf \<Rightarrow> string option" where
  "ga_conf_readv key store c =
     (case om_find (ga_vars c) key of
        None \<Rightarrow> None
      | Some v \<Rightarrow>
          (case store of
             None \<Rightarrow> Some (gaConfVar_value v)
           | Some slen \<Rightarrow> if length (gaConfVar_value v) \<ge> slen then None else Some (gaConfVar_value v)))"

definition ga_conf_readstr :: "string \<Rightarrow> ga_conf \<Rightarrow> string" where
  "ga_conf_readstr key c =
     (case om_find (ga_vars c) key of None \<Rightarrow> [] | Some v \<Rightarrow> gaConfVar_value v)"

definition ga_conf_readint :: "string \<Rightarrow> ga_conf \<Rightarrow> int" where
  "ga_conf_readint key c =
     (let str = ga_conf_readstr key c
      in if str = [] then 0
         else let (sl, endptr, erange) = strtol str
              in if erange \<or> sl > INT_MAX \<or> sl < INT_MIN then 0
                 else if endptr = str then 0
                 else sl)"

text \<open>
  The loop writes \<open>val[reads]\<close> before it looks at \<open>endptr\<close>, so the first value
  that cannot be converted is stored as well. The result is the count and all the
  values written, in order; the \<open>long\<close> is converted to \<open>int\<close> at the store.
\<close>

fun conf_multiple_int_loop :: "nat \<Rightarrow> string \<Rightarrow> int list" where
  "conf_multiple_int_loop 0 ptr = []"
| "conf_multiple_int_loop (Suc n) ptr =
     (let (v, endptr, _) = strtol ptr
      in if endptr = ptr then [to_int32 v] else to_int32 v # conf_multiple_int_loop n endptr)"

fun conf_multiple_int_reads :: "nat \<Rightarrow> string \<Rightarrow> nat" where
  "conf_multiple_int_reads 0 ptr = 0"
| "conf_multiple_int_reads (Suc n) ptr =
     (let (v, endptr, _) = strtol ptr
      in if endptr = ptr then 0 else Suc (conf_multiple_int_reads n endptr))"

definition ga_conf_multiple_int :: "string \<Rightarrow> nat \<Rightarrow> nat \<times> int list" where
  "ga_conf_multiple_int buf n = (conf_multiple_int_reads n buf, conf_multiple_int_loop n buf)"

definition ga_conf_readints :: "string \<Rightarrow> nat \<Rightarrow> ga_conf \<Rightarrow> nat \<times> int list" where
  "ga_conf_readints key n c =
     (case ga_conf_readv key (Some 1024) c of
        None \<Rightarrow> (0, [])
      | Some ptr \<Rightarrow> ga_conf_multiple_int ptr n)"

definition ga_conf_boolval :: "string \<Rightarrow> int \<Rightarrow> int" where
  "ga_conf_boolval ptr defval =
     (if strcaseeq ptr ''true'' \<or> strcaseeq ptr ''1'' \<or> strcaseeq ptr ''y'' \<or> strcaseeq ptr ''yes''
         \<or> strcaseeq ptr ''enabled'' \<or> strcaseeq ptr ''enable'' then 1
      else if strcaseeq ptr ''false'' \<or> strcaseeq ptr ''0'' \<or> strcaseeq ptr ''n'' \<or> strcaseeq ptr ''no''
         \<or> strcaseeq ptr ''disabled'' \<or> strcaseeq ptr ''disable'' then 0
      else defval)"

definition ga_conf_readbool :: "string \<Rightarrow> int \<Rightarrow> ga_conf \<Rightarrow> int" where
  "ga_conf_readbool key defval c =
     (let str = ga_conf_readstr key c in if str = [] then defval else ga_conf_boolval str defval)"

section \<open>Parameter maps\<close>

definition ga_conf_haskey :: "string \<Rightarrow> string \<Rightarrow> ga_conf \<Rightarrow> bool" where
  "ga_conf_haskey mapname key c =
     (case om_find (ga_vars c) mapname of None \<Rightarrow> False | Some v \<Rightarrow> gaConfVar_haskey key v)"

definition ga_conf_mapsize :: "string \<Rightarrow> ga_conf \<Rightarrow> int" where
  "ga_conf_mapsize mapname c =
     (case om_find (ga_vars c) mapname of None \<Rightarrow> 0 | Some v \<Rightarrow> gaConfVar_msize v)"

definition ga_conf_ismap :: "string \<Rightarrow> ga_conf \<Rightarrow> int" where
  "ga_conf_ismap key c = (if ga_conf_mapsize key c > 0 then 1 else 0)"

text \<open>
  Copying a found string out: \<open>strdup\<close> without a buffer, else the bytes
  \<open>strncpy\<close> leaves in it.
\<close>

definition store_string :: "nat option \<Rightarrow> string \<Rightarrow> char list" where
  "store_string store s = (case store of None \<Rightarrow> s @ [NUL] | Some n \<Rightarrow> strncpy s n)"

definition ga_conf_mapreadv ::
  "string \<Rightarrow> string \<Rightarrow> nat option \<Rightarrow> ga_conf \<Rightarrow> char list option \<times> ga_conf" where
  "ga_conf_mapreadv mapname key store c =
     (case om_find (ga_vars c) mapname of
        None \<Rightarrow> (None, c)
      | Some v \<Rightarrow>
          let (s, v') = gaConfVar_index key v; c' = conf_put mapname v' c
          in if s = [] then (None, c') else (Some (store_string store s), c'))"

text \<open>In the next three, \<open>None\<close> is the read past a buffer \<open>strncpy\<close> left unterminated.\<close>

definition ga_conf_mapreadint :: "string \<Rightarrow> string \<Rightarrow> ga_conf \<Rightarrow> int option \<times> ga_conf" where
  "ga_conf_mapreadint mapname key c =
     (case ga_conf_mapreadv mapname key (Some 64) c of
        (None, c') \<Rightarrow> (Some 0, c')
      | (Some b, c') \<Rightarrow> (map_option (\<lambda>s. to_int32 (fst (strtol s))) (cstr_of b), c'))"

definition ga_conf_mapreadints ::
  "string \<Rightarrow> string \<Rightarrow> nat \<Rightarrow> ga_conf \<Rightarrow> (nat \<times> int list) option \<times> ga_conf" where
  "ga_conf_mapreadints mapname key n c =
     (case ga_conf_mapreadv mapname key (Some 1024) c of
        (None, c') \<Rightarrow> (Some (0, []), c')
      | (Some b, c') \<Rightarrow> (map_option (\<lambda>s. ga_conf_multiple_int s n) (cstr_of b), c'))"

definition ga_conf_mapreadbool :: "string \<Rightarrow> string \<Rightarrow> int \<Rightarrow> ga_conf \<Rightarrow> int option \<times> ga_conf" where
  "ga_conf_mapreadbool mapname key defval c =
     (case ga_conf_mapreadv mapname key (Some 64) c of
        (None, c') \<Rightarrow> (Some defval, c')
      | (Some b, c') \<Rightarrow> (map_option (\<lambda>s. ga_conf_boolval s defval) (cstr_of b), c'))"

text \<open>The whole variable is erased, whatever the key.\<close>

definition ga_conf_maperase :: "string \<Rightarrow> string \<Rightarrow> ga_conf \<Rightarrow> ga_conf" where
  "ga_conf_maperase mapname key c =
     (case om_find (ga_vars c) mapname of
        None \<Rightarrow> c
      | Some _ \<Rightarrow> c\<lparr>ga_vars := om_erase mapname (ga_vars c), ga_vmi := iter_erase mapname (ga_vmi c)\<rparr>)"

definition ga_conf_mapreset :: "string \<Rightarrow> ga_conf \<Rightarrow> ga_conf" where
  "ga_conf_mapreset mapname c =
     (case om_find (ga_vars c) mapname of
        None \<Rightarrow> c
      | Some v \<Rightarrow> conf_put mapname (gaConfVar_mreset v) c)"

definition ga_conf_mapkey :: "string \<Rightarrow> nat option \<Rightarrow> ga_conf \<Rightarrow> char list option" where
  "ga_conf_mapkey mapname keystore c =
     (case om_find (ga_vars c) mapname of
        None \<Rightarrow> None
      | Some v \<Rightarrow>
          if gaConfVar_mkey v = [] then None else Some (store_string keystore (gaConfVar_mkey v)))"

definition ga_conf_mapvalue :: "string \<Rightarrow> nat option \<Rightarrow> ga_conf \<Rightarrow> char list option" where
  "ga_conf_mapvalue mapname valstore c =
     (case om_find (ga_vars c) mapname of
        None \<Rightarrow> None
      | Some v \<Rightarrow>
          if gaConfVar_mkey v = [] then None else Some (store_string valstore (gaConfVar_mvalue v)))"

definition ga_conf_mapnextkey :: "string \<Rightarrow> nat option \<Rightarrow> ga_conf \<Rightarrow> char list option \<times> ga_conf" where
  "ga_conf_mapnextkey mapname keystore c =
     (case om_find (ga_vars c) mapname of
        None \<Rightarrow> (None, c)
      | Some v \<Rightarrow>
          let (k, v') = gaConfVar_mnextkey v; c' = conf_put mapname v' c
          in if k = [] then (None, c') else (Some (store_string keystore k), c'))"

section \<open>Enumerating the configuration\<close>

definition ga_conf_reset :: "ga_conf \<Rightarrow> ga_conf" where
  "ga_conf_reset c = c\<lparr>ga_vmi := om_begin (ga_vars c)\<rparr>"

text \<open>The outer \<open>None\<close> is the use of an iterator whose variable was erased.\<close>

definition ga_conf_key :: "ga_conf \<Rightarrow> string option option" where
  "ga_conf_key c =
     (case ga_vmi c of End \<Rightarrow> Some None | At k \<Rightarrow> Some (Some k) | Dangling \<Rightarrow> None)"

definition ga_conf_nextkey :: "ga_conf \<Rightarrow> (string option \<times> ga_conf) option" where
  "ga_conf_nextkey c =
     (case ga_vmi c of
        End \<Rightarrow> Some (None, c)
      | Dangling \<Rightarrow> None
      | At k \<Rightarrow>
          let it = om_next (ga_vars c) k
          in Some (case it of At k' \<Rightarrow> Some k' | _ \<Rightarrow> None, c\<lparr>ga_vmi := it\<rparr>))"

end
