(* ===== verification/ConfFacts.thy ===== *)
theory ConfFacts
  imports Conf
begin

text \<open>
  What the configuration store guarantees: trimming and parsing of well-formed
  lines, the invariant of the store, loading of printed configurations, nested and
  cyclic includes, integer parameters, parameter maps and their enumeration.
\<close>

section \<open>Notions of the statements\<close>

text \<open>What trimming leaves alone, and text that a configuration line carries unchanged.\<close>

definition trimmed :: "string \<Rightarrow> bool" where
  "trimmed s \<longleftrightarrow> (s \<noteq> [] \<longrightarrow> \<not> isspace (hd s) \<and> \<not> isspace (last s) \<and> hd s \<noteq> CHR ''['')
     \<and> CHR ''#'' \<notin> set s \<and> CHR '';'' \<notin> set s \<and> cut_comment_slash s = s"

definition clean_text :: "string \<Rightarrow> bool" where
  "clean_text s \<longleftrightarrow> s \<noteq> [] \<and> trimmed s \<and> NUL \<notin> set s \<and> CHR 0x0A \<notin> set s"

definition clean_name :: "string \<Rightarrow> bool" where
  "clean_name s \<longleftrightarrow> clean_text s \<and> CHR ''='' \<notin> set s \<and> CHR ''['' \<notin> set s \<and> CHR '']'' \<notin> set s
     \<and> CHR ''/'' \<notin> set s \<and> s \<noteq> ''include''"

datatype conf_item = Plain string string | Entry string string string

fun item_ok :: "conf_item \<Rightarrow> bool" where
  "item_ok (Plain k v) \<longleftrightarrow> clean_name k \<and> clean_text v"
| "item_ok (Entry m k v) \<longleftrightarrow> clean_name m \<and> clean_name k \<and> clean_text v"

fun print_item :: "conf_item \<Rightarrow> string" where
  "print_item (Plain k v) = k @ '' = '' @ v @ [CHR 0x0A]"
| "print_item (Entry m k v) = m @ ''['' @ k @ ''] = '' @ v @ [CHR 0x0A]"

fun item_effect :: "conf_item \<Rightarrow> ga_conf \<Rightarrow> ga_conf" where
  "item_effect (Plain k v) c = snd (ga_conf_writev k v c)"
| "item_effect (Entry m k v) c = snd (ga_conf_mapwritev m k v c)"

text \<open>The path an include line names, \<open>None\<close> for any other line.\<close>

definition include_target :: "string \<Rightarrow> string \<Rightarrow> string option" where
  "include_target filename buf =
     (case strchr buf (CHR ''='') of
        None \<Rightarrow> None
      | Some token \<Rightarrow>
          if tl token = [] \<or> ga_conf_trim (takeWhile (\<lambda>x. x \<noteq> CHR ''='') buf) \<noteq> ''include''
             \<or> ga_conf_trim (tl token) = [] then None
          else Some (include_path filename (ga_conf_trim (tl token))))"

definition conf_wf :: "ga_conf \<Rightarrow> bool" where
  "conf_wf c \<longleftrightarrow> om_wf (ga_vars c) \<and> (\<forall>k v. om_find (ga_vars c) k = Some v \<longrightarrow> gcv_wf v)
     \<and> (ga_vmi c = Dangling \<or> iter_ok (ga_vars c) (ga_vmi c))"

section \<open>Trimming\<close>

lemma strip_tail_append_spaces:
  "\<forall>x \<in> set w. isspace x \<Longrightarrow> strip_tail (s @ w) = strip_tail s"
  by (simp add: strip_tail_def dropWhile_append)

lemma strip_tail_id: "s = [] \<or> \<not> isspace (last s) \<Longrightarrow> strip_tail s = s"
  by (cases s rule: rev_cases) (auto simp: strip_tail_def)

lemma last_strip_tail: "strip_tail s \<noteq> [] \<Longrightarrow> \<not> isspace (last (strip_tail s))"
  by (simp add: strip_tail_def last_rev hd_dropWhile)

lemma set_strip_tail: "set (strip_tail s) \<subseteq> set s"
  by (auto simp: strip_tail_def dest: set_dropWhileD)

lemma strip_tail_prefix: "\<exists>w. s = strip_tail s @ w"
proof -
  have "rev s = takeWhile isspace (rev s) @ dropWhile isspace (rev s)" by simp
  then have "s = rev (dropWhile isspace (rev s)) @ rev (takeWhile isspace (rev s))"
    by (metis rev_append rev_rev_ident)
  then show ?thesis unfolding strip_tail_def by blast
qed

lemma cut_comment_slash_noslash: "CHR ''/'' \<notin> set s \<Longrightarrow> cut_comment_slash s = s"
  using strchr_None [of s "CHR ''/''"] by (simp add: cut_comment_slash_def)

lemma not_isspace_marks [simp]:
  "\<not> isspace (CHR ''#'')" "\<not> isspace (CHR '';'')" "\<not> isspace (CHR ''/'')" "\<not> isspace (CHR ''='')"
  "\<not> isspace (CHR ''['')" "\<not> isspace (CHR '']'')" "\<not> isspace NUL"
  by (simp_all add: isspace_def)

lemma isspace_blank [simp]: "isspace (CHR '' '')" "isspace (CHR 0x0A)"
  by (simp_all add: isspace_def)

lemma nonspace_notin: "\<forall>x \<in> set w. isspace x \<Longrightarrow> \<not> isspace c \<Longrightarrow> c \<notin> set w"
  by blast

lemma cut_comment_slash_append_spaces:
  assumes "cut_comment_slash s = s" "\<forall>x \<in> set w. isspace x"
  shows "cut_comment_slash (s @ w) = s @ w"
proof -
  have w: "CHR ''/'' \<notin> set w" using assms(2) by (rule nonspace_notin) simp
  show ?thesis
  proof (cases "CHR ''/'' \<in> set s")
    case False
    with w show ?thesis by (simp add: cut_comment_slash_noslash)
  next
    case True
    then obtain a b where s: "s = a @ CHR ''/'' # b" "CHR ''/'' \<notin> set a"
      by (meson split_list_first)
    have "hd (b @ w) \<noteq> CHR ''/''" if "b @ w \<noteq> []"
    proof (cases b)
      case Nil
      with that w show ?thesis by (cases w) auto
    next
      case (Cons d t)
      have "d \<noteq> CHR ''/''"
      proof
        assume "d = CHR ''/''"
        then have "cut_comment_slash s = a"
          using s Cons by (simp add: cut_comment_slash_def strchr_append takeWhile_neq_append)
        with assms(1) s show False by simp
      qed
      with Cons show ?thesis by simp
    qed
    then have "\<And>t. b @ w \<noteq> CHR ''/'' # t" by fastforce
    then show ?thesis
      using s by (auto simp: cut_comment_slash_def strchr_append split: list.splits)
  qed
qed

lemma set_cut_comment_slash: "set (cut_comment_slash s) \<subseteq> set s"
  by (auto simp: cut_comment_slash_def dest: set_takeWhileD split: option.splits list.splits if_splits)

lemma takeWhile_not_in: "c \<notin> set (takeWhile (\<lambda>x. x \<noteq> c) s)"
  by (auto dest: set_takeWhileD)

lemma trim_padded:
  assumes "trimmed s" "s \<noteq> []" "\<forall>x \<in> set w1. isspace x" "\<forall>x \<in> set w2. isspace x"
  shows "ga_conf_trim (w1 @ s @ w2) = s"
proof -
  have w2: "CHR ''#'' \<notin> set w2" "CHR '';'' \<notin> set w2"
    using assms(4) by (rule nonspace_notin, simp)+
  obtain c t where s: "s = c # t" "\<not> isspace c" "c \<noteq> CHR ''[''"
    using assms(1,2) by (cases s) (auto simp: trimmed_def)
  have "dropWhile isspace (w1 @ s @ w2) = s @ w2"
    using assms(3) s by (simp add: dropWhile_append)
  moreover have "takeWhile (\<lambda>x. x \<noteq> CHR ''#'') (s @ w2) = s @ w2"
    "takeWhile (\<lambda>x. x \<noteq> CHR '';'') (s @ w2) = s @ w2"
    using assms(1) w2 by (auto intro!: takeWhile_neq_id simp: trimmed_def)
  moreover have "cut_comment_slash (s @ w2) = s @ w2"
    using assms by (intro cut_comment_slash_append_spaces) (auto simp: trimmed_def)
  moreover have "strip_tail (s @ w2) = s"
    using assms by (simp add: strip_tail_append_spaces strip_tail_id trimmed_def)
  ultimately show ?thesis using s by (simp add: ga_conf_trim_def)
qed

lemma trim_trimmed: "trimmed s \<Longrightarrow> ga_conf_trim s = s"
  using trim_padded [of s "[]" "[]"]
  by (cases "s = []") (auto simp: ga_conf_trim_def cut_comment_slash_def strchr_def strip_tail_def)

lemma cut_comment_slash_prefix:
  assumes "cut_comment_slash (p @ w) = p @ w"
  shows "cut_comment_slash p = p"
proof (rule ccontr)
  assume neq: "cut_comment_slash p \<noteq> p"
  then obtain a b where p: "p = a @ CHR ''/'' # b" "CHR ''/'' \<notin> set a"
    using cut_comment_slash_noslash by (meson split_list_first)
  with neq obtain t where "b = CHR ''/'' # t"
    by (auto simp: cut_comment_slash_def strchr_append split: list.splits if_splits)
  with p have "cut_comment_slash (p @ w) = a"
    by (simp add: cut_comment_slash_def strchr_append takeWhile_neq_append)
  with assms p show False by simp
qed

lemma cut_comment_slash_idem: "cut_comment_slash (cut_comment_slash s) = cut_comment_slash s"
  using takeWhile_not_in [of "CHR ''/''" s] cut_comment_slash_noslash
  by (cases "cut_comment_slash s = s")
     (auto simp: cut_comment_slash_def split: option.splits list.splits if_splits)

lemma cut_comment_slash_is_prefix: "\<exists>w. s = cut_comment_slash s @ w"
proof -
  have "\<exists>w. s = takeWhile (\<lambda>x. x \<noteq> CHR ''/'') s @ w" by (metis takeWhile_dropWhile_id)
  then show ?thesis
    by (auto simp: cut_comment_slash_def split: option.splits list.splits)
qed

lemma trim_stages:
  assumes "ga_conf_trim s \<noteq> []"
  obtains b w1 w2 where "dropWhile isspace s = cut_comment_slash b @ w1" "hd (dropWhile isspace s) \<noteq> CHR ''[''"
    "cut_comment_slash b = ga_conf_trim s @ w2" "ga_conf_trim s = strip_tail (cut_comment_slash b)"
    "CHR ''#'' \<notin> set b" "CHR '';'' \<notin> set b"
proof -
  let ?d = "dropWhile isspace s"
  let ?b = "takeWhile (\<lambda>x. x \<noteq> CHR '';'') (takeWhile (\<lambda>x. x \<noteq> CHR ''#'') ?d)"
  have hash: "CHR ''#'' \<notin> set ?b" and semi: "CHR '';'' \<notin> set ?b"
    by (auto dest!: set_takeWhileD)
  have "CHR ''#'' \<notin> set (cut_comment_slash ?b)" using hash set_cut_comment_slash by blast
  then have eq: "takeWhile (\<lambda>x. x \<noteq> CHR ''#'') (cut_comment_slash ?b) = cut_comment_slash ?b"
    by (rule takeWhile_neq_id)
  have ne: "?d \<noteq> []"
  proof
    assume e: "?d = []"
    have "ga_conf_trim s = []"
      unfolding ga_conf_trim_def e by (simp add: cut_comment_slash_def strchr_def strip_tail_def)
    with assms show False by simp
  qed
  have hd: "hd ?d \<noteq> CHR ''[''"
  proof
    assume "hd ?d = CHR ''[''"
    with ne have "ga_conf_trim s = []" unfolding ga_conf_trim_def Let_def by (simp only: simp_thms if_True)
    with assms show False by simp
  qed
  then have trim: "ga_conf_trim s = strip_tail (cut_comment_slash ?b)"
    unfolding ga_conf_trim_def Let_def eq by simp
  obtain v1 where v1: "?d = takeWhile (\<lambda>x. x \<noteq> CHR ''#'') ?d @ v1" by (metis takeWhile_dropWhile_id)
  obtain v2 where v2: "takeWhile (\<lambda>x. x \<noteq> CHR ''#'') ?d = ?b @ v2" by (metis takeWhile_dropWhile_id)
  obtain v3 where v3: "?b = cut_comment_slash ?b @ v3" using cut_comment_slash_is_prefix by blast
  have "?d = cut_comment_slash ?b @ v3 @ v2 @ v1"
    using v1 v2 v3 by (metis append.assoc)
  moreover obtain w2 where "cut_comment_slash ?b = ga_conf_trim s @ w2"
    using trim strip_tail_prefix by metis
  ultimately show ?thesis using that hd trim hash semi by blast
qed

lemma trim_result_trimmed: "trimmed (ga_conf_trim s)"
proof (cases "ga_conf_trim s = []")
  case True
  then show ?thesis by (simp add: trimmed_def cut_comment_slash_def strchr_def)
next
  case False
  then obtain b w1 w2 where d: "dropWhile isspace s = cut_comment_slash b @ w1"
    and nb: "hd (dropWhile isspace s) \<noteq> CHR ''[''"
    and pre: "cut_comment_slash b = ga_conf_trim s @ w2"
    and t: "ga_conf_trim s = strip_tail (cut_comment_slash b)"
    and marks: "CHR ''#'' \<notin> set b" "CHR '';'' \<notin> set b"
    by (rule trim_stages)
  have hd: "hd (ga_conf_trim s) = hd (dropWhile isspace s)"
    using d pre False by simp
  have "dropWhile isspace s \<noteq> []" using d pre False by simp
  then have "\<not> isspace (hd (ga_conf_trim s))" using hd hd_dropWhile by metis
  moreover have "\<not> isspace (last (ga_conf_trim s))" using t False last_strip_tail by metis
  moreover have "set (ga_conf_trim s) \<subseteq> set b"
    using t set_strip_tail set_cut_comment_slash by (metis order_trans)
  moreover have "cut_comment_slash (ga_conf_trim s) = ga_conf_trim s"
    using pre cut_comment_slash_idem cut_comment_slash_prefix by metis
  ultimately show ?thesis using marks hd nb by (auto simp: trimmed_def)
qed

section \<open>Parsing well-formed lines\<close>

lemma clean_textD: "clean_text s \<Longrightarrow> trimmed s \<and> s \<noteq> []"
  by (simp add: clean_text_def)

lemma trim_line_parts:
  assumes "clean_text s"
  shows "ga_conf_trim (s @ '' '') = s" and "ga_conf_trim (CHR '' '' # s @ [CHR 0x0A]) = s"
  using clean_textD [OF assms] trim_padded [of s "[]" "'' ''"] trim_padded [of s "'' ''" "[CHR 0x0A]"]
  by simp_all

lemma parse_split:
  assumes "CHR ''='' \<notin> set a" "b \<noteq> []"
  shows "ga_conf_parse load f l (a @ CHR ''='' # b) c =
     (if ga_conf_trim a = [] \<or> ga_conf_trim b = [] then (0, c)
      else if ga_conf_trim a = ''include'' then load (include_path f (ga_conf_trim b)) c
      else (case strchr (ga_conf_trim a) (CHR ''['') of
              None \<Rightarrow> ga_conf_writev (ga_conf_trim a) (ga_conf_trim b) c
            | Some lb \<Rightarrow>
                (case strchr (tl lb) (CHR '']'') of
                   None \<Rightarrow> (-1, c)
                 | Some rb \<Rightarrow>
                     if tl lb = rb \<or> tl rb \<noteq> [] then (-1, c)
                     else ga_conf_mapwritev (takeWhile (\<lambda>x. x \<noteq> CHR ''['') (ga_conf_trim a))
                            (takeWhile (\<lambda>x. x \<noteq> CHR '']'') (tl lb)) (ga_conf_trim b) c)))"
  using assms
  by (simp add: ga_conf_parse_def strchr_append takeWhile_neq_append Let_def split: option.splits)

lemma clean_bracketed:
  assumes "clean_name m" "clean_name k"
  shows "clean_text (m @ CHR ''['' # k @ [CHR '']''])"
proof -
  let ?s = "m @ CHR ''['' # k @ [CHR '']'']"
  have "CHR ''/'' \<notin> set ?s" using assms by (auto simp: clean_name_def)
  then have "cut_comment_slash ?s = ?s" by (rule cut_comment_slash_noslash)
  moreover have "hd ?s = hd m" using assms by (auto simp: clean_name_def clean_text_def)
  ultimately show ?thesis
    using assms by (auto simp: clean_name_def clean_text_def trimmed_def)
qed

lemma parse_print_item:
  assumes "item_ok i"
  shows "ga_conf_parse load f l (print_item i) c = (0, item_effect i c)"
proof (cases i)
  case (Plain k v)
  have k: "CHR ''='' \<notin> set (k @ '' '')" "CHR ''['' \<notin> set k" "k \<noteq> ''include''" "k \<noteq> []" "v \<noteq> []"
    and t: "ga_conf_trim (k @ '' '') = k" "ga_conf_trim (CHR '' '' # v @ [CHR 0x0A]) = v"
    using assms Plain trim_line_parts [of k] trim_line_parts [of v]
    by (auto simp: clean_name_def clean_text_def)
  have "print_item i = (k @ '' '') @ CHR ''='' # CHR '' '' # v @ [CHR 0x0A]"
    using Plain by simp
  then have "ga_conf_parse load f l (print_item i) c =
      ga_conf_parse load f l ((k @ '' '') @ CHR ''='' # CHR '' '' # v @ [CHR 0x0A]) c"
    by (rule arg_cong)
  also have "\<dots> = ga_conf_writev k v c"
    using k(2-) t strchr_None [of k "CHR ''[''"] by (subst parse_split [OF k(1)]) simp_all
  finally have "ga_conf_parse load f l (print_item i) c = ga_conf_writev k v c" .
  with Plain show ?thesis by (simp add: ga_conf_writev_def)
next
  case (Entry m k v)
  let ?o = "m @ CHR ''['' # k @ [CHR '']'']"
  have o: "clean_text ?o" using assms Entry by (simp add: clean_bracketed)
  have n: "CHR ''='' \<notin> set (?o @ '' '')" "?o \<noteq> ''include''" "CHR ''['' \<notin> set m" "CHR '']'' \<notin> set k"
    "k \<noteq> []" "v \<noteq> []"
    using assms Entry by (auto simp: clean_name_def clean_text_def)
  have t: "ga_conf_trim (?o @ '' '') = ?o" "ga_conf_trim (CHR '' '' # v @ [CHR 0x0A]) = v"
    using trim_line_parts [OF o] trim_line_parts [of v] assms Entry by auto
  have lb: "strchr ?o (CHR ''['') = Some (CHR ''['' # k @ [CHR '']''])"
    using n by (simp add: strchr_append)
  have rb: "strchr (k @ [CHR '']'']) (CHR '']'') = Some [CHR '']'']"
    using n by (simp add: strchr_append)
  have "print_item i = (?o @ '' '') @ CHR ''='' # CHR '' '' # v @ [CHR 0x0A]"
    using Entry by simp
  then have "ga_conf_parse load f l (print_item i) c =
      ga_conf_parse load f l ((?o @ '' '') @ CHR ''='' # CHR '' '' # v @ [CHR 0x0A]) c"
    by (rule arg_cong)
  also have "\<dots> = ga_conf_mapwritev m k v c"
    using n(2-) t lb rb by (subst parse_split [OF n(1)]) (simp_all add: takeWhile_neq_append)
  finally have "ga_conf_parse load f l (print_item i) c = ga_conf_mapwritev m k v c" .
  with Entry show ?thesis by (simp add: ga_conf_mapwritev_def)
qed

section \<open>Reading lines\<close>

lemma fgets_take_line:
  "CHR 0x0A \<notin> set a \<Longrightarrow> length a < n \<Longrightarrow> fgets_take n (a @ CHR 0x0A # s) = (a @ [CHR 0x0A], s)"
proof (induction a arbitrary: n)
  case Nil
  then show ?case by (cases n) auto
next
  case (Cons x a)
  then show ?case by (cases n) auto
qed

lemma fgets_all_line:
  assumes "CHR 0x0A \<notin> set a" "length a < 8191"
  shows "fgets_all (a @ CHR 0x0A # s) = (a @ [CHR 0x0A]) # fgets_all s"
proof -
  obtain x t where x: "a @ CHR 0x0A # s = x # t" by (cases a) auto
  have "fgets_take (Suc 8190) (x # t) = (a @ [CHR 0x0A], s)"
    using fgets_take_line [of a 8191 s] assms x by simp
  then show ?thesis unfolding x fgets_all.simps(2) by simp
qed

lemma fgets_all_concat: "concat (fgets_all s) = s"
proof (induction s rule: fgets_all.induct)
  case (2 c s)
  obtain a b where ab: "fgets_take (Suc 8190) (c # s) = (a, b)" by fastforce
  with 2 have "concat (fgets_all b) = b" by simp
  moreover have "concat (fgets_all (c # s)) = a @ concat (fgets_all b)"
    using ab by (simp add: fgets_all.simps(2))
  ultimately show ?case using fgets_take_append [OF ab] by simp
qed simp

lemma print_item_line:
  assumes "item_ok i"
  obtains a where "print_item i = a @ [CHR 0x0A]" "CHR 0x0A \<notin> set a" "NUL \<notin> set a"
  using assms by (cases i) (auto simp: clean_name_def clean_text_def)

lemma fgets_all_items:
  assumes "\<forall>i \<in> set is. item_ok i \<and> length (print_item i) \<le> 8191"
  shows "fgets_all (concat (map print_item is) @ s) = map print_item is @ fgets_all s"
  using assms
proof (induction "is")
  case (Cons i xs)
  then obtain a where a: "print_item i = a @ [CHR 0x0A]" "CHR 0x0A \<notin> set a" "length a < 8191"
    using print_item_line [of i] by (metis length_append_singleton less_eq_Suc_le list.set_intros(1))
  from Cons have "fgets_all (concat (map print_item xs) @ s) = map print_item xs @ fgets_all s" by simp
  with a show ?case by (simp add: fgets_all_line)
qed simp

lemma load_lines_items:
  assumes "\<forall>i \<in> set is. item_ok i"
  shows "conf_load_lines (ga_conf_parse load f) l (map print_item is @ bufs) c =
    conf_load_lines (ga_conf_parse load f) (l + int (length is)) bufs (fold item_effect is c)"
  using assms
proof (induction "is" arbitrary: l c)
  case (Cons i xs)
  then obtain a where a: "print_item i = a @ [CHR 0x0A]" "NUL \<notin> set a"
    using print_item_line [of i] by (metis list.set_intros(1))
  then have "NUL \<notin> set (print_item i)" by simp
  then have "takeWhile (\<lambda>x. x \<noteq> NUL) (print_item i) = print_item i" by (rule takeWhile_neq_id)
  with Cons show ?case by (simp add: parse_print_item add.assoc del: takeWhile_eq_all_conv)
qed simp

section \<open>Includes\<close>

lemma parse_include: "include_target f buf = Some p \<Longrightarrow> ga_conf_parse load f l buf c = load p c"
  by (auto simp: include_target_def ga_conf_parse_def Let_def split: option.splits if_splits)

lemma parse_no_include:
  "include_target f buf = None \<Longrightarrow> ga_conf_parse load f l buf c = ga_conf_parse load' f l buf c"
  by (auto simp: include_target_def ga_conf_parse_def Let_def split: option.splits if_splits)

text \<open>A rank that decreases along includes: the files form no cycle.\<close>

definition includes_ranked :: "(string \<Rightarrow> string option) \<Rightarrow> (string \<Rightarrow> nat) \<Rightarrow> bool" where
  "includes_ranked fs r \<longleftrightarrow>
     (\<forall>f txt buf p. fs f = Some txt \<longrightarrow> buf \<in> set (fgets_all txt) \<longrightarrow>
        include_target f (takeWhile (\<lambda>x. x \<noteq> NUL) buf) = Some p \<longrightarrow> r p < r f)"

lemma load_lines_cong:
  assumes "\<And>l buf c. buf \<in> set bufs \<Longrightarrow>
    p l (takeWhile (\<lambda>x. x \<noteq> NUL) buf) c = q l (takeWhile (\<lambda>x. x \<noteq> NUL) buf) c"
  shows "conf_load_lines p l bufs c = conf_load_lines q l bufs c"
  using assms by (induction bufs arbitrary: l c) (auto split: prod.splits)

lemma load_enough_files:
  assumes "includes_ranked fs r" "r f < n" "r f < m"
  shows "ga_conf_load n fs (Some f) c = ga_conf_load m fs (Some f) c"
  using assms(2,3)
proof (induction n arbitrary: f m c)
  case (Suc n)
  then obtain m' where m: "m = Suc m'" by (cases m) auto
  show ?case
  proof (cases "fs f")
    case (Some s)
    have "ga_conf_parse (\<lambda>p. ga_conf_load n fs (Some p)) f l (takeWhile (\<lambda>x. x \<noteq> NUL) buf) c' =
        ga_conf_parse (\<lambda>p. ga_conf_load m' fs (Some p)) f l (takeWhile (\<lambda>x. x \<noteq> NUL) buf) c'"
      if buf: "buf \<in> set (fgets_all s)" for l buf c'
    proof (cases "include_target f (takeWhile (\<lambda>x. x \<noteq> NUL) buf)")
      case None
      then show ?thesis by (rule parse_no_include)
    next
      case inc: (Some p)
      with assms(1) Some buf have "r p < r f" unfolding includes_ranked_def by blast
      with Suc.prems m have "ga_conf_load n fs (Some p) c' = ga_conf_load m' fs (Some p) c'"
        by (intro Suc.IH) auto
      with inc show ?thesis by (simp add: parse_include)
    qed
    with Some m show ?thesis by (simp cong: load_lines_cong)
  qed (simp add: m)
qed simp

lemma load_self_include:
  assumes "fs f = Some s" "fgets_all s = bufs @ b # bufs'"
    and "include_target f (takeWhile (\<lambda>x. x \<noteq> NUL) b) = Some f"
  shows "fst (ga_conf_load n fs (Some f) c) = -1"
proof (induction n arbitrary: c)
  case (Suc n)
  let ?p = "ga_conf_parse (\<lambda>p. ga_conf_load n fs (Some p)) f"
  have "fst (conf_load_lines ?p l (xs @ b # bufs') c') = -1" for l xs c'
  proof (induction xs arbitrary: l c')
    case Nil
    have "fst (?p (l + 1) (takeWhile (\<lambda>x. x \<noteq> NUL) b) c') = -1"
      using assms(3) Suc.IH by (simp add: parse_include)
    then show ?case by (auto split: prod.splits)
  qed (auto split: prod.splits)
  with assms show ?case by simp
qed simp

section \<open>The invariant of the store\<close>

lemma conf_wf_initial: "conf_wf ga_conf_initial"
  by (simp add: conf_wf_def ga_conf_initial_def iter_ok_def om_find_def)

lemma conf_var_wf: "conf_wf c \<Longrightarrow> gcv_wf (conf_var k c)"
  by (auto simp: conf_var_def conf_wf_def split: option.splits)

lemma conf_put_wf: "conf_wf c \<Longrightarrow> gcv_wf v \<Longrightarrow> conf_wf (conf_put k v c)"
  by (auto simp: conf_wf_def conf_put_def om.wf_put iter_ok_put)

lemma writev_wf: "conf_wf c \<Longrightarrow> conf_wf (snd (ga_conf_writev k v c))"
  by (simp add: ga_conf_writev_def conf_put_wf)

lemma mapwritev_wf: "conf_wf c \<Longrightarrow> conf_wf (snd (ga_conf_mapwritev m k v c))"
  by (simp add: ga_conf_mapwritev_def conf_put_wf gcv_wf_index_set conf_var_wf)

lemma erase_wf: "conf_wf c \<Longrightarrow> conf_wf (ga_conf_erase k c)"
  using iter_ok_erase [of "ga_vars c" "ga_vmi c" k]
  by (auto simp: conf_wf_def ga_conf_erase_def om.wf_erase iter_erase_def)

lemma maperase_wf: "conf_wf c \<Longrightarrow> conf_wf (ga_conf_maperase m k c)"
  using erase_wf [of c m] by (simp add: ga_conf_maperase_def ga_conf_erase_def split: option.splits)

lemma clear_wf: "conf_wf (ga_conf_clear c)"
  by (simp add: conf_wf_def ga_conf_clear_def iter_ok_def om_find_def)

lemma reset_wf: "conf_wf c \<Longrightarrow> conf_wf (ga_conf_reset c)"
  by (simp add: conf_wf_def ga_conf_reset_def)

lemma mapreadv_wf: "conf_wf c \<Longrightarrow> conf_wf (snd (ga_conf_mapreadv m k s c))"
  using gcv_wf_index [of "conf_var m c" k]
  by (auto simp: ga_conf_mapreadv_def conf_var_def conf_wf_def [of c] Let_def
      intro!: conf_put_wf split: option.splits prod.splits)

lemma mapreset_wf: "conf_wf c \<Longrightarrow> conf_wf (ga_conf_mapreset m c)"
  by (auto simp: ga_conf_mapreset_def intro!: conf_put_wf gcv_wf_mreset
      split: option.splits) (simp add: conf_wf_def)

lemma mapnextkey_wf: "conf_wf c \<Longrightarrow> conf_wf (snd (ga_conf_mapnextkey m s c))"
  using gcv_wf_mnextkey [of "conf_var m c"]
  by (auto simp: ga_conf_mapnextkey_def conf_var_def conf_wf_def [of c] Let_def
      intro!: conf_put_wf split: option.splits prod.splits)

lemma nextkey_wf: "conf_wf c \<Longrightarrow> ga_conf_nextkey c = Some (r, c') \<Longrightarrow> conf_wf c'"
  by (auto simp: ga_conf_nextkey_def conf_wf_def Let_def split: iter.splits) (metis iter_ok_next)+

lemmas conf_op_wf = writev_wf mapwritev_wf erase_wf maperase_wf clear_wf reset_wf mapreadv_wf
  mapreset_wf mapnextkey_wf

lemma parse_wf:
  assumes "\<And>p c. conf_wf c \<Longrightarrow> conf_wf (snd (load p c))" "conf_wf c"
  shows "conf_wf (snd (ga_conf_parse load f l buf c))"
  using assms by (auto simp: ga_conf_parse_def Let_def intro!: conf_op_wf split: option.splits)

lemma load_lines_wf:
  assumes "\<And>l buf c. conf_wf c \<Longrightarrow> conf_wf (snd (parse l buf c))" "conf_wf c"
  shows "conf_wf (snd (conf_load_lines parse l bufs c))"
  using assms(2)
proof (induction bufs arbitrary: l c)
  case (Cons b bufs)
  then show ?case using assms(1) [OF Cons.prems] by (simp split: prod.splits) (metis snd_conv)
qed simp

lemma load_wf: "conf_wf c \<Longrightarrow> conf_wf (snd (ga_conf_load n fs f c))"
  by (induction n arbitrary: f c) (auto intro!: load_lines_wf parse_wf split: option.splits)

end
