(* ===== verification/ConfProps.thy ===== *)
theory ConfProps
  imports ConfFacts
begin

text \<open>
  The properties of the configuration component: the invariant over every history of
  calls, loading of printed configurations, nested and self-referring includes, integer
  parameters, enumeration of parameter maps, and the two map operations that do more
  than their documentation says.
\<close>

section \<open>Histories of calls\<close>

inductive conf_step :: "ga_conf \<Rightarrow> ga_conf \<Rightarrow> bool" where
  step_load: "conf_step c (snd (ga_conf_load n fs f c))"
| step_writev: "conf_step c (snd (ga_conf_writev k v c))"
| step_mapwritev: "conf_step c (snd (ga_conf_mapwritev m k v c))"
| step_erase: "conf_step c (ga_conf_erase k c)"
| step_maperase: "conf_step c (ga_conf_maperase m k c)"
| step_clear: "conf_step c (ga_conf_clear c)"
| step_mapreadv: "conf_step c (snd (ga_conf_mapreadv m k s c))"
| step_mapreset: "conf_step c (ga_conf_mapreset m c)"
| step_mapnextkey: "conf_step c (snd (ga_conf_mapnextkey m s c))"
| step_reset: "conf_step c (ga_conf_reset c)"
| step_nextkey: "ga_conf_nextkey c = Some (r, c') \<Longrightarrow> conf_step c c'"

inductive conf_reachable :: "ga_conf \<Rightarrow> bool" where
  reach_initial: "conf_reachable ga_conf_initial"
| reach_step: "conf_reachable c \<Longrightarrow> conf_step c c' \<Longrightarrow> conf_reachable c'"

lemma conf_step_wf: "conf_step c c' \<Longrightarrow> conf_wf c \<Longrightarrow> conf_wf c'"
  by (induction rule: conf_step.induct) (auto intro: conf_op_wf load_wf nextkey_wf)

lemma conf_reachable_wf: "conf_reachable c \<Longrightarrow> conf_wf c"
  by (induction rule: conf_reachable.induct) (auto intro: conf_wf_initial conf_step_wf)

text \<open>
  C27. After any history of configuration calls, file loads included, the variables are a
  properly ordered map, and for every variable the parameter map is properly ordered and
  the enumeration iterator of the variable may be dereferenced. The global iterator
  is usable too, unless the variable under it was erased.
\<close>

theorem conf_invariant: "conf_reachable c \<Longrightarrow> conf_wf c"
  by (rule conf_reachable_wf)

theorem conf_invariant_witness:
  "conf_wf (snd (ga_conf_load 2 (\<lambda>p. if p = ''a'' then Some ''k = 1'' else None) (Some ''a'') ga_conf_initial))"
  by (rule conf_invariant, rule reach_step [OF reach_initial], rule step_load)

section \<open>Loading\<close>

lemma load_printed_file:
  assumes "fs f = Some (concat (map print_item items))"
    and "\<forall>i \<in> set items. item_ok i \<and> length (print_item i) \<le> 8191"
  shows "ga_conf_load (Suc n) fs (Some f) c = (int (length items), fold item_effect items c)"
proof -
  have "fgets_all (concat (map print_item items)) = map print_item items"
    using fgets_all_items [of items "[]"] assms(2) by simp
  with assms show ?thesis
    using load_lines_items [of items _ f 0 "[]" c] by simp
qed

text \<open>The value the items leave for a plain variable: that of its last assignment.\<close>

fun item_value :: "string \<Rightarrow> string option \<Rightarrow> conf_item \<Rightarrow> string option" where
  "item_value k cur (Plain k' v) = (if k' = k then Some v else cur)"
| "item_value k cur (Entry m k' v) = (if m = k \<and> cur = None then Some [] else cur)"

lemma readv_item_effect:
  "ga_conf_readv k None (item_effect i c) = item_value k (ga_conf_readv k None c) i"
  by (cases i)
     (auto simp: ga_conf_readv_def ga_conf_writev_def ga_conf_mapwritev_def conf_put_def conf_var_def
       gaConfVar_value_def gaConfVar_assign_def gaConfVar_index_set_def gaConfVar_clear_def
       split: option.splits)

lemma readv_items:
  "ga_conf_readv k None (fold item_effect items c) = foldl (item_value k) (ga_conf_readv k None c) items"
  by (induction items arbitrary: c) (simp_all add: readv_item_effect)




definition nested_files :: "string \<Rightarrow> string option" where
  "nested_files p = (if p = ''d/a'' then Some ''include = b'' else if p = ''d/b'' then Some ''k = 1'' else None)"

lemma nested_files_ranked: "includes_ranked nested_files (\<lambda>p. if p = ''d/a'' then 1 else 0)"
proof -
  have "fgets_all ''include = b'' = [''include = b'']" "fgets_all ''k = 1'' = [''k = 1'']"
    "include_target ''d/a'' (takeWhile (\<lambda>x. x \<noteq> NUL) ''include = b'') = Some ''d/b''"
    "include_target ''d/b'' (takeWhile (\<lambda>x. x \<noteq> NUL) ''k = 1'') = None"
    by code_simp+
  then show ?thesis
    unfolding includes_ranked_def nested_files_def by (auto split: if_splits)
qed


text \<open>
  A file one of whose lines includes the file itself never loads: whatever the number of
  files that may be open and whatever the other lines are, the call returns -1.
\<close>

theorem load_self_includes_fails:
  assumes "fs f = Some s" "b \<in> set (fgets_all s)"
    and "include_target f (takeWhile (\<lambda>x. x \<noteq> NUL) b) = Some f"
  shows "fst (ga_conf_load n fs (Some f) c) = -1"
  using assms split_list [of b "fgets_all s"] by (auto intro: load_self_include)

theorem load_self_includes_fails_witness:
  "fst (ga_conf_load 1000 (\<lambda>p. Some ''include = c.conf'') (Some ''c.conf'') ga_conf_initial) = -1"
  by (rule load_self_includes_fails [where s = "''include = c.conf''" and b = "''include = c.conf''"], simp)
     code_simp+

section \<open>Values\<close>

text \<open>
  Trimming a line is idempotent, and what it leaves has no blank at either end, no
  comment character and no leading bracket.
\<close>

theorem trim_idempotent: "trimmed (ga_conf_trim s) \<and> ga_conf_trim (ga_conf_trim s) = ga_conf_trim s"
  using trim_result_trimmed by (simp add: trim_trimmed)

lemma readstr_writev: "ga_conf_readstr k (snd (ga_conf_writev k v c)) = v"
  by (simp add: ga_conf_readstr_def ga_conf_writev_def conf_put_def gaConfVar_value_def gaConfVar_assign_def)

lemma dec_of_int_nonempty: "dec_of_int z \<noteq> []"
  by (simp add: dec_of_int_def)

text \<open>
  An integer parameter written in decimal reads back as itself when it fits an
  \<open>int\<close>, and as 0 when it does not, also when it does not fit a \<open>long\<close>.
\<close>

theorem readint_written:
  "ga_conf_readint k (snd (ga_conf_writev k (dec_of_int z) c)) =
     (if INT_MIN \<le> z \<and> z \<le> INT_MAX then z else 0)"
proof (cases "LONG_MIN \<le> z \<and> z \<le> LONG_MAX")
  case True
  then show ?thesis
    by (auto simp: ga_conf_readint_def readstr_writev strtol_dec_of_int dec_of_int_nonempty
        dec_of_int_nonempty [symmetric])
next
  case False
  then have "INT_MAX < z \<or> z < INT_MIN"
    by (auto simp: LONG_MIN_def LONG_MAX_def INT_MIN_def INT_MAX_def)
  moreover obtain v r where "strtol (dec_of_int z) = (v, r, True)"
    using strtol_dec_of_int_erange [of z] False by force
  ultimately show ?thesis
    by (auto simp: ga_conf_readint_def readstr_writev Let_def)
qed

lemma multiple_int_reads_le: "conf_multiple_int_reads n s \<le> n"
  by (induction n s rule: conf_multiple_int_reads.induct) (auto simp: Let_def split: prod.splits)

lemma multiple_int_written:
  "length (conf_multiple_int_loop n s) = min n (Suc (conf_multiple_int_reads n s))"
  by (induction n s rule: conf_multiple_int_reads.induct) (auto simp: Let_def split: prod.splits)

lemma multiple_int_range: "x \<in> set (conf_multiple_int_loop n s) \<Longrightarrow> INT_MIN \<le> x \<and> x \<le> INT_MAX"
  by (induction n s rule: conf_multiple_int_reads.induct)
     (auto simp: Let_def to_int32_range split: prod.splits if_splits)

text \<open>
  Reading up to \<open>n\<close> integers stores at most \<open>n\<close> values, all in the range of
  \<open>int\<close>, and reports a count whose values were all stored: the array the caller passes is never
  overrun. When fewer than \<open>n\<close> are found, one value past the count is overwritten.
\<close>

theorem readints_bounds:
  assumes "ga_conf_readints key n c = (reads, vals)"
  shows "reads \<le> length vals \<and> length vals \<le> n \<and> length vals \<le> reads + 1
    \<and> (\<forall>x \<in> set vals. INT_MIN \<le> x \<and> x \<le> INT_MAX)"
proof (cases "ga_conf_readv key (Some 1024) c")
  case None
  with assms show ?thesis by (auto simp: ga_conf_readints_def)
next
  case (Some s)
  with assms have "reads = conf_multiple_int_reads n s" "vals = conf_multiple_int_loop n s"
    by (auto simp: ga_conf_readints_def ga_conf_multiple_int_def)
  then show ?thesis
    using multiple_int_written [of n s] multiple_int_reads_le [of n s] multiple_int_range by fastforce
qed

theorem readints_bounds_witness:
  "ga_conf_readints ''r'' 2 (snd (ga_conf_writev ''r'' ''12 x'' ga_conf_initial)) = (1, [12, 0])
   \<and> (1::nat) \<le> length [12, 0::int]"
proof -
  have e: "ga_conf_readints ''r'' 2 (snd (ga_conf_writev ''r'' ''12 x'' ga_conf_initial)) = (1, [12, 0])"
    by code_simp
  show ?thesis using e readints_bounds [OF e] by simp
qed

section \<open>Parameter maps\<close>

text \<open>The enumeration idiom of the callers over one parameter map, with \<open>NULL\<close> buffers.\<close>

fun conf_map_enum :: "nat \<Rightarrow> string \<Rightarrow> char list option \<Rightarrow> ga_conf \<Rightarrow> (char list \<times> char list option) list" where
  "conf_map_enum 0 m k c = []"
| "conf_map_enum (Suc n) m k c =
     (case k of
        None \<Rightarrow> []
      | Some k \<Rightarrow> (let v = ga_conf_mapvalue m None c; (k', c') = ga_conf_mapnextkey m None c
                  in (k, v) # conf_map_enum n m k' c'))"

lemma conf_map_enum_gcv:
  assumes "om_find (ga_vars c) m = Some v" "gaConfVar_mkey v = key"
    and "k = (if key = [] then None else Some (key @ [NUL]))"
  shows "conf_map_enum n m k c = map (\<lambda>(k, v). (k @ [NUL], Some (v @ [NUL]))) (fst (gcv_enum n key v))"
  using assms
proof (induction n arbitrary: k key v c)
  case (Suc n)
  show ?case
  proof (cases "key = []")
    case False
    obtain key' v' where nx: "gaConfVar_mnextkey v = (key', v')" by fastforce
    let ?c = "conf_put m v' c" and ?k = "if key' = [] then None else Some (key' @ [NUL])"
    have "gaConfVar_mkey v' = key'"
      using nx False Suc.prems
      by (auto simp: gaConfVar_mnextkey_def gaConfVar_mkey_def Let_def split: iter.splits)
    then have "conf_map_enum n m ?k ?c = map (\<lambda>(k, v). (k @ [NUL], Some (v @ [NUL]))) (fst (gcv_enum n key' v'))"
      by (intro Suc.IH [where v = v']) (simp_all add: conf_put_def)
    moreover have "ga_conf_mapnextkey m None c = (?k, ?c)"
      using Suc.prems nx by (simp add: ga_conf_mapnextkey_def store_string_def)
    moreover have "ga_conf_mapvalue m None c = Some (gaConfVar_mvalue v @ [NUL])"
      using Suc.prems False by (simp add: ga_conf_mapvalue_def store_string_def)
    ultimately show ?thesis using Suc.prems False nx by (simp split: prod.splits)
  qed (use Suc.prems in simp)
qed simp

text \<open>
  Rewinding a parameter map and walking it with \<open>mapkey\<close>, \<open>mapvalue\<close> and
  \<open>mapnextkey\<close> until no key comes back yields every key with its value exactly once, in
  increasing key order, after at most as many steps as the map has keys.
\<close>

theorem map_enumeration:
  assumes "conf_reachable c" "om_find (ga_vars c) m = Some v"
    and "[] \<notin> set (om_keys (gcv_mapdata v))" "ga_conf_mapsize m c < int n"
  shows "conf_map_enum n m (ga_conf_mapkey m None (ga_conf_mapreset m c)) (ga_conf_mapreset m c) =
    map (\<lambda>(k, x). (k @ [NUL], Some (x @ [NUL]))) (gcv_mapdata v)
   \<and> sorted_wrt (<) (om_keys (gcv_mapdata v))"
proof -
  have wf: "gcv_wf v" using conf_reachable_wf [OF assms(1)] assms(2) by (auto simp: conf_wf_def)
  let ?v = "gaConfVar_mreset v" and ?c = "conf_put m (gaConfVar_mreset v) c"
  have c: "ga_conf_mapreset m c = ?c" "om_find (ga_vars ?c) m = Some ?v"
    using assms(2) by (simp_all add: ga_conf_mapreset_def conf_put_def)
  have "fst (gcv_enum n (gaConfVar_mkey ?v) ?v) = gcv_mapdata v"
    using wf assms by (intro gcv_enum_all) (auto simp: om_keys_def ga_conf_mapsize_def gaConfVar_msize_def)
  moreover have "ga_conf_mapkey m None ?c =
      (if gaConfVar_mkey ?v = [] then None else Some (gaConfVar_mkey ?v @ [NUL]))"
    using c(2) by (simp add: ga_conf_mapkey_def store_string_def)
  ultimately show ?thesis
    using c conf_map_enum_gcv [OF c(2) refl, of _ n] wf by (simp add: gcv_wf_def om.keys_sorted)
qed

definition conf_two_entries :: ga_conf where
  "conf_two_entries = snd (ga_conf_mapwritev ''m'' ''b'' ''2'' (snd (ga_conf_mapwritev ''m'' ''a'' ''1'' ga_conf_initial)))"

theorem map_enumeration_witness:
  "conf_map_enum 3 ''m'' (ga_conf_mapkey ''m'' None (ga_conf_mapreset ''m'' conf_two_entries))
     (ga_conf_mapreset ''m'' conf_two_entries) =
   [(''a'' @ [NUL], Some (''1'' @ [NUL])), (''b'' @ [NUL], Some (''2'' @ [NUL]))]"
proof -
  let ?v = "\<lparr>gcv_data = [], gcv_mapdata = [(''a'', ''1''), (''b'', ''2'')], gcv_mi = End\<rparr>"
  have r: "conf_reachable conf_two_entries"
    unfolding conf_two_entries_def by (rule reach_step [OF reach_step [OF reach_initial]]) (rule step_mapwritev)+
  have f: "om_find (ga_vars conf_two_entries) ''m'' = Some ?v" by code_simp
  have n: "ga_conf_mapsize ''m'' conf_two_entries < int 3" by code_simp
  show ?thesis using map_enumeration [OF r f _ n] by (simp add: om_keys_def)
qed

text \<open>
  \<open>ga_conf_maperase\<close> of one key of a parameter map removes the variable with all its
  keys and its plain value, whatever the key, and leaves every other variable as it was.
\<close>

theorem maperase_erases_map:
  "ga_conf_haskey m k' (ga_conf_maperase m k c) = False
   \<and> ga_conf_readv m store (ga_conf_maperase m k c) = None
   \<and> (\<forall>x. x \<noteq> m \<longrightarrow> om_find (ga_vars (ga_conf_maperase m k c)) x = om_find (ga_vars c) x)"
  by (auto simp: ga_conf_haskey_def ga_conf_maperase_def ga_conf_readv_def split: option.splits)

theorem maperase_erases_map_witness:
  "ga_conf_haskey ''m'' ''b'' conf_two_entries \<and> \<not> ga_conf_haskey ''m'' ''b'' (ga_conf_maperase ''m'' ''a'' conf_two_entries)"
proof -
  have "ga_conf_haskey ''m'' ''b'' conf_two_entries" by code_simp
  then show ?thesis using maperase_erases_map [of "''m''" "''b''" "''a''" conf_two_entries None] by simp
qed

text \<open>
  Reading a key that a parameter map does not have returns nothing and yet adds the key
  with an empty value: the map grows by one and the key is reported present afterwards.
\<close>

theorem mapread_inserts_key:
  assumes "conf_reachable c" "om_find (ga_vars c) m = Some v" "\<not> ga_conf_haskey m k c"
  shows "fst (ga_conf_mapreadv m k store c) = None
    \<and> ga_conf_haskey m k (snd (ga_conf_mapreadv m k store c))
    \<and> ga_conf_mapsize m (snd (ga_conf_mapreadv m k store c)) = ga_conf_mapsize m c + 1"
proof -
  have none: "om_find (gcv_mapdata v) k = None"
    using assms by (simp add: ga_conf_haskey_def gaConfVar_haskey_def)
  have "om_wf (gcv_mapdata v)"
    using conf_reachable_wf [OF assms(1)] assms(2) by (auto simp: conf_wf_def gcv_wf_def)
  then have "length (om_put k [] (gcv_mapdata v)) = Suc (length (gcv_mapdata v))"
    using om.length_keys_put [of "gcv_mapdata v" k "[]"] none by (simp add: om_keys_def)
  with none assms(2) show ?thesis
    by (simp add: ga_conf_mapreadv_def gaConfVar_index_def conf_put_def ga_conf_haskey_def
        gaConfVar_haskey_def ga_conf_mapsize_def gaConfVar_msize_def)
qed

theorem mapread_inserts_key_witness:
  "ga_conf_haskey ''m'' ''z'' (snd (ga_conf_mapreadv ''m'' ''z'' None conf_two_entries))"
proof -
  let ?v = "\<lparr>gcv_data = [], gcv_mapdata = [(''a'', ''1''), (''b'', ''2'')], gcv_mi = End\<rparr>"
  have r: "conf_reachable conf_two_entries"
    unfolding conf_two_entries_def by (rule reach_step [OF reach_step [OF reach_initial]]) (rule step_mapwritev)+
  have f: "om_find (ga_vars conf_two_entries) ''m'' = Some ?v" by code_simp
  have h: "\<not> ga_conf_haskey ''m'' ''z'' conf_two_entries" by code_simp
  show ?thesis using mapread_inserts_key [OF r f h, of None] by simp
qed

end
