(* ===== verification/GaCommon.thy ===== *)
theory GaCommon
  imports Conf
begin

text \<open>
  The helpers of \<open>sources/streamer/core/ga-common.cpp\<close>: time differences, aligned
  allocation, log levels and log names, the aggregated statistics buffer, start code search,
  rectangles and window cropping, audio channel layouts and sample buffer sizes. The
  clock, \<open>malloc\<close>, and the window system are arguments.
\<close>

section \<open>Time\<close>

record timeval =
  tv_sec :: int
  tv_usec :: int

definition tvdiff_us :: "timeval \<Rightarrow> timeval \<Rightarrow> int" where
  "tvdiff_us tv1 tv2 =
     (let sec = tv_sec tv1 - tv_sec tv2; usec = tv_usec tv1 - tv_usec tv2;
          (sec, usec) = (if usec < 0 then (sec - 1, usec + 1000000) else (sec, usec))
      in 1000000 * sec + usec)"

text \<open>The result is the return value and the argument of the \<open>usleep\<close> call.\<close>

definition ga_usleep :: "int \<Rightarrow> timeval option \<Rightarrow> timeval \<Rightarrow> int \<times> int" where
  "ga_usleep interval ptv now =
     (case ptv of
        None \<Rightarrow> (0, interval)
      | Some base \<Rightarrow>
          let delta = tvdiff_us now base
          in if delta \<ge> interval then (-1, 1) else (0, interval - delta))"

section \<open>Logging\<close>

datatype Severity = ERR | WARNING | INFO | DBG

definition severity_num :: "Severity \<Rightarrow> nat" where
  "severity_num s = (case s of ERR \<Rightarrow> 0 | WARNING \<Rightarrow> 1 | INFO \<Rightarrow> 2 | DBG \<Rightarrow> 3)"

datatype log_stream = Stdout | Stderr

text \<open>Where a message goes on Linux; \<open>None\<close> when the level suppresses it.\<close>

definition ga_writelog :: "Severity \<Rightarrow> Severity \<Rightarrow> (log_stream \<times> string) option" where
  "ga_writelog ga_loglevel level =
     (if severity_num level > severity_num ga_loglevel then None
      else Some (if level = ERR \<or> level = WARNING then Stderr else Stdout,
                 case level of ERR \<Rightarrow> '' [ERR]  : '' | WARNING \<Rightarrow> '' [WARN] : ''
                 | INFO \<Rightarrow> '' [INFO] : '' | DBG \<Rightarrow> '' [DBG]  : ''))"

definition ga_get_loglevel_enum :: "string \<Rightarrow> Severity" where
  "ga_get_loglevel_enum level =
     (if level = ''error'' then ERR
      else if level = ''warning'' then WARNING
      else if level = ''info'' then INFO
      else if level = ''debug'' then DBG
      else ERR)"

text \<open>\<open>std::string::find\<close> and the replacement of the first \<open>PID\<close>.\<close>

fun string_find :: "string \<Rightarrow> string \<Rightarrow> nat option" where
  "string_find pat [] = (if pat = [] then Some 0 else None)"
| "string_find pat (c # s) =
     (if take (length pat) (c # s) = pat then Some 0 else map_option Suc (string_find pat s))"

definition ga_compose_logname :: "nat \<Rightarrow> string \<Rightarrow> string" where
  "ga_compose_logname pid logname =
     (case string_find ''PID'' logname of
        None \<Rightarrow> logname
      | Some i \<Rightarrow> take i logname @ dec_of_nat pid @ drop (i + 3) logname)"

definition ga_set_logfile :: "string option \<Rightarrow> ga_conf \<Rightarrow> ga_conf outcome" where
  "ga_set_logfile file_name c =
     (case file_name of None \<Rightarrow> Exit (-1) | Some f \<Rightarrow> Ret (snd (ga_conf_writev ''logfile'' f c)))"

text \<open>The log file in use after the call; \<open>opens\<close> says which paths \<open>fopen\<close> can append to.\<close>

definition ga_openlog :: "nat \<Rightarrow> (string \<Rightarrow> bool) \<Rightarrow> ga_conf \<Rightarrow> string option \<Rightarrow> string option" where
  "ga_openlog pid opens c ga_logfile =
     (let fn = ga_conf_readstr ''logfile'' c
      in if fn = [] then ga_logfile
         else let fn = ga_compose_logname pid fn
              in if opens fn then Some fn else ga_logfile)"

definition ga_closelog :: "string option \<Rightarrow> string option" where
  "ga_closelog ga_logfile = None"

definition ga_init :: "nat \<Rightarrow> (string \<Rightarrow> string option) \<Rightarrow> string option \<Rightarrow> ga_conf \<Rightarrow> int \<times> ga_conf" where
  "ga_init files fs config c =
     (case config of
        None \<Rightarrow> (0, c)
      | Some f \<Rightarrow> (let (r, c') = ga_conf_load files fs (Some f) c in (if r < 0 then -1 else 0, c')))"

section \<open>Allocation\<close>

text \<open>
  The argument is what \<open>malloc(size + 16)\<close> returned, 0 for NULL. The result is the
  block and the offset of the aligned data in it.
\<close>

definition ga_malloc :: "u64 \<Rightarrow> (u64 \<times> int) option" where
  "ga_malloc ptr = (if ptr = 0 then None else Some (ptr, 16 - uint (ptr AND 0x0f)))"

definition ga_alignment :: "u64 \<Rightarrow> int \<Rightarrow> int" where
  "ga_alignment ptr alignto = alignto - uint (ptr AND word_of_int (alignto - 1))"

section \<open>Aggregated statistics\<close>

type_synonym aggmap = "(int, int list) omap"

definition ga_aggregated_reset :: "aggmap \<Rightarrow> aggmap" where
  "ga_aggregated_reset m = om_empty"

text \<open>
  The values that fit the 16384 byte buffer: the loop stops once at most 16 bytes are left.
  Each value is printed with a blank before it.
\<close>

fun agg_fit :: "int \<Rightarrow> int list \<Rightarrow> int list" where
  "agg_fit left [] = []"
| "agg_fit left (v # vs) =
     (if left > 16 then v # agg_fit (left - int (length (dec_of_int v) + 1)) vs else [])"

text \<open>
  \<open>prefix_len\<close> is the length of the heading \<open>AGGREGATED-OUTPUT[%04x]:\<close>. The second
  component is the line written, if any: its values and whether some were left out.
\<close>

definition ga_aggregated_print ::
  "nat \<Rightarrow> int \<Rightarrow> nat \<Rightarrow> int \<Rightarrow> aggmap \<Rightarrow> aggmap \<times> (int list \<times> bool) option" where
  "ga_aggregated_print prefix_len key limit value m =
     (case om_find m key of
        None \<Rightarrow> (om_put key [value] m, None)
      | Some vs \<Rightarrow>
          let vs = vs @ [value]
          in if length vs \<ge> limit
             then let out = agg_fit (16384 - int prefix_len) vs
                  in (om_put key [] m, Some (out, length out < length vs))
             else (om_put key vs m, None))"

section \<open>Start codes\<close>

fun find_startcode_from :: "nat \<Rightarrow> bytes \<Rightarrow> (nat \<times> int) option" where
  "find_startcode_from i (a # b # c # d # e # r) =
     (if a = 0 \<and> b = 0 then
        (if c = 1 then Some (i, 3)
         else if c = 0 \<and> d = 1 then Some (i, 4)
         else find_startcode_from (i + 1) (b # c # d # e # r))
      else find_startcode_from (i + 1) (b # c # d # e # r))"
| "find_startcode_from i r = None"

definition ga_find_startcode :: "bytes \<Rightarrow> (nat \<times> int) option" where
  "ga_find_startcode buf = find_startcode_from 0 buf"

section \<open>Rectangles\<close>

record gaRect =
  rleft :: int
  rtop :: int
  rright :: int
  rbottom :: int
  rwidth :: int
  rheight :: int
  rlinesize :: int
  rsize :: int

definition RGBA_SIZE :: int where "RGBA_SIZE = 4"

text \<open>The outer \<open>None\<close> is an overflow of \<open>int\<close>, the inner one the NULL of an invalid size.\<close>

definition ga_fillrect :: "gaRect \<Rightarrow> int \<Rightarrow> int \<Rightarrow> int \<Rightarrow> int \<Rightarrow> gaRect option option" where
  "ga_fillrect rect left tp right bottom =
     (let (left, right) = (if left > right then (right, left) else (left, right));
          (tp, bottom) = (if tp > bottom then (bottom, tp) else (tp, bottom))
      in do {
        w0 \<leftarrow> chk32 (right - left);
        w \<leftarrow> chk32 (w0 + 1);
        h0 \<leftarrow> chk32 (bottom - tp);
        h \<leftarrow> chk32 (h0 + 1);
        ls \<leftarrow> chk32 (w * RGBA_SIZE);
        wh \<leftarrow> chk32 (w * h);
        sz \<leftarrow> chk32 (wh * RGBA_SIZE);
        Some (if w \<le> 0 \<or> h \<le> 0 then None
              else Some (rect\<lparr>rleft := left, rtop := tp, rright := right, rbottom := bottom,
                rwidth := w, rheight := h, rlinesize := ls, rsize := sz\<rparr>))
      })"

text \<open>
  The window system, as \<open>ga_crop_window\<close> asks it on Windows: whether the named window is
  found, whether it can be moved and measured, its client rectangle and its origin
  on the screen, and the screen size.
\<close>

record window_system =
  ws_found :: "string option \<Rightarrow> string option \<Rightarrow> bool"
  ws_moved :: bool
  ws_client :: "(int \<times> int \<times> int \<times> int) option"
  ws_to_screen :: "int \<times> int \<Rightarrow> (int \<times> int) option"
  ws_screen :: "int \<times> int"

text \<open>
  The rectangle is updated before the last check, so it comes back in every case; the
  second component says whether \<open>*prect\<close> is set to it (\<open>Some True\<close>), to NULL
  (\<open>Some False\<close>) or left alone.
\<close>

definition ga_crop_window ::
  "window_system \<Rightarrow> ga_conf \<Rightarrow> gaRect option \<Rightarrow> bool \<Rightarrow> int \<times> bool option \<times> gaRect option" where
  "ga_crop_window ws c rect prect_ok =
     (case rect of
        None \<Rightarrow> (-1, None, None)
      | Some r \<Rightarrow>
     if \<not> prect_ok then (-1, None, rect) else
     let pname = ga_conf_readv ''find-window-name'' (Some 1024) c;
         pclass = ga_conf_readv ''find-window-class'' (Some 1024) c
     in if (pname = None \<or> pname = Some []) \<and> (pclass = None \<or> pclass = Some []) then (0, Some False, rect)
     else if \<not> ws_found ws pclass pname then (-1, None, rect)
     else if \<not> ws_moved ws then (-1, None, rect)
     else case ws_client ws of
        None \<Rightarrow> (-1, None, rect)
      | Some (cl, ct, cr, cb) \<Rightarrow>
     (case (ws_to_screen ws (cl, ct), ws_to_screen ws (cr - 1, cb - 1)) of
        (Some (l, t), Some (rr, b)) \<Rightarrow>
          let l' = (if c_mod (rr - l + 1) 2 \<noteq> 0 then l - 1 else l);
              t' = (if c_mod (b - t + 1) 2 \<noteq> 0 then t - 1 else t);
              r' = r\<lparr>rleft := l', rtop := t', rright := rr, rbottom := b\<rparr>
          in if l' < 0 \<or> t' < 0 \<or> rr \<ge> fst (ws_screen ws) \<or> b \<ge> snd (ws_screen ws)
             then (-1, None, Some r') else (1, Some True, Some r')
      | _ \<Rightarrow> (-1, None, rect)))"

section \<open>Codecs\<close>

definition ga_is_h264 :: "string \<Rightarrow> bool" where
  "ga_is_h264 codec \<longleftrightarrow> codec = ''avc'' \<or> codec = ''h264''"

definition ga_is_h265 :: "string \<Rightarrow> bool" where
  "ga_is_h265 codec \<longleftrightarrow> codec = ''hevc'' \<or> codec = ''h265''"

definition ga_is_av1 :: "string \<Rightarrow> bool" where
  "ga_is_av1 codec \<longleftrightarrow> codec = ''av1''"

section \<open>Audio formats\<close>

text \<open>The loop of \<open>ga_get_channel_layout_nb_channels\<close> clears the lowest bit set in each round.\<close>

lemma nat_and_pred:
  fixes m :: nat
  assumes "0 < m"
  shows "(2 * m) AND (2 * m - 1) = 2 * (m AND (m - 1))" and "(2 * m + 1) AND (2 * m) = 2 * m"
proof -
  have "2 * m - 1 = Suc (2 * (m - 1))" using assms by simp
  then show "(2 * m) AND (2 * m - 1) = 2 * (m AND (m - 1))"
    by (simp add: and_nat_rec [of "2 * m"])
  show "(2 * m + 1) AND (2 * m) = 2 * m"
    by (simp add: and_nat_rec [of "Suc (2 * m)"])
qed

lemma nat_and_pred_less: "0 < (n :: nat) \<Longrightarrow> n AND (n - 1) < n"
proof -
  assume n: "0 < n"
  have "int (n AND (n - 1)) \<le> int (n - 1)" by (simp only: of_nat_and_eq AND_upper2 of_nat_0_le_iff)
  with n show ?thesis by linarith
qed

lemma unat_and_pred: "x \<noteq> 0 \<Longrightarrow> unat (x AND (x - 1)) = unat (x :: u64) AND (unat x - 1)"
  by (simp add: unsigned_and_eq unat_minus_one)

function nb_channels_loop :: "u64 \<Rightarrow> nat \<Rightarrow> nat" where
  "nb_channels_loop channel_layout count =
     (if channel_layout \<noteq> 0 then nb_channels_loop (channel_layout AND (channel_layout - 1)) (count + 1)
      else count)"
  by pat_completeness auto
termination
proof (relation "measure (\<lambda>(x, _). unat x)")
  show "((x AND (x - 1), c + 1), x, c) \<in> measure (\<lambda>(x, _). unat x)" if "x \<noteq> 0" for x :: u64 and c
    using that nat_and_pred_less [of "unat x"] by (simp add: unat_and_pred unat_gt_0)
qed simp

declare nb_channels_loop.simps [simp del]

definition ga_get_channel_layout_nb_channels :: "u64 \<Rightarrow> nat" where
  "ga_get_channel_layout_nb_channels channel_layout =
     (if channel_layout = 0 then 0 else nb_channels_loop channel_layout 0)"

datatype ga_sample_format =
  GA_SAMPLE_FMT_NONE | GA_SAMPLE_FMT_U8 | GA_SAMPLE_FMT_S16 | GA_SAMPLE_FMT_S32 | GA_SAMPLE_FMT_FLT
| GA_SAMPLE_FMT_DBL | GA_SAMPLE_FMT_U8P | GA_SAMPLE_FMT_S16P | GA_SAMPLE_FMT_S32P | GA_SAMPLE_FMT_FLTP
| GA_SAMPLE_FMT_DBLP | GA_SAMPLE_FMT_NB

record SampleFmtInfo =
  sf_name :: string
  sf_bits :: int
  sf_planar :: bool
  sf_alt_fmt :: ga_sample_format

fun sample_fmt_info :: "ga_sample_format \<Rightarrow> SampleFmtInfo option" where
  "sample_fmt_info GA_SAMPLE_FMT_U8 = Some \<lparr>sf_name = ''u8'', sf_bits = 8, sf_planar = False, sf_alt_fmt = GA_SAMPLE_FMT_U8P\<rparr>"
| "sample_fmt_info GA_SAMPLE_FMT_S16 = Some \<lparr>sf_name = ''s16'', sf_bits = 16, sf_planar = False, sf_alt_fmt = GA_SAMPLE_FMT_S16P\<rparr>"
| "sample_fmt_info GA_SAMPLE_FMT_S32 = Some \<lparr>sf_name = ''s32'', sf_bits = 32, sf_planar = False, sf_alt_fmt = GA_SAMPLE_FMT_S32P\<rparr>"
| "sample_fmt_info GA_SAMPLE_FMT_FLT = Some \<lparr>sf_name = ''flt'', sf_bits = 32, sf_planar = False, sf_alt_fmt = GA_SAMPLE_FMT_FLTP\<rparr>"
| "sample_fmt_info GA_SAMPLE_FMT_DBL = Some \<lparr>sf_name = ''dbl'', sf_bits = 64, sf_planar = False, sf_alt_fmt = GA_SAMPLE_FMT_DBLP\<rparr>"
| "sample_fmt_info GA_SAMPLE_FMT_U8P = Some \<lparr>sf_name = ''u8p'', sf_bits = 8, sf_planar = True, sf_alt_fmt = GA_SAMPLE_FMT_U8\<rparr>"
| "sample_fmt_info GA_SAMPLE_FMT_S16P = Some \<lparr>sf_name = ''s16p'', sf_bits = 16, sf_planar = True, sf_alt_fmt = GA_SAMPLE_FMT_S16\<rparr>"
| "sample_fmt_info GA_SAMPLE_FMT_S32P = Some \<lparr>sf_name = ''s32p'', sf_bits = 32, sf_planar = True, sf_alt_fmt = GA_SAMPLE_FMT_S32\<rparr>"
| "sample_fmt_info GA_SAMPLE_FMT_FLTP = Some \<lparr>sf_name = ''fltp'', sf_bits = 32, sf_planar = True, sf_alt_fmt = GA_SAMPLE_FMT_FLT\<rparr>"
| "sample_fmt_info GA_SAMPLE_FMT_DBLP = Some \<lparr>sf_name = ''dblp'', sf_bits = 64, sf_planar = True, sf_alt_fmt = GA_SAMPLE_FMT_DBL\<rparr>"
| "sample_fmt_info _ = None"

definition ga_get_bytes_per_sample :: "ga_sample_format \<Rightarrow> int" where
  "ga_get_bytes_per_sample sample_fmt =
     (case sample_fmt_info sample_fmt of Some i \<Rightarrow> drop_bit 3 (sf_bits i) | None \<Rightarrow> 0)"

definition ga_sample_fmt_is_planar :: "ga_sample_format \<Rightarrow> bool" where
  "ga_sample_fmt_is_planar sample_fmt =
     (case sample_fmt_info sample_fmt of Some i \<Rightarrow> sf_planar i | None \<Rightarrow> False)"

definition GA_E_INVALIDARG :: int where "GA_E_INVALIDARG = -22"

definition GAALIGN :: "int \<Rightarrow> int \<Rightarrow> int option" where
  "GAALIGN x a = do { s \<leftarrow> chk32 (x + a); t \<leftarrow> chk32 (s - 1); Some (t AND NOT (a - 1)) }"

text \<open>\<open>None\<close> is a signed overflow on the way.\<close>

definition ga_samples_get_buffer_size ::
  "int \<Rightarrow> int \<Rightarrow> ga_sample_format \<Rightarrow> int \<Rightarrow> int option" where
  "ga_samples_get_buffer_size nb_channels nb_samples sample_fmt align =
     (let sample_size = ga_get_bytes_per_sample sample_fmt; planar = ga_sample_fmt_is_planar sample_fmt
      in if sample_size = 0 \<or> nb_samples \<le> 0 \<or> nb_channels \<le> 0 then Some GA_E_INVALIDARG
         else if align = 0 \<and> nb_samples > INT_MAX - 31 then Some GA_E_INVALIDARG
         else do {
           (align, nb_samples) \<leftarrow>
             (if align = 0 then do { n \<leftarrow> GAALIGN nb_samples 32; Some (1, n) } else Some (align, nb_samples));
           if nb_channels > c_div INT_MAX align then Some GA_E_INVALIDARG
           else do {
             m \<leftarrow> chk32 (nb_channels * nb_samples);
             a \<leftarrow> chk32 (align * nb_channels);
             d \<leftarrow> chk32 (INT_MAX - a);
             if m > c_div d sample_size then Some GA_E_INVALIDARG
             else do {
               l0 \<leftarrow> chk32 (nb_samples * sample_size);
               l \<leftarrow> (if planar then Some l0 else chk32 (l0 * nb_channels));
               line_size \<leftarrow> GAALIGN l align;
               if planar then chk32 (line_size * nb_channels) else Some line_size
             }
           }
         })"

end
