(* ===== verification/GaCommonProps.thy ===== *)
theory GaCommonProps
  imports GaCommon
begin

text \<open>
  Properties of the helpers: alignment of allocations, start code search, channel counting,
  sample buffer sizes, window cropping and the aggregated statistics.
\<close>

section \<open>Alignment\<close>

lemma uint_and_low: "uint (p AND mask n) = uint (p :: u64) mod 2 ^ n"
  by (simp only: take_bit_eq_mask [symmetric] unsigned_take_bit_eq) (simp only: take_bit_eq_mod)

lemma uint_and_15: "uint (p AND 0x0f) = uint (p :: u64) mod 16"
proof -
  have "(0x0f :: u64) = mask 4" by (simp add: mask_eq_exp_minus_1)
  then show ?thesis using uint_and_low [of p 4] by simp
qed

text \<open>
  A successful \<open>ga_malloc\<close> yields an offset between 1 and 16 whose sum with the block
  address is a multiple of 16, so that \<open>size\<close> bytes from there stay inside the
  \<open>size + 16\<close> bytes allocated.
\<close>

theorem ga_malloc_aligned:
  assumes "ga_malloc ptr = Some (p, off)"
  shows "p = ptr \<and> (uint p + off) mod 16 = 0 \<and> 1 \<le> off \<and> off \<le> 16
    \<and> (\<forall>size. off + size \<le> size + 16)"
proof -
  have off: "p = ptr" "off = 16 - uint ptr mod 16"
    using assms by (auto simp: ga_malloc_def uint_and_15 split: if_splits)
  have "0 \<le> uint ptr mod 16" "uint ptr mod 16 < 16" by simp_all
  moreover have "(uint ptr + (16 - uint ptr mod 16)) mod 16 = 0" by presburger
  ultimately show ?thesis using off by auto
qed

theorem ga_malloc_aligned_witness: "(uint (0x1008 :: u64) + 8) mod 16 = 0"
  using ga_malloc_aligned [where ptr = "0x1008" and p = "0x1008" and off = 8] by (simp add: ga_malloc_def uint_and_15)

section \<open>Start codes\<close>

definition startcode_at :: "bytes \<Rightarrow> nat \<Rightarrow> int \<Rightarrow> bool" where
  "startcode_at b p n \<longleftrightarrow> p + 4 < length b \<and> b ! p = 0 \<and> b ! (p + 1) = 0 \<and>
     (if n = 3 then b ! (p + 2) = 1 else n = 4 \<and> b ! (p + 2) = 0 \<and> b ! (p + 3) = 1)"

lemma startcode_at_Cons:
  "startcode_at (x # b) (Suc p) n \<longleftrightarrow> startcode_at b p n"
  by (simp add: startcode_at_def add.commute [of p])

lemma startcode_at_0:
  "startcode_at (a # b # c # d # e # r) 0 n \<longleftrightarrow>
     a = 0 \<and> b = 0 \<and> (if n = 3 then c = 1 else n = 4 \<and> c = 0 \<and> d = 1)"
  by (simp add: startcode_at_def numeral_2_eq_2 numeral_3_eq_3)

lemma find_startcode_from_spec:
  "case find_startcode_from i b of
     None \<Rightarrow> \<forall>p n. \<not> startcode_at b p n
   | Some (q, n) \<Rightarrow> i \<le> q \<and> startcode_at b (q - i) n \<and> (\<forall>p m. p < q - i \<longrightarrow> \<not> startcode_at b p m)"
proof (induction i b rule: find_startcode_from.induct)
  case (1 i a b c d e r)
  let ?s = "a # b # c # d # e # r" and ?t = "b # c # d # e # r"
  show ?case
  proof (cases "a = 0 \<and> b = 0 \<and> (c = 1 \<or> c = 0 \<and> d = 1)")
    case True
    then show ?thesis by (auto simp: startcode_at_0)
  next
    case False
    then have none: "\<not> startcode_at ?s 0 n" for n by (auto simp: startcode_at_0 split: if_splits)
    have step: "find_startcode_from i ?s = find_startcode_from (i + 1) ?t" using False by auto
    have IH: "case find_startcode_from (i + 1) ?t of
       None \<Rightarrow> \<forall>p n. \<not> startcode_at ?t p n
     | Some (q, n) \<Rightarrow> i + 1 \<le> q \<and> startcode_at ?t (q - (i + 1)) n
         \<and> (\<forall>p m. p < q - (i + 1) \<longrightarrow> \<not> startcode_at ?t p m)"
      using False "1.IH" by auto
    have split: "startcode_at ?s p n \<longleftrightarrow> p \<noteq> 0 \<and> startcode_at ?t (p - 1) n" for p n
      using none startcode_at_Cons [of a ?t] by (cases p) auto
    show ?thesis
      unfolding step split using IH by (auto split: option.splits simp: less_diff_conv)
  qed
qed (auto simp: startcode_at_def)

text \<open>
  \<open>ga_find_startcode\<close> returns the first position, with at least five bytes left, at which
  the bytes 00 00 01 or 00 00 00 01 stand, with the length of the one found, and NULL
  exactly when there is none; it never reads past the end.
\<close>

theorem find_startcode_first:
  "case ga_find_startcode b of
     None \<Rightarrow> \<forall>p n. \<not> startcode_at b p n
   | Some (q, n) \<Rightarrow> startcode_at b q n \<and> (\<forall>p m. p < q \<longrightarrow> \<not> startcode_at b p m)"
  using find_startcode_from_spec [where i = 0 and b = b] by (auto simp: ga_find_startcode_def split: option.splits)

theorem find_startcode_first_witness:
  "ga_find_startcode [7, 0, 0, 0, 1, 9] = Some (1, 4) \<and> startcode_at [7, 0, 0, 0, 1, 9] 1 4"
proof -
  have e: "ga_find_startcode [7, 0, 0, 0, 1, 9] = Some (1, 4)" by (simp add: ga_find_startcode_def)
  show ?thesis using find_startcode_first [where b = "[7, 0, 0, 0, 1, 9]"] unfolding e by simp
qed

section \<open>Channel layouts\<close>

lemma bits_double: "{i. bit (2 * m :: nat) i} = Suc ` {i. bit m i}"
proof (intro set_eqI)
  fix i
  show "i \<in> {i. bit (2 * m) i} \<longleftrightarrow> i \<in> Suc ` {i. bit m i}"
    by (cases i) (auto simp: bit_0 bit_double_iff image_iff)
qed

lemma bits_double_Suc: "{i. bit (Suc (2 * m)) i} = insert 0 (Suc ` {i. bit m i})"
proof (intro set_eqI)
  fix i
  show "i \<in> {i. bit (Suc (2 * m)) i} \<longleftrightarrow> i \<in> insert 0 (Suc ` {i. bit m i})"
    by (cases i) (auto simp: bit_0 bit_Suc image_iff)
qed

lemma bits_finite: "finite {i. bit (m :: nat) i}"
proof -
  have "i < m" if "bit m i" for i
  proof -
    from that have "m div 2 ^ i \<noteq> 0" unfolding bit_iff_odd by (metis even_zero)
    then have "2 ^ i \<le> m" by (simp add: div_eq_0_iff)
    with less_exp [of i] show ?thesis by linarith
  qed
  then have "{i. bit m i} \<subseteq> {..<m}" by auto
  then show ?thesis by (rule finite_subset) simp
qed

lemma card_bits_and_pred:
  "0 < m \<Longrightarrow> card {i. bit (m :: nat) i} = Suc (card {i. bit (m AND (m - 1)) i})"
proof (induction m rule: nat_bit_induct)
  case (even n)
  then show ?case
    unfolding nat_and_pred(1) [OF even.hyps] bits_double by (simp add: card_image)
next
  case (odd n)
  show ?case
  proof (cases "n = 0")
    case False
    then have "Suc (2 * n) AND (Suc (2 * n) - 1) = 2 * n" using nat_and_pred(2) [of n] by simp
    then show ?thesis
      by (simp only: bits_double_Suc) (simp add: bits_double card_insert_if bits_finite image_iff)
  qed (use bits_double_Suc [of 0] in simp)
qed simp

lemma nb_channels_loop_card: "nb_channels_loop x n = n + card {i. bit x i}"
proof (induction x n rule: nb_channels_loop.induct)
  case (1 x n)
  show ?case
  proof (cases "x = 0")
    case False
    have bits: "{i. bit (unat y) i} = {i. bit y i}" for y :: u64
      by (auto simp: bit_unsigned_iff bit_imp_le_length)
    have "card {i. bit x i} = Suc (card {i. bit (x AND (x - 1)) i})"
      using card_bits_and_pred [of "unat x"] False
      unfolding unat_and_pred [OF False, symmetric] bits by (simp add: unat_gt_0)
    with False 1 show ?thesis by (subst nb_channels_loop.simps) simp
  qed (simp add: nb_channels_loop.simps)
qed

text \<open>
  The number of channels of a layout is the number of its bits set, for every 64-bit
  layout: the loop ends and counts each bit once.
\<close>

theorem nb_channels_popcount: "ga_get_channel_layout_nb_channels x = card {i. bit x i}"
  by (simp add: ga_get_channel_layout_nb_channels_def nb_channels_loop_card)

section \<open>Sample buffers\<close>

lemma and_not_mask: "(x :: int) AND NOT (2 ^ k - 1) = x div 2 ^ k * 2 ^ k"
proof -
  have "x AND NOT (mask k) = push_bit k (drop_bit k x)"
    by (rule bit_eqI) (auto simp: bit_simps)
  then show ?thesis by (simp add: mask_eq_exp_minus_1 push_bit_eq_mult drop_bit_eq_div)
qed

lemma GAALIGN_pow2:
  assumes "0 \<le> x" "x + 2 ^ k \<le> INT_MAX"
  obtains y where "GAALIGN x (2 ^ k) = Some y" "x \<le> y" "y \<le> x + 2 ^ k - 1" "2 ^ k dvd y"
proof
  let ?p = "2 ^ k :: int"
  let ?y = "(x + ?p - 1) div ?p * ?p"
  have p: "1 \<le> ?p" by simp
  have "chk32 (x + ?p) = Some (x + ?p)" "chk32 (x + ?p - 1) = Some (x + ?p - 1)"
    using assms p by (intro chk32_Some; unfold INT_MIN_def INT_MAX_def; linarith)+
  then show "GAALIGN x (2 ^ k) = Some ?y"
    by (simp add: GAALIGN_def and_not_mask)
  have "(x + ?p - 1) mod ?p = (x + ?p - 1) - ?y" by (simp add: minus_div_mult_eq_mod)
  moreover have "0 \<le> (x + ?p - 1) mod ?p" "(x + ?p - 1) mod ?p < ?p" by simp_all
  ultimately show "x \<le> ?y" "?y \<le> x + ?p - 1" by linarith+
qed simp

lemma bytes_per_sample_cases:
  "ga_get_bytes_per_sample f = 0 \<or> ga_get_bytes_per_sample f \<in> {1, 2, 4, 8}"
  by (cases f) (simp_all add: ga_get_bytes_per_sample_def drop_bit_eq_div)

lemma le_div_mult: "0 < b \<Longrightarrow> x \<le> y div b \<Longrightarrow> x * b \<le> (y :: int)"
proof -
  assume b: "0 < b" and x: "x \<le> y div b"
  have "x * b \<le> y div b * b" using b x by (intro mult_right_mono) auto
  also have "\<dots> = y - y mod b" by (simp add: minus_mod_eq_div_mult)
  also have "\<dots> \<le> y" using b by simp
  finally show ?thesis .
qed

lemma le_mult_pos: "(1 :: int) \<le> c \<Longrightarrow> 0 \<le> x \<Longrightarrow> x \<le> x * c"
  using mult_left_mono [of 1 c x] by simp

text \<open>The part of the computation after the default alignment is resolved.\<close>

lemma buffer_size_core:
  fixes ch ns sz a :: int and k :: nat
  assumes a: "a = 2 ^ k" and pos: "0 < ch" "0 < ns" "1 \<le> sz"
    and le: "ch \<le> INT_MAX div a" and fit: "ch * ns \<le> (INT_MAX - a * ch) div sz"
  shows "a * ch \<le> INT_MAX" "ns * sz \<le> INT_MAX" "ns * sz * ch \<le> INT_MAX"
    "\<exists>y. GAALIGN (ns * sz) a = Some y \<and> ns * sz \<le> y \<and> y * ch \<le> INT_MAX \<and> a dvd y"
    "\<exists>y. GAALIGN (ns * sz * ch) a = Some y \<and> ns * sz * ch \<le> y \<and> y \<le> INT_MAX \<and> a dvd y"
proof -
  have a1: "1 \<le> a" by (simp add: a)
  then show "a * ch \<le> INT_MAX" using le_div_mult [OF _ le] by (simp add: mult.commute)
  have total: "ns * sz * ch + a * ch \<le> INT_MAX"
    using le_div_mult [OF _ fit] pos by (simp add: ac_simps)
  have line: "0 \<le> ns * sz" "ns * sz \<le> ns * sz * ch" "a \<le> a * ch" "0 \<le> ns * sz * ch" "0 \<le> a * ch"
    using pos a1 by (simp_all add: le_mult_pos)
  with total show "ns * sz \<le> INT_MAX" "ns * sz * ch \<le> INT_MAX" by linarith+
  obtain y where y: "GAALIGN (ns * sz) a = Some y" "ns * sz \<le> y" "y \<le> ns * sz + a - 1" "a dvd y"
    using GAALIGN_pow2 [of "ns * sz" k] line total a by auto
  have "y * ch \<le> (ns * sz + a) * ch" using y(3) pos by (intro mult_right_mono) auto
  with total y show "\<exists>y. GAALIGN (ns * sz) a = Some y \<and> ns * sz \<le> y \<and> y * ch \<le> INT_MAX \<and> a dvd y"
    by (simp add: distrib_right)
  obtain z where "GAALIGN (ns * sz * ch) a = Some z" "ns * sz * ch \<le> z" "z \<le> ns * sz * ch + a - 1" "a dvd z"
    using GAALIGN_pow2 [of "ns * sz * ch" k] line total a by auto
  moreover from this total line(3) have "z \<le> INT_MAX" by linarith
  ultimately show "\<exists>y. GAALIGN (ns * sz * ch) a = Some y \<and> ns * sz * ch \<le> y \<and> y \<le> INT_MAX \<and> a dvd y"
    by auto
qed

lemma c_div_INT: "0 < a \<Longrightarrow> 0 \<le> x \<Longrightarrow> c_div x a = x div a"
  by (rule c_div_nonneg)

text \<open>
  For a power of two as alignment (0 stands for the default) and a product of channels and
  samples in the range of \<open>int\<close>, \<open>ga_samples_get_buffer_size\<close> never overflows: it
  rejects the request, or returns a size in the range of \<open>int\<close> that holds all samples
  of all channels and is a multiple of the alignment.
\<close>

theorem samples_buffer_size:
  assumes al: "align = 0 \<or> align = 2 ^ k" and prod: "nb_channels * (nb_samples + 32) \<le> INT_MAX"
    and rng: "nb_samples \<le> INT_MAX" "nb_channels \<le> INT_MAX"
  shows "\<exists>r. ga_samples_get_buffer_size nb_channels nb_samples fmt align = Some r \<and>
    (r = GA_E_INVALIDARG \<or>
     nb_channels * nb_samples * ga_get_bytes_per_sample fmt \<le> r \<and> r \<le> INT_MAX \<and> (align \<noteq> 0 \<longrightarrow> align dvd r))"
proof (cases "ga_get_bytes_per_sample fmt = 0 \<or> nb_samples \<le> 0 \<or> nb_channels \<le> 0 \<or>
    align = 0 \<and> nb_samples > INT_MAX - 31")
  case True
  then show ?thesis by (auto simp: ga_samples_get_buffer_size_def Let_def)
next
  case False
  let ?sz = "ga_get_bytes_per_sample fmt" and ?ch = nb_channels
  have sz: "1 \<le> ?sz" using False bytes_per_sample_cases [of fmt] by auto
  obtain a j ns where a: "a = 2 ^ j" "align \<noteq> 0 \<longrightarrow> a = align" and ns: "nb_samples \<le> ns" "ns \<le> nb_samples + 31"
    and sel: "(if align = 0 then do { n \<leftarrow> GAALIGN nb_samples 32; Some (1, n) } else Some (align, nb_samples)) = Some (a, ns)"
  proof (cases "align = 0")
    case True
    have "nb_samples + 32 \<le> (nb_samples + 32) * nb_channels" using False by (intro le_mult_pos) auto
    then have "nb_samples + 32 \<le> INT_MAX" using prod by (simp add: mult.commute)
    then obtain n where "GAALIGN nb_samples (2 ^ 5) = Some n" "nb_samples \<le> n" "n \<le> nb_samples + 2 ^ 5 - 1"
      using GAALIGN_pow2 [of nb_samples 5] False True by auto
    with True show ?thesis using that [of 1 0 n] by simp
  next
    case nz: False
    with al show ?thesis using that [of align k nb_samples] by simp
  qed
  have a0: "0 < a" by (simp add: a)
  have pos: "0 < ?ch" "0 < ns" using False ns by auto
  have "?ch * ns \<le> ?ch * (nb_samples + 32)" using ns pos by (intro mult_left_mono) auto
  with prod have m1: "?ch * ns \<le> INT_MAX" by linarith
  have m: "?ch * ns \<le> INT_MAX" "0 \<le> ?ch * ns" "?ch * nb_samples \<le> ?ch * ns"
    using m1 pos ns by (simp_all add: mult_left_mono)
  have eq: "ga_samples_get_buffer_size ?ch nb_samples fmt align =
    (if ?ch > c_div INT_MAX a then Some GA_E_INVALIDARG
     else do {
       m \<leftarrow> chk32 (?ch * ns); x \<leftarrow> chk32 (a * ?ch); d \<leftarrow> chk32 (INT_MAX - x);
       if m > c_div d ?sz then Some GA_E_INVALIDARG
       else do {
         l0 \<leftarrow> chk32 (ns * ?sz);
         l \<leftarrow> (if ga_sample_fmt_is_planar fmt then Some l0 else chk32 (l0 * ?ch));
         line_size \<leftarrow> GAALIGN l a;
         if ga_sample_fmt_is_planar fmt then chk32 (line_size * ?ch) else Some line_size } })"
  proof -
    have "\<not> (?sz = 0 \<or> nb_samples \<le> 0 \<or> ?ch \<le> 0)" "\<not> (align = 0 \<and> INT_MAX - 31 < nb_samples)"
      using False by auto
    then show ?thesis
      unfolding ga_samples_get_buffer_size_def Let_def sel by (simp only: if_False bind.bind_lunit prod.case)
  qed
  have d1: "c_div INT_MAX a = INT_MAX div a" using a0 by (simp add: c_div_INT INT_MAX_def)
  show ?thesis
  proof (cases "?ch \<le> INT_MAX div a")
    case F1: False
    then show ?thesis unfolding eq d1 by simp
  next
    case T1: True
    have ac: "a * ?ch \<le> INT_MAX" "0 \<le> a * ?ch"
      using le_div_mult [OF a0 T1] a0 pos by (simp_all add: mult.commute)
    have d2: "c_div (INT_MAX - a * ?ch) ?sz = (INT_MAX - a * ?ch) div ?sz" using ac sz by (simp add: c_div_INT)
    have c: "chk32 (?ch * ns) = Some (?ch * ns)" "chk32 (a * ?ch) = Some (a * ?ch)"
      "chk32 (INT_MAX - a * ?ch) = Some (INT_MAX - a * ?ch)"
      using ac m by (simp_all add: chk32_def INT_MIN_def INT_MAX_def)
    show ?thesis
    proof (cases "?ch * ns \<le> (INT_MAX - a * ?ch) div ?sz")
      case F2: False
      with T1 show ?thesis unfolding eq d1 by (simp add: c d2)
    next
      case T2: True
      note core = buffer_size_core [OF a(1) pos sz T1 T2]
      have "?ch * nb_samples * ?sz \<le> ?ch * ns * ?sz" using m(3) sz by (intro mult_right_mono) auto
      then have low: "?ch * nb_samples * ?sz \<le> ns * ?sz * ?ch" by (simp add: ac_simps)
      have "0 \<le> ns * ?sz" "0 \<le> ns * ?sz * ?ch" using pos sz by simp_all
      then have c': "chk32 (ns * ?sz) = Some (ns * ?sz)" "chk32 (ns * ?sz * ?ch) = Some (ns * ?sz * ?ch)"
        using core(2,3) by (simp_all add: chk32_def INT_MIN_def)
      show ?thesis
      proof (cases "ga_sample_fmt_is_planar fmt")
        case True
        obtain y where y: "GAALIGN (ns * ?sz) a = Some y" "ns * ?sz \<le> y" "y * ?ch \<le> INT_MAX" "a dvd y"
          using core(4) by blast
        have ge: "ns * ?sz * ?ch \<le> y * ?ch" using y(2) pos by (intro mult_right_mono) auto
        then have "chk32 (y * ?ch) = Some (y * ?ch)"
          using y(3) \<open>0 \<le> ns * ?sz * ?ch\<close> by (simp add: chk32_def INT_MIN_def)
        then have "ga_samples_get_buffer_size ?ch nb_samples fmt align = Some (y * ?ch)"
          using T1 T2 True y(1) unfolding eq d1 by (simp add: c c' d2)
        with y ge low a show ?thesis by auto
      next
        case False
        obtain y where y: "GAALIGN (ns * ?sz * ?ch) a = Some y" "ns * ?sz * ?ch \<le> y" "y \<le> INT_MAX" "a dvd y"
          using core(5) by blast
        then have "ga_samples_get_buffer_size ?ch nb_samples fmt align = Some y"
          using T1 T2 False unfolding eq d1 by (simp add: c c' d2)
        with y low a show ?thesis by auto
      qed
    qed
  qed
qed

theorem samples_buffer_size_witness:
  "\<exists>r. ga_samples_get_buffer_size 2 1024 GA_SAMPLE_FMT_S16 0 = Some r"
  using samples_buffer_size [of 0 0 2 1024 GA_SAMPLE_FMT_S16] by (auto simp: INT_MAX_def)

text \<open>
  Without the bound on the product the guard itself overflows: two channels of
  \<open>2 ^ 30\<close> samples make the signed product \<open>nb_channels * nb_samples\<close> leave the range of
  \<open>int\<close> before it is compared.
\<close>

theorem samples_guard_overflows: "ga_samples_get_buffer_size 2 (2 ^ 30) GA_SAMPLE_FMT_U8 1 = None"
  by (simp add: ga_samples_get_buffer_size_def ga_get_bytes_per_sample_def drop_bit_eq_div c_div_def
      chk32_def INT_MAX_def)

section \<open>Window cropping\<close>

lemma c_mod_2_zero: "c_mod x 2 = 0 \<longleftrightarrow> even x"
  by (auto simp: c_mod_def sgn_if even_iff_mod_2_eq_zero [symmetric] split: if_splits)

text \<open>
  When \<open>ga_crop_window\<close> reports a window, the rectangle has even width and height and lies
  inside the screen.
\<close>

theorem crop_window_even:
  assumes "ga_crop_window ws c rect ok = (1, pr, Some r)"
  shows "pr = Some True \<and> even (rright r - rleft r + 1) \<and> even (rbottom r - rtop r + 1)
    \<and> 0 \<le> rleft r \<and> 0 \<le> rtop r \<and> rright r < fst (ws_screen ws) \<and> rbottom r < snd (ws_screen ws)"
  using assms
  by (auto simp: ga_crop_window_def Let_def c_mod_2_zero split: option.splits if_splits)

definition demo_windows :: window_system where
  "demo_windows = \<lparr>ws_found = \<lambda>_ _. True, ws_moved = True, ws_client = Some (0, 0, 101, 50),
     ws_to_screen = \<lambda>(x, y). Some (x + 10, y + 20), ws_screen = (640, 480)\<rparr>"

definition demo_rect :: "int \<Rightarrow> int \<Rightarrow> int \<Rightarrow> int \<Rightarrow> gaRect" where
  "demo_rect l t r b = \<lparr>rleft = l, rtop = t, rright = r, rbottom = b, rwidth = 0, rheight = 0, rlinesize = 0, rsize = 0\<rparr>"

theorem crop_window_even_witness:
  "ga_crop_window demo_windows (snd (ga_conf_writev ''find-window-name'' ''game'' ga_conf_initial))
     (Some (demo_rect 0 0 0 0)) True = (1, Some True, Some (demo_rect 9 20 110 69))
   \<and> even (rright (demo_rect 9 20 110 69) - rleft (demo_rect 9 20 110 69) + 1)"
proof -
  have e: "ga_crop_window demo_windows (snd (ga_conf_writev ''find-window-name'' ''game'' ga_conf_initial))
     (Some (demo_rect 0 0 0 0)) True = (1, Some True, Some (demo_rect 9 20 110 69))"
    by (simp add: ga_crop_window_def demo_windows_def demo_rect_def ga_conf_readv_def ga_conf_writev_def
        conf_put_def conf_var_def gaConfVar_assign_def gaConfVar_value_def c_mod_def Let_def
        ga_conf_initial_def om_find_def)
  from crop_window_even [OF e] e show ?thesis by blast
qed

section \<open>Aggregated statistics\<close>

text \<open>Recording a series of values under one key: the lines written and what is still held.\<close>

fun agg_run :: "nat \<Rightarrow> int \<Rightarrow> nat \<Rightarrow> int list \<Rightarrow> aggmap \<Rightarrow> aggmap \<times> (int list \<times> bool) list" where
  "agg_run pl key limit [] m = (m, [])"
| "agg_run pl key limit (v # vs) m =
     (let (m', out) = ga_aggregated_print pl key limit v m; (m'', outs) = agg_run pl key limit vs m'
      in (m'', case out of None \<Rightarrow> outs | Some l \<Rightarrow> l # outs))"

definition agg_held :: "int \<Rightarrow> aggmap \<Rightarrow> int list" where
  "agg_held key m = (case om_find m key of None \<Rightarrow> [] | Some vs \<Rightarrow> vs)"

lemma length_dec_of_nat_less: "n < 10 ^ k \<Longrightarrow> 0 < k \<Longrightarrow> length (dec_of_nat n) \<le> k"
proof (induction k arbitrary: n)
  case (Suc k)
  show ?case
  proof (cases "n < 10")
    case True
    then show ?thesis by (subst dec_of_nat.simps) simp
  next
    case False
    then have "n div 10 < 10 ^ k" "0 < k" using Suc.prems by (auto intro!: gr0I)
    then have "length (dec_of_nat (n div 10)) \<le> k" by (rule Suc.IH)
    with False show ?thesis by (subst dec_of_nat.simps) simp
  qed
qed simp

lemma length_dec_of_int: "INT_MIN \<le> v \<Longrightarrow> v \<le> INT_MAX \<Longrightarrow> length (dec_of_int v) \<le> 11"
proof -
  assume v: "INT_MIN \<le> v" "v \<le> INT_MAX"
  then have "nat v < 10 ^ 10" "nat (- v) < 10 ^ 10" by (auto simp: INT_MIN_def INT_MAX_def)
  then have "length (dec_of_nat (nat v)) \<le> 10" "length (dec_of_nat (nat (- v))) \<le> 10"
    by (auto intro!: length_dec_of_nat_less)
  then show ?thesis by (simp add: dec_of_int_def)
qed

lemma agg_fit_all:
  assumes "\<forall>v \<in> set vs. INT_MIN \<le> v \<and> v \<le> INT_MAX" "16 + 12 * int (length vs) < l"
  shows "agg_fit l vs = vs"
  using assms
proof (induction vs arbitrary: l)
  case (Cons v vs)
  then show ?case using length_dec_of_int [of v] by (force intro!: Cons.IH)
qed simp

lemma agg_print_step:
  assumes "ga_aggregated_print pl key limit v m = (m', out)" "pl \<le> 32" "limit \<le> 1000"
    and "\<forall>x \<in> set (v # agg_held key m). INT_MIN \<le> x \<and> x \<le> INT_MAX" "length (agg_held key m) < max 2 limit"
  shows "(case out of None \<Rightarrow> agg_held key m' = agg_held key m @ [v]
          | Some (l, short) \<Rightarrow> l = agg_held key m @ [v] \<and> \<not> short \<and> agg_held key m' = [])
    \<and> length (agg_held key m') < max 2 limit"
proof -
  have "agg_fit (16384 - int pl) (agg_held key m @ [v]) = agg_held key m @ [v]"
    using assms by (intro agg_fit_all) auto
  with assms(1,5) show ?thesis
    by (auto simp: ga_aggregated_print_def agg_held_def Let_def split: option.splits if_splits)
qed

lemma agg_run_conserves:
  assumes "agg_run pl key limit vs m = (m', outs)" "pl \<le> 32" "limit \<le> 1000"
    and "\<forall>x \<in> set (agg_held key m @ vs). INT_MIN \<le> x \<and> x \<le> INT_MAX" "length (agg_held key m) < max 2 limit"
  shows "concat (map fst outs) @ agg_held key m' = agg_held key m @ vs
    \<and> (\<forall>l \<in> set outs. \<not> snd l) \<and> length (agg_held key m') < max 2 limit"
  using assms
proof (induction vs arbitrary: m outs)
  case (Cons v vs)
  obtain m1 out where s: "ga_aggregated_print pl key limit v m = (m1, out)" by fastforce
  obtain outs' where r: "agg_run pl key limit vs m1 = (m', outs')"
    and outs: "outs = (case out of None \<Rightarrow> outs' | Some l \<Rightarrow> l # outs')"
    using Cons.prems(1) s by (auto split: prod.splits)
  have st: "case out of None \<Rightarrow> agg_held key m1 = agg_held key m @ [v]
          | Some (l, short) \<Rightarrow> l = agg_held key m @ [v] \<and> \<not> short \<and> agg_held key m1 = []"
    "length (agg_held key m1) < max 2 limit"
    using agg_print_step [OF s] Cons.prems by auto
  then have "\<forall>x \<in> set (agg_held key m1 @ vs). INT_MIN \<le> x \<and> x \<le> INT_MAX"
    using Cons.prems(4) by (auto split: option.splits)
  with Cons.IH [OF r] Cons.prems st(2)
  have "concat (map fst outs') @ agg_held key m' = agg_held key m1 @ vs"
    "\<forall>l \<in> set outs'. \<not> snd l" "length (agg_held key m') < max 2 limit" by auto
  with st(1) outs show ?case by (auto split: option.splits)
qed auto

text \<open>
  With a limit of at most 1000 records, recording a series of values under one key loses
  and reorders nothing: the lines written, in order, followed by the values still held
  are the values recorded, no line is cut short, and fewer values than the limit (or one) are held.
\<close>

theorem aggregated_print_conserves:
  assumes "agg_run pl key limit vs om_empty = (m', outs)" "pl \<le> 32" "limit \<le> 1000"
    and "\<forall>x \<in> set vs. INT_MIN \<le> x \<and> x \<le> INT_MAX"
  shows "concat (map fst outs) @ agg_held key m' = vs \<and> (\<forall>l \<in> set outs. \<not> snd l)
    \<and> length (agg_held key m') < max 2 limit"
  using agg_run_conserves [of pl key limit vs om_empty m' outs] assms by (simp add: agg_held_def)

theorem aggregated_print_conserves_witness:
  "concat (map fst [([1, 2, 3], False)]) @ agg_held 5 [(5, [4])] = [1, 2, 3, 4]"
proof -
  have e: "agg_run 24 5 3 [1, 2, 3, 4] om_empty = ([(5, [4])], [([1, 2, 3], False)])" by code_simp
  show ?thesis using aggregated_print_conserves [OF e] by (simp add: INT_MIN_def INT_MAX_def)
qed

end
