(* ===== verification/Fifo.thy ===== *)
theory Fifo
  imports Prelude
begin

text \<open>
  The contract of the first-in first-out containers of the streamer: the output pool of
  the frame pipe and the controller's message ring. \<open>rel s q\<close> says that the state
  \<open>s\<close> holds the elements \<open>q\<close>, oldest first. \<open>fifo_exec\<close> runs a sequence of
  operations; the locale's lemmas speak of whole sequences.
\<close>

datatype 'a fifo_op = Push 'a | Pop

text \<open>The elements accepted, the elements delivered and the final state.\<close>

fun fifo_exec ::
  "('a \<Rightarrow> 's \<Rightarrow> 's option) \<Rightarrow> ('s \<Rightarrow> ('a \<times> 's) option) \<Rightarrow> 'a fifo_op list \<Rightarrow> 's \<Rightarrow> 'a list \<times> 'a list \<times> 's" where
  "fifo_exec push pop [] s = ([], [], s)"
| "fifo_exec push pop (Push x # ops) s =
     (case push x s of
        None \<Rightarrow> fifo_exec push pop ops s
      | Some s' \<Rightarrow> (let (ins, outs, t) = fifo_exec push pop ops s' in (x # ins, outs, t)))"
| "fifo_exec push pop (Pop # ops) s =
     (case pop s of
        None \<Rightarrow> fifo_exec push pop ops s
      | Some (x, s') \<Rightarrow> (let (ins, outs, t) = fifo_exec push pop ops s' in (ins, x # outs, t)))"

locale fifo =
  fixes rel :: "'s \<Rightarrow> 'a list \<Rightarrow> bool"
    and push :: "'a \<Rightarrow> 's \<Rightarrow> 's option"
    and pop :: "'s \<Rightarrow> ('a \<times> 's) option"
  assumes push_rel: "rel s q \<Longrightarrow> push x s = Some s' \<Longrightarrow> rel s' (q @ [x])"
    and pop_rel: "rel s (x # q) \<Longrightarrow> \<exists>s'. pop s = Some (x, s') \<and> rel s' q"
    and pop_empty: "rel s [] \<Longrightarrow> pop s = None"
begin

lemma exec_order:
  "rel s q \<Longrightarrow> fifo_exec push pop ops s = (ins, outs, t) \<Longrightarrow> \<exists>q'. rel t q' \<and> q @ ins = outs @ q'"
proof (induction ops arbitrary: s q ins outs)
  case (Cons a ops)
  show ?case
  proof (cases a)
    case (Push x)
    show ?thesis
    proof (cases "push x s")
      case None
      with Cons Push show ?thesis by auto
    next
      case (Some s')
      obtain ins' where r: "fifo_exec push pop ops s' = (ins', outs, t)" "ins = x # ins'"
        using Cons.prems Some Push by (auto split: prod.splits)
      have "rel s' (q @ [x])" using push_rel [OF Cons.prems(1) Some] .
      from Cons.IH [OF this r(1)] r(2) show ?thesis by simp
    qed
  next
    case Pop
    show ?thesis
    proof (cases q)
      case Nil
      with Cons.prems Pop pop_empty [of s] Cons.IH [of s "[]" ins outs] show ?thesis by auto
    next
      case q: (Cons x q1)
      then obtain s' where s': "pop s = Some (x, s')" "rel s' q1" using pop_rel Cons.prems(1) by blast
      obtain outs' where r: "fifo_exec push pop ops s' = (ins, outs', t)" "outs = x # outs'"
        using Cons.prems s' Pop by (auto split: prod.splits)
      from Cons.IH [OF s'(2) r(1)] r(2) q show ?thesis by simp
    qed
  qed
qed auto

text \<open>Starting empty, the elements delivered are a prefix of the elements accepted, in order.\<close>

lemma exec_prefix:
  "rel s [] \<Longrightarrow> fifo_exec push pop ops s = (ins, outs, t) \<Longrightarrow> \<exists>q'. rel t q' \<and> ins = outs @ q'"
  using exec_order [of s "[]"] by simp

end

end
