(* ===== verification/Dpipe.thy ===== *)
theory Dpipe
  imports Fifo GaCommon
begin

text \<open>
  The frame pipe of \<open>sources/streamer/core/dpipe.cpp\<close>: a pool of free buffers (a stack)
  and a pool of stored frames (a queue), both singly linked lists of buffers in memory, and the
  registry of pipes by name. Addresses are numbers, 0 is NULL; a map gives the buffer at an
  address, and an access outside it is the result \<open>None\<close>. What \<open>malloc\<close> and
  \<open>strdup\<close> return are arguments of the creation.
\<close>

section \<open>Data\<close>

record dpipe_buffer_t =
  db_pointer :: nat
  db_internal :: nat
  db_offset :: int
  db_next :: nat

record dpipe_t =
  channel_id :: int
  dp_name :: "string option"
  dp_in :: nat
  dp_out :: nat
  dp_out_tail :: nat
  in_count :: int
  out_count :: int

type_synonym dheap = "nat \<rightharpoonup> dpipe_buffer_t"

definition set_next :: "nat \<Rightarrow> nat \<Rightarrow> dheap \<Rightarrow> dheap option" where
  "set_next a n h = (case h a of None \<Rightarrow> None | Some b \<Rightarrow> Some (h(a \<mapsto> b\<lparr>db_next := n\<rparr>)))"

section \<open>Moving buffers\<close>

text \<open>Unlinking the first buffer of the output pool, as three operations do it.\<close>

definition take_out :: "dpipe_t \<Rightarrow> dheap \<Rightarrow> (nat \<times> dpipe_t \<times> dheap) option" where
  "take_out p h = do {
     vbuf \<leftarrow> h (dp_out p);
     h' \<leftarrow> set_next (dp_out p) 0 h;
     Some (dp_out p,
       p\<lparr>dp_out := db_next vbuf,
         dp_out_tail := (if db_next vbuf = 0 then 0 else dp_out_tail p),
         out_count := out_count p - 1\<rparr>, h')
   }"

definition dpipe_get :: "dpipe_t \<Rightarrow> dheap \<Rightarrow> (nat \<times> dpipe_t \<times> dheap) option" where
  "dpipe_get p h =
     (if dp_in p \<noteq> 0 then do {
        vbuf \<leftarrow> h (dp_in p);
        h' \<leftarrow> set_next (dp_in p) 0 h;
        Some (dp_in p, p\<lparr>dp_in := db_next vbuf, in_count := in_count p - 1\<rparr>, h')
      }
      else if dp_out p \<noteq> 0 then take_out p h
      else Some (0, p, h))"

definition dpipe_put :: "nat \<Rightarrow> dpipe_t \<Rightarrow> dheap \<Rightarrow> (dpipe_t \<times> dheap) option" where
  "dpipe_put buffer p h = do {
     h' \<leftarrow> set_next buffer (dp_in p) h;
     Some (p\<lparr>dp_in := buffer, in_count := in_count p + 1\<rparr>, h')
   }"

definition dpipe_store :: "nat \<Rightarrow> dpipe_t \<Rightarrow> dheap \<Rightarrow> (dpipe_t \<times> dheap) option" where
  "dpipe_store buffer p h = do {
     (p', h') \<leftarrow>
       (if dp_out_tail p \<noteq> 0
        then do { h' \<leftarrow> set_next (dp_out_tail p) buffer h; Some (p\<lparr>dp_out_tail := buffer\<rparr>, h') }
        else Some (p\<lparr>dp_out := buffer, dp_out_tail := buffer\<rparr>, h));
     h'' \<leftarrow> set_next buffer 0 h';
     Some (p'\<lparr>out_count := out_count p' + 1\<rparr>, h'')
   }"

definition dpipe_load_nowait :: "dpipe_t \<Rightarrow> dheap \<Rightarrow> (nat \<times> dpipe_t \<times> dheap) option" where
  "dpipe_load_nowait p h = (if dp_out p \<noteq> 0 then take_out p h else Some (0, p, h))"

text \<open>
  While \<open>dpipe_load\<close> waits the lock is released and other threads act on the pipe. The list
  gives what they did during each wait, in order; a wait that has not ended is
  \<open>Waiting\<close>. With a deadline there is one wait at most.
\<close>

datatype 'a blocking = Done 'a | Waiting

fun dpipe_load ::
  "bool \<Rightarrow> (dpipe_t \<times> dheap \<Rightarrow> dpipe_t \<times> dheap) list \<Rightarrow> bool \<Rightarrow> dpipe_t \<times> dheap
   \<Rightarrow> (nat \<times> dpipe_t \<times> dheap) option blocking" where
  "dpipe_load abstime waits failed (p, h) =
     (if dp_out p \<noteq> 0 then Done (take_out p h)
      else if abstime \<and> failed then Done (Some (0, p, h))
      else (case waits of
              [] \<Rightarrow> Waiting
            | w # ws \<Rightarrow> dpipe_load abstime ws abstime (w (p, h))))"

declare dpipe_load.simps [simp del]

lemma dpipe_load_cases:
  "dp_out p \<noteq> 0 \<Longrightarrow> dpipe_load t ws f (p, h) = Done (take_out p h)"
  "dp_out p = 0 \<Longrightarrow> t \<and> f \<Longrightarrow> dpipe_load t ws f (p, h) = Done (Some (0, p, h))"
  "dp_out p = 0 \<Longrightarrow> \<not> (t \<and> f) \<Longrightarrow> dpipe_load t [] f (p, h) = Waiting"
  "dp_out p = 0 \<Longrightarrow> \<not> (t \<and> f) \<Longrightarrow> dpipe_load t (w # ws) f (p, h) = dpipe_load t ws t (w (p, h))"
  by (auto simp: dpipe_load.simps)

section \<open>The registry\<close>

record dpipe_world =
  dw_pipes :: "nat \<rightharpoonup> dpipe_t"
  dw_bufs :: dheap
  dw_blocks :: "nat set"
  dpipemap :: "(string, nat) omap"

definition dpipe_lookup :: "string \<Rightarrow> dpipe_world \<Rightarrow> nat" where
  "dpipe_lookup name w = (case om_find (dpipemap w) name of Some a \<Rightarrow> a | None \<Rightarrow> 0)"

text \<open>
  The two loops of \<open>dpipe_destroy\<close>: free the data block and the buffer of every list element,
  reading the link first. \<open>None\<close> is an access to a buffer that is not there, or a loop
  that does not end.
\<close>

partial_function (option) free_list :: "nat \<Rightarrow> dheap \<times> nat set \<Rightarrow> (dheap \<times> nat set) option" where
  "free_list vbuf s =
     (if vbuf = 0 then Some s
      else (case fst s vbuf of
              None \<Rightarrow> None
            | Some b \<Rightarrow> free_list (db_next b) ((fst s)(vbuf := None), snd s - {db_internal b})))"

definition dpipe_destroy :: "nat \<Rightarrow> dpipe_world \<Rightarrow> (int \<times> dpipe_world) option" where
  "dpipe_destroy dpipe w =
     (if dpipe = 0 then Some (0, w)
      else do {
        p \<leftarrow> dw_pipes w dpipe;
        let m = (case dp_name p of None \<Rightarrow> dpipemap w | Some n \<Rightarrow> om_erase n (dpipemap w));
        s1 \<leftarrow> free_list (dp_in p) (dw_bufs w, dw_blocks w);
        s2 \<leftarrow> free_list (dp_out p) s1;
        Some (0, w\<lparr>dw_pipes := (dw_pipes w)(dpipe := None), dw_bufs := fst s2, dw_blocks := snd s2,
          dpipemap := m\<rparr>)
      })"

text \<open>
  The allocation loop of \<open>dpipe_create\<close>. Each entry of \<open>mem\<close> is what the two
  \<open>malloc\<close> calls of one round return. The flag tells whether all rounds succeeded.
\<close>

fun create_loop ::
  "nat \<Rightarrow> (nat \<times> u64) list \<Rightarrow> dpipe_t \<Rightarrow> dheap \<times> nat set \<Rightarrow> bool \<times> dpipe_t \<times> dheap \<times> nat set" where
  "create_loop 0 mem p s = (True, p, s)"
| "create_loop (Suc n) [] p s = (False, p, s)"
| "create_loop (Suc n) ((dbuffer, block) # mem) p s =
     (if dbuffer = 0 then (False, p, s)
      else (case ga_malloc block of
              None \<Rightarrow> (False, p, s)
            | Some (internal, off) \<Rightarrow>
                create_loop n mem
                  (p\<lparr>dp_in := dbuffer, in_count := in_count p + 1\<rparr>)
                  ((fst s)(dbuffer \<mapsto> \<lparr>db_pointer = unat internal + nat off, db_internal = unat internal,
                      db_offset = off, db_next = dp_in p\<rparr>),
                   insert (unat internal) (snd s))))"

text \<open>
  \<open>addr\<close> is the address of the new pipe, \<open>dup\<close> whether \<open>strdup\<close> succeeds. The result
  is the pipe, 0 for NULL.
\<close>

definition dpipe_create ::
  "nat \<Rightarrow> bool \<Rightarrow> (nat \<times> u64) list \<Rightarrow> int \<Rightarrow> string option \<Rightarrow> int \<Rightarrow> int \<Rightarrow> dpipe_world
   \<Rightarrow> (nat \<times> dpipe_world) option" where
  "dpipe_create addr dup mem cid name nframe maxframesize w =
     (case name of
        None \<Rightarrow> Some (0, w)
      | Some nm \<Rightarrow>
     if cid < 0 \<or> nframe \<le> 0 \<or> maxframesize \<le> 0 then Some (0, w)
     else if dpipe_lookup nm w \<noteq> 0 then Some (0, w)
     else let p = \<lparr>channel_id = cid, dp_name = (if dup then Some nm else None), dp_in = 0, dp_out = 0,
                   dp_out_tail = 0, in_count = 0, out_count = 0\<rparr>;
              (ok, p', bufs, blocks) =
                (if dup then create_loop (nat nframe) mem p (dw_bufs w, dw_blocks w)
                 else (False, p, dw_bufs w, dw_blocks w));
              w' = w\<lparr>dw_pipes := (dw_pipes w)(addr \<mapsto> p'), dw_bufs := bufs, dw_blocks := blocks\<rparr>
          in if ok then Some (addr, w'\<lparr>dpipemap := om_put nm addr (dpipemap w')\<rparr>)
             else do { (r, w'') \<leftarrow> dpipe_destroy addr w'; Some (0, w'') })"

section \<open>Linked lists in memory\<close>

fun chain :: "dheap \<Rightarrow> nat \<Rightarrow> nat list \<Rightarrow> bool" where
  "chain h a [] \<longleftrightarrow> a = 0"
| "chain h a (x # xs) \<longleftrightarrow> a = x \<and> x \<noteq> 0 \<and> (case h x of None \<Rightarrow> False | Some b \<Rightarrow> chain h (db_next b) xs)"

lemma chain_det: "chain h a xs \<Longrightarrow> chain h a ys \<Longrightarrow> xs = ys"
proof (induction xs arbitrary: a ys)
  case Nil
  then show ?case by (cases ys) auto
next
  case (Cons x xs)
  then show ?case by (cases ys) (auto split: option.splits)
qed

lemma chain_mapped: "chain h a xs \<Longrightarrow> x \<in> set xs \<Longrightarrow> x \<noteq> 0 \<and> h x \<noteq> None"
  by (induction xs arbitrary: a) (auto split: option.splits)

lemma chain_update: "a \<notin> set xs \<Longrightarrow> chain (h(a := v)) y xs = chain h y xs"
  by (induction xs arbitrary: y) (auto split: option.splits)

lemma chain_zero: "chain h a xs \<Longrightarrow> a = 0 \<longleftrightarrow> xs = []"
  by (cases xs) auto

lemma chain_hd: "chain h a xs \<Longrightarrow> a \<noteq> 0 \<Longrightarrow> \<exists>b ys. h a = Some b \<and> xs = a # ys \<and> chain h (db_next b) ys"
  by (cases xs) (auto split: option.splits)

lemma set_next_chain: "set_next a n h = Some h' \<Longrightarrow> a \<notin> set xs \<Longrightarrow> chain h' y xs = chain h y xs"
  by (auto simp: set_next_def chain_update split: option.splits)

lemma set_next_mapped: "h a \<noteq> None \<Longrightarrow> \<exists>h'. set_next a n h = Some h'"
  by (auto simp: set_next_def)

lemma set_next_dom: "set_next a n h = Some h' \<Longrightarrow> dom h' = dom h"
  by (auto simp: set_next_def split: option.splits if_splits)

text \<open>Linking a buffer behind the last one of a list.\<close>

lemma chain_snoc:
  assumes "chain h a (xs @ [t])" "distinct (xs @ [t])" "b \<notin> set (xs @ [t])" "b \<noteq> 0"
    and "set_next t b h = Some h1" "set_next b 0 h1 = Some h2"
  shows "chain h2 a (xs @ [t, b])"
  using assms
proof (induction xs arbitrary: a)
  case Nil
  then show ?case by (auto simp: set_next_def split: option.splits if_splits)
next
  case (Cons x xs)
  then obtain v where v: "h x = Some v" "chain h (db_next v) (xs @ [t])" "a = x" "x \<noteq> 0"
    by (auto split: option.splits)
  have "h2 x = Some v"
    using v Cons.prems by (auto simp: set_next_def split: option.splits if_splits)
  moreover have "chain h2 (db_next v) (xs @ [t, b])" using Cons v by auto
  ultimately show ?case using v by simp
qed

section \<open>What a pipe means\<close>

text \<open>
  \<open>ins\<close> are the free buffers, top of the stack first, \<open>outs\<close> the stored frames, oldest
  first.
\<close>

definition dp_rel :: "dpipe_t \<Rightarrow> dheap \<Rightarrow> nat list \<Rightarrow> nat list \<Rightarrow> bool" where
  "dp_rel p h ins outs \<longleftrightarrow> chain h (dp_in p) ins \<and> chain h (dp_out p) outs \<and> distinct (ins @ outs)
     \<and> dp_out_tail p = (if outs = [] then 0 else last outs)
     \<and> in_count p = int (length ins) \<and> out_count p = int (length outs)"

lemma take_out_rel:
  assumes "dp_rel p h ins (b # outs)"
  shows "\<exists>p' h'. take_out p h = Some (b, p', h') \<and> dp_rel p' h' ins outs \<and> dom h' = dom h"
proof -
  obtain v where v: "h b = Some v" "chain h (db_next v) outs" "dp_out p = b" "b \<noteq> 0"
    using assms by (auto simp: dp_rel_def split: option.splits)
  obtain h' where h': "set_next b 0 h = Some h'" using v set_next_mapped [of h b] by auto
  have "chain h' (db_next v) outs" "chain h' (dp_in p) ins"
    using assms v h' by (simp_all add: set_next_chain [OF h'] dp_rel_def)
  moreover have "dom h' = dom h" using set_next_dom [OF h'] .
  moreover have "db_next v = 0 \<longleftrightarrow> outs = []" using chain_zero [OF v(2)] .
  ultimately show ?thesis
    using assms v h' by (auto simp: take_out_def dp_rel_def)
qed

lemma get_rel:
  assumes "dp_rel p h ins outs"
  shows "\<exists>p' h'. dpipe_get p h =
      Some (case ins @ outs of [] \<Rightarrow> 0 | b # _ \<Rightarrow> b, p', h')
    \<and> dp_rel p' h' (tl ins) (if ins = [] then tl outs else outs) \<and> dom h' = dom h"
proof (cases ins)
  case Nil
  then have "dp_in p = 0" using assms by (simp add: dp_rel_def)
  with Nil show ?thesis
    using assms take_out_rel [of p h "[]"]
    by (cases outs) (auto simp: dpipe_get_def dp_rel_def split: option.splits)
next
  case (Cons b xs)
  obtain v where v: "h b = Some v" "chain h (db_next v) xs" "dp_in p = b" "b \<noteq> 0"
    using assms Cons by (auto simp: dp_rel_def split: option.splits)
  obtain h' where h': "set_next b 0 h = Some h'" using v set_next_mapped [of h b] by auto
  have "chain h' (db_next v) xs" "chain h' (dp_out p) outs"
    using assms v Cons by (auto simp: set_next_chain [OF h'] dp_rel_def)
  with assms v h' Cons show ?thesis using set_next_dom [OF h'] by (auto simp: dpipe_get_def dp_rel_def)
qed

text \<open>A buffer a client holds: it exists and is in neither pool.\<close>

definition dp_held :: "nat \<Rightarrow> dheap \<Rightarrow> nat list \<Rightarrow> nat list \<Rightarrow> bool" where
  "dp_held b h ins outs \<longleftrightarrow> b \<noteq> 0 \<and> b \<in> dom h \<and> b \<notin> set ins \<and> b \<notin> set outs"

lemma put_rel:
  assumes "dp_rel p h ins outs" "dp_held b h ins outs"
  shows "\<exists>p' h'. dpipe_put b p h = Some (p', h') \<and> dp_rel p' h' (b # ins) outs \<and> dom h' = dom h"
proof -
  obtain v where v: "h b = Some v" using assms by (auto simp: dp_held_def)
  obtain h' where h': "set_next b (dp_in p) h = Some h'" using v set_next_mapped [of h b] by auto
  have "chain h' (dp_in p) ins" "chain h' (dp_out p) outs" "h' b = Some (v\<lparr>db_next := dp_in p\<rparr>)"
    using assms v h' by (auto simp: set_next_chain [OF h'] dp_rel_def dp_held_def set_next_def)
  with assms h' set_next_dom [OF h'] show ?thesis by (auto simp: dpipe_put_def dp_rel_def dp_held_def)
qed

lemma store_rel:
  assumes "dp_rel p h ins outs" "dp_held b h ins outs"
  shows "\<exists>p' h'. dpipe_store b p h = Some (p', h') \<and> dp_rel p' h' ins (outs @ [b]) \<and> dom h' = dom h"
proof (cases outs rule: rev_cases)
  case Nil
  obtain v where v: "h b = Some v" using assms by (auto simp: dp_held_def)
  obtain h' where h': "set_next b 0 h = Some h'" using v set_next_mapped [of h b] by auto
  have "chain h' (dp_in p) ins" "h' b = Some (v\<lparr>db_next := 0\<rparr>)"
    using assms v h' by (auto simp: set_next_chain [OF h'] dp_rel_def dp_held_def set_next_def)
  with assms h' Nil set_next_dom [OF h'] show ?thesis
    by (auto simp: dpipe_store_def dp_rel_def dp_held_def)
next
  case (snoc xs t)
  have t: "t \<noteq> 0" "h t \<noteq> None" using assms snoc chain_mapped [of h _ outs t] by (auto simp: dp_rel_def)
  obtain h1 where h1: "set_next t b h = Some h1" using t set_next_mapped [of h t] by auto
  have "h1 b \<noteq> None" using assms set_next_dom [OF h1] by (auto simp: dp_held_def dom_def)
  then obtain h2 where h2: "set_next b 0 h1 = Some h2" using set_next_mapped [of h1 b] by auto
  have "chain h2 (dp_out p) (xs @ [t, b])"
    using assms snoc h1 h2 by (intro chain_snoc) (auto simp: dp_rel_def dp_held_def)
  moreover have "chain h2 (dp_in p) ins"
    using assms snoc by (simp add: set_next_chain [OF h2] set_next_chain [OF h1] dp_rel_def dp_held_def)
  ultimately show ?thesis
    using assms snoc h1 h2 t set_next_dom [OF h1] set_next_dom [OF h2]
    by (auto simp: dpipe_store_def dp_rel_def dp_held_def)
qed

lemma load_nowait_rel:
  assumes "dp_rel p h ins outs"
  shows "\<exists>p' h'. dpipe_load_nowait p h = Some (case outs of [] \<Rightarrow> 0 | b # _ \<Rightarrow> b, p', h')
    \<and> dp_rel p' h' ins (tl outs) \<and> dom h' = dom h"
  using assms take_out_rel [of p h ins]
  by (cases outs) (auto simp: dpipe_load_nowait_def dp_rel_def split: option.splits)

end
