(* ===== verification/DpipeProps.thy ===== *)
theory DpipeProps
  imports Dpipe "HOL-Library.Multiset"
begin

text \<open>
  What the frame pipe guarantees: any interleaving of its operations by clients that return
  only buffers they hold keeps every buffer in exactly one place, frames leave in the order they
  were stored, waiting loads return, and creation and destruction neither leak nor free twice.
\<close>

section \<open>Clients of a pipe\<close>

record dclient =
  dc_pipe :: dpipe_t
  dc_heap :: dheap
  dc_held :: "nat list"

datatype dop = DGet | DPut nat | DStore nat | DLoad

definition dc_store :: "nat \<Rightarrow> dclient \<Rightarrow> dclient option" where
  "dc_store b s =
     (if b \<in> set (dc_held s)
      then do { (p, h) \<leftarrow> dpipe_store b (dc_pipe s) (dc_heap s);
                Some (s\<lparr>dc_pipe := p, dc_heap := h, dc_held := remove1 b (dc_held s)\<rparr>) }
      else None)"

definition dc_put :: "nat \<Rightarrow> dclient \<Rightarrow> dclient option" where
  "dc_put b s =
     (if b \<in> set (dc_held s)
      then do { (p, h) \<leftarrow> dpipe_put b (dc_pipe s) (dc_heap s);
                Some (s\<lparr>dc_pipe := p, dc_heap := h, dc_held := remove1 b (dc_held s)\<rparr>) }
      else None)"

definition dc_load :: "dclient \<Rightarrow> (nat \<times> dclient) option" where
  "dc_load s = do {
     (b, p, h) \<leftarrow> dpipe_load_nowait (dc_pipe s) (dc_heap s);
     if b = 0 then None else Some (b, s\<lparr>dc_pipe := p, dc_heap := h, dc_held := b # dc_held s\<rparr>) }"

definition dc_get :: "dclient \<Rightarrow> (nat \<times> dclient) option" where
  "dc_get s = do {
     (b, p, h) \<leftarrow> dpipe_get (dc_pipe s) (dc_heap s);
     if b = 0 then None else Some (b, s\<lparr>dc_pipe := p, dc_heap := h, dc_held := b # dc_held s\<rparr>) }"

text \<open>Every buffer is in one place: free, stored or held.\<close>

definition dc_rel :: "dclient \<Rightarrow> nat list \<Rightarrow> nat list \<Rightarrow> bool" where
  "dc_rel s ins outs \<longleftrightarrow> dp_rel (dc_pipe s) (dc_heap s) ins outs
     \<and> distinct (ins @ outs @ dc_held s) \<and> set (dc_held s) \<subseteq> dom (dc_heap s) - {0}"

lemma dc_held: "dc_rel s ins outs \<Longrightarrow> b \<in> set (dc_held s) \<Longrightarrow> dp_held b (dc_heap s) ins outs"
  by (auto simp: dc_rel_def dp_held_def)

lemma dc_store_rel:
  assumes "dc_rel s ins outs" "b \<in> set (dc_held s)"
  shows "\<exists>s'. dc_store b s = Some s' \<and> dc_rel s' ins (outs @ [b]) \<and> dc_held s' = remove1 b (dc_held s)"
proof -
  obtain p h where "dpipe_store b (dc_pipe s) (dc_heap s) = Some (p, h)"
    "dp_rel p h ins (outs @ [b])" "dom h = dom (dc_heap s)"
    using store_rel dc_held [OF assms] assms(1) unfolding dc_rel_def by blast
  with assms show ?thesis
    by (auto simp: dc_store_def dc_rel_def dest: notin_set_remove1)
qed

lemma dc_put_rel:
  assumes "dc_rel s ins outs" "b \<in> set (dc_held s)"
  shows "\<exists>s'. dc_put b s = Some s' \<and> dc_rel s' (b # ins) outs \<and> dc_held s' = remove1 b (dc_held s)"
proof -
  obtain p h where "dpipe_put b (dc_pipe s) (dc_heap s) = Some (p, h)"
    "dp_rel p h (b # ins) outs" "dom h = dom (dc_heap s)"
    using put_rel dc_held [OF assms] assms(1) unfolding dc_rel_def by blast
  with assms show ?thesis
    by (auto simp: dc_put_def dc_rel_def dest: notin_set_remove1)
qed

lemma dp_rel_mapped: "dp_rel p h ins outs \<Longrightarrow> b \<in> set ins \<union> set outs \<Longrightarrow> b \<noteq> 0 \<and> b \<in> dom h"
  using chain_mapped unfolding dp_rel_def by blast

lemma dc_load_rel:
  assumes "dc_rel s ins outs"
  shows "case outs of [] \<Rightarrow> dc_load s = None
    | b # q \<Rightarrow> \<exists>s'. dc_load s = Some (b, s') \<and> dc_rel s' ins q \<and> dc_held s' = b # dc_held s"
proof -
  obtain p h where l: "dpipe_load_nowait (dc_pipe s) (dc_heap s) = Some (case outs of [] \<Rightarrow> 0 | b # _ \<Rightarrow> b, p, h)"
    and r: "dp_rel p h ins (tl outs)" "dom h = dom (dc_heap s)"
    using load_nowait_rel assms unfolding dc_rel_def by blast
  have "\<forall>b \<in> set outs. b \<noteq> 0 \<and> b \<in> dom (dc_heap s)"
    using dp_rel_mapped assms unfolding dc_rel_def by blast
  with l r assms show ?thesis
    by (cases outs) (auto simp: dc_load_def dc_rel_def)
qed

lemma dc_get_rel:
  assumes "dc_rel s ins outs"
  shows "case ins @ outs of [] \<Rightarrow> dc_get s = None
    | b # _ \<Rightarrow> \<exists>s'. dc_get s = Some (b, s') \<and> dc_rel s' (tl ins) (if ins = [] then tl outs else outs)
        \<and> dc_held s' = b # dc_held s"
proof -
  obtain p h where l: "dpipe_get (dc_pipe s) (dc_heap s) = Some (case ins @ outs of [] \<Rightarrow> 0 | b # _ \<Rightarrow> b, p, h)"
    and r: "dp_rel p h (tl ins) (if ins = [] then tl outs else outs)" "dom h = dom (dc_heap s)"
    using get_rel assms unfolding dc_rel_def by blast
  have "\<forall>b \<in> set ins \<union> set outs. b \<noteq> 0 \<and> b \<in> dom (dc_heap s)"
    using dp_rel_mapped assms unfolding dc_rel_def by blast
  with l r assms show ?thesis
    by (cases ins; cases outs) (auto simp: dc_get_def dc_rel_def)
qed

section \<open>The output pool is a queue\<close>

interpretation dp: fifo "\<lambda>s q. \<exists>ins. dc_rel s ins q" dc_store dc_load
proof unfold_locales
  fix s s' :: dclient and q x
  assume "\<exists>ins. dc_rel s ins q" "dc_store x s = Some s'"
  then show "\<exists>ins. dc_rel s' ins (q @ [x])"
    using dc_store_rel by (metis dc_store_def option.distinct(1) option.inject)
next
  fix s :: dclient and q x
  assume "\<exists>ins. dc_rel s ins (x # q)"
  then show "\<exists>s'. dc_load s = Some (x, s') \<and> (\<exists>ins. dc_rel s' ins q)"
    using dc_load_rel by fastforce
next
  fix s :: dclient
  assume "\<exists>ins. dc_rel s ins []"
  then show "dc_load s = None" using dc_load_rel by fastforce
qed

section \<open>Histories\<close>

text \<open>
  One operation of some client: the frames it stored, the frames that left the output pool (loaded,
  or dropped by a \<open>dpipe_get\<close> that found no free buffer) and the new state.
\<close>

fun dc_step :: "dop \<Rightarrow> dclient \<Rightarrow> nat list \<times> nat list \<times> dclient" where
  "dc_step DGet s =
     (case dc_get s of None \<Rightarrow> ([], [], s)
      | Some (b, s') \<Rightarrow> ([], if dp_in (dc_pipe s) = 0 then [b] else [], s'))"
| "dc_step (DPut b) s = (case dc_put b s of None \<Rightarrow> ([], [], s) | Some s' \<Rightarrow> ([], [], s'))"
| "dc_step (DStore b) s = (case dc_store b s of None \<Rightarrow> ([], [], s) | Some s' \<Rightarrow> ([b], [], s'))"
| "dc_step DLoad s = (case dc_load s of None \<Rightarrow> ([], [], s) | Some (b, s') \<Rightarrow> ([], [b], s'))"

fun dc_run :: "dop list \<Rightarrow> dclient \<Rightarrow> nat list \<times> nat list \<times> dclient" where
  "dc_run [] s = ([], [], s)"
| "dc_run (e # es) s =
     (let (st, lf, s') = dc_step e s; (st', lf', s'') = dc_run es s' in (st @ st', lf @ lf', s''))"

lemma dc_step_rel:
  assumes "dc_rel s ins outs" "dc_step e s = (st, lf, s')"
  shows "\<exists>ins' outs'. dc_rel s' ins' outs' \<and> outs @ st = lf @ outs'
    \<and> mset (ins' @ outs' @ dc_held s') = mset (ins @ outs @ dc_held s)"
proof (cases e)
  case DGet
  have z: "dp_in (dc_pipe s) = 0 \<longleftrightarrow> ins = []"
    using assms(1) chain_zero by (auto simp: dc_rel_def dp_rel_def)
  show ?thesis
  proof (cases "ins @ outs")
    case Nil
    with dc_get_rel [OF assms(1)] assms DGet show ?thesis by auto
  next
    case (Cons b r)
    with dc_get_rel [OF assms(1)] obtain s1 where s1: "dc_get s = Some (b, s1)"
      "dc_rel s1 (tl ins) (if ins = [] then tl outs else outs)" "dc_held s1 = b # dc_held s" by auto
    with assms(2) DGet z have "st = []" "lf = (if ins = [] then [b] else [])" "s' = s1" by auto
    with s1 Cons show ?thesis
      by (intro exI [of _ "tl ins"] exI [of _ "if ins = [] then tl outs else outs"]) (cases ins; auto)
  qed
next
  case (DPut b)
  show ?thesis
  proof (cases "b \<in> set (dc_held s)")
    case True
    with dc_put_rel [OF assms(1) True] assms(2) DPut show ?thesis
      by (intro exI [of _ "b # ins"] exI [of _ outs]) auto
  qed (use assms DPut in \<open>auto simp: dc_put_def\<close>)
next
  case (DStore b)
  show ?thesis
  proof (cases "b \<in> set (dc_held s)")
    case True
    with dc_store_rel [OF assms(1) True] assms(2) DStore show ?thesis
      by (intro exI [of _ ins] exI [of _ "outs @ [b]"]) auto
  qed (use assms DStore in \<open>auto simp: dc_store_def\<close>)
next
  case DLoad
  show ?thesis
  proof (cases outs)
    case (Cons b q)
    with dc_load_rel [OF assms(1)] obtain s1 where "dc_load s = Some (b, s1)" "dc_rel s1 ins q"
      "dc_held s1 = b # dc_held s" by auto
    with assms(2) DLoad Cons show ?thesis by (intro exI [of _ ins] exI [of _ q]) auto
  qed (use dc_load_rel [OF assms(1)] assms DLoad in auto)
qed

lemma dc_run_rel:
  assumes "dc_rel s ins outs" "dc_run es s = (st, lf, s')"
  shows "\<exists>ins' outs'. dc_rel s' ins' outs' \<and> outs @ st = lf @ outs'
    \<and> mset (ins' @ outs' @ dc_held s') = mset (ins @ outs @ dc_held s)"
  using assms
proof (induction es arbitrary: s ins outs st lf)
  case (Cons e es)
  obtain st1 lf1 s1 where s1: "dc_step e s = (st1, lf1, s1)" by (metis prod_cases3)
  obtain st2 lf2 where s2: "dc_run es s1 = (st2, lf2, s')" "st = st1 @ st2" "lf = lf1 @ lf2"
    using Cons.prems(2) s1 by (auto split: prod.splits)
  obtain i1 o1 where 1: "dc_rel s1 i1 o1" "outs @ st1 = lf1 @ o1"
    "mset (i1 @ o1 @ dc_held s1) = mset (ins @ outs @ dc_held s)"
    using dc_step_rel [OF Cons.prems(1) s1] by blast
  obtain i2 o2 where "dc_rel s' i2 o2" "o1 @ st2 = lf2 @ o2"
    "mset (i2 @ o2 @ dc_held s') = mset (i1 @ o1 @ dc_held s1)"
    using Cons.IH [OF 1(1) s2(1)] by blast
  with 1 s2(2,3) show ?case by (metis append.assoc)
qed auto

section \<open>Creation and destruction\<close>

fun internals :: "dheap \<Rightarrow> nat list \<Rightarrow> nat set" where
  "internals h [] = {}"
| "internals h (x # xs) =
     (case h x of None \<Rightarrow> internals h xs | Some b \<Rightarrow> insert (db_internal b) (internals h xs))"

lemma internals_update: "a \<notin> set xs \<Longrightarrow> internals (h(a := v)) xs = internals h xs"
  by (induction xs) (auto split: option.splits)

lemma ga_malloc_simps [simp]:
  "ga_malloc 0 = None" "b \<noteq> 0 \<Longrightarrow> ga_malloc b = Some (b, 16 - uint (b AND 0x0f))"
  by (simp_all add: ga_malloc_def)

lemma free_list_chain:
  "chain h a xs \<Longrightarrow> distinct xs \<Longrightarrow> free_list a (h, B) = Some (h |` (- set xs), B - internals h xs)"
proof (induction xs arbitrary: a h B)
  case Nil
  then show ?case by (subst free_list.simps) (simp add: restrict_map_def)
next
  case (Cons x xs)
  then obtain b where b: "h x = Some b" "chain h (db_next b) xs" "a = x" "x \<noteq> 0"
    by (auto split: option.splits)
  have "chain (h(x := None)) (db_next b) xs" using Cons.prems b by (simp add: chain_update)
  then have "free_list (db_next b) (h(x := None), B - {db_internal b}) =
      Some (h(x := None) |` (- set xs), B - {db_internal b} - internals (h(x := None)) xs)"
    using Cons.IH Cons.prems(2) by (metis distinct.simps(2))
  moreover have "h(x := None) |` (- set xs) = h |` (- set (x # xs))"
    by (auto simp: restrict_map_def fun_eq_iff)
  moreover have "B - {db_internal b} - internals (h(x := None)) xs = B - internals h (x # xs)"
    using Cons.prems b by (auto simp: internals_update)
  ultimately show ?case using b by (subst free_list.simps) simp
qed

text \<open>What the loop has built so far on top of the memory it started from.\<close>

definition built :: "dheap \<Rightarrow> nat set \<Rightarrow> dpipe_t \<Rightarrow> dheap \<Rightarrow> nat set \<Rightarrow> nat list \<Rightarrow> bool" where
  "built h0 B0 p h B xs \<longleftrightarrow> dp_rel p h xs [] \<and> h |` (- set xs) = h0 \<and> dom h0 \<inter> set xs = {}
     \<and> B = B0 \<union> internals h xs \<and> B0 \<inter> internals h xs = {}"

text \<open>What \<open>malloc\<close> promises: the blocks it returns are distinct and not in use.\<close>

definition malloc_fresh :: "(nat \<times> u64) list \<Rightarrow> dheap \<Rightarrow> nat set \<Rightarrow> bool" where
  "malloc_fresh mem h B \<longleftrightarrow> distinct (filter (\<lambda>a. a \<noteq> 0) (map fst mem))
     \<and> (\<forall>(a, b) \<in> set mem. (a \<noteq> 0 \<longrightarrow> a \<notin> dom h) \<and> (b \<noteq> 0 \<longrightarrow> unat b \<notin> B))"

lemma malloc_fresh_Cons:
  "malloc_fresh ((a, b) # mem) h B \<longleftrightarrow> malloc_fresh mem h B \<and> (a \<noteq> 0 \<longrightarrow> a \<notin> dom h \<and> a \<notin> fst ` set mem)
     \<and> (b \<noteq> 0 \<longrightarrow> unat b \<notin> B)"
  by (auto simp: malloc_fresh_def)

lemma built_step:
  assumes "built h0 B0 p h B xs" "a \<noteq> 0" "a \<notin> dom h0" "a \<notin> set xs" "db_internal v \<notin> B0" "db_next v = dp_in p"
  shows "built h0 B0 (p\<lparr>dp_in := a, in_count := in_count p + 1\<rparr>) (h(a \<mapsto> v)) (insert (db_internal v) B) (a # xs)"
proof -
  have "internals (h(a \<mapsto> v)) (a # xs) = insert (db_internal v) (internals h xs)"
    using assms(4) by (simp add: internals_update)
  moreover have "(h(a \<mapsto> v)) |` (- set (a # xs)) = h0"
  proof -
    have "h0 a = None" using assms(3) by auto
    then have "\<And>y. ((h(a \<mapsto> v)) |` (- set (a # xs))) y = (h |` (- set xs)) y"
      using assms(1) by (auto simp: built_def restrict_map_def)
    then show ?thesis using assms(1) by (auto simp: built_def fun_eq_iff)
  qed
  ultimately show ?thesis
    using assms by (auto simp: built_def dp_rel_def chain_update)
qed

lemma create_loop_built:
  assumes "built h0 B0 p h B xs" "malloc_fresh mem h0 B0" "set xs \<inter> fst ` set mem = {}"
    and "create_loop n mem p (h, B) = (ok, p', h', B')"
  shows "\<exists>ys. built h0 B0 p' h' B' (ys @ xs) \<and> (ok \<longrightarrow> length ys = n)
    \<and> dp_name p' = dp_name p \<and> channel_id p' = channel_id p
    \<and> (n \<le> length mem \<and> (\<forall>(a, b) \<in> set mem. a \<noteq> 0 \<and> b \<noteq> 0) \<longrightarrow> ok)"
  using assms
proof (induction n arbitrary: mem p h B xs)
  case 0
  then show ?case by (intro exI [of _ "[]"]) auto
next
  case (Suc n)
  show ?case
  proof (cases mem)
    case Nil
    with Suc.prems show ?thesis by (intro exI [of _ "[]"]) auto
  next
    case (Cons e ms)
    obtain a b where e: "mem = (a, b) # ms" using Cons by (cases e) auto
    show ?thesis
    proof (cases "a = 0 \<or> b = 0")
      case True
      with Suc.prems e show ?thesis by (intro exI [of _ "[]"]) (auto split: if_splits)
    next
      case False
      let ?off = "16 - uint (b AND 0x0f)"
      let ?v = "\<lparr>db_pointer = unat b + nat ?off, db_internal = unat b, db_offset = ?off, db_next = dp_in p\<rparr>"
      let ?p = "p\<lparr>dp_in := a, in_count := in_count p + 1\<rparr>"
      have bt: "built h0 B0 ?p (h(a \<mapsto> ?v)) (insert (unat b) B) (a # xs)"
        using Suc.prems e False built_step [of h0 B0 p h B xs a ?v] by (auto simp: malloc_fresh_Cons)
      have "create_loop n ms ?p (h(a \<mapsto> ?v), insert (unat b) B) = (ok, p', h', B')"
        using Suc.prems(4) e False by simp
      from Suc.IH [OF bt _ _ this] Suc.prems e False
      obtain ys where "built h0 B0 p' h' B' (ys @ a # xs)" "ok \<longrightarrow> length ys = n"
        "dp_name p' = dp_name p" "channel_id p' = channel_id p"
        "n \<le> length ms \<and> (\<forall>(a, b) \<in> set ms. a \<noteq> 0 \<and> b \<noteq> 0) \<longrightarrow> ok"
        by (auto simp: malloc_fresh_Cons)
      with e show ?thesis by (intro exI [of _ "ys @ [a]"]) auto
    qed
  qed
qed

lemma destroy_rel:
  assumes "dw_pipes w a = Some p" "a \<noteq> 0" "dp_rel p (dw_bufs w) ins outs"
  shows "dpipe_destroy a w = Some (0, w\<lparr>dw_pipes := (dw_pipes w)(a := None),
      dw_bufs := dw_bufs w |` (- set (ins @ outs)),
      dw_blocks := dw_blocks w - internals (dw_bufs w) (ins @ outs),
      dpipemap := (case dp_name p of None \<Rightarrow> dpipemap w | Some n \<Rightarrow> om_erase n (dpipemap w))\<rparr>)"
proof -
  let ?h = "dw_bufs w" and ?h1 = "dw_bufs w |` (- set ins)"
  have d: "chain ?h (dp_in p) ins" "chain ?h (dp_out p) outs" "distinct ins" "distinct outs" "set ins \<inter> set outs = {}"
    using assms(3) by (auto simp: dp_rel_def)
  have same: "x \<in> set outs \<Longrightarrow> ?h1 x = ?h x" for x using d(5) by (auto simp: restrict_map_def)
  have c1: "chain ?h1 y xs = chain ?h y xs" if "set xs \<subseteq> set outs" for y xs
    using that same by (induction xs arbitrary: y) (auto split: option.splits)
  have i1: "internals ?h1 xs = internals ?h xs" if "set xs \<subseteq> set outs" for xs
    using that same by (induction xs) (auto split: option.splits)
  have app: "internals ?h (xs @ ys) = internals ?h xs \<union> internals ?h ys" for xs ys
    by (induction xs) (auto split: option.splits)
  have "free_list (dp_out p) (?h1, dw_blocks w - internals ?h ins) =
      Some (?h1 |` (- set outs), dw_blocks w - internals ?h ins - internals ?h outs)"
    using free_list_chain [of ?h1 "dp_out p" outs] d c1 [of outs] i1 [of outs] by simp
  moreover have "?h1 |` (- set outs) = ?h |` (- set (ins @ outs))"
    by (auto simp: restrict_map_def fun_eq_iff)
  ultimately show ?thesis
    using assms(1,2) free_list_chain [OF d(1,3)] app by (simp add: dpipe_destroy_def Diff_eq Int_assoc)
qed

lemma create_cases:
  assumes mem: "malloc_fresh mem (dw_bufs w) (dw_blocks w)" and addr: "addr \<noteq> 0" "dw_pipes w addr = None"
    and reg: "\<forall>k. om_find (dpipemap w) k \<noteq> Some 0"
  shows "\<exists>a w'. dpipe_create addr dup mem cid name nframe fsize w = Some (a, w') \<and>
    (if a = 0 then w' = w
     else a = addr \<and> (\<exists>nm p xs. name = Some nm \<and> dpipe_lookup nm w = 0 \<and> dpipe_lookup nm w' = addr
       \<and> dw_pipes w' addr = Some p \<and> dp_rel p (dw_bufs w') xs [] \<and> int (length xs) = nframe))"
proof (cases "name = None \<or> cid < 0 \<or> nframe \<le> 0 \<or> fsize \<le> 0 \<or> (\<exists>nm. name = Some nm \<and> dpipe_lookup nm w \<noteq> 0)")
  case True
  then show ?thesis by (auto simp: dpipe_create_def split: option.splits)
next
  case False
  then obtain nm where nm: "name = Some nm" "dpipe_lookup nm w = 0" by auto
  then have absent: "om_find (dpipemap w) nm = None"
    using reg by (auto simp: dpipe_lookup_def split: option.splits)
  let ?p = "\<lparr>channel_id = cid, dp_name = (if dup then Some nm else None), dp_in = 0, dp_out = 0,
      dp_out_tail = 0, in_count = 0, out_count = 0\<rparr>"
  obtain ok p' bufs blocks where
    l: "(if dup then create_loop (nat nframe) mem ?p (dw_bufs w, dw_blocks w) else (False, ?p, dw_bufs w, dw_blocks w))
        = (ok, p', bufs, blocks)" by (metis prod_cases4)
  have b0: "built (dw_bufs w) (dw_blocks w) ?p (dw_bufs w) (dw_blocks w) []"
    by (simp add: built_def dp_rel_def restrict_map_def)
  obtain ys where ys: "built (dw_bufs w) (dw_blocks w) p' bufs blocks ys" "ok \<longrightarrow> length ys = nat nframe"
    and name: "dp_name p' = dp_name ?p"
    using l b0 create_loop_built [OF b0 mem] by (cases dup) force+
  have cr: "dpipe_create addr dup mem cid name nframe fsize w =
    (let w' = w\<lparr>dw_pipes := (dw_pipes w)(addr \<mapsto> p'), dw_bufs := bufs, dw_blocks := blocks\<rparr>
     in if ok then Some (addr, w'\<lparr>dpipemap := om_put nm addr (dpipemap w')\<rparr>)
        else do { (r, w'') \<leftarrow> dpipe_destroy addr w'; Some (0, w'') })"
    using False nm l by (simp add: dpipe_create_def Let_def)
  show ?thesis
  proof (cases ok)
    case True
    with cr ys nm addr False show ?thesis by (auto simp: Let_def built_def dpipe_lookup_def)
  next
    case False
    let ?w = "w\<lparr>dw_pipes := (dw_pipes w)(addr \<mapsto> p'), dw_bufs := bufs, dw_blocks := blocks\<rparr>"
    have "blocks - internals bufs ys = dw_blocks w" "bufs |` (- set ys) = dw_bufs w"
      using ys(1) by (auto simp: built_def)
    moreover have "(dw_pipes w)(addr := None) = dw_pipes w" using addr by auto
    ultimately have "dpipe_destroy addr ?w = Some (0, w)"
      using destroy_rel [of ?w addr p' ys "[]"] ys(1) addr name om_erase_absent [OF absent]
      by (cases dup) (simp_all add: built_def)
    with cr False show ?thesis by (auto simp: Let_def)
  qed
qed

section \<open>Properties\<close>

text \<open>
  C30. Creating a pipe is all or nothing. It returns either a pipe registered under its name, with
  the number of free buffers asked for and no stored frame, or NULL, and then nothing
  is left behind: no buffer, no data block, no pipe and no registration, whichever allocation failed.
\<close>

theorem dpipe_create_all_or_nothing:
  assumes "malloc_fresh mem (dw_bufs w) (dw_blocks w)" "addr \<noteq> 0" "dw_pipes w addr = None"
    and "\<forall>k. om_find (dpipemap w) k \<noteq> Some 0"
  shows "\<exists>a w'. dpipe_create addr dup mem cid name nframe fsize w = Some (a, w') \<and>
    (if a = 0 then w' = w
     else a = addr \<and> (\<exists>nm p xs. name = Some nm \<and> dpipe_lookup nm w = 0 \<and> dpipe_lookup nm w' = addr
       \<and> dw_pipes w' addr = Some p \<and> dp_rel p (dw_bufs w') xs [] \<and> int (length xs) = nframe))"
  using assms by (rule create_cases)

definition dw_empty :: dpipe_world where
  "dw_empty = \<lparr>dw_pipes = Map.empty, dw_bufs = Map.empty, dw_blocks = {}, dpipemap = []\<rparr>"

theorem dpipe_create_all_or_nothing_witness:
  "\<exists>a w'. dpipe_create 100 True [(1, 0x1008), (2, 0)] 0 (Some ''video'') 2 64 dw_empty = Some (a, w') \<and> (a = 0 \<longrightarrow> w' = dw_empty)"
  using dpipe_create_all_or_nothing [of "[(1, 0x1008), (2, 0)]" dw_empty 100 True 0 "Some ''video''" 2 64]
  by (force simp: malloc_fresh_def dw_empty_def om_find_def split: if_splits)

text \<open>
  C1. Whatever get, put, store and load operations clients perform in whatever order, provided they
  return only buffers they hold, no operation touches memory outside the pipe's buffers, every
  buffer stays in exactly one of the free pool, the output pool and the clients' hands, the
  counters agree with the pools, and the frames that leave the output pool (loaded, or dropped when
  no buffer was free) leave in the order in which they were stored.
\<close>

theorem dpipe_history:
  assumes "dp_rel p h xs []" "dc_run ops \<lparr>dc_pipe = p, dc_heap = h, dc_held = []\<rparr> = (stored, left, s)"
  shows "\<exists>ins outs. dc_rel s ins outs \<and> stored = left @ outs
    \<and> mset (ins @ outs @ dc_held s) = mset xs
    \<and> in_count (dc_pipe s) + out_count (dc_pipe s) + int (length (dc_held s)) = int (length xs)"
proof -
  have "dc_rel \<lparr>dc_pipe = p, dc_heap = h, dc_held = []\<rparr> xs []"
    using assms(1) by (simp add: dc_rel_def dp_rel_def)
  from dc_run_rel [OF this assms(2)] obtain ins outs where r: "dc_rel s ins outs" "stored = left @ outs"
    "mset (ins @ outs @ dc_held s) = mset xs" by auto
  then have "size (mset ins) + size (mset outs) + size (mset (dc_held s)) = size (mset xs)"
    by (metis mset_append size_union add.assoc)
  with r show ?thesis
    by (intro exI [of _ ins] exI [of _ outs]) (auto simp: dc_rel_def dp_rel_def)
qed

definition demo_pipe :: dpipe_t where
  "demo_pipe = \<lparr>channel_id = 0, dp_name = None, dp_in = 2, dp_out = 0, dp_out_tail = 0, in_count = 2, out_count = 0\<rparr>"

definition demo_bufs :: dheap where
  "demo_bufs = [1 \<mapsto> \<lparr>db_pointer = 32, db_internal = 16, db_offset = 16, db_next = 0\<rparr>,
     2 \<mapsto> \<lparr>db_pointer = 64, db_internal = 48, db_offset = 16, db_next = 1\<rparr>]"

text \<open>Both buffers are stored; the third get finds none free and drops the older frame.\<close>

theorem dpipe_history_witness:
  "fst (dc_run [DGet, DGet, DStore 2, DStore 1, DGet] \<lparr>dc_pipe = demo_pipe, dc_heap = demo_bufs, dc_held = []\<rparr>) = [2, 1]
   \<and> fst (snd (dc_run [DGet, DGet, DStore 2, DStore 1, DGet] \<lparr>dc_pipe = demo_pipe, dc_heap = demo_bufs, dc_held = []\<rparr>)) = [2]
   \<and> (\<exists>outs. [2, 1] = [2] @ outs)"
proof -
  let ?r = "dc_run [DGet, DGet, DStore 2, DStore 1, DGet] \<lparr>dc_pipe = demo_pipe, dc_heap = demo_bufs, dc_held = []\<rparr>"
  have rel: "dp_rel demo_pipe demo_bufs [2, 1] []" by (simp add: dp_rel_def demo_pipe_def demo_bufs_def)
  have e: "fst ?r = [2, 1]" "fst (snd ?r) = [2]"
    by (simp_all add: demo_pipe_def demo_bufs_def dc_get_def dc_store_def dpipe_get_def dpipe_store_def
        set_next_def take_out_def Let_def)
  show ?thesis
    using dpipe_history [OF rel, of _ "fst ?r" "fst (snd ?r)" "snd (snd ?r)"] e by auto
qed

text \<open>
  Frames that are stored and loaded, with no buffer taken in between, come out first in first
  out: what loads deliver is a prefix of what was stored.
\<close>

theorem dpipe_fifo:
  assumes "dc_rel s ins []" "fifo_exec dc_store dc_load ops s = (stored, loaded, t)"
  shows "\<exists>outs ins'. dc_rel t ins' outs \<and> stored = loaded @ outs"
  using dp.exec_prefix [of s ops stored loaded t] assms by blast

theorem dpipe_fifo_witness:
  "\<exists>outs. fst (fifo_exec dc_store dc_load [Push 1, Push 2, Pop]
      \<lparr>dc_pipe = demo_pipe\<lparr>dp_in := 0, in_count := 0\<rparr>, dc_heap = demo_bufs, dc_held = [1, 2]\<rparr>) = [1] @ outs"
proof -
  let ?s = "\<lparr>dc_pipe = demo_pipe\<lparr>dp_in := 0, in_count := 0\<rparr>, dc_heap = demo_bufs, dc_held = [1, 2]\<rparr>"
  let ?r = "fifo_exec dc_store dc_load [Push 1, Push 2, Pop] ?s"
  have rel: "dc_rel ?s [] []" by (auto simp: dc_rel_def dp_rel_def demo_pipe_def demo_bufs_def)
  have e: "fst (snd ?r) = [1]"
    by (simp add: demo_pipe_def demo_bufs_def dc_load_def dc_store_def dpipe_load_nowait_def dpipe_store_def
        set_next_def take_out_def Let_def)
  then have "?r = (fst ?r, [1], snd (snd ?r))" by (metis prod.collapse)
  from dpipe_fifo [OF rel this] show ?thesis by blast
qed

lemma load_first:
  assumes "dp_rel p h ins (b # q)" "dpipe_load abstime waits failed (p, h) = Done r"
  shows "\<exists>b p' h' ins' outs'. r = Some (b, p', h') \<and> dp_rel p' h' ins' outs' \<and> (b = 0 \<longrightarrow> abstime \<and> outs' = [])"
proof -
  have b: "dp_out p = b" "b \<noteq> 0" using assms(1) by (auto simp: dp_rel_def)
  obtain p' h' where "take_out p h = Some (b, p', h')" "dp_rel p' h' ins q"
    using take_out_rel [OF assms(1)] by blast
  moreover from b assms(2) have "r = take_out p h" by (simp add: dpipe_load_cases)
  ultimately show ?thesis
    using b by (intro exI [of _ b] exI [of _ p'] exI [of _ h'] exI [of _ ins] exI [of _ q]) simp
qed

text \<open>What the other threads may do to the pipe during a wait.\<close>

definition keeps_pipe :: "(dpipe_t \<times> dheap \<Rightarrow> dpipe_t \<times> dheap) \<Rightarrow> bool" where
  "keeps_pipe w \<longleftrightarrow> (\<forall>p h ins outs p' h'. dp_rel p h ins outs \<longrightarrow> w (p, h) = (p', h') \<longrightarrow>
     (\<exists>ins' outs'. dp_rel p' h' ins' outs'))"

lemma load_done:
  assumes "\<forall>w \<in> set waits. keeps_pipe w" "dp_rel p h ins outs" "dpipe_load abstime waits failed (p, h) = Done r"
  shows "\<exists>b p' h' ins' outs'. r = Some (b, p', h') \<and> dp_rel p' h' ins' outs' \<and> (b = 0 \<longrightarrow> abstime \<and> outs' = [])"
  using assms
proof (induction waits arbitrary: failed p h ins outs)
  case Nil
  show ?case
  proof (cases outs)
    case (Cons b q)
    with Nil.prems show ?thesis by (intro load_first) auto
  next
    case e: Nil
    then have "dp_out p = 0" using Nil.prems(2) by (simp add: dp_rel_def)
    with Nil.prems e show ?thesis by (cases "abstime \<and> failed") (auto simp: dpipe_load_cases)
  qed
next
  case (Cons w ws)
  show ?case
  proof (cases outs)
    case Nil
    then have z: "dp_out p = 0" using Cons.prems(2) by (simp add: dp_rel_def)
    obtain p1 h1 where w1: "w (p, h) = (p1, h1)" by fastforce
    obtain i1 o1 where w: "dp_rel p1 h1 i1 o1"
      using Cons.prems(1,2) w1 unfolding keeps_pipe_def by (metis list.set_intros(1))
    show ?thesis
    proof (cases "abstime \<and> failed")
      case True
      with z Cons.prems Nil show ?thesis by (auto simp: dpipe_load_cases)
    next
      case False
      with z Cons.prems(3) w1 have "dpipe_load abstime ws abstime (p1, h1) = Done r"
        by (simp add: dpipe_load_cases)
      from Cons.IH [OF _ w this] Cons.prems(1) show ?thesis by simp
    qed
  next
    case q: (Cons b q)
    with Cons.prems show ?thesis by (intro load_first) auto
  qed
qed

text \<open>
  \<open>dpipe_load\<close> without a deadline returns only with a frame, and with a deadline it returns
  after one wait at most, with no frame only when the output pool is empty at that moment; it does
  not wait when a frame is there. During the waits the other threads may do to the pipe anything
  that keeps it a pipe.
\<close>

theorem dpipe_load_returns:
  assumes "\<forall>w \<in> set waits. keeps_pipe w" "dp_rel p h ins outs"
  shows "(\<forall>r. dpipe_load abstime waits False (p, h) = Done r \<longrightarrow>
      (\<exists>b p' h' ins' outs'. r = Some (b, p', h') \<and> dp_rel p' h' ins' outs' \<and> (b = 0 \<longrightarrow> abstime \<and> outs' = [])))
    \<and> (abstime \<and> waits \<noteq> [] \<longrightarrow> dpipe_load abstime waits False (p, h) \<noteq> Waiting)
    \<and> (outs \<noteq> [] \<longrightarrow> dpipe_load abstime waits False (p, h) = Done (take_out p h))"
proof -
  have z: "dp_out p = 0 \<longleftrightarrow> outs = []" using assms(2) chain_zero by (auto simp: dp_rel_def)
  have timed: "dpipe_load True ws True s \<noteq> Waiting" for ws s
    by (cases s; cases "dp_out (fst s) = 0") (auto simp: dpipe_load_cases)
  have "dpipe_load True waits False (p, h) \<noteq> Waiting" if "waits \<noteq> []"
    using that timed z by (cases waits; cases "outs = []") (auto simp: dpipe_load_cases)
  then show ?thesis
    using load_done [OF assms] z by (auto simp: dpipe_load_cases)
qed

theorem dpipe_load_returns_witness:
  "dpipe_load True [\<lambda>s. s] False (demo_pipe, demo_bufs) \<noteq> Waiting"
proof -
  have rel: "dp_rel demo_pipe demo_bufs [2, 1] []" by (simp add: dp_rel_def demo_pipe_def demo_bufs_def)
  have keeps: "\<forall>w \<in> set [\<lambda>s. s]. keeps_pipe w" by (auto simp: keeps_pipe_def)
  show ?thesis using dpipe_load_returns [OF keeps rel, of True] by simp
qed

text \<open>
  Destroying a pipe returns 0, frees exactly its free and stored buffers with their data blocks,
  each once, and removes its name; buffers clients still hold are not freed.
\<close>

theorem dpipe_destroy_frees:
  assumes "dw_pipes w a = Some p" "a \<noteq> 0" "dp_rel p (dw_bufs w) ins outs" "dp_name p = Some nm"
  shows "\<exists>w'. dpipe_destroy a w = Some (0, w') \<and> dom (dw_bufs w') = dom (dw_bufs w) - set (ins @ outs)
    \<and> dw_blocks w' = dw_blocks w - internals (dw_bufs w) (ins @ outs)
    \<and> dw_pipes w' a = None \<and> dpipe_lookup nm w' = 0"
  using destroy_rel [OF assms(1-3)] assms(4) by (auto simp: dpipe_lookup_def)

theorem dpipe_destroy_frees_witness:
  "\<exists>w'. dpipe_destroy 9 (dw_empty\<lparr>dw_pipes := [9 \<mapsto> demo_pipe\<lparr>dp_name := Some ''v''\<rparr>], dw_bufs := demo_bufs\<rparr>) = Some (0, w')
     \<and> dpipe_lookup ''v'' w' = 0"
proof -
  let ?p = "demo_pipe\<lparr>dp_name := Some ''v''\<rparr>"
  let ?w = "dw_empty\<lparr>dw_pipes := [9 \<mapsto> ?p], dw_bufs := demo_bufs\<rparr>"
  have "dp_rel ?p (dw_bufs ?w) [2, 1] []" by (simp add: dp_rel_def demo_pipe_def demo_bufs_def)
  from dpipe_destroy_frees [of ?w 9 ?p, OF _ _ this, of "''v''"] show ?thesis by auto
qed

end
