(* ===== verification/CtrlMsg.thy ===== *)
theory CtrlMsg
  imports Prelude
begin

text \<open>
  System control messages, \<open>sources/streamer/core/ctrl-msg.cpp\<close>: the packed message
  structures as byte lists on a little-endian host, the handler table, the dispatcher with its
  byte order conversion, and the builders of the two network reports. An access past the
  memory behind the buffer pointer is the result \<open>None\<close>.
\<close>

section \<open>Fields in memory\<close>

definition put16 :: "u16 \<Rightarrow> bytes" where
  "put16 w = [ucast w, ucast (drop_bit 8 w)]"

definition put32 :: "u32 \<Rightarrow> bytes" where
  "put32 w = [ucast w, ucast (drop_bit 8 w), ucast (drop_bit 16 w), ucast (drop_bit 24 w)]"

definition get16 :: "bytes \<Rightarrow> u16" where
  "get16 b = ucast (b ! 0) OR push_bit 8 (ucast (b ! 1))"

definition get32 :: "bytes \<Rightarrow> u32" where
  "get32 b = ucast (b ! 0) OR push_bit 8 (ucast (b ! 1)) OR push_bit 16 (ucast (b ! 2))
     OR push_bit 24 (ucast (b ! 3))"

text \<open>Byte order conversion on a little-endian host reverses the bytes of a field.\<close>

definition htons :: "u16 \<Rightarrow> u16" where
  "htons w = get16 (rev (put16 w))"

definition htonl :: "u32 \<Rightarrow> u32" where
  "htonl w = get32 (rev (put32 w))"

lemma bit_u8_above: "\<not> bit (a :: u8) (8 + n)" "\<not> bit (a :: u8) (16 + n)" "\<not> bit (a :: u8) (24 + n)"
  using bit_imp_le_length [of a "8 + n"] bit_imp_le_length [of a "16 + n"] bit_imp_le_length [of a "24 + n"]
  by auto

lemma length_put [simp]: "length (put16 w) = 2" "length (put32 v) = 4"
  by (simp_all add: put16_def put32_def)

lemma get16_put16 [simp]: "get16 (put16 w @ r) = w"
  by (rule bit_word_eqI) (auto simp: get16_def put16_def bit_simps)

lemma put16_get16: "put16 (get16 (a # b # r)) = [a, b]"
  by (auto simp: get16_def put16_def bit_simps bit_u8_above intro!: bit_word_eqI)

lemma get32_put32 [simp]: "get32 (put32 w @ r) = w"
proof (rule bit_word_eqI)
  fix n
  assume "n < LENGTH(32)"
  then show "bit (get32 (put32 w @ r)) n = bit w n"
    by (cases "n < 8"; cases "n < 16"; cases "n < 24") (auto simp: get32_def put32_def bit_simps)
qed

lemma put32_get32: "put32 (get32 (a # b # c # d # r)) = [a, b, c, d]"
  by (auto simp: get32_def put32_def bit_simps bit_u8_above intro!: bit_word_eqI)

lemma put_htons: "put16 (htons w) = rev (put16 w)"
  by (simp add: htons_def put16_def [of w]) (simp add: put16_get16)

lemma put_htonl: "put32 (htonl w) = rev (put32 w)"
  by (simp add: htonl_def put32_def [of w]) (simp add: put32_get32)

lemma htons_htons [simp]: "htons (htons w) = w"
  using get16_put16 [of w "[]"] by (simp add: htons_def [of "htons w"] put_htons)

lemma htonl_htonl [simp]: "htonl (htonl w) = w"
  using get32_put32 [of w "[]"] by (simp add: htonl_def [of "htonl w"] put_htonl)

section \<open>Messages\<close>

definition CTRL_MSGTYPE_SYSTEM :: u8 where "CTRL_MSGTYPE_SYSTEM = 0xfe"
definition CTRL_MSGSYS_SUBTYPE_NULL :: u8 where "CTRL_MSGSYS_SUBTYPE_NULL = 0"
definition CTRL_MSGSYS_SUBTYPE_SHUTDOWN :: u8 where "CTRL_MSGSYS_SUBTYPE_SHUTDOWN = 1"
definition CTRL_MSGSYS_SUBTYPE_NETREPORT :: u8 where "CTRL_MSGSYS_SUBTYPE_NETREPORT = 2"
definition CTRL_MSGSYS_SUBTYPE_MAX :: u8 where "CTRL_MSGSYS_SUBTYPE_MAX = 2"

lemmas ctrl_consts = CTRL_MSGTYPE_SYSTEM_def CTRL_MSGSYS_SUBTYPE_NULL_def CTRL_MSGSYS_SUBTYPE_SHUTDOWN_def
  CTRL_MSGSYS_SUBTYPE_NETREPORT_def CTRL_MSGSYS_SUBTYPE_MAX_def

record ctrlmsg_system_netreport =
  nr_msgsize :: u16
  nr_msgtype :: u8
  nr_subtype :: u8
  nr_duration :: u32
  nr_framecount :: u32
  nr_pktcount :: u32
  nr_pktloss :: u32
  nr_bytecount :: u32
  nr_capacity :: u32

text \<open>The packed structure: 28 bytes.\<close>

definition netreport_bytes :: "ctrlmsg_system_netreport \<Rightarrow> bytes" where
  "netreport_bytes m = put16 (nr_msgsize m) @ [nr_msgtype m, nr_subtype m] @ put32 (nr_duration m)
     @ put32 (nr_framecount m) @ put32 (nr_pktcount m) @ put32 (nr_pktloss m)
     @ put32 (nr_bytecount m) @ put32 (nr_capacity m)"

definition netreport_view :: "bytes \<Rightarrow> ctrlmsg_system_netreport" where
  "netreport_view b = \<lparr>nr_msgsize = get16 b, nr_msgtype = b ! 2, nr_subtype = b ! 3,
     nr_duration = get32 (drop 4 b), nr_framecount = get32 (drop 8 b), nr_pktcount = get32 (drop 12 b),
     nr_pktloss = get32 (drop 16 b), nr_bytecount = get32 (drop 20 b), nr_capacity = get32 (drop 24 b)\<rparr>"

section \<open>Handlers and dispatch\<close>

text \<open>A handler is named by a number; \<open>None\<close> in the table is a NULL entry.\<close>

definition ctrlsys_handler_list_init :: "nat option list" where
  "ctrlsys_handler_list_init = [None, None, None]"

definition ctrlsys_set_handler :: "u8 \<Rightarrow> nat option \<Rightarrow> nat option list \<Rightarrow> nat option \<times> nat option list" where
  "ctrlsys_set_handler subtype handler hs =
     (if subtype > CTRL_MSGSYS_SUBTYPE_MAX then (None, hs)
      else (hs ! unat subtype, hs[unat subtype := handler]))"

text \<open>
  The conversion works in place. The size field is converted first, also when the message is
  refused afterwards.
\<close>

definition ctrlsys_ntoh :: "bytes \<Rightarrow> (int \<times> bytes) option" where
  "ctrlsys_ntoh msg =
     (if length msg < 4 then None
      else let msgsize = htons (get16 msg); msg = put16 msgsize @ drop 2 msg
           in if msg ! 3 = CTRL_MSGSYS_SUBTYPE_NULL \<or> msg ! 3 = CTRL_MSGSYS_SUBTYPE_SHUTDOWN then Some (0, msg)
              else if msg ! 3 = CTRL_MSGSYS_SUBTYPE_NETREPORT then
                if msgsize \<noteq> 28 then Some (-1, msg)
                else if length msg < 28 then None
                else let n = netreport_view msg
                     in Some (0, netreport_bytes (n\<lparr>nr_duration := htonl (nr_duration n),
                          nr_framecount := htonl (nr_framecount n), nr_pktcount := htonl (nr_pktcount n),
                          nr_pktloss := htonl (nr_pktloss n), nr_bytecount := htonl (nr_bytecount n),
                          nr_capacity := htonl (nr_capacity n)\<rparr>) @ drop 28 msg)
              else Some (-1, msg))"

text \<open>
  The result is the return value, the buffer afterwards and the handler called, if any, with the
  converted message. \<open>buf\<close> is the memory from the pointer on, \<open>None\<close> a NULL pointer.
\<close>

definition ctrlsys_handle_message ::
  "nat option list \<Rightarrow> bytes option \<Rightarrow> nat \<Rightarrow> (int \<times> bytes option \<times> (nat \<times> bytes) option) option" where
  "ctrlsys_handle_message hs buf sz =
     (case buf of
        None \<Rightarrow> Some (1, None, None)
      | Some b \<Rightarrow>
     if sz < 4 then Some (0, buf, None)
     else if length b < 4 then None
     else if b ! 2 \<noteq> CTRL_MSGTYPE_SYSTEM then Some (0, buf, None)
     else if b ! 3 > CTRL_MSGSYS_SUBTYPE_MAX then Some (1, buf, None)
     else (case hs ! unat (b ! 3) of
        None \<Rightarrow> Some (1, buf, None)
      | Some h \<Rightarrow> do {
          (r, b') \<leftarrow> ctrlsys_ntoh b;
          if r \<noteq> 0 then Some (1, Some b', None) else Some (1, Some b', Some (h, b'))
        }))"

section \<open>Building messages\<close>

definition ctrlsys_netreport :: "u32 \<Rightarrow> u32 \<Rightarrow> u32 \<Rightarrow> u32 \<Rightarrow> u32 \<Rightarrow> u32 \<Rightarrow> bytes" where
  "ctrlsys_netreport duration framecount pktcount pktloss bytecount capacity =
     netreport_bytes \<lparr>nr_msgsize = htons 28, nr_msgtype = CTRL_MSGTYPE_SYSTEM,
       nr_subtype = CTRL_MSGSYS_SUBTYPE_NETREPORT, nr_duration = htonl duration,
       nr_framecount = htonl framecount, nr_pktcount = htonl pktcount, nr_pktloss = htonl pktloss,
       nr_bytecount = htonl bytecount, nr_capacity = htonl capacity\<rparr>"

text \<open>The arguments are the values after their conversion from \<open>double\<close>.\<close>

definition ctrlsys_netreport_delay :: "u32 \<Rightarrow> u32 \<Rightarrow> u32 \<Rightarrow> bytes" where
  "ctrlsys_netreport_delay fst_delay last_delay bw =
     put16 (htons 28) @ [CTRL_MSGTYPE_SYSTEM, CTRL_MSGSYS_SUBTYPE_NETREPORT] @ put32 (htonl 0xde1a)
     @ put32 (htonl fst_delay) @ put32 (htonl last_delay) @ put32 (htonl bw) @ put32 (htonl 3) @ put32 0"

section \<open>Facts\<close>

lemma length_netreport [simp]: "length (netreport_bytes m) = 28"
  by (simp add: netreport_bytes_def)

lemma put16_Cons: "put16 w @ r = ucast w # ucast (drop_bit 8 w) # r"
  by (simp add: put16_def)

lemma netreport_view_bytes [simp]: "netreport_view (netreport_bytes m @ r) = m"
proof -
  have d: "drop 4 (netreport_bytes m @ r) = put32 (nr_duration m) @ put32 (nr_framecount m) @ put32 (nr_pktcount m)
      @ put32 (nr_pktloss m) @ put32 (nr_bytecount m) @ put32 (nr_capacity m) @ r"
    by (simp add: netreport_bytes_def put16_Cons)
  have "drop 8 (netreport_bytes m @ r) = put32 (nr_framecount m) @ put32 (nr_pktcount m)
      @ put32 (nr_pktloss m) @ put32 (nr_bytecount m) @ put32 (nr_capacity m) @ r"
    by (simp add: netreport_bytes_def put16_Cons)
  moreover have "drop 12 (netreport_bytes m @ r) = put32 (nr_pktcount m)
      @ put32 (nr_pktloss m) @ put32 (nr_bytecount m) @ put32 (nr_capacity m) @ r"
    by (simp add: netreport_bytes_def put16_Cons)
  moreover have "drop 16 (netreport_bytes m @ r) = put32 (nr_pktloss m) @ put32 (nr_bytecount m)
      @ put32 (nr_capacity m) @ r"
    by (simp add: netreport_bytes_def put16_Cons)
  moreover have "drop 20 (netreport_bytes m @ r) = put32 (nr_bytecount m) @ put32 (nr_capacity m) @ r"
    by (simp add: netreport_bytes_def put16_Cons)
  moreover have "drop 24 (netreport_bytes m @ r) = put32 (nr_capacity m) @ r"
    by (simp add: netreport_bytes_def put16_Cons)
  moreover have "get16 (netreport_bytes m @ r) = nr_msgsize m" "(netreport_bytes m @ r) ! 2 = nr_msgtype m"
    "(netreport_bytes m @ r) ! 3 = nr_subtype m"
    by (simp_all add: netreport_bytes_def nth_append)
  ultimately show ?thesis using d by (simp add: netreport_view_def)
qed

lemma set_size_netreport: "put16 w @ drop 2 (netreport_bytes m @ r) = netreport_bytes (m\<lparr>nr_msgsize := w\<rparr>) @ r"
  by (simp add: netreport_bytes_def)

text \<open>
  A network report built by a client reaches the handler of the server unchanged: the dispatcher
  accepts the 28 bytes, whatever follows them, and calls the registered handler with the six counters in host order.
\<close>

theorem netreport_roundtrip:
  assumes "hs ! 2 = Some h" "28 \<le> sz"
  shows "\<exists>b'. ctrlsys_handle_message hs (Some (ctrlsys_netreport d f p l bc c @ rest)) sz
      = Some (1, Some b', Some (h, b'))
    \<and> netreport_view b' = \<lparr>nr_msgsize = 28, nr_msgtype = CTRL_MSGTYPE_SYSTEM,
        nr_subtype = CTRL_MSGSYS_SUBTYPE_NETREPORT, nr_duration = d, nr_framecount = f, nr_pktcount = p,
        nr_pktloss = l, nr_bytecount = bc, nr_capacity = c\<rparr>"
proof -
  define m where "m = \<lparr>nr_msgsize = htons 28, nr_msgtype = CTRL_MSGTYPE_SYSTEM,
       nr_subtype = CTRL_MSGSYS_SUBTYPE_NETREPORT, nr_duration = htonl d,
       nr_framecount = htonl f, nr_pktcount = htonl p, nr_pktloss = htonl l,
       nr_bytecount = htonl bc, nr_capacity = htonl c\<rparr>"
  let ?b = "netreport_bytes m @ rest"
  have fields: "get16 ?b = htons 28" "?b ! 2 = CTRL_MSGTYPE_SYSTEM" "?b ! 3 = CTRL_MSGSYS_SUBTYPE_NETREPORT"
    by (simp_all add: netreport_bytes_def nth_append m_def)
  have fields': "(netreport_bytes (m\<lparr>nr_msgsize := 28\<rparr>) @ rest) ! 3 = CTRL_MSGSYS_SUBTYPE_NETREPORT"
    by (simp add: netreport_bytes_def nth_append m_def)
  let ?n = "m\<lparr>nr_msgsize := 28, nr_duration := d, nr_framecount := f, nr_pktcount := p, nr_pktloss := l,
      nr_bytecount := bc, nr_capacity := c\<rparr>"
  have "ctrlsys_ntoh ?b = Some (0, netreport_bytes ?n @ rest)"
    unfolding ctrlsys_ntoh_def Let_def fields htons_htons set_size_netreport fields' netreport_view_bytes
    by (simp add: ctrl_consts) (simp add: m_def)
  then have "ctrlsys_handle_message hs (Some ?b) sz = Some (1, Some (netreport_bytes ?n @ rest), Some (h, netreport_bytes ?n @ rest))"
    using assms fields by (simp add: ctrlsys_handle_message_def ctrl_consts)
  then show ?thesis
    by (intro exI [of _ "netreport_bytes ?n @ rest"]) (simp add: m_def ctrlsys_netreport_def)
qed

theorem netreport_roundtrip_witness:
  "\<exists>b'. ctrlsys_handle_message [None, None, Some 7] (Some (ctrlsys_netreport 1 2 3 4 5 6 @ [])) 28
      = Some (1, Some b', Some (7, b')) \<and> nr_pktloss (netreport_view b') = 4"
  using netreport_roundtrip [of "[None, None, Some 7]" 7 28 1 2 3 4 5 6 "[]"] by auto

text \<open>
  The dispatcher trusts the size field of the message and not the size it is given: a system message
  of four bytes whose size field says 28 makes the conversion of a network report run past the four bytes.
\<close>

theorem netreport_short_overread:
  assumes "hs ! 2 = Some h"
  shows "ctrlsys_handle_message hs (Some [0, 28, 0xfe, 2]) 4 = None"
proof -
  have "get16 [0, 28, 0xfe, 2] = htons 28" by code_simp
  then show ?thesis
    using assms by (simp add: ctrlsys_handle_message_def ctrlsys_ntoh_def ctrl_consts Let_def nth_append put16_def)
qed

theorem netreport_short_overread_witness:
  "ctrlsys_handle_message [None, None, Some 7] (Some [0, 28, 0xfe, 2]) 4 = None"
  by (rule netreport_short_overread [where h = 7]) simp

end
