(* ===== verification/CtrlQueue.thy ===== *)
theory CtrlQueue
  imports Fifo CtrlMsg
begin

text \<open>
  The controller's message queue, \<open>sources/streamer/core/controller.cpp\<close>: a byte buffer cut into
  units of equal size, with the offsets of the first message and of the first free unit. A unit is a
  \<open>struct queuemsg\<close>: a 16-bit size, then the message bytes. Offsets and sizes are
  \<open>int\<close> as in the code; \<open>None\<close> is an access outside the buffer or a division by zero.
\<close>

section \<open>Operations\<close>

record ctrl_queue =
  qbuffer :: "bytes option"
  qhead :: int
  qtail :: int
  qsize :: int
  qunit :: int

text \<open>\<open>sizeof(struct queuemsg)\<close>, and the offset of its \<open>msg\<close> field.\<close>

definition sizeof_queuemsg :: int where "sizeof_queuemsg = 4"

definition queue_initial :: ctrl_queue where
  "queue_initial = \<lparr>qbuffer = None, qhead = 0, qtail = 0, qsize = 0, qunit = 0\<rparr>"

text \<open>\<open>alloc\<close> is what \<open>malloc\<close> returns: a block with arbitrary content, or NULL.\<close>

definition ctrl_queue_init ::
  "(int \<Rightarrow> bytes option) \<Rightarrow> int \<Rightarrow> int \<Rightarrow> ctrl_queue \<Rightarrow> (int \<times> ctrl_queue) option" where
  "ctrl_queue_init alloc size' maxunit q =
     (let u = to_int32 (maxunit + sizeof_queuemsg)
      in if u = 0 then None
         else let s = size' - c_mod size' u;
                  q' = q\<lparr>qunit := u, qsize := s, qhead := 0, qtail := 0, qbuffer := alloc s\<rparr>
              in Some (if qbuffer q' = None then -1 else 0, q'))"

definition ctrl_queue_free :: "ctrl_queue \<Rightarrow> ctrl_queue" where
  "ctrl_queue_free q = q\<lparr>qbuffer := None, qhead := 0, qtail := 0, qsize := 0\<rparr>"

text \<open>The offset of the message, \<open>None\<close> for NULL.\<close>

definition ctrl_queue_read_msg :: "ctrl_queue \<Rightarrow> int option" where
  "ctrl_queue_read_msg q =
     (if qbuffer q = None then None else if qtail q = qhead q then None else Some (qhead q))"

text \<open>A message other than the first is released as the first one, with a warning only.\<close>

definition ctrl_queue_release_msg :: "int \<Rightarrow> ctrl_queue \<Rightarrow> ctrl_queue" where
  "ctrl_queue_release_msg msg q =
     (if qbuffer q = None then q
      else if qhead q = qtail q then q
      else let h = qhead q + qunit q in q\<lparr>qhead := (if h = qsize q then 0 else h)\<rparr>)"

text \<open>
  The size check is made in \<open>size_t\<close>. The message bytes are copied only when there
  are one or two of them.
\<close>

definition ctrl_queue_write_msg :: "bytes \<Rightarrow> int \<Rightarrow> ctrl_queue \<Rightarrow> (int \<times> ctrl_queue) option" where
  "ctrl_queue_write_msg msg msgsize q =
     (if to_uint64 (msgsize + sizeof_queuemsg) > to_uint64 (qunit q) then Some (0, q)
      else (case qbuffer q of
        None \<Rightarrow> Some (0, q)
      | Some b \<Rightarrow>
          let nextpos = qtail q + qunit q; nextpos = (if nextpos = qsize q then 0 else nextpos)
          in if nextpos = qhead q then Some (0, q)
             else if qtail q < 0 \<or> nat (qtail q) + 4 > length b then None
             else let b1 = buf_write (nat (qtail q)) (put16 (word_of_int msgsize)) b
                  in if 0 < msgsize \<and> msgsize \<le> 2 then
                       if length msg < nat msgsize then None
                       else Some (msgsize, q\<lparr>qbuffer := Some (buf_write (nat (qtail q) + 2) (take (nat msgsize) msg) b1),
                              qtail := nextpos\<rparr>)
                     else Some (msgsize, q\<lparr>qbuffer := Some b1, qtail := nextpos\<rparr>)))"

definition ctrl_queue_clear :: "ctrl_queue \<Rightarrow> ctrl_queue" where
  "ctrl_queue_clear q = q\<lparr>qhead := 0, qtail := 0\<rparr>"

text \<open>
  \<open>ctrl_server_readnext\<close> when a message is there: the return value, the bytes copied to the
  caller, and the queue after the release. The inner \<open>None\<close> is an empty queue, on which
  the code waits.
\<close>

definition ctrl_server_readnext :: "int \<Rightarrow> ctrl_queue \<Rightarrow> (int \<times> bytes \<times> ctrl_queue) option option" where
  "ctrl_server_readnext msglen q =
     (case ctrl_queue_read_msg q of
        None \<Rightarrow> Some None
      | Some qm \<Rightarrow>
          (case qbuffer q of
             None \<Rightarrow> None
           | Some b \<Rightarrow>
               if qm < 0 \<or> nat qm + 2 > length b then None
               else let n = unat (get16 (drop (nat qm) b))
                    in if int n > msglen then Some (Some (-1, [], ctrl_queue_release_msg qm q))
                       else if nat qm + 2 + n > length b then None
                       else Some (Some (int n, buf_read (nat qm + 2) n b, ctrl_queue_release_msg qm q))))"

section \<open>What the queue holds\<close>

text \<open>
  \<open>i\<close> is the unit of the first message, \<open>n\<close> the number of units. Each queued element is given by its
  size field, and by its bytes when these were copied.
\<close>

definition slot_holds :: "bytes \<Rightarrow> nat \<Rightarrow> bytes \<Rightarrow> bool" where
  "slot_holds b off m \<longleftrightarrow> buf_read off 2 b = put16 (of_nat (length m)) \<and> buf_read (off + 2) (length m) b = m"

definition cq_rel :: "nat \<Rightarrow> nat \<Rightarrow> ctrl_queue \<Rightarrow> bytes list \<Rightarrow> bool" where
  "cq_rel u n q ms \<longleftrightarrow> 4 \<le> u \<and> u < 2 ^ 31 \<and> (\<exists>b i. qbuffer q = Some b \<and> length b = n * u \<and> i < n \<and> length ms < n
     \<and> qunit q = int u \<and> qsize q = int (n * u) \<and> qhead q = int (i * u)
     \<and> qtail q = int ((i + length ms) mod n * u)
     \<and> (\<forall>m \<in> set ms. 0 < length m \<and> length m \<le> 2)
     \<and> (\<forall>k < length ms. slot_holds b ((i + k) mod n * u) (ms ! k)))"

text \<open>The queue as a first-in first-out container of the messages it copies.\<close>

definition cq_push :: "bytes \<Rightarrow> ctrl_queue \<Rightarrow> ctrl_queue option" where
  "cq_push m q =
     (if 0 < length m \<and> length m \<le> 2
      then (case ctrl_queue_write_msg m (int (length m)) q of
              Some (r, q') \<Rightarrow> if r = int (length m) then Some q' else None
            | None \<Rightarrow> None)
      else None)"

definition cq_pop :: "ctrl_queue \<Rightarrow> (bytes \<times> ctrl_queue) option" where
  "cq_pop q =
     (case ctrl_server_readnext 65535 q of
        Some (Some (r, m, q')) \<Rightarrow> Some (m, q')
      | _ \<Rightarrow> None)"

section \<open>Ring arithmetic\<close>

lemma ring_next: "i < n \<Longrightarrow> (if i * u + u = n * u then 0 else i * u + u) = (i + 1) mod n * u" for u n :: nat
proof (cases "i + 1 = n")
  case False
  assume "i < n"
  with False have l: "i + 1 < n" by simp
  then have "i * u + u \<noteq> n * u \<or> u = 0" by (metis add.commute mult_Suc mult_cancel2 nat_neq_iff plus_1_eq_Suc)
  with l show ?thesis by (auto simp: add.commute)
qed auto

lemma ring_next_int:
  assumes "i < n"
  shows "(if int (i * u) + int u = int (n * u) then 0 else int (i * u) + int u) = int ((i + 1) mod n * u)"
proof -
  have "(if int (i * u) + int u = int (n * u) then 0 else int (i * u) + int u)
      = int (if i * u + u = n * u then 0 else i * u + u)"
    unfolding of_nat_add [symmetric] of_nat_eq_iff by simp
  then show ?thesis using ring_next [OF assms, of u] by simp
qed

lemma ring_full: "i < n \<Longrightarrow> k < n \<Longrightarrow> (i + k + 1) mod n = i \<longleftrightarrow> k + 1 = n" for n :: nat
proof
  assume i: "i < n" and k: "k < n" and e: "(i + k + 1) mod n = i"
  show "k + 1 = n"
  proof (cases "i + k + 1 < n")
    case False
    then have "(i + k + 1) mod n = i + k + 1 - n" using i k by (simp add: mod_if)
    with e False show ?thesis by linarith
  qed (use e in simp)
next
  assume "i < n" "k + 1 = n"
  then show "(i + k + 1) mod n = i" by (metis add.assoc mod_add_self2 mod_less)
qed

lemma ring_distinct: "i < n \<Longrightarrow> j < k \<Longrightarrow> k < n \<Longrightarrow> (i + j) mod n \<noteq> (i + k) mod n" for n :: nat
proof
  assume a: "i < n" "j < k" "k < n" and e: "(i + j) mod n = (i + k) mod n"
  then have "n dvd (i + k) - (i + j)" by (metis mod_eq_dvd_iff_nat add_le_cancel_left less_imp_le)
  then have "n dvd k - j" by simp
  with a show False by (auto dest: dvd_imp_le)
qed

lemma slot_inside: "j < n \<Longrightarrow> 4 \<le> u \<Longrightarrow> j * u + 4 \<le> n * u" for j n u :: nat
proof -
  assume a: "j < n" "4 \<le> u"
  then have "Suc j * u \<le> n * u" by (intro mult_right_mono) auto
  with a show ?thesis by simp
qed

lemma slot_apart:
  fixes j k u :: nat
  assumes "j \<noteq> k" "4 \<le> u"
  shows "j * u + 4 \<le> k * u \<or> k * u + 4 \<le> j * u"
  using assms slot_inside [of j k u] slot_inside [of k j u] by (cases "j < k") auto

section \<open>Writing a unit\<close>

definition slot_write :: "nat \<Rightarrow> bytes \<Rightarrow> bytes \<Rightarrow> bytes" where
  "slot_write off m b = buf_write (off + 2) m (buf_write off (put16 (of_nat (length m))) b)"

lemma slot_write_facts:
  assumes "off + 4 \<le> length b" "length m \<le> 2"
  shows "length (slot_write off m b) = length b" "slot_holds (slot_write off m b) off m"
    "off' + 4 \<le> off \<or> off + 4 \<le> off' \<Longrightarrow> length m' \<le> 2 \<Longrightarrow>
      slot_holds (slot_write off m b) off' m' = slot_holds b off' m'"
proof -
  let ?h = "put16 (of_nat (length m))"
  let ?b = "buf_write off ?h b"
  have l: "length ?b = length b" using assms by (intro length_buf_write) simp
  then show "length (slot_write off m b) = length b"
    using assms by (simp add: slot_write_def length_buf_write)
  have "buf_read off 2 (slot_write off m b) = ?h"
    using assms l buf_read_write_same [of off ?h b] by (simp add: slot_write_def buf_read_write_below)
  moreover have "buf_read (off + 2) (length m) (slot_write off m b) = m"
    using assms l by (simp add: slot_write_def buf_read_write_same)
  ultimately show "slot_holds (slot_write off m b) off m" by (simp add: slot_holds_def)
  assume d: "off' + 4 \<le> off \<or> off + 4 \<le> off'" and m': "length m' \<le> 2"
  have "buf_read o' k (slot_write off m b) = buf_read o' k b"
    if "o' + k \<le> off \<or> off + 4 \<le> o'" for o' k
    using that assms l by (auto simp: slot_write_def buf_read_write_below buf_read_write_above)
  with d m' show "slot_holds (slot_write off m b) off' m' = slot_holds b off' m'"
    by (auto simp: slot_holds_def)
qed

lemma write_small:
  assumes "qbuffer q = Some b" "0 < length m" "length m \<le> 2" "0 \<le> qunit q" "qunit q < 2 ^ 31"
    and "0 \<le> qtail q" "nat (qtail q) + 4 \<le> length b"
  shows "ctrl_queue_write_msg m (int (length m)) q =
    (let nextpos = (if qtail q + qunit q = qsize q then 0 else qtail q + qunit q)
     in if int (length m) + 4 > qunit q \<or> nextpos = qhead q then Some (0, q)
        else Some (int (length m), q\<lparr>qbuffer := Some (slot_write (nat (qtail q)) m b), qtail := nextpos\<rparr>))"
  using assms by (auto simp: ctrl_queue_write_msg_def Let_def to_uint64_def sizeof_queuemsg_def slot_write_def)

lemma cq_push_rel:
  assumes r: "cq_rel u n q ms" and p: "cq_push m q = Some q'"
  shows "cq_rel u n q' (ms @ [m])"
proof -
  obtain b i where u: "4 \<le> u" "u < 2 ^ 31" and b: "qbuffer q = Some b" "length b = n * u"
    and i: "i < n" "length ms < n"
    and f: "qunit q = int u" "qsize q = int (n * u)" "qhead q = int (i * u)"
      "qtail q = int ((i + length ms) mod n * u)"
    and ms: "\<forall>m \<in> set ms. 0 < length m \<and> length m \<le> 2"
    and held: "\<forall>k < length ms. slot_holds b ((i + k) mod n * u) (ms ! k)"
    using r unfolding cq_rel_def by blast
  let ?t = "(i + length ms) mod n"
  have t: "?t < n" using i by simp
  have m: "0 < length m" "length m \<le> 2" using p by (auto simp: cq_push_def split: if_splits)
  have in_b: "nat (qtail q) + 4 \<le> length b" unfolding f(4) nat_int b(2) by (rule slot_inside [OF t u(1)])
  define np where "np = (if qtail q + qunit q = qsize q then 0 else qtail q + qunit q)"
  have np: "np = int ((i + length ms + 1) mod n * u)"
    unfolding np_def f ring_next_int [OF t] by (simp add: mod_Suc_eq)
  have tail: "nat (qtail q) = ?t * u" unfolding f(4) nat_int by (rule refl)
  have "0 \<le> qunit q" "qunit q < 2 ^ 31" "0 \<le> qtail q" using u f by simp_all
  from write_small [OF b(1) m this in_b]
  have "ctrl_queue_write_msg m (int (length m)) q =
    (if int (length m) + 4 > qunit q \<or> np = qhead q then Some (0, q)
     else Some (int (length m), q\<lparr>qbuffer := Some (slot_write (?t * u) m b), qtail := np\<rparr>))"
    unfolding Let_def np_def tail .
  with p m have q': "q' = q\<lparr>qbuffer := Some (slot_write (?t * u) m b), qtail := np\<rparr>" "np \<noteq> qhead q"
    by (auto simp: cq_push_def split: if_splits)
  have "(i + length ms + 1) mod n \<noteq> i" using q'(2) np f by auto
  then have len: "length (ms @ [m]) < n" using ring_full [OF i] i by simp
  have sw: "?t * u + 4 \<le> length b" using slot_inside [OF t u(1)] b by simp
  note w = slot_write_facts [OF sw m(2)]
  have "slot_holds (slot_write (?t * u) m b) ((i + k) mod n * u) ((ms @ [m]) ! k)" if "k < length (ms @ [m])" for k
  proof (cases "k = length ms")
    case False
    with that have k: "k < length ms" by simp
    then have "(i + k) mod n \<noteq> ?t" using ring_distinct [of i n k "length ms"] i by simp
    from slot_apart [OF this u(1)] w(3) [of "(i + k) mod n * u" "ms ! k"] held k ms
    show ?thesis by (simp add: nth_append)
  qed (use w(2) in simp)
  then show ?thesis
    unfolding cq_rel_def using u b i f ms m q' np len w(1)
    by (intro conjI exI [of _ "slot_write (?t * u) m b"] exI [of _ i]) auto
qed

section \<open>Reading a unit\<close>

lemma slot_size:
  assumes "slot_holds b off m" "length m \<le> 2"
  shows "unat (get16 (drop off b)) = length m"
proof -
  have "take 2 (drop off b) = put16 (of_nat (length m))"
    using assms by (simp add: slot_holds_def buf_read_def)
  then have "drop off b = put16 (of_nat (length m)) @ drop 2 (drop off b)"
    by (metis append_take_drop_id)
  then have "get16 (drop off b) = of_nat (length m)" by (metis get16_put16)
  moreover have "unat (of_nat (length m) :: u16) = length m"
    using assms(2) by (simp add: unat_of_nat take_bit_nat_eq_self_iff)
  ultimately show ?thesis by simp
qed

lemma cq_pop_rel:
  assumes "cq_rel u n q (m # ms)"
  shows "\<exists>q'. cq_pop q = Some (m, q') \<and> cq_rel u n q' ms"
proof -
  obtain b i where u: "4 \<le> u" "u < 2 ^ 31" and b: "qbuffer q = Some b" "length b = n * u"
    and i: "i < n" "Suc (length ms) < n"
    and f: "qunit q = int u" "qsize q = int (n * u)" "qhead q = int (i * u)"
      "qtail q = int ((i + Suc (length ms)) mod n * u)"
    and ms: "\<forall>x \<in> set (m # ms). 0 < length x \<and> length x \<le> 2"
    and held: "\<forall>k < Suc (length ms). slot_holds b ((i + k) mod n * u) ((m # ms) ! k)"
    using assms unfolding cq_rel_def length_Cons by blast
  have head: "nat (qhead q) = i * u" unfolding f(3) nat_int by (rule refl)
  have h0: "slot_holds b (i * u) m" using held i by force
  have m2: "length m \<le> 2" using ms by simp
  have inb: "i * u + 4 \<le> length b" using slot_inside [OF i(1) u(1)] b by simp
  have "(i + Suc (length ms)) mod n \<noteq> (i + 0) mod n"
    using ring_distinct [of i n 0 "Suc (length ms)"] i by simp
  then have ne: "qtail q \<noteq> qhead q" using u i unfolding f(3,4) of_nat_eq_iff by simp
  define np where "np = (if qhead q + qunit q = qsize q then 0 else qhead q + qunit q)"
  have np: "np = int ((i + 1) mod n * u)" unfolding np_def f by (rule ring_next_int [OF i(1)])
  have rel: "ctrl_queue_release_msg (qhead q) q = q\<lparr>qhead := np\<rparr>"
    using b ne by (simp add: ctrl_queue_release_msg_def np_def Let_def)
  have "ctrl_server_readnext 65535 q = Some (Some (int (length m), m, q\<lparr>qhead := np\<rparr>))"
  proof -
    have "buf_read (i * u + 2) (length m) b = m" using h0 by (simp add: slot_holds_def)
    then show ?thesis
      using b ne m2 inb f(3) rel slot_size [OF h0 m2] head
      by (simp add: ctrl_server_readnext_def ctrl_queue_read_msg_def Let_def del: of_nat_mult)
  qed
  then have pop: "cq_pop q = Some (m, q\<lparr>qhead := np\<rparr>)" by (simp add: cq_pop_def)
  have held': "slot_holds b (((i + 1) mod n + k) mod n * u) (ms ! k)" if "k < length ms" for k
    using held that by (auto simp: mod_add_left_eq dest!: spec [of _ "Suc k"])
  have tail': "qtail q = int (((i + 1) mod n + length ms) mod n * u)"
    unfolding f(4) by (simp add: mod_add_left_eq)
  have "cq_rel u n (q\<lparr>qhead := np\<rparr>) ms"
    unfolding cq_rel_def using u b i f(1,2) np tail' held' ms
    by (intro conjI exI [of _ b] exI [of _ "(i + 1) mod n"]) auto
  with pop show ?thesis by blast
qed

lemma cq_pop_empty: "cq_rel u n q [] \<Longrightarrow> cq_pop q = None"
  by (auto simp: cq_rel_def cq_pop_def ctrl_server_readnext_def ctrl_queue_read_msg_def)

interpretation cq: fifo "cq_rel u n" cq_push cq_pop
  by unfold_locales (auto intro: cq_push_rel cq_pop_rel cq_pop_empty)

section \<open>Initialisation\<close>

lemma init_rel:
  assumes "0 \<le> maxunit" "maxunit + 4 < 2 ^ 31" "maxunit + 4 \<le> size'"
    and "\<And>s. alloc s = None \<or> (\<exists>b. alloc s = Some b \<and> int (length b) = s)"
    and "ctrl_queue_init alloc size' maxunit q = Some (0, q')"
  shows "cq_rel (nat (maxunit + 4)) (nat (size' div (maxunit + 4))) q' []"
proof -
  let ?u = "maxunit + 4"
  have u: "to_int32 (maxunit + sizeof_queuemsg) = ?u"
    using assms by (simp add: sizeof_queuemsg_def to_int32_id INT_MIN_def INT_MAX_def)
  have s: "size' - c_mod size' ?u = size' div ?u * ?u"
    using assms by (simp add: c_mod_nonneg minus_mod_eq_div_mult)
  have n: "0 < size' div ?u" using assms by (simp add: pos_imp_zdiv_pos_iff)
  let ?s = "size' div ?u * ?u"
  have q': "ctrl_queue_init alloc size' maxunit q =
    Some (if alloc ?s = None then -1 else 0,
      q\<lparr>qunit := ?u, qsize := ?s, qhead := 0, qtail := 0, qbuffer := alloc ?s\<rparr>)"
    unfolding ctrl_queue_init_def Let_def u s using assms(1) by simp
  with assms(5) have "alloc ?s \<noteq> None" by (auto split: if_splits)
  with assms(4) [of ?s] obtain b where b1: "alloc ?s = Some b" "int (length b) = ?s" by blast
  have b: "alloc ?s = Some b" "int (length b) = ?s"
    "q' = q\<lparr>qunit := ?u, qsize := ?s, qhead := 0, qtail := 0, qbuffer := Some b\<rparr>"
    using q' assms(5) b1 by auto
  define k v where "k = nat (size' div ?u)" and "v = nat ?u"
  have kv: "size' div ?u = int k" "?u = int v" "0 < k" "4 \<le> v" "v < 2 ^ 31"
    using n assms(1,2) by (auto simp: k_def v_def)
  have "int (length b) = int (k * v)" using b(2) kv(1,2) by (metis of_nat_mult)
  then have len: "length b = k * v" by (simp only: of_nat_eq_iff)
  moreover have "q' = q\<lparr>qunit := int v, qsize := int (k * v), qhead := 0, qtail := 0, qbuffer := Some b\<rparr>"
    using b(3) kv(1,2) by (metis of_nat_mult)
  ultimately have "cq_rel v k q' []"
    unfolding cq_rel_def using kv(3-5)
    by (intro conjI exI [of _ b] exI [of _ 0]) auto
  then show ?thesis unfolding k_def v_def .
qed

lemma push_accepts:
  assumes "cq_rel u n q ms" "0 < length m" "length m \<le> 2" "length m + 4 \<le> u" "length ms + 1 < n"
  shows "\<exists>q'. cq_push m q = Some q'"
proof -
  obtain b i where u: "4 \<le> u" "u < 2 ^ 31" and b: "qbuffer q = Some b" "length b = n * u"
    and i: "i < n" "length ms < n"
    and f: "qunit q = int u" "qsize q = int (n * u)" "qhead q = int (i * u)"
      "qtail q = int ((i + length ms) mod n * u)"
    using assms(1) unfolding cq_rel_def by blast
  let ?t = "(i + length ms) mod n"
  have t: "?t < n" using i by simp
  have in_b: "nat (qtail q) + 4 \<le> length b" unfolding f(4) nat_int b(2) by (rule slot_inside [OF t u(1)])
  have "(if qtail q + qunit q = qsize q then 0 else qtail q + qunit q) = int ((?t + 1) mod n * u)"
    unfolding f by (rule ring_next_int [OF t])
  also have "(?t + 1) mod n \<noteq> i" using ring_full [OF i] assms(5) by (simp add: mod_Suc_eq)
  then have "int ((?t + 1) mod n * u) \<noteq> qhead q" using u unfolding f(3) of_nat_eq_iff by simp
  finally have "(if qtail q + qunit q = qsize q then 0 else qtail q + qunit q) \<noteq> qhead q" .
  moreover have "0 \<le> qunit q" "qunit q < 2 ^ 31" "0 \<le> qtail q" "\<not> int (length m) + 4 > qunit q"
    using u f assms(4) by simp_all
  ultimately show ?thesis
    using write_small [OF b(1) assms(2,3) _ _ _ in_b] assms(2,3) by (simp add: cq_push_def Let_def)
qed

section \<open>Properties\<close>

text \<open>
  C28. A queue initialised with a unit of at least two bytes is a first-in first-out ring of the messages of
  one or two bytes: over any sequence of writes and reads, the messages read are, byte for byte
  and in order, the first of those the queue accepted.
\<close>

theorem ctrl_queue_fifo:
  assumes "0 \<le> maxunit" "maxunit + 4 < 2 ^ 31" "maxunit + 4 \<le> size'"
    and "\<And>s. alloc s = None \<or> (\<exists>b. alloc s = Some b \<and> int (length b) = s)"
    and "ctrl_queue_init alloc size' maxunit q0 = Some (0, q)"
    and "fifo_exec cq_push cq_pop ops q = (written, read, q')"
  shows "\<exists>rest. written = read @ rest \<and> cq_rel (nat (maxunit + 4)) (nat (size' div (maxunit + 4))) q' rest"
  using cq.exec_prefix [OF init_rel [OF assms(1-5)] assms(6)] by blast

definition zero_alloc :: "int \<Rightarrow> bytes option" where
  "zero_alloc s = (if s < 0 then None else Some (replicate (nat s) 0))"

definition demo_queue :: ctrl_queue where
  "demo_queue = \<lparr>qbuffer = Some (replicate 18 0), qhead = 0, qtail = 0, qsize = 18, qunit = 6\<rparr>"

lemma demo_queue_init: "ctrl_queue_init zero_alloc 20 2 queue_initial = Some (0, demo_queue)"
  by (simp add: ctrl_queue_init_def sizeof_queuemsg_def to_int32_def c_mod_def zero_alloc_def queue_initial_def
      demo_queue_def Let_def)

theorem ctrl_queue_fifo_witness:
  "\<exists>rest. fst (fifo_exec cq_push cq_pop [Push [1, 2], Push [3], Pop, Push [4]] demo_queue) =
     fst (snd (fifo_exec cq_push cq_pop [Push [1, 2], Push [3], Pop, Push [4]] demo_queue)) @ rest"
proof -
  let ?r = "fifo_exec cq_push cq_pop [Push [1, 2], Push [3], Pop, Push [4]] demo_queue"
  have r: "?r = (fst ?r, fst (snd ?r), snd (snd ?r))" by simp
  have z: "zero_alloc s = None \<or> (\<exists>b. zero_alloc s = Some b \<and> int (length b) = s)" for s
    by (simp add: zero_alloc_def)
  show ?thesis
    using ctrl_queue_fifo [where alloc = zero_alloc and size' = 20 and maxunit = 2, OF _ _ _ z demo_queue_init r]
    by auto
qed

text \<open>
  The queue holds one message less than it has units. Below that a message of one or two bytes that fits a
  unit is always accepted.
\<close>

theorem ctrl_queue_capacity:
  assumes "cq_rel u n q ms"
  shows "length ms < n \<and>
    (length ms + 1 < n \<longrightarrow> (\<forall>m. 0 < length m \<and> length m \<le> 2 \<and> length m + 4 \<le> u \<longrightarrow>
       (\<exists>q'. cq_push m q = Some q' \<and> cq_rel u n q' (ms @ [m]))))
    \<and> (length ms + 1 = n \<longrightarrow> (\<forall>m. cq_push m q = None))"
proof -
  have "length ms < n" using assms by (auto simp: cq_rel_def)
  moreover have "cq_push m q = None" if "length ms + 1 = n" for m
  proof (rule ccontr)
    assume "cq_push m q \<noteq> None"
    then obtain q' where "cq_push m q = Some q'" by blast
    then have "cq_rel u n q' (ms @ [m])" using assms by (intro cq_push_rel)
    then show False using that by (auto simp: cq_rel_def)
  qed
  ultimately show ?thesis using push_accepts [OF assms] cq_push_rel [OF assms] by blast
qed

theorem ctrl_queue_capacity_witness: "cq_rel 6 3 demo_queue [] \<and> (\<exists>q'. cq_push [1, 2] demo_queue = Some q')"
proof -
  have z: "zero_alloc s = None \<or> (\<exists>b. zero_alloc s = Some b \<and> int (length b) = s)" for s
    by (simp add: zero_alloc_def)
  have r: "cq_rel 6 3 demo_queue []"
    using init_rel [of 2 20 zero_alloc queue_initial demo_queue, OF _ _ _ z demo_queue_init] by simp
  then show ?thesis using ctrl_queue_capacity [OF r] by force
qed

text \<open>
  A message of three bytes or more is reported as written although none of its bytes is
  copied: the queue afterwards is the same whatever the bytes were.
\<close>

theorem ctrl_queue_drops_bytes:
  assumes "2 < n"
  shows "ctrl_queue_write_msg m n q = ctrl_queue_write_msg m' n q"
  using assms by (simp add: ctrl_queue_write_msg_def Let_def split: option.splits)

theorem ctrl_queue_drops_bytes_witness:
  "ctrl_queue_write_msg [1, 2, 3] 3 (demo_queue\<lparr>qunit := 9\<rparr>) = ctrl_queue_write_msg [7, 8, 9] 3 (demo_queue\<lparr>qunit := 9\<rparr>)
   \<and> map_option fst (ctrl_queue_write_msg [7, 8, 9] 3 (demo_queue\<lparr>qunit := 9\<rparr>)) = Some 3"
  using ctrl_queue_drops_bytes [of 3 "[1, 2, 3]" "demo_queue\<lparr>qunit := 9\<rparr>" "[7, 8, 9]"]
  by (simp add: ctrl_queue_write_msg_def demo_queue_def sizeof_queuemsg_def to_uint64_def Let_def)

end
