(* ===== verification/Rtspconf.thy ===== *)
theory Rtspconf
  imports ConfProps GaCommon
begin

text \<open>
  The session configuration of \<open>sources/streamer/core/rtspconf.cpp\<close>: the structure with its
  fixed-size text fields, its defaults, and the parser that fills it from the runtime
  configuration, in the order of the code and with its early returns. \<open>win32\<close> selects the Windows build.
  A stage of the parser yields \<open>Inl\<close> with what was stored so far on the error return.
\<close>

section \<open>Data\<close>

record RTSPConf =
  initialized :: int
  object :: "char list"
  title :: "char list"
  display :: "char list"
  servername :: "string option"
  sin_addr :: int
  serverport :: int
  proto :: int
  ctrlenable :: int
  ctrlport :: int
  ctrlport2 :: int
  ctrlproto :: int
  sendmousemotion :: int
  video_fps :: int
  video_renderer_software :: int
  audio_bitrate :: int
  audio_samplerate :: int
  audio_bitspersample :: int
  audio_channels :: int
  vso :: "string list"

definition IPPROTO_TCP :: int where "IPPROTO_TCP = 6"
definition IPPROTO_UDP :: int where "IPPROTO_UDP = 17"
definition RTSPCONF_OBJECT_SIZE :: nat where "RTSPCONF_OBJECT_SIZE = 128"
definition RTSPCONF_TITLE_SIZE :: nat where "RTSPCONF_TITLE_SIZE = 256"
definition RTSPCONF_DISPLAY_SIZE :: nat where "RTSPCONF_DISPLAY_SIZE = 16"

definition rtspconf_init :: "bool \<Rightarrow> RTSPConf" where
  "rtspconf_init win32 =
     \<lparr>initialized = 1,
      object = strncpy ''/desktop'' RTSPCONF_OBJECT_SIZE,
      title = strncpy ''Real-Time Desktop'' RTSPCONF_TITLE_SIZE,
      display = strncpy '':0'' RTSPCONF_DISPLAY_SIZE,
      servername = None, sin_addr = 0, serverport = 554, proto = IPPROTO_UDP,
      ctrlenable = 0, ctrlport = 555, ctrlport2 = (if win32 then 556 else 0), ctrlproto = IPPROTO_TCP,
      sendmousemotion = 0, video_fps = 24, video_renderer_software = 0,
      audio_bitrate = 128000, audio_samplerate = 44100, audio_bitspersample = 16, audio_channels = 2,
      vso = []\<rparr>"

section \<open>Parsing\<close>

type_synonym stage = "ga_conf \<Rightarrow> RTSPConf \<Rightarrow> RTSPConf + RTSPConf"

definition stage_then :: "stage \<Rightarrow> stage \<Rightarrow> stage" where
  "stage_then s t c r = (case s c r of Inl e \<Rightarrow> Inl e | Inr r' \<Rightarrow> t c r')"

text \<open>The recurring steps: an optional text, a number with a range check, a required text.\<close>

definition text_stage :: "string \<Rightarrow> (string \<Rightarrow> RTSPConf \<Rightarrow> RTSPConf) \<Rightarrow> stage" where
  "text_stage key upd c r =
     (case ga_conf_readv key (Some 1024) c of None \<Rightarrow> Inr r | Some ptr \<Rightarrow> Inr (upd ptr r))"

definition int_stage :: "string \<Rightarrow> (int \<Rightarrow> bool) \<Rightarrow> (int \<Rightarrow> RTSPConf \<Rightarrow> RTSPConf) \<Rightarrow> stage" where
  "int_stage key bad upd c r =
     (let v = ga_conf_readint key c in if bad v then Inl r else Inr (upd v r))"

definition need_stage :: "string \<Rightarrow> stage" where
  "need_stage key c r = (if ga_conf_readv key (Some 1024) c = None then Inl r else Inr r)"

definition rtsp_names :: stage where
  "rtsp_names =
     stage_then (text_stage ''server-name'' (\<lambda>p r. r\<lparr>servername := Some p\<rparr>))
     (stage_then (text_stage ''base-object'' (\<lambda>p r. r\<lparr>object := strncpy p RTSPCONF_OBJECT_SIZE\<rparr>))
     (stage_then (text_stage ''title'' (\<lambda>p r. r\<lparr>title := strncpy p RTSPCONF_TITLE_SIZE\<rparr>))
       (text_stage ''display'' (\<lambda>p r. r\<lparr>display := strncpy p RTSPCONF_DISPLAY_SIZE\<rparr>))))"

definition rtsp_proto :: "string \<Rightarrow> ga_conf \<Rightarrow> int" where
  "rtsp_proto key c = (if ga_conf_readv key (Some 1024) c = Some ''tcp'' then IPPROTO_TCP else IPPROTO_UDP)"

definition bad_port :: "int \<Rightarrow> bool" where
  "bad_port v \<longleftrightarrow> v \<le> 0 \<or> v \<ge> 65536"

definition rtsp_server :: stage where
  "rtsp_server =
     stage_then (int_stage ''server-port'' bad_port (\<lambda>v r. r\<lparr>serverport := v\<rparr>))
       (\<lambda>c r. Inr (r\<lparr>proto := rtsp_proto ''proto'' c, ctrlenable := ga_conf_readbool ''control-enabled'' 0 c\<rparr>))"

definition rtsp_control :: "bool \<Rightarrow> stage" where
  "rtsp_control win32 c r =
     (if ctrlenable r = 0 then Inr r
      else stage_then (int_stage ''control-port'' bad_port (\<lambda>v r. r\<lparr>ctrlport := v\<rparr>))
        (stage_then (\<lambda>c r. Inr (r\<lparr>ctrlproto := rtsp_proto ''control-proto'' c\<rparr>))
        (stage_then (if win32 then int_stage ''control-port2'' bad_port (\<lambda>v r. r\<lparr>ctrlport2 := v\<rparr>) else (\<lambda>c r. Inr r))
          (\<lambda>c r. Inr (r\<lparr>sendmousemotion := ga_conf_readbool ''control-send-mouse-motion'' 1 c\<rparr>)))) c r)"

definition rtsp_video :: "bool \<Rightarrow> stage" where
  "rtsp_video win32 =
     stage_then (int_stage ''video-fps'' (\<lambda>v. v \<le> 0 \<or> v > (if win32 then 144 else 120)) (\<lambda>v r. r\<lparr>video_fps := v\<rparr>))
       (\<lambda>c r. Inr (r\<lparr>video_renderer_software :=
          (if ga_conf_readv ''video-renderer'' (Some 1024) c = Some ''software'' then 1 else 0)\<rparr>))"

definition rtsp_audio :: stage where
  "rtsp_audio =
     stage_then (int_stage ''audio-bitrate'' (\<lambda>v. v \<le> 0 \<or> v > 1024000) (\<lambda>v r. r\<lparr>audio_bitrate := v\<rparr>))
     (stage_then (int_stage ''audio-samplerate'' (\<lambda>v. v \<le> 0 \<or> v > 1024000) (\<lambda>v r. r\<lparr>audio_samplerate := v\<rparr>))
     (stage_then (int_stage ''audio-bitspersample'' (\<lambda>v. v < 8 \<or> v > 64) (\<lambda>v r. r\<lparr>audio_bitspersample := v\<rparr>))
     (stage_then (int_stage ''audio-channels'' (\<lambda>v. v < 1) (\<lambda>v r. r\<lparr>audio_channels := v\<rparr>))
     (stage_then (need_stage ''audio-device-format'')
     (stage_then (need_stage ''audio-device-channel-layout'')
     (stage_then (need_stage ''audio-codec-format'')
       (need_stage ''audio-codec-channel-layout'')))))))"

text \<open>
  The loop over the video-specific options. \<open>ptr\<close> is the content of the key buffer; the first
  argument bounds the number of rounds, of which there are at most as many as the map has
  keys. An entry whose text does not fit its buffer is read past the end: \<open>None\<close>.
\<close>

fun rtsp_vso_loop :: "nat \<Rightarrow> char list option \<Rightarrow> ga_conf \<Rightarrow> string list \<Rightarrow> (string list \<times> ga_conf) option" where
  "rtsp_vso_loop 0 ptr c acc = Some (acc, c)"
| "rtsp_vso_loop (Suc n) ptr c acc =
     (case ptr of
        None \<Rightarrow> Some (acc, c)
      | Some kb \<Rightarrow>
          let (next_ptr, c') = ga_conf_mapnextkey ''video-specific'' (Some 1024) c
          in (case ga_conf_mapvalue ''video-specific'' (Some 1024) c of
                None \<Rightarrow> rtsp_vso_loop n next_ptr c' acc
              | Some vb \<Rightarrow>
                  if vb \<noteq> [] \<and> hd vb = NUL then rtsp_vso_loop n next_ptr c' acc
                  else do {
                    k \<leftarrow> cstr_of kb;
                    v \<leftarrow> cstr_of vb;
                    rtsp_vso_loop n next_ptr c' (acc @ [k, v])
                  }))"

definition rtsp_options :: "ga_conf \<Rightarrow> string list \<Rightarrow> (string list \<times> ga_conf) option" where
  "rtsp_options c acc =
     (if ga_conf_mapsize ''video-specific'' c > 0
      then let c1 = ga_conf_mapreset ''video-specific'' c
           in rtsp_vso_loop (nat (ga_conf_mapsize ''video-specific'' c) + 1)
                (ga_conf_mapkey ''video-specific'' (Some 1024) c1) c1 acc
      else Some (acc, c))"

definition rtsp_stages :: "bool \<Rightarrow> stage" where
  "rtsp_stages win32 =
     stage_then rtsp_names (stage_then rtsp_server (stage_then (rtsp_control win32)
       (stage_then (rtsp_video win32) rtsp_audio)))"

definition rtspconf_parse :: "bool \<Rightarrow> ga_conf \<Rightarrow> (int \<times> RTSPConf \<times> ga_conf) option" where
  "rtspconf_parse win32 c =
     (case rtsp_stages win32 c (rtspconf_init win32) of
        Inl r \<Rightarrow> Some (-1, r, c)
      | Inr r \<Rightarrow> do { (os, c') \<leftarrow> rtsp_options c (vso r); Some (0, r\<lparr>vso := os\<rparr>, c') })"

text \<open>\<open>lookup\<close> is \<open>inet_addr\<close> followed by \<open>gethostbyname\<close>; \<open>None\<close> when both fail.\<close>

definition rtspconf_resolve_server :: "(string \<Rightarrow> int option) \<Rightarrow> RTSPConf \<Rightarrow> string \<Rightarrow> RTSPConf" where
  "rtspconf_resolve_server lookup conf name =
     (case lookup name of None \<Rightarrow> conf\<lparr>sin_addr := 0\<rparr> | Some a \<Rightarrow> conf\<lparr>sin_addr := a\<rparr>)"

section \<open>Facts\<close>

definition rtsp_valid :: "bool \<Rightarrow> RTSPConf \<Rightarrow> bool" where
  "rtsp_valid win32 r \<longleftrightarrow> 0 < serverport r \<and> serverport r < 65536
     \<and> proto r \<in> {IPPROTO_TCP, IPPROTO_UDP} \<and> ctrlproto r \<in> {IPPROTO_TCP, IPPROTO_UDP}
     \<and> 0 < ctrlport r \<and> ctrlport r < 65536
     \<and> (win32 \<longrightarrow> 0 < ctrlport2 r \<and> ctrlport2 r < 65536)
     \<and> 0 < video_fps r \<and> video_fps r \<le> (if win32 then 144 else 120)
     \<and> 0 < audio_bitrate r \<and> audio_bitrate r \<le> 1024000
     \<and> 0 < audio_samplerate r \<and> audio_samplerate r \<le> 1024000
     \<and> 8 \<le> audio_bitspersample r \<and> audio_bitspersample r \<le> 64 \<and> 1 \<le> audio_channels r
     \<and> length (object r) = 128 \<and> length (title r) = 256 \<and> length (display r) = 16"

lemma length_strncpy: "length (strncpy s n) = n"
  by (simp add: strncpy_def)

lemma rtsp_init_valid: "rtsp_valid win32 (rtspconf_init win32)"
  by (simp add: rtsp_valid_def rtspconf_init_def length_strncpy RTSPCONF_OBJECT_SIZE_def RTSPCONF_TITLE_SIZE_def
      RTSPCONF_DISPLAY_SIZE_def)

lemma stage_then_Inr: "stage_then s t c r = Inr r' \<longleftrightarrow> (\<exists>r1. s c r = Inr r1 \<and> t c r1 = Inr r')"
  by (auto simp: stage_then_def split: sum.splits)

text \<open>A stage that keeps a property of the structure when it succeeds.\<close>

definition keeps :: "(RTSPConf \<Rightarrow> bool) \<Rightarrow> stage \<Rightarrow> bool" where
  "keeps P s \<longleftrightarrow> (\<forall>c r r'. P r \<longrightarrow> s c r = Inr r' \<longrightarrow> P r')"

lemma keeps_then [intro]: "keeps P s \<Longrightarrow> keeps P t \<Longrightarrow> keeps P (stage_then s t)"
  unfolding keeps_def stage_then_Inr by blast

lemma keeps_text: "(\<And>p r. P r \<Longrightarrow> P (upd p r)) \<Longrightarrow> keeps P (text_stage key upd)"
  by (auto simp: keeps_def text_stage_def split: option.splits)

lemma keeps_int: "(\<And>v r. P r \<Longrightarrow> \<not> bad v \<Longrightarrow> P (upd v r)) \<Longrightarrow> keeps P (int_stage key bad upd)"
  by (auto simp: keeps_def int_stage_def Let_def split: if_splits)

lemma keeps_need: "keeps P (need_stage key)"
  by (auto simp: keeps_def need_stage_def split: if_splits)

lemma keeps_pure: "(\<And>c r. P r \<Longrightarrow> P (f c r)) \<Longrightarrow> keeps P (\<lambda>c r. Inr (f c r))"
  by (auto simp: keeps_def)

lemmas keeps_stage = keeps_then keeps_text keeps_int keeps_need keeps_pure

lemma rtsp_names_valid: "keeps (rtsp_valid w) rtsp_names"
  unfolding rtsp_names_def
  by (intro keeps_stage) (simp_all add: rtsp_valid_def length_strncpy RTSPCONF_OBJECT_SIZE_def
      RTSPCONF_TITLE_SIZE_def RTSPCONF_DISPLAY_SIZE_def)

lemma rtsp_server_valid: "keeps (rtsp_valid w) rtsp_server"
  unfolding rtsp_server_def by (intro keeps_stage) (simp_all add: rtsp_valid_def rtsp_proto_def bad_port_def)

lemma rtsp_control_valid: "keeps (rtsp_valid w) (rtsp_control w)"
proof -
  have "keeps (rtsp_valid w) (if w then int_stage ''control-port2'' bad_port (\<lambda>v r. r\<lparr>ctrlport2 := v\<rparr>) else (\<lambda>c r. Inr r))"
    by (cases w) (auto intro!: keeps_int keeps_pure simp: rtsp_valid_def bad_port_def)
  then have "keeps (rtsp_valid w)
      (stage_then (int_stage ''control-port'' bad_port (\<lambda>v r. r\<lparr>ctrlport := v\<rparr>))
        (stage_then (\<lambda>c r. Inr (r\<lparr>ctrlproto := rtsp_proto ''control-proto'' c\<rparr>))
        (stage_then (if w then int_stage ''control-port2'' bad_port (\<lambda>v r. r\<lparr>ctrlport2 := v\<rparr>) else (\<lambda>c r. Inr r))
          (\<lambda>c r. Inr (r\<lparr>sendmousemotion := ga_conf_readbool ''control-send-mouse-motion'' 1 c\<rparr>)))))"
    by (intro keeps_stage) (simp_all add: rtsp_valid_def rtsp_proto_def bad_port_def)
  then show ?thesis unfolding keeps_def rtsp_control_def by (simp split: if_splits)
qed

lemma rtsp_video_valid: "keeps (rtsp_valid w) (rtsp_video w)"
  unfolding rtsp_video_def by (intro keeps_stage) (simp_all add: rtsp_valid_def)

lemma rtsp_audio_valid: "keeps (rtsp_valid w) rtsp_audio"
  unfolding rtsp_audio_def by (intro keeps_stage) (simp_all add: rtsp_valid_def)

lemma rtsp_stages_valid: "keeps (rtsp_valid w) (rtsp_stages w)"
  unfolding rtsp_stages_def
  by (intro keeps_then rtsp_names_valid rtsp_server_valid rtsp_control_valid rtsp_video_valid rtsp_audio_valid)

text \<open>
  C31. A session configuration that was parsed with result 0 has every number in its range: ports, frame rate,
  audio bit rate, sample rate, bits and channels, the transport protocols are TCP or UDP, and the text
  fields have exactly their fixed sizes.
\<close>

theorem rtspconf_parse_valid:
  assumes "rtspconf_parse win32 c = Some (0, r, c')"
  shows "rtsp_valid win32 r"
proof -
  obtain r1 os where r1: "rtsp_stages win32 c (rtspconf_init win32) = Inr r1" "r = r1\<lparr>vso := os\<rparr>"
    using assms by (auto simp: rtspconf_parse_def split: sum.splits bind_splits)
  then have "rtsp_valid win32 r1"
    using rtsp_stages_valid [of win32] rtsp_init_valid [of win32] unfolding keeps_def by blast
  with r1(2) show ?thesis by (simp add: rtsp_valid_def)
qed

definition demo_settings :: "(string \<times> string) list" where
  "demo_settings = [(''server-port'', ''1''), (''video-fps'', ''1''), (''audio-bitrate'', ''1''),
     (''audio-samplerate'', ''1''), (''audio-bitspersample'', ''8''), (''audio-channels'', ''1''),
     (''audio-device-format'', ''s16''), (''audio-device-channel-layout'', ''mono''),
     (''audio-codec-format'', ''s16''), (''audio-codec-channel-layout'', ''mono'')]"

definition demo_conf :: ga_conf where
  "demo_conf = fold (\<lambda>(k, v) c. snd (ga_conf_writev k v c)) demo_settings ga_conf_initial"

lemma assign_value: "gaConfVar_assign s v = gaConfVar_assign s gaConfVar_clear"
  by (cases v) (simp add: gaConfVar_assign_def gaConfVar_clear_def)

lemma find_writes:
  "om_find (ga_vars (fold (\<lambda>(k, v) c. snd (ga_conf_writev k v c)) xs c)) k =
     (case map_of (rev xs) k of None \<Rightarrow> om_find (ga_vars c) k | Some s \<Rightarrow> Some (gaConfVar_assign s gaConfVar_clear))"
proof (induction xs arbitrary: c)
  case (Cons x xs)
  obtain a b where "x = (a, b)" by fastforce
  with Cons show ?case
    by (simp add: ga_conf_writev_def conf_put_def assign_value [of b "conf_var a c"] map_add_def split: option.splits)
qed simp

lemma demo_conf_find:
  "om_find (ga_vars demo_conf) k = map_option (\<lambda>s. gaConfVar_assign s gaConfVar_clear) (map_of (rev demo_settings) k)"
  unfolding demo_conf_def find_writes
  by (simp add: ga_conf_initial_def om_find_def [of "[]"] split: option.splits)

lemma demo_conf_readstr:
  "ga_conf_readstr k demo_conf = (case map_of (rev demo_settings) k of None \<Rightarrow> [] | Some s \<Rightarrow> s)"
  by (simp add: ga_conf_readstr_def demo_conf_find gaConfVar_value_def gaConfVar_assign_def split: option.splits)

lemma demo_conf_readv:
  "ga_conf_readv k (Some n) demo_conf =
     (case map_of (rev demo_settings) k of None \<Rightarrow> None | Some s \<Rightarrow> if length s \<ge> n then None else Some s)"
  by (simp add: ga_conf_readv_def demo_conf_find gaConfVar_value_def gaConfVar_assign_def split: option.splits)

lemma demo_numbers: "strtol ''1'' = (1, [], False)" "strtol ''8'' = (8, [], False)"
  by code_simp+

lemmas demo_stage_simps = stage_then_def text_stage_def int_stage_def need_stage_def bad_port_def
  ga_conf_readint_def ga_conf_readbool_def demo_conf_readstr demo_conf_readv demo_settings_def demo_numbers
  INT_MAX_def INT_MIN_def

lemma demo_stages:
  "rtsp_names demo_conf r = Inr r"
  "rtsp_server demo_conf r = Inr (r\<lparr>serverport := 1, proto := rtsp_proto ''proto'' demo_conf, ctrlenable := 0\<rparr>)"
  "\<exists>r'. rtsp_video False demo_conf r = Inr r'"
  "\<exists>r'. rtsp_audio demo_conf r = Inr r'"
  by (simp_all add: rtsp_names_def rtsp_server_def rtsp_video_def rtsp_audio_def demo_stage_simps)

theorem rtspconf_parse_valid_witness:
  "\<exists>r c'. rtspconf_parse False demo_conf = Some (0, r, c') \<and> rtsp_valid False r"
proof -
  let ?r = "(rtspconf_init False)\<lparr>serverport := 1, proto := rtsp_proto ''proto'' demo_conf, ctrlenable := 0\<rparr>"
  obtain r1 r2 where r: "rtsp_video False demo_conf ?r = Inr r1" "rtsp_audio demo_conf r1 = Inr r2"
    using demo_stages(3,4) by blast
  have "rtsp_stages False demo_conf (rtspconf_init False) = Inr r2"
    using r by (simp add: rtsp_stages_def stage_then_def demo_stages(1,2) rtsp_control_def)
  moreover have "ga_conf_mapsize ''video-specific'' demo_conf = 0"
    by (simp add: ga_conf_mapsize_def demo_conf_find demo_settings_def)
  ultimately obtain r c' where "rtspconf_parse False demo_conf = Some (0, r, c')"
    by (auto simp: rtspconf_parse_def rtsp_options_def)
  with rtspconf_parse_valid [OF this] show ?thesis by blast
qed

end
