(* ===== verification/CtrlServer.thy ===== *)
theory CtrlServer
  imports CtrlQueue Rtspconf
begin

text \<open>
  The controller's two ends, \<open>sources/streamer/core/controller.cpp\<close>: socket set-up on both sides, the
  handshake, the server thread's reassembly of messages from a TCP stream or from datagrams, the
  dispatch to system handlers, replay callback or queue, and the client's sender. What the socket
  calls return is an argument of the definitions; a receive is the bytes it delivered.
\<close>

section \<open>Sockets\<close>

record ctrl_net =
  ctrlsocket :: int
  ctrl_sin_port :: u16
  ctrl_sin_addr :: int
  ctrlenabled :: bool

text \<open>\<open>lookup\<close> resolves a name, \<open>None\<close> for \<open>INADDR_NONE\<close>; \<open>sock\<close> is the result of \<open>socket\<close>.\<close>

definition ctrl_socket_init ::
  "(string \<Rightarrow> int option) \<Rightarrow> (int \<Rightarrow> int) \<Rightarrow> RTSPConf \<Rightarrow> ctrl_net \<Rightarrow> int \<times> ctrl_net" where
  "ctrl_socket_init lookup sock conf n =
     (if ctrlproto conf \<noteq> IPPROTO_TCP \<and> ctrlproto conf \<noteq> IPPROTO_UDP then (-1, n)
      else let n = n\<lparr>ctrlsocket := sock (ctrlproto conf), ctrl_sin_port := htons (word_of_int (ctrlport conf)),
                     ctrl_sin_addr := 0\<rparr>
           in (case servername conf of
                 None \<Rightarrow> (ctrlsocket n, n)
               | Some name \<Rightarrow>
                   (case lookup name of
                      None \<Rightarrow> (-1, n\<lparr>ctrl_sin_addr := 4294967295\<rparr>)
                    | Some a \<Rightarrow> (ctrlsocket n, n\<lparr>ctrl_sin_addr := a\<rparr>))))"

definition CTRL_MAX_ID_LENGTH :: nat where "CTRL_MAX_ID_LENGTH = 64"

definition CTRL_CURRENT_VERSION :: bytes where
  "CTRL_CURRENT_VERSION = map (\<lambda>c. of_nat (of_char c)) ''GACtrlV01''"

text \<open>The handshake sent: the length byte is computed modulo 256 and then capped.\<close>

definition client_handshake :: "bytes \<Rightarrow> bytes" where
  "client_handshake ctrlid =
     (let len = (2 + length ctrlid) mod 256; len = (if len > 65 then 65 else len)
      in take len (of_nat len # take CTRL_MAX_ID_LENGTH (ctrlid @ replicate CTRL_MAX_ID_LENGTH 0)))"

text \<open>
  \<open>conn\<close> and \<open>snt\<close> are the results of \<open>connect\<close> and \<open>send\<close>. The third component is
  what was sent.
\<close>

definition ctrl_client_init ::
  "(string \<Rightarrow> int option) \<Rightarrow> (int \<Rightarrow> int) \<Rightarrow> int \<Rightarrow> int \<Rightarrow> bytes \<Rightarrow> RTSPConf \<Rightarrow> ctrl_net \<Rightarrow> int \<times> RTSPConf \<times> ctrl_net \<times> bytes option" where
  "ctrl_client_init lookup sock conn snt ctrlid conf n =
     (let (r, n) = ctrl_socket_init lookup sock conf n
      in if r < 0 then (-1, conf\<lparr>ctrlenable := 0\<rparr>, n, None)
         else if ctrlproto conf = IPPROTO_TCP then
           if conn < 0 then (-1, conf\<lparr>ctrlenable := 0\<rparr>, n\<lparr>ctrlenabled := False, ctrlsocket := -1\<rparr>, None)
           else if snt \<le> 0 then
             (-1, conf\<lparr>ctrlenable := 0\<rparr>, n\<lparr>ctrlenabled := False, ctrlsocket := -1\<rparr>, Some (client_handshake ctrlid))
           else (0, conf, n, Some (client_handshake ctrlid))
         else (0, conf, n, None))"

definition ctrl_server_init ::
  "(string \<Rightarrow> int option) \<Rightarrow> (int \<Rightarrow> int) \<Rightarrow> int \<Rightarrow> int \<Rightarrow> int \<Rightarrow> RTSPConf \<Rightarrow> ctrl_net \<Rightarrow> int \<times> ctrl_net" where
  "ctrl_server_init lookup sock setopt bnd lstn conf n =
     (let (r, n) = ctrl_socket_init lookup sock conf n
      in if r < 0 then (-1, n)
         else if setopt < 0 then (-1, n\<lparr>ctrlsocket := -1\<rparr>)
         else if bnd < 0 then (-1, n\<lparr>ctrlsocket := -1\<rparr>)
         else if ctrlproto conf = IPPROTO_TCP \<and> lstn < 0 then (-1, n\<lparr>ctrlsocket := -1\<rparr>)
         else (0, n))"

text \<open>
  The check of the handshake in \<open>ctrl_server_thread\<close>. \<open>myid\<close> is the version with its terminating NUL.
  \<open>None\<close> is a comparison that runs past one of the two texts.
\<close>

definition server_handshake :: "bytes \<Rightarrow> bytes \<Rightarrow> bool option" where
  "server_handshake myid buf =
     (if buf = [] then Some False
      else let len = unat (hd buf)
           in if len > length buf then Some False
              else if len = 0 then None
              else if len - 1 > length myid then
                (if take (length myid) (tl buf) = myid then None else Some False)
              else Some (take (len - 1) myid = take (len - 1) (tl buf)))"

section \<open>The server thread\<close>

datatype ctrl_event = Handled nat bytes | Swallowed | Replayed bytes | Queued | DroppedFull

record ctrl_server =
  sv_buf :: bytes
  sv_head :: nat
  sv_len :: nat
  sv_handlers :: "nat option list"
  sv_replay :: bool
  sv_queue :: ctrl_queue

definition bufSize :: nat where "bufSize = 8192"

definition server_dispatch :: "nat \<Rightarrow> ctrl_server \<Rightarrow> (ctrl_event \<times> ctrl_server) option" where
  "server_dispatch msglen s = do {
     (r, b, called) \<leftarrow> ctrlsys_handle_message (sv_handlers s) (Some (drop (sv_head s) (sv_buf s))) msglen;
     let s' = s\<lparr>sv_buf := take (sv_head s) (sv_buf s) @ (case b of None \<Rightarrow> [] | Some b \<Rightarrow> b)\<rparr>;
     if r \<noteq> 0 then Some (case called of Some (h, m) \<Rightarrow> Handled h (take msglen m) | None \<Rightarrow> Swallowed, s')
     else if sv_replay s then
       (if sv_head s + msglen > length (sv_buf s) then None
        else Some (Replayed (buf_read (sv_head s) msglen (sv_buf s)), s'))
     else do {
       (w, q) \<leftarrow> ctrl_queue_write_msg (drop (sv_head s) (sv_buf s)) (int msglen) (sv_queue s);
       Some (if w \<noteq> int msglen then DroppedFull else Queued, s'\<lparr>sv_queue := q\<rparr>)
     }
   }"

text \<open>
  The part of the loop from the label \<open>tcp_again\<close> on. \<open>Readmore\<close> jumps back to the receive without
  resetting \<open>bufhead\<close>; \<open>NextLoop\<close> starts the next round, which does.
\<close>

datatype tcp_next = Readmore | NextLoop

function tcp_again :: "ctrl_server \<Rightarrow> (ctrl_event list \<times> tcp_next \<times> ctrl_server) option" where
  "tcp_again s =
     (if sv_len s < 2 then Some ([], Readmore, s)
      else if sv_head s + 2 > length (sv_buf s) then None
      else let msglen = unat (htons (get16 (drop (sv_head s) (sv_buf s))))
           in if msglen = 0 then Some ([], NextLoop, s)
              else if sv_len s < msglen \<and> sv_len s < bufSize - sv_head s then
                Some ([], Readmore, s\<lparr>sv_buf := buf_write 0 (buf_read (sv_head s) (sv_len s) (sv_buf s)) (sv_buf s)\<rparr>)
              else (case server_dispatch msglen s of
                      None \<Rightarrow> None
                    | Some (e, s') \<Rightarrow>
                        if sv_len s > msglen
                        then (case tcp_again (s'\<lparr>sv_head := sv_head s + msglen, sv_len := sv_len s - msglen\<rparr>) of
                                None \<Rightarrow> None
                              | Some (es, n, t) \<Rightarrow> Some (e # es, n, t))
                        else Some ([e], NextLoop, s'\<lparr>sv_len := 0\<rparr>)))"
  by pat_completeness auto
termination by (relation "measure sv_len") auto

declare tcp_again.simps [simp del]

text \<open>
  One receive of at most the room left, and what follows it. The outer \<open>None\<close> is an access out of bounds,
  the inner one the end of the connection (nothing received).
\<close>

definition tcp_recv ::
  "tcp_next \<Rightarrow> bytes \<Rightarrow> ctrl_server \<Rightarrow> (ctrl_event list \<times> tcp_next \<times> ctrl_server) option option" where
  "tcp_recv next_step chunk s =
     (let s = (if next_step = NextLoop then s\<lparr>sv_head := 0\<rparr> else s); d = take (bufSize - sv_len s) chunk
      in if d = [] then Some None
         else (case tcp_again (s\<lparr>sv_buf := buf_write (sv_len s) d (sv_buf s), sv_len := sv_len s + length d\<rparr>) of
                 None \<Rightarrow> None
               | Some r \<Rightarrow> Some (Some r)))"

fun tcp_run :: "tcp_next \<Rightarrow> bytes list \<Rightarrow> ctrl_server \<Rightarrow> (ctrl_event list \<times> tcp_next \<times> ctrl_server) option" where
  "tcp_run n [] s = Some ([], n, s)"
| "tcp_run n (c # cs) s =
     (case tcp_recv n c s of
        None \<Rightarrow> None
      | Some None \<Rightarrow> Some ([], n, s)
      | Some (Some (es, n', s')) \<Rightarrow>
          (case tcp_run n' cs s' of None \<Rightarrow> None | Some (es', n'', t) \<Rightarrow> Some (es @ es', n'', t)))"

text \<open>One datagram, once its sender is accepted.\<close>

definition udp_recv :: "bytes \<Rightarrow> ctrl_server \<Rightarrow> (ctrl_event list \<times> ctrl_server) option" where
  "udp_recv datagram s =
     (let d = take bufSize datagram;
          s = s\<lparr>sv_buf := buf_write 0 d (sv_buf s), sv_len := length d, sv_head := 0\<rparr>
      in if sv_len s < 2 then Some ([], s)
         else let msglen = unat (htons (get16 (sv_buf s)))
              in if msglen = 0 \<or> sv_len s \<noteq> msglen then Some ([], s)
                 else do { (e, s') \<leftarrow> server_dispatch msglen s; Some ([e], s'\<lparr>sv_len := 0\<rparr>) })"

section \<open>The client\<close>

text \<open>Whether the waiting thread is woken, and the queue.\<close>

definition ctrl_client_sendmsg :: "bool \<Rightarrow> bytes \<Rightarrow> int \<Rightarrow> ctrl_queue \<Rightarrow> (bool \<times> ctrl_queue) option" where
  "ctrl_client_sendmsg enabled msg msglen q =
     (if \<not> enabled then Some (False, q)
      else do { (w, q') \<leftarrow> ctrl_queue_write_msg msg msglen q; Some (w = msglen, q') })"

text \<open>
  The inner loop of \<open>ctrl_client_thread\<close> after a wake-up. \<open>sends\<close> gives the results of the successive
  \<open>send\<close> calls; a failed one ends the process. The flag tells whether a null message ended the
  thread. The first argument bounds the messages: there are no more than the queue has units.
\<close>

fun client_drain :: "nat \<Rightarrow> int list \<Rightarrow> ctrl_queue \<Rightarrow> (bytes list \<times> bool \<times> ctrl_queue) outcome option" where
  "client_drain 0 sends q = Some (Ret ([], False, q))"
| "client_drain (Suc n) sends q =
     (case ctrl_queue_read_msg q of
        None \<Rightarrow> Some (Ret ([], False, q))
      | Some qm \<Rightarrow>
          (case qbuffer q of
             None \<Rightarrow> None
           | Some b \<Rightarrow>
               if nat qm + 2 > length b then None
               else let len = unat (get16 (drop (nat qm) b))
                    in if len = 0 then Some (Ret ([], True, q))
                       else if nat qm + 2 + len > length b then None
                       else (case sends of
                               [] \<Rightarrow> Some (Ret ([], False, q))
                             | w # ws \<Rightarrow>
                                 if w < 0 then Some (Exit (-1))
                                 else (case client_drain n ws (ctrl_queue_release_msg qm q) of
                                         None \<Rightarrow> None
                                       | Some (Exit e) \<Rightarrow> Some (Exit e)
                                       | Some (Ret (ms, quit, q')) \<Rightarrow>
                                           Some (Ret (buf_read (nat qm + 2) len b # ms, quit, q'))))))"

section \<open>Resolutions\<close>

record ctrl_resolution =
  curr_width :: int
  curr_height :: int
  output_width :: int
  output_height :: int

definition resolution_initial :: ctrl_resolution where
  "resolution_initial = \<lparr>curr_width = -1, curr_height = -1, output_width = -1, output_height = -1\<rparr>"

definition ctrl_server_set_output_resolution :: "int \<Rightarrow> int \<Rightarrow> ctrl_resolution \<Rightarrow> ctrl_resolution" where
  "ctrl_server_set_output_resolution width height r = r\<lparr>output_width := width, output_height := height\<rparr>"

definition ctrl_server_set_resolution :: "int \<Rightarrow> int \<Rightarrow> ctrl_resolution \<Rightarrow> ctrl_resolution" where
  "ctrl_server_set_resolution width height r = r\<lparr>curr_width := width, curr_height := height\<rparr>"

definition ctrl_server_get_resolution :: "ctrl_resolution \<Rightarrow> int \<times> int" where
  "ctrl_server_get_resolution r = (curr_width r, curr_height r)"

section \<open>Reassembly\<close>

definition framed :: "bytes \<Rightarrow> bool" where
  "framed m \<longleftrightarrow> 2 \<le> length m \<and> length m < 65536 \<and> get16 m = htons (of_nat (length m))"

text \<open>A message that is not a system message.\<close>

definition plain_msg :: "bytes \<Rightarrow> bool" where
  "plain_msg m \<longleftrightarrow> length m < 4 \<or> m ! 2 \<noteq> CTRL_MSGTYPE_SYSTEM"

lemma get16_append: "2 \<le> length m \<Longrightarrow> get16 (m @ r) = get16 m"
  by (cases m; cases "tl m") (auto simp: get16_def)

lemma framed_length:
  assumes "framed m"
  shows "unat (htons (get16 (m @ r))) = length m"
proof -
  have "get16 (m @ r) = htons (of_nat (length m))"
    using assms by (simp add: framed_def get16_append)
  moreover have "unat (of_nat (length m) :: u16) = length m"
    using assms by (simp add: framed_def unat_of_nat take_bit_nat_eq_self_iff)
  ultimately show ?thesis by simp
qed

lemma dispatch_plain:
  assumes "sv_replay s" "sv_buf s = pre @ m @ post" "sv_head s = length pre" "framed m" "plain_msg m"
  shows "server_dispatch (length m) s = Some (Replayed m, s)"
proof -
  have "ctrlsys_handle_message hs (Some (m @ post)) (length m) = Some (0, Some (m @ post), None)" for hs
    using assms(5) by (auto simp: ctrlsys_handle_message_def plain_msg_def nth_append)
  with assms(1-3) show ?thesis by (simp add: server_dispatch_def buf_read_def)
qed

lemma tcp_again_frames:
  assumes "ms \<noteq> []" "\<forall>m \<in> set ms. framed m \<and> plain_msg m" "sv_replay s"
    and "sv_buf s = pre @ concat ms @ post" "sv_head s = length pre" "sv_len s = length (concat ms)"
  shows "\<exists>h. tcp_again s = Some (map Replayed ms, NextLoop, s\<lparr>sv_head := h, sv_len := 0\<rparr>)"
  using assms
proof (induction ms arbitrary: s pre)
  case (Cons m ms)
  let ?rest = "concat ms @ post"
  have fr: "framed m" "plain_msg m" and buf: "sv_buf s = pre @ m @ ?rest" "sv_head s = length pre"
    and len: "sv_len s = length m + length (concat ms)" "2 \<le> length m"
    using Cons.prems by (auto simp: framed_def)
  have ml: "unat (htons (get16 (drop (sv_head s) (sv_buf s)))) = length m"
    using buf framed_length [OF fr(1)] by simp
  have d: "server_dispatch (length m) s = Some (Replayed m, s)"
    using dispatch_plain Cons.prems(3) buf fr by blast
  show ?case
  proof (cases ms)
    case Nil
    then have "tcp_again s = Some ([Replayed m], NextLoop, s\<lparr>sv_len := 0\<rparr>)"
      using len buf ml d by (subst tcp_again.simps) (auto simp: Let_def)
    with Nil show ?thesis by (intro exI [of _ "sv_head s"]) simp
  next
    case (Cons m' ms')
    let ?s = "s\<lparr>sv_head := sv_head s + length m, sv_len := sv_len s - length m\<rparr>"
    have "0 < length (concat ms)" using Cons Cons.prems(2) by (auto simp: framed_def)
    then have step: "tcp_again s = (case tcp_again ?s of None \<Rightarrow> None | Some (es, n, t) \<Rightarrow> Some (Replayed m # es, n, t))"
      using len buf ml d by (subst tcp_again.simps) (auto simp: Let_def)
    have "\<exists>h. tcp_again ?s = Some (map Replayed ms, NextLoop, ?s\<lparr>sv_head := h, sv_len := 0\<rparr>)"
      using Cons.prems Cons len buf by (intro Cons.IH [of _ "pre @ m"]) auto
    with step show ?thesis by auto
  qed
qed simp

lemma tcp_recv_frames:
  assumes "ms \<noteq> []" "\<forall>m \<in> set ms. framed m \<and> plain_msg m" "sv_replay s" "sv_len s = 0"
    and "length (concat ms) \<le> bufSize" "length (sv_buf s) = bufSize"
  shows "\<exists>s'. tcp_recv NextLoop (concat ms) s = Some (Some (map Replayed ms, NextLoop, s'))
    \<and> sv_replay s' \<and> sv_len s' = 0 \<and> length (sv_buf s') = bufSize"
proof -
  let ?c = "concat ms"
  let ?s = "s\<lparr>sv_head := 0, sv_buf := buf_write 0 ?c (sv_buf s), sv_len := length ?c\<rparr>"
  have c: "?c \<noteq> []" using assms(1,2) by (cases ms) (auto simp: framed_def)
  have "\<exists>h. tcp_again ?s = Some (map Replayed ms, NextLoop, ?s\<lparr>sv_head := h, sv_len := 0\<rparr>)"
    using assms by (intro tcp_again_frames [where pre = "[]"]) (auto simp: buf_write_def)
  then obtain h where "tcp_again ?s = Some (map Replayed ms, NextLoop, ?s\<lparr>sv_head := h, sv_len := 0\<rparr>)" ..
  moreover have "0 < bufSize" by (simp add: bufSize_def)
  ultimately show ?thesis using assms c by (simp add: tcp_recv_def Let_def length_buf_write)
qed

lemma tcp_run_frames:
  assumes "\<forall>ms \<in> set mss. ms \<noteq> [] \<and> length (concat ms) \<le> bufSize \<and> (\<forall>m \<in> set ms. framed m \<and> plain_msg m)"
    and "sv_replay s" "sv_len s = 0" "length (sv_buf s) = bufSize"
  shows "\<exists>s'. tcp_run NextLoop (map concat mss) s = Some (map Replayed (concat mss), NextLoop, s') \<and> sv_len s' = 0"
  using assms
proof (induction mss arbitrary: s)
  case (Cons ms mss)
  then obtain s1 where s1: "tcp_recv NextLoop (concat ms) s = Some (Some (map Replayed ms, NextLoop, s1))"
    "sv_replay s1" "sv_len s1 = 0" "length (sv_buf s1) = bufSize"
    using tcp_recv_frames [of ms s] by auto
  with Cons.IH [of s1] Cons.prems show ?case by auto
qed simp

text \<open>A message that begins a receive and is completed by later ones.\<close>

lemma buf_write_self: "n \<le> length b \<Longrightarrow> buf_write 0 (buf_read 0 n b) b = b"
  by (simp add: buf_write_def buf_read_def min_def)

lemma tcp_again_partial:
  assumes "sv_head s = 0" "length (sv_buf s) = bufSize" "take (sv_len s) (sv_buf s) = p" "sv_len s = length p"
    and "m = p @ r" "framed m" "length m \<le> bufSize" "plain_msg m" "sv_replay s"
  shows "tcp_again s = (if r = [] then Some ([Replayed m], NextLoop, s\<lparr>sv_len := 0\<rparr>) else Some ([], Readmore, s))"
proof (cases "length p < 2")
  case True
  then have "r \<noteq> []" using assms(5,6) by (auto simp: framed_def)
  with True assms(4) show ?thesis by (subst tcp_again.simps) simp
next
  case False
  have buf: "sv_buf s = p @ drop (length p) (sv_buf s)" using assms(3,4) by (metis append_take_drop_id)
  have "get16 (sv_buf s) = get16 p" using buf False get16_append [of p] by (metis not_less)
  moreover have "get16 (m @ []) = get16 p" using assms(5) False get16_append [of p r] by (simp add: not_less)
  ultimately have ml: "unat (htons (get16 (sv_buf s))) = length m"
    using framed_length [OF assms(6), of "[]"] by simp
  show ?thesis
  proof (cases "r = []")
    case True
    then have "server_dispatch (length m) s = Some (Replayed m, s)"
      using assms buf dispatch_plain [of s "[]" m "drop (length p) (sv_buf s)"] by simp
    with True False assms ml show ?thesis by (subst tcp_again.simps) (auto simp: bufSize_def Let_def)
  next
    case nr: False
    then have r0: "0 < length r" by simp
    have pr: "length p + length r \<le> bufSize" "length m = length p + length r" using assms(5,7) by simp_all
    have "length p < length m" "length p < bufSize" using r0 pr by linarith+
    moreover from this have "length p \<le> length (sv_buf s)" using assms(2) by simp
    ultimately show ?thesis using nr False assms ml
      by (subst tcp_again.simps) (simp add: bufSize_def buf_write_self Let_def)
  qed
qed

lemma tcp_run_reassembles:
  assumes "sv_head s = 0" "length (sv_buf s) = bufSize" "take (sv_len s) (sv_buf s) = p" "sv_len s = length p"
    and "m = p @ concat cs" "cs \<noteq> []" "\<forall>c \<in> set cs. c \<noteq> []" "framed m" "length m \<le> bufSize" "plain_msg m" "sv_replay s"
  shows "\<exists>s'. tcp_run n cs s = Some ([Replayed m], NextLoop, s') \<and> sv_len s' = 0"
  using assms
proof (induction cs arbitrary: s p n)
  case (Cons c cs)
  let ?s = "s\<lparr>sv_buf := buf_write (length p) c (sv_buf s), sv_len := length p + length c\<rparr>"
  have fits: "length p + length c \<le> bufSize" using Cons.prems by simp
  have s0: "(if n = NextLoop then s\<lparr>sv_head := 0\<rparr> else s) = s" using Cons.prems(1) by (cases s) simp
  have pre: "take (length p + length c) (buf_write (length p) c (sv_buf s)) = p @ c"
    using Cons.prems(3,4) Cons.prems(2) fits by (auto simp: buf_write_def)
  have again: "tcp_again ?s = (if concat cs = [] then Some ([Replayed m], NextLoop, ?s\<lparr>sv_len := 0\<rparr>) else Some ([], Readmore, ?s))"
    using Cons.prems fits pre by (intro tcp_again_partial [where p = "p @ c"]) (auto simp: length_buf_write)
  have recv: "tcp_recv n c s = (case tcp_again ?s of None \<Rightarrow> None | Some r \<Rightarrow> Some (Some r))"
  proof -
    have "take (bufSize - sv_len s) c = c" "c \<noteq> []" using fits Cons.prems by auto
    then show ?thesis unfolding tcp_recv_def Let_def s0 using Cons.prems(4) by simp
  qed
  show ?case
  proof (cases cs)
    case Nil
    then show ?thesis using recv again by simp
  next
    case (Cons c' cs')
    then have ne: "concat cs \<noteq> []" using Cons.prems(7) by auto
    have "\<exists>s'. tcp_run Readmore cs ?s = Some ([Replayed m], NextLoop, s') \<and> sv_len s' = 0"
      using Cons.prems Cons pre fits by (intro Cons.IH [where p = "p @ c"]) (auto simp: length_buf_write)
    then show ?thesis using recv again ne by auto
  qed
qed simp

section \<open>Properties\<close>


definition demo_server :: ctrl_server where
  "demo_server = \<lparr>sv_buf = replicate 8192 0, sv_head = 0, sv_len = 0, sv_handlers = [None, None, None],
     sv_replay = True, sv_queue = queue_initial\<rparr>"

lemma demo_framed: "framed [0, 4, 9, x] \<and> plain_msg [0, 4, 9, x]"
proof -
  have "get16 [0, 4, 9, x] = 0x0400" by (simp add: get16_def)
  moreover have "htons 4 = 0x0400" by code_simp
  ultimately show ?thesis by (simp add: framed_def plain_msg_def ctrl_consts)
qed


text \<open>
  A message of at most 8192 bytes that begins a receive is put together from any number of receives, however
  it is cut.
\<close>

theorem tcp_reassembles_first:
  assumes "m = concat cs" "cs \<noteq> []" "\<forall>c \<in> set cs. c \<noteq> []" "framed m" "length m \<le> bufSize" "plain_msg m"
    and "sv_replay s" "sv_len s = 0" "sv_head s = 0" "length (sv_buf s) = bufSize"
  shows "\<exists>s'. tcp_run NextLoop cs s = Some ([Replayed m], NextLoop, s') \<and> sv_len s' = 0"
  using assms tcp_run_reassembles [of s "[]" m cs NextLoop] by simp

theorem tcp_reassembles_first_witness:
  "\<exists>s'. tcp_run NextLoop [[0], [4, 9], [1]] demo_server = Some ([Replayed [0, 4, 9, 1]], NextLoop, s') \<and> sv_len s' = 0"
  by (rule tcp_reassembles_first) (auto simp: demo_framed demo_server_def bufSize_def)

lemma get16_04: "get16 (0 # 4 # r) = 0x0400"
  by (simp add: get16_def)

lemma htons_0400: "htons 0x0400 = 4"
  by code_simp

lemma dispatch_04:
  assumes "sv_buf s = pre @ [0, 4, a, b] @ r" "sv_head s = length pre" "a \<noteq> CTRL_MSGTYPE_SYSTEM" "sv_replay s"
  shows "server_dispatch 4 s = Some (Replayed [0, 4, a, b], s)"
proof -
  have "htons 4 = 0x0400" by code_simp
  then have "framed [0, 4, a, b]" by (simp add: framed_def get16_04)
  then have "server_dispatch (length [0, 4, a, b]) s = Some (Replayed [0, 4, a, b], s)"
    using assms by (intro dispatch_plain [of s pre "[0, 4, a, b]" r]) (auto simp: plain_msg_def)
  moreover have "length [0, 4, a, b] = 4" by simp
  ultimately show ?thesis by (simp only:)
qed

lemma corrupt_first:
  assumes "length z = 8184"
  shows "tcp_again (demo_server\<lparr>sv_buf := [0, 4, 9, 1, 0, 4, 0, 0] @ z, sv_len := 6\<rparr>) =
    Some ([Replayed [0, 4, 9, 1]], Readmore, demo_server\<lparr>sv_buf := [0, 4, 9, 1, 0, 4, 0, 0] @ z, sv_len := 2, sv_head := 4\<rparr>)"
proof -
  let ?s = "demo_server\<lparr>sv_buf := [0, 4, 9, 1, 0, 4, 0, 0] @ z, sv_len := 6\<rparr>"
  have d: "server_dispatch 4 ?s = Some (Replayed [0, 4, 9, 1], ?s)"
    by (rule dispatch_04 [where pre = "[]"]) (simp_all add: demo_server_def ctrl_consts)
  have "tcp_again (?s\<lparr>sv_head := 4, sv_len := 2\<rparr>) = Some ([], Readmore, ?s\<lparr>sv_head := 4, sv_len := 2\<rparr>)"
    using assms by (subst tcp_again.simps)
      (simp add: demo_server_def get16_04 htons_0400 bufSize_def buf_write_def buf_read_def)
  with d assms show ?thesis
    by (subst tcp_again.simps) (simp add: demo_server_def get16_04 htons_0400 bufSize_def)
qed

lemma corrupt_second:
  assumes "length z = 8184"
  shows "tcp_again (demo_server\<lparr>sv_buf := [0, 4, 9, 2, 0, 4, 0, 0] @ z, sv_len := 4, sv_head := 4\<rparr>) =
    Some ([Replayed [0, 4, 0, 0]], NextLoop, demo_server\<lparr>sv_buf := [0, 4, 9, 2, 0, 4, 0, 0] @ z, sv_len := 0, sv_head := 4\<rparr>)"
proof -
  let ?s = "demo_server\<lparr>sv_buf := [0, 4, 9, 2, 0, 4, 0, 0] @ z, sv_len := 4, sv_head := 4\<rparr>"
  have "server_dispatch 4 ?s = Some (Replayed [0, 4, 0, 0], ?s)"
    by (rule dispatch_04 [where pre = "[0, 4, 9, 2]"]) (simp_all add: demo_server_def ctrl_consts)
  with assms show ?thesis
    by (subst tcp_again.simps) (simp add: demo_server_def get16_04 htons_0400 bufSize_def)
qed

text \<open>
  A message that begins behind another one in the same receive and ends in the next is corrupted: the offset
  of the earlier round is not reset, so the dispatcher is handed bytes that were never received. Of
  the stream 00 04 09 01 00 04 | 09 02 the second message dispatched is 00 04 00 00.
\<close>

theorem tcp_split_message_corrupted:
  "map_option fst (tcp_run NextLoop [[0, 4, 9, 1, 0, 4], [9, 2]] demo_server) =
     Some [Replayed [0, 4, 9, 1], Replayed [0, 4, 0, 0]]"
proof -
  let ?z = "replicate 8184 (0 :: u8)"
  have z: "length ?z = 8184" by simp
  have rep: "drop 6 (replicate 8192 (0 :: u8)) = 0 # 0 # ?z" 
    using replicate_add [of 2 8184 "0 :: u8"] by (simp add: numeral_2_eq_2)
  have r1: "tcp_recv NextLoop [0, 4, 9, 1, 0, 4] demo_server = Some (Some ([Replayed [0, 4, 9, 1]], Readmore,
      demo_server\<lparr>sv_buf := [0, 4, 9, 1, 0, 4, 0, 0] @ ?z, sv_len := 2, sv_head := 4\<rparr>))"
    using corrupt_first [OF z] rep
    by (simp add: tcp_recv_def bufSize_def buf_write_def demo_server_def One_nat_def [symmetric] del: One_nat_def)
  have r2: "tcp_recv Readmore [9, 2] (demo_server\<lparr>sv_buf := [0, 4, 9, 1, 0, 4, 0, 0] @ ?z, sv_len := 2, sv_head := 4\<rparr>) =
      Some (Some ([Replayed [0, 4, 0, 0]], NextLoop,
        demo_server\<lparr>sv_buf := [0, 4, 9, 2, 0, 4, 0, 0] @ ?z, sv_len := 0, sv_head := 4\<rparr>))"
  proof -
    have four: "(4 :: nat) = Suc (Suc (Suc (Suc 0)))" by simp
    show ?thesis
      using corrupt_second [OF z, unfolded four]
      by (simp add: four tcp_recv_def bufSize_def buf_write_def demo_server_def)
  qed
  show ?thesis by (simp only: tcp_run.simps r1 option.case prod.case r2) simp
qed

text \<open>
  The handshake a client sends is accepted by a server of the same version. A handshake that carries no
  identifier at all, only the length byte 1, is accepted by every server.
\<close>

theorem handshake_accepted:
  "server_handshake (CTRL_CURRENT_VERSION @ [0]) (client_handshake CTRL_CURRENT_VERSION) = Some True
   \<and> server_handshake myid (1 # rest) = Some True"
proof -
  have "client_handshake CTRL_CURRENT_VERSION = 11 # CTRL_CURRENT_VERSION @ [0]" by code_simp
  moreover have "length CTRL_CURRENT_VERSION = 9" by (simp add: CTRL_CURRENT_VERSION_def)
  ultimately show ?thesis by (simp add: server_handshake_def)
qed

end
