(* ===== verification/Asource.thy ===== *)
theory Asource
  imports Fifo StdMap
begin

text \<open>
  The audio source of \<open>sources/streamer/core/asource.cpp\<close>: per client a byte buffer with head and
  tail offsets and a count of buffered frames, filled by the capture thread and read by the encoder,
  the registry of clients, and the audio format. Buffers live at addresses, 0 is NULL;
  \<open>None\<close> is an access outside a buffer.
\<close>

section \<open>Data\<close>

record audio_buffer =
  bufPts :: int
  client_connected :: bool
  ab_frames :: int
  ab_channels :: int
  ab_bitspersample :: int
  bufsize :: int
  bufhead :: int
  buftail :: int
  bframes :: int
  ab_buffer :: bytes

record audio_format =
  gChunksize :: int
  gSamplerate :: int
  gBitspersample :: int
  gChannels :: int

definition audio_source_setup :: "int \<Rightarrow> int \<Rightarrow> int \<Rightarrow> int \<Rightarrow> audio_format" where
  "audio_source_setup chunksize samplerate bitspersample channels =
     \<lparr>gChunksize = chunksize, gSamplerate = samplerate, gBitspersample = bitspersample, gChannels = channels\<rparr>"

definition audio_source_chunkbytes :: "audio_format \<Rightarrow> int" where
  "audio_source_chunkbytes f = c_div (gChunksize f * gChannels f * gBitspersample f) 8"

text \<open>\<open>alloc\<close> is what \<open>malloc\<close> returns for the given size; \<open>None\<close> is NULL.\<close>

definition audio_source_buffer_init :: "(int \<Rightarrow> bytes option) \<Rightarrow> audio_format \<Rightarrow> audio_buffer option" where
  "audio_source_buffer_init alloc f =
     (let frames = gChunksize f * 4; channels = gChannels f; bitspersample = gBitspersample f;
          size' = c_div (frames * channels * bitspersample) 8
      in if frames = 0 \<or> channels = 0 \<or> bitspersample = 0 then None
         else map_option (\<lambda>b. \<lparr>bufPts = 0, client_connected = False, ab_frames = frames, ab_channels = channels,
                ab_bitspersample = bitspersample, bufsize = size', bufhead = 0, buftail = 0, bframes = 0,
                ab_buffer = b\<rparr>) (alloc size'))"

section \<open>Filling and reading\<close>

definition frame_bytes :: "int \<Rightarrow> audio_buffer \<Rightarrow> int" where
  "frame_bytes frames ab = c_div (frames * ab_channels ab * ab_bitspersample ab) 8"

definition fill_compact :: "audio_buffer \<Rightarrow> audio_buffer" where
  "fill_compact ab = ab\<lparr>ab_buffer := buf_write 0 (buf_read (nat (bufhead ab)) (nat (buftail ab - bufhead ab)) (ab_buffer ab)) (ab_buffer ab),
     buftail := buftail ab - bufhead ab, bufhead := 0\<rparr>"

text \<open>The \<open>retry\<close> loop. A \<open>None\<close> for the data is NULL, for which zeros are stored.\<close>

function fill_retry :: "bytes option \<Rightarrow> int \<Rightarrow> int \<Rightarrow> audio_buffer \<Rightarrow> audio_buffer option" where
  "fill_retry data frames framesize ab =
     (let headspace = bufhead ab; tailspace = bufsize ab - buftail ab
      in if framesize > headspace + tailspace then Some ab
         else if framesize \<le> tailspace then
           (if framesize < 0 \<or> buftail ab < 0 \<or> nat (buftail ab + framesize) > length (ab_buffer ab)
               \<or> (case data of None \<Rightarrow> False | Some d \<Rightarrow> length d < nat framesize) then None
            else Some (ab\<lparr>ab_buffer := buf_write (nat (buftail ab))
                   (case data of None \<Rightarrow> replicate (nat framesize) 0 | Some d \<Rightarrow> take (nat framesize) d) (ab_buffer ab),
                 buftail := buftail ab + framesize, bframes := bframes ab + frames\<rparr>))
         else fill_retry data frames framesize (fill_compact ab))"
  by pat_completeness auto
termination
  by (relation "measure (\<lambda>(d, f, n, ab). nat (bufhead ab))") (auto simp: fill_compact_def)

declare fill_retry.simps [simp del]

definition audio_source_buffer_fill_one :: "bytes option \<Rightarrow> int \<Rightarrow> audio_buffer \<Rightarrow> audio_buffer option" where
  "audio_source_buffer_fill_one data frames ab =
     (if frames \<le> 0 then Some ab else fill_retry data frames (frame_bytes frames ab) ab)"

text \<open>
  The second argument is what the other threads did to the buffer during the wait, which takes place when no
  frame is buffered. The result is the return value, the bytes copied out and the buffer.
\<close>

definition audio_source_buffer_read ::
  "int \<Rightarrow> (audio_buffer \<Rightarrow> audio_buffer) \<Rightarrow> audio_buffer \<Rightarrow> (int \<times> bytes \<times> audio_buffer) option" where
  "audio_source_buffer_read frames wait ab =
     (if frames \<le> 0 then Some (0, [], ab)
      else let ab = (if bframes ab = 0 then wait ab else ab);
               copyframe = (if bframes ab \<ge> frames then frames else bframes ab)
           in if copyframe > 0 then
                let copysize = c_div (copyframe * ab_channels ab * ab_bitspersample ab) 8
                in if copysize < 0 \<or> bufhead ab < 0 \<or> nat (bufhead ab + copysize) > length (ab_buffer ab) then None
                   else let d = buf_read (nat (bufhead ab)) (nat copysize) (ab_buffer ab);
                            ab1 = ab\<lparr>bufhead := bufhead ab + copysize, bframes := bframes ab - copyframe,
                                    bufPts := bufPts ab + copyframe\<rparr>
                        in Some (copyframe, d, if bframes ab1 = 0 then ab1\<lparr>bufhead := 0, buftail := 0\<rparr> else ab1)
              else Some (copyframe, [], ab))"

definition audio_source_buffer_purge :: "audio_buffer \<Rightarrow> audio_buffer" where
  "audio_source_buffer_purge ab = ab\<lparr>bufPts := 0, bufhead := 0, buftail := 0, bframes := 0\<rparr>"

section \<open>Clients\<close>

record audio_clients =
  gClients :: "(int, nat) omap"
  ac_bufs :: "nat \<rightharpoonup> audio_buffer"

definition audio_source_client_register :: "int \<Rightarrow> nat \<Rightarrow> audio_clients \<Rightarrow> audio_clients" where
  "audio_source_client_register tid ab c = c\<lparr>gClients := om_put tid ab (gClients c)\<rparr>"

definition audio_source_client_unregister :: "int \<Rightarrow> audio_clients \<Rightarrow> audio_clients" where
  "audio_source_client_unregister tid c = c\<lparr>gClients := om_erase tid (gClients c)\<rparr>"

definition audio_source_client_count :: "audio_clients \<Rightarrow> int" where
  "audio_source_client_count c = int (length (gClients c))"

definition audio_source_buffer_deinit :: "nat \<Rightarrow> audio_clients \<Rightarrow> audio_clients" where
  "audio_source_buffer_deinit ab c = (if ab = 0 then c else c\<lparr>ac_bufs := (ac_bufs c)(ab := None)\<rparr>)"

text \<open>Filling all connected clients in the order of their thread ids.\<close>

fun fill_clients :: "bytes option \<Rightarrow> int \<Rightarrow> (int \<times> nat) list \<Rightarrow> (nat \<rightharpoonup> audio_buffer) \<Rightarrow> (nat \<rightharpoonup> audio_buffer) option" where
  "fill_clients data frames [] bufs = Some bufs"
| "fill_clients data frames ((tid, a) # cs) bufs =
     (if a = 0 then fill_clients data frames cs bufs
      else (case bufs a of
              None \<Rightarrow> None
            | Some ab \<Rightarrow>
                if client_connected ab then
                  (case audio_source_buffer_fill_one data frames ab of
                     None \<Rightarrow> None
                   | Some ab' \<Rightarrow> fill_clients data frames cs (bufs(a \<mapsto> ab')))
                else fill_clients data frames cs bufs))"

definition audio_source_buffer_fill :: "bytes option \<Rightarrow> int \<Rightarrow> audio_clients \<Rightarrow> audio_clients option" where
  "audio_source_buffer_fill data frames c =
     map_option (\<lambda>b. c\<lparr>ac_bufs := b\<rparr>) (fill_clients data frames (gClients c) (ac_bufs c))"

section \<open>What a buffer holds\<close>

text \<open>\<open>u\<close> is the number of bytes of one frame, \<open>data\<close> the bytes buffered.\<close>

definition ab_rel :: "nat \<Rightarrow> audio_buffer \<Rightarrow> bytes \<Rightarrow> bool" where
  "ab_rel u ab data \<longleftrightarrow> 0 < u \<and> ab_channels ab * ab_bitspersample ab = 8 * int u \<and>
     (\<exists>h n. bufhead ab = int h \<and> buftail ab = int (h + n * u) \<and> bframes ab = int n
        \<and> bufsize ab = int (length (ab_buffer ab)) \<and> h + n * u \<le> length (ab_buffer ab)
        \<and> data = buf_read h (n * u) (ab_buffer ab))"

lemma ab_relI:
  assumes "0 < u" "ab_channels ab * ab_bitspersample ab = 8 * int u"
    and "bufhead ab = int h" "buftail ab = int (h + n * u)" "bframes ab = int n"
    and "bufsize ab = int (length (ab_buffer ab))" "h + n * u \<le> length (ab_buffer ab)"
    and "data = buf_read h (n * u) (ab_buffer ab)"
  shows "ab_rel u ab data"
  unfolding ab_rel_def using assms by blast

lemma ab_relE:
  assumes "ab_rel u ab data"
  obtains h n where "0 < u" "ab_channels ab * ab_bitspersample ab = 8 * int u"
    "bufhead ab = int h" "buftail ab = int (h + n * u)" "bframes ab = int n"
    "bufsize ab = int (length (ab_buffer ab))" "h + n * u \<le> length (ab_buffer ab)"
    "data = buf_read h (n * u) (ab_buffer ab)" "length data = n * u"
proof -
  obtain h n where r: "0 < u" "ab_channels ab * ab_bitspersample ab = 8 * int u"
    "bufhead ab = int h" "buftail ab = int (h + n * u)" "bframes ab = int n"
    "bufsize ab = int (length (ab_buffer ab))" "h + n * u \<le> length (ab_buffer ab)"
    "data = buf_read h (n * u) (ab_buffer ab)"
    using assms unfolding ab_rel_def by blast
  moreover have "length data = n * u" using r(7,8) by (simp add: buf_read_def)
  ultimately show ?thesis by (rule that)
qed

lemma frame_bytes_unit:
  "ab_channels ab * ab_bitspersample ab = 8 * int u \<Longrightarrow> 0 \<le> k \<Longrightarrow> frame_bytes k ab = k * int u"
  by (simp add: frame_bytes_def mult.assoc c_div_nonneg)

lemma compact_rel:
  assumes "ab_rel u ab data"
  shows "ab_rel u (fill_compact ab) data \<and> bufsize (fill_compact ab) = bufsize ab
    \<and> bufhead (fill_compact ab) = 0 \<and> buftail (fill_compact ab) = int (length data)"
  using assms
proof (rule ab_relE)
  fix h n
  assume r: "0 < u" "ab_channels ab * ab_bitspersample ab = 8 * int u"
    "bufhead ab = int h" "buftail ab = int (h + n * u)" "bframes ab = int n"
    "bufsize ab = int (length (ab_buffer ab))" "h + n * u \<le> length (ab_buffer ab)"
    "data = buf_read h (n * u) (ab_buffer ab)" "length data = n * u"
  have sub: "buftail ab - bufhead ab = int (n * u)" using r(3,4) by simp
  have c: "fill_compact ab = ab\<lparr>ab_buffer := buf_write 0 data (ab_buffer ab), buftail := int (n * u), bufhead := 0\<rparr>"
    unfolding fill_compact_def sub unfolding r(3,8) nat_int ..
  have fits: "0 + length data \<le> length (ab_buffer ab)" using r(7,9) by simp
  have "ab_rel u (fill_compact ab) data"
    unfolding c using r(1,2,5,6,7) buf_read_write_same [OF fits] length_buf_write [OF fits] r(9)
    by (intro ab_relI [where h = 0 and n = n]) simp_all
  then show ?thesis using c r(9) by simp
qed

lemma append_rel:
  assumes "ab_rel u ab data" "length d = k * u" "buftail ab + int (k * u) \<le> bufsize ab"
  shows "ab_rel u (ab\<lparr>ab_buffer := buf_write (nat (buftail ab)) d (ab_buffer ab),
      buftail := buftail ab + int (k * u), bframes := bframes ab + int k\<rparr>) (data @ d)"
  using assms(1)
proof (rule ab_relE)
  fix h n
  assume r: "0 < u" "ab_channels ab * ab_bitspersample ab = 8 * int u"
    "bufhead ab = int h" "buftail ab = int (h + n * u)" "bframes ab = int n"
    "bufsize ab = int (length (ab_buffer ab))" "h + n * u \<le> length (ab_buffer ab)"
    "data = buf_read h (n * u) (ab_buffer ab)" "length data = n * u"
  let ?t = "h + n * u"
  have "int (?t + k * u) \<le> int (length (ab_buffer ab))" using assms(3) r(4,6) by simp
  then have fits: "?t + length d \<le> length (ab_buffer ab)" unfolding of_nat_le_iff using assms(2) by simp
  have tail: "nat (buftail ab) = ?t" unfolding r(4) by (rule nat_int)
  let ?b = "buf_write ?t d (ab_buffer ab)"
  have "buf_read h (n * u + k * u) ?b = buf_read h (n * u) ?b @ buf_read ?t (k * u) ?b"
    by (rule buf_read_append)
  also have "\<dots> = data @ d"
    using fits r(8) assms(2) buf_read_write_same [OF fits] by (simp add: buf_read_write_below)
  finally have "data @ d = buf_read h ((n + k) * u) ?b" by (simp add: add_mult_distrib)
  then show ?thesis
    unfolding tail using r(1-7) fits assms(2)
    by (intro ab_relI [where h = h and n = "n + k"]) (simp_all add: length_buf_write add_mult_distrib)
qed

lemma fill_tail:
  assumes "framesize \<le> bufsize ab - buftail ab" "0 \<le> framesize" "0 \<le> bufhead ab" "0 \<le> buftail ab"
    and "bufsize ab = int (length (ab_buffer ab))" "nat framesize \<le> length d"
  shows "fill_retry (Some d) frames framesize ab = Some (ab\<lparr>ab_buffer := buf_write (nat (buftail ab)) (take (nat framesize) d) (ab_buffer ab),
      buftail := buftail ab + framesize, bframes := bframes ab + frames\<rparr>)"
  using assms by (subst fill_retry.simps) (auto simp: Let_def)

lemma fill_one_rel:
  assumes "ab_rel u ab data" "0 < k" "k * u \<le> length d"
  shows "\<exists>ab'. audio_source_buffer_fill_one (Some d) (int k) ab = Some ab' \<and>
    (if int (length data + k * u) \<le> bufsize ab
     then ab_rel u ab' (data @ take (k * u) d) \<and> bufsize ab' = bufsize ab else ab' = ab)"
proof -
  obtain h n where r: "0 < u" "ab_channels ab * ab_bitspersample ab = 8 * int u"
    "bufhead ab = int h" "buftail ab = int (h + n * u)" "bframes ab = int n"
    "bufsize ab = int (length (ab_buffer ab))" "h + n * u \<le> length (ab_buffer ab)"
    "data = buf_read h (n * u) (ab_buffer ab)" and len: "length data = n * u"
    using assms(1) by (rule ab_relE)
  have fb: "frame_bytes (int k) ab = int (k * u)" using r by (simp add: frame_bytes_unit)
  have one: "audio_source_buffer_fill_one (Some d) (int k) ab = fill_retry (Some d) (int k) (int (k * u)) ab"
    using assms(2) fb by (simp add: audio_source_buffer_fill_one_def)
  have room: "int (k * u) > bufhead ab + (bufsize ab - buftail ab) \<longleftrightarrow> \<not> int (length data + k * u) \<le> bufsize ab"
    using r len by auto
  show ?thesis
  proof (cases "int (length data + k * u) \<le> bufsize ab")
    case False
    then have "fill_retry (Some d) (int k) (int (k * u)) ab = Some ab"
      using room by (subst fill_retry.simps) (simp add: Let_def)
    with one False show ?thesis by simp
  next
    case True
    show ?thesis
    proof (cases "int (k * u) \<le> bufsize ab - buftail ab")
      case tail: True
      have "fill_retry (Some d) (int k) (int (k * u)) ab = Some (ab\<lparr>ab_buffer := buf_write (nat (buftail ab)) (take (k * u) d) (ab_buffer ab),
          buftail := buftail ab + int (k * u), bframes := bframes ab + int k\<rparr>)"
        using fill_tail [OF tail, of d "int k", unfolded nat_int] r(3,4,6) assms(3) by simp
      moreover have "ab_rel u (ab\<lparr>ab_buffer := buf_write (nat (buftail ab)) (take (k * u) d) (ab_buffer ab),
          buftail := buftail ab + int (k * u), bframes := bframes ab + int k\<rparr>) (data @ take (k * u) d)"
        using assms tail by (intro append_rel) auto
      ultimately show ?thesis using one True by simp
    next
      case nt: False
      let ?ab = "fill_compact ab"
      have c: "ab_rel u ?ab data" "bufsize ?ab = bufsize ab" using compact_rel [OF assms(1)] by auto
      have f: "bufhead ?ab = 0" "buftail ?ab = int (length data)" using compact_rel [OF assms(1)] by auto
      have tail: "int (k * u) \<le> bufsize ?ab - buftail ?ab" using True c f by simp
      have bs: "bufsize ?ab = int (length (ab_buffer ?ab))" using c(1) by (auto simp: ab_rel_def)
      have "fill_retry (Some d) (int k) (int (k * u)) ab = fill_retry (Some d) (int k) (int (k * u)) ?ab"
        using nt True room by (subst fill_retry.simps) (simp add: Let_def)
      also have "\<dots> = Some (?ab\<lparr>ab_buffer := buf_write (nat (buftail ?ab)) (take (k * u) d) (ab_buffer ?ab),
          buftail := buftail ?ab + int (k * u), bframes := bframes ?ab + int k\<rparr>)"
        using fill_tail [OF tail, of d "int k", unfolded nat_int] f bs assms(3) by simp
      finally show ?thesis
        using one True c append_rel [OF c(1), of "take (k * u) d" k] tail assms(3) by simp
    qed
  qed
qed

lemma read_rel:
  assumes "ab_rel u (if bframes ab = 0 then wait ab else ab) data" "0 < k"
  shows "\<exists>c ab'. audio_source_buffer_read (int k) wait ab = Some (int c, take (c * u) data, ab')
    \<and> c = min k (length data div u) \<and> ab_rel u ab' (drop (c * u) data)
    \<and> bufsize ab' = bufsize (if bframes ab = 0 then wait ab else ab)
    \<and> bufPts ab' = bufPts (if bframes ab = 0 then wait ab else ab) + int c"
proof -
  define a where "a = (if bframes ab = 0 then wait ab else ab)"
  obtain h n where r: "0 < u" "ab_channels a * ab_bitspersample a = 8 * int u"
    "bufhead a = int h" "buftail a = int (h + n * u)" "bframes a = int n"
    "bufsize a = int (length (ab_buffer a))" "h + n * u \<le> length (ab_buffer a)"
    "data = buf_read h (n * u) (ab_buffer a)" and len: "length data = n * u"
    using assms(1) unfolding a_def [symmetric] by (rule ab_relE)
  have n: "length data div u = n" using len r(1) by simp
  define c where "c = min k n"
  have cf: "(if bframes a \<ge> int k then int k else bframes a) = int c" using r(5) by (simp add: c_def)
  show ?thesis
  proof (cases "c = 0")
    case True
    then have "n = 0" using assms(2) by (simp add: c_def)
    then have "data = []" using len by simp
    moreover have "audio_source_buffer_read (int k) wait ab = Some (0, [], a)"
      using assms(2) cf True by (simp add: audio_source_buffer_read_def Let_def a_def [symmetric])
    ultimately show ?thesis using assms True n unfolding a_def [symmetric] by (auto simp: c_def)
  next
    case False
    let ?m = "c * u"
    have cs: "c_div (int c * ab_channels a * ab_bitspersample a) 8 = int ?m"
      using r(2) by (simp add: mult.assoc c_div_nonneg)
    have cn: "c \<le> n" by (simp add: c_def)
    then obtain j where j: "n = c + j" using le_Suc_ex by blast
    have hb: "h + ?m \<le> length (ab_buffer a)" using r(7) j by (simp add: add_mult_distrib)
    have hh: "nat (bufhead a) = h" "nat (bufhead a + int ?m) = h + ?m"
      unfolding r(3) of_nat_add [symmetric] by (rule nat_int)+
    let ?a1 = "a\<lparr>bufhead := bufhead a + int ?m, bframes := bframes a - int c, bufPts := bufPts a + int c\<rparr>"
    let ?a2 = "if bframes ?a1 = 0 then ?a1\<lparr>bufhead := 0, buftail := 0\<rparr> else ?a1"
    have "buf_read h (n * u) (ab_buffer a) = buf_read h ?m (ab_buffer a) @ buf_read (h + ?m) (j * u) (ab_buffer a)"
      unfolding j add_mult_distrib by (rule buf_read_append)
    moreover have lm: "length (buf_read h ?m (ab_buffer a)) = ?m" using hb by (simp add: buf_read_def)
    ultimately have d: "take ?m data = buf_read h ?m (ab_buffer a)" "drop ?m data = buf_read (h + ?m) (j * u) (ab_buffer a)"
      using r(8) by simp_all
    have rd: "audio_source_buffer_read (int k) wait ab = Some (int c, take ?m data, ?a2)"
      unfolding audio_source_buffer_read_def Let_def a_def [symmetric] cf cs hh d(1) nat_int
      using assms(2) False hb r(3) by (simp add: not_less)
    have "ab_rel u ?a2 (drop ?m data)"
    proof (cases "j = 0")
      case True
      with r j d(2) show ?thesis by (intro ab_relI [where h = 0 and n = 0]) (simp_all add: buf_read_def)
    next
      case False
      with r j d(2) show ?thesis
        by (intro ab_relI [where h = "h + ?m" and n = j]) (simp_all add: add_mult_distrib)
    qed
    then show ?thesis using rd n unfolding a_def [symmetric] by (auto simp: c_def)
  qed
qed

section \<open>The buffer as a queue of frames\<close>

definition ab_push :: "nat \<Rightarrow> bytes \<Rightarrow> audio_buffer \<Rightarrow> audio_buffer option" where
  "ab_push u d ab =
     (if length d \<noteq> u \<or> bufhead ab + (bufsize ab - buftail ab) < int u then None
      else audio_source_buffer_fill_one (Some d) 1 ab)"

definition ab_pop :: "audio_buffer \<Rightarrow> (bytes \<times> audio_buffer) option" where
  "ab_pop ab =
     (case audio_source_buffer_read 1 (\<lambda>x. x) ab of
        Some (n, d, ab') \<Rightarrow> if n = 0 then None else Some (d, ab')
      | None \<Rightarrow> None)"

definition ab_frames_rel :: "nat \<Rightarrow> audio_buffer \<Rightarrow> bytes list \<Rightarrow> bool" where
  "ab_frames_rel u ab fs \<longleftrightarrow> ab_rel u ab (concat fs) \<and> (\<forall>f \<in> set fs. length f = u)"

interpretation ab: fifo "ab_frames_rel u" "ab_push u" ab_pop
proof unfold_locales
  fix ab ab' fs d
  assume f: "ab_frames_rel u ab fs" and p: "ab_push u d ab = Some ab'"
  then have r: "ab_rel u ab (concat fs)" by (simp add: ab_frames_rel_def)
  have d: "length d = u" "\<not> bufhead ab + (bufsize ab - buftail ab) < int u"
    "audio_source_buffer_fill_one (Some d) 1 ab = Some ab'" using p by (auto simp: ab_push_def split: if_splits)
  have "buftail ab - bufhead ab = int (length (concat fs))" using r by (auto elim!: ab_relE)
  then have "int (length (concat fs) + 1 * u) \<le> bufsize ab" using d(2) by simp
  then have "ab_rel u ab' (concat fs @ take (1 * u) d)"
    using fill_one_rel [OF r, of 1 d] d by auto
  then show "ab_frames_rel u ab' (fs @ [d])" using f d(1) by (simp add: ab_frames_rel_def)
next
  fix ab fs and x :: bytes
  assume f: "ab_frames_rel u ab (x # fs)"
  then have r: "ab_rel u ab (x @ concat fs)" and x: "length x = u" by (auto simp: ab_frames_rel_def)
  then have u: "0 < u" by (simp add: ab_rel_def)
  then have "1 \<le> length (x @ concat fs) div u" using x by (simp add: div_add_self1)
  then have "min 1 (length (x @ concat fs) div u) = 1" by simp
  then obtain ab' where "audio_source_buffer_read 1 (\<lambda>x. x) ab = Some (1, take (1 * u) (x @ concat fs), ab')"
    "ab_rel u ab' (drop (1 * u) (x @ concat fs))"
    using read_rel [of u ab "\<lambda>x. x" "x @ concat fs" 1] r by auto
  with x f show "\<exists>ab'. ab_pop ab = Some (x, ab') \<and> ab_frames_rel u ab' fs"
    by (auto simp: ab_pop_def ab_frames_rel_def)
next
  fix ab
  assume "ab_frames_rel u ab []"
  then have "ab_rel u ab []" by (simp add: ab_frames_rel_def)
  then show "ab_pop ab = None"
    using read_rel [of u ab "\<lambda>x. x" "[]" 1] by (auto simp: ab_pop_def)
qed

section \<open>Properties\<close>


definition demo_audio :: audio_buffer where
  "demo_audio = \<lparr>bufPts = 0, client_connected = True, ab_frames = 4, ab_channels = 1, ab_bitspersample = 16,
     bufsize = 8, bufhead = 4, buftail = 6, bframes = 1, ab_buffer = [0, 0, 0, 0, 5, 6, 0, 0]\<rparr>"

lemma demo_audio_rel: "ab_rel 2 demo_audio [5, 6]"
  by (rule ab_relI [where h = 4 and n = 1]) (simp_all add: demo_audio_def buf_read_def)


text \<open>
  A read returns the number of frames it copied, the smaller of those asked for and those buffered, copies the
  oldest ones, leaves the rest buffered and advances the presentation time by that number.
\<close>

theorem audio_read_oldest:
  assumes "ab_rel u (if bframes ab = 0 then wait ab else ab) data" "0 < k"
  shows "\<exists>c ab'. audio_source_buffer_read (int k) wait ab = Some (int c, take (c * u) data, ab')
    \<and> c = min k (length data div u) \<and> ab_rel u ab' (drop (c * u) data)
    \<and> bufsize ab' = bufsize (if bframes ab = 0 then wait ab else ab)
    \<and> bufPts ab' = bufPts (if bframes ab = 0 then wait ab else ab) + int c"
  using assms by (rule read_rel)

theorem audio_read_oldest_witness:
  "\<exists>ab'. audio_source_buffer_read 3 (\<lambda>x. x) demo_audio = Some (1, [5, 6], ab')"
  using audio_read_oldest [of 2 demo_audio "\<lambda>x. x" "[5, 6]" 3] demo_audio_rel by (auto simp: demo_audio_def)

text \<open>
  Over any sequence of single-frame fills and reads, the frames read are the first of the frames stored, in order.
\<close>

theorem audio_frames_fifo:
  assumes "ab_frames_rel u ab []" "fifo_exec (ab_push u) ab_pop ops ab = (stored, read, ab')"
  shows "\<exists>rest. stored = read @ rest \<and> ab_frames_rel u ab' rest"
  using ab.exec_prefix [OF assms] by blast

theorem audio_frames_fifo_witness:
  "\<exists>rest. fst (fifo_exec (ab_push 2) ab_pop [Push [1, 2], Push [3, 4], Pop] (audio_source_buffer_purge demo_audio)) =
     fst (snd (fifo_exec (ab_push 2) ab_pop [Push [1, 2], Push [3, 4], Pop] (audio_source_buffer_purge demo_audio))) @ rest"
proof -
  let ?ab = "audio_source_buffer_purge demo_audio"
  let ?r = "fifo_exec (ab_push 2) ab_pop [Push [1, 2], Push [3, 4], Pop] ?ab"
  have "ab_rel 2 ?ab []"
    by (rule ab_relI [where h = 0 and n = 0]) (simp_all add: demo_audio_def audio_source_buffer_purge_def buf_read_def)
  then have r: "ab_frames_rel 2 ?ab []" by (simp add: ab_frames_rel_def)
  have "?r = (fst ?r, fst (snd ?r), snd (snd ?r))" by simp
  from audio_frames_fifo [OF r this] show ?thesis by blast
qed

lemma fill_clients_each:
  assumes "fill_clients data frames cs bufs = Some bufs'" "distinct (map snd cs)"
  shows "bufs' a = (if a \<noteq> 0 \<and> a \<in> snd ` set cs \<and> (\<exists>ab. bufs a = Some ab \<and> client_connected ab)
      then audio_source_buffer_fill_one data frames (the (bufs a)) else bufs a)"
  using assms
proof (induction cs arbitrary: bufs)
  case (Cons x cs)
  obtain tid b where x: "x = (tid, b)" by fastforce
  show ?case
  proof (cases "b = 0")
    case True
    with Cons x show ?thesis by auto
  next
    case False
    with Cons.prems(1) x obtain ab where ab: "bufs b = Some ab" by (auto split: option.splits)
    show ?thesis
    proof (cases "client_connected ab")
      case True
      with Cons.prems(1) x False ab obtain ab' where
        f: "audio_source_buffer_fill_one data frames ab = Some ab'" "fill_clients data frames cs (bufs(b \<mapsto> ab')) = Some bufs'"
        by (auto split: option.splits)
      from Cons.IH [OF f(2)] Cons.prems(2) x f(1) False True ab show ?thesis by auto
    next
      case nc: False
      with Cons.prems x False ab Cons.IH [of bufs] show ?thesis by auto
    qed
  qed
qed simp

text \<open>
  The filler reaches exactly the connected clients: with distinct buffers registered, a fill changes the
  buffer of every connected client as a fill of that buffer alone would, and no other.
\<close>

theorem audio_fill_connected_only:
  assumes "audio_source_buffer_fill data frames c = Some c'" "distinct (map snd (gClients c))"
  shows "ac_bufs c' a = (if a \<noteq> 0 \<and> a \<in> snd ` set (gClients c) \<and> (\<exists>ab. ac_bufs c a = Some ab \<and> client_connected ab)
      then audio_source_buffer_fill_one data frames (the (ac_bufs c a)) else ac_bufs c a)"
proof -
  obtain z where z: "fill_clients data frames (gClients c) (ac_bufs c) = Some z" "c' = c\<lparr>ac_bufs := z\<rparr>"
    using assms(1) by (auto simp: audio_source_buffer_fill_def)
  from fill_clients_each [OF z(1) assms(2), of a] z(2) show ?thesis by simp
qed

theorem audio_fill_connected_only_witness:
  "\<exists>c'. audio_source_buffer_fill None 1 \<lparr>gClients = [(1, 8)], ac_bufs = [8 \<mapsto> demo_audio, 9 \<mapsto> demo_audio]\<rparr> = Some c'
     \<and> ac_bufs c' 9 = Some demo_audio"
proof -
  let ?c = "\<lparr>gClients = [(1, 8)], ac_bufs = [8 \<mapsto> demo_audio, 9 \<mapsto> demo_audio]\<rparr>"
  obtain c' where c': "audio_source_buffer_fill None 1 ?c = Some c'"
    by (auto simp: audio_source_buffer_fill_def audio_source_buffer_fill_one_def demo_audio_def frame_bytes_def c_div_def
        fill_retry.simps)
  show ?thesis using c' audio_fill_connected_only [OF c', of 9] by auto
qed

end
