(* ===== verification/GetOpts.thy ===== *)
theory GetOpts
  imports GaCommon
begin

text \<open>
  The command line parser of \<open>sources/streamer/core/ga-get-opts.cpp\<close>: the options with
  their subclasses for booleans, log levels, adapter identifiers and resolutions, the parser that
  walks the arguments, and the usage screen. An option object is a record; its subclass with
  the value the subclass keeps is the datatype \<open>opt_class\<close>.
\<close>

section \<open>Options\<close>

datatype ArgumentType = ARGUMENT_NO | ARGUMENT_OPTIONAL | ARGUMENT_MANDATORY

datatype opt_class =
    Plain
  | Opt_boolean bool
  | Opt_loglevel Severity
  | Opt_luid int int
  | Opt_resolution int int

record ga_option =
  opt_short :: char
  opt_long :: string
  opt_argtype :: ArgumentType
  opt_desc :: string
  opt_arg :: string
  opt_valid :: bool
  opt_value :: opt_class

definition option_new :: "char \<Rightarrow> string \<Rightarrow> ArgumentType \<Rightarrow> string \<Rightarrow> opt_class \<Rightarrow> ga_option" where
  "option_new short_name long_name arg_type desc cls =
     \<lparr>opt_short = short_name, opt_long = long_name, opt_argtype = arg_type, opt_desc = desc,
      opt_arg = [], opt_valid = False, opt_value = cls\<rparr>"

definition option_boolean_new :: "char \<Rightarrow> string \<Rightarrow> ArgumentType \<Rightarrow> string \<Rightarrow> ga_option" where
  "option_boolean_new s l t d = option_new s l t d (Opt_boolean False)"

definition option_loglevel_new :: "char \<Rightarrow> string \<Rightarrow> ArgumentType \<Rightarrow> string \<Rightarrow> ga_option" where
  "option_loglevel_new s l t d = option_new s l t d (Opt_loglevel INFO)"

definition option_luid_new :: "char \<Rightarrow> string \<Rightarrow> ArgumentType \<Rightarrow> string \<Rightarrow> ga_option" where
  "option_luid_new s l t d = option_new s l t d (Opt_luid 0 0)"

definition option_resolution_new :: "char \<Rightarrow> string \<Rightarrow> ArgumentType \<Rightarrow> string \<Rightarrow> ga_option" where
  "option_resolution_new s l t d = option_new s l t d (Opt_resolution 0 0)"

definition argument_name :: "ga_option \<Rightarrow> string" where
  "argument_name opt =
     (case opt_value opt of
        Plain \<Rightarrow> ''<ARG>''
      | Opt_boolean _ \<Rightarrow> ''<ARG>''
      | Opt_loglevel _ \<Rightarrow> ''LEVEL''
      | Opt_luid _ _ \<Rightarrow> [CHR 0x22] @ ''HI LO'' @ [CHR 0x22]
      | Opt_resolution _ _ \<Rightarrow> ''WxH'')"

section \<open>Checking arguments\<close>

text \<open>Each check gives the new value, or \<open>None\<close> where the code returns false.\<close>

definition boolean_check :: "string \<Rightarrow> bool option" where
  "boolean_check arg =
     (if list_ex (strcaseeq arg) [''true'', ''1'', ''y'', ''yes'', ''enabled'', ''enable'', ''on''] then Some True
      else if list_ex (strcaseeq arg) [''false'', ''0'', ''n'', ''no'', ''disabled'', ''disable'', ''off''] then Some False
      else None)"

definition loglevel_check :: "string \<Rightarrow> Severity option" where
  "loglevel_check arg =
     (if arg = ''error'' then Some ERR
      else if arg = ''warning'' then Some WARNING
      else if arg = ''info'' then Some INFO
      else if arg = ''debug'' then Some DBG
      else None)"

text \<open>
  \<open>std::stoul\<close> with base 0, where \<open>unsigned long\<close> has 32 bits as on Windows. It throws when
  there are no digits or the number does not fit (\<open>None\<close>), and ignores what follows the digits.
\<close>

definition stoul :: "string \<Rightarrow> int option" where
  "stoul f =
     (let (neg, u) = strtol_sign (dropWhile isspace f);
          (base, v) = strtol_base u;
          (n, rest) = digits_run base 0 v
      in if rest = v \<or> 2 ^ 32 \<le> n then None
         else Some (if neg then (- int n) mod 2 ^ 32 else int n))"

text \<open>The words that \<open>ss >> f\<close> delivers one after the other.\<close>

function stream_words :: "string \<Rightarrow> string list" where
  "stream_words s =
     (case dropWhile isspace s of
        [] \<Rightarrow> []
      | c # t \<Rightarrow> (c # takeWhile (\<lambda>x. \<not> isspace x) t) # stream_words (dropWhile (\<lambda>x. \<not> isspace x) t))"
  by pat_completeness auto
termination
proof (relation "measure length", goal_cases)
  case (2 s c t)
  have "length (dropWhile (\<lambda>x. \<not> isspace x) t) \<le> length t" by (rule length_dropWhile_le)
  also have "length t < length (dropWhile isspace s)" using 2 by simp
  also have "\<dots> \<le> length s" by (rule length_dropWhile_le)
  finally show ?case by simp
qed simp

declare stream_words.simps [simp del]

fun stoul_all :: "string list \<Rightarrow> int list option" where
  "stoul_all [] = Some []"
| "stoul_all (f # fs) =
     (case stoul f of None \<Rightarrow> None | Some n \<Rightarrow> (case stoul_all fs of None \<Rightarrow> None | Some ns \<Rightarrow> Some (n # ns)))"

text \<open>The high part of an identifier is a signed, the low part an unsigned 32-bit number.\<close>

definition luid_check :: "string \<Rightarrow> (int \<times> int) option" where
  "luid_check arg =
     (case stoul_all (stream_words arg) of
        Some (high # low # _) \<Rightarrow> Some (to_int32 high, low)
      | _ \<Rightarrow> None)"

text \<open>
  Formatted input of an \<open>uint16_t\<close>: blanks, a sign, decimal digits. No digits, and a number above 65535,
  put the stream into the failed state (\<open>None\<close>); a minus sign negates modulo 65536.
\<close>

definition stream_u16 :: "string \<Rightarrow> (int \<times> string) option" where
  "stream_u16 s =
     (let (neg, u) = strtol_sign (dropWhile isspace s); (n, rest) = digits_run 10 0 u
      in if rest = u \<or> 65535 < n then None
         else Some (if neg then (- int n) mod 65536 else int n, rest))"

definition stream_char :: "string \<Rightarrow> (char \<times> string) option" where
  "stream_char s = (case dropWhile isspace s of [] \<Rightarrow> None | c # t \<Rightarrow> Some (c, t))"

definition resolution_check :: "string \<Rightarrow> (int \<times> int) option" where
  "resolution_check arg = do {
     (w, s) \<leftarrow> stream_u16 arg;
     (c, s) \<leftarrow> stream_char s;
     (h, s) \<leftarrow> stream_u16 s;
     (if tolower c \<noteq> CHR ''x'' then None else Some (w, h))
   }"

definition argument_check :: "ga_option \<Rightarrow> bool \<times> ga_option" where
  "argument_check opt =
     (case opt_value opt of
        Plain \<Rightarrow> (True, opt)
      | Opt_boolean _ \<Rightarrow>
          (case boolean_check (opt_arg opt) of
             None \<Rightarrow> (False, opt) | Some b \<Rightarrow> (True, opt\<lparr>opt_value := Opt_boolean b\<rparr>))
      | Opt_loglevel _ \<Rightarrow>
          (case loglevel_check (opt_arg opt) of
             None \<Rightarrow> (False, opt) | Some l \<Rightarrow> (True, opt\<lparr>opt_value := Opt_loglevel l\<rparr>))
      | Opt_luid _ _ \<Rightarrow>
          (case luid_check (opt_arg opt) of
             None \<Rightarrow> (False, opt) | Some (hi, lo) \<Rightarrow> (True, opt\<lparr>opt_value := Opt_luid hi lo\<rparr>))
      | Opt_resolution _ _ \<Rightarrow>
          (case resolution_check (opt_arg opt) of
             None \<Rightarrow> (False, opt) | Some (w, h) \<Rightarrow> (True, opt\<lparr>opt_value := Opt_resolution w h\<rparr>)))"

section \<open>The parser\<close>

record ga_get_opts =
  app_path :: string
  app_name :: string
  go_argv :: "string list"
  opt_list :: "ga_option list"

text \<open>The module path of the process is an argument; it is split at its last separator.\<close>

definition is_sep :: "char \<Rightarrow> bool" where
  "is_sep c \<longleftrightarrow> c = CHR ''/'' \<or> c = CHR 0x5C"

definition ga_get_opts_new :: "string \<Rightarrow> string list \<Rightarrow> ga_get_opts" where
  "ga_get_opts_new pathname argv =
     (let base = rev (takeWhile (\<lambda>c. \<not> is_sep c) (rev pathname))
      in if list_ex is_sep pathname
         then \<lparr>app_path = take (length pathname - length base - 1) pathname, app_name = base,
               go_argv = argv, opt_list = []\<rparr>
         else \<lparr>app_path = [], app_name = pathname, go_argv = argv, opt_list = []\<rparr>)"

definition command_line :: "ga_get_opts \<Rightarrow> string" where
  "command_line g = foldl (\<lambda>cmd_line a. cmd_line @ '' '' @ a) (app_name g) (tl (go_argv g))"

definition add_option :: "ga_option \<Rightarrow> ga_get_opts \<Rightarrow> ga_get_opts" where
  "add_option opt g = g\<lparr>opt_list := opt_list g @ [opt]\<rparr>"

text \<open>The exceptions the parser throws.\<close>

datatype opt_error =
    Name_not_given
  | Short_form_too_long
  | Not_supported
  | Only_once
  | Bad_argument
  | Argument_missing

text \<open>The search for the option a command line word names. The word has at least two characters.\<close>

fun find_option :: "string \<Rightarrow> ga_option list \<Rightarrow> opt_error + nat" where
  "find_option ptr [] = Inl Not_supported"
| "find_option ptr (opt # opts) =
     (let search_on = (case find_option ptr opts of Inl e \<Rightarrow> Inl e | Inr i \<Rightarrow> Inr (Suc i))
      in if ptr ! 1 = CHR ''-''
         then (if length ptr > 2 \<and> opt_long opt = drop 2 ptr then Inr 0 else search_on)
         else if length ptr \<noteq> 2 then Inl Short_form_too_long
         else if opt_short opt = ptr ! 1 then Inr 0
         else search_on)"

definition argument_found :: "ArgumentType \<Rightarrow> string list \<Rightarrow> bool" where
  "argument_found arg_type following =
     (case following of
        [] \<Rightarrow> False
      | next_ptr # _ \<Rightarrow>
          next_ptr \<noteq> [] \<and> (arg_type = ARGUMENT_OPTIONAL \<longrightarrow> hd next_ptr \<noteq> CHR ''-''))"

text \<open>
  The loop over the words. An exception leaves the options as they are at that moment, the argument of the
  offending one already stored. Otherwise the result is the words left and the options.
\<close>

fun parse_args :: "ga_option list \<Rightarrow> string list \<Rightarrow> (opt_error \<times> ga_option list) + (string list \<times> ga_option list)" where
  "parse_args opts [] = Inr ([], opts)"
| "parse_args opts (ptr # following) =
     (if ptr = [] \<or> hd ptr \<noteq> CHR ''-'' then Inr (ptr # following, opts)
      else if length ptr = 1 then Inl (Name_not_given, opts)
      else case find_option ptr opts of
        Inl e \<Rightarrow> Inl (e, opts)
      | Inr i \<Rightarrow>
          let opt = opts ! i; arg_type = opt_argtype opt
          in if opt_valid opt then Inl (Only_once, opts)
             else if arg_type = ARGUMENT_NO then parse_args (opts[i := opt\<lparr>opt_valid := True\<rparr>]) following
             else if argument_found arg_type following then
               (case argument_check (opt\<lparr>opt_arg := hd following\<rparr>) of
                  (False, opt') \<Rightarrow> Inl (Bad_argument, opts[i := opt'])
                | (True, opt') \<Rightarrow> parse_args (opts[i := opt'\<lparr>opt_valid := True\<rparr>]) (tl following))
             else if arg_type = ARGUMENT_MANDATORY then Inl (Argument_missing, opts)
             else parse_args (opts[i := opt\<lparr>opt_valid := True\<rparr>]) following)"

text \<open>The result carries the caller's updated argument count and argument vector.\<close>

definition ga_get_opts_parse :: "ga_get_opts \<Rightarrow> (opt_error \<times> ga_get_opts) + (int \<times> string list \<times> ga_get_opts)" where
  "ga_get_opts_parse g =
     (case parse_args (opt_list g) (tl (go_argv g)) of
        Inl (e, opts) \<Rightarrow> Inl (e, g\<lparr>opt_list := opts\<rparr>)
      | Inr (rest, opts) \<Rightarrow>
          let i = 1 + int (length (tl (go_argv g))) - int (length rest)
          in Inr (int (length (go_argv g)) - i, rest, g\<lparr>opt_list := opts\<rparr>))"

section \<open>The usage screen\<close>

definition usage_cli :: "string \<Rightarrow> ga_get_opts \<Rightarrow> string" where
  "usage_cli additional_params g =
     ''  '' @ app_name g
     @ concat (map (\<lambda>opt. if opt_short opt = NUL then []
         else '' -'' @ [opt_short opt]
              @ (case opt_argtype opt of
                   ARGUMENT_NO \<Rightarrow> []
                 | ARGUMENT_OPTIONAL \<Rightarrow> '' ['' @ argument_name opt @ '']''
                 | ARGUMENT_MANDATORY \<Rightarrow> '' '' @ argument_name opt)) (opt_list g))
     @ (if additional_params \<noteq> [] then '' '' @ additional_params else [])
     @ [CHR 0x0A]"

text \<open>Output with a field width: padded on the right once \<open>std::left\<close> was sent to the stream.\<close>

definition stream_pad :: "bool \<Rightarrow> int \<Rightarrow> string \<Rightarrow> string" where
  "stream_pad left w s =
     (let fill = replicate (nat w - length s) (CHR '' '') in if left then s @ fill else fill @ s)"

function desc_lines :: "string \<Rightarrow> string list" where
  "desc_lines d =
     (case dropWhile (\<lambda>c. c \<noteq> CHR 0x0A) d of
        [] \<Rightarrow> [takeWhile (\<lambda>c. c \<noteq> CHR 0x0A) d]
      | _ # t \<Rightarrow> takeWhile (\<lambda>c. c \<noteq> CHR 0x0A) d # desc_lines t)"
  by pat_completeness auto
termination
proof (relation "measure length", goal_cases)
  case (2 d x t)
  have "length t < length (dropWhile (\<lambda>c. c \<noteq> CHR 0x0A) d)" using 2 by simp
  also have "\<dots> \<le> length d" by (rule length_dropWhile_le)
  finally show ?case by simp
qed simp

declare desc_lines.simps [simp del]

text \<open>The text for one option and whether the stream pads on the right afterwards.\<close>

definition usage_option :: "int \<Rightarrow> int \<Rightarrow> ga_option \<Rightarrow> bool \<Rightarrow> string \<times> bool" where
  "usage_option desc_indent args_width opt left =
     (let width = (\<lambda>k. to_int32 (to_uint32 (desc_indent - args_width - k)));
          left' = (left \<or> opt_long opt \<noteq> []);
          arg_str = (case opt_argtype opt of
                       ARGUMENT_NO \<Rightarrow> []
                     | ARGUMENT_OPTIONAL \<Rightarrow> ''['' @ argument_name opt @ '']''
                     | ARGUMENT_MANDATORY \<Rightarrow> argument_name opt);
          ls = desc_lines (opt_desc opt)
      in (''  ''
          @ (if opt_short opt \<noteq> NUL then ''-'' @ [opt_short opt] @ '', '' else ''    '')
          @ (if opt_long opt \<noteq> [] then ''--'' @ stream_pad left' (width 8) (opt_long opt)
             else stream_pad left' (width 6) '' '')
          @ stream_pad left' (to_int32 args_width) arg_str
          @ hd ls @ [CHR 0x0A]
          @ concat (map (\<lambda>l. stream_pad left' (to_int32 desc_indent) '' '' @ l @ [CHR 0x0A]) (tl ls)), left'))"

fun usage_options :: "int \<Rightarrow> int \<Rightarrow> ga_option list \<Rightarrow> bool \<Rightarrow> string \<times> bool" where
  "usage_options desc_indent args_width [] left = ([], left)"
| "usage_options desc_indent args_width (opt # opts) left =
     (let (s, left') = usage_option desc_indent args_width opt left;
          (t, left'') = usage_options desc_indent args_width opts left'
      in (s @ t, left''))"

definition usage :: "string \<Rightarrow> int \<Rightarrow> int \<Rightarrow> ga_get_opts \<Rightarrow> bool \<Rightarrow> string" where
  "usage additional_params desc_indent args_width g left =
     ''Usage:'' @ [CHR 0x0A] @ usage_cli additional_params g @ [CHR 0x0A]
     @ ''Options:'' @ [CHR 0x0A] @ fst (usage_options desc_indent args_width (opt_list g) left)"

end
