(* ===== verification/GetOptsProps.thy ===== *)
theory GetOptsProps
  imports GetOpts
begin

text \<open>
  What the command line parser accepts. \<open>cmdline\<close> prints a list of settings, each an option with the word
  that names it and its argument, and the parser is shown to accept exactly the printed lines.
\<close>

section \<open>Command lines as printed settings\<close>

definition spells :: "string \<Rightarrow> ga_option \<Rightarrow> bool" where
  "spells ptr opt \<longleftrightarrow>
     (\<exists>l. ptr = ''--'' @ l \<and> l \<noteq> [] \<and> opt_long opt = l)
     \<or> (\<exists>s. ptr = [CHR ''-'', s] \<and> s \<noteq> CHR ''-'' \<and> opt_short opt = s)"

definition names_distinct :: "ga_option list \<Rightarrow> bool" where
  "names_distinct opts \<longleftrightarrow>
     distinct (filter (\<lambda>l. l \<noteq> []) (map opt_long opts))
     \<and> distinct (filter (\<lambda>s. s \<noteq> NUL) (map opt_short opts))"

type_synonym setting = "nat \<times> string \<times> string option"

fun cmdline :: "setting list \<Rightarrow> string list \<Rightarrow> string list" where
  "cmdline [] rest = rest"
| "cmdline ((i, ptr, a) # ss) rest = ptr # (case a of None \<Rightarrow> [] | Some v \<Rightarrow> [v]) @ cmdline ss rest"

definition apply_setting :: "ga_option list \<Rightarrow> setting \<Rightarrow> ga_option list" where
  "apply_setting opts s =
     (case s of (i, ptr, a) \<Rightarrow>
        opts[i := (case a of None \<Rightarrow> opts ! i
                   | Some v \<Rightarrow> snd (argument_check ((opts ! i)\<lparr>opt_arg := v\<rparr>)))\<lparr>opt_valid := True\<rparr>])"

fun admissible :: "ga_option list \<Rightarrow> setting list \<Rightarrow> string list \<Rightarrow> bool" where
  "admissible opts [] rest \<longleftrightarrow> rest = [] \<or> hd rest = [] \<or> hd (hd rest) \<noteq> CHR ''-''"
| "admissible opts ((i, ptr, a) # ss) rest \<longleftrightarrow>
     i < length opts \<and> spells ptr (opts ! i) \<and> \<not> opt_valid (opts ! i) \<and> i \<notin> fst ` set ss
     \<and> (case a of
          None \<Rightarrow> opt_argtype (opts ! i) = ARGUMENT_NO
            \<or> opt_argtype (opts ! i) = ARGUMENT_OPTIONAL \<and> \<not> argument_found ARGUMENT_OPTIONAL (cmdline ss rest)
        | Some v \<Rightarrow> opt_argtype (opts ! i) \<noteq> ARGUMENT_NO \<and> argument_found (opt_argtype (opts ! i)) [v]
            \<and> fst (argument_check ((opts ! i)\<lparr>opt_arg := v\<rparr>)))
     \<and> admissible opts ss rest"

section \<open>The search for an option\<close>

lemma spells_word: "spells ptr opt \<Longrightarrow> ptr \<noteq> [] \<and> hd ptr = CHR ''-'' \<and> length ptr \<noteq> 1"
  by (auto simp: spells_def)

lemma names_distinct_Cons:
  "names_distinct (opt # opts) \<longleftrightarrow> names_distinct opts
     \<and> (\<forall>o' \<in> set opts. opt_long o' = opt_long opt \<longrightarrow> opt_long opt = [])
     \<and> (\<forall>o' \<in> set opts. opt_short o' = opt_short opt \<longrightarrow> opt_short opt = NUL)"
  by (auto simp: names_distinct_def image_iff)

lemma find_option_spells:
  "\<lbrakk>i < length opts; spells ptr (opts ! i); names_distinct opts; NUL \<notin> set ptr\<rbrakk> \<Longrightarrow> find_option ptr opts = Inr i"
proof (induction opts arbitrary: i)
  case (Cons opt opts)
  have nd: "names_distinct opts" using Cons.prems(3) by (simp add: names_distinct_Cons)
  show ?case
  proof (cases i)
    case 0
    with Cons.prems show ?thesis by (auto simp: spells_def)
  next
    case (Suc k)
    with Cons.prems have k: "k < length opts" "spells ptr (opts ! k)" by auto
    with Cons nd have IH: "find_option ptr opts = Inr k" by blast
    have mem: "opts ! k \<in> set opts" using k(1) by simp
    have long: "opt_long opt \<noteq> opt_long (opts ! k) \<or> opt_long opt = []"
      using Cons.prems(3) mem by (auto simp: names_distinct_Cons)
    have short: "opt_short opt \<noteq> opt_short (opts ! k) \<or> opt_short opt = NUL"
      using Cons.prems(3) mem by (auto simp: names_distinct_Cons)
    from k(2) IH long short Cons.prems(4) Suc show ?thesis by (auto simp: spells_def)
  qed
qed simp

lemma find_option_sound:
  "\<lbrakk>find_option ptr opts = Inr i; hd ptr = CHR ''-''; 1 < length ptr\<rbrakk> \<Longrightarrow> i < length opts \<and> spells ptr (opts ! i)"
proof (induction opts arbitrary: i)
  case (Cons opt opts)
  obtain x y t where ptr: "ptr = x # y # t"
    using Cons.prems(3) by (cases ptr; cases "tl ptr") auto
  then have x: "x = CHR ''-''" using Cons.prems(2) by simp
  have tail: "\<lbrakk>find_option ptr opts = Inr k; i = Suc k\<rbrakk> \<Longrightarrow> ?case" for k
    using Cons by simp
  show ?case
    using Cons.prems(1) tail ptr x by (auto simp: spells_def Let_def split: if_splits sum.splits)
qed simp

section \<open>Updates of other options\<close>

lemma admissible_update:
  "j \<notin> fst ` set ss \<Longrightarrow> admissible (opts[j := x]) ss rest = admissible opts ss rest"
  by (induction opts ss rest rule: admissible.induct) (auto split: option.splits)

lemma argument_found_Cons: "argument_found t (v # ws) = argument_found t [v]"
  by (simp add: argument_found_def)

lemma argument_check_names [simp]:
  "opt_long (snd (argument_check opt)) = opt_long opt"
  "opt_short (snd (argument_check opt)) = opt_short opt"
  by (auto simp: argument_check_def split: opt_class.splits option.splits prod.splits)

lemma map_update_same: "i < length xs \<Longrightarrow> (map f xs)[i := f (xs ! i)] = map f xs"
  by (simp add: list_update_same_conv)

lemma names_distinct_apply:
  "fst s < length opts \<Longrightarrow> names_distinct (apply_setting opts s) = names_distinct opts"
  by (cases s) (simp add: names_distinct_def apply_setting_def map_update map_update_same
      split: option.splits)

lemma length_apply [simp]: "length (apply_setting opts s) = length opts"
  by (cases s) (simp add: apply_setting_def)

lemma admissible_apply:
  "fst s \<notin> fst ` set ss \<Longrightarrow> admissible (apply_setting opts s) ss rest = admissible opts ss rest"
  by (cases s) (simp add: apply_setting_def admissible_update)

section \<open>The parser accepts exactly the printed lines\<close>

lemma parse_stops: "admissible opts [] rest \<Longrightarrow> parse_args opts rest = Inr (rest, opts)"
  by (cases rest) auto

lemma parse_setting:
  assumes "admissible opts (s # ss) rest" "names_distinct opts" "NUL \<notin> set (fst (snd s))"
  shows "parse_args opts (cmdline (s # ss) rest) = parse_args (apply_setting opts s) (cmdline ss rest)"
proof -
  obtain i ptr a where s: "s = (i, ptr, a)" by (cases s)
  have f: "find_option ptr opts = Inr i" using assms s find_option_spells by simp
  have w: "ptr \<noteq> []" "hd ptr = CHR ''-''" "length ptr \<noteq> 1" using assms(1) s spells_word by auto
  show ?thesis
  proof (cases a)
    case None
    with assms(1) s f w show ?thesis by (auto simp: apply_setting_def)
  next
    case (Some v)
    obtain b o' where c: "argument_check ((opts ! i)\<lparr>opt_arg := v\<rparr>) = (b, o')" by fastforce
    with assms(1) s Some f w show ?thesis
      by (auto simp: apply_setting_def argument_found_Cons [of _ v "cmdline ss rest"])
  qed
qed

lemma parse_cmdline:
  "\<lbrakk>admissible opts ss rest; names_distinct opts; \<forall>w \<in> set (cmdline ss rest). NUL \<notin> set w\<rbrakk>
     \<Longrightarrow> parse_args opts (cmdline ss rest) = Inr (rest, foldl apply_setting opts ss)"
proof (induction ss arbitrary: opts)
  case Nil
  then show ?case using parse_stops by simp
next
  case (Cons s ss)
  obtain i ptr a where s: "s = (i, ptr, a)" by (cases s)
  have "parse_args opts (cmdline (s # ss) rest) = parse_args (apply_setting opts s) (cmdline ss rest)"
    using Cons.prems s by (intro parse_setting) auto
  also have "\<dots> = Inr (rest, foldl apply_setting (apply_setting opts s) ss)"
    using Cons.prems s by (intro Cons.IH) (auto simp: admissible_apply names_distinct_apply)
  finally show ?case by simp
qed

lemma admissible_fresh: "admissible opts ss rest \<Longrightarrow> j \<in> fst ` set ss \<Longrightarrow> \<not> opt_valid (opts ! j)"
  by (induction opts ss rest rule: admissible.induct) auto

lemma admissible_step:
  assumes "admissible (apply_setting opts s) ss rest" "i = fst s" "i < length opts"
  shows "i \<notin> fst ` set ss \<and> admissible opts ss rest"
proof -
  have "opt_valid (apply_setting opts s ! i)"
    using assms(2,3) by (cases s) (simp add: apply_setting_def)
  then have "i \<notin> fst ` set ss" using assms(1) admissible_fresh by blast
  then show ?thesis using assms(1,2) admissible_apply [of s ss opts rest] by simp
qed

text \<open>What one round of the loop consumes when it does not stop.\<close>

lemma parse_round:
  assumes "parse_args opts (ptr # ws) = Inr (rest, opts')" "ptr \<noteq> []" "hd ptr = CHR ''-''"
  obtains i a ws' where
    "i < length opts" "spells ptr (opts ! i)" "\<not> opt_valid (opts ! i)"
    "ws = (case a of None \<Rightarrow> [] | Some v \<Rightarrow> [v]) @ ws'"
    "parse_args (apply_setting opts (i, ptr, a)) ws' = Inr (rest, opts')"
    "case a of
       None \<Rightarrow> opt_argtype (opts ! i) = ARGUMENT_NO
         \<or> opt_argtype (opts ! i) = ARGUMENT_OPTIONAL \<and> \<not> argument_found ARGUMENT_OPTIONAL ws'
     | Some v \<Rightarrow> opt_argtype (opts ! i) \<noteq> ARGUMENT_NO \<and> argument_found (opt_argtype (opts ! i)) [v]
         \<and> fst (argument_check ((opts ! i)\<lparr>opt_arg := v\<rparr>))"
proof -
  have len: "1 < length ptr" using assms by (cases "length ptr") (auto split: if_splits)
  obtain i where f: "find_option ptr opts = Inr i"
    using assms len by (auto split: sum.splits if_splits)
  have i: "i < length opts" "spells ptr (opts ! i)" using find_option_sound [OF f assms(3) len] by auto
  have v: "\<not> opt_valid (opts ! i)" using assms f len by (auto split: if_splits)
  show thesis
  proof (cases "opt_argtype (opts ! i) \<noteq> ARGUMENT_NO \<and> argument_found (opt_argtype (opts ! i)) ws")
    case False
    then have "opt_argtype (opts ! i) = ARGUMENT_NO
        \<or> opt_argtype (opts ! i) = ARGUMENT_OPTIONAL \<and> \<not> argument_found ARGUMENT_OPTIONAL ws"
      using assms f len v by (cases "opt_argtype (opts ! i)") (auto split: if_splits)
    moreover from this False have "parse_args (apply_setting opts (i, ptr, None)) ws = Inr (rest, opts')"
      using assms f len v by (auto simp: apply_setting_def)
    ultimately show thesis using i v by (intro that [of i None ws]) auto
  next
    case True
    then obtain w ws' where ws: "ws = w # ws'" by (auto simp: argument_found_def split: list.splits)
    obtain b o' where c: "argument_check ((opts ! i)\<lparr>opt_arg := w\<rparr>) = (b, o')" by fastforce
    with True assms f len v ws have "b"
      "parse_args (apply_setting opts (i, ptr, Some w)) ws' = Inr (rest, opts')"
      by (auto simp: apply_setting_def split: bool.splits)
    with True c i v ws show thesis
      by (intro that [of i "Some w" ws']) (auto simp: argument_found_Cons [of _ w ws'])
  qed
qed

lemma parse_is_cmdline:
  "parse_args opts ws = Inr (rest, opts') \<Longrightarrow>
     \<exists>ss. admissible opts ss rest \<and> ws = cmdline ss rest \<and> opts' = foldl apply_setting opts ss"
proof (induction "length ws" arbitrary: opts ws rule: less_induct)
  case less
  show ?case
  proof (cases "ws = [] \<or> hd ws = [] \<or> hd (hd ws) \<noteq> CHR ''-''")
    case True
    then have "rest = ws" "opts' = opts" using less.prems by (cases ws; auto)+
    with True show ?thesis by (intro exI [of _ "[]"]) auto
  next
    case False
    then obtain ptr ws1 where ws: "ws = ptr # ws1" "ptr \<noteq> []" "hd ptr = CHR ''-''" by (cases ws) auto
    with less.prems have "parse_args opts (ptr # ws1) = Inr (rest, opts')" by blast
    then obtain i a ws' where r: "i < length opts" "spells ptr (opts ! i)" "\<not> opt_valid (opts ! i)"
        "ws1 = (case a of None \<Rightarrow> [] | Some v \<Rightarrow> [v]) @ ws'"
        "parse_args (apply_setting opts (i, ptr, a)) ws' = Inr (rest, opts')"
      and a: "case a of
       None \<Rightarrow> opt_argtype (opts ! i) = ARGUMENT_NO
         \<or> opt_argtype (opts ! i) = ARGUMENT_OPTIONAL \<and> \<not> argument_found ARGUMENT_OPTIONAL ws'
     | Some v \<Rightarrow> opt_argtype (opts ! i) \<noteq> ARGUMENT_NO \<and> argument_found (opt_argtype (opts ! i)) [v]
         \<and> fst (argument_check ((opts ! i)\<lparr>opt_arg := v\<rparr>))"
      using ws(2,3) by (rule parse_round)
    obtain ss where ss: "admissible (apply_setting opts (i, ptr, a)) ss rest" "ws' = cmdline ss rest"
        "opts' = foldl apply_setting (apply_setting opts (i, ptr, a)) ss"
      using less.hyps [OF _ r(5)] r(4) ws(1) by auto
    with r a ws(1) admissible_step [OF ss(1), of i] show ?thesis
      by (intro exI [of _ "(i, ptr, a) # ss"]) auto
  qed
qed

text \<open>
  C21. With distinct option names the command line parser accepts exactly the printed command lines. It
  returns normally with \<open>rest\<close> as the remaining arguments if and only if the words are a list of
  settings followed by \<open>rest\<close>: each setting spells an option not set before, in its long or short form, with
  an argument where the option takes one and the argument passes its check, and \<open>rest\<close> is empty
  or begins with a word that is no option. The options are then those with the settings applied in order, and the
  caller's argument count is the number of words left.
\<close>

theorem getopts_accepts:
  assumes "names_distinct (opt_list g)" "go_argv g = app # ws" "\<forall>w \<in> set ws. NUL \<notin> set w"
  shows "ga_get_opts_parse g = Inr (argc, rest, g') \<longleftrightarrow>
    argc = int (length rest)
    \<and> (\<exists>ss. admissible (opt_list g) ss rest \<and> ws = cmdline ss rest
        \<and> g' = g\<lparr>opt_list := foldl apply_setting (opt_list g) ss\<rparr>)"
proof -
  have "ga_get_opts_parse g = Inr (argc, rest, g') \<longleftrightarrow>
      argc = int (length rest) \<and> (\<exists>opts'. parse_args (opt_list g) ws = Inr (rest, opts') \<and> g' = g\<lparr>opt_list := opts'\<rparr>)"
    using assms(2) by (auto simp: ga_get_opts_parse_def split: sum.splits)
  also have "\<dots> \<longleftrightarrow> argc = int (length rest)
      \<and> (\<exists>ss. admissible (opt_list g) ss rest \<and> ws = cmdline ss rest
          \<and> g' = g\<lparr>opt_list := foldl apply_setting (opt_list g) ss\<rparr>)"
    using parse_is_cmdline [of "opt_list g" ws rest] parse_cmdline [of "opt_list g" _ rest] assms(1,3) by fastforce
  finally show ?thesis .
qed

definition demo_opts :: ga_get_opts where
  "demo_opts = add_option (option_boolean_new (CHR ''b'') ''bool'' ARGUMENT_OPTIONAL [])
     (add_option (option_new (CHR ''h'') ''help'' ARGUMENT_NO [] Plain)
       (ga_get_opts_new ''bin/app'' [''app'', ''--bool'', ''off'', ''-h'', ''f'']))"

theorem getopts_accepts_witness:
  "\<exists>ss. admissible (opt_list demo_opts) ss [''f''] \<and> [''--bool'', ''off'', ''-h'', ''f''] = cmdline ss [''f'']"
proof -
  have d: "names_distinct (opt_list demo_opts)" by code_simp
  have a: "go_argv demo_opts = ''app'' # [''--bool'', ''off'', ''-h'', ''f'']" by code_simp
  have n: "\<forall>w \<in> set [''--bool'', ''off'', ''-h'', ''f'']. NUL \<notin> set w" by code_simp
  have "case ga_get_opts_parse demo_opts of Inr (n, r, g) \<Rightarrow> n = 1 \<and> r = [''f''] | Inl _ \<Rightarrow> False"
    by code_simp
  then obtain g' where "ga_get_opts_parse demo_opts = Inr (1, [''f''], g')"
    by (auto simp only: prod.case sum.case split: sum.splits prod.splits)
  with getopts_accepts [OF d a n] show ?thesis by blast
qed

section \<open>Arguments of resolutions and adapter identifiers\<close>

lemma digits_run_stop: "\<not> is_digit base c \<Longrightarrow> digits_run base n (c # t) = (n, c # t)"
  by (auto simp: is_digit_def split: option.splits)

lemma stream_u16_dec:
  assumes "digits_run 10 n t = (n, t)"
  shows "stream_u16 (dec_of_nat n @ t) = (if n \<le> 65535 then Some (int n, t) else None)"
proof -
  have "digits_run 10 0 (dec_of_nat n @ t) = (n, t)"
    using digits_run_append [OF digits_run_dec] assms by simp
  moreover have "t \<noteq> dec_of_nat n @ t" by simp
  ultimately show ?thesis by (simp add: stream_u16_def dropWhile_space_dec strtol_sign_dec_append)
qed

text \<open>
  A resolution written as width, the letter x and height is read back exactly when both
  numbers fit 16 bits, and is refused otherwise. A minus sign is not refused: the number is read as its
  complement, so that \<open>-1x-1\<close> is the resolution 65535 by 65535.
\<close>

theorem resolution_printed:
  "resolution_check (dec_of_nat w @ ''x'' @ dec_of_nat h)
     = (if w \<le> 65535 \<and> h \<le> 65535 then Some (int w, int h) else None)
   \<and> resolution_check ''-1x-1'' = Some (65535, 65535)"
proof
  have x: "\<not> is_digit 10 (CHR ''x'')" "\<not> isspace (CHR ''x'')" "tolower (CHR ''x'') = CHR ''x''" by code_simp+
  have w: "stream_u16 (dec_of_nat w @ ''x'' @ dec_of_nat h) =
      (if w \<le> 65535 then Some (int w, ''x'' @ dec_of_nat h) else None)"
    using digits_run_stop [OF x(1)] by (intro stream_u16_dec) simp
  have h: "stream_u16 (dec_of_nat h) = (if h \<le> 65535 then Some (int h, []) else None)"
    using stream_u16_dec [of h "[]"] by simp
  show "resolution_check (dec_of_nat w @ ''x'' @ dec_of_nat h)
     = (if w \<le> 65535 \<and> h \<le> 65535 then Some (int w, int h) else None)"
    using w h x by (simp add: resolution_check_def stream_char_def)
  show "resolution_check ''-1x-1'' = Some (65535, 65535)"
    by (simp add: resolution_check_def stream_u16_def stream_char_def strtol_sign_def isspace_def
        digit_val_def nat_of_chr_def tolower_def)
qed

lemma dec_no_space: "c \<in> set (dec_of_nat n) \<Longrightarrow> \<not> isspace c"
  using dec_of_nat_set dec_char_plain by blast

lemma stream_words_one: "stream_words (dec_of_nat n) = [dec_of_nat n]"
proof -
  obtain c t where c: "dec_of_nat n = c # t" by (cases "dec_of_nat n") simp_all
  then have "\<forall>x \<in> set (c # t). \<not> isspace x" using dec_no_space [of _ n] by metis
  then have t: "takeWhile (\<lambda>x. \<not> isspace x) t = t" "dropWhile (\<lambda>x. \<not> isspace x) t = []" and "\<not> isspace c"
    by (auto simp: takeWhile_eq_all_conv dropWhile_eq_Nil_conv)
  have "stream_words (dropWhile (\<lambda>x. \<not> isspace x) t) = []"
    unfolding t(2) by (simp add: stream_words.simps)
  then show ?thesis using c t(1) \<open>\<not> isspace c\<close> by (simp add: stream_words.simps [of "c # t"])
qed

lemma stream_words_two:
  "stream_words (dec_of_nat m @ '' '' @ dec_of_nat n) = [dec_of_nat m, dec_of_nat n]"
proof -
  obtain c t where c: "dec_of_nat m = c # t" by (cases "dec_of_nat m") simp_all
  then have ns: "\<forall>x \<in> set t. \<not> isspace x" "\<not> isspace c" using dec_no_space [of _ m] by (metis list.set_intros)+
  have sp: "isspace (CHR '' '')" by (simp add: isspace_def)
  have "stream_words ('' '' @ dec_of_nat n) = stream_words (dec_of_nat n)"
    using sp dropWhile_space_dec [of n "[]"] by (simp add: stream_words.simps [of "CHR '' '' # _"] stream_words.simps [of "dec_of_nat n"])
  then show ?thesis
    using c ns sp by (simp add: stream_words.simps [of "c # _"] stream_words_one)
qed

lemma stoul_dec: "stoul (dec_of_nat n) = (if n < 2 ^ 32 then Some (int n) else None)"
proof (cases "n = 0")
  case True
  have "dec_of_nat 0 = ''0''" by code_simp
  with True show ?thesis
    by (simp add: stoul_def isspace_def strtol_sign_def strtol_base_def digit_val_def nat_of_chr_def)
next
  case False
  have "dropWhile isspace (dec_of_nat n) = dec_of_nat n"
    using dropWhile_space_dec [of n "[]"] by simp
  with False show ?thesis
    by (auto simp: stoul_def strtol_sign_dec strtol_base_dec digits_run_dec)
qed

text \<open>
  An adapter identifier written as two decimal numbers is accepted exactly when both are below \<open>2^32\<close>;
  the low part is then the second number and the high part the signed number with the bits of the first.
  With a single number the identifier is refused.
\<close>

theorem luid_printed:
  "luid_check (dec_of_nat hi @ '' '' @ dec_of_nat lo)
     = (if hi < 2 ^ 32 \<and> lo < 2 ^ 32 then Some (to_int32 (int hi), int lo) else None)
   \<and> luid_check (dec_of_nat hi) = None"
  by (simp add: luid_check_def stream_words_two [simplified] stream_words_one stoul_dec)

end
