(* ===== verification/Vsource.thy ===== *)
theory Vsource
  imports DpipeProps
begin

text \<open>
  The video sources of \<open>sources/streamer/core/vsource.cpp\<close>: the table of sources with their
  maximum, current and output sizes, their set-up from the configuration, which creates a frame pipe per
  channel and initialises a frame in each of its buffers, and the duplication of frames. The table has
  \<open>VIDEO_SOURCE_CHANNEL_MAX\<close> entries; an access outside it is the result \<open>None\<close>.
\<close>

section \<open>Data\<close>

definition VIDEO_SOURCE_DEF_MAXWIDTH :: int where "VIDEO_SOURCE_DEF_MAXWIDTH = 2560"
definition VIDEO_SOURCE_DEF_MAXHEIGHT :: int where "VIDEO_SOURCE_DEF_MAXHEIGHT = 1600"
definition VIDEO_SOURCE_MAX_STRIDE :: nat where "VIDEO_SOURCE_MAX_STRIDE = 4"
definition VIDEO_SOURCE_CHANNEL_MAX :: int where "VIDEO_SOURCE_CHANNEL_MAX = 2"
definition VIDEO_SOURCE_POOLSIZE :: int where "VIDEO_SOURCE_POOLSIZE = 8"
definition VSOURCE_ALIGNMENT :: int where "VSOURCE_ALIGNMENT = 16"

text \<open>The size of \<open>vsource_frame_t\<close> with the alignment rules of a 64-bit machine.\<close>

definition sizeof_frame :: int where "sizeof_frame = 96"

text \<open>\<open>vf_imgbuf\<close> is the address of the image and \<open>vf_image\<close> the bytes there.\<close>

record vsource_frame_t =
  vf_channel :: int
  imgpts :: int
  linesize :: "int list"
  realwidth :: int
  realheight :: int
  realstride :: int
  realsize :: int
  vf_timestamp :: timeval
  maxstride :: int
  imgbufsize :: int
  vf_imgbuf :: nat
  vf_image :: bytes

record vsource_config_t =
  vc_width :: int
  vc_height :: int
  vc_stride :: int

text \<open>The linked list of pipe names is a list, the newest name first.\<close>

record vsource_t =
  vs_channel :: int
  vs_pipename :: "string list"
  max_width :: int
  max_height :: int
  max_stride :: int
  vs_curr_width :: int
  vs_curr_height :: int
  vs_curr_stride :: int
  out_width :: int
  out_height :: int
  out_stride :: int

definition vsource_zero :: vsource_t where
  "vsource_zero = \<lparr>vs_channel = 0, vs_pipename = [], max_width = 0, max_height = 0, max_stride = 0,
     vs_curr_width = 0, vs_curr_height = 0, vs_curr_stride = 0, out_width = 0, out_height = 0, out_stride = 0\<rparr>"

record vs_state =
  vs_gChannels :: int
  gVsource :: "vsource_t list"
  gPipe :: "nat list"
  vs_frames :: "nat \<rightharpoonup> vsource_frame_t"
  vs_world :: dpipe_world

definition vs_initial :: "dpipe_world \<Rightarrow> vs_state" where
  "vs_initial w = \<lparr>vs_gChannels = 0, gVsource = [vsource_zero, vsource_zero], gPipe = [0, 0],
     vs_frames = Map.empty, vs_world = w\<rparr>"

section \<open>Frames\<close>

text \<open>
  The inner \<open>None\<close> is a NULL result. The frame is at the address \<open>frame\<close>; the outer \<open>None\<close> is a product
  outside the range of \<open>int\<close>.
\<close>

definition vsource_frame_init :: "int \<Rightarrow> nat \<Rightarrow> vsource_t list \<Rightarrow> vsource_frame_t option option" where
  "vsource_frame_init channel frame vss =
     (if channel < 0 \<or> channel \<ge> VIDEO_SOURCE_CHANNEL_MAX then Some None
      else let vs = vss ! nat channel
           in if max_width vs = 0 then Some None
              else (case chk32 (max_height vs * max_stride vs) of
                      None \<Rightarrow> None
                    | Some n \<Rightarrow>
                        let img = frame + nat sizeof_frame
                        in Some (Some \<lparr>vf_channel = 0, imgpts = 0,
                             linesize = replicate VIDEO_SOURCE_MAX_STRIDE (max_stride vs),
                             realwidth = 0, realheight = 0, realstride = 0, realsize = 0,
                             vf_timestamp = \<lparr>tv_sec = 0, tv_usec = 0\<rparr>,
                             maxstride = max_stride vs, imgbufsize = n,
                             vf_imgbuf = img + nat (ga_alignment (of_nat img) VSOURCE_ALIGNMENT),
                             vf_image = replicate (nat n) 0\<rparr>)))"

text \<open>\<open>None\<close> is a copy outside one of the images.\<close>

definition vsource_dup_frame :: "vsource_frame_t \<Rightarrow> vsource_frame_t \<Rightarrow> vsource_frame_t option" where
  "vsource_dup_frame src dst =
     (case chk32 (realstride src * realheight src) of
        None \<Rightarrow> None
      | Some n \<Rightarrow>
          if n < 0 \<or> nat n > length (vf_image src) \<or> nat n > length (vf_image dst) then None
          else Some (dst\<lparr>imgpts := imgpts src, linesize := linesize src, realwidth := realwidth src,
                 realheight := realheight src, realstride := realstride src, realsize := realsize src,
                 vf_image := buf_write 0 (buf_read 0 (nat n) (vf_image src)) (vf_image dst)\<rparr>))"

section \<open>Access to the sources\<close>

text \<open>
  The inner \<open>None\<close> is NULL. The test lets the channel equal to the number of channels pass; the outer \<open>None\<close> is
  the access behind the table.
\<close>

definition video_source :: "int \<Rightarrow> vs_state \<Rightarrow> vsource_t option option" where
  "video_source channel st =
     (if channel < 0 \<or> channel > vs_gChannels st then Some None
      else if nat channel \<ge> length (gVsource st) then None
      else Some (Some (gVsource st ! nat channel)))"

definition video_source_channels :: "vs_state \<Rightarrow> int" where
  "video_source_channels st = vs_gChannels st"

definition vs_getter :: "(vsource_t \<Rightarrow> int) \<Rightarrow> int \<Rightarrow> vs_state \<Rightarrow> int option" where
  "vs_getter f channel st =
     (case video_source channel st of
        None \<Rightarrow> None
      | Some None \<Rightarrow> Some (-1)
      | Some (Some vs) \<Rightarrow> Some (f vs))"

definition video_source_max_width :: "int \<Rightarrow> vs_state \<Rightarrow> int option" where
  "video_source_max_width = vs_getter max_width"
definition video_source_max_height :: "int \<Rightarrow> vs_state \<Rightarrow> int option" where
  "video_source_max_height = vs_getter max_height"
definition video_source_max_stride :: "int \<Rightarrow> vs_state \<Rightarrow> int option" where
  "video_source_max_stride = vs_getter max_stride"
definition video_source_curr_width :: "int \<Rightarrow> vs_state \<Rightarrow> int option" where
  "video_source_curr_width = vs_getter vs_curr_width"
definition video_source_curr_height :: "int \<Rightarrow> vs_state \<Rightarrow> int option" where
  "video_source_curr_height = vs_getter vs_curr_height"
definition video_source_curr_stride :: "int \<Rightarrow> vs_state \<Rightarrow> int option" where
  "video_source_curr_stride = vs_getter vs_curr_stride"
definition video_source_out_width :: "int \<Rightarrow> vs_state \<Rightarrow> int option" where
  "video_source_out_width = vs_getter out_width"
definition video_source_out_height :: "int \<Rightarrow> vs_state \<Rightarrow> int option" where
  "video_source_out_height = vs_getter out_height"
definition video_source_out_stride :: "int \<Rightarrow> vs_state \<Rightarrow> int option" where
  "video_source_out_stride = vs_getter out_stride"

definition video_source_mem_size :: "int \<Rightarrow> vs_state \<Rightarrow> int option" where
  "video_source_mem_size channel st =
     (case video_source channel st of
        None \<Rightarrow> None
      | Some None \<Rightarrow> Some 0
      | Some (Some vs) \<Rightarrow>
          (case chk32 (max_height vs * max_stride vs) of None \<Rightarrow> None | Some n \<Rightarrow> chk32 (n + VSOURCE_ALIGNMENT)))"

text \<open>The flag \<open>mem\<close> tells whether \<open>malloc\<close> succeeds.\<close>

definition add_pipename_internal :: "bool \<Rightarrow> string \<Rightarrow> vsource_t \<Rightarrow> string option \<times> vsource_t" where
  "add_pipename_internal mem pipename vs =
     (if \<not> mem then (None, vs) else (Some pipename, vs\<lparr>vs_pipename := pipename # vs_pipename vs\<rparr>))"

definition video_source_add_pipename :: "bool \<Rightarrow> int \<Rightarrow> string \<Rightarrow> vs_state \<Rightarrow> (string option \<times> vs_state) option" where
  "video_source_add_pipename mem channel pipename st =
     (case video_source channel st of
        None \<Rightarrow> None
      | Some None \<Rightarrow> Some (None, st)
      | Some (Some vs) \<Rightarrow>
          let (r, vs') = add_pipename_internal mem pipename vs
          in Some (r, st\<lparr>gVsource := (gVsource st)[nat channel := vs']\<rparr>))"

definition video_source_get_pipename :: "int \<Rightarrow> vs_state \<Rightarrow> string option option" where
  "video_source_get_pipename channel st =
     (case video_source channel st of
        None \<Rightarrow> None
      | Some None \<Rightarrow> Some None
      | Some (Some vs) \<Rightarrow> Some (case vs_pipename vs of [] \<Rightarrow> None | n # _ \<Rightarrow> Some n))"

section \<open>Set-up\<close>

text \<open>What the allocations of one round return: the pipe name, the pipe, its name, its buffers.\<close>

record vs_alloc =
  va_name :: bool
  va_pipe :: nat
  va_dup :: bool
  va_mem :: "(nat \<times> u64) list"

text \<open>The loop over the free buffers of the new pipe. The flag tells whether every frame was initialised.\<close>

partial_function (option) init_frames ::
  "nat \<Rightarrow> int \<Rightarrow> dheap \<Rightarrow> vsource_t list \<Rightarrow> (nat \<rightharpoonup> vsource_frame_t) \<Rightarrow> (bool \<times> (nat \<rightharpoonup> vsource_frame_t)) option" where
  "init_frames data idx h vss fr =
     (if data = 0 then Some (True, fr)
      else (case h data of
              None \<Rightarrow> None
            | Some b \<Rightarrow>
                (case vsource_frame_init idx (db_pointer b) vss of
                   None \<Rightarrow> None
                 | Some None \<Rightarrow> Some (False, fr)
                 | Some (Some f) \<Rightarrow> init_frames (db_next b) idx h vss (fr(db_pointer b \<mapsto> f)))))"

text \<open>The sizes of one source; \<open>None\<close> is a stride outside the range of \<open>int\<close>.\<close>

definition vs_sizes :: "int \<times> int \<Rightarrow> int \<times> int \<Rightarrow> vsource_config_t \<Rightarrow> vsource_t \<Rightarrow> vsource_t option" where
  "vs_sizes maxres outres config vs = do {
     ms \<leftarrow> chk32 (max VIDEO_SOURCE_DEF_MAXWIDTH (fst maxres) * 4);
     let vs = vs\<lparr>max_width := max VIDEO_SOURCE_DEF_MAXWIDTH (fst maxres),
                  max_height := max VIDEO_SOURCE_DEF_MAXHEIGHT (snd maxres), max_stride := ms,
                  vs_curr_width := vc_width config, vs_curr_height := vc_height config,
                  vs_curr_stride := vc_stride config\<rparr>;
     (if fst outres \<noteq> 0
      then do { os \<leftarrow> chk32 (fst outres * 4);
                Some (vs\<lparr>out_width := fst outres, out_height := snd outres, out_stride := os\<rparr>) }
      else Some (vs\<lparr>out_width := vs_curr_width vs, out_height := vs_curr_height vs,
                     out_stride := vs_curr_stride vs\<rparr>))
   }"

definition pipe_name :: "int \<Rightarrow> string" where
  "pipe_name idx = ''video-'' @ dec_of_int idx"

text \<open>One round: the result is whether to go on, and the state.\<close>

definition setup_one ::
  "int \<times> int \<Rightarrow> int \<times> int \<Rightarrow> int \<Rightarrow> vsource_config_t \<Rightarrow> vs_alloc \<Rightarrow> vs_state \<Rightarrow> (bool \<times> vs_state) option" where
  "setup_one maxres outres idx config al st = do {
     let (name, vs) = add_pipename_internal (va_name al) (pipe_name idx) (vsource_zero\<lparr>vs_channel := idx\<rparr>);
     (if name = None then Some (False, st\<lparr>gVsource := (gVsource st)[nat idx := vs]\<rparr>)
      else do {
        vs \<leftarrow> vs_sizes maxres outres config vs;
        n \<leftarrow> chk32 (max_height vs * max_stride vs);
        (pipe, w) \<leftarrow> dpipe_create (va_pipe al) (va_dup al) (va_mem al) idx (Some (pipe_name idx))
            VIDEO_SOURCE_POOLSIZE (to_int32 (sizeof_frame + n + VSOURCE_ALIGNMENT)) (vs_world st);
        let st = st\<lparr>gVsource := (gVsource st)[nat idx := vs], gPipe := (gPipe st)[nat idx := pipe], vs_world := w\<rparr>;
        (if pipe = 0 then Some (False, st)
         else do {
           p \<leftarrow> dw_pipes w pipe;
           (ok, fr) \<leftarrow> init_frames (dp_in p) idx (dw_bufs w) (gVsource st) (vs_frames st);
           Some (ok, st\<lparr>vs_frames := fr\<rparr>)
         })
      })
   }"

fun setup_loop ::
  "int \<times> int \<Rightarrow> int \<times> int \<Rightarrow> int \<Rightarrow> (vsource_config_t \<times> vs_alloc) list \<Rightarrow> vs_state \<Rightarrow> (int \<times> vs_state) option" where
  "setup_loop maxres outres idx [] st = Some (0, st\<lparr>vs_gChannels := idx\<rparr>)"
| "setup_loop maxres outres idx ((config, al) # cs) st =
     (case setup_one maxres outres idx config al st of
        None \<Rightarrow> None
      | Some (False, st') \<Rightarrow> Some (-1, st')
      | Some (True, st') \<Rightarrow> setup_loop maxres outres (idx + 1) cs st')"

definition read_resolution :: "string \<Rightarrow> ga_conf \<Rightarrow> int \<times> int" where
  "read_resolution key c =
     (case ga_conf_readints key 2 c of (n, vs) \<Rightarrow> if n \<noteq> 2 then (0, 0) else (vs ! 0, vs ! 1))"

text \<open>The configurations are those of the array, each with what its allocations return.\<close>

definition video_source_setup_ex ::
  "ga_conf \<Rightarrow> (vsource_config_t \<times> vs_alloc) list option \<Rightarrow> int \<Rightarrow> vs_state \<Rightarrow> (int \<times> vs_state) option" where
  "video_source_setup_ex c config nConfig st =
     (case config of
        None \<Rightarrow> Some (-1, st)
      | Some cs \<Rightarrow>
          if nConfig \<le> 0 \<or> nConfig > VIDEO_SOURCE_CHANNEL_MAX then Some (-1, st)
          else if nat nConfig > length cs then None
          else setup_loop (read_resolution ''max-resolution'' c) (read_resolution ''output-resolution'' c) 0
                 (take (nat nConfig) cs) st)"

definition video_source_setup :: "ga_conf \<Rightarrow> int \<Rightarrow> int \<Rightarrow> int \<Rightarrow> vs_alloc \<Rightarrow> vs_state \<Rightarrow> (int \<times> vs_state) option" where
  "video_source_setup c width height stride al =
     video_source_setup_ex c (Some [(\<lparr>vc_width = width, vc_height = height, vc_stride = stride\<rparr>, al)]) 1"

end
