(* ===== verification/VsourceProps.thy ===== *)
theory VsourceProps
  imports Vsource GaCommonProps
begin

text \<open>
  Every frame that a successful set-up initialises lies inside the memory block allocated for it, the
  sizes a set-up installs, the copy of frames, and the channel test that is off by one.
\<close>

section \<open>Buffers of a new pipe\<close>

definition cut_from :: "u64 \<Rightarrow> dpipe_buffer_t \<Rightarrow> bool" where
  "cut_from blk b \<longleftrightarrow> blk \<noteq> 0 \<and> db_internal b = unat blk \<and> db_pointer b = unat blk + nat (16 - uint (blk AND 0x0f))"

lemma create_loop_bufs:
  "create_loop n mem p (h, B) = (ok, p', h', B') \<Longrightarrow> h' x = Some b \<Longrightarrow>
     h x = Some b \<or> (\<exists>blk \<in> snd ` set mem. cut_from blk b)"
proof (induction n mem p "(h, B)" arbitrary: h B rule: create_loop.induct)
  case (3 n dbuffer block mem p h B)
  show ?case
  proof (cases "dbuffer = 0 \<or> block = 0")
    case True
    with 3 show ?thesis by (auto split: if_splits)
  next
    case False
    with 3 show ?thesis by (fastforce simp: cut_from_def split: if_splits)
  qed
qed auto

lemma create_success:
  assumes "dpipe_create addr dup mem cid name nframe fsize w = Some (a, w')" "a \<noteq> 0"
    and "malloc_fresh mem (dw_bufs w) (dw_blocks w)"
  obtains p xs where "0 < fsize" "dw_pipes w' a = Some p" "chain (dw_bufs w') (dp_in p) xs"
    "dw_bufs w' |` (- set xs) = dw_bufs w"
    "\<And>x b. x \<in> set xs \<Longrightarrow> dw_bufs w' x = Some b \<Longrightarrow> \<exists>blk \<in> snd ` set mem. cut_from blk b"
proof -
  obtain nm where nm: "name = Some nm" and f: "0 < fsize" "0 < nframe" "\<not> cid < 0" "dpipe_lookup nm w = 0"
    using assms(1,2) by (auto simp: dpipe_create_def split: option.splits if_splits)
  let ?p = "\<lparr>channel_id = cid, dp_name = Some nm, dp_in = 0, dp_out = 0, dp_out_tail = 0, in_count = 0, out_count = 0\<rparr>"
  obtain ok p' bufs blocks where
    l: "create_loop (nat nframe) mem ?p (dw_bufs w, dw_blocks w) = (ok, p', bufs, blocks)" by (metis prod_cases4)
  have w': "dup \<and> ok" "dw_pipes w' a = Some p'" "dw_bufs w' = bufs"
    using assms(1,2) f l nm
    by (auto simp: dpipe_create_def Let_def split: if_splits Option.bind_splits)
  have b0: "built (dw_bufs w) (dw_blocks w) ?p (dw_bufs w) (dw_blocks w) []"
    by (simp add: built_def dp_rel_def restrict_map_def)
  obtain xs where xs: "built (dw_bufs w) (dw_blocks w) p' bufs blocks xs"
    using create_loop_built [OF b0 assms(3) _ l] by auto
  have "\<exists>blk \<in> snd ` set mem. cut_from blk b" if "x \<in> set xs" "bufs x = Some b" for x b
    using create_loop_bufs [OF l that(2)] that(1) xs by (auto simp: built_def)
  with xs f(1) w' show thesis by (intro that [of p' xs]) (auto simp: built_def dp_rel_def)
qed

section \<open>Frames inside their blocks\<close>

text \<open>An image of \<open>n\<close> bytes for the frame at \<open>ptr\<close>: aligned, behind the frame, no more than 16 bytes further.\<close>

definition image_placed :: "int \<Rightarrow> nat \<Rightarrow> vsource_frame_t \<Rightarrow> bool" where
  "image_placed n ptr f \<longleftrightarrow> vf_imgbuf f mod 16 = 0 \<and> ptr + nat sizeof_frame \<le> vf_imgbuf f
     \<and> vf_imgbuf f \<le> ptr + nat sizeof_frame + 16 \<and> imgbufsize f = n \<and> length (vf_image f) = nat n"

lemma alignment_16:
  assumes "a < 2 ^ 64"
  shows "ga_alignment (of_nat a) 16 = 16 - int (a mod 16)"
proof -
  have "uint (of_nat a :: u64) = int a"
    using assms by (simp add: unsigned_of_nat take_bit_nat_eq_self)
  then show ?thesis by (simp add: ga_alignment_def uint_and_15 zmod_int)
qed

lemma frame_init_placed:
  assumes "vsource_frame_init idx ptr vss = Some (Some f)" "ptr + 96 < 2 ^ 64"
  shows "image_placed (max_height (vss ! nat idx) * max_stride (vss ! nat idx)) ptr f"
proof -
  let ?img = "ptr + 96"
  have al: "nat (ga_alignment (word_of_nat ?img) 16) = 16 - ?img mod 16"
    using assms(2) by (simp only: alignment_16)
  have "vf_imgbuf f = ?img + nat (ga_alignment (word_of_nat ?img) 16)"
    "imgbufsize f = max_height (vss ! nat idx) * max_stride (vss ! nat idx)"
    "length (vf_image f) = nat (max_height (vss ! nat idx) * max_stride (vss ! nat idx))"
    using assms(1)
    by (auto simp: vsource_frame_init_def Let_def sizeof_frame_def VSOURCE_ALIGNMENT_def chk32_def
        simp del: of_nat_add split: if_splits)
  moreover have "(?img + (16 - ?img mod 16)) mod 16 = 0" by presburger
  moreover have "?img mod 16 < 16" by simp
  ultimately show ?thesis unfolding image_placed_def al sizeof_frame_def by auto
qed

lemma init_frames_placed:
  assumes "chain h data xs" "init_frames data idx h vss fr = Some (True, fr')"
    and "n = max_height (vss ! nat idx) * max_stride (vss ! nat idx)"
    and "\<And>x b. x \<in> set xs \<Longrightarrow> h x = Some b \<Longrightarrow> db_pointer b + 96 < 2 ^ 64"
  shows "(\<forall>q f. fr q = Some f \<and> image_placed n q f \<longrightarrow> (\<exists>f'. fr' q = Some f' \<and> image_placed n q f'))
    \<and> (\<forall>x \<in> set xs. \<forall>b. h x = Some b \<longrightarrow> (\<exists>f. fr' (db_pointer b) = Some f \<and> image_placed n (db_pointer b) f))"
  using assms
proof (induction xs arbitrary: data fr)
  case Nil
  then show ?case by (auto simp: init_frames.simps)
next
  case (Cons x xs)
  then obtain b where b: "h x = Some b" "chain h (db_next b) xs" "data = x" "x \<noteq> 0"
    by (auto split: option.splits)
  obtain f where f: "vsource_frame_init idx (db_pointer b) vss = Some (Some f)"
    and r: "init_frames (db_next b) idx h vss (fr(db_pointer b \<mapsto> f)) = Some (True, fr')"
    using Cons.prems(2) b by (subst (asm) init_frames.simps) (auto split: option.splits)
  have p: "image_placed n (db_pointer b) f"
    using frame_init_placed [OF f Cons.prems(4) [OF _ b(1)]] Cons.prems(3) by simp
  have IH: "(\<forall>q f'. (fr(db_pointer b \<mapsto> f)) q = Some f' \<and> image_placed n q f'
        \<longrightarrow> (\<exists>f'. fr' q = Some f' \<and> image_placed n q f'))
    \<and> (\<forall>x \<in> set xs. \<forall>b. h x = Some b \<longrightarrow> (\<exists>f. fr' (db_pointer b) = Some f \<and> image_placed n (db_pointer b) f))"
    by (rule Cons.IH [OF b(2) r Cons.prems(3)]) (rule Cons.prems(4), auto)
  then show ?case using p b(1) by (auto split: if_splits)
qed

section \<open>The set-up\<close>

definition frame_area :: "int \<times> int \<Rightarrow> int" where
  "frame_area maxres =
     max VIDEO_SOURCE_DEF_MAXHEIGHT (snd maxres) * (max VIDEO_SOURCE_DEF_MAXWIDTH (fst maxres) * 4)"

lemma vs_sizes_max:
  "vs_sizes maxres outres config vs = Some vs' \<Longrightarrow>
     max_width vs' = max VIDEO_SOURCE_DEF_MAXWIDTH (fst maxres)
     \<and> max_height vs' * max_stride vs' = frame_area maxres"
  by (auto simp: vs_sizes_def chk32_def frame_area_def Let_def split: if_splits Option.bind_splits)

text \<open>The memory a successful round leaves: what was there, and buffers with a placed frame.\<close>

definition frames_placed :: "int \<Rightarrow> dheap \<Rightarrow> vs_state \<Rightarrow> bool" where
  "frames_placed n h0 st \<longleftrightarrow>
     (\<forall>x b. dw_bufs (vs_world st) x = Some b \<and> h0 x = None \<longrightarrow>
        (\<exists>blk. cut_from blk b) \<and> (\<exists>f. vs_frames st (db_pointer b) = Some f \<and> image_placed n (db_pointer b) f))"

definition alloc_ok :: "vs_alloc \<Rightarrow> vs_state \<Rightarrow> bool" where
  "alloc_ok al st \<longleftrightarrow> malloc_fresh (va_mem al) (dw_bufs (vs_world st)) (dw_blocks (vs_world st))
     \<and> (\<forall>(a, blk) \<in> set (va_mem al). unat blk + 112 < 2 ^ 64)"

lemma cut_from_room: "cut_from blk b \<Longrightarrow> unat blk + 112 < 2 ^ 64 \<Longrightarrow> db_pointer b + 96 < 2 ^ 64"
proof -
  assume "cut_from blk b" and r: "unat blk + 112 < 2 ^ 64"
  then have "db_pointer b = unat blk + nat (16 - uint (blk AND 0x0f))" by (simp add: cut_from_def)
  moreover have "nat (16 - uint (blk AND 0x0f)) \<le> 16" by (simp add: nat_le_iff)
  ultimately show ?thesis using r by simp
qed

lemma setup_one_placed:
  assumes "setup_one maxres outres idx config al st = Some (True, st')" "alloc_ok al st"
    and "0 \<le> idx" "nat idx < length (gVsource st)" "frames_placed (frame_area maxres) h0 st"
  shows "frames_placed (frame_area maxres) h0 st' \<and> length (gVsource st') = length (gVsource st)
    \<and> 0 < to_int32 (sizeof_frame + frame_area maxres + VSOURCE_ALIGNMENT)
    \<and> frame_area maxres \<le> INT_MAX"
proof -
  obtain vs w pipe p fr where
    vs: "vs_sizes maxres outres config (vsource_zero\<lparr>vs_channel := idx, vs_pipename := [pipe_name idx]\<rparr>) = Some vs"
    and n: "chk32 (max_height vs * max_stride vs) \<noteq> None"
    and c: "dpipe_create (va_pipe al) (va_dup al) (va_mem al) idx (Some (pipe_name idx)) VIDEO_SOURCE_POOLSIZE
        (to_int32 (sizeof_frame + max_height vs * max_stride vs + VSOURCE_ALIGNMENT)) (vs_world st) = Some (pipe, w)"
    and p: "pipe \<noteq> 0" "dw_pipes w pipe = Some p"
    and i: "init_frames (dp_in p) idx (dw_bufs w) ((gVsource st)[nat idx := vs]) (vs_frames st) = Some (True, fr)"
    and st': "st' = st\<lparr>gVsource := (gVsource st)[nat idx := vs], gPipe := (gPipe st)[nat idx := pipe],
        vs_world := w, vs_frames := fr\<rparr>"
    using assms(1)
    by (auto simp: setup_one_def add_pipename_internal_def vsource_zero_def Let_def chk32_def
        split: if_splits Option.bind_splits)
  have area: "max_height vs * max_stride vs = frame_area maxres" using vs_sizes_max [OF vs] by simp
  obtain xs where xs: "chain (dw_bufs w) (dp_in p) xs" "dw_bufs w |` (- set xs) = dw_bufs (vs_world st)"
    and cut: "\<And>x b. x \<in> set xs \<Longrightarrow> dw_bufs w x = Some b \<Longrightarrow> \<exists>blk \<in> snd ` set (va_mem al). cut_from blk b"
    and pos: "0 < to_int32 (sizeof_frame + max_height vs * max_stride vs + VSOURCE_ALIGNMENT)"
    using create_success [OF c p(1)] assms(2) p(2) by (metis alloc_ok_def option.sel)
  have room: "db_pointer b + 96 < 2 ^ 64" if "x \<in> set xs" "dw_bufs w x = Some b" for x b
    using cut [OF that] assms(2) cut_from_room by (fastforce simp: alloc_ok_def)
  have pl: "(\<forall>q f. vs_frames st q = Some f \<and> image_placed (frame_area maxres) q f
        \<longrightarrow> (\<exists>f'. fr q = Some f' \<and> image_placed (frame_area maxres) q f'))
    \<and> (\<forall>x \<in> set xs. \<forall>b. dw_bufs w x = Some b
        \<longrightarrow> (\<exists>f. fr (db_pointer b) = Some f \<and> image_placed (frame_area maxres) (db_pointer b) f))"
    by (rule init_frames_placed [OF xs(1) i]) (use assms(4) area room in auto)
  have old: "x \<notin> set xs \<Longrightarrow> dw_bufs w x = dw_bufs (vs_world st) x" for x
    using fun_cong [OF xs(2), of x] by (simp add: restrict_map_def)
  have "(\<exists>blk. cut_from blk b) \<and> (\<exists>f. fr (db_pointer b) = Some f \<and> image_placed (frame_area maxres) (db_pointer b) f)"
    if "dw_bufs w x = Some b" "h0 x = None" for x b
    using that assms(5) pl cut old by (cases "x \<in> set xs") (fastforce simp: frames_placed_def)+
  then have "frames_placed (frame_area maxres) h0 st'" by (auto simp: frames_placed_def st')
  then show ?thesis using st' pos area n by (auto simp: chk32_def split: if_splits)
qed

text \<open>What \<open>malloc\<close> promises over the rounds: each time memory not in use, inside the address space.\<close>

fun rounds_ok :: "int \<times> int \<Rightarrow> int \<times> int \<Rightarrow> int \<Rightarrow> (vsource_config_t \<times> vs_alloc) list \<Rightarrow> vs_state \<Rightarrow> bool" where
  "rounds_ok maxres outres idx [] st \<longleftrightarrow> True"
| "rounds_ok maxres outres idx ((config, al) # cs) st \<longleftrightarrow> alloc_ok al st
     \<and> (case setup_one maxres outres idx config al st of
          Some (True, st') \<Rightarrow> rounds_ok maxres outres (idx + 1) cs st' | _ \<Rightarrow> True)"

lemma setup_loop_placed:
  assumes "setup_loop maxres outres idx cs st = Some (0, st')" "rounds_ok maxres outres idx cs st"
    and "0 \<le> idx" "nat idx + length cs \<le> length (gVsource st)" "frames_placed (frame_area maxres) h0 st"
  shows "frames_placed (frame_area maxres) h0 st' \<and> vs_gChannels st' = idx + int (length cs)
    \<and> (cs \<noteq> [] \<longrightarrow> 0 < to_int32 (sizeof_frame + frame_area maxres + VSOURCE_ALIGNMENT) \<and> frame_area maxres \<le> INT_MAX)"
  using assms
proof (induction cs arbitrary: idx st)
  case Nil
  then show ?case by (auto simp: frames_placed_def)
next
  case (Cons c cs)
  obtain config al where c: "c = (config, al)" by (cases c)
  obtain st1 where one: "setup_one maxres outres idx config al st = Some (True, st1)"
    and rest: "setup_loop maxres outres (idx + 1) cs st1 = Some (0, st')"
    using Cons.prems(1) c by (auto split: option.splits bool.splits)
  have placed: "frames_placed (frame_area maxres) h0 st1 \<and> length (gVsource st1) = length (gVsource st)
      \<and> 0 < to_int32 (sizeof_frame + frame_area maxres + VSOURCE_ALIGNMENT) \<and> frame_area maxres \<le> INT_MAX"
    using setup_one_placed [OF one] Cons.prems c by simp
  have "rounds_ok maxres outres (idx + 1) cs st1" using Cons.prems(2) c one by simp
  moreover have "nat (idx + 1) + length cs \<le> length (gVsource st1)"
    using Cons.prems(3,4) placed by (simp add: nat_add_distrib)
  ultimately show ?case using Cons.IH [OF rest] Cons.prems(3) placed by simp
qed


section \<open>The set-up succeeds\<close>

definition memory_left :: "vs_alloc \<Rightarrow> vs_state \<Rightarrow> bool" where
  "memory_left al st \<longleftrightarrow> alloc_ok al st \<and> va_name al \<and> va_pipe al \<noteq> 0 \<and> va_dup al \<and> 8 \<le> length (va_mem al)
     \<and> (\<forall>(a, blk) \<in> set (va_mem al). a \<noteq> 0 \<and> blk \<noteq> 0)"

lemma create_ok:
  assumes "malloc_fresh mem (dw_bufs w) (dw_blocks w)" "addr \<noteq> 0" "nat nframe \<le> length mem"
    and "\<forall>(a, blk) \<in> set mem. a \<noteq> 0 \<and> blk \<noteq> 0" "dpipe_lookup nm w = 0" "0 \<le> cid" "0 < nframe" "0 < fsize"
  shows "\<exists>w'. dpipe_create addr True mem cid (Some nm) nframe fsize w = Some (addr, w')"
proof -
  let ?p = "\<lparr>channel_id = cid, dp_name = Some nm, dp_in = 0, dp_out = 0, dp_out_tail = 0, in_count = 0, out_count = 0\<rparr>"
  obtain ok p' bufs blocks where
    l: "create_loop (nat nframe) mem ?p (dw_bufs w, dw_blocks w) = (ok, p', bufs, blocks)" by (metis prod_cases4)
  have b0: "built (dw_bufs w) (dw_blocks w) ?p (dw_bufs w) (dw_blocks w) []"
    by (simp add: built_def dp_rel_def restrict_map_def)
  have "ok" using create_loop_built [OF b0 assms(1) _ l] assms(3,4) by auto
  with l assms show ?thesis by (simp add: dpipe_create_def)
qed

lemma init_frames_total:
  assumes "chain h data xs" "0 \<le> idx" "idx < 2" "max_width (vss ! nat idx) \<noteq> 0"
    and "chk32 (max_height (vss ! nat idx) * max_stride (vss ! nat idx)) = Some n"
  shows "\<exists>fr'. init_frames data idx h vss fr = Some (True, fr')"
  using assms(1)
proof (induction xs arbitrary: data fr)
  case Nil
  then show ?case by (simp add: init_frames.simps)
next
  case (Cons x xs)
  then obtain b where b: "h x = Some b" "chain h (db_next b) xs" "data = x" "x \<noteq> 0"
    by (auto split: option.splits)
  obtain f where "vsource_frame_init idx (db_pointer b) vss = Some (Some f)"
    using assms(2-5) by (simp add: vsource_frame_init_def VIDEO_SOURCE_CHANNEL_MAX_def Let_def)
  with b Cons.IH [OF b(2)] show ?case by (subst init_frames.simps) simp
qed

lemma vs_sizes_total:
  assumes "frame_area maxres \<le> INT_MAX" "INT_MIN \<le> fst outres * 4" "fst outres * 4 \<le> INT_MAX"
  shows "\<exists>vs'. vs_sizes maxres outres config vs = Some vs'"
proof -
  let ?s = "max VIDEO_SOURCE_DEF_MAXWIDTH (fst maxres) * 4" and ?h = "max VIDEO_SOURCE_DEF_MAXHEIGHT (snd maxres)"
  have "0 \<le> ?s" "1 \<le> ?h" by (simp_all add: VIDEO_SOURCE_DEF_MAXWIDTH_def VIDEO_SOURCE_DEF_MAXHEIGHT_def)
  then have "?s \<le> ?h * ?s" using mult_right_mono [of 1 ?h ?s] by simp
  then have "?s \<le> INT_MAX" using assms(1) unfolding frame_area_def by linarith
  then have "chk32 ?s = Some ?s" using \<open>0 \<le> ?s\<close> unfolding chk32_def INT_MIN_def by simp
  moreover have "chk32 (fst outres * 4) = Some (fst outres * 4)" using assms(2,3) by (rule chk32_Some)
  ultimately show ?thesis by (simp add: vs_sizes_def Let_def)
qed

lemma setup_one_succeeds:
  assumes "memory_left al st" "dpipe_lookup (pipe_name idx) (vs_world st) = 0" "0 \<le> idx" "idx < 2"
    and "length (gVsource st) = 2" "sizeof_frame + frame_area maxres + VSOURCE_ALIGNMENT \<le> INT_MAX"
    and "INT_MIN \<le> fst outres * 4" "fst outres * 4 \<le> INT_MAX"
  shows "\<exists>st'. setup_one maxres outres idx config al st = Some (True, st')"
proof -
  let ?vs0 = "vsource_zero\<lparr>vs_channel := idx, vs_pipename := [pipe_name idx]\<rparr>"
  have pos: "0 < frame_area maxres" "frame_area maxres \<le> INT_MAX"
    using assms(6) by (simp_all add: frame_area_def VIDEO_SOURCE_DEF_MAXHEIGHT_def VIDEO_SOURCE_DEF_MAXWIDTH_def
        sizeof_frame_def VSOURCE_ALIGNMENT_def)
  obtain vs where vs: "vs_sizes maxres outres config ?vs0 = Some vs" using vs_sizes_total pos(2) assms(7,8) by blast
  have area: "max_width vs \<noteq> 0" "max_height vs * max_stride vs = frame_area maxres"
    using vs_sizes_max [OF vs] by (auto simp: VIDEO_SOURCE_DEF_MAXWIDTH_def)
  have n: "chk32 (max_height vs * max_stride vs) = Some (frame_area maxres)"
    unfolding area(2) using pos by (intro chk32_Some) (simp_all add: INT_MIN_def)
  have size: "to_int32 (sizeof_frame + frame_area maxres + VSOURCE_ALIGNMENT) = sizeof_frame + frame_area maxres + VSOURCE_ALIGNMENT"
    using assms(6) pos by (intro to_int32_id) (simp_all add: INT_MIN_def sizeof_frame_def VSOURCE_ALIGNMENT_def)
  obtain w where w: "dpipe_create (va_pipe al) True (va_mem al) idx (Some (pipe_name idx)) VIDEO_SOURCE_POOLSIZE
      (sizeof_frame + frame_area maxres + VSOURCE_ALIGNMENT) (vs_world st) = Some (va_pipe al, w)"
    using create_ok [of "va_mem al" "vs_world st" "va_pipe al" VIDEO_SOURCE_POOLSIZE "pipe_name idx" idx
        "sizeof_frame + frame_area maxres + VSOURCE_ALIGNMENT"] assms(1-3) pos
    by (auto simp: memory_left_def alloc_ok_def VIDEO_SOURCE_POOLSIZE_def sizeof_frame_def VSOURCE_ALIGNMENT_def)
  obtain p xs where p: "dw_pipes w (va_pipe al) = Some p" "chain (dw_bufs w) (dp_in p) xs"
    using create_success [OF w] assms(1) unfolding memory_left_def alloc_ok_def by metis
  have "max_width ((gVsource st)[nat idx := vs] ! nat idx) \<noteq> 0"
    "chk32 (max_height ((gVsource st)[nat idx := vs] ! nat idx) * max_stride ((gVsource st)[nat idx := vs] ! nat idx))
      = Some (frame_area maxres)"
    using assms(3-5) area n by simp_all
  then obtain fr where "init_frames (dp_in p) idx (dw_bufs w) ((gVsource st)[nat idx := vs]) (vs_frames st) = Some (True, fr)"
    using init_frames_total [OF p(2) assms(3,4)] by blast
  with assms(1) vs n size w p(1) show ?thesis
    by (simp add: setup_one_def add_pipename_internal_def memory_left_def vsource_zero_def)
qed

text \<open>
  With memory left, the pipe name free, the frame size within \<open>int\<close> and the output stride within \<open>int\<close>, the set-up of
  a single video source returns 0 and leaves one channel.
\<close>

theorem vsource_setup_succeeds:
  assumes "memory_left al st" "dpipe_lookup (pipe_name 0) (vs_world st) = 0" "length (gVsource st) = 2"
    and "sizeof_frame + frame_area (read_resolution ''max-resolution'' c) + VSOURCE_ALIGNMENT \<le> INT_MAX"
    and "\<bar>fst (read_resolution ''output-resolution'' c)\<bar> \<le> INT_MAX div 4"
  shows "\<exists>st'. video_source_setup c width height stride al st = Some (0, st') \<and> vs_gChannels st' = 1"
proof -
  let ?o = "fst (read_resolution ''output-resolution'' c)"
  have "INT_MIN \<le> ?o * 4" "?o * 4 \<le> INT_MAX"
    using assms(5) by (simp_all add: INT_MAX_def INT_MIN_def abs_le_iff)
  then obtain st' where "setup_one (read_resolution ''max-resolution'' c) (read_resolution ''output-resolution'' c) 0
      \<lparr>vc_width = width, vc_height = height, vc_stride = stride\<rparr> al st = Some (True, st')"
    using setup_one_succeeds [of al st 0] assms by fastforce
  then show ?thesis
    by (simp add: video_source_setup_def video_source_setup_ex_def VIDEO_SOURCE_CHANNEL_MAX_def)
qed

definition demo_alloc :: vs_alloc where
  "demo_alloc = \<lparr>va_name = True, va_pipe = 9, va_dup = True,
     va_mem = [(1, 0x10000000), (2, 0x20000000), (3, 0x30000000), (4, 0x40000000),
               (5, 0x50000000), (6, 0x60000000), (7, 0x70000000), (8, 0x80000008)]\<rparr>"

lemma demo_memory: "memory_left demo_alloc (vs_initial dw_empty)"
  by (simp add: memory_left_def alloc_ok_def demo_alloc_def malloc_fresh_def vs_initial_def dw_empty_def)

lemma demo_conf_sizes:
  "read_resolution key ga_conf_initial = (0, 0)"
  "sizeof_frame + frame_area (0, 0) + VSOURCE_ALIGNMENT \<le> INT_MAX"
  by (simp_all add: read_resolution_def ga_conf_readints_def ga_conf_readv_def ga_conf_initial_def om_find_def
      om_empty_def frame_area_def sizeof_frame_def VSOURCE_ALIGNMENT_def INT_MAX_def
      VIDEO_SOURCE_DEF_MAXHEIGHT_def VIDEO_SOURCE_DEF_MAXWIDTH_def)

theorem vsource_setup_succeeds_witness:
  "\<exists>st'. video_source_setup ga_conf_initial 1920 1080 7680 demo_alloc (vs_initial dw_empty) = Some (0, st') \<and> vs_gChannels st' = 1"
  using vsource_setup_succeeds [OF demo_memory, of ga_conf_initial] demo_conf_sizes
  by (simp add: dpipe_lookup_def vs_initial_def dw_empty_def om_find_def INT_MAX_def)


section \<open>The channel test\<close>

text \<open>
  The test for a valid channel lets the number of channels itself pass. While fewer channels are in use than the
  table has entries, that yields an entry that no set-up filled instead of NULL; when all entries are in use it is
  an access behind the table. Every smaller channel is answered with its entry, and every larger one with NULL.
\<close>

theorem video_source_off_by_one:
  assumes "0 \<le> vs_gChannels st" "vs_gChannels st \<le> int (length (gVsource st))"
  shows "video_source (vs_gChannels st) st =
      (if nat (vs_gChannels st) < length (gVsource st) then Some (Some (gVsource st ! nat (vs_gChannels st))) else None)
    \<and> (\<forall>ch. 0 \<le> ch \<and> ch < vs_gChannels st \<longrightarrow> video_source ch st = Some (Some (gVsource st ! nat ch)))
    \<and> (\<forall>ch. ch < 0 \<or> vs_gChannels st < ch \<longrightarrow> video_source ch st = Some None)"
  using assms by (auto simp: video_source_def)

theorem video_source_off_by_one_witness:
  "video_source 2 ((vs_initial dw_empty)\<lparr>vs_gChannels := 2\<rparr>) = None"
  using video_source_off_by_one [of "(vs_initial dw_empty)\<lparr>vs_gChannels := 2\<rparr>"]
  by (simp add: vs_initial_def)

end
