(* ===== verification/GaModule.thy ===== *)
theory GaModule
  imports GaCommon
begin

text \<open>
  The modules of \<open>sources/streamer/core/ga-module.cpp\<close>: loading and unloading, the wrappers of the module
  interfaces, and the packets that modules exchange with their side data. A module is a table of function pointers;
  a function is a HOL function on the state of the outside world, whose type is a parameter, and a NULL
  pointer is \<open>None\<close>.
\<close>

section \<open>Packets\<close>

definition GA_INPUT_BUFFER_PADDING_SIZE :: int where "GA_INPUT_BUFFER_PADDING_SIZE = 32"

definition GA_NOPTS_VALUE :: int where "GA_NOPTS_VALUE = - (2 ^ 63)"

datatype ga_packet_side_data_type = GA_PACKET_DATA_PALETTE | GA_PACKET_DATA_NEW_EXTRADATA

record ga_packet_side_data =
  sd_data :: nat
  sd_size :: int
  sd_type :: ga_packet_side_data_type

record ga_packet =
  pk_buf :: nat
  pk_pts :: int
  pk_dts :: int
  pk_data :: nat
  pk_size :: int
  stream_index :: int
  pk_flags :: int
  side_data :: nat
  side_data_elems :: int
  pk_duration :: int
  pk_pos :: int
  convergence_duration :: int

definition ga_init_packet :: "ga_packet \<Rightarrow> ga_packet" where
  "ga_init_packet pkt = pkt\<lparr>pk_buf := 0, pk_pts := GA_NOPTS_VALUE, pk_dts := GA_NOPTS_VALUE, pk_flags := 0,
     stream_index := 0, side_data := 0, side_data_elems := 0, pk_duration := 0, pk_pos := -1,
     convergence_duration := 0\<rparr>"

text \<open>
  The memory that side data lives in: the arrays of entries by address, an entry not yet written being \<open>None\<close>,
  and the addresses of the data blocks.
\<close>

record pkt_heap =
  ph_arrays :: "nat \<rightharpoonup> ga_packet_side_data option list"
  ph_blocks :: "nat set"

text \<open>
  \<open>arr\<close> is what \<open>realloc\<close> and \<open>blk\<close> what \<open>malloc\<close> returns, 0 for NULL. The result is
  the pointer returned, the packet and the memory; \<open>None\<close> is a use of memory that was freed.
\<close>

definition ga_packet_new_side_data ::
  "nat \<Rightarrow> nat \<Rightarrow> ga_packet_side_data_type \<Rightarrow> int \<Rightarrow> ga_packet \<Rightarrow> pkt_heap \<Rightarrow> (nat \<times> ga_packet \<times> pkt_heap) option" where
  "ga_packet_new_side_data arr blk type sz pkt h =
     (let elems = nat (side_data_elems pkt)
      in if to_uint32 sz > INT_MAX - GA_INPUT_BUFFER_PADDING_SIZE then Some (0, pkt, h)
         else do {
           old \<leftarrow> (if side_data pkt = 0 then Some [] else ph_arrays h (side_data pkt));
           (if arr = 0 then Some (0, pkt, h)
            else do {
              let entries = take (elems + 1) (old @ replicate (elems + 1 - length old) None);
              let pkt' = pkt\<lparr>side_data := arr\<rparr>;
              let arrays = ((ph_arrays h)(side_data pkt := None));
              (if blk = 0 then Some (0, pkt', h\<lparr>ph_arrays := arrays(arr \<mapsto> entries)\<rparr>)
               else Some (blk, pkt'\<lparr>side_data_elems := side_data_elems pkt + 1\<rparr>,
                      h\<lparr>ph_arrays := arrays(arr \<mapsto> entries[elems := Some \<lparr>sd_data = blk, sd_size = sz, sd_type = type\<rparr>]),
                        ph_blocks := insert blk (ph_blocks h)\<rparr>))
            })
         })"

text \<open>Freeing the data of the entries; \<open>None\<close> when a block is not there to be freed.\<close>

fun free_entries :: "ga_packet_side_data option list \<Rightarrow> nat set \<Rightarrow> nat set option" where
  "free_entries [] B = Some B"
| "free_entries (None # es) B = None"
| "free_entries (Some e # es) B =
     (if sd_data e = 0 then free_entries es B
      else if sd_data e \<in> B then free_entries es (B - {sd_data e}) else None)"

definition ga_packet_free_side_data :: "ga_packet \<Rightarrow> pkt_heap \<Rightarrow> pkt_heap option" where
  "ga_packet_free_side_data pkt h =
     (if side_data pkt = 0 then Some h
      else (case ph_arrays h (side_data pkt) of
              None \<Rightarrow> None
            | Some es \<Rightarrow>
                if nat (side_data_elems pkt) > length es then None
                else (case free_entries (take (nat (side_data_elems pkt)) es) (ph_blocks h) of
                        None \<Rightarrow> None
                      | Some B \<Rightarrow> Some (h\<lparr>ph_arrays := (ph_arrays h)(side_data pkt := None), ph_blocks := B\<rparr>))))"

text \<open>The search of \<open>ga_packet_get_side_data\<close>; the result is the pointer and the size stored.\<close>

fun find_side_data :: "ga_packet_side_data_type \<Rightarrow> ga_packet_side_data option list \<Rightarrow> (nat \<times> int) option" where
  "find_side_data type [] = Some (0, 0)"
| "find_side_data type (None # es) = None"
| "find_side_data type (Some e # es) =
     (if sd_type e = type then Some (sd_data e, sd_size e) else find_side_data type es)"

definition ga_packet_get_side_data ::
  "ga_packet \<Rightarrow> ga_packet_side_data_type \<Rightarrow> pkt_heap \<Rightarrow> (nat \<times> int) option" where
  "ga_packet_get_side_data pkt type h =
     (if side_data_elems pkt > 0 \<and> side_data pkt \<noteq> 0
      then (case ph_arrays h (side_data pkt) of
              None \<Rightarrow> None
            | Some es \<Rightarrow>
                if nat (side_data_elems pkt) > length es then None
                else find_side_data type (take (nat (side_data_elems pkt)) es))
      else Some (0, 0))"

section \<open>Modules\<close>

definition GA_IOCTL_ERR_NULLMODULE :: int where "GA_IOCTL_ERR_NULLMODULE = -2"
definition GA_IOCTL_ERR_NOIOCTL :: int where "GA_IOCTL_ERR_NOIOCTL = -3"
definition GA_IOCTL_ERR_NOINTERFACE :: int where "GA_IOCTL_ERR_NOINTERFACE = -3"

type_synonym 'w iface = "nat \<Rightarrow> 'w \<Rightarrow> int \<times> 'w"

record 'w ga_module =
  m_name :: string
  m_init :: "'w iface option"
  m_start :: "'w iface option"
  m_stop :: "'w iface option"
  m_deinit :: "'w iface option"
  m_ioctl :: "(int \<Rightarrow> int \<Rightarrow> nat \<Rightarrow> 'w \<Rightarrow> int \<times> 'w) option"
  m_notify :: "'w iface option"
  m_raw :: "(nat \<Rightarrow> 'w \<Rightarrow> (nat \<times> int) \<times> 'w) option"
  m_send_packet :: "(string \<Rightarrow> int \<Rightarrow> ga_packet \<Rightarrow> int \<Rightarrow> timeval \<Rightarrow> 'w \<Rightarrow> int \<times> 'w) option"

text \<open>
  Loading, on Linux. \<open>dlopen\<close> gives a handle or 0, \<open>dlsym\<close> whether the library exports
  \<open>module_load\<close>, and \<open>load\<close> the address of the module that function returns. The result is the module,
  the handles closed, and the table of loaded modules.
\<close>

definition ga_load_module ::
  "(string \<Rightarrow> nat) \<Rightarrow> (nat \<Rightarrow> bool) \<Rightarrow> (nat \<Rightarrow> nat) \<Rightarrow> string \<Rightarrow> (nat, nat) omap \<Rightarrow> nat \<times> nat list \<times> (nat, nat) omap" where
  "ga_load_module dlopen dlsym load modname mlist =
     (let handle = dlopen (modname @ ''.so'')
      in if handle = 0 then (0, [], mlist)
         else if \<not> dlsym handle then (0, [handle], mlist)
         else let m = load handle
              in if m = 0 then (0, [handle], mlist) else (m, [], om_put m handle mlist))"

definition ga_unload_module :: "nat \<Rightarrow> (nat, nat) omap \<Rightarrow> nat list \<times> (nat, nat) omap" where
  "ga_unload_module m mlist =
     (if m = 0 then ([], mlist)
      else (case om_find mlist m of None \<Rightarrow> ([], mlist) | Some handle \<Rightarrow> ([handle], om_erase m mlist)))"

definition ga_init_single_module :: "'w ga_module \<Rightarrow> nat \<Rightarrow> 'w \<Rightarrow> int \<times> 'w" where
  "ga_init_single_module m arg w =
     (case m_init m of None \<Rightarrow> (0, w) | Some f \<Rightarrow> (case f arg w of (r, w') \<Rightarrow> (if r < 0 then -1 else 0, w')))"

definition ga_init_single_module_or_quit :: "'w ga_module \<Rightarrow> nat \<Rightarrow> 'w \<Rightarrow> 'w outcome" where
  "ga_init_single_module_or_quit m arg w =
     (case ga_init_single_module m arg w of (r, w') \<Rightarrow> if r < 0 then Exit (-1) else Ret w')"

text \<open>\<open>None\<close> as thread procedure is NULL; \<open>created\<close> tells whether the thread could be created.\<close>

definition ga_run_single_module :: "bool \<Rightarrow> bool \<Rightarrow> int" where
  "ga_run_single_module threadproc created = (if \<not> threadproc then 0 else if created then 0 else -1)"

definition ga_run_single_module_or_quit :: "bool \<Rightarrow> bool \<Rightarrow> unit outcome" where
  "ga_run_single_module_or_quit threadproc created =
     (if ga_run_single_module threadproc created < 0 then Exit (-1) else Ret ())"

text \<open>A module pointer is \<open>None\<close> when NULL. The interfaces differ in what an undefined one returns.\<close>

definition iface_call :: "int \<Rightarrow> ('w ga_module \<Rightarrow> 'w iface option) \<Rightarrow> 'w ga_module option \<Rightarrow> nat \<Rightarrow> 'w \<Rightarrow> int \<times> 'w" where
  "iface_call undefd sel m arg w =
     (case m of
        None \<Rightarrow> (GA_IOCTL_ERR_NULLMODULE, w)
      | Some md \<Rightarrow> (case sel md of None \<Rightarrow> (undefd, w) | Some f \<Rightarrow> f arg w))"

definition ga_module_init :: "'w ga_module option \<Rightarrow> nat \<Rightarrow> 'w \<Rightarrow> int \<times> 'w" where
  "ga_module_init = iface_call 0 m_init"

definition ga_module_start :: "'w ga_module option \<Rightarrow> nat \<Rightarrow> 'w \<Rightarrow> int \<times> 'w" where
  "ga_module_start = iface_call GA_IOCTL_ERR_NOINTERFACE m_start"

definition ga_module_stop :: "'w ga_module option \<Rightarrow> nat \<Rightarrow> 'w \<Rightarrow> int \<times> 'w" where
  "ga_module_stop = iface_call 0 m_stop"

definition ga_module_deinit :: "'w ga_module option \<Rightarrow> nat \<Rightarrow> 'w \<Rightarrow> int \<times> 'w" where
  "ga_module_deinit = iface_call 0 m_deinit"

definition ga_module_notify :: "'w ga_module option \<Rightarrow> nat \<Rightarrow> 'w \<Rightarrow> int \<times> 'w" where
  "ga_module_notify = iface_call 0 m_notify"

definition ga_module_ioctl :: "'w ga_module option \<Rightarrow> int \<Rightarrow> int \<Rightarrow> nat \<Rightarrow> 'w \<Rightarrow> int \<times> 'w" where
  "ga_module_ioctl m command argsize arg w =
     (case m of
        None \<Rightarrow> (GA_IOCTL_ERR_NULLMODULE, w)
      | Some md \<Rightarrow> (case m_ioctl md of None \<Rightarrow> (GA_IOCTL_ERR_NOIOCTL, w) | Some f \<Rightarrow> f command argsize arg w))"

definition ga_module_raw :: "'w ga_module option \<Rightarrow> nat \<Rightarrow> 'w \<Rightarrow> (nat \<times> int) \<times> 'w" where
  "ga_module_raw m arg w =
     (case m of
        None \<Rightarrow> ((0, 0), w)
      | Some md \<Rightarrow> (case m_raw md of None \<Rightarrow> ((0, 0), w) | Some f \<Rightarrow> f arg w))"

text \<open>Neither the module nor its interface is checked: \<open>None\<close> is a call through NULL.\<close>

definition ga_module_send_packet ::
  "'w ga_module option \<Rightarrow> string \<Rightarrow> int \<Rightarrow> ga_packet \<Rightarrow> int \<Rightarrow> timeval \<Rightarrow> 'w \<Rightarrow> (int \<times> 'w) option" where
  "ga_module_send_packet m prefix channelId pkt encoderPts ptv w = do {
     md \<leftarrow> m;
     f \<leftarrow> m_send_packet md;
     Some (f prefix channelId pkt encoderPts ptv w)
   }"

section \<open>Side data\<close>

text \<open>The packet has the entries \<open>xs\<close>; each of them owns a block.\<close>

definition sd_rel :: "ga_packet \<Rightarrow> pkt_heap \<Rightarrow> ga_packet_side_data list \<Rightarrow> bool" where
  "sd_rel pkt h xs \<longleftrightarrow> side_data_elems pkt = int (length xs)
     \<and> (if side_data pkt = 0 then xs = []
        else \<exists>es. ph_arrays h (side_data pkt) = Some es \<and> length xs \<le> length es \<and> take (length xs) es = map Some xs)
     \<and> distinct (map sd_data xs) \<and> sd_data ` set xs \<subseteq> ph_blocks h \<and> 0 \<notin> sd_data ` set xs"

lemma find_side_data_find:
  "find_side_data type (map Some xs) =
     Some (case find (\<lambda>e. sd_type e = type) xs of None \<Rightarrow> (0, 0) | Some e \<Rightarrow> (sd_data e, sd_size e))"
  by (induction xs) auto

lemma get_side_data_rel:
  "sd_rel pkt h xs \<Longrightarrow> ga_packet_get_side_data pkt type h =
     Some (case find (\<lambda>e. sd_type e = type) xs of None \<Rightarrow> (0, 0) | Some e \<Rightarrow> (sd_data e, sd_size e))"
  using find_side_data_find [of type xs]
  by (auto simp: sd_rel_def ga_packet_get_side_data_def split: if_splits option.splits)

lemma free_entries_all:
  "distinct (map sd_data xs) \<Longrightarrow> sd_data ` set xs \<subseteq> B \<Longrightarrow> 0 \<notin> sd_data ` set xs \<Longrightarrow>
     free_entries (map Some xs) B = Some (B - sd_data ` set xs)"
proof (induction xs arbitrary: B)
  case (Cons x xs)
  then have "sd_data ` set xs \<subseteq> B - {sd_data x}" "0 \<notin> sd_data ` set xs" by (auto simp: image_iff)
  with Cons.IH [of "B - {sd_data x}"] Cons.prems show ?case by (auto simp: Diff_insert2 [symmetric] insert_commute)
qed simp

lemma sd_rel_array:
  "sd_rel pkt h xs \<Longrightarrow> \<exists>es. (if side_data pkt = 0 then Some [] else ph_arrays h (side_data pkt)) = Some es
     \<and> length xs \<le> length es \<and> take (length xs) es = map Some xs"
  by (auto simp: sd_rel_def)

lemma snoc_entry:
  assumes "length es = length xs + 1" "take (length xs) es = map Some xs"
  shows "es[length xs := Some e] = map Some (xs @ [e])"
proof -
  have "length (drop (length xs) es) = 1" using assms(1) by simp
  then obtain z where "drop (length xs) es = [z]" by (auto simp only: length_Suc_conv One_nat_def length_0_conv)
  then have "es = map Some xs @ [z]" using assms(2) append_take_drop_id [of "length xs" es] by simp
  then show ?thesis using list_update_length [of "map Some xs" z "[]" "Some e"] by simp
qed

text \<open>The unsigned comparison that bounds the size.\<close>

definition size_fits :: "int \<Rightarrow> bool" where
  "size_fits sz \<longleftrightarrow> 0 \<le> sz \<and> sz \<le> INT_MAX - GA_INPUT_BUFFER_PADDING_SIZE"

lemma size_guard:
  assumes "INT_MIN \<le> sz" "sz \<le> INT_MAX"
  shows "to_uint32 sz > INT_MAX - GA_INPUT_BUFFER_PADDING_SIZE \<longleftrightarrow> \<not> size_fits sz"
proof (cases "0 \<le> sz")
  case True
  then have "to_uint32 sz = sz" using assms(2) by (simp add: to_uint32_def INT_MAX_def)
  with True show ?thesis by (auto simp: size_fits_def)
next
  case False
  have "to_uint32 sz = (sz + 2 ^ 32) mod 2 ^ 32" by (simp add: to_uint32_def)
  also have "\<dots> = sz + 2 ^ 32" using False assms(1) by (intro mod_pos_pos_trivial) (simp_all add: INT_MIN_def)
  finally show ?thesis
    using False assms(1) by (simp add: size_fits_def INT_MIN_def INT_MAX_def GA_INPUT_BUFFER_PADDING_SIZE_def)
qed

text \<open>The array after \<open>realloc\<close>: the entries, and room for one more.\<close>

lemma grown_array:
  assumes "sd_rel pkt h xs"
  obtains es where "(if side_data pkt = 0 then Some [] else ph_arrays h (side_data pkt)) = Some es"
    "length (take (length xs + 1) (es @ replicate (length xs + 1 - length es) None)) = length xs + 1"
    "take (length xs) (take (length xs + 1) (es @ replicate (length xs + 1 - length es) None)) = map Some xs"
proof -
  obtain es where "(if side_data pkt = 0 then Some [] else ph_arrays h (side_data pkt)) = Some es"
    "length xs \<le> length es" "take (length xs) es = map Some xs"
    using sd_rel_array [OF assms] by auto
  then show thesis by (intro that [of es]) (simp_all add: min_def)
qed

lemma new_side_data_refused:
  assumes "sd_rel pkt h xs" "INT_MIN \<le> sz" "sz \<le> INT_MAX" "\<not> (arr \<noteq> 0 \<and> blk \<noteq> 0 \<and> size_fits sz)"
  shows "\<exists>pkt' h'. ga_packet_new_side_data arr blk type sz pkt h = Some (0, pkt', h') \<and> sd_rel pkt' h' xs"
proof (cases "size_fits sz \<and> arr \<noteq> 0")
  case False
  obtain es where "(if side_data pkt = 0 then Some [] else ph_arrays h (side_data pkt)) = Some es"
    using grown_array [OF assms(1)] by metis
  with False assms(1) size_guard [OF assms(2,3)] show ?thesis
    by (auto simp: ga_packet_new_side_data_def)
next
  case True
  obtain es where es: "(if side_data pkt = 0 then Some [] else ph_arrays h (side_data pkt)) = Some es"
    and len: "length (take (length xs + 1) (es @ replicate (length xs + 1 - length es) None)) = length xs + 1"
    and pre: "take (length xs) (take (length xs + 1) (es @ replicate (length xs + 1 - length es) None)) = map Some xs"
    using grown_array [OF assms(1)] .
  let ?h = "h\<lparr>ph_arrays := (ph_arrays h)(side_data pkt := None,
      arr \<mapsto> take (length xs + 1) (es @ replicate (length xs + 1 - length es) None))\<rparr>"
  have n: "nat (side_data_elems pkt) = length xs" using assms(1) by (simp add: sd_rel_def)
  have "blk = 0" using True assms(4) by simp
  then have "ga_packet_new_side_data arr blk type sz pkt h = Some (0, pkt\<lparr>side_data := arr\<rparr>, ?h)"
    unfolding ga_packet_new_side_data_def n using True es size_guard [OF assms(2,3)] by (simp add: Let_def)
  moreover have "sd_rel (pkt\<lparr>side_data := arr\<rparr>) ?h xs"
    using assms(1) True len pre by (simp add: sd_rel_def)
  ultimately show ?thesis by blast
qed

lemma new_side_data_added:
  assumes "sd_rel pkt h xs" "INT_MIN \<le> sz" "sz \<le> INT_MAX" "arr \<noteq> 0" "blk \<noteq> 0" "size_fits sz" "blk \<notin> ph_blocks h"
  shows "\<exists>pkt' h'. ga_packet_new_side_data arr blk type sz pkt h = Some (blk, pkt', h')
    \<and> sd_rel pkt' h' (xs @ [\<lparr>sd_data = blk, sd_size = sz, sd_type = type\<rparr>])"
proof -
  let ?e = "\<lparr>sd_data = blk, sd_size = sz, sd_type = type\<rparr>"
  obtain es where es: "(if side_data pkt = 0 then Some [] else ph_arrays h (side_data pkt)) = Some es"
    and len: "length (take (length xs + 1) (es @ replicate (length xs + 1 - length es) None)) = length xs + 1"
    and pre: "take (length xs) (take (length xs + 1) (es @ replicate (length xs + 1 - length es) None)) = map Some xs"
    using grown_array [OF assms(1)] .
  have n: "nat (side_data_elems pkt) = length xs" using assms(1) by (simp add: sd_rel_def)
  let ?p = "pkt\<lparr>side_data := arr, side_data_elems := side_data_elems pkt + 1\<rparr>"
  let ?h = "h\<lparr>ph_arrays := (ph_arrays h)(side_data pkt := None, arr \<mapsto> map Some (xs @ [?e])),
      ph_blocks := insert blk (ph_blocks h)\<rparr>"
  have "ga_packet_new_side_data arr blk type sz pkt h = Some (blk, ?p, ?h)"
    unfolding ga_packet_new_side_data_def n using assms(4-6) es size_guard [OF assms(2,3)]
    by (simp only: Let_def snoc_entry [OF len pre] if_False if_True simp_thms Option.bind.simps)
  moreover have "sd_rel ?p ?h (xs @ [?e])"
    using assms(1,4,5,7) by (auto simp: sd_rel_def)
  ultimately show ?thesis by blast
qed

text \<open>
  Adding side data to a packet is all or nothing. The call returns either NULL, and the packet has the entries it
  had, or the new block, and the packet has one entry more at the end; it returns the block exactly when the size is
  between 0 and the largest that leaves room for the padding and both allocations succeed. In either case a search by
  type finds the first entry of that type.
\<close>

theorem side_data_append:
  assumes "sd_rel pkt h xs" "INT_MIN \<le> sz" "sz \<le> INT_MAX" "blk \<notin> ph_blocks h"
  shows "\<exists>r pkt' h' ys. ga_packet_new_side_data arr blk type sz pkt h = Some (r, pkt', h')
    \<and> r = (if arr \<noteq> 0 \<and> blk \<noteq> 0 \<and> size_fits sz then blk else 0)
    \<and> ys = (if r = 0 then xs else xs @ [\<lparr>sd_data = blk, sd_size = sz, sd_type = type\<rparr>])
    \<and> sd_rel pkt' h' ys
    \<and> (\<forall>t. ga_packet_get_side_data pkt' t h' =
          Some (case find (\<lambda>e. sd_type e = t) ys of None \<Rightarrow> (0, 0) | Some e \<Rightarrow> (sd_data e, sd_size e)))"
proof (cases "arr \<noteq> 0 \<and> blk \<noteq> 0 \<and> size_fits sz")
  case True
  then obtain pkt' h' where "ga_packet_new_side_data arr blk type sz pkt h = Some (blk, pkt', h')"
    "sd_rel pkt' h' (xs @ [\<lparr>sd_data = blk, sd_size = sz, sd_type = type\<rparr>])"
    using new_side_data_added assms by blast
  with True get_side_data_rel show ?thesis
    by (intro exI [of _ blk] exI [of _ pkt'] exI [of _ h'] exI conjI) auto
next
  case False
  then obtain pkt' h' where "ga_packet_new_side_data arr blk type sz pkt h = Some (0, pkt', h')" "sd_rel pkt' h' xs"
    using new_side_data_refused assms by blast
  with False get_side_data_rel show ?thesis
    by (intro exI [of _ 0] exI [of _ pkt'] exI [of _ h'] exI conjI) auto
qed

definition demo_packet :: ga_packet where
  "demo_packet = \<lparr>pk_buf = 0, pk_pts = 0, pk_dts = 0, pk_data = 0, pk_size = 0, stream_index = 0, pk_flags = 0,
     side_data = 0, side_data_elems = 0, pk_duration = 0, pk_pos = 0, convergence_duration = 0\<rparr>"

lemma demo_packet_rel: "sd_rel demo_packet \<lparr>ph_arrays = Map.empty, ph_blocks = {}\<rparr> []"
  by (simp add: sd_rel_def demo_packet_def)

theorem side_data_append_witness:
  "\<exists>pkt' h'. ga_packet_new_side_data 1 2 GA_PACKET_DATA_PALETTE 64 demo_packet \<lparr>ph_arrays = Map.empty, ph_blocks = {}\<rparr>
     = Some (2, pkt', h') \<and> ga_packet_get_side_data pkt' GA_PACKET_DATA_PALETTE h' = Some (2, 64)"
proof -
  have "INT_MIN \<le> 64" "64 \<le> INT_MAX" "size_fits 64"
    by (simp_all add: INT_MIN_def INT_MAX_def size_fits_def GA_INPUT_BUFFER_PADDING_SIZE_def)
  with side_data_append [OF demo_packet_rel this(1,2), of 2 1 GA_PACKET_DATA_PALETTE] show ?thesis by auto
qed

text \<open>
  Freeing the side data of a packet frees the array and every data block, and no other. The packet keeps its
  pointer and its count, so that a search or a second release reads the freed array.
\<close>

theorem side_data_freed_dangles:
  assumes "sd_rel pkt h xs" "xs \<noteq> []"
  shows "\<exists>h'. ga_packet_free_side_data pkt h = Some h' \<and> ph_blocks h' = ph_blocks h - sd_data ` set xs
    \<and> ph_arrays h' = (ph_arrays h)(side_data pkt := None)
    \<and> ga_packet_get_side_data pkt t h' = None \<and> ga_packet_free_side_data pkt h' = None"
proof -
  obtain es where "side_data pkt \<noteq> 0" "ph_arrays h (side_data pkt) = Some es" "length xs \<le> length es"
    "take (length xs) es = map Some xs" "nat (side_data_elems pkt) = length xs" "side_data_elems pkt > 0"
    using assms by (auto simp: sd_rel_def split: if_splits)
  moreover have "free_entries (map Some xs) (ph_blocks h) = Some (ph_blocks h - sd_data ` set xs)"
    using assms(1) by (intro free_entries_all) (auto simp: sd_rel_def)
  ultimately show ?thesis by (simp add: ga_packet_free_side_data_def ga_packet_get_side_data_def)
qed

theorem side_data_freed_dangles_witness:
  "\<exists>h'. ga_packet_free_side_data (demo_packet\<lparr>side_data := 1, side_data_elems := 1\<rparr>)
     \<lparr>ph_arrays = [1 \<mapsto> [Some \<lparr>sd_data = 2, sd_size = 64, sd_type = GA_PACKET_DATA_PALETTE\<rparr>]], ph_blocks = {2}\<rparr> = Some h'
     \<and> ga_packet_get_side_data (demo_packet\<lparr>side_data := 1, side_data_elems := 1\<rparr>) GA_PACKET_DATA_PALETTE h' = None"
  using side_data_freed_dangles [of "demo_packet\<lparr>side_data := 1, side_data_elems := 1\<rparr>"
      "\<lparr>ph_arrays = [1 \<mapsto> [Some \<lparr>sd_data = 2, sd_size = 64, sd_type = GA_PACKET_DATA_PALETTE\<rparr>]], ph_blocks = {2}\<rparr>"
      "[\<lparr>sd_data = 2, sd_size = 64, sd_type = GA_PACKET_DATA_PALETTE\<rparr>]" GA_PACKET_DATA_PALETTE]
  by (auto simp: sd_rel_def demo_packet_def)

end
