(* ===== verification/Encoder.thy ===== *)
theory Encoder
  imports GaModule
begin

text \<open>
  The bridge between encoders and sink servers of \<open>sources/streamer/core/encoder-common.cpp\<close>: the registered
  encoder modules and sink server, and the clients whose number decides when the encoders run. The calls made
  on the modules are returned as a list beside the effect the modules have on the outside world.
\<close>

section \<open>State\<close>

record 'w encoder =
  encoder_clients :: "(nat, nat) omap"
  threadLaunched :: bool
  sync_reset :: bool
  vencoder :: "'w ga_module option"
  aencoder :: "'w ga_module option"
  sinkserver :: "'w ga_module option"
  vencoder_param :: nat
  aencoder_param :: nat

definition encoder_initial :: "'w encoder" where
  "encoder_initial = \<lparr>encoder_clients = [], threadLaunched = False, sync_reset = True, vencoder = None,
     aencoder = None, sinkserver = None, vencoder_param = 0, aencoder_param = 0\<rparr>"

datatype enc_role = Video | Audio

datatype enc_call = Init enc_role | Start enc_role | Stop enc_role | Deinit enc_role

section \<open>Registration of modules\<close>

definition encoder_running :: "'w encoder \<Rightarrow> int" where
  "encoder_running e = (if threadLaunched e then 1 else 0)"

definition encoder_register_vencoder :: "'w ga_module \<Rightarrow> nat \<Rightarrow> 'w encoder \<Rightarrow> int \<times> 'w encoder" where
  "encoder_register_vencoder m param e = (0, e\<lparr>vencoder := Some m, vencoder_param := param\<rparr>)"

definition encoder_register_aencoder :: "'w ga_module \<Rightarrow> nat \<Rightarrow> 'w encoder \<Rightarrow> int \<times> 'w encoder" where
  "encoder_register_aencoder m param e = (0, e\<lparr>aencoder := Some m, aencoder_param := param\<rparr>)"

definition encoder_register_sinkserver :: "'w ga_module \<Rightarrow> 'w encoder \<Rightarrow> int \<times> 'w encoder" where
  "encoder_register_sinkserver m e =
     (case m_send_packet m of None \<Rightarrow> (-1, e) | Some _ \<Rightarrow> (0, e\<lparr>sinkserver := Some m\<rparr>))"

section \<open>Clients\<close>

text \<open>A guarded call through a function pointer, with the call it makes.\<close>

definition guarded ::
  "enc_call \<Rightarrow> ('w ga_module \<Rightarrow> 'w iface option) \<Rightarrow> 'w ga_module option \<Rightarrow> nat \<Rightarrow> 'w \<Rightarrow> enc_call list \<times> int \<times> 'w" where
  "guarded c sel m param w =
     (case Option.bind m sel of None \<Rightarrow> ([], 0, w) | Some f \<Rightarrow> (case f param w of (r, w') \<Rightarrow> ([c], r, w')))"

text \<open>A call whose negative result ends the process.\<close>

definition or_exit :: "enc_call list \<times> int \<times> 'w \<Rightarrow> (enc_call list \<times> 'w) outcome" where
  "or_exit r = (case r of (cs, v, w) \<Rightarrow> if v < 0 then Exit (-1) else Ret (cs, w))"

definition launch :: "'w encoder \<Rightarrow> 'w \<Rightarrow> (enc_call list \<times> 'w) outcome" where
  "launch e w =
     obind (or_exit (guarded (Init Video) m_init (vencoder e) (vencoder_param e) w)) (\<lambda>(c1, w).
     obind (or_exit (guarded (Init Audio) m_init (aencoder e) (aencoder_param e) w)) (\<lambda>(c2, w).
     obind (or_exit (guarded (Start Video) m_start (vencoder e) (vencoder_param e) w)) (\<lambda>(c3, w).
     obind (or_exit (guarded (Start Audio) m_start (aencoder e) (aencoder_param e) w)) (\<lambda>(c4, w).
     Ret (c1 @ c2 @ c3 @ c4, w)))))"

definition encoder_register_client :: "nat \<Rightarrow> 'w encoder \<Rightarrow> 'w \<Rightarrow> (enc_call list \<times> int \<times> 'w encoder \<times> 'w) outcome" where
  "encoder_register_client rtsp e w =
     (if encoder_clients e = []
      then obind (launch e w) (\<lambda>(cs, w').
             Ret (cs, 0, e\<lparr>threadLaunched := True, encoder_clients := om_put rtsp rtsp (encoder_clients e)\<rparr>, w'))
      else Ret ([], 0, e\<lparr>encoder_clients := om_put rtsp rtsp (encoder_clients e)\<rparr>, w))"

definition shutdown :: "'w encoder \<Rightarrow> 'w \<Rightarrow> enc_call list \<times> 'w" where
  "shutdown e w =
     (let (c1, _, w) = guarded (Stop Video) m_stop (vencoder e) (vencoder_param e) w;
          (c2, _, w) = guarded (Deinit Video) m_deinit (vencoder e) (vencoder_param e) w;
          (c3, _, w) = guarded (Stop Audio) m_stop (aencoder e) (aencoder_param e) w;
          (c4, _, w) = guarded (Deinit Audio) m_deinit (aencoder e) (aencoder_param e) w
      in (c1 @ c2 @ c3 @ c4, w))"

definition encoder_unregister_client :: "nat \<Rightarrow> 'w encoder \<Rightarrow> 'w \<Rightarrow> enc_call list \<times> int \<times> 'w encoder \<times> 'w" where
  "encoder_unregister_client rtsp e w =
     (let e = e\<lparr>encoder_clients := om_erase rtsp (encoder_clients e)\<rparr>
      in if encoder_clients e = []
         then let (cs, w') = shutdown e w in (cs, 0, e\<lparr>threadLaunched := False, sync_reset := True\<rparr>, w')
         else ([], 0, e, w))"

section \<open>Packets\<close>

text \<open>\<open>None\<close> is a call through a NULL pointer.\<close>

definition encoder_send_packet ::
  "string \<Rightarrow> int \<Rightarrow> ga_packet \<Rightarrow> int \<Rightarrow> timeval \<Rightarrow> 'w encoder \<Rightarrow> 'w \<Rightarrow> (int \<times> 'w) option" where
  "encoder_send_packet prefix channelId pkt encoderPts ptv e w =
     (case sinkserver e of
        None \<Rightarrow> Some (-1, w)
      | Some m \<Rightarrow> (case m_send_packet m of None \<Rightarrow> None | Some f \<Rightarrow> Some (f prefix channelId pkt encoderPts ptv w)))"

section \<open>Histories of clients\<close>

datatype client_op = Register nat | Unregister nat

fun run_clients :: "client_op list \<Rightarrow> 'w encoder \<Rightarrow> 'w \<Rightarrow> (enc_call list \<times> 'w encoder \<times> 'w) outcome" where
  "run_clients [] e w = Ret ([], e, w)"
| "run_clients (Register c # ops) e w =
     obind (encoder_register_client c e w) (\<lambda>(cs, _, e', w').
     obind (run_clients ops e' w') (\<lambda>(cs', e'', w''). Ret (cs @ cs', e'', w'')))"
| "run_clients (Unregister c # ops) e w =
     (case encoder_unregister_client c e w of (cs, _, e', w') \<Rightarrow>
      obind (run_clients ops e' w') (\<lambda>(cs', e'', w''). Ret (cs @ cs', e'', w'')))"

text \<open>Clients that leave are clients that came.\<close>

fun clients_paired :: "client_op list \<Rightarrow> nat set \<Rightarrow> bool" where
  "clients_paired [] S \<longleftrightarrow> True"
| "clients_paired (Register c # ops) S \<longleftrightarrow> clients_paired ops (insert c S)"
| "clients_paired (Unregister c # ops) S \<longleftrightarrow> c \<in> S \<and> clients_paired ops (S - {c})"

definition calls_for :: "'w ga_module option \<Rightarrow> (enc_call \<times> ('w ga_module \<Rightarrow> 'w iface option)) \<Rightarrow> enc_call list" where
  "calls_for m c = (if Option.bind m (snd c) = None then [] else [fst c])"

text \<open>The calls of one launch and of one shutdown.\<close>

definition launch_calls :: "'w encoder \<Rightarrow> enc_call list" where
  "launch_calls e =
     calls_for (vencoder e) (Init Video, m_init) @ calls_for (aencoder e) (Init Audio, m_init)
     @ calls_for (vencoder e) (Start Video, m_start) @ calls_for (aencoder e) (Start Audio, m_start)"

definition shutdown_calls :: "'w encoder \<Rightarrow> enc_call list" where
  "shutdown_calls e =
     calls_for (vencoder e) (Stop Video, m_stop) @ calls_for (vencoder e) (Deinit Video, m_deinit)
     @ calls_for (aencoder e) (Stop Audio, m_stop) @ calls_for (aencoder e) (Deinit Audio, m_deinit)"

lemma guarded_calls: "guarded c sel m p w = (cs, v, w') \<Longrightarrow> cs = calls_for m (c, sel)"
  by (auto simp: guarded_def calls_for_def split: option.splits prod.splits)

lemma or_exit_Ret: "or_exit r = Ret (cs, w) \<longleftrightarrow> (\<exists>v. r = (cs, v, w) \<and> 0 \<le> v)"
  by (auto simp: or_exit_def split: prod.splits)

lemma launch_trace: "launch e w = Ret (cs, w') \<Longrightarrow> cs = launch_calls e"
  by (auto simp: launch_def launch_calls_def obind_Ret_iff or_exit_Ret dest!: guarded_calls)

lemma shutdown_trace: "shutdown e w = (cs, w') \<Longrightarrow> cs = shutdown_calls e"
  by (auto simp: shutdown_def shutdown_calls_def Let_def dest!: guarded_calls split: prod.splits)

text \<open>The modules stay the same while clients come and go.\<close>

definition same_modules :: "'w encoder \<Rightarrow> 'w encoder \<Rightarrow> bool" where
  "same_modules e e' \<longleftrightarrow> launch_calls e' = launch_calls e \<and> shutdown_calls e' = shutdown_calls e"

lemma same_modules_update [simp]:
  "same_modules e (e\<lparr>threadLaunched := b, encoder_clients := m\<rparr>)"
  "same_modules e (e\<lparr>encoder_clients := m\<rparr>)"
  "same_modules e (e\<lparr>encoder_clients := m, threadLaunched := b, sync_reset := r\<rparr>)"
  by (simp_all add: same_modules_def launch_calls_def shutdown_calls_def)

text \<open>One client operation, as the trace of calls and the state see it.\<close>

definition client_set :: "'w encoder \<Rightarrow> nat set" where
  "client_set e = fst ` set (encoder_clients e)"

lemma client_set_simps [simp]:
  "client_set (e\<lparr>encoder_clients := om_put c c m\<rparr>) = insert c (fst ` set m)"
  "client_set (e\<lparr>encoder_clients := om_erase c m\<rparr>) = fst ` set m - {c}"
  "client_set (e\<lparr>threadLaunched := b\<rparr>) = client_set e"
  "client_set (e\<lparr>sync_reset := b\<rparr>) = client_set e"
  "client_set (e\<lparr>threadLaunched := b, encoder_clients := m\<rparr>) = fst ` set m"
  "client_set (e\<lparr>encoder_clients := m, threadLaunched := b, sync_reset := b'\<rparr>) = fst ` set m"
  "fst ` set (om_erase c m) = fst ` set m - {c}"
  by (auto simp: client_set_def set_om_put om_erase_def)

lemma client_set_empty: "client_set e = {} \<longleftrightarrow> encoder_clients e = []"
  by (simp add: client_set_def)

lemma register_step:
  assumes "encoder_register_client c e w = Ret (cs, r, e', w')" "threadLaunched e \<longleftrightarrow> encoder_clients e \<noteq> []"
  shows "cs = (if encoder_clients e = [] then launch_calls e else []) \<and> same_modules e e'
    \<and> client_set e' = insert c (client_set e) \<and> threadLaunched e'"
proof (cases "encoder_clients e = []")
  case True
  then obtain w1 where "launch e w = Ret (cs, w1)"
    and e': "e' = e\<lparr>threadLaunched := True, encoder_clients := om_put c c []\<rparr>"
    using assms(1) by (auto simp: encoder_register_client_def obind_Ret_iff)
  then have "cs = launch_calls e" by (intro launch_trace)
  with True show ?thesis unfolding e' by (simp add: client_set_def)
next
  case False
  then have "cs = []" and e': "e' = e\<lparr>encoder_clients := om_put c c (encoder_clients e)\<rparr>"
    using assms(1) by (simp_all add: encoder_register_client_def)
  with False assms(2) show ?thesis unfolding e' by (simp add: client_set_def set_om_put)
qed

lemma unregister_step:
  assumes "encoder_unregister_client c e w = (cs, r, e', w')" "threadLaunched e \<longleftrightarrow> encoder_clients e \<noteq> []"
    "c \<in> client_set e"
  shows "cs = (if encoder_clients e' = [] then shutdown_calls e else []) \<and> same_modules e e'
    \<and> client_set e' = client_set e - {c}
    \<and> (threadLaunched e' \<longleftrightarrow> encoder_clients e' \<noteq> [])"
proof (cases "om_erase c (encoder_clients e) = []")
  case True
  let ?e = "e\<lparr>encoder_clients := []\<rparr>"
  obtain w1 where "shutdown ?e w = (cs, w1)" and e': "e' = e\<lparr>encoder_clients := [], threadLaunched := False, sync_reset := True\<rparr>"
    using assms(1) True by (auto simp: encoder_unregister_client_def Let_def split: prod.splits)
  then have "cs = shutdown_calls e" by (auto dest!: shutdown_trace simp: shutdown_calls_def)
  moreover have "client_set e - {c} = {}"
    using arg_cong [OF True, of "\<lambda>m. fst ` set m"] by (simp add: client_set_def)
  ultimately show ?thesis unfolding e' by (auto simp: client_set_def)
next
  case False
  then have "cs = []" and e': "e' = e\<lparr>encoder_clients := om_erase c (encoder_clients e)\<rparr>"
    using assms(1) by (simp_all add: encoder_unregister_client_def Let_def)
  moreover have "threadLaunched e" using assms(2,3) by (auto simp: client_set_def)
  ultimately show ?thesis using False by (simp add: client_set_def)
qed

lemma encoder_sessions_from:
  assumes "run_clients ops e w = Ret (cs, e', w')" "clients_paired ops (client_set e)"
    and "threadLaunched e \<longleftrightarrow> encoder_clients e \<noteq> []"
  shows "(threadLaunched e' \<longleftrightarrow> encoder_clients e' \<noteq> []) \<and> (\<exists>k. (if threadLaunched e then launch_calls e else []) @ cs =
        concat (replicate k (launch_calls e @ shutdown_calls e)) @ (if threadLaunched e' then launch_calls e else []))"
  using assms
proof (induction ops e w arbitrary: cs rule: run_clients.induct)
  case (1 e w)
  then show ?case by (auto intro: exI [of _ 0])
next
  case (2 c ops e w)
  obtain c1 r e1 w1 where reg: "encoder_register_client c e w = Ret (c1, r, e1, w1)"
    using "2.prems"(1) by (auto simp: obind_Ret_iff)
  obtain c2 where rest: "run_clients ops e1 w1 = Ret (c2, e', w')" "cs = c1 @ c2"
    using "2.prems"(1) reg by (auto simp: obind_Ret_iff)
  note st = register_step [OF reg "2.prems"(3)]
  then have ne: "encoder_clients e1 \<noteq> []" using client_set_empty [of e1] by auto
  with "2.IH" [OF rest(1)] "2.prems"(2) st show ?case
    using "2.prems"(3) rest(2) reg by (auto simp: same_modules_def)
next
  case (3 c ops e w)
  obtain c1 r e1 w1 where unreg: "encoder_unregister_client c e w = (c1, r, e1, w1)" by (metis prod_cases4)
  obtain c2 where rest: "run_clients ops e1 w1 = Ret (c2, e', w')" "cs = c1 @ c2"
    using "3.prems"(1) unreg by (auto simp: obind_Ret_iff)
  have c: "c \<in> client_set e" using "3.prems"(2) by simp
  note st = unregister_step [OF unreg "3.prems"(3) c]
  then have l: "launch_calls e1 = launch_calls e" "shutdown_calls e1 = shutdown_calls e"
    by (simp_all add: same_modules_def)
  have ne: "threadLaunched e" using c "3.prems"(3) client_set_empty [of e] by auto
  have "(threadLaunched e' \<longleftrightarrow> encoder_clients e' \<noteq> []) \<and> (\<exists>k. (if threadLaunched e1 then launch_calls e else []) @ c2 =
        concat (replicate k (launch_calls e @ shutdown_calls e)) @ (if threadLaunched e' then launch_calls e else []))"
    unfolding l [symmetric]
    by (rule "3.IH" [OF unreg [symmetric] refl refl rest(1)]) (use "3.prems"(2) st in simp_all)
  then obtain k where k: "threadLaunched e' \<longleftrightarrow> encoder_clients e' \<noteq> []"
    "(if threadLaunched e1 then launch_calls e else []) @ c2 =
        concat (replicate k (launch_calls e @ shutdown_calls e)) @ (if threadLaunched e' then launch_calls e else [])"
    by blast
  show ?case
  proof (cases "threadLaunched e1")
    case True
    with k st ne rest(2) show ?thesis by (intro conjI exI [of _ k]) auto
  next
    case False
    with k st ne rest(2) show ?thesis by (intro conjI exI [of _ "Suc k"]) auto
  qed
qed

text \<open>Modules whose start-up interfaces never report a failure.\<close>

definition never_fails :: "'w encoder \<Rightarrow> bool" where
  "never_fails e \<longleftrightarrow> (\<forall>m \<in> {vencoder e, aencoder e}. \<forall>f.
     Option.bind m m_init = Some f \<or> Option.bind m m_start = Some f \<longrightarrow> (\<forall>p w. 0 \<le> fst (f p w)))"

lemma launch_succeeds:
  assumes "never_fails e"
  shows "\<exists>cs w'. launch e w = Ret (cs, w')"
proof -
  have g: "\<exists>cs w'. or_exit (guarded c sel m p w) = Ret (cs, w')"
    if "m \<in> {vencoder e, aencoder e}" "sel = m_init \<or> sel = m_start" for c sel m p w
  proof (cases "Option.bind m sel")
    case (Some f)
    then have "0 \<le> fst (f p w)" using assms that unfolding never_fails_def by metis
    with Some show ?thesis by (cases "f p w") (simp add: guarded_def or_exit_def)
  qed (simp add: guarded_def or_exit_def)
  obtain c1 w1 where 1: "or_exit (guarded (Init Video) m_init (vencoder e) (vencoder_param e) w) = Ret (c1, w1)" using g by blast
  obtain c2 w2 where 2: "or_exit (guarded (Init Audio) m_init (aencoder e) (aencoder_param e) w1) = Ret (c2, w2)" using g by blast
  obtain c3 w3 where 3: "or_exit (guarded (Start Video) m_start (vencoder e) (vencoder_param e) w2) = Ret (c3, w3)" using g by blast
  obtain c4 w4 where "or_exit (guarded (Start Audio) m_start (aencoder e) (aencoder_param e) w3) = Ret (c4, w4)" using g by blast
  with 1 2 3 show ?thesis by (simp add: launch_def)
qed

section \<open>Properties\<close>


definition demo_module :: "nat ga_module" where
  "demo_module = \<lparr>m_name = ''enc'', m_init = Some (\<lambda>p w. (0, w + 1)), m_start = Some (\<lambda>p w. (0, w + 1)),
     m_stop = Some (\<lambda>p w. (0, w + 1)), m_deinit = None, m_ioctl = None, m_notify = None, m_raw = None, m_send_packet = None\<rparr>"

definition demo_encoder :: "nat encoder" where
  "demo_encoder = snd (encoder_register_vencoder demo_module 7 encoder_initial)"


text \<open>
  When no interface of the encoders reports a failure, every history of clients runs to its end without leaving the
  process.
\<close>

theorem encoder_clients_served:
  assumes "never_fails e"
  shows "\<exists>cs e' w'. run_clients ops e w = Ret (cs, e', w')"
  using assms
proof (induction ops e w rule: run_clients.induct)
  case (2 c ops e w)
  obtain cs w1 where "launch e w = Ret (cs, w1)" using launch_succeeds [OF "2.prems"] by blast
  then have "\<exists>c1 e1 w1. encoder_register_client c e w = Ret (c1, 0, e1, w1)
      \<and> vencoder e1 = vencoder e \<and> aencoder e1 = aencoder e"
    by (simp add: encoder_register_client_def)
  then obtain c1 e1 w1 where reg: "encoder_register_client c e w = Ret (c1, 0, e1, w1)"
    "vencoder e1 = vencoder e" "aencoder e1 = aencoder e" by blast
  have "\<exists>cs e' w'. run_clients ops e1 w1 = Ret (cs, e', w')"
    by (rule "2.IH") (use reg "2.prems" in \<open>simp add: never_fails_def\<close>)
  with reg show ?case by auto
next
  case (3 c ops e w)
  obtain c1 r e1 w1 where u: "encoder_unregister_client c e w = (c1, r, e1, w1)" by (metis prod_cases4)
  then have "vencoder e1 = vencoder e" "aencoder e1 = aencoder e"
    by (auto simp: encoder_unregister_client_def Let_def split: if_splits prod.splits)
  then have "\<exists>cs e' w'. run_clients ops e1 w1 = Ret (cs, e', w')"
    using "3.IH" [OF u [symmetric] refl refl] "3.prems" by (simp add: never_fails_def)
  with u show ?case by auto
qed simp

theorem encoder_clients_served_witness:
  "\<exists>cs e' w'. run_clients [Register 1, Unregister 5] demo_encoder 0 = Ret (cs, e', w')"
  by (rule encoder_clients_served)
    (auto simp: never_fails_def demo_encoder_def demo_module_def encoder_register_vencoder_def encoder_initial_def)

text \<open>
  Unregistering a client that was never registered, while there are none, stops and deinitialises encoders that were
  not started.
\<close>

theorem unregister_unknown_stops:
  assumes "encoder_clients e = []"
  shows "fst (encoder_unregister_client c e w) = shutdown_calls e"
proof -
  obtain cs w' where s: "shutdown (e\<lparr>encoder_clients := []\<rparr>) w = (cs, w')" by fastforce
  then have "cs = shutdown_calls e" by (auto dest!: shutdown_trace simp: shutdown_calls_def)
  with s assms show ?thesis by (simp add: encoder_unregister_client_def om_erase_def)
qed

theorem unregister_unknown_stops_witness:
  "fst (encoder_unregister_client 5 demo_encoder 0) = [Stop Video]"
  using unregister_unknown_stops [of demo_encoder 5 0]
  by (simp add: demo_encoder_def demo_module_def encoder_register_vencoder_def encoder_initial_def
      shutdown_calls_def calls_for_def)

end
