(* ===== verification/Vconverter.thy ===== *)
theory Vconverter
  imports StdMap
begin

text \<open>
  The cache of picture converters, \<open>sources/streamer/core/vconverter.cpp\<close>: a \<open>std::map\<close> from the sizes and
  formats of a conversion to its context. Its key type has an order of its own, which here makes the type a
  linear order of the library, so that the maps of \<open>StdMap\<close> apply. The scaling library that creates a context
  is a parameter: its answer is the address of the context, 0 for NULL.
\<close>

section \<open>Keys\<close>

datatype vconvcfg = Vconvcfg (src_width: int) (src_height: int) (src_fmt: int) (dst_width: int) (dst_height: int) (dst_fmt: int)

definition vconvcfg_less :: "vconvcfg \<Rightarrow> vconvcfg \<Rightarrow> bool" where
  "vconvcfg_less a b =
     (if src_width a < src_width b then True
      else if src_width a > src_width b then False
      else if src_height a < src_height b then True
      else if src_height a > src_height b then False
      else if src_fmt a < src_fmt b then True
      else if src_fmt a > src_fmt b then False
      else if dst_width a < dst_width b then True
      else if dst_width a > dst_width b then False
      else if dst_height a < dst_height b then True
      else if dst_height a > dst_height b then False
      else if dst_fmt a < dst_fmt b then True
      else if dst_fmt a > dst_fmt b then False
      else False)"

text \<open>The order is the lexicographic one.\<close>

definition cfg_list :: "vconvcfg \<Rightarrow> int list" where
  "cfg_list a = [src_width a, src_height a, src_fmt a, dst_width a, dst_height a, dst_fmt a]"

lemma vconvcfg_less_lex: "vconvcfg_less a b \<longleftrightarrow> (cfg_list a, cfg_list b) \<in> lexord {(x, y). x < y}"
  by (auto simp: vconvcfg_less_def cfg_list_def)

lemma cfg_list_inject: "cfg_list a = cfg_list b \<Longrightarrow> a = b"
  by (cases a; cases b) (simp add: cfg_list_def)

lemma vconvcfg_irrefl: "\<not> vconvcfg_less a a"
  by (simp add: vconvcfg_less_def)

lemma vconvcfg_trans: "vconvcfg_less a b \<Longrightarrow> vconvcfg_less b c \<Longrightarrow> vconvcfg_less a c"
  unfolding vconvcfg_less_lex by (rule lexord_trans) (auto intro: transI)

lemma vconvcfg_linear: "vconvcfg_less a b \<or> a = b \<or> vconvcfg_less b a"
  unfolding vconvcfg_less_lex
  using lexord_linear [of "{(x :: int, y). x < y}" "cfg_list a" "cfg_list b"] cfg_list_inject by fastforce

text \<open>
  The operator the key type of the cache is given is what a map needs: no key is less than itself, it is transitive,
  and two keys of which neither is less than the other have all six fields equal.
\<close>

theorem converter_keys_ordered:
  "\<not> vconvcfg_less a a \<and> (vconvcfg_less a b \<and> vconvcfg_less b c \<longrightarrow> vconvcfg_less a c)
   \<and> (\<not> vconvcfg_less a b \<and> \<not> vconvcfg_less b a \<longleftrightarrow> cfg_list a = cfg_list b)"
  using vconvcfg_irrefl vconvcfg_trans vconvcfg_linear cfg_list_inject by blast

theorem converter_keys_ordered_witness:
  "vconvcfg_less (Vconvcfg 1 2 0 3 4 0) (Vconvcfg 1 3 0 0 0 0) \<and> vconvcfg_less (Vconvcfg 1 2 0 3 4 0) (Vconvcfg 2 0 0 0 0 0)"
  using converter_keys_ordered [of "Vconvcfg 1 2 0 3 4 0" "Vconvcfg 1 3 0 0 0 0" "Vconvcfg 2 0 0 0 0 0"]
  by (simp add: vconvcfg_less_def)

instantiation vconvcfg :: linorder
begin

definition less_vconvcfg :: "vconvcfg \<Rightarrow> vconvcfg \<Rightarrow> bool" where
  "less_vconvcfg a b = vconvcfg_less a b"

definition less_eq_vconvcfg :: "vconvcfg \<Rightarrow> vconvcfg \<Rightarrow> bool" where
  "less_eq_vconvcfg a b = (a = b \<or> vconvcfg_less a b)"

instance
proof
  fix a b c :: vconvcfg
  show "(a < b) = (a \<le> b \<and> \<not> b \<le> a)" "a \<le> a" "a \<le> b \<Longrightarrow> b \<le> c \<Longrightarrow> a \<le> c" "a \<le> b \<Longrightarrow> b \<le> a \<Longrightarrow> a = b" "a \<le> b \<or> b \<le> a"
    unfolding less_vconvcfg_def less_eq_vconvcfg_def
    using vconvcfg_irrefl vconvcfg_trans vconvcfg_linear by blast+
qed

end

section \<open>The cache\<close>

type_synonym converters = "(vconvcfg, nat) omap"

definition lookup_frame_converter_internal :: "vconvcfg \<Rightarrow> converters \<Rightarrow> nat" where
  "lookup_frame_converter_internal ccfg m = (case om_find m ccfg of None \<Rightarrow> 0 | Some ctx \<Rightarrow> ctx)"

definition lookup_frame_converter :: "int \<Rightarrow> int \<Rightarrow> int \<Rightarrow> int \<Rightarrow> int \<Rightarrow> int \<Rightarrow> converters \<Rightarrow> nat" where
  "lookup_frame_converter srcw srch srcfmt dstw dsth dstfmt m =
     lookup_frame_converter_internal (Vconvcfg srcw srch srcfmt dstw dsth dstfmt) m"

text \<open>\<open>sws\<close> is the answer of \<open>sws_getContext\<close>; the boolean says whether it was called.\<close>

definition create_frame_converter ::
  "int \<Rightarrow> int \<Rightarrow> int \<Rightarrow> int \<Rightarrow> int \<Rightarrow> int \<Rightarrow> nat \<Rightarrow> converters \<Rightarrow> nat \<times> bool \<times> converters" where
  "create_frame_converter srcw srch srcfmt dstw dsth dstfmt sws m =
     (let ccfg = Vconvcfg srcw srch srcfmt dstw dsth dstfmt; ctx = lookup_frame_converter_internal ccfg m
      in if ctx \<noteq> 0 then (ctx, False, m)
         else if sws = 0 then (0, True, m)
         else (sws, True, om_put ccfg sws m))"

text \<open>A history of requests, each with the answer the library would give; the results and the contexts made.\<close>

fun converter_run :: "(vconvcfg \<times> nat) list \<Rightarrow> converters \<Rightarrow> nat list \<times> nat list \<times> converters" where
  "converter_run [] m = ([], [], m)"
| "converter_run ((c, sws) # reqs) m =
     (case create_frame_converter (src_width c) (src_height c) (src_fmt c) (dst_width c) (dst_height c) (dst_fmt c) sws m of
        (ctx, called, m') \<Rightarrow>
          (case converter_run reqs m' of
             (res, made, m'') \<Rightarrow> (ctx # res, (if called \<and> ctx \<noteq> 0 then ctx # made else made), m'')))"

text \<open>The first answer other than NULL among the requests for a key.\<close>

definition first_made :: "vconvcfg \<Rightarrow> (vconvcfg \<times> nat) list \<Rightarrow> nat" where
  "first_made c reqs = (case filter (\<lambda>(k, sws). k = c \<and> sws \<noteq> 0) reqs of [] \<Rightarrow> 0 | (_, sws) # _ \<Rightarrow> sws)"

lemma cfg_collapse [simp]: "Vconvcfg (src_width c) (src_height c) (src_fmt c) (dst_width c) (dst_height c) (dst_fmt c) = c"
  by (cases c) simp

lemma lookup_put: "lookup_frame_converter_internal c (om_put k v m) = (if c = k then v else lookup_frame_converter_internal c m)"
  by (simp add: lookup_frame_converter_internal_def)

lemma converter_run_lookup:
  assumes "converter_run reqs m = (res, made, m')"
  shows "lookup_frame_converter_internal c m'
    = (if lookup_frame_converter_internal c m \<noteq> 0 then lookup_frame_converter_internal c m else first_made c reqs)"
  using assms
proof (induction reqs arbitrary: m res made)
  case Nil
  then show ?case by (simp add: first_made_def)
next
  case (Cons r reqs)
  obtain k sws where r: "r = (k, sws)" by (cases r)
  obtain ctx called m1 where c1: "create_frame_converter (src_width k) (src_height k) (src_fmt k) (dst_width k) (dst_height k)
      (dst_fmt k) sws m = (ctx, called, m1)"
    by (cases "create_frame_converter (src_width k) (src_height k) (src_fmt k) (dst_width k) (dst_height k) (dst_fmt k) sws m")
  obtain res1 made1 where run: "converter_run reqs m1 = (res1, made1, m')"
    using Cons.prems by (auto simp: r c1 split: prod.splits)
  have "lookup_frame_converter_internal c m1 = (if lookup_frame_converter_internal c m \<noteq> 0
      then lookup_frame_converter_internal c m else if k = c then sws else 0)"
    using c1 by (auto simp: create_frame_converter_def Let_def lookup_put split: if_splits)
  then show ?case using Cons.IH [OF run] by (auto simp: first_made_def r)
qed


lemma converter_run_results:
  assumes "converter_run reqs m = (res, made, m')" "i < length reqs"
  shows "res ! i = (if lookup_frame_converter_internal (fst (reqs ! i)) m \<noteq> 0
    then lookup_frame_converter_internal (fst (reqs ! i)) m else first_made (fst (reqs ! i)) (take (Suc i) reqs))"
  using assms
proof (induction reqs arbitrary: m res made i)
  case (Cons r reqs)
  obtain k sws where r: "r = (k, sws)" by (cases r)
  obtain ctx called m1 where c1: "create_frame_converter (src_width k) (src_height k) (src_fmt k) (dst_width k) (dst_height k)
      (dst_fmt k) sws m = (ctx, called, m1)"
    by (cases "create_frame_converter (src_width k) (src_height k) (src_fmt k) (dst_width k) (dst_height k) (dst_fmt k) sws m")
  obtain res1 made1 where run: "converter_run reqs m1 = (res1, made1, m')" "res = ctx # res1"
    using Cons.prems by (auto simp: r c1 split: prod.splits)
  have l1: "lookup_frame_converter_internal c m1 = (if lookup_frame_converter_internal c m \<noteq> 0
      then lookup_frame_converter_internal c m else if k = c then sws else 0)" for c
    using c1 by (auto simp: create_frame_converter_def Let_def lookup_put split: if_splits)
  show ?case
  proof (cases i)
    case 0
    then show ?thesis using c1 run(2)
      by (auto simp: r create_frame_converter_def Let_def first_made_def split: if_splits)
  next
    case (Suc j)
    then have "j < length reqs" using Cons.prems(2) by simp
    then show ?thesis using Cons.IH [OF run(1)] l1 run(2) by (auto simp: Suc r first_made_def)
  qed
qed simp

lemma converter_run_made:
  assumes "converter_run reqs m = (res, made, m')" "om_wf m" "\<forall>c. om_find m c \<noteq> Some 0"
  shows "om_wf m' \<and> length m' = length m + length made"
  using assms
proof (induction reqs arbitrary: m res made)
  case (Cons r reqs)
  obtain k sws where r: "r = (k, sws)" by (cases r)
  obtain ctx called m1 where c1: "create_frame_converter (src_width k) (src_height k) (src_fmt k) (dst_width k) (dst_height k)
      (dst_fmt k) sws m = (ctx, called, m1)"
    by (cases "create_frame_converter (src_width k) (src_height k) (src_fmt k) (dst_width k) (dst_height k) (dst_fmt k) sws m")
  obtain res1 made1 where run: "converter_run reqs m1 = (res1, made1, m')"
    "made = (if called \<and> ctx \<noteq> 0 then ctx # made1 else made1)"
    using Cons.prems by (auto simp: r c1 split: prod.splits)
  show ?case
  proof (cases "called \<and> ctx \<noteq> 0")
    case True
    have new: "om_find m k = None" "m1 = om_put k sws m" "sws \<noteq> 0"
      using c1 True Cons.prems(3) by (auto simp: create_frame_converter_def Let_def lookup_frame_converter_internal_def
          split: if_splits option.splits)
    have "length m1 = 1 + length m" using om.length_keys_put [OF Cons.prems(2), of k sws] new(1)
      by (simp add: new(2) om_keys_def)
    moreover have "om_wf m1" "\<forall>c. om_find m1 c \<noteq> Some 0"
      using Cons.prems(2,3) new(3) by (simp_all add: new(2) om_wf_put)
    ultimately show ?thesis using Cons.IH [OF run(1)] True run(2) by simp
  next
    case False
    then have "m1 = m" using c1 by (auto simp: create_frame_converter_def Let_def split: if_splits)
    then show ?thesis using Cons.IH run False Cons.prems(2,3) by auto
  qed
qed simp

text \<open>
  In any history of requests each one is answered with the first context that was made for its sizes and formats,
  and as many contexts are made as there are different conversions in the cache: none twice, none lost.
\<close>

theorem converter_made_once:
  assumes "converter_run reqs om_empty = (res, made, m)"
  shows "(i < length reqs \<longrightarrow> res ! i = first_made (fst (reqs ! i)) (take (Suc i) reqs))
    \<and> length made = length m \<and> distinct (om_keys m)"
proof -
  have "lookup_frame_converter_internal c om_empty = 0" for c
    by (simp add: lookup_frame_converter_internal_def)
  moreover have "om_wf m \<and> length m = length made" using converter_run_made [OF assms] by (simp add: om_empty_def om_find_def)
  ultimately show ?thesis using converter_run_results [OF assms, of i] om.keys_distinct [of m] by simp
qed

definition three_requests :: "(vconvcfg \<times> nat) list" where
  "three_requests = [(Vconvcfg 1 1 0 2 2 0, 0), (Vconvcfg 1 1 0 2 2 0, 9), (Vconvcfg 1 1 0 2 2 0, 8)]"

theorem converter_made_once_witness:
  "converter_run three_requests om_empty = ([0, 9, 9], [9], [(Vconvcfg 1 1 0 2 2 0, 9)])
   \<and> [0, 9, 9] ! 2 = first_made (fst (three_requests ! 2)) (take (Suc 2) three_requests)"
proof -
  have run: "converter_run three_requests om_empty = ([0, 9, 9], [9], [(Vconvcfg 1 1 0 2 2 0, 9)])"
    by (simp add: three_requests_def create_frame_converter_def lookup_frame_converter_internal_def Let_def om_empty_def om_find_def)
  then show ?thesis using converter_made_once [OF run, of 2] by (simp add: three_requests_def)
qed

end
