(* ===== verification/SockServer.thy ===== *)
theory SockServer
  imports CtrlMsg
begin

text \<open>
  The socket transport of the encoder server, \<open>sources/encoder/sock_util/\<close>: the server with its table of
  client descriptors, the client, and the loops that send and receive whole blocks over non-blocking sockets.
  The answers of the operating system are arguments. The descriptors the process has open are a set that
  \<open>accept\<close>, \<open>socket\<close> and \<open>close\<close> change.
\<close>

section \<open>Constants and data\<close>

definition SOCK_MAX_CLIENTS :: nat where "SOCK_MAX_CLIENTS = 512"

definition SOCK_MAX_PATH_LEN :: nat where "SOCK_MAX_PATH_LEN = 128"

definition SOCK_TIMEOUT_TIME :: int where "SOCK_TIMEOUT_TIME = 10000000"

definition FD_SETSIZE :: int where "FD_SETSIZE = 1024"

definition EINTR :: int where "EINTR = 4"

definition EAGAIN :: int where "EAGAIN = 11"

datatype SOCK_conn_type_t = SOCK_CONN_TYPE_ABS_SOCK | SOCK_CONN_TYPE_UNIX_SOCK | SOCK_CONN_TYPE_INET_SOCK

datatype sock_conn_status_t = disconnect | normal | readable

record sock_server_t =
  ss_type :: SOCK_conn_type_t
  socketfd :: int
  ss_path :: string
  client_slots :: "int list"
  rfds :: "int set"

record sock_client_proxy_t =
  cp_id :: nat

text \<open>The address a server binds to: for a local socket the bytes of \<open>sun_path\<close> up to the first 0.\<close>

datatype sock_addr = Un_addr string | In_addr u16

section \<open>Descriptors\<close>

text \<open>\<open>accept\<close> and \<open>socket\<close> answer with a descriptor, or a negative number when they fail.\<close>

definition fd_open :: "int \<Rightarrow> int set \<Rightarrow> int set" where
  "fd_open fd fds = (if fd < 0 then fds else insert fd fds)"

definition fd_close :: "int \<Rightarrow> int set \<Rightarrow> int set" where
  "fd_close fd fds = fds - {fd}"

text \<open>\<open>FD_SET\<close> and \<open>FD_ISSET\<close> index an array of 1024 bits without a check: \<open>None\<close> outside.\<close>

definition FD_SET :: "int \<Rightarrow> int set \<Rightarrow> int set option" where
  "FD_SET fd s = (if 0 \<le> fd \<and> fd < FD_SETSIZE then Some (insert fd s) else None)"

definition FD_ISSET :: "int \<Rightarrow> int set \<Rightarrow> bool option" where
  "FD_ISSET fd s = (if 0 \<le> fd \<and> fd < FD_SETSIZE then Some (fd \<in> s) else None)"

section \<open>The server\<close>

primrec first_empty :: "int list \<Rightarrow> nat" where
  "first_empty [] = 0"
| "first_empty (x # xs) = (if x = -1 then 0 else Suc (first_empty xs))"

definition sock_server_find_empty_slot :: "sock_server_t \<Rightarrow> nat" where
  "sock_server_find_empty_slot server = first_empty (take SOCK_MAX_CLIENTS (client_slots server))"

text \<open>
  The answers during \<open>sock_server_init\<close>: of \<open>socket\<close>, \<open>setsockopt\<close>, \<open>ioctl\<close>, \<open>bind\<close>,
  \<open>chmod\<close> (whose failure is only logged), \<open>listen\<close> and \<open>malloc\<close>.
\<close>

record init_answers =
  ia_socket :: int
  ia_setsockopt :: int
  ia_ioctl :: int
  ia_bind :: int
  ia_listen :: int
  ia_malloc :: bool

definition sock_path :: "string \<Rightarrow> string option \<Rightarrow> string" where
  "sock_path sock_name ident = sock_name @ (case ident of None \<Rightarrow> [] | Some i \<Rightarrow> i)"

definition server_addr :: "SOCK_conn_type_t \<Rightarrow> string \<Rightarrow> int \<Rightarrow> sock_addr" where
  "server_addr type path port =
     (if type = SOCK_CONN_TYPE_INET_SOCK then In_addr (word_of_int port)
      else if type = SOCK_CONN_TYPE_ABS_SOCK then Un_addr []
      else Un_addr path)"

text \<open>
  The result is the server, or NULL, with the open descriptors and the address given to \<open>bind\<close>, if it was
  called. The path is printed into 108 bytes without a check: \<open>None\<close> when it does not fit.
\<close>

definition sock_server_init ::
  "SOCK_conn_type_t \<Rightarrow> string \<Rightarrow> string option \<Rightarrow> int \<Rightarrow> init_answers \<Rightarrow> int set
   \<Rightarrow> (sock_server_t option \<times> sock_addr option \<times> int set) option" where
  "sock_server_init type sock_name ident port a fds =
     (let fd = ia_socket a; opened = fd_open fd fds; path = sock_path sock_name ident;
          addr = server_addr type path port
      in if fd < 0 then Some (None, None, opened)
         else if ia_setsockopt a < 0 then Some (None, None, fd_close fd opened)
         else if ia_ioctl a < 0 then Some (None, None, fd_close fd opened)
         else if type \<noteq> SOCK_CONN_TYPE_INET_SOCK \<and> length path \<ge> 108 then None
         else if ia_bind a < 0 then Some (None, Some addr, fd_close fd opened)
         else if ia_listen a < 0 then Some (None, Some addr, fd_close fd opened)
         else if \<not> ia_malloc a then Some (None, Some addr, fd_close fd opened)
         else Some (Some \<lparr>ss_type = type, socketfd = fd,
                ss_path = (if type \<noteq> SOCK_CONN_TYPE_INET_SOCK then path else []),
                client_slots = replicate SOCK_MAX_CLIENTS (-1), rfds = {}\<rparr>, Some addr, opened))"

primrec close_slots :: "int list \<Rightarrow> int set \<Rightarrow> int set" where
  "close_slots [] fds = fds"
| "close_slots (x # xs) fds = close_slots xs (if x \<noteq> -1 then fd_close x fds else fds)"

text \<open>The second component is the path removed from the file system.\<close>

definition sock_server_close :: "sock_server_t option \<Rightarrow> int set \<Rightarrow> int set \<times> string option" where
  "sock_server_close server fds =
     (case server of
        None \<Rightarrow> (fds, None)
      | Some s \<Rightarrow> (close_slots (take SOCK_MAX_CLIENTS (client_slots s)) (fd_close (socketfd s) fds),
                   if ss_type s = SOCK_CONN_TYPE_UNIX_SOCK then Some (ss_path s) else None))"

text \<open>
  \<open>nsel\<close> and \<open>ready\<close> are what \<open>select\<close> returns and leaves in the set, \<open>acc\<close> is the answer of
  \<open>accept\<close> for a connection there is no slot for.
\<close>

definition sock_server_has_newconn ::
  "sock_server_t option \<Rightarrow> int \<Rightarrow> int set \<Rightarrow> int \<Rightarrow> int set \<Rightarrow> (bool \<times> int set) option" where
  "sock_server_has_newconn server nsel ready acc fds =
     (case server of
        None \<Rightarrow> Some (False, fds)
      | Some s \<Rightarrow> do {
          _ \<leftarrow> FD_SET (socketfd s) {};
          (if nsel = -1 \<or> nsel = 0 then Some (False, fds)
           else do {
             b \<leftarrow> FD_ISSET (socketfd s) ready;
             (if \<not> b then Some (False, fds)
              else if sock_server_find_empty_slot s < SOCK_MAX_CLIENTS then Some (True, fds)
              else Some (False, fd_close acc (fd_open acc fds))) }) })"

definition sock_server_create_client ::
  "sock_server_t option \<Rightarrow> int \<Rightarrow> int \<Rightarrow> bool \<Rightarrow> int set
   \<Rightarrow> sock_client_proxy_t option \<times> sock_server_t option \<times> int set" where
  "sock_server_create_client server acc ioc mem fds =
     (case server of
        None \<Rightarrow> (None, None, fds)
      | Some s \<Rightarrow>
          let opened = fd_open acc fds
          in if acc < 0 then (None, Some s, opened)
             else if ioc < 0 then (None, Some s, fd_close acc opened)
             else let slot = sock_server_find_empty_slot s
                  in if slot \<ge> SOCK_MAX_CLIENTS then (None, Some s, fd_close acc opened)
                     else if \<not> mem then (None, Some s, fd_close acc opened)
                     else (Some \<lparr>cp_id = slot\<rparr>, Some (s\<lparr>client_slots := (client_slots s)[slot := acc]\<rparr>), opened))"

definition sock_server_close_client ::
  "sock_server_t option \<Rightarrow> sock_client_proxy_t option \<Rightarrow> int set \<Rightarrow> (sock_server_t option \<times> int set) option" where
  "sock_server_close_client server p_client fds =
     (case (server, p_client) of
        (Some s, Some p) \<Rightarrow>
          if cp_id p \<ge> length (client_slots s) then None
          else let fd = client_slots s ! cp_id p
               in if fd \<noteq> -1 then Some (Some (s\<lparr>client_slots := (client_slots s)[cp_id p := -1]\<rparr>), fd_close fd fds)
                  else Some (Some s, fds)
      | _ \<Rightarrow> Some (server, fds))"

primrec fd_collect :: "int list \<Rightarrow> int set \<Rightarrow> int set option" where
  "fd_collect [] s = Some s"
| "fd_collect (x # xs) s = (if x \<noteq> -1 then do { s' \<leftarrow> FD_SET x s; fd_collect xs s' } else fd_collect xs s)"

text \<open>\<open>select\<close> leaves in the set those of its members in \<open>ready\<close>; on failure it leaves the set alone.\<close>

definition sock_server_clients_readable ::
  "sock_server_t option \<Rightarrow> int \<Rightarrow> int set \<Rightarrow> (bool \<times> sock_server_t option) option" where
  "sock_server_clients_readable server nsel ready =
     (case server of
        None \<Rightarrow> Some (False, None)
      | Some s \<Rightarrow> do {
          all \<leftarrow> fd_collect (take SOCK_MAX_CLIENTS (client_slots s)) {};
          (if nsel = -1 then Some (False, Some (s\<lparr>rfds := all\<rparr>))
           else Some (nsel \<noteq> 0, Some (s\<lparr>rfds := all \<inter> ready\<rparr>))) })"

definition sock_server_check_connect ::
  "sock_server_t option \<Rightarrow> sock_client_proxy_t option \<Rightarrow> int \<Rightarrow> sock_conn_status_t option" where
  "sock_server_check_connect server p_client nread =
     (case (server, p_client) of
        (Some s, Some p) \<Rightarrow>
          if cp_id p \<ge> length (client_slots s) then None
          else do {
            b \<leftarrow> FD_ISSET (client_slots s ! cp_id p) (rfds s);
            Some (if \<not> b then normal else if nread \<noteq> 0 then readable else disconnect) }
      | _ \<Rightarrow> Some normal)"

text \<open>\<open>ioc\<close> is the address the kernel reports for the interface.\<close>

definition sock_server_get_addr :: "sock_server_t option \<Rightarrow> string option \<Rightarrow> string \<times> sock_server_t option" where
  "sock_server_get_addr server ioc =
     (case server of
        None \<Rightarrow> ([], None)
      | Some s \<Rightarrow>
          if ss_type s \<noteq> SOCK_CONN_TYPE_INET_SOCK then (ss_path s, Some s)
          else let path = (case ioc of None \<Rightarrow> [] | Some a \<Rightarrow> if length a > SOCK_MAX_PATH_LEN - 1 then [] else a)
               in (path, Some (s\<lparr>ss_path := path\<rparr>)))"

section \<open>Sending and receiving blocks\<close>

text \<open>
  One answer of \<open>send\<close> or \<open>recv\<close>, with the time the loop reads afterwards if it does. \<open>Done\<close> of nothing is
  the return value 0, which leaves \<open>errno\<close> as it was; \<open>Fail\<close> is -1 with the new \<open>errno\<close>. A loop whose
  answers are used up has not returned: \<open>None\<close>. So has one the kernel hands more than it asked for.
  Blocks are shorter than 2 GB, so the conversions of their lengths to \<open>int\<close> keep them.
\<close>

datatype 'a sys_ret = Done 'a | Fail int

definition sock_timeout :: "int \<Rightarrow> int \<Rightarrow> int \<Rightarrow> bool" where
  "sock_timeout start duration_us curr_time \<longleftrightarrow> curr_time - start > duration_us"

definition retry_errno :: "int \<Rightarrow> bool" where
  "retry_errno e \<longleftrightarrow> e = EINTR \<or> e = EAGAIN"

text \<open>The flag \<open>do_retry\<close> after the clock was looked at.\<close>

definition keep_trying :: "int \<Rightarrow> int \<Rightarrow> bool \<Rightarrow> bool" where
  "keep_trying begin_time now do_retry \<longleftrightarrow> do_retry \<and> \<not> sock_timeout begin_time SOCK_TIMEOUT_TIME now"

fun send_loop ::
  "(nat sys_ret \<times> int) list \<Rightarrow> int \<Rightarrow> int \<Rightarrow> bool \<Rightarrow> bytes \<Rightarrow> bytes \<Rightarrow> (int \<times> bytes \<times> int) option" where
  "send_loop [] begin_time errno do_retry sent p_src = None"
| "send_loop ((Done n, now) # ans) begin_time errno do_retry sent p_src =
     (if n = 0 then
        (if \<not> retry_errno errno then Some (0, sent, errno)
         else if p_src \<noteq> [] \<and> keep_trying begin_time now True
         then send_loop ans begin_time errno True sent p_src
         else Some (int (length sent), sent, errno))
      else if n > length p_src then None
      else let left = drop n p_src; sent' = sent @ take n p_src; again = (do_retry \<or> left \<noteq> [])
           in if left \<noteq> [] \<and> keep_trying begin_time now again
              then send_loop ans begin_time errno again sent' left
              else Some (int (length sent'), sent', errno))"
| "send_loop ((Fail e, now) # ans) begin_time errno do_retry sent p_src =
     (if \<not> retry_errno e then Some (-1, sent, e)
      else if p_src \<noteq> [] \<and> keep_trying begin_time now True
      then send_loop ans begin_time e True sent p_src
      else Some (int (length sent), sent, e))"

fun recv_loop ::
  "bool \<Rightarrow> (bytes sys_ret \<times> int) list \<Rightarrow> int \<Rightarrow> int \<Rightarrow> bool \<Rightarrow> bytes \<Rightarrow> nat \<Rightarrow> (int \<times> bytes \<times> int) option" where
  "recv_loop one_shot [] begin_time errno do_retry got left_len = None"
| "recv_loop one_shot ((Done d, now) # ans) begin_time errno do_retry got left_len =
     (if d = [] then
        (if \<not> retry_errno errno then Some (0, got, errno)
         else let again = (do_retry \<or> \<not> one_shot)
              in if left_len > 0 \<and> keep_trying begin_time now again
                 then recv_loop one_shot ans begin_time errno again got left_len
                 else Some (int (length got), got, errno))
      else if length d > left_len then None
      else let left = left_len - length d; got' = got @ d; again = (do_retry \<or> left > 0 \<and> \<not> one_shot)
           in if left > 0 \<and> keep_trying begin_time now again
              then recv_loop one_shot ans begin_time errno again got' left
              else Some (int (length got'), got', errno))"
| "recv_loop one_shot ((Fail e, now) # ans) begin_time errno do_retry got left_len =
     (if \<not> retry_errno e then Some (-1, got, e)
      else let again = (do_retry \<or> \<not> one_shot)
           in if left_len > 0 \<and> keep_trying begin_time now again
              then recv_loop one_shot ans begin_time e again got left_len
              else Some (int (length got), got, e))"

text \<open>What the kernel does during the next calls, one script per call: the clock at its start and the answers.\<close>

record sock_io =
  io_errno :: int
  io_sends :: "(int \<times> (nat sys_ret \<times> int) list) list"
  io_recvs :: "(int \<times> (bytes sys_ret \<times> int) list) list"

definition io_send :: "bytes \<Rightarrow> sock_io \<Rightarrow> (int \<times> bytes \<times> sock_io) option" where
  "io_send data io =
     (case io_sends io of
        [] \<Rightarrow> None
      | (begin_time, ans) # calls \<Rightarrow> do {
          (ret, sent, errno) \<leftarrow> send_loop ans begin_time (io_errno io) False [] data;
          Some (ret, sent, io\<lparr>io_errno := errno, io_sends := calls\<rparr>) })"

definition io_recv :: "bool \<Rightarrow> nat \<Rightarrow> sock_io \<Rightarrow> (int \<times> bytes \<times> sock_io) option" where
  "io_recv one_shot datalen io =
     (case io_recvs io of
        [] \<Rightarrow> None
      | (begin_time, ans) # calls \<Rightarrow> do {
          (ret, got, errno) \<leftarrow> recv_loop one_shot ans begin_time (io_errno io) False [] datalen;
          Some (ret, got, io\<lparr>io_errno := errno, io_recvs := calls\<rparr>) })"

definition sock_server_send ::
  "sock_server_t option \<Rightarrow> sock_client_proxy_t option \<Rightarrow> bytes \<Rightarrow> sock_io \<Rightarrow> (int \<times> bytes \<times> sock_io) option" where
  "sock_server_send server sender data io =
     (case (server, sender) of
        (Some s, Some p) \<Rightarrow> if cp_id p \<ge> length (client_slots s) then None else io_send data io
      | _ \<Rightarrow> Some (-1, [], io))"

definition sock_server_recv ::
  "sock_server_t option \<Rightarrow> sock_client_proxy_t option \<Rightarrow> nat \<Rightarrow> bool \<Rightarrow> sock_io \<Rightarrow> (int \<times> bytes \<times> sock_io) option" where
  "sock_server_recv server receiver datalen one_shot io =
     (case (server, receiver) of
        (Some s, Some p) \<Rightarrow> if cp_id p \<ge> length (client_slots s) then None else io_recv one_shot datalen io
      | _ \<Rightarrow> Some (-1, [], io))"

section \<open>Passing descriptors\<close>

text \<open>
  \<open>sendmsg\<close> and \<open>recvmsg\<close> are repeated while they are interrupted or would block, with no time limit.
  \<open>recvmsg\<close> answers with the descriptors of the control message, if one came.
\<close>

fun retry_call :: "'a sys_ret list \<Rightarrow> (int + 'a) option" where
  "retry_call [] = None"
| "retry_call (Done x # ans) = Some (Inr x)"
| "retry_call (Fail e # ans) = (if retry_errno e then retry_call ans else Some (Inl e))"

definition sock_server_send_fd ::
  "sock_server_t option \<Rightarrow> sock_client_proxy_t option \<Rightarrow> int list \<Rightarrow> nat sys_ret list \<Rightarrow> (int \<times> int list) option" where
  "sock_server_send_fd server sender pfd ans =
     (case server of
        None \<Rightarrow> Some (-1, [])
      | Some s \<Rightarrow> do {
          p \<leftarrow> sender;
          (if cp_id p \<ge> length (client_slots s) then None
           else do {
             r \<leftarrow> retry_call ans;
             Some (case r of Inl e \<Rightarrow> (-1, []) | Inr n \<Rightarrow> (0, pfd)) }) })"

text \<open>The copy takes \<open>fdlen\<close> numbers out of the control buffer, whatever the message holds.\<close>

definition sock_server_recv_fd ::
  "sock_server_t option \<Rightarrow> sock_client_proxy_t option \<Rightarrow> nat \<Rightarrow> int list option sys_ret list \<Rightarrow> (int \<times> int list) option" where
  "sock_server_recv_fd server receiver fdlen ans =
     (case server of
        None \<Rightarrow> Some (-1, [])
      | Some s \<Rightarrow> do {
          p \<leftarrow> receiver;
          (if cp_id p \<ge> length (client_slots s) then None
           else do {
             r \<leftarrow> retry_call ans;
             (case r of
                Inl e \<Rightarrow> Some (-1, [])
              | Inr None \<Rightarrow> Some (-1, [])
              | Inr (Some got) \<Rightarrow> if length got < fdlen then None else Some (0, take fdlen got)) }) })"

section \<open>The client\<close>

record sock_client_t =
  sc_socketfd :: int
  sc_path :: string

text \<open>
  The process has one shared client, \<open>g_client\<close>, with a count of its users; \<open>g_client\<close> is its address, 0 for
  NULL, and \<open>sc_heap\<close> the clients allocated.
\<close>

record sock_clients =
  g_client :: nat
  g_client_ref :: u32
  sc_heap :: "nat \<rightharpoonup> sock_client_t"

record connect_answers =
  ca_socket :: int
  ca_connect :: int
  ca_malloc :: nat
  ca_ioctl :: int

definition sock_client_init ::
  "SOCK_conn_type_t \<Rightarrow> string \<Rightarrow> connect_answers \<Rightarrow> sock_clients \<Rightarrow> int set \<Rightarrow> nat \<times> sock_clients \<times> int set" where
  "sock_client_init type server_path a st fds =
     (if g_client st \<noteq> 0 then (g_client st, st\<lparr>g_client_ref := g_client_ref st + 1\<rparr>, fds)
      else let fd = ca_socket a; opened = fd_open fd fds; fail = (0, st, fd_close fd opened)
           in if fd < 0 then (0, st, opened)
              else if type = SOCK_CONN_TYPE_UNIX_SOCK \<and> length server_path > 108 - 1 then fail
              else if ca_connect a < 0 then fail
              else if ca_malloc a = 0 then fail
              else if ca_ioctl a < 0 then fail
              else if length server_path > SOCK_MAX_PATH_LEN - 1 then fail
              else (ca_malloc a, st\<lparr>g_client := ca_malloc a, g_client_ref := 1,
                      sc_heap := (sc_heap st)(ca_malloc a \<mapsto> \<lparr>sc_socketfd = fd, sc_path = server_path\<rparr>)\<rparr>, opened))"

text \<open>\<open>None\<close> is an access through NULL or to a client already freed.\<close>

definition free_client :: "nat \<Rightarrow> sock_clients \<Rightarrow> int set \<Rightarrow> (sock_clients \<times> int set) option" where
  "free_client c st fds = do {
     r \<leftarrow> sc_heap st c;
     Some (st\<lparr>sc_heap := (sc_heap st)(c := None)\<rparr>, fd_close (sc_socketfd r) fds) }"

definition sock_client_close :: "nat \<Rightarrow> sock_clients \<Rightarrow> int set \<Rightarrow> (sock_clients \<times> int set) option" where
  "sock_client_close client st fds =
     (if client = g_client st then
        let st' = st\<lparr>g_client_ref := g_client_ref st - 1\<rparr>
        in if g_client_ref st' = 0
           then do { (st'', fds') \<leftarrow> free_client client st' fds; Some (st''\<lparr>g_client := 0\<rparr>, fds') }
           else Some (st', fds)
      else if client \<noteq> 0 then free_client client st fds
      else Some (st, fds))"

definition sock_client_check_connect ::
  "sock_client_t option \<Rightarrow> int \<Rightarrow> int set \<Rightarrow> int \<Rightarrow> sock_conn_status_t option" where
  "sock_client_check_connect client nsel ready nread =
     (case client of
        None \<Rightarrow> Some normal
      | Some c \<Rightarrow> do {
          _ \<leftarrow> FD_SET (sc_socketfd c) {};
          (if nsel = -1 \<or> nsel = 0 then Some normal
           else do {
             b \<leftarrow> FD_ISSET (sc_socketfd c) ready;
             Some (if \<not> b then normal else if nread \<noteq> 0 then readable else disconnect) }) })"

definition sock_client_send :: "sock_client_t option \<Rightarrow> bytes \<Rightarrow> sock_io \<Rightarrow> (int \<times> bytes \<times> sock_io) option" where
  "sock_client_send client data io = (case client of None \<Rightarrow> Some (-1, [], io) | Some _ \<Rightarrow> io_send data io)"

definition sock_client_recv :: "sock_client_t option \<Rightarrow> nat \<Rightarrow> sock_io \<Rightarrow> (int \<times> bytes \<times> sock_io) option" where
  "sock_client_recv client datalen io =
     (case client of None \<Rightarrow> Some (-1, [], io) | Some _ \<Rightarrow> io_recv False datalen io)"

definition sock_client_send_fd :: "sock_client_t option \<Rightarrow> int list \<Rightarrow> nat sys_ret list \<Rightarrow> (int \<times> int list) option" where
  "sock_client_send_fd client pfd ans =
     (case client of
        None \<Rightarrow> Some (-1, [])
      | Some _ \<Rightarrow> do { r \<leftarrow> retry_call ans; Some (case r of Inl e \<Rightarrow> (-1, []) | Inr n \<Rightarrow> (0, pfd)) })"

definition sock_client_recv_fd ::
  "sock_client_t option \<Rightarrow> nat \<Rightarrow> int list option sys_ret list \<Rightarrow> (int \<times> int list) option" where
  "sock_client_recv_fd client fdlen ans =
     (case client of
        None \<Rightarrow> Some (-1, [])
      | Some _ \<Rightarrow> do {
          r \<leftarrow> retry_call ans;
          (case r of
             Inl e \<Rightarrow> Some (-1, [])
           | Inr None \<Rightarrow> Some (-1, [])
           | Inr (Some got) \<Rightarrow> if length got < fdlen then None else Some (0, take fdlen got)) })"

end
