(* ===== verification/SockProps.thy ===== *)
theory SockProps
  imports SockServer "HOL-Library.Sublist"
begin

text \<open>
  Facts on the socket transport: the table of client descriptors is a finite map from proxies to descriptors and
  no descriptor is lost; the send and receive loops return, put a prefix of the block on the wire, and carry a
  block unchanged through any division into pieces.
\<close>

section \<open>Tables of descriptors\<close>

text \<open>
  What the server relies on: a table hands out a place that is free, and adding and removing change one place.
\<close>

locale slot_table =
  fixes wf :: "'t \<Rightarrow> bool"
    and lookup :: "'t \<Rightarrow> nat \<Rightarrow> int option"
    and place :: "'t \<Rightarrow> nat"
    and full :: "'t \<Rightarrow> bool"
    and put :: "nat \<Rightarrow> int \<Rightarrow> 't \<Rightarrow> 't"
    and clear :: "nat \<Rightarrow> 't \<Rightarrow> 't"
  assumes place_free: "wf t \<Longrightarrow> \<not> full t \<Longrightarrow> lookup t (place t) = None"
    and lookup_put: "wf t \<Longrightarrow> \<not> full t \<Longrightarrow> 0 \<le> fd \<Longrightarrow> lookup (put (place t) fd t) = (lookup t)(place t \<mapsto> fd)"
    and lookup_clear: "wf t \<Longrightarrow> lookup (clear i t) = (lookup t)(i := None)"
    and wf_put: "wf t \<Longrightarrow> wf (put i fd t)"
    and wf_clear: "wf t \<Longrightarrow> wf (clear i t)"
begin

text \<open>A table holds every descriptor once.\<close>

definition single :: "'t \<Rightarrow> bool" where
  "single t \<longleftrightarrow> inj_on (lookup t) (dom (lookup t))"

lemma single_put:
  assumes "wf t" "single t" "\<not> full t" "0 \<le> fd" "fd \<notin> ran (lookup t)"
  shows "single (put (place t) fd t)"
  using assms(2,5) unfolding single_def lookup_put [OF assms(1,3,4)] inj_on_def
  by (auto simp: ran_def dom_def split: if_splits)

lemma single_clear:
  assumes "wf t" "single t"
  shows "single (clear i t)"
  using assms unfolding single_def lookup_clear [OF assms(1)] inj_on_def by (auto split: if_splits)

lemma ran_put:
  assumes "wf t" "\<not> full t" "0 \<le> fd"
  shows "ran (lookup (put (place t) fd t)) = insert fd (ran (lookup t))"
  using place_free [OF assms(1,2)] by (simp add: lookup_put [OF assms])

lemma ran_clear:
  assumes "wf t" "single t" "lookup t i = Some fd"
  shows "ran (lookup (clear i t)) = ran (lookup t) - {fd}"
proof -
  have uniq: "\<forall>j. lookup t j = Some fd \<longrightarrow> j = i"
    using assms(2,3) unfolding single_def inj_on_def dom_def by simp
  have "(lookup (clear i t) j = Some x) = (lookup t j = Some x \<and> x \<noteq> fd)" for j x
  proof (cases "j = i")
    case True
    then show ?thesis using assms(3) by (auto simp: lookup_clear [OF assms(1)])
  next
    case False
    then have "lookup t j \<noteq> Some fd" using uniq by blast
    then show ?thesis using False by (auto simp: lookup_clear [OF assms(1)])
  qed
  then show ?thesis by (simp add: ran_def set_diff_eq)
qed

end

definition slots_wf :: "int list \<Rightarrow> bool" where
  "slots_wf xs \<longleftrightarrow> length xs = SOCK_MAX_CLIENTS"

definition slot_fd :: "int list \<Rightarrow> nat \<Rightarrow> int option" where
  "slot_fd xs i = (if i < length xs \<and> xs ! i \<noteq> -1 then Some (xs ! i) else None)"

definition slots_full :: "int list \<Rightarrow> bool" where
  "slots_full xs \<longleftrightarrow> first_empty xs \<ge> length xs"

lemma first_empty_le: "first_empty xs \<le> length xs"
  by (induction xs) auto

lemma first_empty_nth: "first_empty xs < length xs \<Longrightarrow> xs ! first_empty xs = -1"
  by (induction xs) auto

lemma first_empty_full: "first_empty xs = length xs \<longleftrightarrow> -1 \<notin> set xs"
  by (induction xs) auto

interpretation slots: slot_table slots_wf slot_fd first_empty slots_full "\<lambda>i fd xs. xs[i := fd]" "\<lambda>i xs. xs[i := -1]"
proof
  show "slot_fd t (first_empty t) = None" if "slots_wf t" "\<not> slots_full t" for t
    using that first_empty_nth [of t] by (simp add: slot_fd_def slots_full_def)
  show "slot_fd (t[first_empty t := fd]) = (slot_fd t)(first_empty t \<mapsto> fd)"
    if "slots_wf t" "\<not> slots_full t" "0 \<le> fd" for t fd
    using that by (auto simp: slot_fd_def slots_full_def nth_list_update fun_eq_iff)
  show "slot_fd (t[i := -1]) = (slot_fd t)(i := None)" if "slots_wf t" for t i
    by (auto simp: slot_fd_def nth_list_update fun_eq_iff)
qed (simp_all add: slots_wf_def)

lemma ran_slot_fd: "ran (slot_fd xs) = set xs - {-1}"
proof (intro set_eqI iffI)
  fix x assume "x \<in> ran (slot_fd xs)"
  then obtain i where "slot_fd xs i = Some x" by (auto simp: ran_def)
  then show "x \<in> set xs - {-1}" by (auto simp: slot_fd_def split: if_splits)
next
  fix x assume "x \<in> set xs - {-1}"
  then obtain i where "i < length xs" "xs ! i = x" "x \<noteq> -1" by (auto simp: in_set_conv_nth)
  then have "slot_fd xs i = Some x" by (simp add: slot_fd_def)
  then show "x \<in> ran (slot_fd xs)" by (rule ranI)
qed

lemma close_slots_set: "close_slots xs fds = fds - (set xs - {-1})"
  by (induction xs arbitrary: fds) (auto simp: fd_close_def)

lemma slot_fd_replicate: "slot_fd (replicate n (-1)) = Map.empty"
  by (auto simp: slot_fd_def)

section \<open>Histories of connections\<close>

text \<open>
  What the callers of a server do: they create it, poll it for connections, take connections, poll the clients,
  and close clients they hold. \<open>m\<close> holds the descriptor behind each proxy handed out and not closed. The
  descriptors the kernel hands out are not open already.
\<close>

definition fresh_fd :: "int \<Rightarrow> int set \<Rightarrow> bool" where
  "fresh_fd fd fds \<longleftrightarrow> fd < 0 \<or> fd \<notin> fds"

definition fds_ok :: "int set \<Rightarrow> bool" where
  "fds_ok fds \<longleftrightarrow> (\<forall>fd \<in> fds. 0 \<le> fd)"

lemma fds_ok_insert: "fds_ok (insert fd fds) \<longleftrightarrow> 0 \<le> fd \<and> fds_ok fds"
  by (simp add: fds_ok_def)

lemma fds_ok_Diff: "fds_ok fds \<Longrightarrow> fds_ok (fds - S)"
  by (simp add: fds_ok_def)

lemma fds_ok_neg: "fds_ok fds \<Longrightarrow> fd < 0 \<Longrightarrow> fd \<notin> fds"
  by (auto simp: fds_ok_def)

inductive conns :: "int set \<Rightarrow> sock_server_t \<Rightarrow> (nat \<rightharpoonup> int) \<Rightarrow> int set \<Rightarrow> bool" for base where
  init: "sock_server_init type name ident port a base = Some (Some s, addr, fds) \<Longrightarrow> fresh_fd (ia_socket a) base
    \<Longrightarrow> fds_ok base \<Longrightarrow> conns base s Map.empty fds"
| newconn: "conns base s m fds \<Longrightarrow> fresh_fd acc fds
    \<Longrightarrow> sock_server_has_newconn (Some s) nsel ready acc fds = Some (b, fds') \<Longrightarrow> conns base s m fds'"
| failed: "conns base s m fds \<Longrightarrow> fresh_fd acc fds
    \<Longrightarrow> sock_server_create_client (Some s) acc ioc mem fds = (None, Some s', fds') \<Longrightarrow> conns base s' m fds'"
| taken: "conns base s m fds \<Longrightarrow> fresh_fd acc fds
    \<Longrightarrow> sock_server_create_client (Some s) acc ioc mem fds = (Some p, Some s', fds')
    \<Longrightarrow> conns base s' (m(cp_id p \<mapsto> acc)) fds'"
| closed: "conns base s m fds \<Longrightarrow> cp_id p \<in> dom m
    \<Longrightarrow> sock_server_close_client (Some s) (Some p) fds = Some (Some s', fds')
    \<Longrightarrow> conns base s' (m(cp_id p := None)) fds'"
| polled: "conns base s m fds \<Longrightarrow> sock_server_clients_readable (Some s) nsel ready = Some (b, Some s')
    \<Longrightarrow> conns base s' m fds"

definition conn_inv :: "int set \<Rightarrow> sock_server_t \<Rightarrow> (nat \<rightharpoonup> int) \<Rightarrow> int set \<Rightarrow> bool" where
  "conn_inv base s m fds \<longleftrightarrow>
     slots_wf (client_slots s) \<and> slot_fd (client_slots s) = m \<and> slots.single (client_slots s)
     \<and> fds = base \<union> insert (socketfd s) (ran m) \<and> base \<inter> insert (socketfd s) (ran m) = {}
     \<and> socketfd s \<notin> ran m \<and> fds_ok fds"

lemma find_empty_slot_wf:
  "slots_wf (client_slots s) \<Longrightarrow> sock_server_find_empty_slot s = first_empty (client_slots s)"
  by (simp add: sock_server_find_empty_slot_def slots_wf_def)

lemma full_wf: "slots_wf xs \<Longrightarrow> slots_full xs \<longleftrightarrow> SOCK_MAX_CLIENTS \<le> first_empty xs"
  by (simp add: slots_full_def slots_wf_def)

lemma conn_inv_init:
  assumes "sock_server_init type name ident port a base = Some (Some s, addr, fds)" "fresh_fd (ia_socket a) base"
    "fds_ok base"
  shows "conn_inv base s Map.empty fds"
proof -
  have fd: "0 \<le> ia_socket a" "fds = insert (ia_socket a) base" "socketfd s = ia_socket a"
    "client_slots s = replicate SOCK_MAX_CLIENTS (-1)"
    using assms(1) by (auto simp: sock_server_init_def Let_def fd_open_def split: if_splits)
  then show ?thesis using assms(2,3)
    by (auto simp: conn_inv_def fds_ok_def fd slots_wf_def slot_fd_replicate slots.single_def fresh_fd_def)
qed

lemma conn_inv_newconn:
  assumes "conn_inv base s m fds" "fresh_fd acc fds"
    "sock_server_has_newconn (Some s) nsel ready acc fds = Some (b, fds')"
  shows "fds' = fds"
proof -
  have "acc < 0 \<Longrightarrow> acc \<notin> fds" using assms(1) fds_ok_neg by (auto simp: conn_inv_def)
  then have "fd_close acc (fd_open acc fds) = fds" using assms(2) by (auto simp: fd_open_def fd_close_def fresh_fd_def)
  then show ?thesis using assms(3)
    by (auto simp: sock_server_has_newconn_def FD_SET_def FD_ISSET_def split: if_splits)
qed

lemma create_client_cases:
  assumes "sock_server_create_client (Some s) acc ioc mem fds = (r, Some s', fds')" "slots_wf (client_slots s)"
    "fresh_fd acc fds"
  shows "(r = None \<and> s' = s \<and> fds' = fds - {x. x = acc \<and> 0 \<le> acc})
    \<or> (0 \<le> acc \<and> \<not> slots_full (client_slots s) \<and> r = Some \<lparr>cp_id = first_empty (client_slots s)\<rparr>
       \<and> s' = s\<lparr>client_slots := (client_slots s)[first_empty (client_slots s) := acc]\<rparr> \<and> fds' = insert acc fds)"
  using assms
  by (auto simp: sock_server_create_client_def Let_def fd_open_def fd_close_def find_empty_slot_wf full_wf
      split: if_splits)

lemma conn_inv_failed:
  assumes "conn_inv base s m fds" "fresh_fd acc fds"
    "sock_server_create_client (Some s) acc ioc mem fds = (None, Some s', fds')"
  shows "s' = s \<and> fds' = fds"
  using create_client_cases [OF assms(3)] assms(1,2) by (auto simp: conn_inv_def fresh_fd_def)

lemma conn_inv_taken:
  assumes inv: "conn_inv base s m fds" and fr: "fresh_fd acc fds"
    and c: "sock_server_create_client (Some s) acc ioc mem fds = (Some p, Some s', fds')"
  shows "conn_inv base s' (m(cp_id p \<mapsto> acc)) fds'"
proof -
  let ?t = "client_slots s"
  have wf: "slots_wf ?t" "slots.single ?t" and m: "slot_fd ?t = m" using inv by (auto simp: conn_inv_def)
  have acc: "0 \<le> acc" "\<not> slots_full ?t" "p = \<lparr>cp_id = first_empty ?t\<rparr>"
    "s' = s\<lparr>client_slots := ?t[first_empty ?t := acc]\<rparr>" "fds' = insert acc fds"
    using create_client_cases [OF c wf(1) fr] by auto
  have new: "acc \<notin> fds" using fr acc(1) by (simp add: fresh_fd_def)
  then have "acc \<notin> ran (slot_fd ?t)" using inv by (auto simp: conn_inv_def)
  then have single: "slots.single (?t[first_empty ?t := acc])" using slots.single_put wf acc(1,2) by blast
  have ran: "ran (m(first_empty ?t \<mapsto> acc)) = insert acc (ran m)"
    using slots.ran_put [OF wf(1) acc(2,1)] slots.lookup_put [OF wf(1) acc(2,1)] by (simp add: m)
  show ?thesis using inv new single slots.wf_put [OF wf(1)] slots.lookup_put [OF wf(1) acc(2,1)] acc(1)
    unfolding conn_inv_def by (auto simp: acc(3-5) m ran fds_ok_insert)
qed

lemma conn_inv_closed:
  assumes inv: "conn_inv base s m fds" and i: "cp_id p \<in> dom m"
    and c: "sock_server_close_client (Some s) (Some p) fds = Some (Some s', fds')"
  shows "conn_inv base s' (m(cp_id p := None)) fds'"
proof -
  let ?t = "client_slots s"
  have wf: "slots_wf ?t" "slots.single ?t" and m: "slot_fd ?t = m" using inv by (auto simp: conn_inv_def)
  obtain fd where fd: "m (cp_id p) = Some fd" using i by blast
  then have at: "cp_id p < length ?t" "?t ! cp_id p = fd" "fd \<noteq> -1"
    by (auto simp: slot_fd_def simp flip: m split: if_splits)
  have new: "s' = s\<lparr>client_slots := ?t[cp_id p := -1]\<rparr>" "fds' = fds - {fd}"
    using c at by (auto simp: sock_server_close_client_def fd_close_def Let_def)
  have "ran (m(cp_id p := None)) = ran m - {fd}"
    using slots.ran_clear [OF wf] fd slots.lookup_clear [OF wf(1)] by (simp add: m)
  moreover have "fd \<in> ran m" using fd by (rule ranI)
  ultimately show ?thesis using inv slots.single_clear [OF wf] slots.wf_clear [OF wf(1)] slots.lookup_clear [OF wf(1)]
    unfolding conn_inv_def by (auto simp: new m intro: fds_ok_Diff)
qed

lemma conn_inv_polled:
  "conn_inv base s m fds \<Longrightarrow> sock_server_clients_readable (Some s) nsel ready = Some (b, Some s')
   \<Longrightarrow> conn_inv base s' m fds"
  by (auto simp: sock_server_clients_readable_def conn_inv_def split: bind_splits if_splits)

lemma conns_inv: "conns base s m fds \<Longrightarrow> conn_inv base s m fds"
proof (induction rule: conns.induct)
  case (init type name ident port a s addr fds)
  then show ?case by (rule conn_inv_init)
next
  case (newconn s m fds acc nsel ready b fds')
  then show ?case using conn_inv_newconn by blast
next
  case (failed s m fds acc ioc mem s' fds')
  then show ?case using conn_inv_failed by blast
next
  case (taken s m fds acc ioc mem p s' fds')
  then show ?case using conn_inv_taken by blast
next
  case (closed s m fds p s' fds')
  then show ?case using conn_inv_closed by blast
next
  case (polled s m fds nsel ready b s')
  then show ?case using conn_inv_polled by blast
qed

text \<open>
  C17. Whatever connections come, fail and go, the slots of a server are the descriptors of the proxies handed out,
  each in one slot; the process holds exactly these and the listening socket beside what it had before, and
  closing the server gives all of them back.
\<close>

theorem sock_server_descriptors:
  assumes "conns base s m fds"
  shows "slot_fd (client_slots s) = m \<and> inj_on m (dom m) \<and> card (dom m) \<le> SOCK_MAX_CLIENTS
    \<and> fds = base \<union> insert (socketfd s) (ran m) \<and> fst (sock_server_close (Some s) fds) = base"
proof -
  have inv: "conn_inv base s m fds" using assms by (rule conns_inv)
  then have m: "slot_fd (client_slots s) = m" and len: "length (client_slots s) = SOCK_MAX_CLIENTS"
    by (auto simp: conn_inv_def slots_wf_def)
  have "dom m \<subseteq> {..<SOCK_MAX_CLIENTS}" by (auto simp: slot_fd_def len simp flip: m split: if_splits)
  then have "card (dom m) \<le> SOCK_MAX_CLIENTS" using card_mono [of "{..<SOCK_MAX_CLIENTS}"] by simp
  moreover have "fst (sock_server_close (Some s) fds) = base"
    using inv len by (auto simp: conn_inv_def sock_server_close_def close_slots_set fd_close_def ran_slot_fd simp flip: m)
  ultimately show ?thesis using inv by (auto simp: conn_inv_def slots.single_def)
qed


text \<open>A server on descriptor 3 that took one connection, on descriptor 5.\<close>

definition one_conn :: sock_server_t where
  "one_conn = \<lparr>ss_type = SOCK_CONN_TYPE_INET_SOCK, socketfd = 3, ss_path = [],
     client_slots = 5 # replicate 511 (-1), rfds = {}\<rparr>"

lemma slots_Cons: "replicate SOCK_MAX_CLIENTS x = x # replicate 511 x"
  using replicate_Suc [of 511 x] by (simp add: SOCK_MAX_CLIENTS_def)

lemma first_slot: "first_empty (replicate SOCK_MAX_CLIENTS (-1)) = 0"
  "(replicate SOCK_MAX_CLIENTS (-1))[0 := fd] = fd # replicate 511 (-1)" "0 < SOCK_MAX_CLIENTS"
  unfolding slots_Cons by (simp_all add: SOCK_MAX_CLIENTS_def)

lemma one_conn_reached: "conns {0} one_conn [0 \<mapsto> 5] {0, 3, 5}"
proof -
  let ?a = "\<lparr>ia_socket = 3, ia_setsockopt = 0, ia_ioctl = 0, ia_bind = 0, ia_listen = 0, ia_malloc = True\<rparr>"
  let ?s = "one_conn\<lparr>client_slots := replicate SOCK_MAX_CLIENTS (-1)\<rparr>"
  have "sock_server_init SOCK_CONN_TYPE_INET_SOCK [] None 80 ?a {0} = Some (Some ?s, Some (In_addr 80), {0, 3})"
    by (simp add: sock_server_init_def one_conn_def fd_open_def server_addr_def insert_commute)
  then have c: "conns {0} ?s Map.empty {0, 3}"
    by (rule conns.init) (simp_all add: fresh_fd_def fds_ok_def)
  have "sock_server_create_client (Some ?s) 5 0 True {0, 3} = (Some \<lparr>cp_id = 0\<rparr>, Some one_conn, {0, 3, 5})"
    by (simp add: sock_server_create_client_def sock_server_find_empty_slot_def first_slot one_conn_def
        Let_def fd_open_def insert_commute)
  then show ?thesis using conns.taken [OF c, of 5 0 True "\<lparr>cp_id = 0\<rparr>" one_conn "{0, 3, 5}"]
    by (simp add: fresh_fd_def)
qed

theorem sock_server_descriptors_witness:
  "conns {0} one_conn [0 \<mapsto> 5] {0, 3, 5} \<and> fst (sock_server_close (Some one_conn) {0, 3, 5}) = {0}"
  using one_conn_reached sock_server_descriptors [OF one_conn_reached] by blast

section \<open>Blocks\<close>

text \<open>The kernel accepts no more than it is offered, and hands over no more than it is asked for.\<close>

fun sends_fit :: "(nat sys_ret \<times> int) list \<Rightarrow> nat \<Rightarrow> bool" where
  "sends_fit [] left \<longleftrightarrow> True"
| "sends_fit ((Done n, _) # ans) left \<longleftrightarrow> n \<le> left \<and> sends_fit ans (left - n)"
| "sends_fit ((Fail _, _) # ans) left \<longleftrightarrow> sends_fit ans left"

definition clock_passes :: "int \<Rightarrow> ('a \<times> int) list \<Rightarrow> bool" where
  "clock_passes begin_time ans \<longleftrightarrow> (\<exists>a \<in> set ans. sock_timeout begin_time SOCK_TIMEOUT_TIME (snd a))"

lemma clock_passes_Cons:
  "clock_passes b ((r, now) # ans) \<longleftrightarrow> sock_timeout b SOCK_TIMEOUT_TIME now \<or> clock_passes b ans"
  by (simp add: clock_passes_def)

lemma clock_passes_Nil: "\<not> clock_passes b []"
  by (simp add: clock_passes_def)

lemmas clock_simps = clock_passes_Nil clock_passes_Cons keep_trying_def

lemma send_loop_returns:
  "sends_fit ans (length src) \<Longrightarrow> clock_passes b ans \<Longrightarrow> send_loop ans b e r sent src \<noteq> None"
proof (induction ans arbitrary: e r sent src)
  case Nil
  then show ?case by (simp add: clock_simps)
next
  case (Cons a ans)
  obtain x now where a: "a = (x, now)" by (cases a)
  show ?case
  proof (cases x)
    case (Done n)
    have "sends_fit ans (length (drop n src))" using Cons.prems by (simp add: a Done)
    then have "clock_passes b ans \<Longrightarrow> send_loop ans b e r' sent' (drop n src) \<noteq> None" for r' sent'
      by (rule Cons.IH)
    then show ?thesis using Cons.prems by (cases "n = 0") (auto simp: a Done clock_simps Let_def)
  next
    case (Fail e')
    then show ?thesis using Cons.prems Cons.IH [of src] by (auto simp: a clock_simps)
  qed
qed

text \<open>
  A loop that returns has put a prefix of the block on the wire. Its value is the length of that prefix, unless
  the last answer was a failure other than an interruption.
\<close>

definition block_result :: "int \<Rightarrow> bytes \<Rightarrow> int \<Rightarrow> bool" where
  "block_result ret out e \<longleftrightarrow> ret = int (length out) \<or> \<not> retry_errno e \<and> (ret = -1 \<or> ret = 0)"

lemma send_loop_prefix:
  "send_loop ans b e r sent src = Some (ret, out, e')
   \<Longrightarrow> \<exists>part. prefix part src \<and> out = sent @ part \<and> block_result ret out e'"
proof (induction ans arbitrary: e r sent src)
  case (Cons a ans)
  obtain x now where a: "a = (x, now)" by (cases a)
  show ?case
  proof (cases x)
    case (Done n)
    have step: "prefix (take n src @ part) src" if "prefix part (drop n src)" for part
      using that by (metis append_take_drop_id same_prefix_prefix)
    show ?thesis
    proof (cases "\<exists>r. send_loop ans b e r (sent @ take n src) (drop n src) = Some (ret, out, e')")
      case True
      then obtain part where "prefix part (drop n src)" "out = (sent @ take n src) @ part" "block_result ret out e'"
        using Cons.IH by blast
      then show ?thesis using step by (intro exI [of _ "take n src @ part"]) simp
    next
      case False
      then have "(out = sent \<or> out = sent @ take n src) \<and> block_result ret out e'"
        using Cons.prems by (auto simp: a Done Let_def block_result_def split: if_splits)
      then show ?thesis by (auto simp: take_is_prefix)
    qed
  next
    case (Fail e')
    then show ?thesis using Cons.prems Cons.IH by (auto simp: a block_result_def split: if_splits)
  qed
qed simp

text \<open>
  Sending a block to a client returns once an answer comes after the ten seconds the loop allows, if not before.
  What went out is a prefix of the block, all of it when the result is its length.
\<close>

theorem sock_send_returns:
  assumes "cp_id p < length (client_slots s)" "io_sends io = (begin_time, ans) # calls"
    "sends_fit ans (length data)" "clock_passes begin_time ans"
  shows "\<exists>ret sent io'. sock_server_send (Some s) (Some p) data io = Some (ret, sent, io') \<and> prefix sent data
    \<and> io_sends io' = calls \<and> block_result ret sent (io_errno io')
    \<and> (ret = int (length data) \<and> data \<noteq> [] \<longrightarrow> sent = data)"
proof -
  obtain ret sent e where l: "send_loop ans begin_time (io_errno io) False [] data = Some (ret, sent, e)"
    using send_loop_returns [OF assms(3,4)] by fastforce
  then have "prefix sent data" "block_result ret sent e" using send_loop_prefix [OF l] by auto
  moreover have "sent = data" if "ret = int (length data)" "data \<noteq> []"
    using that calculation by (auto simp: block_result_def elim: prefixE)
  ultimately show ?thesis using l assms(1,2) by (auto simp: sock_server_send_def io_send_def)
qed

theorem sock_send_returns_witness:
  "\<exists>ret sent io'. sock_server_send (Some one_conn) (Some \<lparr>cp_id = 0\<rparr>) [1, 2, 3]
      \<lparr>io_errno = 0, io_sends = [(5, [(Done 2, 6), (Fail EAGAIN, 10000006)])], io_recvs = []\<rparr> = Some (ret, sent, io')
    \<and> prefix sent [1, 2, 3] \<and> io_sends io' = [] \<and> block_result ret sent (io_errno io')
    \<and> (ret = int (length [1 :: u8, 2, 3]) \<and> [1 :: u8, 2, 3] \<noteq> [] \<longrightarrow> sent = [1, 2, 3])"
  by (rule sock_send_returns [of _ _ _ 5 "[(Done 2, 6), (Fail EAGAIN, 10000006)]"])
    (simp_all add: one_conn_def clock_simps sock_timeout_def SOCK_TIMEOUT_TIME_def)

text \<open>The answers of \<open>recv\<close> deliver the bytes \<open>xs\<close> in pieces, with interruptions between, in time.\<close>

fun delivers :: "int \<Rightarrow> (bytes sys_ret \<times> int) list \<Rightarrow> bytes \<Rightarrow> bool" where
  "delivers b [] xs \<longleftrightarrow> xs = []"
| "delivers b ((Done d, now) # ans) xs \<longleftrightarrow>
     d \<noteq> [] \<and> take (length d) xs = d \<and> delivers b ans (drop (length d) xs)
     \<and> (drop (length d) xs \<noteq> [] \<longrightarrow> \<not> sock_timeout b SOCK_TIMEOUT_TIME now)"
| "delivers b ((Fail e, now) # ans) xs \<longleftrightarrow>
     retry_errno e \<and> xs \<noteq> [] \<and> \<not> sock_timeout b SOCK_TIMEOUT_TIME now \<and> delivers b ans xs"

lemma recv_loop_delivers:
  "delivers b ans xs \<Longrightarrow> xs \<noteq> []
   \<Longrightarrow> \<exists>e'. recv_loop False ans b e r got (length xs) = Some (int (length (got @ xs)), got @ xs, e')"
proof (induction ans arbitrary: e r got xs)
  case (Cons a ans)
  obtain x now where a: "a = (x, now)" by (cases a)
  show ?case
  proof (cases x)
    case (Done d)
    have d: "take (length d) xs = d" "d \<noteq> []" using Cons.prems by (auto simp: a Done)
    then have len: "length d \<le> length xs" by (metis length_take min.cobounded1)
    have xs: "xs = d @ drop (length d) xs" using d by (metis append_take_drop_id)
    show ?thesis
    proof (cases "drop (length d) xs = []")
      case True
      then have "xs = d" using xs by simp
      then show ?thesis using d by (simp add: a Done Let_def)
    next
      case False
      then obtain e' where "recv_loop False ans b e True (got @ d) (length xs - length d)
          = Some (int (length (got @ d @ drop (length d) xs)), got @ d @ drop (length d) xs, e')"
        using Cons.prems Cons.IH [of "drop (length d) xs" e True "got @ d"] by (auto simp: a Done)
      then show ?thesis using False len d Cons.prems by (simp add: a Done Let_def keep_trying_def flip: xs)
    qed
  next
    case (Fail e')
    then show ?thesis using Cons.prems Cons.IH [of xs e' True got] by (simp add: a keep_trying_def)
  qed
qed simp

text \<open>
  C37. A block the server reports sent in full arrives unchanged, in whatever pieces the kernel takes it and hands it
  over.
\<close>

theorem sock_block_roundtrip:
  assumes "sock_server_send (Some s) (Some p) data io = Some (int (length data), wire, io')" "data \<noteq> []"
    "io_recvs rio = (begin_time, ans) # calls" "delivers begin_time ans wire"
  shows "\<exists>rio'. sock_client_recv (Some c) (length data) rio = Some (int (length data), data, rio')"
proof -
  obtain b ans' calls' e where l: "send_loop ans' b (io_errno io) False [] data = Some (int (length data), wire, e)"
    using assms(1) by (auto simp: sock_server_send_def io_send_def split: if_splits list.splits bind_splits)
  then have "wire = data" using send_loop_prefix [OF l] assms(2) by (auto simp: block_result_def elim: prefixE)
  then have "delivers begin_time ans data" using assms(4) by simp
  then show ?thesis using recv_loop_delivers [OF _ assms(2), of begin_time ans "io_errno rio" False "[]"] assms(3)
    by (auto simp: sock_client_recv_def io_recv_def)
qed

theorem sock_block_roundtrip_witness:
  "\<exists>rio'. sock_client_recv (Some \<lparr>sc_socketfd = 4, sc_path = []\<rparr>) (length [1 :: u8, 2, 3])
     \<lparr>io_errno = 0, io_sends = [], io_recvs = [(7, [(Done [1], 8), (Fail EINTR, 9), (Done [2, 3], 10)])]\<rparr>
     = Some (int (length [1 :: u8, 2, 3]), [1, 2, 3], rio')"
  by (rule sock_block_roundtrip [where s = one_conn and p = "\<lparr>cp_id = 0\<rparr>" and wire = "[1, 2, 3]" and begin_time = 7
        and ans = "[(Done [1], 8), (Fail EINTR, 9), (Done [2, 3], 10)]" and calls = "[]" and io = "\<lparr>io_errno = 0, io_sends = [(5, [(Done 2, 6), (Done 1, 7)])], io_recvs = []\<rparr>"
        and io' = "\<lparr>io_errno = 0, io_sends = [], io_recvs = []\<rparr>"])
    (simp_all add: sock_server_send_def io_send_def one_conn_def keep_trying_def sock_timeout_def SOCK_TIMEOUT_TIME_def
      retry_errno_def)

text \<open>
  A connection closed by the peer is noticed by the value 0 of \<open>recv\<close>, and the loop then looks at \<open>errno\<close>,
  which that value does not set: if an earlier call left \<open>EAGAIN\<close> there, the loop goes on asking the closed
  connection for the ten seconds it allows, and then returns as if the time were the reason.
\<close>

theorem recv_closed_keeps_asking:
  "recv_loop False (replicate n (Done [], now)) begin_time EAGAIN do_retry got left_len =
     (if n = 0 then None
      else if left_len = 0 \<or> now - begin_time > SOCK_TIMEOUT_TIME then Some (int (length got), got, EAGAIN)
      else None)"
proof (induction n arbitrary: do_retry)
  case (Suc n)
  then show ?case by (auto simp: Let_def retry_errno_def keep_trying_def sock_timeout_def)
qed simp

end
