(* ===== verification/Streamer.thy ===== *)
theory Streamer
  imports CString
begin

text \<open>
  The streamer of the encoder server, the part of \<open>sources/encoder/shared/IrrStreamer.cpp\<close> that the stream
  protocol drives, with its wrappers in \<open>sources/encoder/shared/stream.cpp\<close>: the number of clients, the flags
  that allow encoding and transmission, and the settings handed on to the transcoder. The calls made on the
  transcoder, the demultiplexer, the callback multiplexer and the runtime writer are kept in a list; what the
  transcoder answers to a call is the parameter \<open>tr\<close>. Locks are left out: every function here holds the
  lock from its beginning to its end. The number of clients stays below \<open>INT_MAX\<close>. Frame rates, which are
  \<open>float\<close>, are whole numbers here: a setting carries an integer, which \<open>float32_of\<close> rounds.
\<close>

section \<open>State\<close>

datatype write_mode = INPUT | OUTPUT | INOUT

datatype stream_call =
    ForceKeyFrame int
  | SetQP int
  | SetBitrate int
  | SetMaxBitrate int
  | SetMaxFrameSize int
  | SetRollingIntraRefresh int int int
  | SetMinMaxQP int int
  | SetFramerate int
  | SetOutputProp string string
  | UpdateDynamicChangedFramerate int
  | ChangeResolution int int
  | ChangeCodec int
  | SetSEI int int
  | SetGopSize int
  | SetScreenCaptureFlag bool
  | SetScreenCaptureInterval int
  | SetScreenCaptureQuality int
  | SetSkipFrameFlag bool
  | ChangeEncoderProfileLevel int int
  | SetClientFeedback int int
  | SetFirstStartEncoding bool
  | SendMessage int int
  | ChangeCodecType int
  | StopWriting write_mode
  | StartWriting write_mode "int option"

record IrrStreamer =
  m_nClientNum :: int
  m_bAllowEncode :: bool
  m_bAllowTransmit :: bool
  m_auth :: bool
  m_nWidth :: int
  m_nHeight :: int
  m_fFramerate :: int
  m_nCodecId :: int
  m_tcaeEnabled :: bool
  m_pTrans :: bool
  m_pDemux :: bool
  m_pMux :: bool
  m_pRuntimeWriter :: bool
  m_calls :: "stream_call list"

definition AV_CODEC_ID_H264 :: int where "AV_CODEC_ID_H264 = 27"
definition AV_CODEC_ID_HEVC :: int where "AV_CODEC_ID_HEVC = 173"
definition AV_CODEC_ID_AV1 :: int where "AV_CODEC_ID_AV1 = 226"

definition EINVAL :: int where "EINVAL = 22"

definition ENAVAIL :: int where "ENAVAIL = 119"

definition IRRV_MESSAGE_VIDEO_FORMAT_CHANGE :: int where "IRRV_MESSAGE_VIDEO_FORMAT_CHANGE = 1"

definition streamer_new :: "int \<Rightarrow> int \<Rightarrow> int \<Rightarrow> IrrStreamer" where
  "streamer_new w h framerate = \<lparr>m_nClientNum = 0, m_bAllowEncode = False, m_bAllowTransmit = False, m_auth = False,
     m_nWidth = w, m_nHeight = h, m_fFramerate = framerate, m_nCodecId = 0, m_tcaeEnabled = False, m_pTrans = False, m_pDemux = False,
     m_pMux = False, m_pRuntimeWriter = False, m_calls = []\<rparr>"

definition log_call :: "stream_call \<Rightarrow> IrrStreamer \<Rightarrow> IrrStreamer" where
  "log_call c s = s\<lparr>m_calls := m_calls s @ [c]\<rparr>"

section \<open>Methods of the streamer\<close>

definition incClientNum :: "IrrStreamer \<Rightarrow> IrrStreamer" where
  "incClientNum s = s\<lparr>m_nClientNum := m_nClientNum s + 1\<rparr>"

definition decClientNum :: "IrrStreamer \<Rightarrow> IrrStreamer" where
  "decClientNum s = s\<lparr>m_nClientNum := m_nClientNum s - 1\<rparr>"

definition setEncodeFlag :: "bool \<Rightarrow> IrrStreamer \<Rightarrow> IrrStreamer" where
  "setEncodeFlag b s = s\<lparr>m_bAllowEncode := b\<rparr>"

definition setTransmitFlag :: "bool \<Rightarrow> IrrStreamer \<Rightarrow> IrrStreamer" where
  "setTransmitFlag b s = s\<lparr>m_bAllowTransmit := b\<rparr>"

definition setFisrtStartEncoding :: "bool \<Rightarrow> IrrStreamer \<Rightarrow> IrrStreamer" where
  "setFisrtStartEncoding b s = (if m_pDemux s then log_call (SetFirstStartEncoding b) s else s)"

text \<open>A setting handed on when there is a transcoder, with the value returned.\<close>

definition forward :: "stream_call \<Rightarrow> int \<Rightarrow> IrrStreamer \<Rightarrow> int \<times> IrrStreamer" where
  "forward c r s = (if m_pTrans s then (r, log_call c s) else (- EINVAL, s))"

definition force_key_frame :: "int \<Rightarrow> IrrStreamer \<Rightarrow> int \<times> IrrStreamer" where
  "force_key_frame f s =
     (if \<not> m_pTrans s then (- EINVAL, s) else (0, if f \<noteq> 0 then log_call (ForceKeyFrame 1) s else s))"

text \<open>
  The conversion of an unsigned word to \<open>float\<close>, which has 24 significant bits, to the nearest value and in
  the middle between two to the even one.
\<close>

definition float_unit :: "int \<Rightarrow> int" where
  "float_unit v = fold (\<lambda>k u. if 2 ^ (24 + k) \<le> v then 2 ^ (k + 1) else u) [0..<8] 1"

definition float32_of :: "int \<Rightarrow> int" where
  "float32_of v =
     (let u = float_unit v; q = v div u; r = v mod u
      in (if 2 * r > u \<or> 2 * r = u \<and> odd q then q + 1 else q) * u)"

text \<open>\<open>std::to_string\<close> of a \<open>float\<close> that is a whole number.\<close>

definition float_string :: "int \<Rightarrow> string" where
  "float_string f = dec_of_int f @ ''.000000''"

text \<open>\<open>None\<close> is a missing demultiplexer or a conversion to \<open>int\<close> out of range.\<close>

definition set_framerate :: "int \<Rightarrow> IrrStreamer \<Rightarrow> (int \<times> IrrStreamer) option" where
  "set_framerate f s =
     (if \<not> m_pTrans s then Some (- EINVAL, s)
      else if \<not> m_pDemux s \<or> f > INT_MAX then None
      else Some (0, (fold log_call [SetFramerate f, SetOutputProp ''r'' (float_string f), UpdateDynamicChangedFramerate f] s)
             \<lparr>m_fFramerate := f\<rparr>))"

definition get_framerate :: "IrrStreamer \<Rightarrow> int" where
  "get_framerate s = m_fFramerate s"

definition min_resolution :: "int \<Rightarrow> int" where
  "min_resolution codec =
     (if codec = AV_CODEC_ID_H264 then 32
      else if codec = AV_CODEC_ID_HEVC \<or> codec = AV_CODEC_ID_AV1 then 128 else INT_MIN)"

definition change_resolution :: "int \<Rightarrow> int \<Rightarrow> IrrStreamer \<Rightarrow> int \<times> IrrStreamer" where
  "change_resolution width height s =
     (if \<not> m_pTrans s then (- EINVAL, s)
      else let m = min_resolution (m_nCodecId s)
           in if width < m \<or> height < m then (- EINVAL, s)
              else (0, log_call (ChangeResolution width height) s))"

text \<open>The test looks at the current codec. \<open>None\<close> is a call through a missing multiplexer or writer.\<close>

definition change_codec :: "(stream_call \<Rightarrow> int) \<Rightarrow> int \<Rightarrow> IrrStreamer \<Rightarrow> (int \<times> IrrStreamer) option" where
  "change_codec tr codec s =
     (if \<not> m_pTrans s then Some (- EINVAL, s)
      else if m_nCodecId s \<notin> {AV_CODEC_ID_H264, AV_CODEC_ID_HEVC, AV_CODEC_ID_AV1} then Some (- EINVAL, s)
      else let s = log_call (ChangeCodec codec) s
           in if tr (ChangeCodec codec) \<noteq> 0 then Some (0, s)
              else if \<not> m_pMux s \<or> \<not> m_pRuntimeWriter s then None
              else Some (0, log_call (ChangeCodecType codec)
                     (log_call (SendMessage IRRV_MESSAGE_VIDEO_FORMAT_CHANGE codec) (s\<lparr>m_nCodecId := codec\<rparr>))))"

definition set_client_feedback :: "(stream_call \<Rightarrow> int) \<Rightarrow> int \<Rightarrow> int \<Rightarrow> IrrStreamer \<Rightarrow> (int \<times> IrrStreamer) option" where
  "set_client_feedback tr delay sz s =
     (if \<not> m_tcaeEnabled s then Some (0, s)
      else if \<not> m_pTrans s then None
      else Some (tr (SetClientFeedback delay sz), log_call (SetClientFeedback delay sz) s))"

definition forward_void :: "stream_call \<Rightarrow> IrrStreamer \<Rightarrow> IrrStreamer" where
  "forward_void c s = (if m_pTrans s then log_call c s else s)"

section \<open>The wrappers\<close>

text \<open>The streamer is a global pointer: \<open>None\<close> is NULL.\<close>

type_synonym streamer = "IrrStreamer option"

definition irr_stream_incClient :: "streamer \<Rightarrow> streamer" where
  "irr_stream_incClient = map_option incClientNum"

definition irr_stream_decClient :: "streamer \<Rightarrow> streamer" where
  "irr_stream_decClient = map_option decClientNum"

definition irr_stream_getClientNum :: "streamer \<Rightarrow> int" where
  "irr_stream_getClientNum st = (case st of None \<Rightarrow> - EINVAL | Some s \<Rightarrow> m_nClientNum s)"

definition irr_stream_setEncodeFlag :: "bool \<Rightarrow> streamer \<Rightarrow> streamer" where
  "irr_stream_setEncodeFlag b = map_option (setEncodeFlag b)"

definition irr_stream_setTransmitFlag :: "bool \<Rightarrow> streamer \<Rightarrow> streamer" where
  "irr_stream_setTransmitFlag b = map_option (setTransmitFlag b)"

definition irr_stream_first_start_encdoding :: "bool \<Rightarrow> streamer \<Rightarrow> streamer" where
  "irr_stream_first_start_encdoding b = map_option (setFisrtStartEncoding b)"

definition irr_stream_getAuthFlag :: "streamer \<Rightarrow> bool" where
  "irr_stream_getAuthFlag st = (case st of None \<Rightarrow> False | Some s \<Rightarrow> m_auth s)"

definition irr_stream_get_width :: "streamer \<Rightarrow> int" where
  "irr_stream_get_width st = (case st of None \<Rightarrow> - EINVAL | Some s \<Rightarrow> m_nWidth s)"

definition irr_stream_get_height :: "streamer \<Rightarrow> int" where
  "irr_stream_get_height st = (case st of None \<Rightarrow> - EINVAL | Some s \<Rightarrow> m_nHeight s)"

definition irr_stream_get_encoder_type :: "streamer \<Rightarrow> int" where
  "irr_stream_get_encoder_type st = (case st of None \<Rightarrow> - EINVAL | Some s \<Rightarrow> m_nCodecId s)"

text \<open>\<open>nw\<close> is the size the transcoder reports after a change of resolution.\<close>

definition irr_stream_get_encode_new_width :: "int \<Rightarrow> streamer \<Rightarrow> int" where
  "irr_stream_get_encode_new_width nw st = (case st of None \<Rightarrow> - EINVAL | Some s \<Rightarrow> if m_pTrans s then nw else - EINVAL)"

definition irr_stream_get_encode_new_height :: "int \<Rightarrow> streamer \<Rightarrow> int" where
  "irr_stream_get_encode_new_height nh st = (case st of None \<Rightarrow> - EINVAL | Some s \<Rightarrow> if m_pTrans s then nh else - EINVAL)"

text \<open>The wrappers of methods with a result return \<open>e\<close> when there is no streamer.\<close>

definition wrap :: "int \<Rightarrow> (IrrStreamer \<Rightarrow> int \<times> IrrStreamer) \<Rightarrow> streamer \<Rightarrow> int \<times> streamer" where
  "wrap e f st = (case st of None \<Rightarrow> (e, None) | Some s \<Rightarrow> (case f s of (r, s') \<Rightarrow> (r, Some s')))"

definition irr_stream_force_keyframe :: "int \<Rightarrow> streamer \<Rightarrow> int \<times> streamer" where
  "irr_stream_force_keyframe f = wrap (- EINVAL) (force_key_frame f)"

definition irr_stream_set_qp :: "int \<Rightarrow> streamer \<Rightarrow> int \<times> streamer" where
  "irr_stream_set_qp qp = wrap (- EINVAL) (forward (SetQP qp) 0)"

definition irr_stream_set_bitrate :: "int \<Rightarrow> streamer \<Rightarrow> int \<times> streamer" where
  "irr_stream_set_bitrate b = wrap (- EINVAL) (forward (SetBitrate b) 0)"

definition irr_stream_set_max_bitrate :: "int \<Rightarrow> streamer \<Rightarrow> int \<times> streamer" where
  "irr_stream_set_max_bitrate b = wrap (- EINVAL) (forward (SetMaxBitrate b) 0)"

definition irr_stream_set_framerate :: "int \<Rightarrow> streamer \<Rightarrow> (int \<times> streamer) option" where
  "irr_stream_set_framerate f st =
     (case st of None \<Rightarrow> Some (- EINVAL, None)
      | Some s \<Rightarrow> map_option (\<lambda>(r, s'). (r, Some s')) (set_framerate f s))"

definition irr_stream_get_framerate :: "streamer \<Rightarrow> int" where
  "irr_stream_get_framerate st = (case st of None \<Rightarrow> - EINVAL | Some s \<Rightarrow> get_framerate s)"

definition irr_stream_set_max_frame_size :: "(stream_call \<Rightarrow> int) \<Rightarrow> int \<Rightarrow> streamer \<Rightarrow> int \<times> streamer" where
  "irr_stream_set_max_frame_size tr sz = wrap (- ENAVAIL) (forward (SetMaxFrameSize sz) (tr (SetMaxFrameSize sz)))"

definition irr_stream_set_rolling_intra_refresh :: "int \<Rightarrow> int \<Rightarrow> int \<Rightarrow> streamer \<Rightarrow> int \<times> streamer" where
  "irr_stream_set_rolling_intra_refresh t c q = wrap (- ENAVAIL) (forward (SetRollingIntraRefresh t c q) 0)"

definition irr_stream_set_min_max_qp :: "(stream_call \<Rightarrow> int) \<Rightarrow> int \<Rightarrow> int \<Rightarrow> streamer \<Rightarrow> int \<times> streamer" where
  "irr_stream_set_min_max_qp tr a b = wrap (- ENAVAIL) (forward (SetMinMaxQP a b) (tr (SetMinMaxQP a b)))"

definition irr_stream_change_resolution :: "int \<Rightarrow> int \<Rightarrow> streamer \<Rightarrow> int \<times> streamer" where
  "irr_stream_change_resolution w h = wrap (- EINVAL) (change_resolution w h)"

definition irr_stream_set_sei :: "(stream_call \<Rightarrow> int) \<Rightarrow> int \<Rightarrow> int \<Rightarrow> streamer \<Rightarrow> int \<times> streamer" where
  "irr_stream_set_sei tr t i = wrap (- EINVAL) (forward (SetSEI t i) (tr (SetSEI t i)))"

definition irr_stream_set_gop_size :: "(stream_call \<Rightarrow> int) \<Rightarrow> int \<Rightarrow> streamer \<Rightarrow> int \<times> streamer" where
  "irr_stream_set_gop_size tr n = wrap (- EINVAL) (forward (SetGopSize n) (tr (SetGopSize n)))"

definition irr_stream_change_profile_level :: "(stream_call \<Rightarrow> int) \<Rightarrow> int \<Rightarrow> int \<Rightarrow> streamer \<Rightarrow> int \<times> streamer" where
  "irr_stream_change_profile_level tr p l =
     wrap (- EINVAL) (forward (ChangeEncoderProfileLevel p l) (tr (ChangeEncoderProfileLevel p l)))"

definition irr_stream_change_codec :: "(stream_call \<Rightarrow> int) \<Rightarrow> int \<Rightarrow> streamer \<Rightarrow> (int \<times> streamer) option" where
  "irr_stream_change_codec tr codec st =
     (case st of None \<Rightarrow> Some (- EINVAL, None)
      | Some s \<Rightarrow> map_option (\<lambda>(r, s'). (r, Some s')) (change_codec tr codec s))"

definition irr_stream_set_client_feedback ::
  "(stream_call \<Rightarrow> int) \<Rightarrow> int \<Rightarrow> int \<Rightarrow> streamer \<Rightarrow> (int \<times> streamer) option" where
  "irr_stream_set_client_feedback tr delay sz st =
     (case st of None \<Rightarrow> Some (- ENAVAIL, None)
      | Some s \<Rightarrow> map_option (\<lambda>(r, s'). (r, Some s')) (set_client_feedback tr delay sz s))"

definition irr_stream_set_screen_capture_flag :: "bool \<Rightarrow> streamer \<Rightarrow> streamer" where
  "irr_stream_set_screen_capture_flag b = map_option (forward_void (SetScreenCaptureFlag b))"

definition irr_sream_set_screen_capture_interval :: "int \<Rightarrow> streamer \<Rightarrow> streamer" where
  "irr_sream_set_screen_capture_interval i = map_option (forward_void (SetScreenCaptureInterval i))"

definition irr_stream_set_screen_capture_quality :: "int \<Rightarrow> streamer \<Rightarrow> streamer" where
  "irr_stream_set_screen_capture_quality q = map_option (forward_void (SetScreenCaptureQuality q))"

definition irr_stream_set_skipframe :: "bool \<Rightarrow> streamer \<Rightarrow> streamer" where
  "irr_stream_set_skipframe b = map_option (forward_void (SetSkipFrameFlag b))"

definition with_writer :: "stream_call list \<Rightarrow> streamer \<Rightarrow> streamer" where
  "with_writer cs = map_option (\<lambda>s. if m_pRuntimeWriter s then fold log_call cs s else s)"

definition irr_stream_runtime_writer_start_with_frame_num :: "int \<Rightarrow> streamer \<Rightarrow> streamer" where
  "irr_stream_runtime_writer_start_with_frame_num n = with_writer [StopWriting INOUT, StartWriting INOUT (Some n)]"

definition irr_stream_runtime_writer_start :: "write_mode \<Rightarrow> streamer \<Rightarrow> streamer" where
  "irr_stream_runtime_writer_start m = with_writer [StopWriting m, StartWriting m None]"

definition irr_stream_runtime_writer_stop :: "write_mode \<Rightarrow> streamer \<Rightarrow> streamer" where
  "irr_stream_runtime_writer_stop m = with_writer [StopWriting m]"

end
