(* ===== verification/Irrv.thy ===== *)
theory Irrv
  imports SockServer Streamer
begin

text \<open>
  The stream protocol of the encoder server, \<open>sources/encoder/shared/irrv/irrv_protocol.cpp\<close> with
  \<open>sources/encoder/irrv/irrv_protocol.h\<close>: one client per server, the authentication of a client, its control
  messages, and the frames sent to it. Structures are byte lists on a little-endian host. The build without
  \<open>FFMPEG_v42\<close> is modelled, in which regions of interest are not supported.

  The model keeps, beside the state of the program, the list of what happened at the sockets.
\<close>

section \<open>Events of the protocol\<close>

definition IRRV_MAGIC :: u32 where "IRRV_MAGIC = 0xc9c9d2c6"
definition IRRV_EVENT_VHEAD :: u32 where "IRRV_EVENT_VHEAD = 0x1000"
definition IRRV_EVENT_VFRAME :: u32 where "IRRV_EVENT_VFRAME = 0x1002"
definition IRRV_EVENT_VCTRL :: u32 where "IRRV_EVENT_VCTRL = 0x1004"
definition IRRV_EVENT_VAUTH :: u32 where "IRRV_EVENT_VAUTH = 0x1006"
definition IRRV_EVENT_VAUTH_ACK :: u32 where "IRRV_EVENT_VAUTH_ACK = 0x1007"
definition IRRV_EVENT_MESSAGE :: u32 where "IRRV_EVENT_MESSAGE = 0x100c"

definition IRRV_UUID_LEN :: nat where "IRRV_UUID_LEN = 16"

definition zeros :: "nat \<Rightarrow> bytes" where
  "zeros n = replicate n 0"

text \<open>What a block of \<open>n\<close> bytes set to 0 holds after a receive of \<open>b\<close> into it.\<close>

definition filled :: "nat \<Rightarrow> bytes \<Rightarrow> bytes" where
  "filled n b = take n (b @ zeros n)"

definition c_bytes :: "string \<Rightarrow> bytes" where
  "c_bytes s = map (\<lambda>c. of_char c) s"

definition auth_id :: bytes where
  "auth_id = filled IRRV_UUID_LEN (c_bytes ''irrv_id'')"

definition auth_key :: bytes where
  "auth_key = filled IRRV_UUID_LEN (c_bytes ''irrv_key'')"

definition irrv_event_t :: "u32 \<Rightarrow> nat \<Rightarrow> bytes" where
  "irrv_event_t type sz = put32 IRRV_MAGIC @ put32 type @ put32 (of_nat sz) @ put32 0"

definition event_type :: "bytes \<Rightarrow> u32" where
  "event_type ev = get32 (drop 4 ev)"

definition sizeof_event :: nat where "sizeof_event = 16"
definition sizeof_vauth :: nat where "sizeof_vauth = 60"
definition sizeof_vctrl :: nat where "sizeof_vctrl = 32"

definition irrv_vhead_event_t :: "u32 \<Rightarrow> u32 \<Rightarrow> u32 \<Rightarrow> u32 \<Rightarrow> bytes" where
  "irrv_vhead_event_t width height format auth =
     irrv_event_t IRRV_EVENT_VHEAD 48 @ put32 0 @ put32 width @ put32 height @ put32 format @ put32 auth @ zeros 12"

definition irrv_vframe_event_t :: "u32 \<Rightarrow> u32 \<Rightarrow> u32 \<Rightarrow> u32 \<Rightarrow> bytes" where
  "irrv_vframe_event_t flags data_size width height =
     irrv_event_t IRRV_EVENT_VFRAME 48 @ put32 flags @ put32 data_size @ zeros 8 @ put32 width @ put32 height @ zeros 8"

definition irrv_vauth_event_t :: "u32 \<Rightarrow> bytes" where
  "irrv_vauth_event_t result = irrv_event_t IRRV_EVENT_VAUTH_ACK 76 @ zeros 32 @ put32 result @ zeros 24"

definition irrv_message_event_t :: "u32 \<Rightarrow> u32 \<Rightarrow> bytes" where
  "irrv_message_event_t type value = irrv_event_t IRRV_EVENT_MESSAGE 48 @ put32 type @ put32 value @ zeros 24"

definition ConvertCodecTypeToStreamFormat :: "int \<Rightarrow> int" where
  "ConvertCodecTypeToStreamFormat codec_id =
     (if codec_id = 226 then 5 else if codec_id = 7 then 4 else if codec_id = 27 then 1
      else if codec_id = 173 then 3 else -1)"

section \<open>State\<close>

text \<open>What happened at the sockets of the servers, the newest last. \<open>Applied\<close> is a control message obeyed.\<close>

datatype out_kind = Head | Ack | Frame | Message

datatype net_ev =
    Accepted nat
  | Received nat bytes
  | Sent nat out_kind bytes
  | Applied nat bytes
  | Closed nat

text \<open>
  \<open>servers\<close> is the memory of the servers by their addresses, 0 being NULL. A client of \<open>clients\<close> that is
  missing or NULL is \<open>None\<close>: the code never tells the two apart.
\<close>

record irrv =
  clients :: "nat \<rightharpoonup> sock_client_proxy_t"
  auth_pass :: "nat \<rightharpoonup> bool"
  g_wb_frame_idx :: u64
  servers :: "nat \<rightharpoonup> sock_server_t"
  ir_fds :: "int set"
  ir_io :: sock_io
  ir_streamer :: streamer
  ir_trace :: "net_ev list"

definition note_ev :: "net_ev \<Rightarrow> irrv \<Rightarrow> irrv" where
  "note_ev e w = w\<lparr>ir_trace := ir_trace w @ [e]\<rparr>"

definition on_streamer :: "(streamer \<Rightarrow> streamer) \<Rightarrow> irrv \<Rightarrow> irrv" where
  "on_streamer f w = w\<lparr>ir_streamer := f (ir_streamer w)\<rparr>"

definition irrv_check_authentication :: "bytes \<Rightarrow> bytes \<Rightarrow> bool" where
  "irrv_check_authentication ident key \<longleftrightarrow> ident = auth_id \<and> key = auth_key"

definition irrv_get_auth_state :: "nat \<Rightarrow> irrv \<Rightarrow> bool" where
  "irrv_get_auth_state server w = (case auth_pass w server of None \<Rightarrow> False | Some b \<Rightarrow> b)"

definition irrv_have_client :: "nat \<Rightarrow> irrv \<Rightarrow> bool" where
  "irrv_have_client server w \<longleftrightarrow> clients w server \<noteq> None"

text \<open>Sending to and receiving from the client of a server.\<close>

definition send_client :: "out_kind \<Rightarrow> nat \<Rightarrow> bytes \<Rightarrow> irrv \<Rightarrow> irrv option" where
  "send_client k server data w = do {
     s \<leftarrow> servers w server;
     (_, wire, io) \<leftarrow> sock_server_send (Some s) (clients w server) data (ir_io w);
     Some (note_ev (Sent server k wire) (w\<lparr>ir_io := io\<rparr>)) }"

definition recv_client :: "nat \<Rightarrow> nat \<Rightarrow> irrv \<Rightarrow> (bytes \<times> irrv) option" where
  "recv_client server n w = do {
     s \<leftarrow> servers w server;
     (_, got, io) \<leftarrow> sock_server_recv (Some s) (clients w server) n False (ir_io w);
     Some (got, note_ev (Received server got) (w\<lparr>ir_io := io\<rparr>)) }"

definition close_client :: "nat \<Rightarrow> irrv \<Rightarrow> irrv option" where
  "close_client server w = do {
     s \<leftarrow> servers w server;
     (s', fds) \<leftarrow> sock_server_close_client (Some s) (clients w server) (ir_fds w);
     Some (note_ev (Closed server)
       (w\<lparr>servers := (servers w)(server := s'), ir_fds := fds, clients := (clients w)(server := None)\<rparr>)) }"

text \<open>The size announced for the pictures; \<open>nw\<close> and \<open>nh\<close> are the transcoder's after a change.\<close>

definition picture_size :: "int \<Rightarrow> int \<Rightarrow> streamer \<Rightarrow> u32 \<times> u32" where
  "picture_size nw nh st =
     (let width = irr_stream_get_encode_new_width nw st; height = irr_stream_get_encode_new_height nh st;
          (width, height) = (if width \<le> 0 \<or> height \<le> 0 then (irr_stream_get_width st, irr_stream_get_height st)
                             else (width, height))
      in (word_of_int (if width > 0 then width else 720), word_of_int (if height > 0 then height else 1280)))"

section \<open>Control messages\<close>

text \<open>
  The fields of \<open>irrv_vctrl_t\<close> are eight words, the last seven shared by the members of a union. The block is
  not cleared before the receive: reading a word that did not come is \<open>None\<close>.
\<close>

definition ctrl_word :: "nat \<Rightarrow> bytes \<Rightarrow> int option" where
  "ctrl_word i got = (if 4 * i + 4 \<le> length got then Some (sint (get32 (drop (4 * i) got))) else None)"

definition ctrl_uword :: "nat \<Rightarrow> bytes \<Rightarrow> int option" where
  "ctrl_uword i got = (if 4 * i + 4 \<le> length got then Some (uint (get32 (drop (4 * i) got))) else None)"

definition IRRV_CTRL_END :: int where "IRRV_CTRL_END = 29"

type_synonym stream_step = "streamer \<Rightarrow> streamer option"

definition step1 :: "bytes \<Rightarrow> (int \<Rightarrow> streamer \<Rightarrow> streamer) \<Rightarrow> nat \<Rightarrow> stream_step" where
  "step1 got f i st = do { a \<leftarrow> ctrl_word i got; Some (f a st) }"

definition step2 :: "bytes \<Rightarrow> (int \<Rightarrow> int \<Rightarrow> streamer \<Rightarrow> streamer) \<Rightarrow> nat \<Rightarrow> stream_step" where
  "step2 got f i st = do { a \<leftarrow> ctrl_word i got; b \<leftarrow> ctrl_word (i + 1) got; Some (f a b st) }"

text \<open>The switch over the type of a control message.\<close>

definition apply_ctrl :: "(stream_call \<Rightarrow> int) \<Rightarrow> int \<Rightarrow> bytes \<Rightarrow> stream_step" where
  "apply_ctrl tr t got st =
     (if t = 1 then step1 got (\<lambda>v s. snd (irr_stream_force_keyframe v s)) 1 st
      else if t = 2 then step1 got (\<lambda>v s. snd (irr_stream_set_bitrate v s)) 1 st
      else if t = 25 then step1 got (\<lambda>v s. snd (irr_stream_set_max_bitrate v s)) 1 st
      else if t = 26 then
        step1 got (\<lambda>v s. if v = 1 then irr_stream_set_skipframe True s
                         else if v = 0 then irr_stream_set_skipframe False s else s) 1 st
      else if t = 3 then step1 got (\<lambda>v s. snd (irr_stream_set_qp v s)) 1 st
      else if t = 5 then
        Some (irr_stream_first_start_encdoding True (irr_stream_setTransmitFlag True (irr_stream_setEncodeFlag True st)))
      else if t = 6 then Some (irr_stream_setTransmitFlag False st)
      else if t = 7 then
        Some (irr_stream_first_start_encdoding False (irr_stream_setTransmitFlag False (irr_stream_setEncodeFlag False st)))
      else if t = 8 then Some (irr_stream_runtime_writer_start INOUT st)
      else if t = 9 then Some (irr_stream_runtime_writer_stop INOUT st)
      else if t = 10 then step1 got irr_stream_runtime_writer_start_with_frame_num 1 st
      else if t = 12 then 
        do { v \<leftarrow> ctrl_uword 1 got; (_, s) \<leftarrow> irr_stream_set_framerate (float32_of v) st; Some s }
      else if t = 13 then step1 got (\<lambda>v s. snd (irr_stream_set_max_frame_size tr v s)) 1 st
      else if t = 14 then
        do { a \<leftarrow> ctrl_word 2 got; b \<leftarrow> ctrl_word 3 got; c \<leftarrow> ctrl_word 4 got;
             Some (snd (irr_stream_set_rolling_intra_refresh a b c st)) }
      else if t = 15 then step2 got (\<lambda>a b s. snd (irr_stream_set_min_max_qp tr a b s)) 2 st
      else if t = 11 then step2 got (\<lambda>a b s. snd (irr_stream_change_resolution a b s)) 2 st
      else if t = 24 then
        do { v \<leftarrow> ctrl_word 1 got; (_, s) \<leftarrow> irr_stream_change_codec tr v st; Some s }
      else if t = 16 then Some (irr_stream_runtime_writer_start INPUT st)
      else if t = 17 then Some (irr_stream_runtime_writer_stop INPUT st)
      else if t = 18 then Some (irr_stream_runtime_writer_start OUTPUT st)
      else if t = 19 then Some (irr_stream_runtime_writer_stop OUTPUT st)
      else if t = 20 then step2 got (\<lambda>a b s. snd (irr_stream_set_sei tr a b s)) 2 st
      else if t = 4 then step1 got (\<lambda>v s. snd (irr_stream_set_gop_size tr v s)) 1 st
      else if t = 21 then
        step2 got (\<lambda>a b s. irr_stream_set_screen_capture_flag True
          (irr_stream_set_screen_capture_quality b (irr_sream_set_screen_capture_interval a s))) 1 st
      else if t = 22 then Some (irr_stream_set_screen_capture_flag False st)
      else if t = 27 then step2 got (\<lambda>a b s. snd (irr_stream_change_profile_level tr a b s)) 2 st
      else if t = 28 then
        do { a \<leftarrow> ctrl_uword 1 got; b \<leftarrow> ctrl_uword 2 got; (_, s) \<leftarrow> irr_stream_set_client_feedback tr a b st; Some s }
      else Some st)"

text \<open>
  A call returns, or is left by the exception \<open>std::out_of_range\<close>, which \<open>VCtrlTypeMap.at\<close> throws for a
  type it has no name for.
\<close>

datatype 'a thrown = Returned 'a | Out_of_range irrv

definition handle_ctrl :: "(stream_call \<Rightarrow> int) \<Rightarrow> nat \<Rightarrow> irrv \<Rightarrow> irrv thrown option" where
  "handle_ctrl tr server w = do {
     (got, w) \<leftarrow> recv_client server sizeof_vctrl w;
     t \<leftarrow> ctrl_uword 0 got;
     (if t > IRRV_CTRL_END then Some (Out_of_range w)
      else do {
        st \<leftarrow> apply_ctrl tr t got (ir_streamer w);
        Some (Returned (note_ev (Applied server got) (w\<lparr>ir_streamer := st\<rparr>))) }) }"

section \<open>Authentication\<close>

definition AUTH_FAILED :: u32 where "AUTH_FAILED = 0"
definition AUTH_PASSED :: u32 where "AUTH_PASSED = 1"

definition handle_auth :: "nat \<Rightarrow> irrv \<Rightarrow> irrv option" where
  "handle_auth server w = do {
     (got, w) \<leftarrow> recv_client server sizeof_vauth w;
     let vauth = filled sizeof_vauth got;
     (if irrv_check_authentication (take IRRV_UUID_LEN vauth) (take IRRV_UUID_LEN (drop IRRV_UUID_LEN vauth))
      then send_client Ack server (irrv_vauth_event_t AUTH_PASSED) (w\<lparr>auth_pass := (auth_pass w)(server \<mapsto> True)\<rparr>)
      else do {
        w \<leftarrow> send_client Ack server (irrv_vauth_event_t AUTH_FAILED) (w\<lparr>auth_pass := (auth_pass w)(server \<mapsto> False)\<rparr>);
        close_client server w }) }"

section \<open>Polling a server\<close>

text \<open>The answers of the kernel during a poll, and what the transcoder reports and answers.\<close>

record poll_answers =
  pa_new_nsel :: int
  pa_new_ready :: "int set"
  pa_new_acc :: int
  pa_accept :: int
  pa_ioctl :: int
  pa_malloc :: bool
  pa_nsel :: int
  pa_ready :: "int set"
  pa_nread :: int
  pa_new_width :: int
  pa_new_height :: int
  pa_trans :: "stream_call \<Rightarrow> int"

definition new_client :: "poll_answers \<Rightarrow> nat \<Rightarrow> irrv \<Rightarrow> irrv option" where
  "new_client a server w = do {
     s \<leftarrow> servers w server;
     let (p, s', fds) = sock_server_create_client (Some s) (pa_accept a) (pa_ioctl a) (pa_malloc a) (ir_fds w);
     let w = w\<lparr>clients := (clients w)(server := p), servers := (servers w)(server := s'), ir_fds := fds\<rparr>;
     let w = (if p = None then w else note_ev (Accepted server) w);
     let auth = (if irr_stream_getAuthFlag (ir_streamer w) then 1 else 0);
     let w = on_streamer irr_stream_incClient w;
     let (width, height) = picture_size (pa_new_width a) (pa_new_height a) (ir_streamer w);
     send_client Head server (irrv_vhead_event_t width height
       (word_of_int (ConvertCodecTypeToStreamFormat (irr_stream_get_encoder_type (ir_streamer w)))) auth) w }"

definition accept_new :: "poll_answers \<Rightarrow> nat \<Rightarrow> irrv \<Rightarrow> irrv option" where
  "accept_new a server w =
     (if irrv_have_client server w then Some w
      else do {
        s \<leftarrow> servers w server;
        (b, fds) \<leftarrow> sock_server_has_newconn (Some s) (pa_new_nsel a) (pa_new_ready a) (pa_new_acc a) (ir_fds w);
        (if b then new_client a server (w\<lparr>ir_fds := fds\<rparr>) else Some (w\<lparr>ir_fds := fds\<rparr>)) })"

definition client_gone :: "nat \<Rightarrow> irrv \<Rightarrow> irrv option" where
  "client_gone server w = do {
     w \<leftarrow> close_client server w;
     let w = on_streamer irr_stream_decClient (w\<lparr>auth_pass := (auth_pass w)(server \<mapsto> False)\<rparr>);
     Some (if irr_stream_getClientNum (ir_streamer w) = 0
           then on_streamer (irr_stream_setTransmitFlag False) (on_streamer (irr_stream_setEncodeFlag False) w)
           else w) }"

definition client_readable :: "poll_answers \<Rightarrow> bool \<Rightarrow> nat \<Rightarrow> irrv \<Rightarrow> irrv thrown option" where
  "client_readable a auth_required server w = do {
     (got, w) \<leftarrow> recv_client server sizeof_event w;
     let type = event_type (filled sizeof_event got);
     w \<leftarrow> (if type = IRRV_EVENT_VAUTH \<and> auth_required then handle_auth server w else Some w);
     (if type = IRRV_EVENT_VCTRL \<and> (\<not> auth_required \<or> irrv_get_auth_state server w)
      then handle_ctrl (pa_trans a) server w
      else Some (Returned w)) }"

definition serve_client :: "poll_answers \<Rightarrow> bool \<Rightarrow> nat \<Rightarrow> irrv \<Rightarrow> irrv thrown option" where
  "serve_client a auth_required server w = do {
     s \<leftarrow> servers w server;
     (b, s') \<leftarrow> sock_server_clients_readable (Some s) (pa_nsel a) (pa_ready a);
     let w = w\<lparr>servers := (servers w)(server := s')\<rparr>;
     (if b \<and> irrv_have_client server w
      then do {
        status \<leftarrow> sock_server_check_connect s' (clients w server) (pa_nread a);
        (case status of
           readable \<Rightarrow> client_readable a auth_required server w
         | disconnect \<Rightarrow> map_option Returned (client_gone server w)
         | normal \<Rightarrow> Some (Returned w)) }
      else Some (Returned w)) }"

definition irrv_poll :: "poll_answers \<Rightarrow> nat \<Rightarrow> irrv \<Rightarrow> irrv thrown option" where
  "irrv_poll a server w =
     (if server = 0 then Some (Returned w)
      else do {
        let auth_required = irr_stream_getAuthFlag (ir_streamer w);
        w \<leftarrow> accept_new a server w;
        serve_client a auth_required server w })"

definition irrv_checknewconn :: "poll_answers \<Rightarrow> nat \<Rightarrow> irrv \<Rightarrow> (int \<times> irrv) thrown option" where
  "irrv_checknewconn a server w = do {
     r \<leftarrow> irrv_poll a server w;
     Some (case r of
         Out_of_range w' \<Rightarrow> Out_of_range w'
       | Returned w' \<Rightarrow> Returned (irr_stream_getClientNum (ir_streamer w'), w')) }"

section \<open>Sending frames and messages\<close>

definition may_send :: "bool \<Rightarrow> nat \<Rightarrow> irrv \<Rightarrow> bool" where
  "may_send auth_required server w \<longleftrightarrow>
     irrv_have_client server w \<and> (\<not> auth_required \<or> irrv_get_auth_state server w)"

definition send_frame :: "poll_answers \<Rightarrow> nat \<Rightarrow> u32 \<Rightarrow> bytes \<Rightarrow> irrv \<Rightarrow> irrv option" where
  "send_frame a server flags data w = do {
     let (width, height) = picture_size (pa_new_width a) (pa_new_height a) (ir_streamer w);
     w \<leftarrow> send_client Frame server (irrv_vframe_event_t flags (of_nat (length data)) width height) w;
     send_client Frame server data w }"

definition after_poll :: "irrv thrown option \<Rightarrow> (irrv \<Rightarrow> irrv option) \<Rightarrow> (int \<times> irrv) thrown option" where
  "after_poll r f = do {
     r \<leftarrow> r;
     (case r of
        Out_of_range w \<Rightarrow> Some (Out_of_range w)
      | Returned w \<Rightarrow> do { w \<leftarrow> f w; Some (Returned (0, w)) }) }"

definition irrv_writeback :: "poll_answers \<Rightarrow> nat \<Rightarrow> bytes \<Rightarrow> u32 \<Rightarrow> irrv \<Rightarrow> (int \<times> irrv) thrown option" where
  "irrv_writeback a server data flags w =
     (let auth_required = irr_stream_getAuthFlag (ir_streamer w);
          w = w\<lparr>g_wb_frame_idx := g_wb_frame_idx w + 1\<rparr>
      in after_poll (irrv_poll a server w) (\<lambda>w.
           if server \<noteq> 0 \<and> may_send auth_required server w then send_frame a server flags data w else Some w))"

definition NONE :: int where "NONE = 0"
definition MJPEG :: int where "MJPEG = 7"
definition H264 :: int where "H264 = 27"

definition irrv_writeback2 :: "poll_answers \<Rightarrow> nat \<Rightarrow> bytes \<Rightarrow> int \<Rightarrow> irrv \<Rightarrow> (int \<times> irrv) thrown option" where
  "irrv_writeback2 a server data type w =
     (let auth_required = irr_stream_getAuthFlag (ir_streamer w)
      in after_poll (irrv_poll a server w) (\<lambda>w.
           if server \<noteq> 0 \<and> (type = H264 \<or> type = MJPEG) \<and> may_send auth_required server w
           then send_frame a server (word_of_int type) data w else Some w))"

definition irrv_send_message :: "nat \<Rightarrow> int \<Rightarrow> u32 \<Rightarrow> irrv \<Rightarrow> (int \<times> irrv) option" where
  "irrv_send_message server msg value w =
     (if server \<noteq> 0 \<and> irrv_have_client server w
      then do {
        w \<leftarrow> send_client Message server (irrv_message_event_t (word_of_int msg) value) w;
        Some (0, w) }
      else Some (0, w))"

definition irrv_close :: "nat \<Rightarrow> irrv \<Rightarrow> irrv option" where
  "irrv_close server w =
     (if server = 0 then Some w
      else do {
        w \<leftarrow> (if irrv_have_client server w then close_client server w else Some w);
        let w = (case auth_pass w server of
                   None \<Rightarrow> w | Some _ \<Rightarrow> w\<lparr>auth_pass := (auth_pass w)(server \<mapsto> False)\<rparr>);
        s \<leftarrow> servers w server;
        Some (w\<lparr>servers := (servers w)(server := None), ir_fds := fst (sock_server_close (Some s) (ir_fds w))\<rparr>) })"

end
