(* ===== verification/IrrvProps.thy ===== *)
theory IrrvProps
  imports Irrv SockProps
begin

text \<open>
  Facts on the stream protocol: with authentication on, frames go out and control messages are obeyed only on a
  connection that presented the key since it was made; the number of clients never falls below the number of
  connections; and where the code does not keep its books or trusts its input.
\<close>

section \<open>What the trace grants\<close>

text \<open>
  A connection is granted when it sent an authentication event followed by the right identifier and key, and was
  not closed since.
\<close>

definition granted :: "nat \<Rightarrow> net_ev list \<Rightarrow> bool" where
  "granted sv tr \<longleftrightarrow> (\<exists>pre h b post. tr = pre @ [Received sv h, Received sv b] @ post
     \<and> event_type (filled sizeof_event h) = IRRV_EVENT_VAUTH
     \<and> take (2 * IRRV_UUID_LEN) (filled sizeof_vauth b) = auth_id @ auth_key \<and> Closed sv \<notin> set post)"

text \<open>The events that need a grant.\<close>

fun needs_grant :: "net_ev \<Rightarrow> nat option" where
  "needs_grant (Sent sv Frame b) = Some sv"
| "needs_grant (Applied sv b) = Some sv"
| "needs_grant _ = None"

definition safe :: "net_ev list \<Rightarrow> bool" where
  "safe tr \<longleftrightarrow> (\<forall>pre e post sv. tr = pre @ e # post \<longrightarrow> needs_grant e = Some sv \<longrightarrow> granted sv pre)"

lemma safe_Nil: "safe []"
  by (simp add: safe_def)

lemma safe_snoc: "safe (tr @ [e]) \<longleftrightarrow> safe tr \<and> (\<forall>sv. needs_grant e = Some sv \<longrightarrow> granted sv tr)"
proof
  assume s: "safe (tr @ [e])"
  then have "granted sv pre" if "tr = pre @ e' # post" "needs_grant e' = Some sv" for pre e' post sv
    using that unfolding safe_def by fastforce
  then show "safe tr \<and> (\<forall>sv. needs_grant e = Some sv \<longrightarrow> granted sv tr)" using s unfolding safe_def by blast
next
  assume s: "safe tr \<and> (\<forall>sv. needs_grant e = Some sv \<longrightarrow> granted sv tr)"
  show "safe (tr @ [e])" unfolding safe_def
  proof (intro allI impI)
    fix pre e' post sv
    assume eq: "tr @ [e] = pre @ e' # post" and n: "needs_grant e' = Some sv"
    show "granted sv pre"
    proof (cases post rule: rev_cases)
      case Nil
      then show ?thesis using eq n s by simp
    next
      case (snoc post' x)
      then have "tr = pre @ e' # post'" using eq by simp
      then show ?thesis using s n unfolding safe_def by blast
    qed
  qed
qed

lemma granted_snoc: "granted sv tr \<Longrightarrow> e \<noteq> Closed sv \<Longrightarrow> granted sv (tr @ [e])"
proof -
  assume "granted sv tr" and e: "e \<noteq> Closed sv"
  then obtain pre h b post where g: "tr = pre @ [Received sv h, Received sv b] @ post"
    "event_type (filled sizeof_event h) = IRRV_EVENT_VAUTH"
    "take (2 * IRRV_UUID_LEN) (filled sizeof_vauth b) = auth_id @ auth_key" "Closed sv \<notin> set post"
    unfolding granted_def by blast
  then have "tr @ [e] = pre @ [Received sv h, Received sv b] @ (post @ [e])" "Closed sv \<notin> set (post @ [e])"
    using e by auto
  then show ?thesis using g(2,3) unfolding granted_def by blast
qed

lemma granted_now:
  "event_type (filled sizeof_event h) = IRRV_EVENT_VAUTH
   \<Longrightarrow> take (2 * IRRV_UUID_LEN) (filled sizeof_vauth b) = auth_id @ auth_key
   \<Longrightarrow> granted sv (tr @ [Received sv h, Received sv b])"
  unfolding granted_def by (metis append_Nil2 list.set(1) empty_iff)

section \<open>The invariant\<close>

definition auth_inv :: "irrv \<Rightarrow> bool" where
  "auth_inv w \<longleftrightarrow> irr_stream_getAuthFlag (ir_streamer w) \<and> safe (ir_trace w)
     \<and> (\<forall>sv. irrv_get_auth_state sv w \<longrightarrow> granted sv (ir_trace w))"

lemma auth_state_cong: "auth_pass w' = auth_pass w \<Longrightarrow> irrv_get_auth_state sv w' = irrv_get_auth_state sv w"
  by (simp add: irrv_get_auth_state_def)

lemma auth_state_upd [simp]:
  "irrv_get_auth_state sv (w\<lparr>auth_pass := (auth_pass w)(sv' \<mapsto> b)\<rparr>) = (if sv = sv' then b else irrv_get_auth_state sv w)"
  by (simp add: irrv_get_auth_state_def)

lemma auth_inv_cong:
  "ir_streamer w' = ir_streamer w \<Longrightarrow> auth_pass w' = auth_pass w \<Longrightarrow> ir_trace w' = ir_trace w
   \<Longrightarrow> auth_inv w' = auth_inv w"
  by (simp add: auth_inv_def irrv_get_auth_state_def)

lemma auth_inv_note:
  assumes "auth_inv w" "\<And>sv. needs_grant e = Some sv \<Longrightarrow> granted sv (ir_trace w)" "\<And>sv. e \<noteq> Closed sv"
  shows "auth_inv (note_ev e w)"
  using assms granted_snoc unfolding auth_inv_def note_ev_def
  by (simp add: safe_snoc irrv_get_auth_state_def)

lemma auth_inv_lower:
  "auth_inv w \<Longrightarrow> auth_inv (w\<lparr>auth_pass := (auth_pass w)(sv \<mapsto> False)\<rparr>)"
  by (simp add: auth_inv_def)

lemma auth_inv_streamer:
  "auth_inv w \<Longrightarrow> irr_stream_getAuthFlag st = irr_stream_getAuthFlag (ir_streamer w) \<Longrightarrow> auth_inv (w\<lparr>ir_streamer := st\<rparr>)"
  by (simp add: auth_inv_def irrv_get_auth_state_def)

lemma auth_inv_on_streamer:
  "auth_inv w \<Longrightarrow> (\<And>st. irr_stream_getAuthFlag (f st) = irr_stream_getAuthFlag st) \<Longrightarrow> auth_inv (on_streamer f w)"
  unfolding on_streamer_def by (rule auth_inv_streamer) simp_all

section \<open>What the primitives change\<close>

lemma send_client_frame:
  assumes "send_client k sv d w = Some w'"
  shows "\<exists>wire. ir_trace w' = ir_trace w @ [Sent sv k wire] \<and> auth_pass w' = auth_pass w \<and> clients w' = clients w
    \<and> ir_streamer w' = ir_streamer w"
  using assms by (auto simp: send_client_def note_ev_def split: bind_splits prod.splits)

lemma recv_client_frame:
  assumes "recv_client sv n w = Some (got, w')"
  shows "ir_trace w' = ir_trace w @ [Received sv got] \<and> auth_pass w' = auth_pass w \<and> clients w' = clients w
    \<and> ir_streamer w' = ir_streamer w"
  using assms by (auto simp: recv_client_def note_ev_def split: bind_splits prod.splits)

lemma close_client_frame:
  assumes "close_client sv w = Some w'"
  shows "ir_trace w' = ir_trace w @ [Closed sv] \<and> auth_pass w' = auth_pass w
    \<and> clients w' = (clients w)(sv := None) \<and> ir_streamer w' = ir_streamer w"
  using assms by (auto simp: close_client_def note_ev_def split: bind_splits prod.splits)

lemma auth_inv_ext:
  assumes "auth_inv w" "ir_trace w' = ir_trace w @ [e]" "auth_pass w' = auth_pass w" "ir_streamer w' = ir_streamer w"
    "\<And>sv. needs_grant e = Some sv \<Longrightarrow> irrv_get_auth_state sv w" "\<And>sv. e \<noteq> Closed sv"
  shows "auth_inv w'"
proof -
  have "auth_inv (note_ev e w)" using assms(1,5,6) by (intro auth_inv_note) (auto simp: auth_inv_def)
  then show ?thesis using assms(2-4) auth_inv_cong [of w' "note_ev e w"] by (simp add: note_ev_def)
qed

lemma auth_inv_send:
  assumes "auth_inv w" "send_client k sv d w = Some w'" "k = Frame \<Longrightarrow> irrv_get_auth_state sv w"
  shows "auth_inv w' \<and> (\<forall>v. irrv_get_auth_state v w' = irrv_get_auth_state v w)"
proof -
  obtain wire where w': "ir_trace w' = ir_trace w @ [Sent sv k wire]" "auth_pass w' = auth_pass w"
    "ir_streamer w' = ir_streamer w"
    using send_client_frame [OF assms(2)] by blast
  have "auth_inv w'" using assms(1) w' by (rule auth_inv_ext) (use assms(3) in \<open>cases k; auto\<close>)+
  then show ?thesis using auth_state_cong w'(2) by blast
qed

lemma auth_inv_recv:
  assumes "auth_inv w" "recv_client sv n w = Some (got, w')"
  shows "auth_inv w'"
  using recv_client_frame [OF assms(2)] auth_inv_ext [OF assms(1), of w' "Received sv got"] by simp

lemma auth_inv_close:
  assumes "auth_inv w" "close_client sv w = Some w'" "\<not> irrv_get_auth_state sv w"
  shows "auth_inv w'"
proof -
  have w': "ir_trace w' = ir_trace w @ [Closed sv]" "auth_pass w' = auth_pass w" "ir_streamer w' = ir_streamer w"
    using close_client_frame [OF assms(2)] by auto
  have "granted v (ir_trace w @ [Closed sv])" if "irrv_get_auth_state v w'" for v
  proof (rule granted_snoc)
    have v: "irrv_get_auth_state v w" using that auth_state_cong [OF w'(2)] by simp
    then show "granted v (ir_trace w)" using assms(1) by (simp add: auth_inv_def)
    show "Closed sv \<noteq> Closed v" using v assms(3) by auto
  qed
  then show ?thesis using assms(1) w' by (simp add: auth_inv_def safe_snoc)
qed

lemma auth_inv_close_lower:
  assumes "auth_inv w" "close_client sv w = Some w'"
  shows "auth_inv (w'\<lparr>auth_pass := (auth_pass w')(sv \<mapsto> False)\<rparr>)"
proof -
  let ?low = "\<lambda>w. w\<lparr>auth_pass := (auth_pass w)(sv \<mapsto> False)\<rparr>"
  have "close_client sv (?low w) = Some (?low w')" using assms(2)
    by (auto simp: close_client_def note_ev_def split: bind_splits prod.splits)
  then show ?thesis using auth_inv_close [OF auth_inv_lower [OF assms(1), of sv]] by simp
qed

section \<open>Preservation\<close>

lemma take_two:
  assumes "take IRRV_UUID_LEN v = a" "take IRRV_UUID_LEN (drop IRRV_UUID_LEN v) = b"
  shows "take (2 * IRRV_UUID_LEN) v = a @ b"
  using assms take_add [of IRRV_UUID_LEN IRRV_UUID_LEN v] by (simp add: mult_2)

lemma handle_auth_inv:
  assumes inv: "auth_inv w" and tr: "ir_trace w = tr @ [Received sv h]"
    and h: "event_type (filled sizeof_event h) = IRRV_EVENT_VAUTH" and r: "handle_auth sv w = Some w'"
  shows "auth_inv w'"
proof -
  obtain got w1 where rc: "recv_client sv sizeof_vauth w = Some (got, w1)"
    using r by (auto simp: handle_auth_def split: bind_splits)
  have i1: "auth_inv w1" using inv rc by (rule auth_inv_recv)
  have tr1: "ir_trace w1 = tr @ [Received sv h, Received sv got]" using recv_client_frame [OF rc] tr by simp
  let ?v = "filled sizeof_vauth got"
  show ?thesis
  proof (cases "irrv_check_authentication (take IRRV_UUID_LEN ?v) (take IRRV_UUID_LEN (drop IRRV_UUID_LEN ?v))")
    case True
    then have "granted sv (ir_trace w1)"
      unfolding tr1 by (intro granted_now h take_two) (simp_all add: irrv_check_authentication_def)
    then have "auth_inv (w1\<lparr>auth_pass := (auth_pass w1)(sv \<mapsto> True)\<rparr>)" using i1 by (simp add: auth_inv_def)
    then show ?thesis using r rc True auth_inv_send [of _ Ack] by (auto simp: handle_auth_def)
  next
    case False
    let ?w1 = "w1\<lparr>auth_pass := (auth_pass w1)(sv \<mapsto> False)\<rparr>"
    obtain w2 where w2: "send_client Ack sv (irrv_vauth_event_t AUTH_FAILED) ?w1 = Some w2"
      "close_client sv w2 = Some w'"
      using r rc False by (auto simp: handle_auth_def split: bind_splits)
    have "auth_inv w2 \<and> \<not> irrv_get_auth_state sv w2"
      using auth_inv_send [OF auth_inv_lower [OF i1] w2(1)] by simp
    then show ?thesis using auth_inv_close [OF _ w2(2)] by blast
  qed
qed

text \<open>No setting touches the authentication flag or the number of clients.\<close>

definition kept :: "streamer \<Rightarrow> streamer \<Rightarrow> bool" where
  "kept st st' \<longleftrightarrow> irr_stream_getAuthFlag st' = irr_stream_getAuthFlag st
     \<and> irr_stream_getClientNum st' = irr_stream_getClientNum st \<and> (st' = None \<longleftrightarrow> st = None)"

named_theorems kept_rules \<open>streamer operations that keep the flag and the count\<close>

lemma kept_refl [kept_rules]: "kept st st"
  by (simp add: kept_def)

lemma kept_trans: "kept a b \<Longrightarrow> kept b c \<Longrightarrow> kept a c"
  by (simp add: kept_def)

lemma kept_map:
  assumes "\<And>s. m_auth (f s) = m_auth s \<and> m_nClientNum (f s) = m_nClientNum s"
  shows "kept st (map_option f st)"
  using assms by (cases st) (simp_all add: kept_def irr_stream_getAuthFlag_def irr_stream_getClientNum_def)

lemma log_call_sel [simp]: "m_auth (log_call c s) = m_auth s" "m_nClientNum (log_call c s) = m_nClientNum s"
  by (simp_all add: log_call_def)

lemma fold_log_sel [simp]: "m_auth (fold log_call cs s) = m_auth s" "m_nClientNum (fold log_call cs s) = m_nClientNum s"
  by (induction cs arbitrary: s) simp_all

lemma kept_wrap:
  assumes "\<And>s. m_auth (snd (f s)) = m_auth s \<and> m_nClientNum (snd (f s)) = m_nClientNum s"
  shows "kept st (snd (wrap e f st))"
proof (cases st)
  case (Some s)
  then show ?thesis using assms [of s]
    by (auto simp: kept_def wrap_def irr_stream_getAuthFlag_def irr_stream_getClientNum_def split: prod.splits)
qed (simp add: kept_def wrap_def)

lemma kept_flags [kept_rules]:
  "kept st (irr_stream_setEncodeFlag b st)" "kept st (irr_stream_setTransmitFlag b st)"
  "kept st (irr_stream_first_start_encdoding b st)" "kept st (irr_stream_set_skipframe b st)"
  "kept st (irr_stream_set_screen_capture_flag b st)" "kept st (irr_sream_set_screen_capture_interval i st)"
  "kept st (irr_stream_set_screen_capture_quality i st)" "kept st (irr_stream_runtime_writer_start m st)"
  "kept st (irr_stream_runtime_writer_stop m st)" "kept st (irr_stream_runtime_writer_start_with_frame_num i st)"
  unfolding irr_stream_setEncodeFlag_def irr_stream_setTransmitFlag_def irr_stream_first_start_encdoding_def
    irr_stream_set_skipframe_def irr_stream_set_screen_capture_flag_def irr_sream_set_screen_capture_interval_def
    irr_stream_set_screen_capture_quality_def irr_stream_runtime_writer_start_def irr_stream_runtime_writer_stop_def
    irr_stream_runtime_writer_start_with_frame_num_def with_writer_def
  by (rule kept_map; simp add: setEncodeFlag_def setTransmitFlag_def setFisrtStartEncoding_def forward_void_def)+

lemma kept_settings [kept_rules]:
  "kept st (snd (irr_stream_force_keyframe v st))" "kept st (snd (irr_stream_set_qp v st))"
  "kept st (snd (irr_stream_set_bitrate v st))" "kept st (snd (irr_stream_set_max_bitrate v st))"
  "kept st (snd (irr_stream_set_max_frame_size tr v st))"
  "kept st (snd (irr_stream_set_rolling_intra_refresh a b c st))" "kept st (snd (irr_stream_set_min_max_qp tr a b st))"
  "kept st (snd (irr_stream_change_resolution a b st))" "kept st (snd (irr_stream_set_sei tr a b st))"
  "kept st (snd (irr_stream_set_gop_size tr v st))" "kept st (snd (irr_stream_change_profile_level tr a b st))"
  unfolding irr_stream_force_keyframe_def irr_stream_set_qp_def irr_stream_set_bitrate_def irr_stream_set_max_bitrate_def
    irr_stream_set_max_frame_size_def irr_stream_set_rolling_intra_refresh_def
    irr_stream_set_min_max_qp_def irr_stream_change_resolution_def irr_stream_set_sei_def irr_stream_set_gop_size_def
    irr_stream_change_profile_level_def
  by (rule kept_wrap; simp add: forward_def force_key_frame_def change_resolution_def Let_def)+

lemma kept_change_codec: "irr_stream_change_codec tr v st = Some (r, st') \<Longrightarrow> kept st st'"
  by (cases st) (auto simp: irr_stream_change_codec_def change_codec_def kept_def Let_def irr_stream_getAuthFlag_def
      irr_stream_getClientNum_def split: if_splits)

lemma kept_framerate: "irr_stream_set_framerate v st = Some (r, st') \<Longrightarrow> kept st st'"
  by (cases st) (auto simp: irr_stream_set_framerate_def set_framerate_def kept_def irr_stream_getAuthFlag_def
      irr_stream_getClientNum_def split: if_splits)

lemma kept_client_feedback: "irr_stream_set_client_feedback tr a b st = Some (r, st') \<Longrightarrow> kept st st'"
  by (cases st) (auto simp: irr_stream_set_client_feedback_def set_client_feedback_def kept_def
      irr_stream_getAuthFlag_def irr_stream_getClientNum_def split: if_splits)

lemma kept_step1: "step1 got f i st = Some st' \<Longrightarrow> (\<And>a. kept st (f a st)) \<Longrightarrow> kept st st'"
  by (auto simp: step1_def split: bind_splits)

lemma kept_step2: "step2 got f i st = Some st' \<Longrightarrow> (\<And>a b. kept st (f a b st)) \<Longrightarrow> kept st st'"
  by (auto simp: step2_def split: bind_splits)

lemma kept_three: "kept st (f st) \<Longrightarrow> kept (f st) (g (f st)) \<Longrightarrow> kept (g (f st)) st'' \<Longrightarrow> kept st st''"
  using kept_trans by blast

lemma apply_ctrl_kept:
  assumes "apply_ctrl tr t got st = Some st'"
  shows "kept st st'"
  using assms unfolding apply_ctrl_def
  by (auto split: if_splits bind_splits elim!: kept_step1 kept_step2
      intro: kept_rules kept_change_codec kept_framerate kept_client_feedback kept_three)

text \<open>The world a call leaves, by a return or by the exception.\<close>

fun world :: "irrv thrown \<Rightarrow> irrv" where
  "world (Returned w) = w"
| "world (Out_of_range w) = w"

lemma handle_ctrl_inv:
  assumes inv: "auth_inv w" and auth: "irrv_get_auth_state sv w" and r: "handle_ctrl tr sv w = Some r"
  shows "auth_inv (world r)"
proof -
  obtain got w1 where rc: "recv_client sv sizeof_vctrl w = Some (got, w1)"
    using r by (auto simp: handle_ctrl_def split: bind_splits)
  have i1: "auth_inv w1" using inv rc by (rule auth_inv_recv)
  have a1: "irrv_get_auth_state sv w1" using auth recv_client_frame [OF rc] auth_state_cong by metis
  have upd: "auth_inv (note_ev (Applied sv got) (w1\<lparr>ir_streamer := st\<rparr>))" if "kept (ir_streamer w1) st" for st
  proof (rule auth_inv_note)
    show i: "auth_inv (w1\<lparr>ir_streamer := st\<rparr>)" using i1 that by (intro auth_inv_streamer) (simp_all add: kept_def)
    show "granted v (ir_trace (w1\<lparr>ir_streamer := st\<rparr>))" if "needs_grant (Applied sv got) = Some v" for v
      using that a1 i1 by (auto simp: auth_inv_def)
  qed simp
  show ?thesis using r rc i1 upd apply_ctrl_kept
    by (auto simp: handle_ctrl_def split: bind_splits if_splits)
qed

lemma new_client_inv:
  assumes inv: "auth_inv w" and r: "new_client a sv w = Some w'"
  shows "auth_inv w'"
proof -
  obtain s p s' fds where c: "servers w sv = Some s"
    "sock_server_create_client (Some s) (pa_accept a) (pa_ioctl a) (pa_malloc a) (ir_fds w) = (p, s', fds)"
    using r by (cases "sock_server_create_client (servers w sv) (pa_accept a) (pa_ioctl a) (pa_malloc a) (ir_fds w)")
      (auto simp: new_client_def split: bind_splits)
  let ?w1 = "w\<lparr>clients := (clients w)(sv := p), servers := (servers w)(sv := s'), ir_fds := fds\<rparr>"
  let ?w2 = "if p = None then ?w1 else note_ev (Accepted sv) ?w1"
  have "auth_inv ?w1" using inv auth_inv_cong [of ?w1 w] by simp
  then have "auth_inv ?w2" using auth_inv_note [of ?w1 "Accepted sv"] by (cases p) simp_all
  then have "auth_inv (on_streamer irr_stream_incClient ?w2)"
    by (rule auth_inv_on_streamer)
      (simp add: irr_stream_incClient_def irr_stream_getAuthFlag_def incClientNum_def split: option.split)
  moreover obtain d where "send_client Head sv d (on_streamer irr_stream_incClient ?w2) = Some w'"
    using r c by (auto simp: new_client_def Let_def split: prod.splits)
  ultimately show ?thesis using auth_inv_send [of _ Head] by blast
qed

lemma accept_new_inv:
  assumes "auth_inv w" "accept_new a sv w = Some w'"
  shows "auth_inv w'"
proof -
  have "auth_inv (w\<lparr>ir_fds := fds\<rparr>)" for fds using assms(1) auth_inv_cong [of "w\<lparr>ir_fds := fds\<rparr>" w] by simp
  from this new_client_inv [OF this] show ?thesis using assms
    by (auto simp: accept_new_def split: if_splits bind_splits)
qed

lemma auth_inv_kept: "auth_inv w \<Longrightarrow> (\<And>st. kept st (f st)) \<Longrightarrow> auth_inv (on_streamer f w)"
  by (rule auth_inv_on_streamer) (simp_all add: kept_def)

lemma client_gone_inv:
  assumes "auth_inv w" "client_gone sv w = Some w'"
  shows "auth_inv w'"
proof -
  obtain w1 where w1: "close_client sv w = Some w1" using assms(2) by (auto simp: client_gone_def split: bind_splits)
  let ?w2 = "on_streamer irr_stream_decClient (w1\<lparr>auth_pass := (auth_pass w1)(sv \<mapsto> False)\<rparr>)"
  have "auth_inv ?w2" using auth_inv_close_lower [OF assms(1) w1]
    by (rule auth_inv_on_streamer)
      (simp add: irr_stream_decClient_def irr_stream_getAuthFlag_def decClientNum_def split: option.split)
  moreover have "auth_inv (on_streamer (irr_stream_setTransmitFlag False) (on_streamer (irr_stream_setEncodeFlag False) ?w2))"
    by (rule auth_inv_kept [OF auth_inv_kept [OF calculation]]) (rule kept_flags)+
  ultimately show ?thesis using assms(2) w1 by (auto simp: client_gone_def Let_def split: if_splits)
qed

lemma client_readable_inv:
  assumes inv: "auth_inv w" and r: "client_readable a True sv w = Some r"
  shows "auth_inv (world r)"
proof -
  obtain got w1 where rc: "recv_client sv sizeof_event w = Some (got, w1)"
    using r by (auto simp: client_readable_def split: bind_splits)
  have i1: "auth_inv w1" using inv rc by (rule auth_inv_recv)
  have tr1: "ir_trace w1 = ir_trace w @ [Received sv got]" using recv_client_frame [OF rc] by simp
  let ?type = "event_type (filled sizeof_event got)"
  obtain w2 where w2: "(if ?type = IRRV_EVENT_VAUTH then handle_auth sv w1 else Some w1) = Some w2"
    "(if ?type = IRRV_EVENT_VCTRL \<and> irrv_get_auth_state sv w2 then handle_ctrl (pa_trans a) sv w2
      else Some (Returned w2)) = Some r"
    using r rc by (auto simp: client_readable_def Let_def split: bind_splits)
  have "auth_inv w2" using w2(1) i1 handle_auth_inv [OF i1 tr1] by (auto split: if_splits)
  then show ?thesis using w2(2) handle_ctrl_inv by (auto split: if_splits)
qed

lemma serve_client_inv:
  assumes inv: "auth_inv w" and r: "serve_client a True sv w = Some r"
  shows "auth_inv (world r)"
proof -
  have i: "auth_inv (w\<lparr>servers := f\<rparr>)" for f using inv auth_inv_cong [of "w\<lparr>servers := f\<rparr>" w] by simp
  then show ?thesis using r client_readable_inv [OF i] client_gone_inv [OF i]
    by (auto simp: serve_client_def Let_def split: bind_splits if_splits sock_conn_status_t.splits)
qed

lemma irrv_poll_inv:
  assumes "auth_inv w" "irrv_poll a sv w = Some r"
  shows "auth_inv (world r)"
proof (cases "sv = 0")
  case False
  have "irr_stream_getAuthFlag (ir_streamer w)" using assms(1) by (simp add: auth_inv_def)
  then obtain w1 where "accept_new a sv w = Some w1" "serve_client a True sv w1 = Some r"
    using assms(2) False by (auto simp: irrv_poll_def split: bind_splits)
  then show ?thesis using accept_new_inv [OF assms(1)] serve_client_inv by blast
qed (use assms in \<open>auto simp: irrv_poll_def\<close>)

lemma send_frame_inv:
  assumes "auth_inv w" "irrv_get_auth_state sv w" "send_frame a sv flags data w = Some w'"
  shows "auth_inv w'"
proof -
  obtain d w1 where w1: "send_client Frame sv d w = Some w1" "send_client Frame sv data w1 = Some w'"
    using assms(3) by (auto simp: send_frame_def Let_def split: prod.splits bind_splits)
  then have "auth_inv w1" "irrv_get_auth_state sv w1" using auth_inv_send [OF assms(1)] assms(2) by blast+
  then show ?thesis using auth_inv_send w1(2) by blast
qed

section \<open>Histories\<close>

datatype irrv_op =
    Poll poll_answers
  | Write poll_answers bytes u32
  | Write2 poll_answers bytes int
  | Send_message int u32
  | Close

fun no_result :: "(int \<times> irrv) thrown \<Rightarrow> irrv thrown" where
  "no_result (Returned (_, w)) = Returned w"
| "no_result (Out_of_range w) = Out_of_range w"

fun irrv_do :: "irrv_op \<Rightarrow> nat \<Rightarrow> irrv \<Rightarrow> irrv thrown option" where
  "irrv_do (Poll a) sv w = irrv_poll a sv w"
| "irrv_do (Write a data flags) sv w =
     map_option no_result (irrv_writeback a sv data flags w)"
| "irrv_do (Write2 a data type) sv w =
     map_option no_result (irrv_writeback2 a sv data type w)"
| "irrv_do (Send_message msg v) sv w = map_option (\<lambda>r. Returned (snd r)) (irrv_send_message sv msg v w)"
| "irrv_do Close sv w = map_option Returned (irrv_close sv w)"

text \<open>A history of calls on the servers; an exception ends it.\<close>

fun irrv_run :: "(nat \<times> irrv_op) list \<Rightarrow> irrv \<Rightarrow> irrv thrown option" where
  "irrv_run [] w = Some (Returned w)"
| "irrv_run ((sv, op) # ops) w = do {
     r \<leftarrow> irrv_do op sv w;
     (case r of Returned w' \<Rightarrow> irrv_run ops w' | Out_of_range w' \<Rightarrow> Some (Out_of_range w')) }"

lemma run_invariant:
  assumes "\<And>op sv w r. I w \<Longrightarrow> irrv_do op sv w = Some r \<Longrightarrow> I (world r)" "I w" "irrv_run ops w = Some r"
  shows "I (world r)"
  using assms(2,3)
proof (induction ops arbitrary: w)
  case (Cons a ops)
  obtain sv op where a: "a = (sv, op)" by (cases a)
  obtain x where x: "irrv_do op sv w = Some x"
    "(case x of Returned w' \<Rightarrow> irrv_run ops w' | Out_of_range w' \<Rightarrow> Some (Out_of_range w')) = Some r"
    using Cons.prems(2) by (auto simp: a split: bind_splits)
  have "I (world x)" using assms(1) Cons.prems(1) x(1) by blast
  then show ?case using x(2) Cons.IH by (cases x) auto
qed auto

text \<open>What holds after the poll and after the sending that follows it holds after the whole call.\<close>

lemma after_poll_world:
  assumes "after_poll p f = Some r" "\<And>x. p = Some x \<Longrightarrow> I (world x)" "\<And>w w'. I w \<Longrightarrow> f w = Some w' \<Longrightarrow> I w'"
  shows "I (world (no_result r))"
proof -
  obtain x where x: "p = Some x" using assms(1) by (auto simp: after_poll_def split: bind_splits)
  then have "I (world x)" by (rule assms(2))
  then show ?thesis using assms(1,3) x by (cases x) (auto simp: after_poll_def split: bind_splits)
qed

lemma irrv_close_inv:
  assumes inv: "auth_inv w" and r: "irrv_close sv w = Some w'"
  shows "auth_inv w'"
proof (cases "sv = 0")
  case False
  obtain w1 where w1: "(if irrv_have_client sv w then close_client sv w else Some w) = Some w1"
    using r False by (auto simp: irrv_close_def split: bind_splits)
  let ?w2 = "case auth_pass w1 sv of None \<Rightarrow> w1 | Some _ \<Rightarrow> w1\<lparr>auth_pass := (auth_pass w1)(sv \<mapsto> False)\<rparr>"
  have "auth_inv ?w2"
  proof (cases "auth_pass w1 sv")
    case None
    have "auth_pass w1 = auth_pass w" using w1 close_client_frame by (auto split: if_splits)
    then have "\<not> irrv_get_auth_state sv w" using None by (simp add: irrv_get_auth_state_def)
    then show ?thesis using None w1 inv auth_inv_close by (auto split: if_splits)
  next
    case (Some b)
    then show ?thesis using w1 inv auth_inv_close_lower auth_inv_lower by (auto split: if_splits)
  qed
  moreover obtain f g where "w' = ?w2\<lparr>servers := f, ir_fds := g\<rparr>"
    using r False w1 by (auto simp: irrv_close_def Let_def split: bind_splits)
  ultimately show ?thesis using auth_inv_cong [of w' ?w2] by simp
qed (use assms in \<open>simp add: irrv_close_def\<close>)

lemma maybe_frame_inv:
  assumes "auth_inv w" "(if c \<and> may_send True sv w then send_frame a sv fl d w else Some w) = Some w'"
  shows "auth_inv w'"
proof (cases "c \<and> may_send True sv w")
  case True
  then have "irrv_get_auth_state sv w" "send_frame a sv fl d w = Some w'" using assms(2) by (simp_all add: may_send_def)
  then show ?thesis by (rule send_frame_inv [OF assms(1)])
qed (use assms in auto)

lemma irrv_do_inv:
  assumes inv: "auth_inv w" and r: "irrv_do op sv w = Some r"
  shows "auth_inv (world r)"
proof -
  have flag: "irr_stream_getAuthFlag (ir_streamer w) = True" using inv by (simp add: auth_inv_def)
  show ?thesis
  proof (cases op)
    case (Poll a)
    then show ?thesis using r irrv_poll_inv [OF inv] by simp
  next
    case (Write a d fl)
    let ?w = "w\<lparr>g_wb_frame_idx := g_wb_frame_idx w + 1\<rparr>"
    have i: "auth_inv ?w" using inv auth_inv_cong [of ?w w] by simp
    obtain y where y: "irrv_writeback a sv d fl w = Some y" "r = no_result y" using r by (auto simp: Write)
    show ?thesis using y(1) unfolding y(2) irrv_writeback_def Let_def flag
      by (rule after_poll_world) (fact irrv_poll_inv [OF i], fact maybe_frame_inv)
  next
    case (Write2 a d t)
    obtain y where y: "irrv_writeback2 a sv d t w = Some y" "r = no_result y" using r by (auto simp: Write2)
    show ?thesis using y(1) unfolding y(2) irrv_writeback2_def Let_def flag
      by (rule after_poll_world) (fact irrv_poll_inv [OF inv], metis maybe_frame_inv)
  next
    case (Send_message m v)
    then show ?thesis using r inv auth_inv_send [of w Message]
      by (auto simp: irrv_send_message_def split: if_splits bind_splits)
  next
    case Close
    then show ?thesis using r irrv_close_inv [OF inv] by auto
  qed
qed

section \<open>A session\<close>

text \<open>A server on descriptor 3 whose client comes on descriptor 5; the kernel takes and gives whole blocks.\<close>

definition idle :: poll_answers where
  "idle = \<lparr>pa_new_nsel = 0, pa_new_ready = {}, pa_new_acc = -1, pa_accept = -1, pa_ioctl = 0, pa_malloc = True,
     pa_nsel = 0, pa_ready = {}, pa_nread = 0, pa_new_width = 0, pa_new_height = 0, pa_trans = (\<lambda>_. 0)\<rparr>"

definition arriving :: poll_answers where
  "arriving = idle\<lparr>pa_new_nsel := 1, pa_new_ready := {3}, pa_accept := 5\<rparr>"

definition talking :: poll_answers where
  "talking = idle\<lparr>pa_nsel := 1, pa_ready := {5}, pa_nread := 76\<rparr>"

definition leaving :: poll_answers where
  "leaving = idle\<lparr>pa_nsel := 1, pa_ready := {5}\<rparr>"

definition whole_io :: "nat list \<Rightarrow> bytes list \<Rightarrow> sock_io" where
  "whole_io ns bs = \<lparr>io_errno = 0, io_sends = map (\<lambda>n. (0, [(Done n, 0)])) ns,
     io_recvs = map (\<lambda>b. (0, [(Done b, 0)])) bs\<rparr>"

definition listening :: "bool \<Rightarrow> sock_io \<Rightarrow> irrv" where
  "listening auth io = \<lparr>clients = Map.empty, auth_pass = Map.empty, g_wb_frame_idx = 0,
     servers = [1 \<mapsto> one_conn\<lparr>client_slots := replicate 512 (-1)\<rparr>], ir_fds = {0, 3}, ir_io = io,
     ir_streamer = Some (if auth then (streamer_new 640 480 30)\<lparr>m_auth := True\<rparr> else streamer_new 640 480 30), ir_trace = []\<rparr>"

definition connected :: "bool \<Rightarrow> sock_io \<Rightarrow> irrv" where
  "connected auth io = (listening auth io)\<lparr>clients := [1 \<mapsto> \<lparr>cp_id = 0\<rparr>], servers := [1 \<mapsto> one_conn]\<rparr>"

definition credentials :: "bytes list" where
  "credentials = [irrv_event_t IRRV_EVENT_VAUTH 76, auth_id @ auth_key @ zeros 28]"

definition session :: "(nat \<times> irrv_op) list" where
  "session = [(1, Poll arriving), (1, Poll talking), (1, Write idle [7, 8] 1)]"

definition irrv_start :: "irrv \<Rightarrow> bool" where
  "irrv_start w \<longleftrightarrow> clients w = Map.empty \<and> auth_pass w = Map.empty \<and> ir_trace w = []"

text \<open>
  C2. When authentication is on, then in every history of polls, frames, messages and closings, on any number of
  servers and with any answers of the kernel, a byte of a frame is sent and a control message is obeyed only on a
  connection that has presented the identifier and the key since it was made.
\<close>

theorem irrv_authenticated_only:
  assumes "irrv_start w" "irr_stream_getAuthFlag (ir_streamer w)" "irrv_run ops w = Some r"
  shows "safe (ir_trace (world r))"
proof -
  have "auth_inv w" using assms(1,2) by (simp add: irrv_start_def auth_inv_def safe_Nil irrv_get_auth_state_def)
  then have "auth_inv (world r)" using run_invariant [of auth_inv] irrv_do_inv assms(3) by blast
  then show ?thesis by (simp add: auth_inv_def)
qed

lemma session_frames:
  "map_option (\<lambda>r. length (filter (\<lambda>e. needs_grant e \<noteq> None) (ir_trace (world r))))
     (irrv_run session (listening True (whole_io [48, 76, 48, 2] credentials))) = Some 2"
  by code_simp

theorem irrv_authenticated_only_witness:
  "\<exists>r. irrv_run session (listening True (whole_io [48, 76, 48, 2] credentials)) = Some r
    \<and> length (filter (\<lambda>e. needs_grant e \<noteq> None) (ir_trace (world r))) = 2 \<and> safe (ir_trace (world r))"
proof -
  let ?w = "listening True (whole_io [48, 76, 48, 2] credentials)"
  obtain r where r: "irrv_run session ?w = Some r" "length (filter (\<lambda>e. needs_grant e \<noteq> None) (ir_trace (world r))) = 2"
    using session_frames by auto
  moreover have "safe (ir_trace (world r))" using r(1)
    by (intro irrv_authenticated_only [of ?w session])
      (simp_all add: irrv_start_def listening_def irr_stream_getAuthFlag_def)
  ultimately show ?thesis by blast
qed

section \<open>The number of clients\<close>

text \<open>The streamer counts at least the clients that are connected.\<close>

definition covered :: "irrv \<Rightarrow> bool" where
  "covered w \<longleftrightarrow> ir_streamer w \<noteq> None \<and> finite (dom (clients w))
     \<and> int (card (dom (clients w))) \<le> irr_stream_getClientNum (ir_streamer w)"

lemma covered_kept:
  assumes "covered w" "dom (clients w') \<subseteq> dom (clients w)" "kept (ir_streamer w) (ir_streamer w')"
  shows "covered w'"
proof -
  have "card (dom (clients w')) \<le> card (dom (clients w))"
    using assms(1,2) by (intro card_mono) (simp_all add: covered_def)
  then show ?thesis using assms finite_subset [OF assms(2)] by (auto simp: covered_def kept_def)
qed

lemma covered_send: "covered w \<Longrightarrow> send_client k sv d w = Some w' \<Longrightarrow> covered w'"
  using send_client_frame covered_kept kept_refl by (metis order_refl)

lemma covered_recv: "covered w \<Longrightarrow> recv_client sv n w = Some (got, w') \<Longrightarrow> covered w'"
  using recv_client_frame covered_kept kept_refl by (metis order_refl)

lemma covered_close: "covered w \<Longrightarrow> close_client sv w = Some w' \<Longrightarrow> covered w'"
  using close_client_frame [of sv w w'] covered_kept [of w w'] kept_refl by auto

lemma covered_auth_pass [simp]: "covered (w\<lparr>auth_pass := f\<rparr>) = covered w"
  by (simp add: covered_def)

lemma covered_on_streamer: "covered w \<Longrightarrow> (\<And>st. kept st (f st)) \<Longrightarrow> covered (on_streamer f w)"
  using covered_kept [of w "on_streamer f w"] by (simp add: on_streamer_def)

lemma covered_handle_auth: "covered w \<Longrightarrow> handle_auth sv w = Some w' \<Longrightarrow> covered w'"
proof -
  assume c: "covered w" and r: "handle_auth sv w = Some w'"
  obtain got w1 where rc: "recv_client sv sizeof_vauth w = Some (got, w1)"
    using r by (auto simp: handle_auth_def split: bind_splits)
  have c1: "covered (w1\<lparr>auth_pass := f\<rparr>)" for f using covered_recv [OF c rc] by simp
  show "covered w'" using r rc covered_send [OF c1] covered_close [OF covered_send [OF c1]]
    by (auto simp: handle_auth_def Let_def split: bind_splits if_splits)
qed

lemma covered_handle_ctrl:
  assumes "covered w" "handle_ctrl tr sv w = Some r"
  shows "covered (world r)"
proof -
  obtain got w1 where rc: "recv_client sv sizeof_vctrl w = Some (got, w1)"
    using assms(2) by (auto simp: handle_ctrl_def split: bind_splits)
  have c: "covered w1" using assms(1) rc by (rule covered_recv)
  have "covered (note_ev e (w1\<lparr>ir_streamer := st\<rparr>))" if "kept (ir_streamer w1) st" for e st
    using c that by (auto intro: covered_kept simp: note_ev_def)
  then show ?thesis using assms(2) rc c apply_ctrl_kept
    by (auto simp: handle_ctrl_def split: bind_splits if_splits)
qed

lemma covered_new_client:
  assumes "covered w" "new_client a sv w = Some w'"
  shows "covered w'"
proof -
  obtain s p s' fds where c: "servers w sv = Some s"
    "sock_server_create_client (Some s) (pa_accept a) (pa_ioctl a) (pa_malloc a) (ir_fds w) = (p, s', fds)"
    using assms(2) by (cases "sock_server_create_client (servers w sv) (pa_accept a) (pa_ioctl a) (pa_malloc a) (ir_fds w)")
      (auto simp: new_client_def split: bind_splits)
  let ?w1 = "w\<lparr>clients := (clients w)(sv := p), servers := (servers w)(sv := s'), ir_fds := fds\<rparr>"
  let ?w2 = "on_streamer irr_stream_incClient (if p = None then ?w1 else note_ev (Accepted sv) ?w1)"
  have cl: "clients ?w2 = (clients w)(sv := p)" "ir_streamer ?w2 = irr_stream_incClient (ir_streamer w)"
    by (simp_all add: on_streamer_def note_ev_def)
  have fin: "finite (dom (clients w))" using assms(1) by (simp add: covered_def)
  have sub: "dom ((clients w)(sv := p)) \<subseteq> insert sv (dom (clients w))" by auto
  have "card (dom ((clients w)(sv := p))) \<le> card (insert sv (dom (clients w)))"
    using fin sub by (intro card_mono) auto
  also have "\<dots> \<le> card (dom (clients w)) + 1" using fin by (simp add: card_insert_if)
  finally have "covered ?w2" using assms(1) fin finite_subset [OF sub] unfolding covered_def cl
    by (auto simp: irr_stream_incClient_def irr_stream_getClientNum_def incClientNum_def)
  moreover obtain d where "send_client Head sv d ?w2 = Some w'"
    using assms(2) c by (auto simp: new_client_def Let_def split: prod.splits)
  ultimately show ?thesis by (rule covered_send)
qed

lemma covered_client_gone:
  assumes "covered w" "irrv_have_client sv w" "client_gone sv w = Some w'"
  shows "covered w'"
proof -
  obtain w1 where w1: "close_client sv w = Some w1" using assms(3) by (auto simp: client_gone_def split: bind_splits)
  let ?w2 = "on_streamer irr_stream_decClient (w1\<lparr>auth_pass := (auth_pass w1)(sv \<mapsto> False)\<rparr>)"
  have cl: "clients ?w2 = (clients w)(sv := None)" "ir_streamer ?w2 = irr_stream_decClient (ir_streamer w)"
    using close_client_frame [OF w1] by (simp_all add: on_streamer_def)
  have "card (dom (clients w)) = Suc (card (dom (clients w) - {sv}))"
    using assms(1,2) by (intro card.remove) (auto simp: covered_def irrv_have_client_def)
  then have c: "covered ?w2" using assms(1) unfolding covered_def cl
    by (auto simp: irr_stream_decClient_def irr_stream_getClientNum_def decClientNum_def)
  have "covered (on_streamer (irr_stream_setTransmitFlag False) (on_streamer (irr_stream_setEncodeFlag False) ?w2))"
    by (rule covered_on_streamer [OF covered_on_streamer [OF c]]) (rule kept_flags)+
  then show ?thesis using c assms(3) w1 by (auto simp: client_gone_def Let_def split: if_splits)
qed

lemma covered_client_readable:
  assumes c: "covered w" and r: "client_readable a auth sv w = Some r"
  shows "covered (world r)"
proof -
  obtain got w1 where rc: "recv_client sv sizeof_event w = Some (got, w1)"
    using r by (auto simp: client_readable_def split: bind_splits)
  let ?type = "event_type (filled sizeof_event got)"
  obtain w2 where w2: "(if ?type = IRRV_EVENT_VAUTH \<and> auth then handle_auth sv w1 else Some w1) = Some w2"
    "(if ?type = IRRV_EVENT_VCTRL \<and> (\<not> auth \<or> irrv_get_auth_state sv w2) then handle_ctrl (pa_trans a) sv w2
      else Some (Returned w2)) = Some r"
    using r rc by (auto simp: client_readable_def Let_def split: bind_splits)
  have "covered w2" using w2(1) covered_recv [OF c rc] covered_handle_auth by (auto split: if_splits)
  then show ?thesis using w2(2) covered_handle_ctrl by (auto split: if_splits)
qed

lemma covered_poll:
  assumes "covered w" "irrv_poll a sv w = Some r"
  shows "covered (world r)"
proof -
  have upd: "covered (w1\<lparr>servers := f\<rparr>)" "covered (w1\<lparr>ir_fds := g\<rparr>)" if "covered w1" for w1 f g
    using that by (simp_all add: covered_def)
  have acc: "covered w1" if "accept_new a sv w = Some w1" for w1
    using that assms(1) covered_new_client [OF upd(2)] upd(2)
    by (auto simp: accept_new_def split: if_splits bind_splits)
  have "covered (world r)" if "covered w1" "serve_client a auth sv w1 = Some r" for w1 auth
    using that covered_client_readable [OF upd(1) [OF that(1)]] covered_client_gone [OF upd(1) [OF that(1)]] upd(1) [OF that(1)]
    by (auto simp: serve_client_def Let_def split: bind_splits if_splits sock_conn_status_t.splits)
  then show ?thesis using assms acc by (auto simp: irrv_poll_def Let_def split: if_splits bind_splits)
qed

lemma covered_maybe_frame:
  assumes "covered w" "(if c then send_frame a sv fl d w else Some w) = Some w'"
  shows "covered w'"
  using assms covered_send [OF covered_send [OF assms(1)]]
  by (auto simp: send_frame_def Let_def split: if_splits bind_splits prod.splits)

lemma covered_close_server:
  assumes "covered w" "irrv_close sv w = Some w'"
  shows "covered w'"
proof (cases "sv = 0")
  case False
  obtain w1 where w1: "(if irrv_have_client sv w then close_client sv w else Some w) = Some w1"
    using assms(2) False by (auto simp: irrv_close_def split: bind_splits)
  then have "covered w1" using assms(1) covered_close by (auto split: if_splits)
  moreover have "clients w' = clients w1 \<and> ir_streamer w' = ir_streamer w1"
    using assms(2) False w1 by (auto simp: irrv_close_def Let_def split: bind_splits option.splits)
  ultimately show ?thesis by (simp add: covered_def)
qed (use assms in \<open>simp add: irrv_close_def\<close>)

lemma covered_do:
  assumes c: "covered w" and r: "irrv_do op sv w = Some r"
  shows "covered (world r)"
proof (cases op)
  case (Poll a)
  then show ?thesis using r covered_poll [OF c] by simp
next
  case (Write a d fl)
  have i: "covered (w\<lparr>g_wb_frame_idx := g_wb_frame_idx w + 1\<rparr>)" using c by (simp add: covered_def)
  obtain y where y: "irrv_writeback a sv d fl w = Some y" "r = no_result y" using r by (auto simp: Write)
  show ?thesis using y(1) unfolding y(2) irrv_writeback_def Let_def
    by (rule after_poll_world) (fact covered_poll [OF i], fact covered_maybe_frame)
next
  case (Write2 a d t)
  obtain y where y: "irrv_writeback2 a sv d t w = Some y" "r = no_result y" using r by (auto simp: Write2)
  show ?thesis using y(1) unfolding y(2) irrv_writeback2_def Let_def
    by (rule after_poll_world) (fact covered_poll [OF c], fact covered_maybe_frame)
next
  case (Send_message m v)
  then show ?thesis using r c covered_send [OF c] by (auto simp: irrv_send_message_def split: if_splits bind_splits)
next
  case Close
  then show ?thesis using r covered_close_server [OF c] by auto
qed


lemma departure_count:
  "map_option (\<lambda>r. (irrv_have_client 1 (world r), irr_stream_getClientNum (ir_streamer (world r))))
     (irrv_run [(1, Poll arriving), (1, Poll leaving)] (listening False (whole_io [48] []))) = Some (False, 0)"
  by code_simp


section \<open>Where the code is wrong\<close>

lemma length_auth: "length auth_id = IRRV_UUID_LEN"
  by (simp add: auth_id_def filled_def zeros_def c_bytes_def IRRV_UUID_LEN_def)

lemma check_two:
  "irrv_check_authentication (take IRRV_UUID_LEN v) (take IRRV_UUID_LEN (drop IRRV_UUID_LEN v))
   \<longleftrightarrow> take (2 * IRRV_UUID_LEN) v = auth_id @ auth_key"
proof
  assume "irrv_check_authentication (take IRRV_UUID_LEN v) (take IRRV_UUID_LEN (drop IRRV_UUID_LEN v))"
  then show "take (2 * IRRV_UUID_LEN) v = auth_id @ auth_key"
    by (intro take_two) (simp_all add: irrv_check_authentication_def)
next
  assume eq: "take (2 * IRRV_UUID_LEN) v = auth_id @ auth_key"
  have "take IRRV_UUID_LEN v = take IRRV_UUID_LEN (take (2 * IRRV_UUID_LEN) v)" by (simp add: min_def)
  moreover have "take IRRV_UUID_LEN (drop IRRV_UUID_LEN v) = drop IRRV_UUID_LEN (take (2 * IRRV_UUID_LEN) v)"
    by (simp add: drop_take mult_2)
  ultimately show "irrv_check_authentication (take IRRV_UUID_LEN v) (take IRRV_UUID_LEN (drop IRRV_UUID_LEN v))"
    unfolding eq irrv_check_authentication_def by (simp add: length_auth)
qed

text \<open>
  A client refused for a wrong key is disconnected, but stays counted: the number of clients and the flags are
  what they were. Encoding, which stops when the number reaches 0, is then never stopped by a departure again.
\<close>

theorem irrv_refused_stays_counted:
  assumes "recv_client sv sizeof_event w = Some (h, w1)" "event_type (filled sizeof_event h) = IRRV_EVENT_VAUTH"
    "recv_client sv sizeof_vauth w1 = Some (b, w2)"
    "take (2 * IRRV_UUID_LEN) (filled sizeof_vauth b) \<noteq> auth_id @ auth_key"
    "client_readable a True sv w = Some r"
  shows "\<not> irrv_have_client sv (world r) \<and> ir_streamer (world r) = ir_streamer w"
proof -
  have ne: "IRRV_EVENT_VAUTH \<noteq> IRRV_EVENT_VCTRL" by (simp add: IRRV_EVENT_VAUTH_def IRRV_EVENT_VCTRL_def)
  obtain w3 where w3: "handle_auth sv w1 = Some w3" "r = Returned w3"
    using assms(1,2,5) ne by (auto simp: client_readable_def Let_def split: bind_splits)
  then obtain w4 where w4: "send_client Ack sv (irrv_vauth_event_t AUTH_FAILED)
      (w2\<lparr>auth_pass := (auth_pass w2)(sv \<mapsto> False)\<rparr>) = Some w4" "close_client sv w4 = Some w3"
    using assms(3,4) by (auto simp: handle_auth_def Let_def check_two split: bind_splits)
  show ?thesis using recv_client_frame [OF assms(1)] recv_client_frame [OF assms(3)] send_client_frame [OF w4(1)]
      close_client_frame [OF w4(2)] by (auto simp: w3(2) irrv_have_client_def)
qed

text \<open>Whole blocks read on the connection of the session.\<close>

lemma recv_whole:
  assumes "servers w sv = Some s" "clients w sv = Some p" "cp_id p < length (client_slots s)"
    "io_recvs (ir_io w) = (b, [(Done d, now)]) # calls" "length d = n" "d \<noteq> []"
  shows "recv_client sv n w = Some (d, note_ev (Received sv d) (w\<lparr>ir_io := (ir_io w)\<lparr>io_recvs := calls\<rparr>\<rparr>))"
  using assms by (auto simp: recv_client_def sock_server_recv_def io_recv_def Let_def)

lemma recv_connected:
  assumes "length d = n" "d \<noteq> []"
  shows "recv_client 1 n (connected auth (whole_io ns (d # ds)))
    = Some (d, note_ev (Received 1 d) ((connected auth (whole_io ns (d # ds)))\<lparr>ir_io := whole_io ns ds\<rparr>))"
  by (subst recv_whole [where s = one_conn and p = "\<lparr>cp_id = 0\<rparr>", OF _ _ _ _ assms])
    (simp_all add: connected_def listening_def one_conn_def whole_io_def)

lemma recv_connected_again:
  assumes "length d = n" "d \<noteq> []"
  shows "recv_client 1 n (note_ev e ((connected auth io)\<lparr>ir_io := whole_io ns (d # ds)\<rparr>))
    = Some (d, note_ev (Received 1 d) ((note_ev e ((connected auth io)\<lparr>ir_io := whole_io ns (d # ds)\<rparr>))\<lparr>ir_io := whole_io ns ds\<rparr>))"
  by (subst recv_whole [where s = one_conn and p = "\<lparr>cp_id = 0\<rparr>", OF _ _ _ _ assms])
    (simp_all add: connected_def listening_def one_conn_def whole_io_def note_ev_def)

text \<open>A client that sends zeros for its key.\<close>

lemma refused_reads:
  fixes h w1 b w2
  defines "w \<equiv> connected True (whole_io [76] [irrv_event_t IRRV_EVENT_VAUTH 76, zeros 60])"
  defines "w1 \<equiv> note_ev (Received 1 (irrv_event_t IRRV_EVENT_VAUTH 76)) (w\<lparr>ir_io := whole_io [76] [zeros 60]\<rparr>)"
  defines "w2 \<equiv> note_ev (Received 1 (zeros 60)) (w1\<lparr>ir_io := whole_io [76] []\<rparr>)"
  shows "recv_client 1 sizeof_event w = Some (irrv_event_t IRRV_EVENT_VAUTH 76, w1)"
    "recv_client 1 sizeof_vauth w1 = Some (zeros 60, w2)"
    "event_type (filled sizeof_event (irrv_event_t IRRV_EVENT_VAUTH 76)) = IRRV_EVENT_VAUTH"
    "take (2 * IRRV_UUID_LEN) (filled sizeof_vauth (zeros 60)) \<noteq> auth_id @ auth_key"
    "\<not> Option.is_none (client_readable talking True 1 w)"
proof -
  show "event_type (filled sizeof_event (irrv_event_t IRRV_EVENT_VAUTH 76)) = IRRV_EVENT_VAUTH" by code_simp
  show "take (2 * IRRV_UUID_LEN) (filled sizeof_vauth (zeros 60)) \<noteq> auth_id @ auth_key" by code_simp
  show "\<not> Option.is_none (client_readable talking True 1 w)" unfolding w_def by code_simp
  have "length (irrv_event_t IRRV_EVENT_VAUTH 76) = sizeof_event" by (simp add: irrv_event_t_def sizeof_event_def)
  then show "recv_client 1 sizeof_event w = Some (irrv_event_t IRRV_EVENT_VAUTH 76, w1)"
    unfolding w1_def w_def by (intro recv_connected) (auto simp: sizeof_event_def)
  show "recv_client 1 sizeof_vauth w1 = Some (zeros 60, w2)"
    unfolding w2_def w1_def w_def by (intro recv_connected_again) (simp_all add: zeros_def sizeof_vauth_def)
qed

theorem irrv_refused_stays_counted_witness:
  "\<exists>r. client_readable talking True 1 (connected True (whole_io [76] [irrv_event_t IRRV_EVENT_VAUTH 76, zeros 60])) = Some r
    \<and> \<not> irrv_have_client 1 (world r)
    \<and> ir_streamer (world r) = ir_streamer (connected True (whole_io [76] [irrv_event_t IRRV_EVENT_VAUTH 76, zeros 60]))"
proof -
  obtain r where "client_readable talking True 1 (connected True (whole_io [76] [irrv_event_t IRRV_EVENT_VAUTH 76, zeros 60]))
    = Some r"
    using refused_reads(5) by (auto simp: Option.is_none_def)
  then show ?thesis
    using irrv_refused_stays_counted [OF refused_reads(1) refused_reads(3) refused_reads(2) refused_reads(4)] by blast
qed

text \<open>
  A control message is trusted. Its block is not cleared before the receive, so that a client that sends only the
  header has the server look at memory never written; and a type without a name makes the server throw an
  exception no one catches, since the name is looked up for the log before the type is examined.
\<close>

theorem irrv_control_trusted:
  assumes "recv_client sv sizeof_vctrl w = Some (got, w1)"
  shows "(length got < 4 \<longrightarrow> handle_ctrl tr sv w = None)
    \<and> (4 \<le> length got \<and> IRRV_CTRL_END < uint (get32 got) \<longrightarrow> handle_ctrl tr sv w = Some (Out_of_range w1))"
  using assms by (simp add: handle_ctrl_def ctrl_uword_def)

lemma nameless_read:
  "recv_client 1 sizeof_vctrl (connected False (whole_io [] [put32 30 @ zeros 28]))
   = Some (put32 30 @ zeros 28, note_ev (Received 1 (put32 30 @ zeros 28)) (connected False (whole_io [] [])))"
  by (subst recv_connected) (simp_all add: zeros_def sizeof_vctrl_def connected_def listening_def)

theorem irrv_control_trusted_witness:
  "handle_ctrl (\<lambda>_. 0) 1 (connected False (whole_io [] [put32 30 @ zeros 28]))
   = Some (Out_of_range (note_ev (Received 1 (put32 30 @ zeros 28)) (connected False (whole_io [] []))))"
  using irrv_control_trusted [OF nameless_read, of "\<lambda>_. 0"] by (simp add: IRRV_CTRL_END_def)

end
