(* ===== verification/Receiver.thy ===== *)
theory Receiver
  imports Irrv Conf
begin

text \<open>
  The module that receives an encoded stream, \<open>sources/streamer/module/irrv-receiver/\<close>: the client side of the
  stream protocol. It connects to the encoder server, presents the key when asked, hands each frame to the
  encoder bridge, and sends the settings a user changes. As on the server, the answers of the kernel are data of
  the model, and what goes out is kept in a list.
\<close>

section \<open>Sockets of the receiver\<close>

record rx_connect =
  rc_socket :: int
  rc_reuseaddr :: int
  rc_nodelay :: int
  rc_connect :: int
  rc_ioctl :: int

text \<open>
  The result is the descriptor, or -1, with the address connected to, if \<open>connect\<close> was called, and whether
  the socket was closed again. \<open>None\<close> is a signed overflow.
\<close>

definition rx_sock_client_init :: "ga_conf \<Rightarrow> rx_connect \<Rightarrow> (int \<times> (string \<times> u16) option \<times> bool) option" where
  "rx_sock_client_init conf a =
     (let icr_ip = ga_conf_readstr ''icr-ip'' conf; icr_port = ga_conf_readint ''icr-port'' conf;
          session = ga_conf_readint ''android-session'' conf
      in if icr_port \<le> 0 then Some (-1, None, False)
         else do {
           let session = (if session < 0 then 0 else session);
           off \<leftarrow> chk32 (1000 + session);
           port \<leftarrow> chk32 (icr_port + off);
           let addr = (icr_ip, word_of_int port :: u16);
           (if rc_socket a < 0 then Some (-1, None, False)
            else if rc_reuseaddr a < 0 \<or> rc_nodelay a < 0 then Some (-1, None, True)
            else if rc_connect a < 0 \<or> rc_ioctl a < 0 then Some (-1, Some addr, True)
            else Some (rc_socket a, Some addr, False)) })"

text \<open>\<open>fionread\<close> is the answer of \<open>ioctl\<close>: the bytes waiting, or \<open>None\<close> when it fails.\<close>

definition rx_sock_client_check_connect :: "int \<Rightarrow> int \<Rightarrow> int set \<Rightarrow> int option \<Rightarrow> sock_conn_status_t option" where
  "rx_sock_client_check_connect fd nsel ready fionread =
     (if fd < 0 then Some normal
      else do {
        _ \<leftarrow> FD_SET fd {};
        (if nsel = -1 \<or> nsel = 0 then Some normal
         else do {
           b \<leftarrow> FD_ISSET fd ready;
           Some (if \<not> b then normal
                 else case fionread of None \<Rightarrow> normal | Some n \<Rightarrow> if n \<noteq> 0 then readable else disconnect) }) })"

text \<open>Thirty-one failures are forgiven: the counter starts at 30 and is compared with 0 before it is decreased.\<close>

fun rx_send_loop :: "nat sys_ret list \<Rightarrow> int \<Rightarrow> int \<Rightarrow> bytes \<Rightarrow> bytes \<Rightarrow> (int \<times> bytes) option" where
  "rx_send_loop ans errno retry sent [] = Some (int (length sent), sent)"
| "rx_send_loop [] errno retry sent (x # xs) = None"
| "rx_send_loop (Done n # ans) errno retry sent (x # xs) =
     (if n = 0 then
        (if \<not> retry_errno errno \<or> retry < 0 then Some (0, sent)
         else rx_send_loop ans errno (retry - 1) sent (x # xs))
      else if n > length (x # xs) then None
      else rx_send_loop ans errno retry (sent @ take n (x # xs)) (drop n (x # xs)))"
| "rx_send_loop (Fail e # ans) errno retry sent (x # xs) =
     (if \<not> retry_errno e \<or> retry < 0 then Some (-1, sent)
      else rx_send_loop ans e (retry - 1) sent (x # xs))"

definition rx_sock_client_send :: "nat sys_ret list \<Rightarrow> int \<Rightarrow> bytes \<Rightarrow> (int \<times> bytes) option" where
  "rx_sock_client_send ans errno data = rx_send_loop ans errno 30 [] data"

text \<open>A single \<open>recv\<close> that does not wait. \<open>None\<close> when the kernel hands over more than was asked for.\<close>

definition rx_sock_client_recv :: "bytes sys_ret \<Rightarrow> nat \<Rightarrow> (int \<times> bytes) option" where
  "rx_sock_client_recv ans datalen =
     (case ans of
        Fail e \<Rightarrow> Some (-1, [])
      | Done d \<Rightarrow> if length d > datalen then None else Some (int (length d), d))"

section \<open>State\<close>

text \<open>\<open>rx_side\<close> is the number of blocks of side data in use. The dump of the stream to a file is left out.\<close>

datatype rx_ev =
    Rx_sent bytes
  | Rx_packet bytes u32
  | Rx_closed int
  | Rx_pipe bytes

record receiver =
  m_client :: int
  m_width :: u32
  m_height :: u32
  m_format :: u32
  m_ready :: bool
  m_bUnexpectedDisconnect :: bool
  m_bStartEncoderImmediately :: bool
  m_privatePipe :: int
  m_frameData :: bytes
  rx_side :: nat
  rx_sends :: "nat sys_ret list list"
  rx_ops :: "nat sys_ret list"
  rx_recvs :: "bytes sys_ret list"
  rx_out :: "rx_ev list"

definition rx_note :: "rx_ev \<Rightarrow> receiver \<Rightarrow> receiver" where
  "rx_note e r = r\<lparr>rx_out := rx_out r @ [e]\<rparr>"

definition receiver_new :: "bool \<Rightarrow> receiver" where
  "receiver_new startEncoderImmediately = \<lparr>m_client = -1, m_width = 0, m_height = 0, m_format = 0, m_ready = False,
     m_bUnexpectedDisconnect = False, m_bStartEncoderImmediately = startEncoderImmediately, m_privatePipe = -1,
     m_frameData = [], rx_side = 0, rx_sends = [], rx_ops = [], rx_recvs = [], rx_out = []\<rparr>"

definition rx_send :: "bytes \<Rightarrow> receiver \<Rightarrow> (int \<times> receiver) option" where
  "rx_send data r =
     (case rx_sends r of
        [] \<Rightarrow> None
      | ans # calls \<Rightarrow> do {
          (ret, sent) \<leftarrow> rx_sock_client_send ans 0 data;
          Some (ret, rx_note (Rx_sent sent) (r\<lparr>rx_sends := calls\<rparr>)) })"

definition rx_recv :: "nat \<Rightarrow> receiver \<Rightarrow> (int \<times> bytes \<times> receiver) option" where
  "rx_recv n r =
     (case rx_recvs r of
        [] \<Rightarrow> None
      | ans # calls \<Rightarrow> do {
          (ret, got) \<leftarrow> rx_sock_client_recv ans n;
          Some (ret, got, r\<lparr>rx_recvs := calls\<rparr>) })"

section \<open>Settings\<close>

text \<open>A control message is eight words, the first its type.\<close>

definition vctrl :: "u32 list \<Rightarrow> bytes" where
  "vctrl ws = concat (map put32 (take 8 (ws @ replicate 8 0)))"

definition irrv_vctrl_event_t :: "u32 list \<Rightarrow> bytes" where
  "irrv_vctrl_event_t ws = irrv_event_t IRRV_EVENT_VCTRL 48 @ vctrl ws"

text \<open>The raw send of one block: the kernel may take a part of it.\<close>

definition raw_send :: "bytes \<Rightarrow> receiver \<Rightarrow> (int \<times> receiver) option" where
  "raw_send data r =
     (case rx_ops r of
        [] \<Rightarrow> None
      | Fail e # ops \<Rightarrow> Some (-1, rx_note (Rx_sent []) (r\<lparr>rx_ops := ops\<rparr>))
      | Done n # ops \<Rightarrow>
          if n > length data then None
          else Some (int n, rx_note (Rx_sent (take n data)) (r\<lparr>rx_ops := ops\<rparr>)))"

definition irrv_op :: "u32 list \<Rightarrow> receiver \<Rightarrow> (int \<times> receiver) option" where
  "irrv_op ctrl r = (if m_client r < 0 then Some (-1, r) else raw_send (irrv_vctrl_event_t ctrl) r)"

definition irrv_op_array :: "u32 list list \<Rightarrow> receiver \<Rightarrow> (int \<times> receiver) option" where
  "irrv_op_array ctrls r =
     (if m_client r < 0 then Some (-1, r) else raw_send (concat (map irrv_vctrl_event_t ctrls)) r)"

definition irrv_set_encodestart :: "receiver \<Rightarrow> (int \<times> receiver) option" where
  "irrv_set_encodestart = irrv_op [5]"
definition irrv_set_encodepause :: "receiver \<Rightarrow> (int \<times> receiver) option" where
  "irrv_set_encodepause = irrv_op [6]"
definition irrv_set_encodestop :: "receiver \<Rightarrow> (int \<times> receiver) option" where
  "irrv_set_encodestop = irrv_op [7]"
definition irrv_set_keyframe :: "receiver \<Rightarrow> (int \<times> receiver) option" where
  "irrv_set_keyframe = irrv_op [1, 1]"
definition irrv_set_bitrate :: "u32 \<Rightarrow> receiver \<Rightarrow> (int \<times> receiver) option" where
  "irrv_set_bitrate value = irrv_op [2, value]"
definition irrv_set_framerate :: "u32 \<Rightarrow> receiver \<Rightarrow> (int \<times> receiver) option" where
  "irrv_set_framerate value = irrv_op [12, value]"
definition irrv_set_max_frame_size :: "u32 \<Rightarrow> receiver \<Rightarrow> (int \<times> receiver) option" where
  "irrv_set_max_frame_size sz = irrv_op [13, sz]"
definition irrv_set_qp :: "u32 \<Rightarrow> receiver \<Rightarrow> (int \<times> receiver) option" where
  "irrv_set_qp qp = irrv_op [3, qp]"
definition irrv_set_gop_size :: "u32 \<Rightarrow> receiver \<Rightarrow> (int \<times> receiver) option" where
  "irrv_set_gop_size gop_size = irrv_op [4, gop_size]"
definition irrv_set_dump_start :: "receiver \<Rightarrow> (int \<times> receiver) option" where
  "irrv_set_dump_start = irrv_op [8]"
definition irrv_set_dump_stop :: "receiver \<Rightarrow> (int \<times> receiver) option" where
  "irrv_set_dump_stop = irrv_op [9]"
definition irrv_set_input_dump_start :: "receiver \<Rightarrow> (int \<times> receiver) option" where
  "irrv_set_input_dump_start = irrv_op [16]"
definition irrv_set_input_dump_stop :: "receiver \<Rightarrow> (int \<times> receiver) option" where
  "irrv_set_input_dump_stop = irrv_op [17]"
definition irrv_set_output_dump_start :: "receiver \<Rightarrow> (int \<times> receiver) option" where
  "irrv_set_output_dump_start = irrv_op [18]"
definition irrv_set_output_dump_stop :: "receiver \<Rightarrow> (int \<times> receiver) option" where
  "irrv_set_output_dump_stop = irrv_op [19]"
definition irrv_set_dump_frames :: "u32 \<Rightarrow> receiver \<Rightarrow> (int \<times> receiver) option" where
  "irrv_set_dump_frames frame_number = irrv_op [10, frame_number]"
definition irrv_set_screen_capture_start :: "u32 \<Rightarrow> u32 \<Rightarrow> receiver \<Rightarrow> (int \<times> receiver) option" where
  "irrv_set_screen_capture_start interval quality_factor = irrv_op [21, interval, quality_factor]"
definition irrv_set_screen_capture_stop :: "receiver \<Rightarrow> (int \<times> receiver) option" where
  "irrv_set_screen_capture_stop = irrv_op [22]"
definition irrv_change_resolution :: "u32 \<Rightarrow> u32 \<Rightarrow> receiver \<Rightarrow> (int \<times> receiver) option" where
  "irrv_change_resolution new_width new_height = irrv_op [11, 0, new_width, new_height]"
definition irrv_set_rolling_intra_refresh :: "u32 \<Rightarrow> u32 \<Rightarrow> u32 \<Rightarrow> receiver \<Rightarrow> (int \<times> receiver) option" where
  "irrv_set_rolling_intra_refresh type cycle_size qp_delta = irrv_op [14, 0, type, cycle_size, qp_delta]"
definition irrv_set_min_max_qp :: "u32 \<Rightarrow> u32 \<Rightarrow> receiver \<Rightarrow> (int \<times> receiver) option" where
  "irrv_set_min_max_qp min_qp max_qp = irrv_op [15, 0, min_qp, max_qp]"
definition irrv_set_sei :: "u32 \<Rightarrow> u32 \<Rightarrow> receiver \<Rightarrow> (int \<times> receiver) option" where
  "irrv_set_sei sei_type sei_id = irrv_op [20, 0, sei_type, sei_id]"
definition irrv_set_client_feedback :: "u32 \<Rightarrow> u32 \<Rightarrow> receiver \<Rightarrow> (int \<times> receiver) option" where
  "irrv_set_client_feedback delay sz = irrv_op [28, delay, sz]"

definition MAX_ROI_NUM :: int where "MAX_ROI_NUM = 8"

text \<open>The fields of a region are sign- or zero-extended to a word before this point.\<close>

record AVRoI2 =
  roi_x :: u32
  roi_y :: u32
  roi_width :: u32
  roi_height :: u32
  roi_value :: u32

definition irrv_set_region_of_interest :: "int \<Rightarrow> AVRoI2 list \<Rightarrow> receiver \<Rightarrow> (int \<times> receiver) option" where
  "irrv_set_region_of_interest roi_num roi_para r =
     (if roi_num \<le> 0 \<or> roi_num > MAX_ROI_NUM then Some (-1, r)
      else if length roi_para < nat roi_num then None
      else irrv_op_array (map (\<lambda>p. [23, word_of_int roi_num, roi_x p, roi_y p, roi_width p, roi_height p, roi_value p])
             (take (nat roi_num) roi_para)) r)"

section \<open>The private pipe\<close>

text \<open>A name written to a stream is read back from it up to a blank.\<close>

definition pipe_path :: "ga_conf \<Rightarrow> string" where
  "pipe_path conf =
     (let session_id = ga_conf_readint ''android-session'' conf; user_id = ga_conf_readint ''user'' conf;
          socket_dir = ga_conf_readstr ''aic-workdir'' conf
      in takeWhile (\<lambda>c. \<not> isspace c) (dropWhile isspace
           (if ga_conf_readbool ''k8s'' 0 conf = 0
            then socket_dir @ ''/ipc'' @ ''/hwc-pipe-'' @ dec_of_int session_id @ ''-'' @ dec_of_int user_id
            else socket_dir @ ''/hwc-pipe-'' @ dec_of_int user_id)))"

text \<open>\<open>opened\<close> is the answer of \<open>open\<close> for the path.\<close>

definition private_pipe_connect :: "(string \<Rightarrow> int) \<Rightarrow> ga_conf \<Rightarrow> receiver \<Rightarrow> bool \<times> receiver" where
  "private_pipe_connect opened conf r =
     (if m_privatePipe r \<ge> 0 then (True, r)
      else let fd = opened (pipe_path conf) in (fd \<ge> 0, r\<lparr>m_privatePipe := fd\<rparr>))"

definition private_pipe_disconnect :: "receiver \<Rightarrow> receiver" where
  "private_pipe_disconnect r =
     (if m_privatePipe r \<ge> 0 then rx_note (Rx_closed (m_privatePipe r)) (r\<lparr>m_privatePipe := -1\<rparr>) else r)"

definition irrv_pipe_message_t :: "u32 \<Rightarrow> u32 list \<Rightarrow> bytes" where
  "irrv_pipe_message_t type data = put32 0xdeadbeef @ put32 type @ concat (map put32 (take 6 (data @ replicate 6 0)))"

text \<open>\<open>written\<close> is the answer of \<open>write\<close>. A message written in part or not at all closes the pipe.\<close>

definition pipe_message ::
  "(string \<Rightarrow> int) \<Rightarrow> int \<Rightarrow> ga_conf \<Rightarrow> u32 \<Rightarrow> u32 list \<Rightarrow> receiver \<Rightarrow> receiver" where
  "pipe_message opened written conf type data r =
     (case private_pipe_connect opened conf r of
        (False, r) \<Rightarrow> r
      | (True, r) \<Rightarrow>
          let p = irrv_pipe_message_t type data;
              r = rx_note (Rx_pipe (take (nat written) p)) r
          in if written \<noteq> 32 then rx_note (Rx_closed (m_privatePipe r)) (r\<lparr>m_privatePipe := -1\<rparr>) else r)"

definition pipe_set_client_feedback ::
  "(string \<Rightarrow> int) \<Rightarrow> int \<Rightarrow> ga_conf \<Rightarrow> u32 \<Rightarrow> u32 \<Rightarrow> receiver \<Rightarrow> receiver" where
  "pipe_set_client_feedback opened written conf delay sz = pipe_message opened written conf 1 [delay, sz]"

definition pipe_set_resolution_change ::
  "(string \<Rightarrow> int) \<Rightarrow> int \<Rightarrow> ga_conf \<Rightarrow> u32 \<Rightarrow> u32 \<Rightarrow> receiver \<Rightarrow> receiver" where
  "pipe_set_resolution_change opened written conf width height = pipe_message opened written conf 2 [width, height]"

definition pipe_set_video_alpha :: "(string \<Rightarrow> int) \<Rightarrow> int \<Rightarrow> ga_conf \<Rightarrow> u32 \<Rightarrow> receiver \<Rightarrow> receiver" where
  "pipe_set_video_alpha opened written conf action = pipe_message opened written conf 3 [action]"

section \<open>Receiving the stream\<close>

definition IRRV_EVENT_VHEAD_ACK :: u32 where "IRRV_EVENT_VHEAD_ACK = 0x1001"

definition irrv_send_authentication :: "receiver \<Rightarrow> receiver option" where
  "irrv_send_authentication r = do {
     (_, r) \<leftarrow> rx_send (put32 0 @ put32 IRRV_EVENT_VAUTH @ put32 76 @ put32 0 @ auth_id @ auth_key @ put32 0 @ zeros 24) r;
     Some r }"

definition irrv_vhead_ack_t :: "u32 \<Rightarrow> u32 \<Rightarrow> u32 \<Rightarrow> bytes" where
  "irrv_vhead_ack_t width height format =
     put32 IRRV_MAGIC @ put32 IRRV_EVENT_VHEAD_ACK @ put32 48 @ put32 1
     @ put32 0 @ put32 width @ put32 height @ put32 format @ zeros 16"

text \<open>The answers of the kernel while the receiver connects and polls, and of the calls on a packet.\<close>

record rx_answers =
  ra_connect :: rx_connect
  ra_nsel :: int
  ra_ready :: "int set"
  ra_fionread :: "int option"
  ra_poll :: int
  ra_side_data :: bool
  ra_send_packet :: int

definition irrv_sock_client_init :: "ga_conf \<Rightarrow> rx_answers \<Rightarrow> receiver \<Rightarrow> (bool \<times> receiver) option" where
  "irrv_sock_client_init conf a r =
     (if m_client r \<ge> 0 then Some (True, r)
      else do {
        (fd, _, _) \<leftarrow> rx_sock_client_init conf (ra_connect a);
        let r = r\<lparr>m_client := fd\<rparr>;
        r \<leftarrow> (if m_bStartEncoderImmediately r \<and> fd \<ge> 0 then do {
                status \<leftarrow> rx_sock_client_check_connect fd (ra_nsel a) (ra_ready a) (ra_fionread a);
                (if status = disconnect then Some r
                 else do {
                   (_, r) \<leftarrow> rx_send (irrv_vctrl_event_t [5, 1]) r;
                   (_, r) \<leftarrow> rx_send (irrv_vctrl_event_t [1, 1]) r;
                   Some r }) }
              else Some r);
        Some (fd \<ge> 0, r) })"

definition irrv_sock_client_disconnect :: "receiver \<Rightarrow> receiver" where
  "irrv_sock_client_disconnect r =
     (if m_client r \<ge> 0 then rx_note (Rx_closed (m_client r)) (r\<lparr>m_client := -1\<rparr>) else r)"

text \<open>
  The loop that collects the bytes of a frame. It looks at nothing but the number of bytes that came: when its
  answers are used up it is still asking, and the result is \<open>None\<close>.
\<close>

fun frame_loop :: "bytes sys_ret list \<Rightarrow> bytes \<Rightarrow> nat \<Rightarrow> (bytes \<times> bytes sys_ret list) option" where
  "frame_loop ans got 0 = Some (got, ans)"
| "frame_loop [] got (Suc left) = None"
| "frame_loop (a # ans) got (Suc left) =
     (case rx_sock_client_recv a (Suc left) of
        None \<Rightarrow> None
      | Some (ret, d) \<Rightarrow> if ret > 0 then frame_loop ans (got @ d) (Suc left - length d) else frame_loop ans got (Suc left))"

definition head_event :: "receiver \<Rightarrow> receiver option" where
  "head_event r = do {
     (ret, got, r) \<leftarrow> rx_recv 32 r;
     (if ret < 0 then Some r
      else do {
        let head = filled 32 got;
        let (width, height, format, auth) =
          (get32 (drop 4 head), get32 (drop 8 head), get32 (drop 12 head), get32 (drop 16 head));
        let r = r\<lparr>m_width := width, m_height := height, m_format := format\<rparr>;
        r \<leftarrow> (if auth \<noteq> 0 then irrv_send_authentication r else Some r);
        (_, r) \<leftarrow> rx_send (irrv_vhead_ack_t width height format) r;
        Some (r\<lparr>m_ready := True\<rparr>) }) }"

definition auth_ack_event :: "receiver \<Rightarrow> receiver option" where
  "auth_ack_event r = do { (_, _, r) \<leftarrow> rx_recv sizeof_vauth r; Some r }"

definition broken_frame :: "u32 \<Rightarrow> u32 \<Rightarrow> receiver \<Rightarrow> bool" where
  "broken_frame data_size video_size r \<longleftrightarrow>
     data_size = 0 \<or> data_size < video_size \<or> data_size > 4 * m_width r * m_height r"

text \<open>
  A frame. The vector is resized and then filled; \<open>left_size\<close> is an \<open>int\<close>, so a size with the top bit set
  fills nothing. The packet is handed on when its side data could be
  allocated; that is freed after the packet was sent, but not when sending it failed.
\<close>

definition frame_event :: "rx_answers \<Rightarrow> receiver \<Rightarrow> receiver option" where
  "frame_event a r = do {
     (ret, got, r) \<leftarrow> rx_recv 32 r;
     (if ret < 0 then Some r
      else do {
        let frame = filled 32 got;
        let (flags, data_size, video_size) = (get32 frame, get32 (drop 4 frame), get32 (drop 8 frame));
        (if broken_frame data_size video_size r then Some r
         else do {
           let old = take (unat data_size) (m_frameData r @ zeros (unat data_size));
           (new, ans) \<leftarrow> frame_loop (rx_recvs r) [] (nat (sint data_size));
           let data = new @ drop (length new) old;
           let r = r\<lparr>m_frameData := data, rx_recvs := ans\<rparr>;
           Some (if \<not> ra_side_data a then r
                 else rx_note (Rx_packet data flags)
                   (if ra_send_packet a < 0 then r\<lparr>rx_side := rx_side r + 1\<rparr> else r)) }) }) }"

definition unknown_event :: "receiver \<Rightarrow> receiver" where
  "unknown_event r =
     (private_pipe_disconnect (irrv_sock_client_disconnect r))\<lparr>m_bUnexpectedDisconnect := True, m_ready := False\<rparr>"

definition recv_event :: "rx_answers \<Rightarrow> receiver \<Rightarrow> receiver option" where
  "recv_event a r = do {
     (ret, got, r) \<leftarrow> rx_recv sizeof_event r;
     (if ret < 0 then Some r
      else let type = event_type (filled sizeof_event got)
           in if type = IRRV_EVENT_VHEAD then head_event r
              else if type = IRRV_EVENT_VAUTH_ACK then auth_ack_event r
              else if type = IRRV_EVENT_VFRAME then frame_event a r
              else Some (unknown_event r)) }"

definition recv_es_stream :: "ga_conf \<Rightarrow> rx_answers \<Rightarrow> receiver \<Rightarrow> receiver option" where
  "recv_es_stream conf a r = do {
     (ok, r) \<leftarrow> irrv_sock_client_init conf a r;
     (if \<not> ok then Some r
      else do {
        r \<leftarrow> (if m_bUnexpectedDisconnect r then do {
                (_, r) \<leftarrow> irrv_set_encodestart r;
                (_, r) \<leftarrow> irrv_set_keyframe r;
                Some (r\<lparr>m_bUnexpectedDisconnect := False\<rparr>) }
              else Some r);
        (if m_client r < 0 then Some r
         else if ra_poll a < 0 then Some (rx_note (Rx_closed (m_client r)) (r\<lparr>m_client := -1\<rparr>))
         else if ra_poll a = 0 then Some r
         else recv_event a r) }) }"

section \<open>The module\<close>

definition GA_IOCTL_ERR_NOTSUPPORTED :: int where "GA_IOCTL_ERR_NOTSUPPORTED = -5"

datatype rx_command =
    GA_IOCTL_UPDATE_FRAME_STATS u32 u32
  | GA_IOCTL_REQUEST_KEYFRAME
  | GA_IOCTL_PAUSE
  | GA_IOCTL_CHANGE_RENDER_RESOLUTION u32 u32
  | GA_IOCTL_SET_VIDEO_ALPHA u32
  | GA_IOCTL_other int

definition irrv_receiver_init :: "ga_conf \<Rightarrow> int \<times> receiver" where
  "irrv_receiver_init conf = (0, receiver_new (ga_conf_readint ''icr-start-immediately'' conf = 1))"

definition irrv_receiver_stop :: "receiver \<Rightarrow> (int \<times> receiver) option" where
  "irrv_receiver_stop r = do { (_, r) \<leftarrow> irrv_set_encodestop r; Some (0, r) }"

definition irrv_receiver_ioctl ::
  "(string \<Rightarrow> int) \<Rightarrow> int \<Rightarrow> ga_conf \<Rightarrow> rx_command \<Rightarrow> receiver \<Rightarrow> (int \<times> receiver) option" where
  "irrv_receiver_ioctl opened written conf command r =
     (case command of
        GA_IOCTL_UPDATE_FRAME_STATS delay sz \<Rightarrow> Some (0, pipe_set_client_feedback opened written conf delay sz r)
      | GA_IOCTL_REQUEST_KEYFRAME \<Rightarrow> do {
          (_, r) \<leftarrow> irrv_set_encodestart r;
          (_, r) \<leftarrow> irrv_set_keyframe r;
          Some (0, r) }
      | GA_IOCTL_PAUSE \<Rightarrow> do { (_, r) \<leftarrow> irrv_set_encodestop r; Some (0, r) }
      | GA_IOCTL_CHANGE_RENDER_RESOLUTION w h \<Rightarrow> Some (0, pipe_set_resolution_change opened written conf w h r)
      | GA_IOCTL_SET_VIDEO_ALPHA action \<Rightarrow> Some (0, pipe_set_video_alpha opened written conf action r)
      | GA_IOCTL_other n \<Rightarrow> Some (GA_IOCTL_ERR_NOTSUPPORTED, r))"

end
