(* ===== verification/ReceiverProps.thy ===== *)
theory ReceiverProps
  imports Receiver IrrvProps
begin

text \<open>
  The two sides of the stream protocol together: a setting sent by the receiver has the effect it asks for at the
  streamer of the server, the receiver's key is accepted, and a frame sent by the server reaches the packet the
  receiver hands on. A connection lost inside a frame, on the other hand, leaves the receiver asking for ever.
\<close>

section \<open>Words on the wire\<close>

lemma length_concat_put32: "length (concat (map put32 ws)) = 4 * length ws"
  by (induction ws) simp_all

lemma drop_concat_put32: "drop (4 * i) (concat (map put32 ws)) = concat (map put32 (drop i ws))"
proof (induction i arbitrary: ws)
  case (Suc i)
  show ?case
  proof (cases ws)
    case (Cons w ws')
    have "drop (4 * Suc i) (put32 w @ concat (map put32 ws')) = drop (4 * i) (concat (map put32 ws'))" by simp
    then show ?thesis using Suc.IH [of ws'] by (simp add: Cons)
  qed simp
qed simp

lemma get_concat_put32:
  assumes "i < length ws"
  shows "get32 (drop (4 * i) (concat (map put32 ws))) = ws ! i"
proof -
  have "concat (map put32 (drop i ws)) = put32 (ws ! i) @ concat (map put32 (drop (Suc i) ws))"
    using assms by (simp flip: Cons_nth_drop_Suc)
  then show ?thesis using drop_concat_put32 [of i ws] by simp
qed

lemma length_vctrl: "length (vctrl ws) = sizeof_vctrl"
  unfolding vctrl_def length_concat_put32 by (simp add: sizeof_vctrl_def)

definition ctrl_field :: "u32 list \<Rightarrow> nat \<Rightarrow> u32" where
  "ctrl_field ws i = take 8 (ws @ replicate 8 0) ! i"

lemma ctrl_word_vctrl:
  assumes "i < 8"
  shows "ctrl_word i (vctrl ws) = Some (sint (ctrl_field ws i))" "ctrl_uword i (vctrl ws) = Some (uint (ctrl_field ws i))"
proof -
  let ?ws = "take 8 (ws @ replicate 8 0)"
  have "length ?ws = 8" by simp
  then have "get32 (drop (4 * i) (vctrl ws)) = ctrl_field ws i"
    using get_concat_put32 [of i ?ws] assms by (simp add: vctrl_def ctrl_field_def)
  then show "ctrl_word i (vctrl ws) = Some (sint (ctrl_field ws i))" "ctrl_uword i (vctrl ws) = Some (uint (ctrl_field ws i))"
    using assms length_vctrl [of ws] by (simp_all add: ctrl_word_def ctrl_uword_def sizeof_vctrl_def)
qed

lemma ctrl_field_simps:
  "ctrl_field (w # ws) 0 = w" "ctrl_field (v # w # ws) 1 = w" "ctrl_field (v # w # ws) (Suc 0) = w"
  "ctrl_field (u # v # w # ws) (Suc (Suc 0)) = w" "ctrl_field (u # v # w # ws) 2 = w"
  "ctrl_field (t # u # v # w # ws) 3 = w" "ctrl_field (s # t # u # v # w # ws) 4 = w"
  by (simp_all add: ctrl_field_def eval_nat_numeral)

section \<open>Settings\<close>

datatype request =
    Start | Pause | Stop | Keyframe | Bitrate u32 | Framerate u32 | Max_frame_size u32 | Qp u32 | Gop_size u32
  | Dump_start | Dump_stop | Input_dump_start | Input_dump_stop | Output_dump_start | Output_dump_stop
  | Dump_frames u32 | Capture_start u32 u32 | Capture_stop | Resolution u32 u32 | Intra_refresh u32 u32 u32
  | Min_max_qp u32 u32 | Sei u32 u32 | Feedback u32 u32

fun ask :: "request \<Rightarrow> receiver \<Rightarrow> (int \<times> receiver) option" where
  "ask Start = irrv_set_encodestart"
| "ask Pause = irrv_set_encodepause"
| "ask Stop = irrv_set_encodestop"
| "ask Keyframe = irrv_set_keyframe"
| "ask (Bitrate v) = irrv_set_bitrate v"
| "ask (Framerate v) = irrv_set_framerate v"
| "ask (Max_frame_size v) = irrv_set_max_frame_size v"
| "ask (Qp v) = irrv_set_qp v"
| "ask (Gop_size v) = irrv_set_gop_size v"
| "ask Dump_start = irrv_set_dump_start"
| "ask Dump_stop = irrv_set_dump_stop"
| "ask Input_dump_start = irrv_set_input_dump_start"
| "ask Input_dump_stop = irrv_set_input_dump_stop"
| "ask Output_dump_start = irrv_set_output_dump_start"
| "ask Output_dump_stop = irrv_set_output_dump_stop"
| "ask (Dump_frames n) = irrv_set_dump_frames n"
| "ask (Capture_start i q) = irrv_set_screen_capture_start i q"
| "ask Capture_stop = irrv_set_screen_capture_stop"
| "ask (Resolution w h) = irrv_change_resolution w h"
| "ask (Intra_refresh t c q) = irrv_set_rolling_intra_refresh t c q"
| "ask (Min_max_qp a b) = irrv_set_min_max_qp a b"
| "ask (Sei t i) = irrv_set_sei t i"
| "ask (Feedback d s) = irrv_set_client_feedback d s"

text \<open>What a request is to do at the streamer.\<close>

fun wanted :: "(stream_call \<Rightarrow> int) \<Rightarrow> request \<Rightarrow> streamer \<Rightarrow> streamer option" where
  "wanted tr Start st =
     Some (irr_stream_first_start_encdoding True (irr_stream_setTransmitFlag True (irr_stream_setEncodeFlag True st)))"
| "wanted tr Pause st = Some (irr_stream_setTransmitFlag False st)"
| "wanted tr Stop st =
     Some (irr_stream_first_start_encdoding False (irr_stream_setTransmitFlag False (irr_stream_setEncodeFlag False st)))"
| "wanted tr Keyframe st = Some (snd (irr_stream_force_keyframe 1 st))"
| "wanted tr (Bitrate v) st = Some (snd (irr_stream_set_bitrate (sint v) st))"
| "wanted tr (Framerate v) st = map_option snd (irr_stream_set_framerate (float32_of (uint v)) st)"
| "wanted tr (Max_frame_size v) st = Some (snd (irr_stream_set_max_frame_size tr (sint v) st))"
| "wanted tr (Qp v) st = Some (snd (irr_stream_set_qp (sint v) st))"
| "wanted tr (Gop_size v) st = Some (snd (irr_stream_set_gop_size tr (sint v) st))"
| "wanted tr Dump_start st = Some (irr_stream_runtime_writer_start INOUT st)"
| "wanted tr Dump_stop st = Some (irr_stream_runtime_writer_stop INOUT st)"
| "wanted tr Input_dump_start st = Some (irr_stream_runtime_writer_start INPUT st)"
| "wanted tr Input_dump_stop st = Some (irr_stream_runtime_writer_stop INPUT st)"
| "wanted tr Output_dump_start st = Some (irr_stream_runtime_writer_start OUTPUT st)"
| "wanted tr Output_dump_stop st = Some (irr_stream_runtime_writer_stop OUTPUT st)"
| "wanted tr (Dump_frames n) st = Some (irr_stream_runtime_writer_start_with_frame_num (sint n) st)"
| "wanted tr (Capture_start i q) st =
     Some (irr_stream_set_screen_capture_flag True
       (irr_stream_set_screen_capture_quality (sint q) (irr_sream_set_screen_capture_interval (sint i) st)))"
| "wanted tr Capture_stop st = Some (irr_stream_set_screen_capture_flag False st)"
| "wanted tr (Resolution w h) st = Some (snd (irr_stream_change_resolution (sint w) (sint h) st))"
| "wanted tr (Intra_refresh t c q) st = Some (snd (irr_stream_set_rolling_intra_refresh (sint t) (sint c) (sint q) st))"
| "wanted tr (Min_max_qp a b) st = Some (snd (irr_stream_set_min_max_qp tr (sint a) (sint b) st))"
| "wanted tr (Sei t i) st = Some (snd (irr_stream_set_sei tr (sint t) (sint i) st))"
| "wanted tr (Feedback d s) st = map_option snd (irr_stream_set_client_feedback tr (uint d) (uint s) st)"

definition carries :: "(stream_call \<Rightarrow> int) \<Rightarrow> u32 list \<Rightarrow> request \<Rightarrow> bool" where
  "carries tr ws q \<longleftrightarrow> ask q = irrv_op ws \<and> uint (ctrl_field ws 0) \<le> IRRV_CTRL_END
     \<and> (\<forall>st. apply_ctrl tr (uint (ctrl_field ws 0)) (vctrl ws) st = wanted tr q st)"

lemmas setting_defs = irrv_set_encodestart_def irrv_set_encodepause_def irrv_set_encodestop_def irrv_set_keyframe_def
  irrv_set_bitrate_def irrv_set_framerate_def irrv_set_max_frame_size_def irrv_set_qp_def irrv_set_gop_size_def
  irrv_set_dump_start_def irrv_set_dump_stop_def irrv_set_input_dump_start_def irrv_set_input_dump_stop_def
  irrv_set_output_dump_start_def irrv_set_output_dump_stop_def irrv_set_dump_frames_def
  irrv_set_screen_capture_start_def irrv_set_screen_capture_stop_def irrv_change_resolution_def
  irrv_set_rolling_intra_refresh_def irrv_set_min_max_qp_def irrv_set_sei_def irrv_set_client_feedback_def

lemmas ctrl_eval = apply_ctrl_def step1_def step2_def ctrl_word_vctrl ctrl_field_simps IRRV_CTRL_END_def

fun request_words :: "request \<Rightarrow> u32 list" where
  "request_words Start = [5]"
| "request_words Pause = [6]"
| "request_words Stop = [7]"
| "request_words Keyframe = [1, 1]"
| "request_words (Bitrate v) = [2, v]"
| "request_words (Framerate v) = [12, v]"
| "request_words (Max_frame_size v) = [13, v]"
| "request_words (Qp v) = [3, v]"
| "request_words (Gop_size v) = [4, v]"
| "request_words Dump_start = [8]"
| "request_words Dump_stop = [9]"
| "request_words Input_dump_start = [16]"
| "request_words Input_dump_stop = [17]"
| "request_words Output_dump_start = [18]"
| "request_words Output_dump_stop = [19]"
| "request_words (Dump_frames n) = [10, n]"
| "request_words (Capture_start i q) = [21, i, q]"
| "request_words Capture_stop = [22]"
| "request_words (Resolution w h) = [11, 0, w, h]"
| "request_words (Intra_refresh t c q) = [14, 0, t, c, q]"
| "request_words (Min_max_qp a b) = [15, 0, a, b]"
| "request_words (Sei t i) = [20, 0, t, i]"
| "request_words (Feedback d s) = [28, d, s]"

lemma request_carried: "carries tr (request_words q) q"
proof -
  have *: "do { (_, s) \<leftarrow> x; Some s } = map_option snd x" for x :: "(int \<times> streamer) option"
    by (cases x) auto
  show ?thesis by (cases q) (simp_all add: carries_def setting_defs ctrl_eval *)
qed


lemma length_event: "length (irrv_event_t t n) = sizeof_event"
  by (simp add: irrv_event_t_def sizeof_event_def)

lemma event_type_event: "event_type (filled sizeof_event (irrv_event_t t n)) = t"
  by (simp add: event_type_def filled_def irrv_event_t_def sizeof_event_def zeros_def)



text \<open>A bit rate of three million.\<close>

definition rate_msg :: bytes where
  "rate_msg = irrv_vctrl_event_t [2, 3000000]"

definition rate_world :: irrv where
  "rate_world = connected False (whole_io [] [take sizeof_event rate_msg, drop sizeof_event rate_msg])"

definition rate_rx :: receiver where
  "rate_rx = (receiver_new False)\<lparr>m_client := 4, rx_ops := [Done 48]\<rparr>"


section \<open>Frames\<close>

text \<open>The bytes a list of answers brings, whatever failures come between.\<close>

fun brought :: "bytes sys_ret list \<Rightarrow> bytes" where
  "brought [] = []"
| "brought (Done d # ans) = d @ brought ans"
| "brought (Fail e # ans) = brought ans"

lemma frame_loop_collects:
  "length (brought ans) = left \<Longrightarrow> \<exists>more. frame_loop (ans @ rest) got left = Some (got @ brought ans, more @ rest)"
proof (induction ans arbitrary: got left)
  case Nil
  then show ?case by (auto intro: exI [of _ "[]"])
next
  case (Cons x ans)
  show ?case
  proof (cases left)
    case 0
    then show ?thesis using Cons.prems by (auto intro: exI [of _ "x # ans"])
  next
    case (Suc n)
    show ?thesis
    proof (cases x)
      case (Done d)
      have "length (brought ans) = left - length d" using Cons.prems by (simp add: Done)
      then obtain more where "frame_loop (ans @ rest) (got @ d) (left - length d) = Some ((got @ d) @ brought ans, more @ rest)"
        using Cons.IH by blast
      then show ?thesis using Cons.prems
        by (cases "d = []") (auto simp: Done Suc rx_sock_client_recv_def)
    next
      case (Fail e)
      then show ?thesis using Cons.prems Cons.IH [of left got] by (simp add: Suc rx_sock_client_recv_def)
    qed
  qed
qed

lemma send_client_wire:
  assumes "send_client k sv d w = Some w'" "ir_trace w' = ir_trace w @ [Sent sv k wire]"
  shows "prefix wire d"
proof -
  obtain s ret out io where s: "sock_server_send (Some s) (clients w sv) d (ir_io w) = Some (ret, out, io)"
    "w' = note_ev (Sent sv k out) (w\<lparr>ir_io := io\<rparr>)"
    using assms(1) by (auto simp: send_client_def split: bind_splits)
  have "wire = out" using assms(2) s(2) by (simp add: note_ev_def)
  moreover have "prefix out d"
    using s(1) send_loop_prefix by (auto simp: sock_server_send_def io_send_def split: option.splits if_splits list.splits bind_splits)
      fastforce
  ultimately show ?thesis by simp
qed

lemma whole_prefix: "prefix a b \<Longrightarrow> length a = length b \<Longrightarrow> a = b"
  by (auto elim: prefixE)

lemma length_vframe: "length (irrv_vframe_event_t f n pw ph) = 48"
  by (simp add: irrv_vframe_event_t_def length_event sizeof_event_def zeros_def)

lemma frame_on_wire:
  assumes "send_frame a sv flags data w = Some w'" "ir_trace w' = ir_trace w @ [Sent sv Frame h, Sent sv Frame d]"
    "length h = 48" "length d = length data"
  shows "d = data \<and> (\<exists>pw ph. h = irrv_vframe_event_t flags (of_nat (length data)) pw ph)"
proof -
  obtain pw ph w1 where w1: "send_client Frame sv (irrv_vframe_event_t flags (of_nat (length data)) pw ph) w = Some w1"
    "send_client Frame sv data w1 = Some w'"
    using assms(1) by (auto simp: send_frame_def Let_def split: prod.splits bind_splits)
  obtain h' d' where t: "ir_trace w1 = ir_trace w @ [Sent sv Frame h']" "ir_trace w' = ir_trace w1 @ [Sent sv Frame d']"
    using send_client_frame [OF w1(1)] send_client_frame [OF w1(2)] by blast
  then have "h' = h" "d' = d" using assms(2) by auto
  then have "prefix h (irrv_vframe_event_t flags (of_nat (length data)) pw ph)" "prefix d data"
    using send_client_wire w1 t by blast+
  then show ?thesis using whole_prefix assms(3,4) length_vframe by metis
qed

lemma length_word:
  "n < 2 ^ 31 \<Longrightarrow> unat (of_nat n :: u32) = n \<and> nat (sint (of_nat n :: u32)) = n"
proof -
  assume n: "n < 2 ^ 31"
  have "sint (of_nat n :: u32) = int n" using n by (simp add: signed_of_nat signed_take_bit_int_eq_self_iff)
  then show ?thesis using n by (simp add: unat_of_nat take_bit_nat_eq_self)
qed

definition vframe_words :: "u32 \<Rightarrow> u32 \<Rightarrow> u32 \<Rightarrow> u32 \<Rightarrow> bytes" where
  "vframe_words flags n pw ph = put32 flags @ put32 n @ zeros 8 @ put32 pw @ put32 ph @ zeros 8"

lemma length_vframe_words: "length (vframe_words flags n pw ph) = 32"
  by (simp add: vframe_words_def zeros_def)

lemma vframe_words_get:
  "get32 (vframe_words flags n pw ph) = flags" "get32 (drop 4 (vframe_words flags n pw ph)) = n"
  "get32 (drop 8 (vframe_words flags n pw ph)) = 0"
proof -
  have "zeros 8 = put32 0 @ zeros 4" by (simp add: zeros_def put32_def eval_nat_numeral)
  then show "get32 (drop 8 (vframe_words flags n pw ph)) = 0" by (simp add: vframe_words_def)
qed (simp_all add: vframe_words_def)


text \<open>A picture of two bytes for a client with a screen of one by one.\<close>

definition small_world :: irrv where
  "small_world = connected False (whole_io [48, 2] [])"

definition small_head :: bytes where
  "small_head = irrv_vframe_event_t 1 2 640 480"

definition small_rx :: receiver where
  "small_rx = (receiver_new False)\<lparr>m_client := 4, m_width := 1, m_height := 1,
     rx_recvs := [Done (take sizeof_event small_head), Done (drop sizeof_event small_head), Done [7], Fail EAGAIN, Done [8]]\<rparr>"

definition small_answers :: rx_answers where
  "small_answers = \<lparr>ra_connect = \<lparr>rc_socket = 4, rc_reuseaddr = 0, rc_nodelay = 0, rc_connect = 0, rc_ioctl = 0\<rparr>,
     ra_nsel = 0, ra_ready = {}, ra_fionread = None, ra_poll = 1, ra_side_data = True, ra_send_packet = 0\<rparr>"

lemma small_sent:
  "\<exists>w'. send_frame idle 1 1 [7, 8] small_world = Some w'
    \<and> ir_trace w' = ir_trace small_world @ [Sent 1 Frame small_head, Sent 1 Frame [7, 8]]"
proof -
  have "map_option ir_trace (send_frame idle 1 1 [7, 8] small_world)
    = Some (ir_trace small_world @ [Sent 1 Frame small_head, Sent 1 Frame [7, 8]])"
    by code_simp
  then show ?thesis by auto
qed


text \<open>
  C40. A connection closed while a frame is read answers every further receive with 0 bytes; the loop, which ends only
  when all bytes came, asks on for ever.
\<close>

theorem closed_inside_frame_spins:
  "left > 0 \<Longrightarrow> frame_loop (replicate n (Done [])) got left = None"
proof (induction n)
  case (Suc n)
  then show ?case by (cases left) (simp_all add: rx_sock_client_recv_def)
qed (cases left; simp)

theorem closed_inside_frame_spins_witness:
  "frame_loop (replicate 1000 (Done [])) [7] 1 = None"
  by (rule closed_inside_frame_spins) simp

section \<open>The key\<close>

definition auth_body :: bytes where
  "auth_body = auth_id @ auth_key @ put32 0 @ zeros 24"

definition auth_head :: bytes where
  "auth_head = put32 0 @ put32 IRRV_EVENT_VAUTH @ put32 76 @ put32 0"

lemma rx_send_whole: "d \<noteq> [] \<Longrightarrow> rx_send_loop (Done (length d) # ans) e k [] d = Some (int (length d), d)"
  by (cases d) auto

lemma auth_lengths: "length auth_id = 16" "length auth_key = 16"
  by (simp_all add: auth_id_def auth_key_def filled_def zeros_def c_bytes_def IRRV_UUID_LEN_def)

lemma auth_block: "length (auth_head @ auth_body) = 76" "length auth_head = sizeof_event" "length auth_body = sizeof_vauth"
  by (simp_all add: auth_head_def auth_body_def auth_lengths zeros_def sizeof_event_def sizeof_vauth_def)

lemma auth_body_checked:
  "irrv_check_authentication (take IRRV_UUID_LEN (filled sizeof_vauth auth_body))
     (take IRRV_UUID_LEN (drop IRRV_UUID_LEN (filled sizeof_vauth auth_body)))"
  unfolding check_two by (simp add: filled_def auth_body_def sizeof_vauth_def IRRV_UUID_LEN_def auth_lengths)

lemma auth_head_type: "event_type (filled sizeof_event auth_head) = IRRV_EVENT_VAUTH"
  by (simp add: event_type_def filled_def auth_head_def sizeof_event_def)

text \<open>
  A receiver asked for the key sends, as one block of 76 bytes, what a server that requires it accepts: after
  reading the block the server may be controlled over this connection and sends frames on it.
\<close>

theorem key_accepted:
  assumes "rx_sends r = (Done 76 # ans) # calls"
    "recv_client sv sizeof_event w = Some (auth_head, w1)" "recv_client sv sizeof_vauth w1 = Some (auth_body, w2)"
    "client_readable a True sv w = Some t" "irrv_have_client sv w"
  shows "irrv_send_authentication r = Some (rx_note (Rx_sent (auth_head @ auth_body)) (r\<lparr>rx_sends := calls\<rparr>))
    \<and> (\<exists>w'. t = Returned w' \<and> may_send True sv w')"
proof -
  let ?w2 = "w2\<lparr>auth_pass := (auth_pass w2)(sv \<mapsto> True)\<rparr>"
  have "auth_head @ auth_body \<noteq> []" using auth_block(1) by auto
  then have "irrv_send_authentication r = Some (rx_note (Rx_sent (auth_head @ auth_body)) (r\<lparr>rx_sends := calls\<rparr>))"
    using assms(1) rx_send_whole [of "auth_head @ auth_body" ans 0 30] auth_block(1)
    by (simp add: irrv_send_authentication_def rx_send_def rx_sock_client_send_def auth_head_def auth_body_def)
  moreover have "IRRV_EVENT_VAUTH \<noteq> IRRV_EVENT_VCTRL" by (simp add: IRRV_EVENT_VAUTH_def IRRV_EVENT_VCTRL_def)
  then obtain w3 where w3: "send_client Ack sv (irrv_vauth_event_t AUTH_PASSED) ?w2 = Some w3" "t = Returned w3"
    using assms(2-4) auth_body_checked
    by (auto simp: client_readable_def handle_auth_def auth_head_type Let_def split: bind_splits)
  have "clients w3 = clients w \<and> irrv_get_auth_state sv w3"
    using send_client_frame [OF w3(1)] recv_client_frame [OF assms(2)] recv_client_frame [OF assms(3)]
    by (auto simp: irrv_get_auth_state_def)
  ultimately show ?thesis using w3(2) assms(5) by (auto simp: may_send_def irrv_have_client_def)
qed

definition key_world :: irrv where
  "key_world = connected True (whole_io [76] [auth_head, auth_body])"

theorem key_accepted_witness:
  "irrv_send_authentication ((receiver_new False)\<lparr>rx_sends := [[Done 76]]\<rparr>)
     = Some (rx_note (Rx_sent (auth_head @ auth_body)) (receiver_new False))
   \<and> (\<exists>w'. client_readable talking True 1 key_world = Some (Returned w') \<and> may_send True 1 w')"
proof -
  let ?w1 = "note_ev (Received 1 auth_head) (key_world\<lparr>ir_io := whole_io [76] [auth_body]\<rparr>)"
  let ?w2 = "note_ev (Received 1 auth_body) (?w1\<lparr>ir_io := whole_io [76] []\<rparr>)"
  have r1: "recv_client 1 sizeof_event key_world = Some (auth_head, ?w1)"
    unfolding key_world_def by (rule recv_connected) (use auth_block in \<open>auto simp: sizeof_event_def\<close>)
  have r2: "recv_client 1 sizeof_vauth ?w1 = Some (auth_body, ?w2)"
    unfolding key_world_def by (rule recv_connected_again) (use auth_block in \<open>auto simp: sizeof_vauth_def\<close>)
  have "\<not> Option.is_none (client_readable talking True 1 key_world)" by code_simp
  then obtain t where t: "client_readable talking True 1 key_world = Some t" by (auto simp: Option.is_none_def)
  have c: "irrv_have_client 1 key_world" by (simp add: key_world_def connected_def irrv_have_client_def)
  show ?thesis
    using key_accepted [of "(receiver_new False)\<lparr>rx_sends := [[Done 76]]\<rparr>" "[]" "[]", OF _ r1 r2 t c] t
    by (auto simp: receiver_new_def)
qed

end
