(* ===== verification/RuntimeWriter.thy ===== *)
theory RuntimeWriter
  imports Streamer Fifo
begin

text \<open>
  Recording of what goes into and comes out of the encoder, \<open>sources/encoder/shared/utils/IORuntimeWriter.cpp\<close>
  over the queue of \<open>safe_queue.h\<close>, and the file mode of \<open>IOStreamWriter.cpp\<close>. Two threads, one for the input
  and one for the output, take data from their queues and append to their files. A thread is its loop's local
  state; \<open>input_round\<close> and \<open>output_round\<close> are one turn of the loops. The disk takes every write. \<open>None\<close> is an
  access the language does not define, the end of the process by the overwriting of a running thread, or a join
  with a thread that waits for ever.
\<close>

section \<open>The queue\<close>

type_synonym 'a safe_queue = "'a list"

definition sq_push :: "'a \<Rightarrow> 'a safe_queue \<Rightarrow> 'a safe_queue" where
  "sq_push x q = q @ [x]"

definition sq_push_front :: "'a \<Rightarrow> 'a safe_queue \<Rightarrow> 'a safe_queue" where
  "sq_push_front x q = x # q"

text \<open>\<open>None\<close> is waiting.\<close>

fun sq_front :: "'a safe_queue \<Rightarrow> 'a option" where
  "sq_front [] = None"
| "sq_front (x # q) = Some x"

fun sq_pop :: "'a safe_queue \<Rightarrow> ('a \<times> 'a safe_queue) option" where
  "sq_pop [] = None"
| "sq_pop (x # q) = Some (x, q)"

definition sq_empty :: "'a safe_queue \<Rightarrow> bool" where
  "sq_empty q \<longleftrightarrow> q = []"

fun flush_data_queue :: "'a safe_queue \<Rightarrow> 'a safe_queue" where
  "flush_data_queue [] = []"
| "flush_data_queue (x # q) = flush_data_queue q"

interpretation sq: fifo "\<lambda>s q. s = q" "\<lambda>x s. Some (sq_push x s)" sq_pop
  by unfold_locales (auto simp: sq_push_def)

section \<open>Data\<close>

datatype io_data_type = IO_ANY | VAAPI_SURFACE | DMA_BUFFER | SYSTEM_IMAGE | SYSTEM_BLOCK | SYSTEM_BLOCK_COPY

text \<open>
  \<open>io_data\<close> is the memory behind the pointer, \<open>None\<close> when it is NULL, as it is when the thread gets to it.
\<close>

record IORuntimeData =
  io_type :: io_data_type
  io_data :: "bytes option"
  va_surface_id :: u32
  io_blk :: "bytes option"
  io_format :: u32
  io_width :: u32
  io_height :: u32
  io_size :: nat
  io_key_frame :: bool

definition new_data :: "io_data_type \<Rightarrow> IORuntimeData" where
  "new_data t = \<lparr>io_type = t, io_data = None, va_surface_id = 0, io_blk = None, io_format = 0, io_width = 0,
     io_height = 0, io_size = 0, io_key_frame = False\<rparr>"

definition FOURCC_RGBA :: u32 where "FOURCC_RGBA = 0x41424752"

definition avFormatToFourCC :: "int \<Rightarrow> u32" where
  "avFormatToFourCC fmt = FOURCC_RGBA"

section \<open>Writing one datum\<close>

text \<open>The driver of the surfaces: the device and the answers to the calls made for a datum.\<close>

record va_image =
  im_planes :: nat
  im_offsets :: "nat list"
  im_pitches :: "nat list"
  im_width :: nat
  im_height :: nat

record va_driver =
  va_dev :: bool
  va_create :: "IORuntimeData \<Rightarrow> int \<times> va_image"
  va_get :: "IORuntimeData \<Rightarrow> int"
  va_map :: "IORuntimeData \<Rightarrow> int \<times> bytes"
  va_unmap :: "IORuntimeData \<Rightarrow> int"
  va_destroy :: "IORuntimeData \<Rightarrow> int"

definition image_row :: "va_image \<Rightarrow> bytes \<Rightarrow> nat \<Rightarrow> nat \<Rightarrow> bytes option" where
  "image_row im mem i h =
     (if length (im_offsets im) \<le> i \<or> length (im_pitches im) \<le> i then None
      else let off = im_offsets im ! i + (im_pitches im ! i * h) mod 2 ^ 32; n = im_width im * 4
           in if off + n \<le> length mem then Some (buf_read off n mem) else None)"

fun all_some :: "'a option list \<Rightarrow> 'a list option" where
  "all_some [] = Some []"
| "all_some (x # xs) = do { a \<leftarrow> x; as \<leftarrow> all_some xs; Some (a # as) }"

definition image_bytes :: "va_image \<Rightarrow> bytes \<Rightarrow> bytes option" where
  "image_bytes im mem =
     map_option concat (all_some [image_row im mem i h. i \<leftarrow> [0..<im_planes im], h \<leftarrow> [0..<im_height im]])"

text \<open>The result and what was written.\<close>

definition copy_surface_to_file :: "va_driver \<Rightarrow> IORuntimeData \<Rightarrow> (int \<times> bytes) option" where
  "copy_surface_to_file drv d =
     (if \<not> va_dev drv then Some (-1, [])
      else if io_type d \<noteq> VAAPI_SURFACE then Some (-1, [])
      else if fst (va_create drv d) \<noteq> 0 \<or> va_get drv d \<noteq> 0 \<or> fst (va_map drv d) \<noteq> 0 then Some (-1, [])
      else do {
        b \<leftarrow> image_bytes (snd (va_create drv d)) (snd (va_map drv d));
        Some (if va_unmap drv d \<noteq> 0 \<or> va_destroy drv d \<noteq> 0 then -1 else 0, b) })"

definition copy_image_to_file :: "IORuntimeData \<Rightarrow> (int \<times> bytes) option" where
  "copy_image_to_file d = Some (0, [])"

text \<open>\<open>n\<close> bytes from behind a pointer.\<close>

definition mem_bytes :: "nat \<Rightarrow> bytes option \<Rightarrow> bytes option" where
  "mem_bytes n p = (case p of None \<Rightarrow> None | Some b \<Rightarrow> if n \<le> length b then Some (take n b) else None)"

definition copy_block_to_file :: "IORuntimeData \<Rightarrow> (int \<times> bytes) option" where
  "copy_block_to_file d =
     (if io_type d \<noteq> SYSTEM_BLOCK then Some (-1, [])
      else map_option (\<lambda>b. (0, b)) (mem_bytes (io_size d) (io_data d)))"

section \<open>The threads\<close>

text \<open>The variables of a thread's loop, and whether it has left the loop.\<close>

record wthread =
  th_file :: string
  th_frame_num :: int
  th_count :: int
  th_done :: bool

text \<open>The datum that tells a thread to stop.\<close>

definition stops_thread :: "IORuntimeData \<Rightarrow> bool" where
  "stops_thread d \<longleftrightarrow> io_type d = SYSTEM_BLOCK \<and> io_data d = None"

definition input_copy :: "va_driver \<Rightarrow> IORuntimeData \<Rightarrow> (int \<times> bytes) option" where
  "input_copy drv d =
     (case io_type d of
        SYSTEM_IMAGE \<Rightarrow> copy_image_to_file d
      | VAAPI_SURFACE \<Rightarrow> copy_surface_to_file drv d
      | SYSTEM_BLOCK \<Rightarrow> copy_block_to_file d
      | _ \<Rightarrow> Some (-1, []))"

definition input_round :: "va_driver \<Rightarrow> IORuntimeData \<Rightarrow> wthread \<Rightarrow> (wthread \<times> bytes) option" where
  "input_round drv d th =
     (if stops_thread d then Some (th\<lparr>th_done := True\<rparr>, [])
      else do {
        (ret, b) \<leftarrow> input_copy drv d;
        Some (if ret < 0 \<or> th_frame_num th \<le> 0 then th
              else th\<lparr>th_count := th_count th + 1, th_done := th_count th + 1 \<ge> th_frame_num th\<rparr>, b) })"

definition output_bytes :: "IORuntimeData \<Rightarrow> bytes option" where
  "output_bytes d =
     (case io_type d of
        SYSTEM_BLOCK \<Rightarrow> mem_bytes (io_size d) (io_data d)
      | SYSTEM_BLOCK_COPY \<Rightarrow> if io_blk d = Some [] then None else mem_bytes (io_size d) (io_blk d)
      | _ \<Rightarrow> Some [])"

definition leave_when_enough :: "wthread \<Rightarrow> wthread" where
  "leave_when_enough th = th\<lparr>th_done := th_frame_num th > 0 \<and> th_count th \<ge> th_frame_num th\<rparr>"

definition output_round :: "IORuntimeData \<Rightarrow> wthread \<Rightarrow> (wthread \<times> bytes) option" where
  "output_round d th =
     (if stops_thread d then Some (th\<lparr>th_done := True\<rparr>, [])
      else if th_count th = 0 \<and> \<not> io_key_frame d then Some (th, [])
      else if th_frame_num th < 0 \<or> th_count th < th_frame_num th then do {
        b \<leftarrow> output_bytes d;
        Some (leave_when_enough (th\<lparr>th_count := th_count th + 1\<rparr>), b) }
      else Some (leave_when_enough th, []))"

type_synonym files = "string \<rightharpoonup> bytes"

definition append_file :: "string \<Rightarrow> bytes \<Rightarrow> files \<Rightarrow> files" where
  "append_file f b fs = fs(f \<mapsto> (case fs f of None \<Rightarrow> [] | Some c \<Rightarrow> c) @ b)"

text \<open>A queue with the thread that reads it; \<open>None\<close> is no joinable thread.\<close>

record wslot =
  sl_queue :: "IORuntimeData safe_queue"
  sl_thread :: "wthread option"

type_synonym round = "IORuntimeData \<Rightarrow> wthread \<Rightarrow> (wthread \<times> bytes) option"

text \<open>One turn of the thread; one that has ended or finds the queue empty does nothing.\<close>

definition slot_turn :: "round \<Rightarrow> wslot \<Rightarrow> files \<Rightarrow> (wslot \<times> files) option" where
  "slot_turn r sl fs =
     (case sl_thread sl of
        None \<Rightarrow> Some (sl, fs)
      | Some th \<Rightarrow>
          if th_done th then Some (sl, fs)
          else (case sq_pop (sl_queue sl) of
                  None \<Rightarrow> Some (sl, fs)
                | Some (d, q) \<Rightarrow> do {
                    (th', b) \<leftarrow> r d th;
                    Some (\<lparr>sl_queue = q, sl_thread = Some th'\<rparr>, append_file (th_file th) b fs) }))"

text \<open>Waiting for a thread to end, while nobody puts anything into its queue.\<close>

fun join_thread :: "round \<Rightarrow> IORuntimeData safe_queue \<Rightarrow> wthread \<Rightarrow> files \<Rightarrow> (IORuntimeData safe_queue \<times> files) option"
  where
  "join_thread r [] th fs = (if th_done th then Some ([], fs) else None)"
| "join_thread r (d # q) th fs =
     (if th_done th then Some (d # q, fs)
      else do { (th', b) \<leftarrow> r d th; join_thread r q th' (append_file (th_file th) b fs) })"

section \<open>The writer\<close>

definition INPUT_WRITING :: u32 where "INPUT_WRITING = 1"
definition OUTPUT_WRITING :: u32 where "OUTPUT_WRITING = 2"
definition INOUT_WRITING :: u32 where "INOUT_WRITING = 3"

definition mode_bits :: "write_mode \<Rightarrow> u32" where
  "mode_bits m = (case m of INPUT \<Rightarrow> 1 | OUTPUT \<Rightarrow> 2 | INOUT \<Rightarrow> 3)"

record IORuntimeWriter =
  rw_codec :: int
  mPrefix :: string
  mStatus :: u32
  rw_in :: wslot
  rw_out :: wslot
  rw_files :: files

definition runtime_writer :: "int \<Rightarrow> string \<Rightarrow> files \<Rightarrow> IORuntimeWriter" where
  "runtime_writer codec prefix fs = \<lparr>rw_codec = codec, mPrefix = prefix, mStatus = 0,
     rw_in = \<lparr>sl_queue = [], sl_thread = None\<rparr>, rw_out = \<lparr>sl_queue = [], sl_thread = None\<rparr>, rw_files = fs\<rparr>"

definition has_bit :: "u32 \<Rightarrow> u32 \<Rightarrow> bool" where
  "has_bit s b \<longleftrightarrow> s AND b \<noteq> 0"

text \<open>A stream opened for writing and its thread; assigning to a running thread ends the process.\<close>

definition start_slot :: "string \<Rightarrow> int \<Rightarrow> wslot \<Rightarrow> wslot option" where
  "start_slot file n sl =
     (if sl_thread sl \<noteq> None then None
      else Some \<lparr>sl_queue = flush_data_queue (sl_queue sl),
             sl_thread = Some \<lparr>th_file = file, th_frame_num = n, th_count = 0, th_done = False\<rparr>\<rparr>)"

definition input_name :: "string \<Rightarrow> IORuntimeWriter \<Rightarrow> string" where
  "input_name now w = mPrefix w @ ''input'' @ ''_'' @ now @ ''.rgba''"

definition output_name :: "string \<Rightarrow> IORuntimeWriter \<Rightarrow> string" where
  "output_name now w = mPrefix w @ ''output'' @ ''_'' @ now @
     (if rw_codec w = AV_CODEC_ID_H264 then ''.264'' else if rw_codec w = AV_CODEC_ID_HEVC then ''.265''
      else if rw_codec w = AV_CODEC_ID_AV1 then ''.ivf'' else '''')"

text \<open>\<open>opens\<close> says which files can be opened, \<open>now\<close> is the time as the file names have it.\<close>

definition start_input :: "(string \<Rightarrow> bool) \<Rightarrow> string \<Rightarrow> int \<Rightarrow> IORuntimeWriter \<Rightarrow> (int \<times> IORuntimeWriter) option" where
  "start_input opens now n w =
     (let file = input_name now w
      in if \<not> opens file then Some (-1, w)
         else do {
           sl \<leftarrow> start_slot file n (rw_in w);
           Some (0, w\<lparr>rw_in := sl, rw_files := (rw_files w)(file \<mapsto> []), mStatus := mStatus w OR INPUT_WRITING\<rparr>) })"

definition start_output :: "(string \<Rightarrow> bool) \<Rightarrow> string \<Rightarrow> int \<Rightarrow> IORuntimeWriter \<Rightarrow> (int \<times> IORuntimeWriter) option" where
  "start_output opens now n w =
     (let file = output_name now w
      in if \<not> opens file then Some (-1, w)
         else do {
           sl \<leftarrow> start_slot file n (rw_out w);
           Some (0, w\<lparr>rw_out := sl, rw_files := (rw_files w)(file \<mapsto> []), mStatus := mStatus w OR OUTPUT_WRITING\<rparr>) })"

definition startWriting ::
  "(string \<Rightarrow> bool) \<Rightarrow> string \<Rightarrow> write_mode \<Rightarrow> int \<Rightarrow> IORuntimeWriter \<Rightarrow> (int \<times> IORuntimeWriter) option" where
  "startWriting opens now mode n w =
     (if mStatus w = INOUT_WRITING then Some (0, w)
      else do {
        (r, w1) \<leftarrow> (if \<not> has_bit (mStatus w) INPUT_WRITING \<and> has_bit (mode_bits mode) 1
                     then start_input opens now n w else Some (0, w));
        if r < 0 then Some (r, w1)
        else if \<not> has_bit (mStatus w1) OUTPUT_WRITING \<and> has_bit (mode_bits mode) 2
             then start_output opens now n w1 else Some (0, w1) })"

text \<open>Telling a thread to stop and waiting for it.\<close>

definition stop_slot :: "round \<Rightarrow> wslot \<Rightarrow> files \<Rightarrow> (wslot \<times> files) option" where
  "stop_slot r sl fs =
     (case sl_thread sl of
        None \<Rightarrow> Some (sl, fs)
      | Some th \<Rightarrow> do {
          (q, fs') \<leftarrow> join_thread r (sq_push (new_data SYSTEM_BLOCK) (sl_queue sl)) th fs;
          Some (\<lparr>sl_queue = q, sl_thread = None\<rparr>, fs') })"

definition stop_input :: "va_driver \<Rightarrow> IORuntimeWriter \<Rightarrow> IORuntimeWriter option" where
  "stop_input drv w = do {
     (sl, fs) \<leftarrow> stop_slot (input_round drv) (rw_in w) (rw_files w);
     Some (w\<lparr>rw_in := sl, rw_files := fs, mStatus := mStatus w AND NOT INPUT_WRITING\<rparr>) }"

definition stop_output :: "IORuntimeWriter \<Rightarrow> IORuntimeWriter option" where
  "stop_output w = do {
     (sl, fs) \<leftarrow> stop_slot output_round (rw_out w) (rw_files w);
     Some (w\<lparr>rw_out := sl, rw_files := fs, mStatus := mStatus w AND NOT OUTPUT_WRITING\<rparr>) }"

definition stopWriting :: "va_driver \<Rightarrow> write_mode \<Rightarrow> IORuntimeWriter \<Rightarrow> (int \<times> IORuntimeWriter) option" where
  "stopWriting drv mode w =
     (if mStatus w = 0 then Some (0, w)
      else do {
        w1 \<leftarrow> (if has_bit (mode_bits mode) 1 \<and> has_bit (mStatus w) INPUT_WRITING then stop_input drv w else Some w);
        w2 \<leftarrow> (if has_bit (mode_bits mode) 2 \<and> has_bit (mStatus w1) OUTPUT_WRITING then stop_output w1 else Some w1);
        Some (0, w2) })"

definition getRuntimeWriterStatus :: "IORuntimeWriter \<Rightarrow> u32" where
  "getRuntimeWriterStatus w = mStatus w"

definition changeCodecType :: "int \<Rightarrow> IORuntimeWriter \<Rightarrow> int \<times> IORuntimeWriter" where
  "changeCodecType codec w = (0, w\<lparr>rw_codec := codec\<rparr>)"

definition submit_to :: "IORuntimeData \<Rightarrow> wslot \<Rightarrow> wslot" where
  "submit_to d sl = sl\<lparr>sl_queue := sq_push d (sl_queue sl)\<rparr>"

definition submitRuntimeData :: "write_mode \<Rightarrow> IORuntimeData \<Rightarrow> IORuntimeWriter \<Rightarrow> int \<times> IORuntimeWriter" where
  "submitRuntimeData mode d w =
     (if mStatus w = 0 then (0, w)
      else if mode \<noteq> INPUT \<and> mode \<noteq> OUTPUT then (-1, w)
      else if mode = INPUT \<and> has_bit (mStatus w) INPUT_WRITING then (0, w\<lparr>rw_in := submit_to d (rw_in w)\<rparr>)
      else if mode = OUTPUT \<and> has_bit (mStatus w) OUTPUT_WRITING then (0, w\<lparr>rw_out := submit_to d (rw_out w)\<rparr>)
      else (0, w))"

definition destroy_writer :: "va_driver \<Rightarrow> IORuntimeWriter \<Rightarrow> IORuntimeWriter option" where
  "destroy_writer drv w = do {
     (_, w1) \<leftarrow> stopWriting drv INOUT w;
     Some (w1\<lparr>rw_in := (rw_in w1)\<lparr>sl_queue := flush_data_queue (sl_queue (rw_in w1))\<rparr>,
              rw_out := (rw_out w1)\<lparr>sl_queue := flush_data_queue (sl_queue (rw_out w1))\<rparr>\<rparr>) }"

definition input_turn :: "va_driver \<Rightarrow> IORuntimeWriter \<Rightarrow> IORuntimeWriter option" where
  "input_turn drv w = do {
     (sl, fs) \<leftarrow> slot_turn (input_round drv) (rw_in w) (rw_files w);
     Some (w\<lparr>rw_in := sl, rw_files := fs\<rparr>) }"

definition output_turn :: "IORuntimeWriter \<Rightarrow> IORuntimeWriter option" where
  "output_turn w = do {
     (sl, fs) \<leftarrow> slot_turn output_round (rw_out w) (rw_files w);
     Some (w\<lparr>rw_out := sl, rw_files := fs\<rparr>) }"

end
