(* ===== verification/StreamWriter.thy ===== *)
theory StreamWriter
  imports RuntimeWriter
begin

text \<open>
  The file mode of the encoder server, \<open>sources/encoder/shared/utils/IOStreamWriter.cpp\<close>: frames are read from
  a file of raw pictures and handed to a callback, and the encoded packets are written to another file until enough
  were written. The input stream is the file's contents with a position and the end-of-file flag of the stream.
  The frames handed to the callback are kept in a list. \<open>None\<close> is a division by zero.
\<close>

section \<open>Model\<close>

record instream =
  is_data :: bytes
  is_pos :: nat
  is_eof :: bool

record IOStreamWriter =
  mInputFile :: "instream option"
  mOutputFile :: "string option"
  mValidInputFrameNum :: int
  mOneVideoFrameSize :: int
  mVideoFrameWidth :: int
  mVideoFrameHeight :: int
  mFeedCb :: bool
  mOutputFrameNumber :: int
  mWrittenFrameCount :: int
  sw_fed :: "(int \<times> int \<times> bytes) list"
  sw_files :: files

definition stream_writer :: "files \<Rightarrow> IOStreamWriter" where
  "stream_writer fs = \<lparr>mInputFile = None, mOutputFile = None, mValidInputFrameNum = -1, mOneVideoFrameSize = -1,
     mVideoFrameWidth = -1, mVideoFrameHeight = -1, mFeedCb = False, mOutputFrameNumber = -1, mWrittenFrameCount = 0,
     sw_fed = [], sw_files = fs\<rparr>"

definition setInputStream :: "string \<Rightarrow> int \<Rightarrow> int \<Rightarrow> int \<Rightarrow> bool \<Rightarrow> IOStreamWriter \<Rightarrow> (int \<times> IOStreamWriter) option" where
  "setInputStream path one_frame_size width height func w =
     (case sw_files w path of
        None \<Rightarrow> Some (-1, w)
      | Some d \<Rightarrow>
          if one_frame_size < 0 \<or> width \<le> 0 \<or> height \<le> 0 then Some (-1, w)
          else if one_frame_size = 0 then None
          else Some (0, w\<lparr>mInputFile := Some \<lparr>is_data = d, is_pos = 0, is_eof = False\<rparr>, mFeedCb := func,
                 mVideoFrameWidth := width, mVideoFrameHeight := height, mOneVideoFrameSize := one_frame_size,
                 mValidInputFrameNum := to_int32 (c_div (int (length d)) one_frame_size)\<rparr>))"

definition setOutputStream :: "(string \<Rightarrow> bool) \<Rightarrow> string \<Rightarrow> IOStreamWriter \<Rightarrow> int \<times> IOStreamWriter" where
  "setOutputStream opens path w =
     (if \<not> opens path then (-1, w)
      else (0, w\<lparr>mOutputFile := Some path, sw_files := (sw_files w)(path \<mapsto> [])\<rparr>))"

definition setOutputFrameNumber :: "int \<Rightarrow> IOStreamWriter \<Rightarrow> IOStreamWriter" where
  "setOutputFrameNumber n w = w\<lparr>mOutputFrameNumber := n\<rparr>"

text \<open>A read of \<open>n\<close> bytes: what came, and the stream after it; reaching the end sets the flag.\<close>

definition is_read :: "nat \<Rightarrow> instream \<Rightarrow> bytes \<times> instream" where
  "is_read n s =
     (let got = buf_read (is_pos s) n (is_data s)
      in (got, s\<lparr>is_pos := is_pos s + length got, is_eof := length got < n\<rparr>))"

definition feedVideoFrameFromInputStream :: "IOStreamWriter \<Rightarrow> IOStreamWriter" where
  "feedVideoFrameFromInputStream w =
     (if mValidInputFrameNum w \<le> 0 then w
      else case mInputFile w of
        None \<Rightarrow> w
      | Some s \<Rightarrow>
          if is_eof s then w\<lparr>mInputFile := None\<rparr>
          else let (got, s') = is_read (nat (mOneVideoFrameSize w)) s;
                   w = w\<lparr>mInputFile := Some s'\<rparr>
               in if int (length got) = mOneVideoFrameSize w \<and> mFeedCb w
                  then w\<lparr>sw_fed := sw_fed w @ [(mVideoFrameWidth w, mVideoFrameHeight w, got)]\<rparr> else w)"

definition writeToOutputStream :: "bytes option \<Rightarrow> IOStreamWriter \<Rightarrow> int \<times> IOStreamWriter" where
  "writeToOutputStream data w =
     (case (mOutputFile w, data) of
        (Some f, Some b) \<Rightarrow>
          let w = w\<lparr>sw_files := append_file f b (sw_files w), mWrittenFrameCount := mWrittenFrameCount w + 1\<rparr>
          in if mValidInputFrameNum w > 0 \<and> mWrittenFrameCount w \<ge> mValidInputFrameNum w \<or>
                mOutputFrameNumber w > 0 \<and> mWrittenFrameCount w \<ge> mOutputFrameNumber w
             then (1, w\<lparr>mOutputFile := None\<rparr>) else (0, w)
      | _ \<Rightarrow> (0, w))"

section \<open>Frames fed from a file\<close>

text \<open>The whole frames of a file, in order; a rest shorter than a frame is left out.\<close>

function frames_of :: "nat \<Rightarrow> bytes \<Rightarrow> bytes list" where
  "frames_of n d = (if n = 0 \<or> length d < n then [] else take n d # frames_of n (drop n d))"
  by auto
termination by (relation "measure (length \<circ> snd)") auto

declare frames_of.simps [simp del]

definition feeding :: "int \<Rightarrow> int \<Rightarrow> nat \<Rightarrow> IOStreamWriter \<Rightarrow> bytes list \<Rightarrow> bool" where
  "feeding width height n w fr \<longleftrightarrow>
     0 < n \<and> mValidInputFrameNum w > 0 \<and> mOneVideoFrameSize w = int n \<and> mFeedCb w \<and> mVideoFrameWidth w = width \<and>
     mVideoFrameHeight w = height \<and>
     (case mInputFile w of None \<Rightarrow> fr = [] | Some s \<Rightarrow> if is_eof s then fr = [] else fr = frames_of n (drop (is_pos s) (is_data s)))"

lemma frames_of_short: "length d < n \<Longrightarrow> frames_of n d = []"
  by (simp add: frames_of.simps)

lemma frames_of_long: "0 < n \<Longrightarrow> n \<le> length d \<Longrightarrow> frames_of n d = take n d # frames_of n (drop n d)"
  by (subst frames_of.simps) auto

lemma feed_step:
  assumes "feeding width height n w fr"
  shows "sw_fed (feedVideoFrameFromInputStream w) = sw_fed w @ map (\<lambda>b. (width, height, b)) (take 1 fr)"
    and "feeding width height n (feedVideoFrameFromInputStream w) (drop 1 fr)"
proof -
  show "sw_fed (feedVideoFrameFromInputStream w) = sw_fed w @ map (\<lambda>b. (width, height, b)) (take 1 fr)"
    using assms
    by (auto simp: feeding_def feedVideoFrameFromInputStream_def is_read_def buf_read_def Let_def frames_of_short
      frames_of_long split: option.splits if_splits)
  show "feeding width height n (feedVideoFrameFromInputStream w) (drop 1 fr)"
    using assms
    by (auto simp: feeding_def feedVideoFrameFromInputStream_def is_read_def buf_read_def Let_def frames_of_short
      frames_of_long add.commute split: option.splits if_splits)
qed

lemma feed_steps:
  "feeding width height n w fr \<Longrightarrow>
   sw_fed ((feedVideoFrameFromInputStream ^^ k) w) = sw_fed w @ map (\<lambda>b. (width, height, b)) (take k fr)"
proof (induction k arbitrary: w fr)
  case (Suc k)
  have "sw_fed ((feedVideoFrameFromInputStream ^^ Suc k) w)
      = sw_fed (feedVideoFrameFromInputStream w) @ map (\<lambda>b. (width, height, b)) (take k (drop 1 fr))"
    using Suc.IH [OF feed_step(2) [OF Suc.prems]] by (simp add: funpow_swap1)
  with feed_step(1) [OF Suc.prems] show ?case by (cases fr) simp_all
qed simp

lemma feed_idle: "mValidInputFrameNum w \<le> 0 \<Longrightarrow> (feedVideoFrameFromInputStream ^^ k) w = w"
  by (induction k) (auto simp: feedVideoFrameFromInputStream_def)

lemma frames_of_concat: "0 < n \<Longrightarrow> concat (frames_of n d) = take (length d - length d mod n) d"
proof (induction n d rule: frames_of.induct)
  case (1 n d)
  show ?case
  proof (cases "length d < n")
    case False
    with 1 have "concat (frames_of n d) = take n d @ take (length d - n - (length d - n) mod n) (drop n d)"
      by (simp add: frames_of_long)
    moreover have "n + (length d - n - (length d - n) mod n) = length d - length d mod n"
      using False 1(2) le_mod_geq [of n "length d"] mod_less_eq_dividend [of "length d - n" n] by linarith
    ultimately show ?thesis by (simp flip: take_add)
  qed (simp add: frames_of_short)
qed

lemma frames_of_lengths: "b \<in> set (frames_of n d) \<Longrightarrow> length b = n"
proof (induction n d rule: frames_of.induct)
  case (1 n d)
  then show ?case by (cases "n = 0 \<or> length d < n") (auto simp: frames_of.simps [of n d])
qed

text \<open>
  Reading from a file: a set-up with sizes in range succeeds, and however often a frame is asked for, the
  callback has seen exactly the first frames of the file, each whole and in order, and never the rest of the file that
  is shorter than a frame.
\<close>

theorem file_frames_fed:
  assumes "sw_files w path = Some d" "0 < n" "0 < width" "0 < height" "int (length d) \<le> INT_MAX"
  shows "\<exists>w'. setInputStream path (int n) width height True w = Some (0, w') \<and>
    (\<forall>k. \<exists>fr. sw_fed ((feedVideoFrameFromInputStream ^^ k) w') = sw_fed w @ map (\<lambda>b. (width, height, b)) (take k fr) \<and>
       list_all (\<lambda>b. length b = n) fr \<and> concat fr = take (length d - length d mod n) d)"
proof -
  define w' where "w' = snd (the (setInputStream path (int n) width height True w))"
  have "c_div (int (length d)) (int n) = int (length d div n)"
    using assms(2) by (simp add: c_div_def sgn_if zdiv_int)
  moreover have "to_int32 (int (length d div n)) = int (length d div n)"
    by (rule to_int32_id [OF _ order_trans [OF _ assms(5)]]) (simp_all add: INT_MIN_def)
  ultimately have s: "setInputStream path (int n) width height True w = Some (0, w')"
    "mValidInputFrameNum w' = int (length d div n)" "sw_fed w' = sw_fed w"
    "0 < mValidInputFrameNum w' \<Longrightarrow> feeding width height n w' (frames_of n d)"
    using assms by (simp_all add: w'_def setInputStream_def feeding_def)
  have "sw_fed ((feedVideoFrameFromInputStream ^^ k) w') = sw_fed w @ map (\<lambda>b. (width, height, b)) (take k (frames_of n d))" for k
  proof (cases "0 < mValidInputFrameNum w'")
    case False
    then have "length d < n" using s(2) assms(2) by (simp add: div_eq_0_iff)
    with False s(3) show ?thesis by (simp add: feed_idle frames_of_short)
  qed (use s(3) feed_steps [OF s(4)] in simp)
  moreover have "list_all (\<lambda>b. length b = n) (frames_of n d)" by (simp add: list_all_iff frames_of_lengths)
  ultimately show ?thesis using s(1) frames_of_concat [OF assms(2)] by blast
qed

lemma file_frames_fed_witness:
  "\<exists>w'. setInputStream ''in'' (int 2) 4 4 True (stream_writer [''in'' \<mapsto> [1, 2, 3, 4, 5]]) = Some (0, w') \<and>
    (\<forall>k. \<exists>fr. sw_fed ((feedVideoFrameFromInputStream ^^ k) w') = sw_fed (stream_writer [''in'' \<mapsto> [1, 2, 3, 4, 5]]) @
        map (\<lambda>b. (4, 4, b)) (take k fr) \<and> list_all (\<lambda>b. length b = 2) fr \<and> concat fr = take (length [1, 2, 3, 4, 5::u8] - 5 mod 2) [1, 2, 3, 4, 5])"
  using file_frames_fed [of "stream_writer [''in'' \<mapsto> [1, 2, 3, 4, 5]]" "''in''" "[1, 2, 3, 4, 5]" 2 4 4]
  by (simp add: stream_writer_def INT_MAX_def)

end
