(* ===== verification/CallbackMux.thy ===== *)
theory CallbackMux
  imports Irrv StreamWriter
begin

text \<open>
  The multiplexer that hands encoded packets to the stream protocol, \<open>sources/encoder/shared/CCallbackMux.cpp\<close>, and
  its wiring in \<open>IrrStreamer.cpp\<close> and \<open>encoder.cpp\<close>. Its callbacks are pointers to functions of the stream
  protocol, \<open>None\<close> being NULL. A call may come back, be left by the exception of the stream protocol, or end the
  process with \<open>exit(0)\<close>. Where a control message that is read on the way starts or stops a recording, the calls the
  streamer makes are carried out on the runtime writer.
\<close>

section \<open>State and outcomes\<close>

text \<open>\<open>ew_rw\<close> is the runtime writer, \<open>ew_sw\<close> the writer of the file mode, if there are any.\<close>

record enc_world =
  ew_irrv :: irrv
  ew_rw :: "IORuntimeWriter option"
  ew_sw :: "IOStreamWriter option"

datatype 'a mux_result = MRet 'a enc_world | MThrown enc_world | MExit enc_world

type_synonym 'a mux_step = "enc_world \<Rightarrow> 'a mux_result option"

definition mret :: "'a \<Rightarrow> 'a mux_step" where
  "mret x w = Some (MRet x w)"

definition mbind :: "'a mux_step \<Rightarrow> ('a \<Rightarrow> 'b mux_step) \<Rightarrow> 'b mux_step" where
  "mbind m f w =
     (case m w of
        None \<Rightarrow> None
      | Some (MRet x w') \<Rightarrow> f x w'
      | Some (MThrown w') \<Rightarrow> Some (MThrown w')
      | Some (MExit w') \<Rightarrow> Some (MExit w'))"

text \<open>The environment: two variables, the driver and the files of the runtime writer, and the time.\<close>

record mux_env =
  me_unlimit :: "string option"
  me_enable :: "string option"
  me_drv :: va_driver
  me_opens :: "string \<Rightarrow> bool"
  me_now :: string

definition set_to_1 :: "string option \<Rightarrow> bool" where
  "set_to_1 v \<longleftrightarrow> (case v of None \<Rightarrow> False | Some s \<Rightarrow> take 1 s = ''1'')"

section \<open>Callbacks\<close>

type_synonym cb_open = "nat \<Rightarrow> int \<Rightarrow> int \<Rightarrow> int \<times> int \<Rightarrow> int"
type_synonym cb_write = "poll_answers \<Rightarrow> nat \<Rightarrow> bytes \<Rightarrow> u32 \<Rightarrow> irrv \<Rightarrow> (int \<times> irrv) thrown option"
type_synonym cb_write2 = "poll_answers \<Rightarrow> nat \<Rightarrow> bytes \<Rightarrow> int \<Rightarrow> irrv \<Rightarrow> (int \<times> irrv) thrown option"
type_synonym cb_check = "poll_answers \<Rightarrow> nat \<Rightarrow> irrv \<Rightarrow> (int \<times> irrv) thrown option"
type_synonym cb_message = "nat \<Rightarrow> int \<Rightarrow> u32 \<Rightarrow> irrv \<Rightarrow> (int \<times> irrv) option"

record CCallbackMux =
  m_Opaque :: nat
  m_Opaque2 :: nat
  m_pOpen :: "cb_open option"
  m_pWrite :: "cb_write option"
  m_pWrite2 :: "cb_write2 option"
  m_pCheckNewConn :: "cb_check option"
  m_pSendMessage :: "cb_message option"
  m_bInited :: bool
  getTransmissionAllowed :: "(irrv \<Rightarrow> bool) option"

text \<open>The calls a streamer has made on the runtime writer, carried out.\<close>

definition streamer_calls :: "irrv \<Rightarrow> stream_call list" where
  "streamer_calls w = (case ir_streamer w of None \<Rightarrow> [] | Some s \<Rightarrow> m_calls s)"

fun writer_call :: "mux_env \<Rightarrow> stream_call \<Rightarrow> IORuntimeWriter \<Rightarrow> IORuntimeWriter option" where
  "writer_call env (StopWriting m) rw = map_option snd (stopWriting (me_drv env) m rw)"
| "writer_call env (StartWriting m n) rw =
     map_option snd (startWriting (me_opens env) (me_now env) m (case n of None \<Rightarrow> -1 | Some k \<Rightarrow> k) rw)"
| "writer_call env (ChangeCodecType c) rw = Some (snd (changeCodecType c rw))"
| "writer_call env _ rw = Some rw"

fun writer_calls :: "mux_env \<Rightarrow> stream_call list \<Rightarrow> IORuntimeWriter \<Rightarrow> IORuntimeWriter option" where
  "writer_calls env [] rw = Some rw"
| "writer_calls env (c # cs) rw = do { rw' \<leftarrow> writer_call env c rw; writer_calls env cs rw' }"

definition carry_out :: "mux_env \<Rightarrow> stream_call list \<Rightarrow> IORuntimeWriter option \<Rightarrow> IORuntimeWriter option option" where
  "carry_out env cs rw = (case rw of None \<Rightarrow> Some None | Some r \<Rightarrow> map_option Some (writer_calls env cs r))"

definition call_irrv :: "mux_env \<Rightarrow> (irrv \<Rightarrow> (int \<times> irrv) thrown option) \<Rightarrow> int mux_step" where
  "call_irrv env f w = do {
     r \<leftarrow> f (ew_irrv w);
     let w1 = (case r of Returned (_, w') \<Rightarrow> w' | Out_of_range w' \<Rightarrow> w');
     rw \<leftarrow> carry_out env (drop (length (streamer_calls (ew_irrv w))) (streamer_calls w1)) (ew_rw w);
     let w' = w\<lparr>ew_irrv := w1, ew_rw := rw\<rparr>;
     Some (case r of Returned (x, _) \<Rightarrow> MRet x w' | Out_of_range _ \<Rightarrow> MThrown w') }"

section \<open>The multiplexer\<close>

definition callback_mux ::
  "nat \<Rightarrow> nat \<Rightarrow> cb_open option \<Rightarrow> cb_write option \<Rightarrow> cb_write2 option \<Rightarrow> cb_check option \<Rightarrow> cb_message option \<Rightarrow> CCallbackMux"
  where
  "callback_mux opaque opaque2 op wr wr2 ch msg = \<lparr>m_Opaque = opaque, m_Opaque2 = opaque2, m_pOpen = op, m_pWrite = wr,
     m_pWrite2 = wr2, m_pCheckNewConn = ch, m_pSendMessage = msg, m_bInited = False, getTransmissionAllowed = None\<rparr>"

definition addStream :: "bool \<Rightarrow> int \<Rightarrow> int \<Rightarrow> int \<times> int \<Rightarrow> CCallbackMux \<Rightarrow> int \<times> CCallbackMux" where
  "addStream video width height rate mux =
     (if m_bInited mux \<or> \<not> video then (- EINVAL, mux)
      else case m_pOpen mux of
        None \<Rightarrow> (0, mux\<lparr>m_bInited := True\<rparr>)
      | Some op \<Rightarrow> let ret = op (m_Opaque mux) width height rate
                   in if ret < 0 then (ret, mux) else (0, mux\<lparr>m_bInited := True\<rparr>))"

definition call_check :: "mux_env \<Rightarrow> poll_answers \<Rightarrow> cb_check \<Rightarrow> nat \<Rightarrow> int mux_step" where
  "call_check env a ch opaque = (if opaque = 0 then mret 0 else call_irrv env (ch a opaque))"

definition checkNewConn :: "mux_env \<Rightarrow> poll_answers \<Rightarrow> poll_answers \<Rightarrow> CCallbackMux \<Rightarrow> int mux_step" where
  "checkNewConn env a a2 mux =
     (case m_pCheckNewConn mux of
        None \<Rightarrow> mret 0
      | Some ch \<Rightarrow> mbind (call_check env a ch (m_Opaque mux)) (\<lambda>n.
          if m_Opaque2 mux = 0 then mret n else call_check env a2 ch (m_Opaque2 mux)))"

text \<open>The second connection is looked after without a test of the callback.\<close>

definition check_second :: "mux_env \<Rightarrow> poll_answers \<Rightarrow> CCallbackMux \<Rightarrow> int mux_step" where
  "check_second env a2 mux w =
     (if m_Opaque2 mux = 0 \<or> m_pWrite2 mux = None then mret 0 w
      else case m_pCheckNewConn mux of None \<Rightarrow> None | Some ch \<Rightarrow> call_irrv env (ch a2 (m_Opaque2 mux)) w)"

definition write_file :: "bytes \<Rightarrow> int mux_step" where
  "write_file data w =
     (case ew_sw w of
        None \<Rightarrow> mret 0 w
      | Some sw \<Rightarrow> let (r, sw') = writeToOutputStream (Some data) sw; w' = w\<lparr>ew_sw := Some sw'\<rparr>
                   in if r \<noteq> 0 then Some (MExit w') else mret 0 w')"

definition AV_PKT_FLAG_KEY :: u32 where "AV_PKT_FLAG_KEY = 1"

definition packet_data :: "bytes \<Rightarrow> u32 \<Rightarrow> IORuntimeData" where
  "packet_data data flags = (new_data SYSTEM_BLOCK_COPY)\<lparr>io_blk := Some data, io_size := length data,
     io_key_frame := flags AND AV_PKT_FLAG_KEY \<noteq> 0\<rparr>"

definition record_packet :: "bytes \<Rightarrow> u32 \<Rightarrow> int mux_step" where
  "record_packet data flags w =
     (case ew_rw w of
        None \<Rightarrow> mret 0 w
      | Some rw \<Rightarrow>
          if getRuntimeWriterStatus rw = 0 then mret 0 w
          else mret 0 (w\<lparr>ew_rw := Some (snd (submitRuntimeData OUTPUT (packet_data data flags) rw))\<rparr>))"

definition may_transmit :: "mux_env \<Rightarrow> CCallbackMux \<Rightarrow> enc_world \<Rightarrow> bool" where
  "may_transmit env mux w \<longleftrightarrow>
     (case getTransmissionAllowed mux of None \<Rightarrow> False | Some f \<Rightarrow> f (ew_irrv w)) \<or>
     set_to_1 (me_enable env) \<or> set_to_1 (me_unlimit env)"

definition mux_write ::
  "mux_env \<Rightarrow> poll_answers \<Rightarrow> poll_answers \<Rightarrow> (bytes \<times> u32) option \<Rightarrow> CCallbackMux \<Rightarrow> int mux_step" where
  "mux_write env a a2 pkt mux w =
     (case pkt of
        None \<Rightarrow> mret 0 w
      | Some (data, flags) \<Rightarrow>
          if \<not> may_transmit env mux w then mbind (checkNewConn env a a2 mux) (\<lambda>_. mret 0) w
          else case m_pWrite mux of
            None \<Rightarrow> mret 0 w
          | Some wr \<Rightarrow>
              mbind (call_irrv env (wr a (m_Opaque mux) data flags)) (\<lambda>ret.
              mbind (check_second env a2 mux) (\<lambda>_.
              mbind (write_file data) (\<lambda>_.
              mbind (record_packet data flags) (\<lambda>_. mret ret)))) w)"

definition mux_write2 :: "mux_env \<Rightarrow> poll_answers \<Rightarrow> bytes \<Rightarrow> int \<Rightarrow> CCallbackMux \<Rightarrow> int mux_step" where
  "mux_write2 env a2 data type mux =
     (case m_pWrite2 mux of
        None \<Rightarrow> mret (-1)
      | Some wr \<Rightarrow> if m_Opaque2 mux = 0 then mret (-1)
          else mbind (call_irrv env (wr a2 (m_Opaque2 mux) data type)) (\<lambda>_. mret 0))"

definition mux_sendMessage :: "mux_env \<Rightarrow> int \<Rightarrow> u32 \<Rightarrow> CCallbackMux \<Rightarrow> int mux_step" where
  "mux_sendMessage env msg value mux =
     (case m_pSendMessage mux of
        None \<Rightarrow> mret 0
      | Some f \<Rightarrow>
          mbind (call_irrv env (\<lambda>w. map_option Returned (f (m_Opaque mux) msg value w))) (\<lambda>_.
          mbind (call_irrv env (\<lambda>w. map_option Returned (f (m_Opaque2 mux) msg value w))) (\<lambda>_. mret 0)))"

section \<open>The wiring\<close>

definition allow_transmit :: "irrv \<Rightarrow> bool" where
  "allow_transmit w = (case ir_streamer w of None \<Rightarrow> False | Some s \<Rightarrow> m_bAllowTransmit s)"

definition irrv_mux :: "nat \<Rightarrow> nat \<Rightarrow> CCallbackMux" where
  "irrv_mux server aux =
     (callback_mux server aux None (Some irrv_writeback) (Some irrv_writeback2) (Some irrv_checknewconn)
        (Some irrv_send_message))\<lparr>getTransmissionAllowed := Some allow_transmit\<rparr>"

end
