(* ===== verification/RuntimeWriterProps.thy ===== *)
theory RuntimeWriterProps
  imports RuntimeWriter
begin

text \<open>
  Recording over any history of calls and turns of the two threads: the status says which threads there are, no
  running thread is overwritten and every stop returns; and the file of an output recording holds exactly the
  packets submitted from the first key frame on, up to the number asked for, whatever the order of turns.
\<close>

section \<open>Histories\<close>

datatype rw_ev =
    Start write_mode int string
  | Stop write_mode
  | Submit write_mode IORuntimeData
  | InputTurn
  | OutputTurn
  | NewCodec int

fun rw_step :: "va_driver \<Rightarrow> (string \<Rightarrow> bool) \<Rightarrow> rw_ev \<Rightarrow> IORuntimeWriter \<Rightarrow> IORuntimeWriter option" where
  "rw_step drv opens (Start m n now) w = map_option snd (startWriting opens now m n w)"
| "rw_step drv opens (Stop m) w = map_option snd (stopWriting drv m w)"
| "rw_step drv opens (Submit m d) w = Some (snd (submitRuntimeData m d w))"
| "rw_step drv opens InputTurn w = input_turn drv w"
| "rw_step drv opens OutputTurn w = output_turn w"
| "rw_step drv opens (NewCodec c) w = Some (snd (changeCodecType c w))"

fun rw_exec :: "va_driver \<Rightarrow> (string \<Rightarrow> bool) \<Rightarrow> rw_ev list \<Rightarrow> IORuntimeWriter \<Rightarrow> IORuntimeWriter option" where
  "rw_exec drv opens [] w = Some w"
| "rw_exec drv opens (e # es) w = do { w' \<leftarrow> rw_step drv opens e w; rw_exec drv opens es w' }"

text \<open>Data that can be written: the sizes are those of the memory given.\<close>

definition input_ok :: "va_driver \<Rightarrow> IORuntimeData \<Rightarrow> bool" where
  "input_ok drv d \<longleftrightarrow> stops_thread d \<or> input_copy drv d \<noteq> None"

definition output_ok :: "IORuntimeData \<Rightarrow> bool" where
  "output_ok d \<longleftrightarrow> \<not> stops_thread d \<and> output_bytes d \<noteq> None"

fun ev_ok :: "va_driver \<Rightarrow> rw_ev \<Rightarrow> bool" where
  "ev_ok drv (Submit m d) \<longleftrightarrow> (m = INPUT \<longrightarrow> input_ok drv d) \<and> (m = OUTPUT \<longrightarrow> output_ok d)"
| "ev_ok drv e \<longleftrightarrow> True"

section \<open>One slot\<close>

definition round_ok :: "round \<Rightarrow> (IORuntimeData \<Rightarrow> bool) \<Rightarrow> bool" where
  "round_ok r P \<longleftrightarrow>
     (\<forall>d th. P d \<longrightarrow> r d th \<noteq> None) \<and>
     (\<forall>d th th' b. r d th = Some (th', b) \<longrightarrow> th_file th' = th_file th) \<and>
     (\<forall>th. r (new_data SYSTEM_BLOCK) th = Some (th\<lparr>th_done := True\<rparr>, []))"

lemma new_data_stops [simp]: "stops_thread (new_data SYSTEM_BLOCK)"
  by (simp add: stops_thread_def new_data_def)

lemma input_round_ok: "round_ok (input_round drv) (input_ok drv)"
  by (auto simp: round_ok_def input_round_def input_ok_def split: if_splits bind_splits)

lemma output_round_ok: "round_ok output_round (\<lambda>d. stops_thread d \<or> output_ok d)"
  by (auto simp: round_ok_def output_round_def output_ok_def leave_when_enough_def split: if_splits bind_splits)

definition slot_ok :: "(IORuntimeData \<Rightarrow> bool) \<Rightarrow> bool \<Rightarrow> (string \<Rightarrow> bool) \<Rightarrow> wslot \<Rightarrow> bool" where
  "slot_ok P on F sl \<longleftrightarrow>
     (on \<longleftrightarrow> sl_thread sl \<noteq> None) \<and> (\<forall>th. sl_thread sl = Some th \<longrightarrow> F (th_file th)) \<and>
     (on \<longrightarrow> (\<forall>d\<in>set (sl_queue sl). P d))"

lemma flush_empty [simp]: "flush_data_queue q = []"
  by (induction q) auto

lemma slot_turn_ok:
  assumes "round_ok r P" "slot_ok P on F sl"
  shows "\<exists>sl' fs'. slot_turn r sl fs = Some (sl', fs') \<and> slot_ok P on F sl'"
proof (cases "\<exists>th d q. sl_thread sl = Some th \<and> \<not> th_done th \<and> sl_queue sl = d # q")
  case True
  then obtain th d q where *: "sl_thread sl = Some th" "\<not> th_done th" "sl_queue sl = d # q" by blast
  then have "P d" using assms(2) by (simp add: slot_ok_def)
  then obtain th' b where r: "r d th = Some (th', b)" using assms(1) by (fastforce simp: round_ok_def)
  with assms(1) have "th_file th' = th_file th" unfolding round_ok_def by blast
  with * r assms(2) show ?thesis by (auto simp: slot_turn_def slot_ok_def)
next
  case False
  with assms(2) show ?thesis by (cases "sl_queue sl") (auto simp: slot_turn_def split: option.splits)
qed

lemma join_returns:
  assumes "round_ok r P" "\<forall>d\<in>set q. P d"
  shows "\<exists>q' fs'. join_thread r (q @ [new_data SYSTEM_BLOCK]) th fs = Some (q', fs')"
  using assms(2)
proof (induction q arbitrary: th fs)
  case Nil
  then show ?case using assms(1) by (auto simp: round_ok_def)
next
  case (Cons d q)
  then obtain th' b where "r d th = Some (th', b)" using assms(1) by (fastforce simp: round_ok_def)
  with Cons show ?case by auto
qed

lemma stop_slot_ok:
  assumes "round_ok r P" "slot_ok P True F sl"
  shows "\<exists>sl' fs'. stop_slot r sl fs = Some (sl', fs') \<and> slot_ok P False F sl'"
proof -
  obtain th where th: "sl_thread sl = Some th" using assms(2) by (auto simp: slot_ok_def)
  obtain q fs' where "join_thread r (sl_queue sl @ [new_data SYSTEM_BLOCK]) th fs = Some (q, fs')"
    using assms join_returns [of r P "sl_queue sl" th fs] by (auto simp: slot_ok_def)
  with th show ?thesis by (simp add: stop_slot_def slot_ok_def sq_push_def)
qed

section \<open>The status\<close>

lemma has_bit_iff:
  "has_bit s INPUT_WRITING \<longleftrightarrow> bit s 0" "has_bit s OUTPUT_WRITING \<longleftrightarrow> bit s (Suc 0)"
  "has_bit (mode_bits m) 1 \<longleftrightarrow> m \<noteq> OUTPUT" "has_bit (mode_bits m) 2 \<longleftrightarrow> m \<noteq> INPUT"
proof -
  from and_exp_eq_0_iff_not_bit [of s 0] and_exp_eq_0_iff_not_bit [of s "Suc 0"]
  show "has_bit s INPUT_WRITING \<longleftrightarrow> bit s 0" "has_bit s OUTPUT_WRITING \<longleftrightarrow> bit s (Suc 0)"
    by (simp_all add: has_bit_def INPUT_WRITING_def OUTPUT_WRITING_def)
  show "has_bit (mode_bits m) 1 \<longleftrightarrow> m \<noteq> OUTPUT" "has_bit (mode_bits m) 2 \<longleftrightarrow> m \<noteq> INPUT"
    by (cases m; simp add: has_bit_def mode_bits_def)+
qed

lemma status_bits:
  "bit (s OR INPUT_WRITING) 0" "bit (s OR INPUT_WRITING) (Suc 0) \<longleftrightarrow> bit s (Suc 0)"
  "bit (s OR OUTPUT_WRITING) 0 \<longleftrightarrow> bit s 0" "bit (s OR OUTPUT_WRITING) (Suc 0)"
  "\<not> bit (s AND NOT INPUT_WRITING) 0" "bit (s AND NOT INPUT_WRITING) (Suc 0) \<longleftrightarrow> bit s (Suc 0)"
  "bit (s AND NOT OUTPUT_WRITING) 0 \<longleftrightarrow> bit s 0" "\<not> bit (s AND NOT OUTPUT_WRITING) (Suc 0)"
  "bit INOUT_WRITING 0" "bit INOUT_WRITING (Suc 0)"
  by (simp_all add: bit_simps INPUT_WRITING_def OUTPUT_WRITING_def INOUT_WRITING_def bit_numeral_rec)

section \<open>The invariant\<close>

definition in_file :: "string \<Rightarrow> string \<Rightarrow> bool" where
  "in_file prefix f \<longleftrightarrow> (\<exists>x. f = prefix @ ''input'' @ x)"

definition out_file :: "string \<Rightarrow> string \<Rightarrow> bool" where
  "out_file prefix f \<longleftrightarrow> (\<exists>x. f = prefix @ ''output'' @ x)"

lemma files_differ: "in_file p f \<Longrightarrow> out_file p g \<Longrightarrow> f \<noteq> g"
  by (auto simp: in_file_def out_file_def)

definition rw_ok :: "va_driver \<Rightarrow> IORuntimeWriter \<Rightarrow> bool" where
  "rw_ok drv w \<longleftrightarrow>
     slot_ok (input_ok drv) (has_bit (mStatus w) INPUT_WRITING) (in_file (mPrefix w)) (rw_in w) \<and>
     slot_ok output_ok (has_bit (mStatus w) OUTPUT_WRITING) (out_file (mPrefix w)) (rw_out w)"

lemma output_round_ok': "round_ok output_round output_ok"
  using output_round_ok by (auto simp: round_ok_def)

lemma rw_ok_new: "rw_ok drv (runtime_writer codec prefix fs)"
  by (simp add: rw_ok_def runtime_writer_def slot_ok_def has_bit_def)

lemma names: "in_file (mPrefix w) (input_name now w)" "out_file (mPrefix w) (output_name now w)"
  by (auto simp: in_file_def out_file_def input_name_def output_name_def)

lemma start_slot_ok:
  assumes "slot_ok P False F sl" "F file"
  shows "\<exists>sl'. start_slot file n sl = Some sl' \<and> slot_ok P True F sl'"
  using assms by (auto simp: slot_ok_def start_slot_def)

lemma start_input_ok:
  assumes "rw_ok drv w" "\<not> has_bit (mStatus w) INPUT_WRITING"
  shows "\<exists>r w'. start_input opens now n w = Some (r, w') \<and> rw_ok drv w' \<and> mPrefix w' = mPrefix w"
  using assms start_slot_ok [of "input_ok drv" "in_file (mPrefix w)" "rw_in w" "input_name now w" n]
  by (auto simp: rw_ok_def start_input_def Let_def has_bit_iff status_bits names)

lemma start_output_ok:
  assumes "rw_ok drv w" "\<not> has_bit (mStatus w) OUTPUT_WRITING"
  shows "\<exists>r w'. start_output opens now n w = Some (r, w') \<and> rw_ok drv w' \<and> mPrefix w' = mPrefix w"
  using assms start_slot_ok [of output_ok "out_file (mPrefix w)" "rw_out w" "output_name now w" n]
  by (auto simp: rw_ok_def start_output_def Let_def has_bit_iff status_bits names)

lemma stop_input_ok:
  assumes "rw_ok drv w" "has_bit (mStatus w) INPUT_WRITING"
  shows "\<exists>w'. stop_input drv w = Some w' \<and> rw_ok drv w' \<and> mPrefix w' = mPrefix w"
  using assms stop_slot_ok [OF input_round_ok, of drv "in_file (mPrefix w)" "rw_in w" "rw_files w"]
  by (auto simp: rw_ok_def stop_input_def has_bit_iff status_bits)

lemma stop_output_ok:
  assumes "rw_ok drv w" "has_bit (mStatus w) OUTPUT_WRITING"
  shows "\<exists>w'. stop_output w = Some w' \<and> rw_ok drv w' \<and> mPrefix w' = mPrefix w"
  using assms stop_slot_ok [OF output_round_ok', of "out_file (mPrefix w)" "rw_out w" "rw_files w"]
  by (auto simp: rw_ok_def stop_output_def has_bit_iff status_bits)

lemma startWriting_ok:
  assumes "rw_ok drv w"
  shows "\<exists>r w'. startWriting opens now m n w = Some (r, w') \<and> rw_ok drv w' \<and> mPrefix w' = mPrefix w"
proof (cases "mStatus w = INOUT_WRITING")
  case False
  obtain r w1 where 1: "(if \<not> has_bit (mStatus w) INPUT_WRITING \<and> has_bit (mode_bits m) 1
      then start_input opens now n w else Some (0, w)) = Some (r, w1)" "rw_ok drv w1" "mPrefix w1 = mPrefix w"
    using assms start_input_ok [OF assms, of opens now n]
    by (cases "\<not> has_bit (mStatus w) INPUT_WRITING \<and> has_bit (mode_bits m) 1") auto
  with False show ?thesis using start_output_ok [OF 1(2), of opens now n] by (auto simp: startWriting_def)
qed (use assms in \<open>simp add: startWriting_def\<close>)

lemma stopWriting_ok:
  assumes "rw_ok drv w"
  shows "\<exists>w'. stopWriting drv m w = Some (0, w') \<and> rw_ok drv w' \<and> mPrefix w' = mPrefix w"
proof (cases "mStatus w = 0")
  case False
  obtain w1 where 1: "(if has_bit (mode_bits m) 1 \<and> has_bit (mStatus w) INPUT_WRITING
      then stop_input drv w else Some w) = Some w1" "rw_ok drv w1" "mPrefix w1 = mPrefix w"
    using assms stop_input_ok [OF assms]
    by (cases "has_bit (mode_bits m) 1 \<and> has_bit (mStatus w) INPUT_WRITING") auto
  with False show ?thesis using stop_output_ok [OF 1(2)] by (auto simp: stopWriting_def)
qed (use assms in \<open>simp add: stopWriting_def\<close>)

lemma submit_ok:
  assumes "rw_ok drv w" "ev_ok drv (Submit m d)"
  shows "rw_ok drv (snd (submitRuntimeData m d w))" "mPrefix (snd (submitRuntimeData m d w)) = mPrefix w"
  using assms by (auto simp: rw_ok_def submitRuntimeData_def submit_to_def slot_ok_def sq_push_def)

lemma turns_ok:
  assumes "rw_ok drv w"
  shows "\<exists>w'. input_turn drv w = Some w' \<and> rw_ok drv w' \<and> mPrefix w' = mPrefix w"
    and "\<exists>w'. output_turn w = Some w' \<and> rw_ok drv w' \<and> mPrefix w' = mPrefix w"
  using assms slot_turn_ok [OF input_round_ok, of drv _ "in_file (mPrefix w)" "rw_in w" "rw_files w"]
    slot_turn_ok [OF output_round_ok', of _ "out_file (mPrefix w)" "rw_out w" "rw_files w"]
  by (fastforce simp: rw_ok_def input_turn_def output_turn_def)+

lemma rw_step_ok:
  assumes "rw_ok drv w" "ev_ok drv e"
  shows "\<exists>w'. rw_step drv opens e w = Some w' \<and> rw_ok drv w' \<and> mPrefix w' = mPrefix w"
proof (cases e)
  case (Start m n now)
  with startWriting_ok [OF assms(1), of opens now m n] show ?thesis by auto
next
  case (Stop m)
  with stopWriting_ok [OF assms(1), of m] show ?thesis by auto
next
  case (Submit m d)
  with submit_ok [OF assms(1)] assms(2) show ?thesis by simp
next
  case (NewCodec c)
  with assms(1) show ?thesis by (simp add: changeCodecType_def rw_ok_def)
qed (use turns_ok [OF assms(1)] in auto)

lemma rw_exec_ok:
  "rw_ok drv w \<Longrightarrow> \<forall>e\<in>set es. ev_ok drv e \<Longrightarrow> \<exists>w'. rw_exec drv opens es w = Some w' \<and> rw_ok drv w' \<and> mPrefix w' = mPrefix w"
proof (induction es arbitrary: w)
  case (Cons e es)
  with rw_step_ok [of drv w e opens] obtain w' where "rw_step drv opens e w = Some w'" "rw_ok drv w'" "mPrefix w' = mPrefix w"
    by auto
  with Cons show ?case by fastforce
qed simp

section \<open>What is recorded\<close>

definition packet :: "IORuntimeData \<Rightarrow> bytes" where
  "packet d = (case output_bytes d of None \<Rightarrow> [] | Some b \<Rightarrow> b)"

text \<open>The packets from the first key frame on, \<open>n\<close> of them unless it is negative.\<close>

definition recorded :: "int \<Rightarrow> IORuntimeData list \<Rightarrow> IORuntimeData list" where
  "recorded n ds = (let ks = dropWhile (\<lambda>d. \<not> io_key_frame d) ds in if n < 0 then ks else take (nat n) ks)"

fun submitted :: "rw_ev list \<Rightarrow> IORuntimeData list" where
  "submitted [] = []"
| "submitted (Submit OUTPUT d # es) = d # submitted es"
| "submitted (_ # es) = submitted es"

definition rec_state :: "string \<Rightarrow> int \<Rightarrow> IORuntimeData list \<Rightarrow> wthread \<Rightarrow> files \<Rightarrow> bool" where
  "rec_state f n ps th fs \<longleftrightarrow>
     th_file th = f \<and> th_frame_num th = n \<and> th_count th = int (length (recorded n ps)) \<and>
     (th_done th \<longleftrightarrow> n > 0 \<and> th_count th \<ge> n) \<and> fs f = Some (concat (map packet (recorded n ps)))"

lemma recorded_length: "0 \<le> n \<Longrightarrow> length (recorded n ds) \<le> nat n"
  by (simp add: recorded_def Let_def)

lemma recorded_skip: "recorded n ps = [] \<Longrightarrow> \<not> io_key_frame d \<Longrightarrow> recorded n (ps @ [d]) = []"
  by (auto simp: recorded_def Let_def dropWhile_append dropWhile_eq_Nil_conv split: if_splits)

lemma recorded_take:
  assumes "recorded n ps \<noteq> [] \<or> io_key_frame d" "n < 0 \<or> int (length (recorded n ps)) < n"
  shows "recorded n (ps @ [d]) = recorded n ps @ [d]"
  using assms by (auto simp: recorded_def Let_def dropWhile_append dropWhile_eq_Nil_conv split: if_splits)

lemma recorded_full:
  assumes "0 \<le> n" "n \<le> int (length (recorded n ps))"
  shows "recorded n (ps @ qs) = recorded n ps"
proof (cases "n = 0")
  case False
  with assms have l: "nat n \<le> length (dropWhile (\<lambda>d. \<not> io_key_frame d) ps)" by (simp add: recorded_def Let_def)
  with False assms(1) have "\<exists>d\<in>set ps. io_key_frame d"
    by (metis dropWhile_eq_Nil_conv le_zero_eq list.size(3) nat_0_iff nle_le)
  with assms l show ?thesis by (auto simp: recorded_def Let_def dropWhile_append)
qed (simp add: recorded_def)

lemma output_round_rec:
  assumes "rec_state f n ps th fs" "\<not> th_done th" "output_ok d"
  shows "\<exists>th' b. output_round d th = Some (th', b) \<and> rec_state f n (ps @ [d]) th' (append_file f b fs)"
proof -
  obtain b where b: "output_bytes d = Some b" "packet d = b" "\<not> stops_thread d"
    using assms(3) by (auto simp: output_ok_def packet_def)
  consider "recorded n ps = []" "\<not> io_key_frame d"
    | "recorded n ps \<noteq> [] \<or> io_key_frame d" "n < 0 \<or> int (length (recorded n ps)) < n"
    | "recorded n ps \<noteq> [] \<or> io_key_frame d" "0 \<le> n" "n \<le> int (length (recorded n ps))"
    by linarith
  then show ?thesis
  proof cases
    case 1
    with assms b recorded_skip [OF 1] show ?thesis
      by (simp add: rec_state_def output_round_def append_file_def)
  next
    case 2
    with assms b recorded_take [OF 2] show ?thesis
      by (auto simp: rec_state_def output_round_def append_file_def leave_when_enough_def)
  next
    case 3
    with assms b recorded_full [OF 3(2,3), of "[d]"] show ?thesis
      by (auto simp: rec_state_def output_round_def append_file_def leave_when_enough_def)
  qed
qed

lemma rec_state_done: "rec_state f n ps th fs \<Longrightarrow> th_done th \<Longrightarrow> recorded n (ps @ qs) = recorded n ps"
  by (auto simp: rec_state_def intro: recorded_full)

lemma join_rec:
  assumes "rec_state f n ps th fs" "\<forall>d\<in>set q. output_ok d"
  shows "\<exists>q' fs'. join_thread output_round (q @ [new_data SYSTEM_BLOCK]) th fs = Some (q', fs') \<and>
           fs' f = Some (concat (map packet (recorded n (ps @ q))))"
  using assms
proof (induction q arbitrary: ps th fs)
  case Nil
  then show ?case
    by (auto simp: rec_state_def output_round_def append_file_def)
next
  case (Cons d q)
  show ?case
  proof (cases "th_done th")
    case True
    with Cons.prems rec_state_done [OF Cons.prems(1) True, of "d # q"] show ?thesis by (auto simp: rec_state_def)
  next
    case False
    with output_round_rec [OF Cons.prems(1) False, of d] Cons.prems obtain th' b where
      r: "output_round d th = Some (th', b)" "rec_state f n (ps @ [d]) th' (append_file f b fs)" by auto
    have "th_file th = f" using Cons.prems(1) by (simp add: rec_state_def)
    with r False Cons.IH [OF r(2)] Cons.prems(2) show ?thesis by simp
  qed
qed

text \<open>An output recording to file \<open>f\<close> in progress, with \<open>sub\<close> submitted so far.\<close>

definition recording :: "string \<Rightarrow> int \<Rightarrow> IORuntimeData list \<Rightarrow> IORuntimeWriter \<Rightarrow> bool" where
  "recording f n sub w \<longleftrightarrow>
     has_bit (mStatus w) OUTPUT_WRITING \<and> out_file (mPrefix w) f \<and>
     (\<exists>ps th. sub = ps @ sl_queue (rw_out w) \<and> sl_thread (rw_out w) = Some th \<and> rec_state f n ps th (rw_files w))"

lemma recording_cong:
  assumes "recording f n sub w" "has_bit (mStatus w') OUTPUT_WRITING" "mPrefix w' = mPrefix w" "rw_out w' = rw_out w"
    "rw_files w' f = rw_files w f"
  shows "recording f n sub w'"
  using assms by (auto simp: recording_def rec_state_def)

lemma slot_turn_other:
  assumes "round_ok r P" "slot_turn r sl fs = Some (sl', fs')" "\<forall>th. sl_thread sl = Some th \<longrightarrow> th_file th \<noteq> f"
  shows "fs' f = fs f"
  using assms(2,3) by (auto simp: slot_turn_def append_file_def split: option.splits if_splits bind_splits)

lemma join_other:
  assumes "round_ok r P" "th_file th \<noteq> f"
  shows "join_thread r q th fs = Some (q', fs') \<Longrightarrow> fs' f = fs f"
  using assms(2)
proof (induction q arbitrary: th fs)
  case (Cons d q)
  show ?case
  proof (cases "th_done th")
    case False
    with Cons.prems obtain th' b where r: "r d th = Some (th', b)"
      "join_thread r q th' (append_file (th_file th) b fs) = Some (q', fs')" by (auto split: bind_splits)
    then have "th_file th' = th_file th" using assms(1) unfolding round_ok_def by blast
    with Cons.IH [OF r(2)] Cons.prems(2) show ?thesis by (simp add: append_file_def)
  qed (use Cons.prems in simp)
qed (simp split: if_splits)

lemma recording_input:
  assumes "rw_ok drv w" "recording f n sub w"
  shows "input_turn drv w = Some w' \<Longrightarrow> recording f n sub w'"
    and "stop_input drv w = Some w' \<Longrightarrow> recording f n sub w'"
    and "start_input opens now k w = Some (r, w') \<Longrightarrow> recording f n sub w'"
proof -
  have f: "out_file (mPrefix w) f" "has_bit (mStatus w) OUTPUT_WRITING" using assms(2) by (auto simp: recording_def)
  have th: "\<forall>th. sl_thread (rw_in w) = Some th \<longrightarrow> th_file th \<noteq> f"
    using assms(1) f(1) by (auto simp: rw_ok_def slot_ok_def dest: files_differ)
  show "recording f n sub w'" if "input_turn drv w = Some w'"
    using that f(2) slot_turn_other [OF input_round_ok _ th, of drv "rw_files w"]
    by (auto simp: input_turn_def split: bind_splits intro!: recording_cong [OF assms(2)])
  show "recording f n sub w'" if "stop_input drv w = Some w'"
    using that f(2) th join_other [OF input_round_ok]
    by (fastforce simp: stop_input_def stop_slot_def has_bit_iff status_bits
      split: bind_splits option.splits intro!: recording_cong [OF assms(2)])
  show "recording f n sub w'" if "start_input opens now k w = Some (r, w')"
    using that f assms(2) files_differ [OF names(1) f(1), of now]
    by (auto simp: start_input_def Let_def has_bit_iff status_bits split: if_splits bind_splits
      intro!: recording_cong [OF assms(2)])
qed

lemma recording_output_turn:
  assumes "rw_ok drv w" "recording f n sub w" "output_turn w = Some w'"
  shows "recording f n sub w'"
proof -
  obtain ps th where s: "sub = ps @ sl_queue (rw_out w)" "sl_thread (rw_out w) = Some th" "rec_state f n ps th (rw_files w)"
    using assms(2) by (auto simp: recording_def)
  show ?thesis
  proof (cases "th_done th \<or> sl_queue (rw_out w) = []")
    case True
    with s have "slot_turn output_round (rw_out w) (rw_files w) = Some (rw_out w, rw_files w)"
      by (auto simp: slot_turn_def)
    with assms(3) have "w' = w" by (simp add: output_turn_def)
    with assms(2) show ?thesis by simp
  next
    case False
    then obtain d q where q: "sl_queue (rw_out w) = d # q" by (cases "sl_queue (rw_out w)") auto
    then have "output_ok d" using assms(1,2) by (auto simp: rw_ok_def slot_ok_def recording_def)
    with False output_round_rec [OF s(3), of d] obtain th' b where
      r: "output_round d th = Some (th', b)" "rec_state f n (ps @ [d]) th' (append_file f b (rw_files w))" by auto
    moreover have "th_file th = f" using s(3) by (simp add: rec_state_def)
    ultimately have "w' = w\<lparr>rw_out := \<lparr>sl_queue = q, sl_thread = Some th'\<rparr>, rw_files := append_file f b (rw_files w)\<rparr>"
      using assms(3) False s(2) q by (simp add: output_turn_def slot_turn_def)
    moreover have "sub = (ps @ [d]) @ q" using s(1) q by simp
    ultimately show ?thesis using assms(2) r(2) unfolding recording_def by fastforce
  qed
qed

lemma recording_submit:
  assumes "recording f n sub w"
  shows "recording f n (sub @ submitted [Submit m d]) (snd (submitRuntimeData m d w))"
proof -
  have b: "has_bit (mStatus w) OUTPUT_WRITING" "mStatus w \<noteq> 0"
    using assms by (auto simp: recording_def has_bit_def)
  show ?thesis
  proof (cases m)
    case OUTPUT
    with assms b show ?thesis by (auto simp: submitRuntimeData_def recording_def submit_to_def sq_push_def)
  qed (use assms b in \<open>auto simp: submitRuntimeData_def intro: recording_cong [OF assms]\<close>)
qed

lemma recording_start:
  assumes "rw_ok drv w" "recording f n sub w" "startWriting opens now m k w = Some (r, w')"
  shows "recording f n sub w'"
proof (cases "mStatus w = INOUT_WRITING")
  case False
  then obtain r1 w1 where 1: "(if \<not> has_bit (mStatus w) INPUT_WRITING \<and> has_bit (mode_bits m) 1
      then start_input opens now k w else Some (0, w)) = Some (r1, w1)"
    using assms(3) by (auto simp: startWriting_def split: bind_splits)
  then have s: "recording f n sub w1"
    using assms(2) recording_input(3) [OF assms(1,2), of opens now k r1 w1] by (auto split: if_splits)
  then have "w' = w1" using 1 False assms(3) by (auto simp: startWriting_def recording_def split: if_splits)
  with s show ?thesis by simp
qed (use assms in \<open>simp add: startWriting_def\<close>)

lemma recording_stop_input:
  assumes "rw_ok drv w" "recording f n sub w" "stopWriting drv INPUT w = Some (r, w')"
  shows "recording f n sub w'"
  using assms(2,3) recording_input(2) [OF assms(1,2)]
  by (auto simp: stopWriting_def has_bit_iff split: if_splits bind_splits)

lemma recording_step:
  assumes "rw_ok drv w" "recording f n sub w" "rw_step drv opens e w = Some w'" "\<forall>m. e = Stop m \<longrightarrow> m = INPUT"
  shows "recording f n (sub @ submitted [e]) w'"
proof (cases e)
  case (Start m k now)
  with assms recording_start [OF assms(1,2)] show ?thesis by auto
next
  case (Stop m)
  with assms recording_stop_input [OF assms(1,2)] show ?thesis by auto
next
  case (Submit m d)
  with assms recording_submit [OF assms(2), of m d] show ?thesis by simp
next
  case InputTurn
  with assms recording_input(1) [OF assms(1,2)] show ?thesis by simp
next
  case OutputTurn
  with assms recording_output_turn [OF assms(1,2)] show ?thesis by simp
next
  case (NewCodec c)
  with assms show ?thesis by (auto simp: changeCodecType_def recording_def)
qed

lemma submitted_append: "submitted (es @ es') = submitted es @ submitted es'"
  by (induction es rule: submitted.induct) auto

lemma recording_exec:
  assumes "rw_ok drv w" "recording f n sub w" "\<forall>e\<in>set es. ev_ok drv e \<and> (\<forall>m. e = Stop m \<longrightarrow> m = INPUT)"
  shows "\<exists>w'. rw_exec drv opens es w = Some w' \<and> rw_ok drv w' \<and> recording f n (sub @ submitted es) w'"
  using assms
proof (induction es arbitrary: w sub)
  case (Cons e es)
  then obtain w1 where w1: "rw_step drv opens e w = Some w1" "rw_ok drv w1" using rw_step_ok [of drv w e opens] by auto
  have "recording f n (sub @ submitted [e]) w1" using recording_step [OF Cons.prems(1,2) w1(1)] Cons.prems(3) by simp
  from Cons.IH [OF w1(2) this] Cons.prems(3) w1(1) submitted_append [of "[e]" es] show ?case by simp
qed simp

lemma recording_end:
  assumes "rw_ok drv w" "recording f n sub w" "m \<noteq> INPUT"
  shows "\<exists>w'. rw_step drv opens (Stop m) w = Some w' \<and> rw_files w' f = Some (concat (map packet (recorded n sub)))"
proof -
  have nz: "mStatus w \<noteq> 0" using assms(2) by (auto simp: recording_def has_bit_def)
  obtain w1 where w1: "(if has_bit (mode_bits m) 1 \<and> has_bit (mStatus w) INPUT_WRITING
      then stop_input drv w else Some w) = Some w1" "rw_ok drv w1" "recording f n sub w1"
    using stop_input_ok [OF assms(1)] recording_input(2) [OF assms(1,2)] assms(1,2)
    by (cases "has_bit (mode_bits m) 1 \<and> has_bit (mStatus w) INPUT_WRITING") auto
  then obtain ps th where s: "sub = ps @ sl_queue (rw_out w1)" "sl_thread (rw_out w1) = Some th"
      "rec_state f n ps th (rw_files w1)" "has_bit (mStatus w1) OUTPUT_WRITING" by (auto simp: recording_def)
  moreover have "\<forall>d\<in>set (sl_queue (rw_out w1)). output_ok d"
    using w1(2) s(4) by (auto simp: rw_ok_def slot_ok_def)
  ultimately obtain q fs where "join_thread output_round (sl_queue (rw_out w1) @ [new_data SYSTEM_BLOCK]) th (rw_files w1) = Some (q, fs)"
      "fs f = Some (concat (map packet (recorded n sub)))" using join_rec [OF s(3)] by blast
  with w1(1) s nz assms(3) show ?thesis
    by (simp add: stopWriting_def has_bit_iff stop_output_def stop_slot_def sq_push_def)
qed

lemma recording_begin:
  assumes "rw_ok drv w" "\<not> has_bit (mStatus w) OUTPUT_WRITING" "m \<noteq> INPUT" "startWriting opens now m n w = Some (0, w1)"
  shows "recording (output_name now w) n [] w1"
proof -
  have "mStatus w \<noteq> INOUT_WRITING" using assms(2) by (auto simp: has_bit_iff status_bits)
  then obtain r0 w0 where 0: "(if \<not> has_bit (mStatus w) INPUT_WRITING \<and> has_bit (mode_bits m) 1
      then start_input opens now n w else Some (0, w)) = Some (r0, w0)"
    "(if \<not> has_bit (mStatus w0) OUTPUT_WRITING \<and> has_bit (mode_bits m) 2
      then start_output opens now n w0 else Some (0, w0)) = Some (0, w1)"
    using assms(4) by (auto simp: startWriting_def split: bind_splits if_splits)
  have eq: "mPrefix w0 = mPrefix w" "rw_codec w0 = rw_codec w" "\<not> has_bit (mStatus w0) OUTPUT_WRITING"
    using 0(1) assms(2) by (auto simp: start_input_def Let_def has_bit_iff status_bits split: if_splits bind_splits)
  with 0(2) assms(3) have "start_output opens now n w0 = Some (0, w1)" by (simp add: has_bit_iff)
  moreover have "output_name now w0 = output_name now w" using eq by (simp add: output_name_def)
  ultimately show ?thesis using names(2) [of w0 now]
    by (auto simp: start_output_def Let_def start_slot_def recording_def rec_state_def recorded_def has_bit_iff
      status_bits split: if_splits bind_splits)
qed

section \<open>Properties\<close>

definition no_driver :: va_driver where
  "no_driver = \<lparr>va_dev = False, va_create = (\<lambda>d. (0, \<lparr>im_planes = 0, im_offsets = [], im_pitches = [], im_width = 0,
     im_height = 0\<rparr>)), va_get = (\<lambda>d. 0), va_map = (\<lambda>d. (0, [])), va_unmap = (\<lambda>d. 0), va_destroy = (\<lambda>d. 0)\<rparr>"

definition copied :: "bytes \<Rightarrow> bool \<Rightarrow> IORuntimeData" where
  "copied b key = (new_data SYSTEM_BLOCK_COPY)\<lparr>io_blk := Some b, io_size := length b, io_key_frame := key\<rparr>"

lemma copied_ok: "b \<noteq> [] \<Longrightarrow> output_ok (copied b key)" "b \<noteq> [] \<Longrightarrow> packet (copied b key) = b"
  by (simp_all add: output_ok_def packet_def copied_def new_data_def stops_thread_def output_bytes_def mem_bytes_def)

text \<open>
  C38. Whatever the history of starts, stops, submissions of data that can be written, and turns of the two threads:
  every call returns, no running thread is overwritten, and the status says exactly which threads there are.
\<close>

theorem runtime_writer_returns:
  assumes "\<forall>e\<in>set hs. ev_ok drv e"
  shows "\<exists>w. rw_exec drv opens hs (runtime_writer codec prefix fs) = Some w \<and>
    (has_bit (getRuntimeWriterStatus w) INPUT_WRITING \<longleftrightarrow> sl_thread (rw_in w) \<noteq> None) \<and>
    (has_bit (getRuntimeWriterStatus w) OUTPUT_WRITING \<longleftrightarrow> sl_thread (rw_out w) \<noteq> None)"
  using rw_exec_ok [OF rw_ok_new assms, of opens codec prefix fs]
  by (auto simp: rw_ok_def slot_ok_def getRuntimeWriterStatus_def)

lemma runtime_writer_returns_witness:
  "\<exists>w. rw_exec no_driver (\<lambda>f. True) [Start INOUT 2 ''t'', Submit OUTPUT (copied [7] True), Stop OUTPUT, Start OUTPUT 1 ''u'',
        OutputTurn, Stop INOUT] (runtime_writer 27 ''./'' Map.empty) = Some w \<and>
    (has_bit (getRuntimeWriterStatus w) INPUT_WRITING \<longleftrightarrow> sl_thread (rw_in w) \<noteq> None) \<and>
    (has_bit (getRuntimeWriterStatus w) OUTPUT_WRITING \<longleftrightarrow> sl_thread (rw_out w) \<noteq> None)"
  by (rule runtime_writer_returns) (simp add: copied_ok)

text \<open>
  The file of an output recording: after a start that reports success, however submissions, turns of the
  threads, changes of the codec and the recording of the input are interleaved, the stop returns and the file holds the
  packets submitted from the first key frame on, as many as were asked for and no others, whole and in order.
\<close>

theorem output_recorded:
  assumes "\<forall>e\<in>set hs. ev_ok drv e" "rw_exec drv opens hs (runtime_writer codec prefix fs) = Some w"
    and "\<not> has_bit (getRuntimeWriterStatus w) OUTPUT_WRITING" "m \<noteq> INPUT" "startWriting opens now m n w = Some (0, w1)"
    and "\<forall>e\<in>set es. ev_ok drv e \<and> (\<forall>m. e = Stop m \<longrightarrow> m = INPUT)" "m' \<noteq> INPUT"
  shows "\<exists>w2 w3. rw_exec drv opens es w1 = Some w2 \<and> stopWriting drv m' w2 = Some (0, w3) \<and>
    rw_files w3 (output_name now w) = Some (concat (map packet (recorded n (submitted es))))"
proof -
  have ok: "rw_ok drv w" using rw_exec_ok [OF rw_ok_new assms(1), of opens codec prefix fs] assms(2) by simp
  then have ok1: "rw_ok drv w1" using startWriting_ok [OF ok, of opens now m n] assms(5) by auto
  have "recording (output_name now w) n [] w1"
    using recording_begin [OF ok _ assms(4,5)] assms(3) by (simp add: getRuntimeWriterStatus_def)
  from recording_exec [OF ok1 this assms(6), of opens] obtain w2 where
    w2: "rw_exec drv opens es w1 = Some w2" "rw_ok drv w2" "recording (output_name now w) n (submitted es) w2" by auto
  from recording_end [OF w2(2,3) assms(7), of opens] stopWriting_ok [OF w2(2), of m'] w2(1) show ?thesis by auto
qed

lemma output_recorded_witness:
  "\<exists>w2 w3. rw_exec no_driver (\<lambda>f. True)
     [Submit OUTPUT (copied [5] False), Submit OUTPUT (copied [6, 7] True), OutputTurn, Submit OUTPUT (copied [8] False),
      Submit OUTPUT (copied [9] True)] (snd (the (startWriting (\<lambda>f. True) ''t'' OUTPUT 2 (runtime_writer 27 ''./'' Map.empty)))) = Some w2 \<and>
     stopWriting no_driver INOUT w2 = Some (0, w3) \<and> rw_files w3 ''./output_t.264'' = Some [6, 7, 8]"
proof -
  let ?w = "runtime_writer 27 ''./'' Map.empty"
  let ?es = "[Submit OUTPUT (copied [5] False), Submit OUTPUT (copied [6, 7] True), OutputTurn, Submit OUTPUT (copied [8] False),
      Submit OUTPUT (copied [9] True)]"
  have st: "startWriting (\<lambda>f. True) ''t'' OUTPUT 2 ?w = Some (0, snd (the (startWriting (\<lambda>f. True) ''t'' OUTPUT 2 ?w)))"
    by (simp add: startWriting_def start_output_def start_slot_def runtime_writer_def has_bit_def mode_bits_def
      INOUT_WRITING_def OUTPUT_WRITING_def INPUT_WRITING_def Let_def)
  have "\<exists>w2 w3. rw_exec no_driver (\<lambda>f. True) ?es (snd (the (startWriting (\<lambda>f. True) ''t'' OUTPUT 2 ?w))) = Some w2 \<and>
      stopWriting no_driver INOUT w2 = Some (0, w3) \<and>
      rw_files w3 (output_name ''t'' ?w) = Some (concat (map packet (recorded 2 (submitted ?es))))"
    by (rule output_recorded [where hs = "[]" and codec = 27 and prefix = "''./''" and fs = Map.empty, OF _ _ _ _ st])
      (simp_all add: copied_ok runtime_writer_def getRuntimeWriterStatus_def has_bit_def)
  moreover have "output_name ''t'' ?w = ''./output_t.264''"
    by (simp add: output_name_def runtime_writer_def AV_CODEC_ID_H264_def)
  moreover have "recorded 2 (submitted ?es) = [copied [6, 7] True, copied [8] False]"
    by (simp add: recorded_def copied_def)
  ultimately show ?thesis by (simp add: copied_ok)
qed

end
