(* ===== verification/MuxProps.thy ===== *)
theory MuxProps
  imports CallbackMux IrrvProps RuntimeWriterProps
begin

text \<open>
  The multiplexer over the stream protocol: while transmission is off no frame leaves and nothing is recorded, and a
  recording of the output holds exactly the packets that were let through, whatever the clients do meanwhile.
\<close>

section \<open>What a poll keeps\<close>

text \<open>
  A relation between worlds that every step of a poll extends: receiving, sending anything but frames, closing,
  counting clients, and obeying a control message.
\<close>

locale poll_keeps =
  fixes K :: "irrv \<Rightarrow> irrv \<Rightarrow> bool"
  assumes refl: "K w w"
    and upd: "K w (w'\<lparr>servers := x1\<rparr>) = K w w'" "K w (w'\<lparr>ir_fds := x2\<rparr>) = K w w'"
      "K w (w'\<lparr>clients := x3\<rparr>) = K w w'" "K w (w'\<lparr>auth_pass := x4\<rparr>) = K w w'"
    and noted: "K w w' \<Longrightarrow> K w (note_ev (Accepted sv) w')" "K w w' \<Longrightarrow> K w (note_ev (Applied sv got) w')"
    and send: "send_client k sv d w1 = Some w' \<Longrightarrow> K w w1 \<Longrightarrow> k \<noteq> Frame \<Longrightarrow> K w w'"
    and recv: "recv_client sv n w1 = Some (got, w') \<Longrightarrow> K w w1 \<Longrightarrow> K w w'"
    and close: "close_client sv w1 = Some w' \<Longrightarrow> K w w1 \<Longrightarrow> K w w'"
    and counts: "K w w' \<Longrightarrow> K w (on_streamer irr_stream_incClient w')" "K w w' \<Longrightarrow> K w (on_streamer irr_stream_decClient w')"
      "K w w' \<Longrightarrow> K w (on_streamer (irr_stream_setTransmitFlag b) w')"
      "K w w' \<Longrightarrow> K w (on_streamer (irr_stream_setEncodeFlag b) w')"
    and ctrl: "apply_ctrl tr t got (ir_streamer w') = Some st \<Longrightarrow> K w w' \<Longrightarrow> K w (w'\<lparr>ir_streamer := st\<rparr>)"
begin

lemma handle_auth: "handle_auth sv w1 = Some w' \<Longrightarrow> K w w1 \<Longrightarrow> K w w'"
  by (auto simp: handle_auth_def Let_def upd split: if_splits bind_splits elim!: close send recv)

lemma handle_ctrl: "handle_ctrl tr sv w1 = Some r \<Longrightarrow> K w w1 \<Longrightarrow> K w (world r)"
  by (auto simp: handle_ctrl_def split: bind_splits if_splits elim!: recv ctrl intro!: noted)

lemma new_client: "new_client a sv w1 = Some w' \<Longrightarrow> K w w1 \<Longrightarrow> K w w'"
  by (auto simp: new_client_def Let_def upd split: bind_splits prod.splits if_splits elim!: send intro!: noted counts)

lemma client_gone: "client_gone sv w1 = Some w' \<Longrightarrow> K w w1 \<Longrightarrow> K w w'"
  by (auto simp: client_gone_def Let_def upd split: bind_splits if_splits elim!: close intro!: counts)

lemma accept_new: "accept_new a sv w1 = Some w' \<Longrightarrow> K w w1 \<Longrightarrow> K w w'"
  by (auto simp: accept_new_def upd split: bind_splits if_splits elim!: new_client)

lemma client_readable: "client_readable a auth sv w1 = Some r \<Longrightarrow> K w w1 \<Longrightarrow> K w (world r)"
  by (auto simp: client_readable_def Let_def split: if_splits bind_splits elim!: handle_auth handle_ctrl recv)

lemma serve: "serve_client a auth sv w1 = Some r \<Longrightarrow> K w w1 \<Longrightarrow> K w (world r)"
  by (auto simp: serve_client_def Let_def upd split: if_splits bind_splits sock_conn_status_t.splits
    elim!: client_readable client_gone)

lemma poll: "irrv_poll a sv w1 = Some r \<Longrightarrow> K w w1 \<Longrightarrow> K w (world r)"
  by (auto simp: irrv_poll_def Let_def split: if_splits bind_splits elim!: serve accept_new)

lemma check: "irrv_checknewconn a sv w = Some r \<Longrightarrow> K w (world (no_result r))"
  by (auto simp: irrv_checknewconn_def split: bind_splits thrown.splits dest!: poll [OF _ refl])

end

section \<open>Polling sends no frame\<close>

definition quiet :: "irrv \<Rightarrow> irrv \<Rightarrow> bool" where
  "quiet w w' \<longleftrightarrow> (\<exists>post. ir_trace w' = ir_trace w @ post \<and> (\<forall>sv b. Sent sv Frame b \<notin> set post))"

lemma quiet_refl: "quiet w w"
  by (simp add: quiet_def)

lemma quiet_trans: "quiet a b \<Longrightarrow> quiet b c \<Longrightarrow> quiet a c"
  unfolding quiet_def by fastforce

lemma quiet_ext: "quiet w w1 \<Longrightarrow> ir_trace w' = ir_trace w1 @ [e] \<Longrightarrow> (\<forall>sv b. e \<noteq> Sent sv Frame b) \<Longrightarrow> quiet w w'"
  by (auto simp: quiet_def)

interpretation quiet: poll_keeps quiet
proof unfold_locales
  show "quiet w w'" if "send_client k sv d w1 = Some w'" "quiet w w1" "k \<noteq> Frame" for k sv d w1 w' w
    using send_client_frame [OF that(1)] that(2,3) quiet_ext by blast
  show "quiet w w'" if "recv_client sv n w1 = Some (got, w')" "quiet w w1" for sv n w1 got w' w
    using recv_client_frame [OF that(1)] that(2) quiet_ext by blast
  show "quiet w w'" if "close_client sv w1 = Some w'" "quiet w w1" for sv w1 w' w
    using close_client_frame [OF that(1)] that(2) quiet_ext by blast
qed (auto simp: quiet_def note_ev_def on_streamer_def)

lemma irrv_mux_sel [simp]:
  "m_Opaque (irrv_mux sv aux) = sv" "m_Opaque2 (irrv_mux sv aux) = aux"
  "m_pWrite (irrv_mux sv aux) = Some irrv_writeback" "m_pWrite2 (irrv_mux sv aux) = Some irrv_writeback2"
  "m_pCheckNewConn (irrv_mux sv aux) = Some irrv_checknewconn"
  "getTransmissionAllowed (irrv_mux sv aux) = Some allow_transmit"
  by (simp_all add: irrv_mux_def callback_mux_def)

fun mworld :: "'a mux_result \<Rightarrow> enc_world" where
  "mworld (MRet x w) = w"
| "mworld (MThrown w) = w"
| "mworld (MExit w) = w"

lemma mbind_cases:
  assumes "mbind m f w = Some r"
  obtains x w' where "m w = Some (MRet x w')" "f x w' = Some r"
  | r' where "m w = Some r'" "\<And>x w'. r' \<noteq> MRet x w'" "mworld r = mworld r'" "\<And>x w'. r \<noteq> MRet x w'"
  using assms by (auto simp: mbind_def split: option.splits mux_result.splits)

text \<open>What a call leaves, when the callback leaves \<open>w'\<close>.\<close>

lemma call_irrv_world:
  assumes "call_irrv env f w = Some r"
  shows "\<exists>x rw. f (ew_irrv w) = Some x \<and> ew_irrv (mworld r) = world (no_result x) \<and> ew_sw (mworld r) = ew_sw w \<and>
    ew_rw (mworld r) = rw \<and>
    carry_out env (drop (length (streamer_calls (ew_irrv w))) (streamer_calls (ew_irrv (mworld r)))) (ew_rw w) = Some rw"
  using assms by (auto simp: call_irrv_def Let_def split: bind_splits thrown.splits prod.splits)

definition silent :: "enc_world \<Rightarrow> enc_world \<Rightarrow> bool" where
  "silent w w' \<longleftrightarrow> quiet (ew_irrv w) (ew_irrv w') \<and> ew_sw w' = ew_sw w"

lemma silent_trans: "silent a b \<Longrightarrow> silent b c \<Longrightarrow> silent a c"
  by (auto simp: silent_def intro: quiet_trans)

lemma silent_call_check:
  assumes "call_check env a irrv_checknewconn sv w = Some r"
  shows "silent w (mworld r)"
proof (cases "sv = 0")
  case False
  then have "call_irrv env (irrv_checknewconn a sv) w = Some r" using assms by (simp add: call_check_def)
  from call_irrv_world [OF this] show ?thesis by (auto simp: silent_def dest: quiet.check)
qed (use assms in \<open>auto simp: call_check_def mret_def silent_def quiet_refl\<close>)

lemma silent_checkNewConn:
  assumes "checkNewConn env a a2 (irrv_mux sv aux) w = Some r"
  shows "silent w (mworld r)"
proof -
  have "mbind (call_check env a irrv_checknewconn sv) (\<lambda>n. if aux = 0 then mret n
      else call_check env a2 irrv_checknewconn aux) w = Some r"
    using assms by (simp add: checkNewConn_def cong: if_cong)
  then show ?thesis
  proof (cases rule: mbind_cases)
    case (1 x w')
    then have "silent w w'" using silent_call_check by fastforce
    moreover have "silent w' (mworld r)" using 1(2) silent_call_check
      by (auto simp: mret_def silent_def quiet_refl split: if_splits)
    ultimately show ?thesis by (rule silent_trans)
  qed (use silent_call_check in fastforce)
qed


definition plain_env :: mux_env where
  "plain_env = \<lparr>me_unlimit = None, me_enable = Some ''0'', me_drv = no_driver, me_opens = (\<lambda>f. True), me_now = ''t''\<rparr>"

definition waiting :: enc_world where
  "waiting = \<lparr>ew_irrv = listening False (whole_io [48] []), ew_rw = None, ew_sw = None\<rparr>"

lemma waiting_run:
  "map_option (\<lambda>r. length (ir_trace (ew_irrv (mworld r)))) (mux_write plain_env arriving idle (Some ([7], 1)) (irrv_mux 1 0) waiting)
   = Some 2"
  by code_simp


section \<open>The calls of the streamer are kept\<close>

definition grown :: "streamer \<Rightarrow> streamer \<Rightarrow> bool" where
  "grown st st' \<longleftrightarrow> (st' = None \<longleftrightarrow> st = None) \<and>
     (\<forall>s s'. st = Some s \<longrightarrow> st' = Some s' \<longrightarrow> (\<exists>cs. m_calls s' = m_calls s @ cs))"

named_theorems grown_rules \<open>streamer operations that keep the calls made\<close>

lemma grown_refl [grown_rules]: "grown st st"
  by (auto simp: grown_def)

lemma grown_trans: "grown a b \<Longrightarrow> grown b c \<Longrightarrow> grown a c"
  unfolding grown_def by (cases a; cases b; cases c) auto

lemma grown_map:
  assumes "\<And>s. \<exists>cs. m_calls (f s) = m_calls s @ cs"
  shows "grown st (map_option f st)"
  using assms by (auto simp: grown_def)

lemma fold_log_calls: "m_calls (fold log_call cs s) = m_calls s @ cs"
  by (induction cs arbitrary: s) (simp_all add: log_call_def)

lemma grown_wrap:
  assumes "\<And>s. \<exists>cs. m_calls (snd (f s)) = m_calls s @ cs"
  shows "grown st (snd (wrap e f st))"
proof (cases st)
  case (Some s)
  then show ?thesis using assms [of s] by (auto simp: grown_def wrap_def split: prod.splits)
qed (simp add: grown_def wrap_def)

lemma grown_counts [grown_rules]: "grown st (irr_stream_incClient st)" "grown st (irr_stream_decClient st)"
  unfolding irr_stream_incClient_def irr_stream_decClient_def
  by (rule grown_map; simp add: incClientNum_def decClientNum_def)+

lemma grown_flags [grown_rules]:
  "grown st (irr_stream_setEncodeFlag b st)" "grown st (irr_stream_setTransmitFlag b st)"
  "grown st (irr_stream_first_start_encdoding b st)" "grown st (irr_stream_set_skipframe b st)"
  "grown st (irr_stream_set_screen_capture_flag b st)" "grown st (irr_sream_set_screen_capture_interval i st)"
  "grown st (irr_stream_set_screen_capture_quality i st)" "grown st (irr_stream_runtime_writer_start m st)"
  "grown st (irr_stream_runtime_writer_stop m st)" "grown st (irr_stream_runtime_writer_start_with_frame_num i st)"
  unfolding irr_stream_setEncodeFlag_def irr_stream_setTransmitFlag_def irr_stream_first_start_encdoding_def
    irr_stream_set_skipframe_def irr_stream_set_screen_capture_flag_def irr_sream_set_screen_capture_interval_def
    irr_stream_set_screen_capture_quality_def irr_stream_runtime_writer_start_def irr_stream_runtime_writer_stop_def
    irr_stream_runtime_writer_start_with_frame_num_def with_writer_def
  by (rule grown_map; simp add: setEncodeFlag_def setTransmitFlag_def setFisrtStartEncoding_def forward_void_def
    log_call_def)+

lemma grown_settings [grown_rules]:
  "grown st (snd (irr_stream_force_keyframe v st))" "grown st (snd (irr_stream_set_qp v st))"
  "grown st (snd (irr_stream_set_bitrate v st))" "grown st (snd (irr_stream_set_max_bitrate v st))"
  "grown st (snd (irr_stream_set_max_frame_size tr v st))"
  "grown st (snd (irr_stream_set_rolling_intra_refresh a b c st))" "grown st (snd (irr_stream_set_min_max_qp tr a b st))"
  "grown st (snd (irr_stream_change_resolution a b st))" "grown st (snd (irr_stream_set_sei tr a b st))"
  "grown st (snd (irr_stream_set_gop_size tr v st))" "grown st (snd (irr_stream_change_profile_level tr a b st))"
  unfolding irr_stream_force_keyframe_def irr_stream_set_qp_def irr_stream_set_bitrate_def irr_stream_set_max_bitrate_def
    irr_stream_set_max_frame_size_def irr_stream_set_rolling_intra_refresh_def
    irr_stream_set_min_max_qp_def irr_stream_change_resolution_def irr_stream_set_sei_def irr_stream_set_gop_size_def
    irr_stream_change_profile_level_def
  by (rule grown_wrap; simp add: forward_def force_key_frame_def change_resolution_def Let_def log_call_def)+

lemma grown_partial [grown_rules]:
  "irr_stream_set_framerate v st = Some (r, st') \<Longrightarrow> grown st st'"
  "irr_stream_change_codec tr v st = Some (r, st') \<Longrightarrow> grown st st'"
  "irr_stream_set_client_feedback tr a b st = Some (r, st') \<Longrightarrow> grown st st'"
  by (cases st; auto simp: irr_stream_set_framerate_def set_framerate_def irr_stream_change_codec_def change_codec_def
    irr_stream_set_client_feedback_def set_client_feedback_def grown_def Let_def log_call_def split: if_splits)+

lemma grown_step1: "step1 got f i st = Some st' \<Longrightarrow> (\<And>a. grown st (f a st)) \<Longrightarrow> grown st st'"
  by (auto simp: step1_def split: bind_splits)

lemma grown_step2: "step2 got f i st = Some st' \<Longrightarrow> (\<And>a b. grown st (f a b st)) \<Longrightarrow> grown st st'"
  by (auto simp: step2_def split: bind_splits)

lemma grown_three: "grown st (f st) \<Longrightarrow> grown (f st) (g (f st)) \<Longrightarrow> grown (g (f st)) st'' \<Longrightarrow> grown st st''"
  using grown_trans by blast

lemma grown_apply_ctrl: "apply_ctrl tr t got st = Some st' \<Longrightarrow> grown st st'"
  unfolding apply_ctrl_def
  by (auto split: if_splits bind_splits elim!: grown_step1 grown_step2 intro: grown_rules grown_three)

definition calls_kept :: "irrv \<Rightarrow> irrv \<Rightarrow> bool" where
  "calls_kept w w' \<longleftrightarrow> grown (ir_streamer w) (ir_streamer w')"

lemma calls_kept_streamer: "calls_kept w w' \<Longrightarrow> (\<And>st. grown st (f st)) \<Longrightarrow> calls_kept w (on_streamer f w')"
  unfolding calls_kept_def on_streamer_def using grown_trans by fastforce

lemma calls_kept_send: "send_client k sv d w1 = Some w' \<Longrightarrow> calls_kept w w1 \<Longrightarrow> calls_kept w w'"
  using send_client_frame [of k sv d w1 w'] unfolding calls_kept_def by auto

interpretation calls: poll_keeps calls_kept
proof unfold_locales
  show "calls_kept w w'" if "recv_client sv n w1 = Some (got, w')" "calls_kept w w1" for sv n w1 got w' w
    using recv_client_frame [OF that(1)] that(2) by (simp add: calls_kept_def)
  show "calls_kept w w'" if "close_client sv w1 = Some w'" "calls_kept w w1" for sv w1 w' w
    using close_client_frame [OF that(1)] that(2) by (simp add: calls_kept_def)
  show "calls_kept w (w'\<lparr>ir_streamer := st\<rparr>)" if "apply_ctrl tr t got (ir_streamer w') = Some st" "calls_kept w w'"
    for tr t got w' st w
    using that grown_apply_ctrl grown_trans by (fastforce simp: calls_kept_def)
qed (auto simp: calls_kept_def note_ev_def grown_refl intro: calls_kept_send [unfolded calls_kept_def]
  calls_kept_streamer [unfolded calls_kept_def] grown_rules)

lemma calls_kept_write: "irrv_writeback a sv data flags w = Some r \<Longrightarrow> calls_kept w (world (no_result r))"
proof -
  assume "irrv_writeback a sv data flags w = Some r"
  then obtain p where p: "irrv_poll a sv (w\<lparr>g_wb_frame_idx := g_wb_frame_idx w + 1\<rparr>) = Some p"
    "case p of Out_of_range w' \<Rightarrow> r = Out_of_range w'
      | Returned w' \<Rightarrow> \<exists>w''. r = Returned (0, w'') \<and> (w'' = w' \<or> send_frame a sv flags data w' = Some w'')"
    by (auto simp: irrv_writeback_def after_poll_def Let_def split: bind_splits thrown.splits if_splits)
  have "calls_kept w (world p)" using p(1) by (rule calls.poll) (simp add: calls_kept_def grown_refl)
  with p(2) show ?thesis
    by (auto simp: send_frame_def Let_def split: thrown.splits prod.splits bind_splits elim!: calls_kept_send)
qed

lemma calls_kept_iff: "calls_kept w w' \<Longrightarrow> \<exists>cs. streamer_calls w' = streamer_calls w @ cs"
  by (auto simp: calls_kept_def grown_def streamer_calls_def split: option.splits)

section \<open>What a recording holds\<close>

text \<open>Events of the writer's history that a call of the streamer stands for.\<close>

fun call_events :: "mux_env \<Rightarrow> stream_call \<Rightarrow> rw_ev list" where
  "call_events env (StopWriting m) = [Stop m]"
| "call_events env (StartWriting m n) = [Start m (case n of None \<Rightarrow> -1 | Some k \<Rightarrow> k) (me_now env)]"
| "call_events env (ChangeCodecType c) = [NewCodec c]"
| "call_events env _ = []"

definition calls_events :: "mux_env \<Rightarrow> stream_call list \<Rightarrow> rw_ev list" where
  "calls_events env cs = concat (map (call_events env) cs)"

lemma rw_exec_append: "rw_exec drv opens (es @ es') w = Option.bind (rw_exec drv opens es w) (rw_exec drv opens es')"
  by (induction es arbitrary: w) (auto split: bind_splits)

lemma writer_call_exec: "writer_call env c rw = rw_exec (me_drv env) (me_opens env) (call_events env c) rw"
  by (cases c) (simp_all split: bind_splits)

lemma writer_calls_exec: "writer_calls env cs rw = rw_exec (me_drv env) (me_opens env) (calls_events env cs) rw"
proof (induction cs arbitrary: rw)
  case (Cons c cs)
  then have "writer_calls env cs = rw_exec (me_drv env) (me_opens env) (calls_events env cs)" by (intro ext)
  then show ?case by (simp add: calls_events_def rw_exec_append writer_call_exec)
qed (simp add: calls_events_def)

lemma call_events_simps [simp]: "submitted (calls_events env cs) = []"
  "e \<in> set (calls_events env cs) \<Longrightarrow> ev_ok drv e"
  "Stop m \<in> set (calls_events env cs) \<longleftrightarrow> StopWriting m \<in> set cs"
proof -
  have "submitted (call_events env c) = [] \<and> (e \<in> set (call_events env c) \<longrightarrow> ev_ok drv e) \<and>
    (Stop m \<in> set (call_events env c) \<longleftrightarrow> c = StopWriting m)" for c
    by (cases c) auto
  then show "submitted (calls_events env cs) = []" "e \<in> set (calls_events env cs) \<Longrightarrow> ev_ok drv e"
    "Stop m \<in> set (calls_events env cs) \<longleftrightarrow> StopWriting m \<in> set cs"
    by (induction cs) (auto simp: calls_events_def submitted_append)
qed

text \<open>
  A run: packets handed to the multiplexer while other threads work on the runtime writer. It gives the packets let
  through. A run that is ended by an exception or by \<open>exit\<close> is left out.
\<close>

datatype mux_ev = Packet poll_answers poll_answers bytes u32 | Writer rw_ev

fun mux_run :: "mux_env \<Rightarrow> CCallbackMux \<Rightarrow> mux_ev list \<Rightarrow> enc_world \<Rightarrow> ((bytes \<times> u32) list \<times> enc_world) option" where
  "mux_run env mux [] w = Some ([], w)"
| "mux_run env mux (Packet a a2 data flags # evs) w =
     (case mux_write env a a2 (Some (data, flags)) mux w of
        Some (MRet _ w') \<Rightarrow> map_option (\<lambda>(ps, w''). (if may_transmit env mux w then (data, flags) # ps else ps, w''))
                              (mux_run env mux evs w')
      | _ \<Rightarrow> None)"
| "mux_run env mux (Writer e # evs) w =
     (case ew_rw w of
        None \<Rightarrow> mux_run env mux evs w
      | Some rw \<Rightarrow> do { rw' \<leftarrow> rw_step (me_drv env) (me_opens env) e rw; mux_run env mux evs (w\<lparr>ew_rw := Some rw'\<rparr>) })"

fun mux_ev_ok :: "mux_env \<Rightarrow> mux_ev \<Rightarrow> bool" where
  "mux_ev_ok env (Packet a a2 data flags) \<longleftrightarrow> data \<noteq> []"
| "mux_ev_ok env (Writer e) \<longleftrightarrow> ev_ok (me_drv env) e \<and> submitted [e] = [] \<and> (\<forall>m. e = Stop m \<longrightarrow> m = INPUT)"

text \<open>
  The writer \<open>rw'\<close> is \<open>rw\<close> after a history in which \<open>ps\<close> are the packets submitted and the output is
  stopped only by calls among \<open>cs\<close>.
\<close>

definition history :: "mux_env \<Rightarrow> (bytes \<times> u32) list \<Rightarrow> stream_call list \<Rightarrow> IORuntimeWriter \<Rightarrow> IORuntimeWriter \<Rightarrow> bool" where
  "history env ps cs rw rw' \<longleftrightarrow>
     (\<exists>es. rw_exec (me_drv env) (me_opens env) es rw = Some rw' \<and> submitted es = map (\<lambda>(d, f). packet_data d f) ps \<and>
       (\<forall>e\<in>set es. ev_ok (me_drv env) e) \<and> (\<forall>m. Stop m \<in> set es \<longrightarrow> m = INPUT \<or> StopWriting m \<in> set cs))"

lemma history_refl: "history env [] [] rw rw"
  unfolding history_def by (rule exI [of _ "[]"]) simp

lemma history_trans:
  assumes "history env ps cs rw rw1" "history env qs cs' rw1 rw2"
  shows "history env (ps @ qs) (cs @ cs') rw rw2"
proof -
  obtain es es' where e: "rw_exec (me_drv env) (me_opens env) es rw = Some rw1" "submitted es = map (\<lambda>(d, f). packet_data d f) ps"
      "\<forall>e\<in>set es. ev_ok (me_drv env) e" "\<forall>m. Stop m \<in> set es \<longrightarrow> m = INPUT \<or> StopWriting m \<in> set cs"
    and e': "rw_exec (me_drv env) (me_opens env) es' rw1 = Some rw2" "submitted es' = map (\<lambda>(d, f). packet_data d f) qs"
      "\<forall>e\<in>set es'. ev_ok (me_drv env) e" "\<forall>m. Stop m \<in> set es' \<longrightarrow> m = INPUT \<or> StopWriting m \<in> set cs'"
    using assms unfolding history_def by metis
  then show ?thesis unfolding history_def
    by (intro exI [of _ "es @ es'"]) (auto simp: rw_exec_append submitted_append)
qed

lemma history_calls: "writer_calls env cs rw = Some rw' \<Longrightarrow> history env [] cs rw rw'"
  unfolding history_def writer_calls_exec by (intro exI [of _ "calls_events env cs"]) simp

lemma history_step:
  assumes "rw_step (me_drv env) (me_opens env) e rw = Some rw'" "ev_ok (me_drv env) e" "\<forall>m. e = Stop m \<longrightarrow> m = INPUT"
    "submitted [e] = map (\<lambda>(d, f). packet_data d f) ps"
  shows "history env ps [] rw rw'"
  unfolding history_def using assms by (intro exI [of _ "[e]"]) auto

definition follows :: "mux_env \<Rightarrow> (bytes \<times> u32) list \<Rightarrow> enc_world \<Rightarrow> enc_world \<Rightarrow> bool" where
  "follows env ps w w' \<longleftrightarrow>
     (\<exists>cs. streamer_calls (ew_irrv w') = streamer_calls (ew_irrv w) @ cs \<and>
       (\<forall>rw. ew_rw w = Some rw \<longrightarrow> (\<exists>rw'. ew_rw w' = Some rw' \<and> history env ps cs rw rw')))"

lemma follows_refl: "follows env [] w w"
  by (simp add: follows_def history_refl)

lemma follows_trans:
  assumes "follows env ps w w1" "follows env qs w1 w2"
  shows "follows env (ps @ qs) w w2"
proof -
  obtain cs cs' where c: "streamer_calls (ew_irrv w1) = streamer_calls (ew_irrv w) @ cs"
    "streamer_calls (ew_irrv w2) = streamer_calls (ew_irrv w1) @ cs'"
    "\<forall>rw. ew_rw w = Some rw \<longrightarrow> (\<exists>rw'. ew_rw w1 = Some rw' \<and> history env ps cs rw rw')"
    "\<forall>rw. ew_rw w1 = Some rw \<longrightarrow> (\<exists>rw'. ew_rw w2 = Some rw' \<and> history env qs cs' rw rw')"
    using assms unfolding follows_def by blast
  have "\<exists>rw2. ew_rw w2 = Some rw2 \<and> history env (ps @ qs) (cs @ cs') rw rw2" if "ew_rw w = Some rw" for rw
    using c(3,4) that history_trans by meson
  then show ?thesis unfolding follows_def using c(1,2) by (intro exI [of _ "cs @ cs'"]) simp
qed

lemma follows_call:
  assumes "call_irrv env f w = Some r" "\<And>x. f (ew_irrv w) = Some x \<Longrightarrow> calls_kept (ew_irrv w) (world (no_result x))"
  shows "follows env [] w (mworld r)"
proof -
  obtain x where x: "f (ew_irrv w) = Some x" "ew_irrv (mworld r) = world (no_result x)"
    "carry_out env (drop (length (streamer_calls (ew_irrv w))) (streamer_calls (ew_irrv (mworld r)))) (ew_rw w) = Some (ew_rw (mworld r))"
    using call_irrv_world [OF assms(1)] by blast
  obtain cs where cs: "streamer_calls (ew_irrv (mworld r)) = streamer_calls (ew_irrv w) @ cs"
    using calls_kept_iff [OF assms(2) [OF x(1)]] x(2) by auto
  have "\<exists>rw'. ew_rw (mworld r) = Some rw' \<and> history env [] cs rw rw'" if "ew_rw w = Some rw" for rw
  proof -
    have "map_option Some (writer_calls env cs rw) = Some (ew_rw (mworld r))" using x(3) cs that by (simp add: carry_out_def)
    then obtain rw' where "writer_calls env cs rw = Some rw'" "Some rw' = ew_rw (mworld r)" by blast
    then show ?thesis using history_calls by metis
  qed
  then show ?thesis unfolding follows_def using cs by blast
qed

lemma follows_check: "call_check env a irrv_checknewconn sv w = Some r \<Longrightarrow> follows env [] w (mworld r)"
  by (cases "sv = 0") (auto simp: call_check_def mret_def follows_refl follows_call calls.check)

lemma follows_checkNewConn:
  assumes "checkNewConn env a a2 (irrv_mux sv aux) w = Some r"
  shows "follows env [] w (mworld r)"
proof -
  have "mbind (call_check env a irrv_checknewconn sv) (\<lambda>n. if aux = 0 then mret n
      else call_check env a2 irrv_checknewconn aux) w = Some r"
    using assms by (simp add: checkNewConn_def cong: if_cong)
  then show ?thesis
  proof (cases rule: mbind_cases)
    case (1 x w')
    then have "follows env [] w w'" using follows_check by fastforce
    moreover have "follows env [] w' (mworld r)" using 1(2) follows_check
      by (auto simp: mret_def follows_refl split: if_splits)
    ultimately show ?thesis using follows_trans by fastforce
  qed (use follows_check in fastforce)
qed

lemma follows_record:
  assumes "record_packet data flags w = Some r" "data \<noteq> []"
  shows "follows env [(data, flags)] w (mworld r)"
proof -
  have ok: "ev_ok (me_drv env) (Submit OUTPUT (packet_data data flags))"
    using assms(2) by (simp add: output_ok_def packet_data_def new_data_def stops_thread_def output_bytes_def mem_bytes_def)
  have "\<exists>rw'. ew_rw (mworld r) = Some rw' \<and> history env [(data, flags)] [] rw rw'" if "ew_rw w = Some rw" for rw
  proof -
    have "ew_rw (mworld r) = Some (snd (submitRuntimeData OUTPUT (packet_data data flags) rw))"
      using assms(1) that by (auto simp: record_packet_def mret_def getRuntimeWriterStatus_def submitRuntimeData_def split: if_splits)
    then show ?thesis using ok by (intro exI conjI) (auto intro!: history_step [where e = "Submit OUTPUT (packet_data data flags)"])
  qed
  moreover have "ew_irrv (mworld r) = ew_irrv w" using assms(1) by (auto simp: record_packet_def mret_def split: option.splits if_splits)
  ultimately show ?thesis by (simp add: follows_def)
qed

lemma follows_file: "write_file data w = Some r \<Longrightarrow> follows env [] w (mworld r)"
  by (auto simp: write_file_def mret_def follows_def history_refl Let_def split: option.splits prod.splits if_splits)

lemma follows_second: "check_second env a2 (irrv_mux sv aux) w = Some r \<Longrightarrow> follows env [] w (mworld r)"
  by (cases "aux = 0") (auto simp: check_second_def mret_def follows_refl follows_call calls.check)

lemma mbind_ret:
  assumes "mbind m f w = Some (MRet y w2)"
  obtains x w' where "m w = Some (MRet x w')" "f x w' = Some (MRet y w2)"
  using assms by (auto simp: mbind_def split: option.splits mux_result.splits)

lemma follows_write:
  assumes "mux_write env a a2 (Some (data, flags)) (irrv_mux sv aux) w = Some (MRet x w')" "data \<noteq> []"
  shows "follows env (if may_transmit env (irrv_mux sv aux) w then [(data, flags)] else []) w w'"
proof (cases "may_transmit env (irrv_mux sv aux) w")
  case False
  then have "mbind (checkNewConn env a a2 (irrv_mux sv aux)) (\<lambda>_. mret 0) w = Some (MRet x w')"
    using assms by (simp add: mux_write_def)
  then obtain n w1 where "checkNewConn env a a2 (irrv_mux sv aux) w = Some (MRet n w1)" "w' = w1"
    by (rule mbind_ret) (simp add: mret_def)
  with False follows_checkNewConn show ?thesis by fastforce
next
  case True
  then have "mbind (call_irrv env (irrv_writeback a sv data flags)) (\<lambda>ret. mbind (check_second env a2 (irrv_mux sv aux)) (\<lambda>_.
      mbind (write_file data) (\<lambda>_. mbind (record_packet data flags) (\<lambda>_. mret ret)))) w = Some (MRet x w')"
    using assms by (simp add: mux_write_def)
  then obtain x1 w1 x2 w2 x3 w3 x4 w4 where 1: "call_irrv env (irrv_writeback a sv data flags) w = Some (MRet x1 w1)"
      "check_second env a2 (irrv_mux sv aux) w1 = Some (MRet x2 w2)" "write_file data w2 = Some (MRet x3 w3)"
      "record_packet data flags w3 = Some (MRet x4 w4)" "w' = w4"
    by (elim mbind_ret) (simp add: mret_def)
  have "follows env [] w w1" using follows_call [OF 1(1) calls_kept_write] by simp
  moreover have "follows env [] w1 w2" using follows_second [OF 1(2)] by simp
  moreover have "follows env [] w2 w3" using follows_file [OF 1(3)] by simp
  moreover have "follows env [(data, flags)] w3 w4" using follows_record [OF 1(4) assms(2)] by simp
  ultimately have "follows env ((([] @ []) @ []) @ [(data, flags)]) w w4" by (intro follows_trans)
  with True 1(5) show ?thesis by simp
qed

lemma follows_run:
  assumes "mux_run env (irrv_mux sv aux) evs w = Some (ps, w')" "\<forall>e\<in>set evs. mux_ev_ok env e"
  shows "follows env ps w w'"
  using assms
proof (induction env "irrv_mux sv aux" evs w arbitrary: ps rule: mux_run.induct)
  case (1 env w)
  then show ?case by (simp add: follows_refl)
next
  case (2 env a a2 data flags evs w)
  obtain x w1 qs where r: "mux_write env a a2 (Some (data, flags)) (irrv_mux sv aux) w = Some (MRet x w1)"
    "mux_run env (irrv_mux sv aux) evs w1 = Some (qs, w')"
    "ps = (if may_transmit env (irrv_mux sv aux) w then [(data, flags)] else []) @ qs"
    using 2(2) by (auto split: option.splits mux_result.splits)
  have "follows env (if may_transmit env (irrv_mux sv aux) w then [(data, flags)] else []) w w1"
    using follows_write [OF r(1)] 2(3) by simp
  moreover have "follows env qs w1 w'" using 2(1) [OF r(1) refl r(2)] 2(3) by simp
  ultimately show ?case unfolding r(3) by (rule follows_trans)
next
  case (3 env e evs w)
  show ?case
  proof (cases "ew_rw w")
    case None
    with 3 show ?thesis by simp
  next
    case (Some rw)
    then obtain rw' where r: "rw_step (me_drv env) (me_opens env) e rw = Some rw'"
      "mux_run env (irrv_mux sv aux) evs (w\<lparr>ew_rw := Some rw'\<rparr>) = Some (ps, w')"
      using 3(3) by (auto split: bind_splits)
    have "history env [] [] rw rw'" using history_step [OF r(1)] 3(4) by simp
    then have "follows env [] w (w\<lparr>ew_rw := Some rw'\<rparr>)" using Some by (simp add: follows_def)
    moreover have "follows env ps (w\<lparr>ew_rw := Some rw'\<rparr>) w'" using 3(2) [OF Some r] 3(4) by simp
    ultimately show ?thesis using follows_trans by fastforce
  qed
qed

lemma packet_packet_data: "data \<noteq> [] \<Longrightarrow> packet (packet_data data flags) = data"
  by (simp add: packet_def packet_data_def new_data_def output_bytes_def mem_bytes_def)

text \<open>
  C5. A recording of the output, begun with success, holds the packets the multiplexer lets through to the clients,
  from the first key frame on and as many as were asked for, whatever control messages the clients send meanwhile
  (other than one that stops the recording) and however the recording threads are scheduled.
\<close>

theorem mux_recording:
  assumes "\<forall>e\<in>set hs. ev_ok (me_drv env) e" "rw_exec (me_drv env) (me_opens env) hs (runtime_writer codec pre fs) = Some rw"
    and "\<not> has_bit (getRuntimeWriterStatus rw) OUTPUT_WRITING" "m \<noteq> INPUT" "startWriting (me_opens env) now m n rw = Some (0, rw1)"
    and "ew_rw w = Some rw1" "mux_run env (irrv_mux sv aux) evs w = Some (ps, w')" "\<forall>e\<in>set evs. mux_ev_ok env e"
    and "\<forall>k. StopWriting k \<in> set (drop (length (streamer_calls (ew_irrv w))) (streamer_calls (ew_irrv w'))) \<longrightarrow> k = INPUT"
    and "m' \<noteq> INPUT"
  shows "\<exists>rw2 rw3. ew_rw w' = Some rw2 \<and> stopWriting (me_drv env) m' rw2 = Some (0, rw3) \<and>
    rw_files rw3 (output_name now rw) =
      Some (concat (map packet (recorded n (map (\<lambda>(d, f). packet_data d f) ps))))"
proof -
  obtain cs where cs: "streamer_calls (ew_irrv w') = streamer_calls (ew_irrv w) @ cs"
    "\<exists>rw2. ew_rw w' = Some rw2 \<and> history env ps cs rw1 rw2"
    using follows_run [OF assms(7,8)] assms(6) unfolding follows_def by blast
  then obtain rw2 es where h: "ew_rw w' = Some rw2" "rw_exec (me_drv env) (me_opens env) es rw1 = Some rw2"
    "submitted es = map (\<lambda>(d, f). packet_data d f) ps" "\<forall>e\<in>set es. ev_ok (me_drv env) e"
    "\<forall>k. Stop k \<in> set es \<longrightarrow> k = INPUT \<or> StopWriting k \<in> set cs" unfolding history_def by blast
  have stops: "\<forall>e\<in>set es. ev_ok (me_drv env) e \<and> (\<forall>k. e = Stop k \<longrightarrow> k = INPUT)"
    using h(4,5) assms(9) cs(1) by auto
  have ok: "rw_ok (me_drv env) rw" using rw_exec_ok [OF rw_ok_new assms(1), of "me_opens env" codec pre fs] assms(2) by simp
  then have ok1: "rw_ok (me_drv env) rw1" using startWriting_ok [OF ok, of "me_opens env" now m n] assms(5) by auto
  have "recording (output_name now rw) n [] rw1"
    using recording_begin [OF ok _ assms(4,5)] assms(3) by (simp add: getRuntimeWriterStatus_def)
  from recording_exec [OF ok1 this stops, of "me_opens env"] h(2,3)
  have "rw_ok (me_drv env) rw2" "recording (output_name now rw) n (map (\<lambda>(d, f). packet_data d f) ps) rw2" by auto
  from recording_end [OF this assms(10), of "me_opens env"] stopWriting_ok [OF this(1), of m'] h(1) show ?thesis by auto
qed

definition streaming :: enc_world where
  "streaming = \<lparr>ew_irrv = (connected False (whole_io [48, 2, 48, 1, 48, 1] []))
       \<lparr>ir_streamer := Some ((streamer_new 640 480 30)\<lparr>m_bAllowTransmit := True\<rparr>)\<rparr>,
     ew_rw = map_option snd (startWriting (\<lambda>f. True) ''t'' OUTPUT 2 (runtime_writer 27 ''./'' Map.empty)), ew_sw = None\<rparr>"

definition stream_events :: "mux_ev list" where
  "stream_events = [Packet idle idle [5, 6] 0, Packet idle idle [7] 1, Writer OutputTurn, Packet idle idle [8] 0]"

lemma streaming_run:
  "map_option (\<lambda>(ps, w'). (ps, streamer_calls (ew_irrv w'))) (mux_run plain_env (irrv_mux 1 0) stream_events streaming)
   = Some ([([5, 6], 0), ([7], 1), ([8], 0)], [])"
  by code_simp

theorem mux_recording_witness:
  "\<exists>w' rw2 rw3. mux_run plain_env (irrv_mux 1 0) stream_events streaming = Some ([([5, 6], 0), ([7], 1), ([8], 0)], w') \<and>
     ew_rw w' = Some rw2 \<and> stopWriting (me_drv plain_env) INOUT rw2 = Some (0, rw3) \<and>
     rw_files rw3 ''./output_t.264'' = Some [7, 8]"
proof -
  let ?rw = "runtime_writer 27 ''./'' Map.empty" and ?ps = "[([5, 6], 0), ([7], 1), ([8], 0)] :: (bytes \<times> u32) list"
  obtain w' where w': "mux_run plain_env (irrv_mux 1 0) stream_events streaming = Some (?ps, w')"
    "streamer_calls (ew_irrv w') = []" using streaming_run by auto
  obtain rw1 where st: "startWriting (me_opens plain_env) ''t'' OUTPUT 2 ?rw = Some (0, rw1)" "ew_rw streaming = Some rw1"
    by (simp add: startWriting_def start_output_def start_slot_def runtime_writer_def has_bit_def mode_bits_def
      INOUT_WRITING_def OUTPUT_WRITING_def INPUT_WRITING_def Let_def plain_env_def streaming_def)
  have "\<exists>rw2 rw3. ew_rw w' = Some rw2 \<and> stopWriting (me_drv plain_env) INOUT rw2 = Some (0, rw3) \<and>
    rw_files rw3 (output_name ''t'' ?rw) = Some (concat (map packet (recorded 2 (map (\<lambda>(d, f). packet_data d f) ?ps))))"
    by (rule mux_recording [where hs = "[]" and codec = 27 and pre = "''./''" and fs = Map.empty, OF _ _ _ _ st w'(1)])
      (simp_all add: w'(2) stream_events_def runtime_writer_def getRuntimeWriterStatus_def has_bit_def)
  moreover have "output_name ''t'' ?rw = ''./output_t.264''"
    by (simp add: output_name_def runtime_writer_def AV_CODEC_ID_H264_def)
  moreover have "recorded 2 (map (\<lambda>(d, f). packet_data d f) ?ps) = [packet_data [7] 1, packet_data [8] 0]"
    by (simp add: recorded_def packet_data_def AV_PKT_FLAG_KEY_def)
  ultimately show ?thesis using w'(1) by (simp add: packet_packet_data)
qed

end
