(* ===== verification/VideoDemux.thy ===== *)
theory VideoDemux
  imports RuntimeWriter CtrlMsg
begin

text \<open>
  Where the frames to encode come from, \<open>sources/encoder/shared/CIrrVideoDemux.cpp\<close> with \<open>CDemux.h\<close> and the
  timers of \<open>utils/ProfTimer.cpp\<close>: one place that holds the newest frame, filled by the thread that receives frames and
  read by the encoder at the frame rate or as frames come. The clock's answers are arguments. A read gives up
  the lock while it waits: \<open>during\<close> are the frames sent meanwhile. The length of a frame in microseconds, which the
  code has from \<open>av_rescale_q\<close>, and the result of \<open>av_packet_ref\<close> are arguments too; a packet that could not be
  referenced is blank.
\<close>

section \<open>Timers\<close>

record ProfTimer =
  mStat :: bool
  mStartTime :: int
  mLastTime :: int
  mTotalTime :: int
  mTotalCount :: int
  mMin :: int
  mMax :: int
  mPeriod :: int

definition LONG_MAX :: int where "LONG_MAX = 9223372036854775807"

text \<open>The report printed by a reset is left out.\<close>

definition profTimerReset :: "ProfTimer \<Rightarrow> ProfTimer" where
  "profTimerReset t = \<lparr>mStat = False, mStartTime = 0, mLastTime = 0, mTotalTime = 0, mTotalCount = 0, mMin = LONG_MAX,
     mMax = 0, mPeriod = 0\<rparr>"

definition prof_timer :: "bool \<Rightarrow> ProfTimer" where
  "prof_timer stat = \<lparr>mStat = stat, mStartTime = 0, mLastTime = 0, mTotalTime = 0, mTotalCount = 0, mMin = LONG_MAX,
     mMax = 0, mPeriod = 0\<rparr>"

definition setPeriod :: "int \<Rightarrow> ProfTimer \<Rightarrow> ProfTimer" where
  "setPeriod period t = t\<lparr>mPeriod := (if period > 0 then period * 1000000 else period)\<rparr>"

definition enableProf :: "ProfTimer \<Rightarrow> ProfTimer" where
  "enableProf t = t\<lparr>mStat := True\<rparr>"

definition profTimerBegin :: "int \<Rightarrow> ProfTimer \<Rightarrow> int \<times> ProfTimer" where
  "profTimerBegin now t =
     (if \<not> mStat t then (0, t)
      else (now, t\<lparr>mStartTime := now, mLastTime := (if mLastTime t = 0 then now else mLastTime t)\<rparr>))"

definition profTimerEnd :: "int \<Rightarrow> int \<Rightarrow> ProfTimer \<Rightarrow> int \<times> ProfTimer" where
  "profTimerEnd user now t =
     (if \<not> mStat t \<or> mStartTime t = 0 then (0, t)
      else let start = (if user > 0 then user else mStartTime t);
               t = (if user > 0 \<and> mLastTime t = 0 then t\<lparr>mLastTime := user\<rparr> else t);
               elapsed = now - start;
               t = t\<lparr>mTotalTime := mTotalTime t + elapsed, mTotalCount := mTotalCount t + 1,
                     mMin := min elapsed (mMin t), mMax := max elapsed (mMax t)\<rparr>
           in (elapsed, if mPeriod t > 0 \<and> now - mLastTime t > mPeriod t then profTimerReset t else t))"

section \<open>The demultiplexer\<close>

text \<open>
  A packet: \<open>None\<close> without a buffer, else the contents of the buffer, \<open>None\<close> when its data pointer is NULL.
  \<open>pts\<close> is \<open>None\<close> for \<open>AV_NOPTS_VALUE\<close>. The display control is anything the sender chose.
\<close>

record 'c irr_packet =
  pkt_buf :: "bytes option option"
  pkt_pts :: "int option"
  display_ctrl :: "'c option"

record 'c demux =
  m_Pkt :: "'c irr_packet"
  m_nPrevPts :: int
  m_totalWaitMcs :: int
  m_nLatencyStats :: int
  m_bStartLatency :: bool
  m_stop :: bool
  m_notified :: bool
  m_mProfTimer :: "string \<rightharpoonup> ProfTimer"
  m_bRenderFpsEnc :: bool
  m_MinFpsEnc :: int
  m_isVASurfaceID :: bool
  dm_width :: u32
  dm_height :: u32
  dm_format :: int

definition NEW_FRAME_WAIT_TIMEOUT_MCS :: int where "NEW_FRAME_WAIT_TIMEOUT_MCS = 1000000"

definition video_demux :: "u32 \<Rightarrow> u32 \<Rightarrow> int \<Rightarrow> bytes option option \<Rightarrow> 'c demux" where
  "video_demux w h format buf = \<lparr>m_Pkt = \<lparr>pkt_buf = buf, pkt_pts = None, display_ctrl = None\<rparr>, m_nPrevPts = 0,
     m_totalWaitMcs = 0, m_nLatencyStats = 0, m_bStartLatency = False, m_stop = False, m_notified = False,
     m_mProfTimer = Map.empty, m_bRenderFpsEnc = True, m_MinFpsEnc = 0, m_isVASurfaceID = False, dm_width = w,
     dm_height = h, dm_format = format\<rparr>"

definition setRenderFpsEncFlag :: "bool \<Rightarrow> 'c demux \<Rightarrow> 'c demux" where
  "setRenderFpsEncFlag b d = d\<lparr>m_bRenderFpsEnc := b\<rparr>"

definition setMinFpsEnc :: "int \<Rightarrow> 'c demux \<Rightarrow> 'c demux" where
  "setMinFpsEnc n d = d\<lparr>m_MinFpsEnc := n\<rparr>"

definition setVASurfaceFlag :: "bool \<Rightarrow> 'c demux \<Rightarrow> 'c demux" where
  "setVASurfaceFlag b d = d\<lparr>m_isVASurfaceID := b\<rparr>"

definition demux_stop :: "'c demux \<Rightarrow> 'c demux" where
  "demux_stop d = d\<lparr>m_stop := True\<rparr>"

text \<open>A timer that is used is in the map, or \<open>operator[]\<close> makes a NULL that is used: \<open>None\<close>.\<close>

definition with_timer :: "string \<Rightarrow> (ProfTimer \<Rightarrow> 'a \<times> ProfTimer) \<Rightarrow> 'c demux \<Rightarrow> ('a \<times> 'c demux) option" where
  "with_timer k f d = do {
     t \<leftarrow> m_mProfTimer d k;
     let (x, t') = f t;
     Some (x, d\<lparr>m_mProfTimer := (m_mProfTimer d)(k \<mapsto> t')\<rparr>) }"

definition sendPacket :: "int \<Rightarrow> 'c irr_packet \<Rightarrow> 'c demux \<Rightarrow> 'c demux option" where
  "sendPacket now pkt d = do {
     let d = d\<lparr>m_Pkt := pkt\<lparr>display_ctrl := (case display_ctrl pkt of None \<Rightarrow> display_ctrl (m_Pkt d) | Some c \<Rightarrow> Some c)\<rparr>\<rparr>;
     d \<leftarrow> (if m_nLatencyStats d \<noteq> 0 then do {
            (pts, d) \<leftarrow> with_timer ''pkt_latency'' (profTimerBegin now) (d\<lparr>m_bStartLatency := True\<rparr>);
            Some (d\<lparr>m_Pkt := (m_Pkt d)\<lparr>pkt_pts := Some pts\<rparr>\<rparr>) }
          else Some d);
     Some (d\<lparr>m_notified := True\<rparr>) }"

fun sendPackets :: "(int \<times> 'c irr_packet) list \<Rightarrow> 'c demux \<Rightarrow> 'c demux option" where
  "sendPackets [] d = Some d"
| "sendPackets ((now, p) # ps) d = do { d' \<leftarrow> sendPacket now p d; sendPackets ps d' }"

text \<open>How long a read waits at time \<open>t0\<close>; it waits at all if this is more than 0 and, as frames come, none is there.\<close>

definition wait_mcs :: "int \<Rightarrow> int \<Rightarrow> 'c demux \<Rightarrow> int" where
  "wait_mcs frame_mcs t0 d =
     (if m_bRenderFpsEnc d
      then if m_MinFpsEnc d \<noteq> 0 then c_div 1000000 (m_MinFpsEnc d) else NEW_FRAME_WAIT_TIMEOUT_MCS
      else max (frame_mcs - (t0 - m_nPrevPts d)) 0)"

definition waits :: "int \<Rightarrow> int \<Rightarrow> 'c demux \<Rightarrow> bool" where
  "waits frame_mcs t0 d \<longleftrightarrow> wait_mcs frame_mcs t0 d > 0 \<and> (m_bRenderFpsEnc d \<longrightarrow> \<not> m_notified d)"

definition count_wait :: "int \<Rightarrow> 'c demux \<Rightarrow> 'c demux" where
  "count_wait wait d =
     (let d = (if m_bRenderFpsEnc d \<or> wait > 0 then d\<lparr>m_totalWaitMcs := m_totalWaitMcs d + wait\<rparr> else d);
          d = (if m_notified d \<or> m_stop d then d\<lparr>m_totalWaitMcs := 0\<rparr> else d)
      in if m_totalWaitMcs d \<ge> NEW_FRAME_WAIT_TIMEOUT_MCS then d\<lparr>m_totalWaitMcs := 0\<rparr> else d)"

text \<open>The datum for the recording of the input; a surface's number is in the first bytes of the packet.\<close>

definition input_datum :: "'c demux \<Rightarrow> bytes option \<Rightarrow> IORuntimeData option" where
  "input_datum d data =
     (let b = (case data of None \<Rightarrow> [] | Some b \<Rightarrow> b)
      in if m_isVASurfaceID d \<and> length b < 4 then None
      else let x = (if m_isVASurfaceID d then (new_data VAAPI_SURFACE)\<lparr>va_surface_id := get32 b\<rparr>
                    else (new_data SYSTEM_BLOCK)\<lparr>io_data := data, io_size := length b\<rparr>)
           in Some (x\<lparr>io_width := dm_width d, io_height := dm_height d, io_format := avFormatToFourCC (dm_format d)\<rparr>))"

text \<open>What a read gives: its result, the frame and its time, the control, and the datum to record.\<close>

record 'c read_result =
  rd_ret :: int
  rd_data :: "bytes option"
  rd_pts :: int
  rd_ctrl :: "'c option"
  rd_record :: "IORuntimeData option"

definition AVERROR_INVALIDDATA :: int where "AVERROR_INVALIDDATA = -1094995529"

text \<open>The clock is looked at for the latency, for the round, and for the time of the packet.\<close>

definition take_packet ::
  "int \<Rightarrow> int \<times> int \<times> int \<Rightarrow> bool \<Rightarrow> bytes \<Rightarrow> 'c demux \<Rightarrow> ('c read_result \<times> 'c demux) option" where
  "take_packet ref ts writing data d = do {
     let (t2, t3, t1) = ts;
     let got = (if ref < 0 then None else Some data);
     (_, d) \<leftarrow> (if m_nLatencyStats d \<noteq> 0 \<and> m_bStartLatency d \<and> pkt_pts (m_Pkt d) \<noteq> None
                then with_timer ''pkt_latency'' (profTimerEnd 0 t2) d else Some (0, d));
     let ctrl = display_ctrl (m_Pkt d);
     let d = d\<lparr>m_Pkt := (m_Pkt d)\<lparr>display_ctrl := None\<rparr>\<rparr>;
     rec \<leftarrow> (if writing then map_option Some (input_datum d got) else Some None);
     (_, d) \<leftarrow> (if m_nLatencyStats d \<noteq> 0 \<and> m_nPrevPts d > 0
                then with_timer ''pkt_round'' (profTimerEnd (m_nPrevPts d) t3) d else Some (0, d));
     let d = d\<lparr>m_nPrevPts := t1\<rparr>;
     let d = (if m_nLatencyStats d \<noteq> 0 \<and> m_bStartLatency d then d\<lparr>m_Pkt := (m_Pkt d)\<lparr>pkt_pts := None\<rparr>\<rparr> else d);
     Some (\<lparr>rd_ret = ref, rd_data = got, rd_pts = t1, rd_ctrl = ctrl, rd_record = rec\<rparr>, d\<lparr>m_notified := False\<rparr>) }"

definition readPacket ::
  "int \<Rightarrow> int \<Rightarrow> (int \<times> 'c irr_packet) list \<Rightarrow> int \<Rightarrow> int \<times> int \<times> int \<Rightarrow> bool \<Rightarrow> 'c demux \<Rightarrow> ('c read_result \<times> 'c demux) option" where
  "readPacket frame_mcs t0 during ref ts writing d = do {
     let wait = wait_mcs frame_mcs t0 d;
     d \<leftarrow> (if waits frame_mcs t0 d then sendPackets during d else Some d);
     let d = count_wait wait d;
     (case pkt_buf (m_Pkt d) of
        Some (Some data) \<Rightarrow> take_packet ref ts writing data d
      | _ \<Rightarrow> Some (\<lparr>rd_ret = AVERROR_INVALIDDATA, rd_data = None, rd_pts = 0, rd_ctrl = None, rd_record = None\<rparr>,
               d\<lparr>m_notified := False\<rparr>)) }"

text \<open>Timers are created once and never freed before the demultiplexer.\<close>

definition on_timer :: "string \<Rightarrow> (ProfTimer \<Rightarrow> ProfTimer) \<Rightarrow> 'c demux \<Rightarrow> 'c demux" where
  "on_timer k f d = d\<lparr>m_mProfTimer := (m_mProfTimer d)(k := map_option f (m_mProfTimer d k))\<rparr>"

definition make_timer :: "string \<Rightarrow> 'c demux \<Rightarrow> 'c demux" where
  "make_timer k d = (if m_mProfTimer d k = None then d\<lparr>m_mProfTimer := (m_mProfTimer d)(k \<mapsto> prof_timer True)\<rparr> else d)"

definition setLatencyStats :: "int \<Rightarrow> int \<Rightarrow> 'c demux \<Rightarrow> int \<times> 'c demux" where
  "setLatencyStats now n d =
     (let d = d\<lparr>m_nLatencyStats := n\<rparr>
      in if n \<noteq> 0
         then let d = on_timer ''pkt_latency'' (enableProf \<circ> setPeriod n) (make_timer ''pkt_latency'' d);
                  d = on_timer ''pkt_round'' (snd \<circ> profTimerBegin now \<circ> enableProf \<circ> setPeriod n) (make_timer ''pkt_round'' d)
              in (0, d)
         else let d = (if m_bStartLatency d then on_timer ''pkt_latency'' profTimerReset d else d);
                  d = on_timer ''pkt_round'' profTimerReset d
              in (0, d\<lparr>m_bStartLatency := False\<rparr>))"

end
