(* ===== verification/VideoDemuxProps.thy ===== *)
theory VideoDemuxProps
  imports VideoDemux
begin

text \<open>
  Over any history of frames sent, reads and changes of the statistics: every read returns the newest frame, a
  display control is handed out once, with the first read after it unless a newer one came before, and in the mode
  with a fixed rate the times of two frames read are a frame apart.
\<close>

section \<open>Histories\<close>

datatype 'c dm_ev =
    Send int "'c irr_packet"
  | Read int "(int \<times> 'c irr_packet) list" int "int \<times> int \<times> int" bool
  | Latency int int

text \<open>What happened, in the order of the lock: a read's own frames come before what it gives.\<close>

datatype 'c dm_item = Sent_in "'c irr_packet" | Got "'c read_result"

fun dm_step :: "int \<Rightarrow> 'c dm_ev \<Rightarrow> 'c demux \<Rightarrow> ('c dm_item list \<times> 'c demux) option" where
  "dm_step frame_mcs (Send now p) d = map_option (\<lambda>d'. ([Sent_in p], d')) (sendPacket now p d)"
| "dm_step frame_mcs (Read t0 during ref ts writing) d =
     map_option (\<lambda>(r, d'). ((if waits frame_mcs t0 d then map (Sent_in \<circ> snd) during else []) @ [Got r], d'))
       (readPacket frame_mcs t0 during ref ts writing d)"
| "dm_step frame_mcs (Latency now n) d = Some ([], snd (setLatencyStats now n d))"

fun dm_run :: "int \<Rightarrow> 'c dm_ev list \<Rightarrow> 'c demux \<Rightarrow> ('c dm_item list \<times> 'c demux) option" where
  "dm_run frame_mcs [] d = Some ([], d)"
| "dm_run frame_mcs (e # es) d = do {
     (t, d1) \<leftarrow> dm_step frame_mcs e d;
     (t', d2) \<leftarrow> dm_run frame_mcs es d1;
     Some (t @ t', d2) }"

text \<open>What a reader is promised, \<open>b\<close> being the newest frame and \<open>c\<close> the control not yet handed out.\<close>

definition newer :: "'c option \<Rightarrow> 'c option \<Rightarrow> 'c option" where
  "newer c c' = (case c' of None \<Rightarrow> c | Some x \<Rightarrow> Some x)"

fun newest_frames :: "bytes option option \<Rightarrow> 'c option \<Rightarrow> 'c dm_item list \<Rightarrow> bool" where
  "newest_frames b c [] \<longleftrightarrow> True"
| "newest_frames b c (Sent_in p # t) \<longleftrightarrow> newest_frames (pkt_buf p) (newer c (display_ctrl p)) t"
| "newest_frames b c (Got r # t) \<longleftrightarrow>
     rd_ctrl r = c \<and> (0 \<le> rd_ret r \<longrightarrow> b = Some (rd_data r)) \<and> newest_frames b None t"

section \<open>The invariant\<close>

definition good_packet :: "'c irr_packet \<Rightarrow> bool" where
  "good_packet p \<longleftrightarrow> (\<exists>b. pkt_buf p = Some (Some b) \<and> 4 \<le> length b)"

definition timers_ok :: "'c demux \<Rightarrow> bool" where
  "timers_ok d \<longleftrightarrow> (m_nLatencyStats d \<noteq> 0 \<longrightarrow> m_mProfTimer d ''pkt_latency'' \<noteq> None \<and> m_mProfTimer d ''pkt_round'' \<noteq> None)"

fun dm_ok :: "'c dm_ev \<Rightarrow> bool" where
  "dm_ok (Send now p) \<longleftrightarrow> good_packet p"
| "dm_ok (Read t0 during ref ts writing) \<longleftrightarrow> (\<forall>(t, p)\<in>set during. good_packet p) \<and> (writing \<longrightarrow> 0 \<le> ref)"
| "dm_ok (Latency now n) \<longleftrightarrow> True"

lemma with_timer_some:
  assumes "m_mProfTimer d k = Some t"
  shows "\<exists>x t'. with_timer k f d = Some (x, d\<lparr>m_mProfTimer := (m_mProfTimer d)(k \<mapsto> t')\<rparr>)"
  using assms by (cases "f t") (auto simp: with_timer_def Let_def)

lemma sendPacket_ok:
  assumes "timers_ok d" "good_packet p"
  shows "\<exists>d'. sendPacket now p d = Some d' \<and> timers_ok d' \<and> pkt_buf (m_Pkt d') = pkt_buf p \<and>
    display_ctrl (m_Pkt d') = newer (display_ctrl (m_Pkt d)) (display_ctrl p) \<and> m_nPrevPts d' = m_nPrevPts d \<and>
    m_bRenderFpsEnc d' = m_bRenderFpsEnc d"
proof (cases "m_nLatencyStats d = 0")
  case False
  then obtain t where t: "m_mProfTimer d ''pkt_latency'' = Some t" using assms(1) by (auto simp: timers_ok_def)
  with False assms(1) show ?thesis
    by (cases "profTimerBegin now t") (simp add: sendPacket_def with_timer_def Let_def timers_ok_def newer_def)
qed (use assms in \<open>simp add: sendPacket_def timers_ok_def Let_def newer_def\<close>)

lemma sendPackets_ok:
  assumes "timers_ok d" "\<forall>(t, p)\<in>set ps. good_packet p" "good_packet (m_Pkt d)"
  shows "\<exists>d'. sendPackets ps d = Some d' \<and> timers_ok d' \<and> good_packet (m_Pkt d') \<and> m_nPrevPts d' = m_nPrevPts d \<and>
    m_bRenderFpsEnc d' = m_bRenderFpsEnc d \<and>
    (\<forall>t. newest_frames (pkt_buf (m_Pkt d)) (display_ctrl (m_Pkt d)) (map (Sent_in \<circ> snd) ps @ t) =
         newest_frames (pkt_buf (m_Pkt d')) (display_ctrl (m_Pkt d')) t)"
  using assms
proof (induction ps arbitrary: d)
  case (Cons a ps)
  obtain now p where a: "a = (now, p)" by (cases a)
  have "good_packet p" using Cons.prems(2) a by auto
  with sendPacket_ok [OF Cons.prems(1) this, of now] obtain d1 where
    d1: "sendPacket now p d = Some d1" "timers_ok d1" "pkt_buf (m_Pkt d1) = pkt_buf p" "m_nPrevPts d1 = m_nPrevPts d"
    "display_ctrl (m_Pkt d1) = newer (display_ctrl (m_Pkt d)) (display_ctrl p)" "m_bRenderFpsEnc d1 = m_bRenderFpsEnc d"
    "good_packet (m_Pkt d1)" by (auto simp: good_packet_def)
  with Cons.IH [OF d1(2) _ d1(7)] Cons.prems(2) a show ?case by auto
qed simp

lemma count_wait_sel [simp]:
  "m_Pkt (count_wait x d) = m_Pkt d" "m_nPrevPts (count_wait x d) = m_nPrevPts d" "m_mProfTimer (count_wait x d) = m_mProfTimer d"
  "m_nLatencyStats (count_wait x d) = m_nLatencyStats d" "m_bRenderFpsEnc (count_wait x d) = m_bRenderFpsEnc d"
  "timers_ok (count_wait x d) = timers_ok d"
  by (simp_all add: count_wait_def Let_def timers_ok_def)

lemma take_packet_ok:
  assumes "timers_ok d" "pkt_buf (m_Pkt d) = Some (Some data)" "4 \<le> length data" "writing \<longrightarrow> 0 \<le> ref"
  shows "\<exists>r d'. take_packet ref (t2, t3, t1) writing data d = Some (r, d') \<and> timers_ok d' \<and> pkt_buf (m_Pkt d') = pkt_buf (m_Pkt d) \<and>
    display_ctrl (m_Pkt d') = None \<and> m_nPrevPts d' = t1 \<and> m_bRenderFpsEnc d' = m_bRenderFpsEnc d \<and>
    rd_ret r = ref \<and> rd_pts r = t1 \<and> rd_ctrl r = display_ctrl (m_Pkt d) \<and> (0 \<le> ref \<longrightarrow> rd_data r = Some data)"
proof (cases "m_nLatencyStats d = 0")
  case True
  with assms show ?thesis by (auto simp: take_packet_def input_datum_def Let_def timers_ok_def split: option.splits)
next
  case False
  then obtain t u where t: "m_mProfTimer d ''pkt_latency'' = Some t" "m_mProfTimer d ''pkt_round'' = Some u"
    using assms(1) by (auto simp: timers_ok_def)
  obtain t' where t': "with_timer ''pkt_latency'' (profTimerEnd 0 t2) d = Some (fst (profTimerEnd 0 t2 t), d\<lparr>m_mProfTimer := (m_mProfTimer d)(''pkt_latency'' \<mapsto> t')\<rparr>)"
    using t(1) by (cases "profTimerEnd 0 t2 t") (auto simp: with_timer_def Let_def)
  have u': "with_timer ''pkt_round'' (profTimerEnd y t3) e = Some (fst (profTimerEnd y t3 u), e\<lparr>m_mProfTimer := (m_mProfTimer e)(''pkt_round'' \<mapsto> snd (profTimerEnd y t3 u))\<rparr>)"
    if "m_mProfTimer e ''pkt_round'' = Some u" for y and e :: "'a demux"
    using that by (cases "profTimerEnd y t3 u") (simp add: with_timer_def Let_def)
  show ?thesis using assms t t' False
    by (cases "m_bStartLatency d \<and> pkt_pts (m_Pkt d) \<noteq> None"; cases "m_nPrevPts d > 0")
      (auto simp: take_packet_def input_datum_def Let_def timers_ok_def u' split: option.splits)
qed

lemma readPacket_ok:
  assumes "timers_ok d" "good_packet (m_Pkt d)" "dm_ok (Read t0 during ref (t2, t3, t1) writing)"
  shows "\<exists>r d'. readPacket frame_mcs t0 during ref (t2, t3, t1) writing d = Some (r, d') \<and> timers_ok d' \<and> good_packet (m_Pkt d') \<and>
    m_nPrevPts d' = t1 \<and> m_bRenderFpsEnc d' = m_bRenderFpsEnc d \<and> rd_pts r = t1 \<and>
    (\<forall>t. newest_frames (pkt_buf (m_Pkt d)) (display_ctrl (m_Pkt d))
           ((if waits frame_mcs t0 d then map (Sent_in \<circ> snd) during else []) @ Got r # t) =
         newest_frames (pkt_buf (m_Pkt d')) (display_ctrl (m_Pkt d')) t)"
proof -
  obtain d1 where d1: "(if waits frame_mcs t0 d then sendPackets during d else Some d) = Some d1" "timers_ok d1"
    "good_packet (m_Pkt d1)" "m_bRenderFpsEnc d1 = m_bRenderFpsEnc d"
    "\<And>t. newest_frames (pkt_buf (m_Pkt d)) (display_ctrl (m_Pkt d))
           ((if waits frame_mcs t0 d then map (Sent_in \<circ> snd) during else []) @ t) =
         newest_frames (pkt_buf (m_Pkt d1)) (display_ctrl (m_Pkt d1)) t"
    using assms sendPackets_ok [OF assms(1) _ assms(2), of during] by (cases "waits frame_mcs t0 d") auto
  obtain data where data: "pkt_buf (m_Pkt d1) = Some (Some data)" "4 \<le> length data"
    using d1(3) by (auto simp: good_packet_def)
  let ?c = "count_wait (wait_mcs frame_mcs t0 d) d1"
  have "\<exists>r d'. take_packet ref (t2, t3, t1) writing data ?c = Some (r, d') \<and> timers_ok d' \<and> pkt_buf (m_Pkt d') = pkt_buf (m_Pkt ?c) \<and>
    display_ctrl (m_Pkt d') = None \<and> m_nPrevPts d' = t1 \<and> m_bRenderFpsEnc d' = m_bRenderFpsEnc ?c \<and>
    rd_ret r = ref \<and> rd_pts r = t1 \<and> rd_ctrl r = display_ctrl (m_Pkt ?c) \<and> (0 \<le> ref \<longrightarrow> rd_data r = Some data)"
    using assms(3) data d1(2) by (intro take_packet_ok) simp_all
  then obtain r d' where r: "take_packet ref (t2, t3, t1) writing data ?c = Some (r, d')" "timers_ok d'"
    "pkt_buf (m_Pkt d') = Some (Some data)" "display_ctrl (m_Pkt d') = None" "m_nPrevPts d' = t1"
    "m_bRenderFpsEnc d' = m_bRenderFpsEnc d" "rd_ret r = ref" "rd_pts r = t1" "rd_ctrl r = display_ctrl (m_Pkt d1)"
    "0 \<le> ref \<longrightarrow> rd_data r = Some data"
    using d1(4) data(1) by auto
  have "readPacket frame_mcs t0 during ref (t2, t3, t1) writing d = Some (r, d')"
    using d1(1) data(1) r(1) by (simp add: readPacket_def Let_def)
  moreover have "good_packet (m_Pkt d')" using r(3) data(2) by (simp add: good_packet_def)
  ultimately show ?thesis using r data(1) d1(5) by auto
qed

lemma latency_ok: "timers_ok (snd (setLatencyStats now n d))" "m_Pkt (snd (setLatencyStats now n d)) = m_Pkt d"
  "m_nPrevPts (snd (setLatencyStats now n d)) = m_nPrevPts d" "m_bRenderFpsEnc (snd (setLatencyStats now n d)) = m_bRenderFpsEnc d"
  by (auto simp: setLatencyStats_def Let_def timers_ok_def on_timer_def make_timer_def)

section \<open>Properties\<close>

lemma dm_step_ok:
  assumes "timers_ok d" "good_packet (m_Pkt d)" "dm_ok e"
  shows "\<exists>t d'. dm_step frame_mcs e d = Some (t, d') \<and> timers_ok d' \<and> good_packet (m_Pkt d') \<and> m_bRenderFpsEnc d' = m_bRenderFpsEnc d \<and>
    (\<forall>t'. newest_frames (pkt_buf (m_Pkt d)) (display_ctrl (m_Pkt d)) (t @ t') =
         newest_frames (pkt_buf (m_Pkt d')) (display_ctrl (m_Pkt d')) t')"
proof (cases e)
  case (Send now p)
  with sendPacket_ok [OF assms(1), of p now] assms(3) show ?thesis by (auto simp: good_packet_def)
next
  case (Read t0 during ref ts writing)
  obtain t2 t3 t1 where ts: "ts = (t2, t3, t1)" by (cases ts) auto
  with readPacket_ok [OF assms(1,2), of t0 during ref t2 t3 t1 writing frame_mcs] assms(3) Read show ?thesis by auto
next
  case (Latency now n)
  then show ?thesis using assms(2) by (simp add: latency_ok)
qed

lemma dm_run_ok:
  assumes "timers_ok d" "good_packet (m_Pkt d)" "\<forall>e\<in>set es. dm_ok e"
  shows "\<exists>t d'. dm_run frame_mcs es d = Some (t, d') \<and> newest_frames (pkt_buf (m_Pkt d)) (display_ctrl (m_Pkt d)) t"
  using assms
proof (induction es arbitrary: d)
  case (Cons e es)
  have "dm_ok e" using Cons.prems(3) by simp
  from dm_step_ok [OF Cons.prems(1,2) this, of frame_mcs] obtain t1 d1 where
    d1: "dm_step frame_mcs e d = Some (t1, d1)" "timers_ok d1" "good_packet (m_Pkt d1)"
    "\<And>t'. newest_frames (pkt_buf (m_Pkt d)) (display_ctrl (m_Pkt d)) (t1 @ t') =
         newest_frames (pkt_buf (m_Pkt d1)) (display_ctrl (m_Pkt d1)) t'" by blast
  from Cons.IH [OF d1(2,3)] Cons.prems(3) obtain tt d2 where
    "dm_run frame_mcs es d1 = Some (tt, d2)" "newest_frames (pkt_buf (m_Pkt d1)) (display_ctrl (m_Pkt d1)) tt" by auto
  with d1 show ?case by simp
qed simp

text \<open>
  C6. Starting from the blank frame, whatever frames are sent, also while a read waits, and however often they are
  read and the statistics are switched: every read returns; one that succeeds gives the newest frame sent before it;
  a display control goes out with the first read after it, or is replaced by a newer one, and never goes out twice.
\<close>

theorem demux_newest:
  fixes es :: "'c dm_ev list"
  assumes "4 \<le> length blank" "\<forall>e\<in>set es. dm_ok e"
  shows "\<exists>t d'. dm_run frame_mcs es (setRenderFpsEncFlag render (setMinFpsEnc n (video_demux w h format (Some (Some blank))))) = Some (t, d')
    \<and> newest_frames (Some (Some blank)) None t"
proof -
  let ?d = "setRenderFpsEncFlag render (setMinFpsEnc n (video_demux w h format (Some (Some blank)))) :: 'c demux"
  have "timers_ok ?d" "m_Pkt ?d = \<lparr>pkt_buf = Some (Some blank), pkt_pts = None, display_ctrl = None\<rparr>"
    by (simp_all add: video_demux_def timers_ok_def setRenderFpsEncFlag_def setMinFpsEnc_def)
  moreover from this(2) have "good_packet (m_Pkt ?d)" using assms(1) by (simp add: good_packet_def)
  ultimately show ?thesis using dm_run_ok [of ?d es frame_mcs] assms(2) by auto
qed

definition sample :: "bytes \<Rightarrow> nat option \<Rightarrow> nat irr_packet" where
  "sample b c = \<lparr>pkt_buf = Some (Some b), pkt_pts = None, display_ctrl = c\<rparr>"

lemma demux_newest_witness:
  "\<exists>t d'. dm_run 100 [Send 5 (sample [1, 2, 3, 4] (Some 8)), Read 6 [(7, sample [5, 6, 7, 8] None)] 0 (9, 9, 200) True, Read 210 [] 0 (9, 9, 300) False]
      (setRenderFpsEncFlag False (setMinFpsEnc 0 (video_demux 1 1 0 (Some (Some [0, 0, 0, 0]))))) = Some (t, d') \<and>
    newest_frames (Some (Some [0, 0, 0, 0])) None t"
  by (rule demux_newest) (simp_all add: sample_def good_packet_def)

text \<open>The times of the frames read are \<open>gap\<close> apart, the last one before them being \<open>prev\<close>.\<close>

fun spaced :: "int \<Rightarrow> int \<Rightarrow> 'c dm_item list \<Rightarrow> bool" where
  "spaced gap prev [] \<longleftrightarrow> True"
| "spaced gap prev (Sent_in p # t) \<longleftrightarrow> spaced gap prev t"
| "spaced gap prev (Got r # t) \<longleftrightarrow> prev + gap \<le> rd_pts r \<and> spaced gap (rd_pts r) t"

text \<open>A sleep takes at least as long as it was asked to.\<close>

fun slept :: "int \<Rightarrow> 'c dm_ev list \<Rightarrow> 'c demux \<Rightarrow> bool" where
  "slept frame_mcs [] d \<longleftrightarrow> True"
| "slept frame_mcs (e # es) d \<longleftrightarrow>
     (case e of Read t0 during ref ts writing \<Rightarrow> t0 + wait_mcs frame_mcs t0 d \<le> snd (snd ts) | _ \<Rightarrow> True) \<and>
     (case dm_step frame_mcs e d of None \<Rightarrow> True | Some (_, d') \<Rightarrow> slept frame_mcs es d')"

lemma spaced_sent: "spaced gap prev (map (Sent_in \<circ> snd) ps @ t) = spaced gap prev t"
  by (induction ps) simp_all

lemma dm_run_spaced:
  assumes "timers_ok d" "good_packet (m_Pkt d)" "\<not> m_bRenderFpsEnc d" "\<forall>e\<in>set es. dm_ok e" "slept frame_mcs es d"
    "dm_run frame_mcs es d = Some (t, d')"
  shows "spaced frame_mcs (m_nPrevPts d) t"
  using assms
proof (induction es arbitrary: d t)
  case (Cons e es)
  have "dm_ok e" using Cons.prems(4) by simp
  from dm_step_ok [OF Cons.prems(1,2) this, of frame_mcs] obtain ta d1 where
    d1: "dm_step frame_mcs e d = Some (ta, d1)" "timers_ok d1" "good_packet (m_Pkt d1)" "\<not> m_bRenderFpsEnc d1"
    using Cons.prems(3) by auto
  then obtain tb where tb: "dm_run frame_mcs es d1 = Some (tb, d')" "t = ta @ tb"
    using Cons.prems(6) by (auto split: bind_splits)
  have sl: "slept frame_mcs es d1" using Cons.prems(5) d1(1) by simp
  have IH: "spaced frame_mcs (m_nPrevPts d1) tb" using Cons.IH [OF d1(2-4) _ sl tb(1)] Cons.prems(4) by simp
  show ?case
  proof (cases e)
    case (Send now p)
    with sendPacket_ok [OF Cons.prems(1), of p now] Cons.prems(4) d1(1) IH tb(2) show ?thesis by auto
  next
    case (Read t0 during ref ts writing)
    obtain a b c where ts: "ts = (a, b, c)" by (cases ts) auto
    obtain r where r: "ta = (if waits frame_mcs t0 d then map (Sent_in \<circ> snd) during else []) @ [Got r]"
      "m_nPrevPts d1 = c" "rd_pts r = c"
      using readPacket_ok [OF Cons.prems(1,2), of t0 during ref a b c writing frame_mcs] Read ts Cons.prems(4) d1(1) by auto
    have "t0 + max (frame_mcs - (t0 - m_nPrevPts d)) 0 \<le> c"
      using Cons.prems(3,5) Read ts by (simp add: wait_mcs_def)
    then show ?thesis using r IH tb(2) by (simp add: spaced_sent)
  next
    case (Latency now n)
    with d1(1) IH tb(2) show ?thesis by (auto simp: latency_ok)
  qed
qed simp

text \<open>
  With a fixed rate, as long as a sleep takes as long as it was asked to, two frames read are never closer in time
  than the length of a frame, whatever is sent meanwhile: the encoder never runs above the rate set.
\<close>

theorem demux_paced:
  fixes es :: "'c dm_ev list"
  assumes "4 \<le> length blank" "\<forall>e\<in>set es. dm_ok e" "slept frame_mcs es (setRenderFpsEncFlag False (video_demux w h format (Some (Some blank))))"
  shows "\<exists>t d'. dm_run frame_mcs es (setRenderFpsEncFlag False (video_demux w h format (Some (Some blank)))) = Some (t, d') \<and>
    spaced frame_mcs 0 t"
proof -
  let ?d = "setRenderFpsEncFlag False (video_demux w h format (Some (Some blank))) :: 'c demux"
  have d: "timers_ok ?d" "good_packet (m_Pkt ?d)" "\<not> m_bRenderFpsEnc ?d" "m_nPrevPts ?d = 0"
    using assms(1) by (simp_all add: video_demux_def timers_ok_def setRenderFpsEncFlag_def good_packet_def)
  obtain t d' where "dm_run frame_mcs es ?d = Some (t, d')" using dm_run_ok [OF d(1,2) assms(2)] by blast
  with dm_run_spaced [OF d(1-3) assms(2,3) this] d(4) show ?thesis by auto
qed

lemma demux_paced_witness:
  "\<exists>t d'. dm_run 100 [Read 150 [(7, sample [5, 6, 7, 8] None)] 0 (9, 9, 200) True, Send 210 (sample [1, 2, 3, 4] None), Read 220 [] 0 (9, 9, 301) False]
      (setRenderFpsEncFlag False (video_demux 1 1 0 (Some (Some [0, 0, 0, 0])))) = Some (t, d') \<and> spaced 100 0 t"
  by (rule demux_paced) (simp_all add: sample_def good_packet_def video_demux_def setRenderFpsEncFlag_def wait_mcs_def waits_def
    readPacket_def take_packet_def count_wait_def Let_def input_datum_def sendPacket_def new_data_def)

end
