(* ===== verification/CNumber.thy ===== *)
theory CNumber
  imports CString Complex_Main
begin

text \<open>
  Numbers read from text by the option checks of the encoder: \<open>atoi\<close> is \<open>strtol\<close> with
  base 10 cut down to \<open>int\<close>, \<open>atof\<close> reads a decimal number into a \<open>double\<close>. A
  \<open>double\<close> is the rational number it stands for and \<open>dbl\<close> rounds a rational to the nearest one
  (53 bits, ties to even, spacing never below \<open>2 ^ -1074\<close>). Infinity is not modelled: a number too
  large for a \<open>double\<close> stays itself, and is too large for the \<open>int\<close> it is converted to in either case;
  a number divided by it rounds to 0 in either case. Hexadecimal numbers, \<open>inf\<close> and \<open>nan\<close> do not occur:
  the sources use \<open>atof\<close> only on texts for which \<open>atoi\<close> is positive.
\<close>

section \<open>Integers\<close>

definition strtol10 :: "string \<Rightarrow> int" where
  "strtol10 s =
     (let (neg, u) = strtol_sign (dropWhile isspace s);
          n = fst (digits_run 10 0 u);
          x = (if neg then - int n else int n)
      in if x > LONG_MAX then LONG_MAX else if x < LONG_MIN then LONG_MIN else x)"

definition atoi :: "string \<Rightarrow> int" where
  "atoi s = to_int32 (strtol10 s)"

section \<open>Doubles\<close>

fun bitlen :: "nat \<Rightarrow> nat" where
  "bitlen n = (if n = 0 then 0 else Suc (bitlen (n div 2)))"

declare bitlen.simps [simp del]

definition pow2 :: "int \<Rightarrow> rat" where
  "pow2 e = (if 0 \<le> e then 2 ^ nat e else 1 / 2 ^ nat (- e))"

text \<open>The exponent of a positive number: the largest \<open>e\<close> with \<open>pow2 e \<le> r\<close>.\<close>

definition ilog2 :: "rat \<Rightarrow> int" where
  "ilog2 r =
     (let (a, b) = quotient_of r;
          e = int (bitlen (nat a)) - int (bitlen (nat b))
      in if pow2 e \<le> r then e else e - 1)"

definition round_even :: "rat \<Rightarrow> int" where
  "round_even r =
     (let f = \<lfloor>r\<rfloor>; d = r - of_int f
      in if d < 1 / 2 \<or> d = 1 / 2 \<and> even f then f else f + 1)"

text \<open>Rounding to \<open>p + 1\<close> bits with a spacing of at least \<open>2 ^ e\<close>; \<open>flt\<close> is the same for \<open>float\<close>.\<close>

definition fround :: "int \<Rightarrow> int \<Rightarrow> rat \<Rightarrow> rat" where
  "fround p e r = (if r = 0 then 0
     else let q = pow2 (max (ilog2 \<bar>r\<bar> - p) e) in of_int (round_even (r / q)) * q)"

definition dbl :: "rat \<Rightarrow> rat" where
  "dbl = fround 52 (- 1074)"

definition flt :: "rat \<Rightarrow> rat" where
  "flt = fround 23 (- 149)"

text \<open>The conversion to \<open>int\<close> cuts off the fraction; \<open>None\<close> is a value that does not fit.\<close>

definition int_of_dbl :: "rat \<Rightarrow> int option" where
  "int_of_dbl r = chk32 (if 0 \<le> r then \<lfloor>r\<rfloor> else - \<lfloor>- r\<rfloor>)"

definition atof_fraction :: "nat \<Rightarrow> string \<Rightarrow> nat \<times> int \<times> string" where
  "atof_fraction n s =
     (case s of
        [] \<Rightarrow> (n, 0, s)
      | c # t \<Rightarrow> if c = CHR ''.'' then let (m, r) = digits_run 10 n t in (m, int (length t) - int (length r), r)
                else (n, 0, s))"

definition atof_exponent :: "string \<Rightarrow> int" where
  "atof_exponent s =
     (case s of
        [] \<Rightarrow> 0
      | c # t \<Rightarrow> if c = CHR ''e'' \<or> c = CHR ''E''
                then let (neg, u) = strtol_sign t; n = fst (digits_run 10 0 u) in if neg then - int n else int n
                else 0)"

definition pow10 :: "int \<Rightarrow> rat" where
  "pow10 e = (if 0 \<le> e then 10 ^ nat e else 1 / 10 ^ nat (- e))"

definition atof :: "string \<Rightarrow> rat" where
  "atof s =
     (let (neg, u) = strtol_sign (dropWhile isspace s);
          (n, r) = digits_run 10 0 u;
          (m, k, r') = atof_fraction n r;
          v = dbl (of_nat m * pow10 (atof_exponent r' - k))
      in if neg then - v else v)"

section \<open>Whole numbers are exact\<close>

lemma bitlen_bounds: "0 < n \<Longrightarrow> 2 ^ (bitlen n - 1) \<le> n \<and> n < 2 ^ bitlen n"
proof (induction n rule: bitlen.induct)
  case (1 n)
  show ?case
  proof (cases "n div 2 = 0")
    case True
    with "1.prems" have "n = 1" by auto
    then show ?thesis by (simp add: bitlen.simps)
  next
    case False
    with 1 have "2 ^ (bitlen (n div 2) - 1) \<le> n div 2" "n div 2 < 2 ^ bitlen (n div 2)" by auto
    moreover have "0 < bitlen (n div 2)" using False by (simp add: bitlen.simps)
    then obtain k where "bitlen (n div 2) = Suc k" by (cases "bitlen (n div 2)") auto
    ultimately show ?thesis using "1.prems" by (auto simp: bitlen.simps [of n])
  qed
qed

lemma ilog2_of_nat: "0 < n \<Longrightarrow> ilog2 (of_nat n) = int (bitlen n) - 1"
proof -
  assume n: "0 < n"
  have q: "quotient_of (of_nat n) = (int n, 1)" 
    using of_int_rat [of "int n"] by (simp add: quotient_of_Fract normalize_def)
  have b: "bitlen 1 = 1" by (simp add: bitlen.simps)
  have pos: "0 < bitlen n" using n by (simp add: bitlen.simps)
  have "pow2 (int (bitlen n) - 1) = of_nat (2 ^ (bitlen n - 1))"
    using pos by (simp add: pow2_def nat_diff_distrib)
  also have "\<dots> \<le> of_nat n" using bitlen_bounds [OF n] of_nat_le_iff by blast
  finally show ?thesis using b by (simp add: ilog2_def q)
qed

lemma round_even_of_int [simp]: "round_even (of_int z) = z"
  by (simp add: round_even_def)

lemma fround_of_nat:
  assumes "n < 2 ^ (k + 1)" "e \<le> 0"
  shows "fround (int k) e (of_nat n) = of_nat n"
proof (cases "n = 0")
  case False
  then have n: "0 < n" by simp
  have "(2::nat) ^ (bitlen n - 1) < 2 ^ (k + 1)" using bitlen_bounds [OF n] assms(1) by linarith
  then have "bitlen n - 1 < k + 1" by (metis one_less_numeral_iff power_less_imp_less_exp semiring_norm(76))
  then have e: "ilog2 (of_nat n) - int k \<le> 0" using ilog2_of_nat [OF n] by simp
  define m where "m = nat (- max (ilog2 (of_nat n) - int k) e)"
  have q: "pow2 (max (ilog2 (of_nat n) - int k) e) = 1 / 2 ^ m"
    using e assms(2) by (auto simp: pow2_def m_def)
  have "of_nat n / (1 / 2 ^ m) = (of_int (int n * 2 ^ m) :: rat)" by simp
  then have "round_even (of_nat n / (1 / 2 ^ m)) = int n * 2 ^ m" by (metis round_even_of_int)
  then show ?thesis using n q by (simp add: fround_def Let_def)
qed (simp add: fround_def)

lemma dbl_of_nat: "n < 2 ^ 53 \<Longrightarrow> dbl (of_nat n) = of_nat n"
  using fround_of_nat [of n 52 "- 1074"] by (simp add: dbl_def)

lemma flt_of_nat: "n < 2 ^ 24 \<Longrightarrow> flt (of_nat n) = of_nat n"
  using fround_of_nat [of n 23 "- 149"] by (simp add: flt_def)

lemma round_even_nonneg: "0 \<le> r \<Longrightarrow> 0 \<le> round_even r"
  by (simp add: round_even_def Let_def)

lemma fround_0 [simp]: "fround p e 0 = 0"
  by (simp add: fround_def)

lemma digits_run_unit: "digits_run 10 n ''M'' = (n, ''M'')" "digits_run 10 n ''K'' = (n, ''K'')"
proof -
  have "digit_val CHR ''M'' = Some 22" "digit_val CHR ''K'' = Some 20" by code_simp+
  then show "digits_run 10 n ''M'' = (n, ''M'')" "digits_run 10 n ''K'' = (n, ''K'')" by simp_all
qed

lemma atof_dec_of_nat: "n < 2 ^ 53 \<Longrightarrow> atof (dec_of_nat n) = of_nat n"
proof -
  assume "n < 2 ^ 53"
  moreover have "dropWhile isspace (dec_of_nat n) = dec_of_nat n"
    using dropWhile_space_dec [of n "[]"] by simp
  ultimately show ?thesis
    by (simp add: atof_def strtol_sign_dec digits_run_dec atof_fraction_def atof_exponent_def pow10_def dbl_of_nat)
qed

lemma atof_dec_unit:
  assumes "n < 2 ^ 53" and "t = ''M'' \<or> t = ''K''"
  shows "atof (dec_of_nat n @ t) = of_nat n"
proof -
  have stop: "digits_run 10 n t = (n, t)" using assms(2) digits_run_unit by auto
  have "atof_fraction n t = (n, 0, t)" "atof_exponent t = 0"
    using assms(2) by (auto simp: atof_fraction_def atof_exponent_def)
  with assms(1) show ?thesis
    by (simp add: atof_def dropWhile_space_dec strtol_sign_dec_append digits_run_append [OF digits_run_dec] stop
        pow10_def dbl_of_nat)
qed

lemma atoi_dec_unit:
  assumes "int n \<le> INT_MAX" and "t = [] \<or> t = ''M'' \<or> t = ''K''"
  shows "atoi (dec_of_nat n @ t) = int n"
proof -
  have "digits_run 10 n t = (n, t)" using assms(2) digits_run_unit by auto
  then have "strtol10 (dec_of_nat n @ t) = int n" using assms(1)
    by (simp add: strtol10_def dropWhile_space_dec strtol_sign_dec_append digits_run_append [OF digits_run_dec]
        LONG_MAX_def LONG_MIN_def INT_MAX_def)
  with assms(1) show ?thesis by (simp add: atoi_def to_int32_id INT_MIN_def)
qed

lemma int_of_dbl_of_nat: "int n \<le> INT_MAX \<Longrightarrow> int_of_dbl (of_nat n) = Some (int n)"
  by (simp add: int_of_dbl_def chk32_def INT_MIN_def)

lemma atoi_range: "INT_MIN \<le> atoi s \<and> atoi s \<le> INT_MAX"
  by (simp add: atoi_def to_int32_range)

end
