(* ===== verification/EncodeOptions.thy ===== *)
theory EncodeOptions
  imports CNumber Streamer
begin

text \<open>
  The check of the encoder's options, \<open>irr_check_options\<close> of \<open>sources/encoder/shared/encoder.cpp\<close> with the checks
  it calls, the structures of \<open>shared/api/irrv.h\<close> and the tables of \<open>shared/ProfileLevel.h\<close>, for the
  build without \<open>FFMPEG_v42\<close>. A \<open>const char *\<close> is a \<open>string option\<close>, \<open>None\<close> the null pointer.
  A check returns its result together with the options as it leaves them; \<open>None\<close> around both is behaviour the
  language leaves undefined: the conversion of a rate that does not fit an \<open>int\<close>, or the last character of an empty
  text.
\<close>

section \<open>Options\<close>

record rate_control_info_t =
  bitrate :: "string option"
  qfactor :: "string option"
  qp :: "string option"
  maxrate :: "string option"
  ratectrl :: "string option"
  bufsize :: "string option"
  qmaxI :: int
  qminI :: int
  qmaxP :: int
  qminP :: int

record irr_ref_info_t =
  int_ref_type :: "string option"
  int_ref_cycle_size :: int
  int_ref_qp_delta :: int

record irr_roi_info_t =
  roi_enabled :: bool
  roi_x :: int
  roi_y :: int
  roi_width :: int
  roi_height :: int
  roi_value :: int

datatype encode_type_t = DATA_BUFFER | VASURFACE_ID | QSVSURFACE_ID

record encoder_info_t =
  nPixfmt :: int
  gop_size :: int
  codec :: "string option"
  format :: "string option"
  url :: "string option"
  low_power :: int
  width :: int
  height :: int
  framerate :: "string option"
  exp_vid_param :: "string option"
  streaming :: bool
  encodeType :: encode_type_t
  encoderInstanceID :: int
  rate_contrl_param :: rate_control_info_t
  quality :: int
  max_frame_size :: int
  ref_info :: irr_ref_info_t
  roi_info :: irr_roi_info_t
  slices :: int
  sei :: int
  finput :: "string option"
  vframe :: int
  foutput :: "string option"
  loglevel :: "string option"
  latency_opt :: int
  auth :: bool
  renderfps_enc :: int
  minfps_enc :: int
  profile :: "string option"
  level :: "string option"
  filter_nbthreads :: int
  low_delay_brc :: bool
  skip_frame :: bool
  hwc_sock :: "string option"
  plugin :: "string option"
  tcaeEnabled :: bool
  tcaeLogPath :: "string option"
  user_id :: int

definition QP_MAX_VALUE :: int where "QP_MAX_VALUE = 51"

definition QP_DELTA_MAX_VALUE :: int where "QP_DELTA_MAX_VALUE = QP_MAX_VALUE"

definition QP_DELTA_MIN_VALUE :: int where "QP_DELTA_MIN_VALUE = - QP_MAX_VALUE"

section \<open>Tables\<close>

record irr_rate_ctrl_options_info_t =
  need_qp :: bool
  need_qfactor :: bool
  need_bitrate :: bool
  need_maxbitrate :: bool

definition irr_rate_ctrl_type_map :: "(string \<times> irr_rate_ctrl_options_info_t) list" where
  "irr_rate_ctrl_type_map =
     [(''CQP'', \<lparr>need_qp = True, need_qfactor = False, need_bitrate = False, need_maxbitrate = False\<rparr>),
      (''CBR'', \<lparr>need_qp = False, need_qfactor = False, need_bitrate = True, need_maxbitrate = True\<rparr>),
      (''VBR'', \<lparr>need_qp = False, need_qfactor = False, need_bitrate = True, need_maxbitrate = True\<rparr>),
      (''QVBR'', \<lparr>need_qp = False, need_qfactor = True, need_bitrate = True, need_maxbitrate = True\<rparr>)]"

text \<open>The map is searched with a comparison that ignores the case of letters.\<close>

definition rate_ctrl_find :: "string \<Rightarrow> irr_rate_ctrl_options_info_t option" where
  "rate_ctrl_find s = map_option snd (find (\<lambda>e. strcaseeq (fst e) s) irr_rate_ctrl_type_map)"

definition valid_url :: "string list" where
  "valid_url = [''irrv:264'', ''irrv:265'', ''irrv:av1'', ''local:264'', ''local:265'', ''local:av1'']"

definition DEFAULT_URL :: string where "DEFAULT_URL = ''irrv:264''"

definition valid_plugin :: "string list" where
  "valid_plugin = [''vaapi'', ''qsv'']"

definition DEFAULT_PLUGIN :: string where "DEFAULT_PLUGIN = ''vaapi''"

text \<open>The numbers of the profiles are FFmpeg's; here they are names.\<close>

datatype ff_profile =
    FF_PROFILE_H264_HIGH | FF_PROFILE_H264_MAIN | FF_PROFILE_H264_CONSTRAINED_BASELINE
  | FF_PROFILE_HEVC_MAIN | FF_PROFILE_HEVC_MAIN_10 | FF_PROFILE_HEVC_REXT
  | FF_PROFILE_AV1_MAIN | FF_PROFILE_AV1_HIGH | FF_PROFILE_AV1_PROFESSIONAL
  | FF_PROFILE_MJPEG_HUFFMAN_BASELINE_DCT

definition vaapi_encode_h264_profiles :: "(string \<times> ff_profile) list" where
  "vaapi_encode_h264_profiles =
     [(''high'', FF_PROFILE_H264_HIGH), (''main'', FF_PROFILE_H264_MAIN),
      (''constrained_baseline'', FF_PROFILE_H264_CONSTRAINED_BASELINE), (''default'', FF_PROFILE_H264_HIGH)]"

definition vaapi_encode_h265_profiles :: "(string \<times> ff_profile) list" where
  "vaapi_encode_h265_profiles =
     [(''main'', FF_PROFILE_HEVC_MAIN), (''main10'', FF_PROFILE_HEVC_MAIN_10), (''rext'', FF_PROFILE_HEVC_REXT),
      (''default'', FF_PROFILE_HEVC_MAIN)]"

definition vaapi_encode_mjpeg_profiles :: "(string \<times> ff_profile) list" where
  "vaapi_encode_mjpeg_profiles =
     [(''baseline'', FF_PROFILE_MJPEG_HUFFMAN_BASELINE_DCT), (''default'', FF_PROFILE_MJPEG_HUFFMAN_BASELINE_DCT)]"

definition vaapi_encode_av1_profiles :: "(string \<times> ff_profile) list" where
  "vaapi_encode_av1_profiles =
     [(''main'', FF_PROFILE_AV1_MAIN), (''high'', FF_PROFILE_AV1_HIGH), (''professional'', FF_PROFILE_AV1_PROFESSIONAL),
      (''default'', FF_PROFILE_AV1_MAIN)]"

definition vaapi_encode_h264_levels :: "(string \<times> int) list" where
  "vaapi_encode_h264_levels =
     [(''1'', 10), (''1.1'', 11), (''1.2'', 12), (''1.3'', 13), (''2'', 20), (''2.1'', 21), (''2.2'', 22),
      (''3'', 30), (''3.1'', 31), (''3.2'', 32), (''4'', 40), (''4.1'', 41), (''4.2'', 42), (''5'', 50),
      (''5.1'', 51), (''5.2'', 52), (''6'', 60), (''6.1'', 61), (''6.2'', 62), (''default'', 42)]"

definition vaapi_encode_h265_levels :: "(string \<times> int) list" where
  "vaapi_encode_h265_levels =
     [(''1'', 30), (''2'', 60), (''2.1'', 63), (''3'', 90), (''3.1'', 93), (''4'', 120), (''4.1'', 123),
      (''5'', 150), (''5.1'', 153), (''5.2'', 156), (''6'', 180), (''6.1'', 183), (''6.2'', 186),
      (''default'', 120)]"

definition vaapi_encode_av1_levels :: "(string \<times> int) list" where
  "vaapi_encode_av1_levels =
     [(''2'', 20), (''2.1'', 21), (''2.2'', 22), (''2.3'', 23), (''3'', 30), (''3.1'', 31), (''3.2'', 32),
      (''3.3'', 33), (''4'', 40), (''4.1'', 41), (''4.2'', 42), (''4.3'', 43), (''5'', 50), (''5.1'', 51),
      (''5.2'', 52), (''5.3'', 53), (''6'', 60), (''6.1'', 61), (''6.2'', 62), (''6.3'', 63), (''7 '', 70),
      (''7.1'', 71), (''7.2'', 72), (''7.3'', 73), (''default'', 40)]"

section \<open>Rates\<close>

definition convert_bitrate :: "string option \<Rightarrow> int option" where
  "convert_bitrate b =
     (case b of
        None \<Rightarrow> Some 0
      | Some s \<Rightarrow>
          if s = [] then None
          else let d_bitrate = atof s; c = last s
               in int_of_dbl (if c = CHR ''M'' then dbl (d_bitrate * 1000000)
                              else if c = CHR ''K'' then dbl (d_bitrate * 1000)
                              else d_bitrate))"

section \<open>Profile and level\<close>

text \<open>The text behind the first colon; without one, \<open>find\<close> yields \<open>npos\<close> and the whole text is taken.\<close>

definition encode_type_of :: "string \<Rightarrow> string" where
  "encode_type_of u = (case strchr u (CHR '':'') of None \<Rightarrow> u | Some t \<Rightarrow> drop 1 t)"

text \<open>
  An encode type none of the three knows leaves the pointer to the table null: \<open>None\<close>. So does a null \<open>url\<close>,
  from which a \<open>std::string\<close> cannot be made.
\<close>

definition encode_profiles :: "string \<Rightarrow> (string \<times> ff_profile) list option" where
  "encode_profiles t =
     (if t = ''264'' then Some vaapi_encode_h264_profiles
      else if t = ''265'' then Some vaapi_encode_h265_profiles
      else if t = ''av1'' then Some vaapi_encode_av1_profiles
      else None)"

definition encode_levels :: "string \<Rightarrow> (string \<times> int) list option" where
  "encode_levels t =
     (if t = ''264'' then Some vaapi_encode_h264_levels
      else if t = ''265'' then Some vaapi_encode_h265_levels
      else if t = ''av1'' then Some vaapi_encode_av1_levels
      else None)"

definition irr_check_encode_profile :: "encoder_info_t \<Rightarrow> int option" where
  "irr_check_encode_profile i =
     (case profile i of
        None \<Rightarrow> Some 0
      | Some p \<Rightarrow> do {
          u \<leftarrow> url i;
          profiles \<leftarrow> encode_profiles (encode_type_of u);
          Some (if map_of profiles p = None then - EINVAL else 0) })"

definition irr_check_encode_level :: "encoder_info_t \<Rightarrow> int option" where
  "irr_check_encode_level i =
     (case level i of
        None \<Rightarrow> Some 0
      | Some l \<Rightarrow> do {
          u \<leftarrow> url i;
          levels \<leftarrow> encode_levels (encode_type_of u);
          Some (if map_of levels l = None then - EINVAL else 0) })"

section \<open>Rate control\<close>

text \<open>The stages work on a copy of the parameters; here \<open>None\<close> is a refusal with \<open>EINVAL\<close>.\<close>

definition rate_qp :: "irr_rate_ctrl_options_info_t \<Rightarrow> rate_control_info_t \<Rightarrow> rate_control_info_t option" where
  "rate_qp opts p =
     (if need_qp opts
      then case qp p of None \<Rightarrow> None
           | Some s \<Rightarrow> if atoi s \<le> 0 \<or> atoi s > QP_MAX_VALUE then None else Some p
      else Some (p\<lparr>qp := None\<rparr>))"

definition rate_qfactor :: "irr_rate_ctrl_options_info_t \<Rightarrow> rate_control_info_t \<Rightarrow> rate_control_info_t option" where
  "rate_qfactor opts p =
     (if need_qfactor opts
      then case qfactor p of None \<Rightarrow> None | Some s \<Rightarrow> if atoi s \<le> 0 then None else Some p
      else Some (p\<lparr>qfactor := None\<rparr>))"

definition clip_qmax :: "int \<Rightarrow> int" where
  "clip_qmax q = (let q' = (if q > QP_MAX_VALUE then QP_MAX_VALUE else q) in if q' > 0 then q' else 0)"

definition clip_qmin :: "int \<Rightarrow> int" where
  "clip_qmin q = (if q > 0 \<and> q \<le> QP_MAX_VALUE then q else 0)"

definition rate_bitrate :: "irr_rate_ctrl_options_info_t \<Rightarrow> rate_control_info_t \<Rightarrow> rate_control_info_t option" where
  "rate_bitrate opts p =
     (if need_bitrate opts
      then case bitrate p of None \<Rightarrow> None
           | Some b \<Rightarrow>
               if atoi b \<le> 0 then None
               else Some (p\<lparr>bufsize := (case bufsize p of None \<Rightarrow> None | Some z \<Rightarrow> if atoi z \<le> 0 then None else Some z),
                            qmaxI := clip_qmax (qmaxI p), qminI := clip_qmin (qminI p),
                            qmaxP := clip_qmax (qmaxP p), qminP := clip_qmin (qminP p)\<rparr>)
      else Some (p\<lparr>qmaxI := 0, qminI := 0, qmaxP := 0, qminP := 0, bufsize := None, bitrate := None\<rparr>))"

definition rate_maxrate :: "irr_rate_ctrl_options_info_t \<Rightarrow> rate_control_info_t \<Rightarrow> rate_control_info_t option" where
  "rate_maxrate opts p =
     (if need_maxbitrate opts
      then case maxrate p of None \<Rightarrow> None | Some m \<Rightarrow> if atoi m \<le> 0 then None else Some p
      else Some (p\<lparr>maxrate := None\<rparr>))"

definition rate_compare :: "string \<Rightarrow> rate_control_info_t \<Rightarrow> bool option" where
  "rate_compare mode p =
     (if maxrate p \<noteq> None \<and> bitrate p \<noteq> None
      then do {
        b \<leftarrow> convert_bitrate (bitrate p);
        m \<leftarrow> convert_bitrate (maxrate p);
        Some (if strcaseeq mode ''CBR'' \<and> b \<noteq> m then False
              else if (strcaseeq mode ''VBR'' \<or> strcaseeq mode ''QVBR'') \<and> b > m then False
              else True) }
      else Some True)"

definition rate_stages :: "irr_rate_ctrl_options_info_t \<Rightarrow> rate_control_info_t \<Rightarrow> rate_control_info_t option" where
  "rate_stages opts p = do { p \<leftarrow> rate_qp opts p; p \<leftarrow> rate_qfactor opts p; p \<leftarrow> rate_bitrate opts p; rate_maxrate opts p }"

definition irr_check_rate_ctrl_options :: "encoder_info_t \<Rightarrow> (int \<times> encoder_info_t) option" where
  "irr_check_rate_ctrl_options i =
     (case ratectrl (rate_contrl_param i) of
        None \<Rightarrow> Some (- EINVAL, i)
      | Some mode \<Rightarrow>
          (case rate_ctrl_find mode of
             None \<Rightarrow> Some (- EINVAL, i)
           | Some opts \<Rightarrow>
               (case rate_stages opts (rate_contrl_param i) of
                  None \<Rightarrow> Some (- EINVAL, i)
                | Some p \<Rightarrow> do {
                    ok \<leftarrow> rate_compare mode p;
                    Some (if ok then (0, i\<lparr>rate_contrl_param := p\<rparr>) else (- EINVAL, i)) })))"

section \<open>Intra refresh and region of interest\<close>

definition irr_check_rir_options :: "encoder_info_t \<Rightarrow> int" where
  "irr_check_rir_options i =
     (case int_ref_type (ref_info i) of
        None \<Rightarrow> 0
      | Some t \<Rightarrow>
          if t = ''vertical'' \<or> t = ''horizontal''
          then if int_ref_cycle_size (ref_info i) \<le> 0 then - EINVAL
               else if int_ref_qp_delta (ref_info i) < QP_DELTA_MIN_VALUE
                       \<or> int_ref_qp_delta (ref_info i) > QP_DELTA_MAX_VALUE then - EINVAL
               else 0
          else - EINVAL)"

definition irr_check_roi_options :: "encoder_info_t \<Rightarrow> int" where
  "irr_check_roi_options i =
     (let r = roi_info i in
      if roi_x r < 0 \<or> roi_y r < 0 \<or> roi_width r \<le> 0 \<or> roi_height r \<le> 0 then - EINVAL
      else if roi_value r < -51 \<or> roi_value r > 51 then - EINVAL
      else if roi_x r + roi_width r > width i \<or> roi_y r + roi_height r > height i then - EINVAL
      else 0)"

section \<open>The whole check\<close>

definition check_url :: "encoder_info_t \<Rightarrow> encoder_info_t" where
  "check_url i = (case url i of
       None \<Rightarrow> i\<lparr>url := Some DEFAULT_URL\<rparr>
     | Some u \<Rightarrow> if u \<in> set valid_url then i else i\<lparr>url := Some DEFAULT_URL\<rparr>)"

definition check_profile :: "encoder_info_t \<Rightarrow> encoder_info_t option" where
  "check_profile i =
     (if profile i \<noteq> None
      then do { ret \<leftarrow> irr_check_encode_profile i; Some (if ret < 0 then i\<lparr>profile := Some ''default''\<rparr> else i) }
      else Some i)"

definition check_level :: "encoder_info_t \<Rightarrow> encoder_info_t option" where
  "check_level i =
     (if level i \<noteq> None
      then do { ret \<leftarrow> irr_check_encode_level i; Some (if ret < 0 then i\<lparr>level := Some ''default''\<rparr> else i) }
      else Some i)"

definition check_roi :: "encoder_info_t \<Rightarrow> encoder_info_t" where
  "check_roi i =
     (if roi_enabled (roi_info i) \<and> irr_check_roi_options i < 0
      then i\<lparr>roi_info := (roi_info i)\<lparr>roi_enabled := False\<rparr>\<rparr> else i)"

definition check_framerate :: "encoder_info_t \<Rightarrow> encoder_info_t" where
  "check_framerate i = (case framerate i of
       None \<Rightarrow> i\<lparr>framerate := Some ''30''\<rparr>
     | Some f \<Rightarrow> if atoi f \<le> 0 then i\<lparr>framerate := Some ''30''\<rparr> else i)"

definition average_frame_size :: "encoder_info_t \<Rightarrow> string \<Rightarrow> int option" where
  "average_frame_size i f = do {
     b \<leftarrow> convert_bitrate (bitrate (rate_contrl_param i));
     m \<leftarrow> convert_bitrate (maxrate (rate_contrl_param i));
     int_of_dbl (dbl (dbl (of_int (max b m) / atof f) / 8)) }"

definition check_max_frame_size :: "encoder_info_t \<Rightarrow> encoder_info_t option" where
  "check_max_frame_size i =
     (let i = (if max_frame_size i < 0 then i\<lparr>max_frame_size := 0\<rparr> else i)
      in if bitrate (rate_contrl_param i) = None then Some (i\<lparr>max_frame_size := 0\<rparr>)
         else case framerate i of
                None \<Rightarrow> None
              | Some f \<Rightarrow>
                  if max_frame_size i > 0 \<and> atof f > 0
                  then do { a \<leftarrow> average_frame_size i f; Some (if max_frame_size i < a then i\<lparr>max_frame_size := a\<rparr> else i) }
                  else Some i)"

definition check_numbers :: "encoder_info_t \<Rightarrow> encoder_info_t" where
  "check_numbers i =
     (let i = (if gop_size i \<le> 0 then i\<lparr>gop_size := 120\<rparr> else i);
          i = (if slices i < 0 then i\<lparr>slices := 0\<rparr> else i);
          i = (if quality i \<le> 0 \<or> quality i > 7 then i\<lparr>quality := 4\<rparr> else i)
      in if renderfps_enc i \<noteq> 0 \<and> minfps_enc i \<le> 0 then i\<lparr>minfps_enc := 3\<rparr> else i)"

text \<open>\<open>strcasecmp\<close> with a null \<open>ratectrl\<close> would be \<open>None\<close>; the check of the rate control comes first.\<close>

definition check_low_delay :: "encoder_info_t \<Rightarrow> encoder_info_t option" where
  "check_low_delay i =
     (if low_delay_brc i
      then case ratectrl (rate_contrl_param i) of
             None \<Rightarrow> None
           | Some m \<Rightarrow> Some (if \<not> strcaseeq m ''VBR'' \<and> \<not> strcaseeq m ''QVBR'' then i\<lparr>low_delay_brc := False\<rparr> else i)
      else Some i)"

definition check_plugin :: "encoder_info_t \<Rightarrow> encoder_info_t" where
  "check_plugin i = (case plugin i of
       None \<Rightarrow> i\<lparr>plugin := Some DEFAULT_PLUGIN\<rparr>
     | Some p \<Rightarrow> if p \<in> set valid_plugin then i else i\<lparr>plugin := Some DEFAULT_PLUGIN\<rparr>)"

definition check_rest :: "encoder_info_t \<Rightarrow> encoder_info_t option" where
  "check_rest i = do {
     i \<leftarrow> check_profile i;
     i \<leftarrow> check_level i;
     i \<leftarrow> check_max_frame_size (check_framerate (check_roi i));
     i \<leftarrow> check_low_delay (check_numbers i);
     Some (check_plugin i) }"

definition irr_check_options :: "encoder_info_t option \<Rightarrow> (int \<times> encoder_info_t option) option" where
  "irr_check_options encode_info =
     (case encode_info of
        None \<Rightarrow> Some (- EINVAL, None)
      | Some i \<Rightarrow> do {
          (ret, i) \<leftarrow> irr_check_rate_ctrl_options (check_url i);
          if ret < 0 then Some (- EINVAL, Some i)
          else if irr_check_rir_options i < 0 then Some (- EINVAL, Some i)
          else do { i \<leftarrow> check_rest i; Some (0, Some i) } })"

end
