(* ===== verification/EncoderCli.thy ===== *)
theory EncoderCli
  imports EncodeOptions "HOL-Library.Sublist"
begin

text \<open>
  The command line of the encoder server, \<open>sources/encoder/server/cli.cpp\<close>, and \<open>main.cpp\<close> up to the creation of the display server,
  as they are built (\<open>BUILD_FOR_HOST\<close> and \<open>ENABLE_QSV\<close> defined). \<open>getopt_long_only\<close> of the GNU library is
  modelled for this use: an empty list of short options, arguments permuted. What a function prints is left out. \<open>None\<close>
  is behaviour that is not defined, a number that does not fit an \<open>int\<close>.
\<close>

section \<open>Options of the command line\<close>

definition long_options :: "(string \<times> bool \<times> char) list" where
  "long_options =
     [(''streaming'', False, CHR ''a''), (''res'', True, CHR ''b''), (''url'', True, CHR ''c''), (''fr'', True, CHR ''d''),
      (''codec'', True, CHR ''e''), (''b'', True, CHR ''f''), (''lowpower'', False, CHR ''g''), (''buffer'', False, CHR ''h''),
      (''qp'', True, CHR ''i''), (''qfactor'', True, CHR ''j''), (''maxrate'', True, CHR ''k''), (''ratectrl'', True, CHR ''l''),
      (''mfs'', True, CHR ''m''), (''rirtype'', True, CHR ''n''), (''rircyclesize'', True, CHR ''o''), (''rirdeltaqp'', True, CHR ''p''),
      (''slices'', True, CHR ''q''), (''qmaxI'', True, CHR ''r''), (''qminI'', True, CHR ''s''), (''qmaxP'', True, CHR ''t''),
      (''qminP'', True, CHR ''u''), (''quality'', True, CHR ''v''), (''bufsize'', True, CHR ''w''), (''sei'', True, CHR ''x''),
      (''finput'', True, CHR ''y''), (''vframe'', True, CHR ''z''), (''foutput'', True, CHR ''A''), (''loglevel'', True, CHR ''B''),
      (''latency_opt'', True, CHR ''C''), (''g'', True, CHR ''D''), (''auth'', False, CHR ''E''), (''renderfps_enc'', True, CHR ''F''),
      (''minfps_enc'', True, CHR ''G''), (''roi_enabled'', True, CHR ''H''), (''roi_x'', True, CHR ''I''), (''roi_y'', True, CHR ''J''),
      (''roi_w'', True, CHR ''K''), (''roi_h'', True, CHR ''L''), (''roi_value'', True, CHR ''M''), (''profile'', True, CHR ''N''),
      (''level'', True, CHR ''O''), (''filter_threads'', True, CHR ''P''), (''h'', False, CHR ''Q''), (''low_delay_brc'', False, CHR ''R''),
      (''skipframe'', False, CHR ''S''), (''hwc_sock'', True, CHR ''T''), (''plugin'', True, CHR ''U''), (''tcae'', True, CHR ''V''),
      (''user'', True, CHR ''W''), (''tcae_log_path'', True, CHR ''X'')]"

text \<open>A name is taken when it is exact, or else the beginning of one name only.\<close>

definition find_long_option :: "string \<Rightarrow> (string \<times> bool \<times> char) option" where
  "find_long_option name =
     (case List.find (\<lambda>e. fst e = name) long_options of
        Some e \<Rightarrow> Some e
      | None \<Rightarrow> (case filter (\<lambda>e. prefix name (fst e)) long_options of [e] \<Rightarrow> Some e | _ \<Rightarrow> None))"

text \<open>What a call returns: the letter of an option with \<open>optarg\<close>, or a question mark.\<close>

datatype getopt_item = Found char "string option" | Unknown

fun getopt_long_only :: "string list \<Rightarrow> getopt_item list" where
  "getopt_long_only [] = []"
| "getopt_long_only (a # as) =
     (if a = ''--'' then []
      else if \<not> (2 \<le> length a \<and> hd a = CHR ''-'') then getopt_long_only as
      else let t = (if take 2 a = ''--'' then drop 2 a else drop 1 a);
               name = takeWhile (\<lambda>c. c \<noteq> CHR ''='') t;
               val = (if CHR ''='' \<in> set t then Some (drop (length name + 1) t) else None)
           in case find_long_option name of
                None \<Rightarrow> Unknown # getopt_long_only as
              | Some (_, needs, c) \<Rightarrow>
                  if needs
                  then case val of
                         Some v \<Rightarrow> Found c (Some v) # getopt_long_only as
                       | None \<Rightarrow> (case as of [] \<Rightarrow> [Unknown] | v # rest \<Rightarrow> Found c (Some v) # getopt_long_only rest)
                  else case val of
                         Some _ \<Rightarrow> Unknown # getopt_long_only as
                       | None \<Rightarrow> Found c None # getopt_long_only as)"

section \<open>Their effect\<close>

text \<open>\<open>%d\<close> of \<open>sscanf\<close>: the number and the rest, the outer option for one that does not fit.\<close>

definition scan_int :: "string \<Rightarrow> (int \<times> string) option option" where
  "scan_int s =
     (let (neg, u) = strtol_sign (dropWhile isspace s)
      in case u of
           [] \<Rightarrow> Some None
         | c # _ \<Rightarrow> if is_digit 10 c
                    then let (n, r) = digits_run 10 0 u in map_option (\<lambda>v. Some (v, r)) (chk32 (if neg then - int n else int n))
                    else Some None)"

definition scan_resolution :: "string \<Rightarrow> encoder_info_t \<Rightarrow> encoder_info_t option" where
  "scan_resolution s i =
     (case scan_int s of
        None \<Rightarrow> None
      | Some None \<Rightarrow> Some i
      | Some (Some (w, r)) \<Rightarrow>
          let i = i\<lparr>width := w\<rparr>
          in case r of
               [] \<Rightarrow> Some i
             | c # r \<Rightarrow> if c \<noteq> CHR ''x'' then Some i
                       else (case scan_int r of None \<Rightarrow> None | Some None \<Rightarrow> Some i | Some (Some (h, _)) \<Rightarrow> Some (i\<lparr>height := h\<rparr>)))"

abbreviation rate_set :: "(rate_control_info_t \<Rightarrow> rate_control_info_t) \<Rightarrow> encoder_info_t \<Rightarrow> encoder_info_t" where
  "rate_set f i \<equiv> i\<lparr>rate_contrl_param := f (rate_contrl_param i)\<rparr>"

abbreviation ref_set :: "(irr_ref_info_t \<Rightarrow> irr_ref_info_t) \<Rightarrow> encoder_info_t \<Rightarrow> encoder_info_t" where
  "ref_set f i \<equiv> i\<lparr>ref_info := f (ref_info i)\<rparr>"

abbreviation roi_set :: "(irr_roi_info_t \<Rightarrow> irr_roi_info_t) \<Rightarrow> encoder_info_t \<Rightarrow> encoder_info_t" where
  "roi_set f i \<equiv> i\<lparr>roi_info := f (roi_info i)\<rparr>"

definition set_text :: "(char \<times> (string option \<Rightarrow> encoder_info_t \<Rightarrow> encoder_info_t)) list" where
  "set_text =
     [(CHR ''c'', \<lambda>v i. i\<lparr>url := v\<rparr>), (CHR ''d'', \<lambda>v i. i\<lparr>framerate := v\<rparr>), (CHR ''e'', \<lambda>v i. i\<lparr>codec := v\<rparr>),
      (CHR ''f'', \<lambda>v. rate_set (\<lambda>r. r\<lparr>bitrate := v\<rparr>)), (CHR ''i'', \<lambda>v. rate_set (\<lambda>r. r\<lparr>qp := v\<rparr>)),
      (CHR ''j'', \<lambda>v. rate_set (\<lambda>r. r\<lparr>qfactor := v\<rparr>)), (CHR ''k'', \<lambda>v. rate_set (\<lambda>r. r\<lparr>maxrate := v\<rparr>)),
      (CHR ''l'', \<lambda>v. rate_set (\<lambda>r. r\<lparr>ratectrl := v\<rparr>)), (CHR ''n'', \<lambda>v. ref_set (\<lambda>r. r\<lparr>int_ref_type := v\<rparr>)),
      (CHR ''w'', \<lambda>v. rate_set (\<lambda>r. r\<lparr>bufsize := v\<rparr>)), (CHR ''y'', \<lambda>v i. i\<lparr>finput := v\<rparr>),
      (CHR ''A'', \<lambda>v i. i\<lparr>foutput := v\<rparr>), (CHR ''B'', \<lambda>v i. i\<lparr>loglevel := v\<rparr>), (CHR ''N'', \<lambda>v i. i\<lparr>profile := v\<rparr>),
      (CHR ''O'', \<lambda>v i. i\<lparr>level := v\<rparr>), (CHR ''T'', \<lambda>v i. i\<lparr>hwc_sock := v\<rparr>), (CHR ''U'', \<lambda>v i. i\<lparr>plugin := v\<rparr>),
      (CHR ''X'', \<lambda>v i. i\<lparr>tcaeLogPath := v\<rparr>)]"

definition set_number :: "(char \<times> (int \<Rightarrow> encoder_info_t \<Rightarrow> encoder_info_t)) list" where
  "set_number =
     [(CHR ''m'', \<lambda>n i. i\<lparr>max_frame_size := n\<rparr>), (CHR ''o'', \<lambda>n. ref_set (\<lambda>r. r\<lparr>int_ref_cycle_size := n\<rparr>)),
      (CHR ''p'', \<lambda>n. ref_set (\<lambda>r. r\<lparr>int_ref_qp_delta := n\<rparr>)), (CHR ''q'', \<lambda>n i. i\<lparr>slices := n\<rparr>),
      (CHR ''r'', \<lambda>n. rate_set (\<lambda>r. r\<lparr>qmaxI := n\<rparr>)), (CHR ''s'', \<lambda>n. rate_set (\<lambda>r. r\<lparr>qminI := n\<rparr>)),
      (CHR ''t'', \<lambda>n. rate_set (\<lambda>r. r\<lparr>qmaxP := n\<rparr>)), (CHR ''u'', \<lambda>n. rate_set (\<lambda>r. r\<lparr>qminP := n\<rparr>)),
      (CHR ''v'', \<lambda>n i. i\<lparr>quality := n\<rparr>), (CHR ''x'', \<lambda>n i. i\<lparr>sei := n\<rparr>), (CHR ''z'', \<lambda>n i. i\<lparr>vframe := n\<rparr>),
      (CHR ''C'', \<lambda>n i. i\<lparr>latency_opt := n\<rparr>), (CHR ''D'', \<lambda>n i. i\<lparr>gop_size := n\<rparr>), (CHR ''F'', \<lambda>n i. i\<lparr>renderfps_enc := n\<rparr>),
      (CHR ''G'', \<lambda>n i. i\<lparr>minfps_enc := n\<rparr>), (CHR ''H'', \<lambda>n. roi_set (\<lambda>r. r\<lparr>roi_enabled := n \<noteq> 0\<rparr>)),
      (CHR ''I'', \<lambda>n. roi_set (\<lambda>r. r\<lparr>roi_x := n\<rparr>)), (CHR ''J'', \<lambda>n. roi_set (\<lambda>r. r\<lparr>roi_y := n\<rparr>)),
      (CHR ''K'', \<lambda>n. roi_set (\<lambda>r. r\<lparr>roi_width := n\<rparr>)), (CHR ''L'', \<lambda>n. roi_set (\<lambda>r. r\<lparr>roi_height := n\<rparr>)),
      (CHR ''M'', \<lambda>n. roi_set (\<lambda>r. r\<lparr>roi_value := n\<rparr>)), (CHR ''P'', \<lambda>n i. i\<lparr>filter_nbthreads := n\<rparr>),
      (CHR ''V'', \<lambda>n i. i\<lparr>tcaeEnabled := n \<noteq> 0\<rparr>), (CHR ''W'', \<lambda>n i. i\<lparr>user_id := n\<rparr>)]"

definition set_flag_option :: "(char \<times> (encoder_info_t \<Rightarrow> encoder_info_t)) list" where
  "set_flag_option =
     [(CHR ''a'', \<lambda>i. i\<lparr>streaming := True\<rparr>), (CHR ''g'', \<lambda>i. i\<lparr>low_power := 1\<rparr>), (CHR ''h'', \<lambda>i. i\<lparr>encodeType := DATA_BUFFER\<rparr>),
      (CHR ''E'', \<lambda>i. i\<lparr>auth := True\<rparr>), (CHR ''R'', \<lambda>i. i\<lparr>low_delay_brc := True\<rparr>), (CHR ''S'', \<lambda>i. i\<lparr>skip_frame := True\<rparr>)]"

definition apply_option :: "char \<Rightarrow> string option \<Rightarrow> encoder_info_t \<Rightarrow> encoder_info_t option" where
  "apply_option c v i =
     (case map_of set_text c of
        Some f \<Rightarrow> Some (f v i)
      | None \<Rightarrow>
          (case map_of set_number c of
             Some f \<Rightarrow> do { s \<leftarrow> v; Some (f (atoi s) i) }
           | None \<Rightarrow>
               (case map_of set_flag_option c of
                  Some f \<Rightarrow> Some (f i)
                | None \<Rightarrow> if c = CHR ''b'' then do { s \<leftarrow> v; scan_resolution s i } else Some i)))"

fun take_options :: "getopt_item list \<Rightarrow> encoder_info_t \<Rightarrow> encoder_info_t outcome option" where
  "take_options [] i = Some (Ret i)"
| "take_options (Unknown # os) i = take_options os i"
| "take_options (Found c v # os) i =
     (if c = CHR ''Q'' then Some (Exit 0) else do { i \<leftarrow> apply_option c v i; take_options os i })"

definition icr_parse_args :: "string list \<Rightarrow> encoder_info_t \<Rightarrow> encoder_info_t outcome option" where
  "icr_parse_args args i = take_options (getopt_long_only args) i"

section \<open>Sanity checks\<close>

definition ICR_ENCODER_BITRATE_LOW :: int where "ICR_ENCODER_BITRATE_LOW = 1500000"

definition ICR_ENCODER_BITRATE_HIGH :: int where "ICR_ENCODER_BITRATE_HIGH = 3000000"

definition ENCODER_RESOLUTION_WIDTH_MAX :: int where "ENCODER_RESOLUTION_WIDTH_MAX = 4096"

definition zero_rates :: rate_control_info_t where
  "zero_rates = \<lparr>bitrate = None, qfactor = None, qp = None, maxrate = None, ratectrl = None, bufsize = None,
     qmaxI = 0, qminI = 0, qmaxP = 0, qminP = 0\<rparr>"

definition default_rc_configs :: "(string \<times> rate_control_info_t list) list" where
  "default_rc_configs =
     (let rates = (\<lambda>b m. zero_rates\<lparr>bitrate := Some b, maxrate := m\<rparr>); q = (\<lambda>r. r\<lparr>qfactor := Some ''20''\<rparr>)
      in [(''CQP'', replicate 3 (zero_rates\<lparr>qp := Some ''26''\<rparr>)),
          (''CBR'', [rates ''3.3M'' (Some ''3.3M''), rates ''5M'' (Some ''5M''), rates ''8M'' (Some ''8M'')]),
          (''VBR'', [rates ''3.3M'' (Some ''6.6M''), rates ''5M'' (Some ''10M''), rates ''8M'' (Some ''16M'')]),
          (''QVBR'', [q (rates ''3.3M'' (Some ''6.6M'')), q (rates ''5M'' (Some ''10M'')), q (rates ''8M'' (Some ''16M''))]),
          (''AVBR'', [rates ''3.3M'' None, rates ''5M'' None, rates ''8M'' None]),
          (''ICQ'', replicate 3 (q zero_rates))])"

definition rate_level :: "int \<Rightarrow> nat" where
  "rate_level framesize =
     (if framesize \<le> ICR_ENCODER_BITRATE_LOW then 0
      else if ICR_ENCODER_BITRATE_LOW < framesize \<and> framesize < ICR_ENCODER_BITRATE_HIGH then 1 else 2)"

definition bitrate_ctrl_sanity_check :: "encoder_info_t \<Rightarrow> (int \<times> encoder_info_t) option" where
  "bitrate_ctrl_sanity_check i =
     (case ratectrl (rate_contrl_param i) of
        None \<Rightarrow> Some (-1, i)
      | Some mode \<Rightarrow>
          if width i = 0 \<or> height i = 0 then Some (-1, i)
          else do {
            (ret, i) \<leftarrow> irr_check_rate_ctrl_options i;
            if ret = 0 then Some (0, i)
            else if width i \<le> 0 \<or> ENCODER_RESOLUTION_WIDTH_MAX < width i \<or> height i \<le> 0 \<or> ENCODER_RESOLUTION_WIDTH_MAX < height i
            then Some (-1, i)
            else do {
              framesize \<leftarrow> chk32 (width i * height i);
              case List.find (\<lambda>e. strcaseeq (fst e) mode) default_rc_configs of
                Some e \<Rightarrow> Some (0, i\<lparr>rate_contrl_param := (snd e ! rate_level framesize)\<lparr>ratectrl := Some mode\<rparr>\<rparr>)
              | None \<Rightarrow> Some (-1, i) } })"

definition rir_type_map :: "(string \<times> string) list" where
  "rir_type_map =
     [(''1'', ''vertical''), (''v'', ''vertical''), (''V'', ''vertical''), (''2'', ''horizontal''), (''h'', ''horizontal''),
      (''H'', ''horizontal''), (''3'', ''slice''), (''s'', ''slice''), (''S'', ''slice'')]"

definition rir_type_sanity_check :: "encoder_info_t \<Rightarrow> encoder_info_t" where
  "rir_type_sanity_check i =
     (case int_ref_type (ref_info i) of
        None \<Rightarrow> i
      | Some t \<Rightarrow> (case map_of rir_type_map t of None \<Rightarrow> i | Some u \<Rightarrow> ref_set (\<lambda>r. r\<lparr>int_ref_type := Some u\<rparr>) i))"

section \<open>The main program\<close>

definition AV_PIX_FMT_RGBA :: int where "AV_PIX_FMT_RGBA = 26"

definition no_info :: encoder_info_t where
  "no_info = \<lparr>nPixfmt = 0, gop_size = 0, codec = None, format = None, url = None, low_power = 0, width = 0, height = 0,
     framerate = None, exp_vid_param = None, streaming = False, encodeType = DATA_BUFFER, encoderInstanceID = 0,
     rate_contrl_param = zero_rates, quality = 0, max_frame_size = 0,
     ref_info = \<lparr>int_ref_type = None, int_ref_cycle_size = 0, int_ref_qp_delta = 0\<rparr>,
     roi_info = \<lparr>roi_enabled = False, roi_x = 0, roi_y = 0, roi_width = 0, roi_height = 0, roi_value = 0\<rparr>,
     slices = 0, sei = 0, finput = None, vframe = 0, foutput = None, loglevel = None, latency_opt = 0, auth = False,
     renderfps_enc = 0, minfps_enc = 0, profile = None, level = None, filter_nbthreads = 0, low_delay_brc = False, skip_frame = False,
     hwc_sock = None, plugin = None, tcaeEnabled = False, tcaeLogPath = None, user_id = 0\<rparr>"

definition encoder_info_init :: "encoder_info_t \<Rightarrow> encoder_info_t" where
  "encoder_info_init i = i\<lparr>latency_opt := 1, framerate := Some ''30'', renderfps_enc := 0, minfps_enc := 3, encodeType := VASURFACE_ID,
     nPixfmt := AV_PIX_FMT_RGBA, streaming := True, url := Some ''irrv:264'', plugin := Some ''vaapi'', tcaeEnabled := True,
     tcaeLogPath := None\<rparr>"

text \<open>Reading from a stream stops at the largest number.\<close>

definition instance_id :: "string \<Rightarrow> int" where
  "instance_id s = min INT_MAX (int (fst (digits_run 10 0 s)))"

text \<open>The options the display server is made with; \<open>args\<close> are the arguments behind the name of the program.\<close>

definition encoder_main :: "string list \<Rightarrow> encoder_info_t outcome option" where
  "encoder_main args =
     (case args of
        [] \<Rightarrow> Some (Exit 1)
      | a # _ \<Rightarrow>
          if \<not> (case a of [] \<Rightarrow> False | c # _ \<Rightarrow> is_digit 10 c) then Some (Exit 1)
          else do {
            parsed \<leftarrow> icr_parse_args args ((encoder_info_init no_info)\<lparr>encoderInstanceID := instance_id a\<rparr>);
            case parsed of
              Exit n \<Rightarrow> Some (Exit n)
            | Ret i \<Rightarrow> do {
                (ret, i) \<leftarrow> bitrate_ctrl_sanity_check i;
                if ret < 0 then Some (Exit 1)
                else do {
                  (ret, checked) \<leftarrow> irr_check_options (Some (rir_type_sanity_check i));
                  case checked of
                    None \<Rightarrow> Some (Exit 1)
                  | Some i \<Rightarrow> if ret < 0 then Some (Exit 1) else Some (Ret i) } } })"

end
