(* ===== verification/EncodeOptionsProps.thy ===== *)
theory EncodeOptionsProps
  imports EncodeOptions
begin

text \<open>
  What the check of the encoder's options establishes: a specification of consistent options that does not speak of
  the order of the checks, that accepted options meet it, and that options which meet it pass unchanged.
\<close>

section \<open>Consistent options\<close>

fun positive :: "string option \<Rightarrow> bool" where
  "positive None = False"
| "positive (Some s) = (0 < atoi s)"

definition no_rates :: "rate_control_info_t \<Rightarrow> bool" where
  "no_rates p \<longleftrightarrow> bitrate p = None \<and> maxrate p = None \<and> bufsize p = None \<and> qfactor p = None
     \<and> qmaxI p = 0 \<and> qminI p = 0 \<and> qmaxP p = 0 \<and> qminP p = 0"

definition qp_limit :: "int \<Rightarrow> bool" where
  "qp_limit q \<longleftrightarrow> 0 \<le> q \<and> q \<le> 51"

definition rates_related :: "string \<Rightarrow> rate_control_info_t \<Rightarrow> bool" where
  "rates_related mode p =
     (case (convert_bitrate (bitrate p), convert_bitrate (maxrate p)) of
        (Some b, Some m) \<Rightarrow> if strcaseeq mode ''CBR'' then b = m else b \<le> m
      | _ \<Rightarrow> False)"

definition with_rates :: "string \<Rightarrow> rate_control_info_t \<Rightarrow> bool" where
  "with_rates mode p \<longleftrightarrow> qp p = None \<and> positive (bitrate p) \<and> positive (maxrate p)
     \<and> (if strcaseeq mode ''QVBR'' then positive (qfactor p) else qfactor p = None)
     \<and> (bufsize p = None \<or> positive (bufsize p))
     \<and> qp_limit (qmaxI p) \<and> qp_limit (qminI p) \<and> qp_limit (qmaxP p) \<and> qp_limit (qminP p)
     \<and> rates_related mode p"

definition rate_ok :: "rate_control_info_t \<Rightarrow> bool" where
  "rate_ok p = (case ratectrl p of
       None \<Rightarrow> False
     | Some mode \<Rightarrow>
         if strcaseeq mode ''CQP'' then positive (qp p) \<and> atoi (the (qp p)) \<le> 51 \<and> no_rates p
         else (strcaseeq mode ''CBR'' \<or> strcaseeq mode ''VBR'' \<or> strcaseeq mode ''QVBR'') \<and> with_rates mode p)"

definition rir_ok :: "irr_ref_info_t \<Rightarrow> bool" where
  "rir_ok r \<longleftrightarrow> int_ref_type r = None \<or>
     (int_ref_type r = Some ''vertical'' \<or> int_ref_type r = Some ''horizontal'') \<and>
     0 < int_ref_cycle_size r \<and> \<bar>int_ref_qp_delta r\<bar> \<le> 51"

definition roi_ok :: "encoder_info_t \<Rightarrow> bool" where
  "roi_ok i \<longleftrightarrow> (let r = roi_info i in \<not> roi_enabled r \<or>
     0 \<le> roi_x r \<and> 0 \<le> roi_y r \<and> 0 < roi_width r \<and> 0 < roi_height r \<and> \<bar>roi_value r\<bar> \<le> 51
     \<and> roi_x r + roi_width r \<le> width i \<and> roi_y r + roi_height r \<le> height i)"

fun profiles_of :: "string \<Rightarrow> string list" where
  "profiles_of u = (if u \<in> {''irrv:264'', ''local:264''} then map fst vaapi_encode_h264_profiles
     else if u \<in> {''irrv:265'', ''local:265''} then map fst vaapi_encode_h265_profiles
     else map fst vaapi_encode_av1_profiles)"

fun levels_of :: "string \<Rightarrow> string list" where
  "levels_of u = (if u \<in> {''irrv:264'', ''local:264''} then map fst vaapi_encode_h264_levels
     else if u \<in> {''irrv:265'', ''local:265''} then map fst vaapi_encode_h265_levels
     else map fst vaapi_encode_av1_levels)"

definition codec_ok :: "encoder_info_t \<Rightarrow> bool" where
  "codec_ok i = (case url i of
       None \<Rightarrow> False
     | Some u \<Rightarrow> u \<in> set valid_url
         \<and> (case profile i of None \<Rightarrow> True | Some p \<Rightarrow> p \<in> set (profiles_of u))
         \<and> (case level i of None \<Rightarrow> True | Some l \<Rightarrow> l \<in> set (levels_of u)))"

text \<open>A limit on the size of a frame is given only with a bit rate, and is no less than the size of an average frame.\<close>

definition frame_size_ok :: "encoder_info_t \<Rightarrow> bool" where
  "frame_size_ok i \<longleftrightarrow> positive (framerate i) \<and>
     (max_frame_size i = 0 \<or>
      0 < max_frame_size i \<and> bitrate (rate_contrl_param i) \<noteq> None \<and>
      (atof (the (framerate i)) \<le> 0 \<or>
       (case average_frame_size i (the (framerate i)) of None \<Rightarrow> False | Some a \<Rightarrow> a \<le> max_frame_size i)))"

definition numbers_ok :: "encoder_info_t \<Rightarrow> bool" where
  "numbers_ok i \<longleftrightarrow> 0 < gop_size i \<and> 0 \<le> slices i \<and> 1 \<le> quality i \<and> quality i \<le> 7
     \<and> (renderfps_enc i = 0 \<or> 0 < minfps_enc i)"

definition modes_ok :: "encoder_info_t \<Rightarrow> bool" where
  "modes_ok i \<longleftrightarrow>
     (\<not> low_delay_brc i \<or> (case ratectrl (rate_contrl_param i) of None \<Rightarrow> False
         | Some m \<Rightarrow> strcaseeq m ''VBR'' \<or> strcaseeq m ''QVBR''))
     \<and> (plugin i = Some ''vaapi'' \<or> plugin i = Some ''qsv'')"

definition options_ok :: "encoder_info_t \<Rightarrow> bool" where
  "options_ok i \<longleftrightarrow> rate_ok (rate_contrl_param i) \<and> rir_ok (ref_info i) \<and> codec_ok i \<and> roi_ok i
     \<and> frame_size_ok i \<and> numbers_ok i \<and> modes_ok i"

section \<open>Rate control\<close>

lemma mode_names:
  "strcaseeq m ''CQP'' \<Longrightarrow> \<not> strcaseeq m ''CBR'' \<and> \<not> strcaseeq m ''VBR'' \<and> \<not> strcaseeq m ''QVBR''"
  "strcaseeq m ''CBR'' \<Longrightarrow> \<not> strcaseeq m ''CQP'' \<and> \<not> strcaseeq m ''VBR'' \<and> \<not> strcaseeq m ''QVBR''"
  "strcaseeq m ''VBR'' \<Longrightarrow> \<not> strcaseeq m ''CQP'' \<and> \<not> strcaseeq m ''CBR'' \<and> \<not> strcaseeq m ''QVBR''"
  "strcaseeq m ''QVBR'' \<Longrightarrow> \<not> strcaseeq m ''CQP'' \<and> \<not> strcaseeq m ''CBR'' \<and> \<not> strcaseeq m ''VBR''"
  by (simp_all add: strcaseeq_def tolower_def nat_of_chr_def chr_of_nat_def)

lemma rate_mode_cases:
  assumes "strcaseeq m ''CBR'' \<or> strcaseeq m ''VBR'' \<or> strcaseeq m ''QVBR''"
  obtains "strcaseeq m ''CBR''" "\<not> strcaseeq m ''CQP''" "\<not> strcaseeq m ''VBR''" "\<not> strcaseeq m ''QVBR''"
    | "strcaseeq m ''VBR''" "\<not> strcaseeq m ''CQP''" "\<not> strcaseeq m ''CBR''" "\<not> strcaseeq m ''QVBR''"
    | "strcaseeq m ''QVBR''" "\<not> strcaseeq m ''CQP''" "\<not> strcaseeq m ''CBR''" "\<not> strcaseeq m ''VBR''"
  using assms mode_names(2-4) by blast

lemma strcaseeq_sym: "strcaseeq a b \<longleftrightarrow> strcaseeq b a"
  by (auto simp: strcaseeq_def)

lemma rate_ctrl_find_cases:
  "rate_ctrl_find m =
     (if strcaseeq m ''CQP'' then Some \<lparr>need_qp = True, need_qfactor = False, need_bitrate = False, need_maxbitrate = False\<rparr>
      else if strcaseeq m ''CBR'' then Some \<lparr>need_qp = False, need_qfactor = False, need_bitrate = True, need_maxbitrate = True\<rparr>
      else if strcaseeq m ''VBR'' then Some \<lparr>need_qp = False, need_qfactor = False, need_bitrate = True, need_maxbitrate = True\<rparr>
      else if strcaseeq m ''QVBR'' then Some \<lparr>need_qp = False, need_qfactor = True, need_bitrate = True, need_maxbitrate = True\<rparr>
      else None)"
  by (simp add: rate_ctrl_find_def irr_rate_ctrl_type_map_def strcaseeq_sym [of m])

text \<open>The stages for the modes with a fixed quantiser and for the modes with rates.\<close>

abbreviation (input) fixed_qp :: "rate_control_info_t \<Rightarrow> rate_control_info_t" where
  "fixed_qp p \<equiv> p\<lparr>bitrate := None, qfactor := None, maxrate := None, bufsize := None,
     qmaxI := 0, qminI := 0, qmaxP := 0, qminP := 0\<rparr>"

definition clip_rates :: "bool \<Rightarrow> rate_control_info_t \<Rightarrow> rate_control_info_t" where
  "clip_rates q p = p\<lparr>qfactor := (if q then qfactor p else None), qp := None,
     bufsize := (if positive (bufsize p) then bufsize p else None),
     qmaxI := clip_qmax (qmaxI p), qminI := clip_qmin (qminI p), qmaxP := clip_qmax (qmaxP p), qminP := clip_qmin (qminP p)\<rparr>"

lemma positive_cases: "positive x \<longleftrightarrow> (\<exists>s. x = Some s \<and> 0 < atoi s)"
  by (cases x) auto

lemma rate_stages_qp:
  "rate_stages \<lparr>need_qp = True, need_qfactor = False, need_bitrate = False, need_maxbitrate = False\<rparr> p
     = (if positive (qp p) \<and> atoi (the (qp p)) \<le> 51 then Some (fixed_qp p) else None)"
  by (cases "qp p") (simp_all add: rate_stages_def rate_qp_def rate_qfactor_def rate_bitrate_def rate_maxrate_def QP_MAX_VALUE_def not_le)

lemma rate_stages_rates:
  "rate_stages \<lparr>need_qp = False, need_qfactor = q, need_bitrate = True, need_maxbitrate = True\<rparr> p
     = (if (\<not> q \<or> positive (qfactor p)) \<and> positive (bitrate p) \<and> positive (maxrate p) then Some (clip_rates q p) else None)"
proof -
  have q: "rate_qfactor \<lparr>need_qp = False, need_qfactor = q, need_bitrate = True, need_maxbitrate = True\<rparr> p
     = (if \<not> q \<or> positive (qfactor p) then Some (p\<lparr>qfactor := (if q then qfactor p else None)\<rparr>) else None)" for p
    by (cases "qfactor p") (auto simp: rate_qfactor_def)
  have b: "rate_bitrate \<lparr>need_qp = False, need_qfactor = q, need_bitrate = True, need_maxbitrate = True\<rparr> p
     = (if positive (bitrate p) then Some (p\<lparr>bufsize := (if positive (bufsize p) then bufsize p else None),
          qmaxI := clip_qmax (qmaxI p), qminI := clip_qmin (qminI p), qmaxP := clip_qmax (qmaxP p), qminP := clip_qmin (qminP p)\<rparr>) else None)" for p
    by (cases "bitrate p"; cases "bufsize p") (auto simp: rate_bitrate_def)
  have m: "rate_maxrate \<lparr>need_qp = False, need_qfactor = q, need_bitrate = True, need_maxbitrate = True\<rparr> p
     = (if positive (maxrate p) then Some p else None)" for p
    by (cases "maxrate p") (auto simp: rate_maxrate_def)
  have "rate_qp \<lparr>need_qp = False, need_qfactor = q, need_bitrate = True, need_maxbitrate = True\<rparr> p = Some (p\<lparr>qp := None\<rparr>)"
    by (simp add: rate_qp_def)
  then show ?thesis by (simp add: rate_stages_def q b m clip_rates_def)
qed

lemma clip_limits: "qp_limit (clip_qmax q)" "qp_limit (clip_qmin q)"
  by (auto simp: qp_limit_def clip_qmax_def clip_qmin_def QP_MAX_VALUE_def)

lemma clip_id: "qp_limit q \<Longrightarrow> clip_qmax q = q" "qp_limit q \<Longrightarrow> clip_qmin q = q"
  by (auto simp: qp_limit_def clip_qmax_def clip_qmin_def QP_MAX_VALUE_def)

lemma rate_compare_related:
  assumes "bitrate p \<noteq> None" "maxrate p \<noteq> None"
    and "strcaseeq mode ''CBR'' \<or> strcaseeq mode ''VBR'' \<or> strcaseeq mode ''QVBR''"
  shows "rate_compare mode p = Some True \<longleftrightarrow> rates_related mode p"
  using assms(3)
proof (cases rule: rate_mode_cases)
  case 1
  with assms(1,2) show ?thesis
    by (cases "convert_bitrate (bitrate p)"; cases "convert_bitrate (maxrate p)") (simp_all add: rate_compare_def rates_related_def)
next
  case 2
  with assms(1,2) show ?thesis
    by (cases "convert_bitrate (bitrate p)"; cases "convert_bitrate (maxrate p)") (simp_all add: rate_compare_def rates_related_def not_less)
next
  case 3
  with assms(1,2) show ?thesis
    by (cases "convert_bitrate (bitrate p)"; cases "convert_bitrate (maxrate p)") (simp_all add: rate_compare_def rates_related_def not_less)
qed

text \<open>The options of the modes with rates.\<close>

lemma rate_mode_find:
  assumes "strcaseeq mode ''CBR'' \<or> strcaseeq mode ''VBR'' \<or> strcaseeq mode ''QVBR''"
  shows "rate_ctrl_find mode = Some \<lparr>need_qp = False, need_qfactor = strcaseeq mode ''QVBR'', need_bitrate = True, need_maxbitrate = True\<rparr>"
  using assms by (cases rule: rate_mode_cases) (simp_all add: rate_ctrl_find_cases)

lemma rate_checked_qp:
  assumes "strcaseeq mode ''CQP''" "ratectrl (rate_contrl_param i) = Some mode"
  shows "irr_check_rate_ctrl_options i =
    (let p = rate_contrl_param i in
     if positive (qp p) \<and> atoi (the (qp p)) \<le> 51 then Some (0, i\<lparr>rate_contrl_param := fixed_qp p\<rparr>) else Some (- EINVAL, i))"
  using assms by (simp add: irr_check_rate_ctrl_options_def rate_ctrl_find_cases rate_stages_qp rate_compare_def Let_def)

lemma rate_checked_rates:
  assumes "strcaseeq mode ''CBR'' \<or> strcaseeq mode ''VBR'' \<or> strcaseeq mode ''QVBR''"
    and "ratectrl (rate_contrl_param i) = Some mode"
  shows "irr_check_rate_ctrl_options i = Some (0, j) \<longleftrightarrow>
    (let q = strcaseeq mode ''QVBR''; p = clip_rates q (rate_contrl_param i) in
     (\<not> q \<or> positive (qfactor p)) \<and> positive (bitrate p) \<and> positive (maxrate p) \<and> rates_related mode p
     \<and> j = i\<lparr>rate_contrl_param := p\<rparr>)"
proof -
  let ?p = "clip_rates (strcaseeq mode ''QVBR'') (rate_contrl_param i)"
  have [simp]: "bitrate ?p = bitrate (rate_contrl_param i)" "maxrate ?p = maxrate (rate_contrl_param i)"
    "qfactor (clip_rates True (rate_contrl_param i)) = qfactor (rate_contrl_param i)"
    by (simp_all add: clip_rates_def)
  have e: "(0::int) \<noteq> - EINVAL" by (simp add: EINVAL_def)
  show ?thesis
  proof (cases "bitrate ?p = None \<or> maxrate ?p = None")
    case True
    then show ?thesis using e assms
      by (auto simp: irr_check_rate_ctrl_options_def rate_mode_find rate_stages_rates Let_def)
  next
    case False
    then have "rate_compare mode ?p = Some True \<longleftrightarrow> rates_related mode ?p"
      using assms(1) by (intro rate_compare_related) auto
    then show ?thesis using e assms
      by (auto simp: irr_check_rate_ctrl_options_def rate_mode_find rate_stages_rates Let_def split: bind_splits if_splits)
  qed
qed

lemma clip_rates_limits:
  "qp (clip_rates q p) = None" "qp_limit (qmaxI (clip_rates q p))" "qp_limit (qminI (clip_rates q p))"
  "qp_limit (qmaxP (clip_rates q p))" "qp_limit (qminP (clip_rates q p))"
  "bufsize (clip_rates q p) = None \<or> positive (bufsize (clip_rates q p))"
  "\<not> q \<Longrightarrow> qfactor (clip_rates q p) = None" "ratectrl (clip_rates q p) = ratectrl p"
  by (simp_all add: clip_rates_def clip_limits)

lemma rate_checked:
  assumes "irr_check_rate_ctrl_options i = Some (0, j)"
  shows "rate_ok (rate_contrl_param j) \<and> j = i\<lparr>rate_contrl_param := rate_contrl_param j\<rparr>"
proof -
  obtain mode opts where m: "ratectrl (rate_contrl_param i) = Some mode" "rate_ctrl_find mode = Some opts"
    using assms by (auto simp: irr_check_rate_ctrl_options_def EINVAL_def split: option.splits)
  show ?thesis
  proof (cases "strcaseeq mode ''CQP''")
    case True
    then show ?thesis using assms m(1) rate_checked_qp [OF True m(1)]
      by (auto simp: rate_ok_def no_rates_def Let_def EINVAL_def split: if_splits)
  next
    case False
    then have c: "strcaseeq mode ''CBR'' \<or> strcaseeq mode ''VBR'' \<or> strcaseeq mode ''QVBR''"
      using m(2) by (auto simp: rate_ctrl_find_cases split: if_splits)
    let ?p = "clip_rates (strcaseeq mode ''QVBR'') (rate_contrl_param i)"
    have "with_rates mode ?p \<and> j = i\<lparr>rate_contrl_param := ?p\<rparr>"
      using assms rate_checked_rates [OF c m(1)] clip_rates_limits by (auto simp: with_rates_def Let_def)
    with c False m(1) show ?thesis by (simp add: rate_ok_def clip_rates_limits)
  qed
qed

lemma rate_fixed:
  assumes "rate_ok (rate_contrl_param i)"
  shows "irr_check_rate_ctrl_options i = Some (0, i)"
proof -
  obtain mode where m: "ratectrl (rate_contrl_param i) = Some mode" using assms by (auto simp: rate_ok_def split: option.splits)
  show ?thesis
  proof (cases "strcaseeq mode ''CQP''")
    case True
    then show ?thesis using assms m rate_checked_qp [OF True m] by (auto simp: rate_ok_def no_rates_def Let_def)
  next
    case False
    then have c: "strcaseeq mode ''CBR'' \<or> strcaseeq mode ''VBR'' \<or> strcaseeq mode ''QVBR''"
      and w: "with_rates mode (rate_contrl_param i)" using assms m by (auto simp: rate_ok_def)
    have "clip_rates (strcaseeq mode ''QVBR'') (rate_contrl_param i) = rate_contrl_param i"
      using w by (auto simp: with_rates_def clip_rates_def clip_id split: if_splits)
    with w show ?thesis using rate_checked_rates [OF c m] by (auto simp: with_rates_def Let_def split: if_splits)
  qed
qed

section \<open>Codec, profile and level\<close>

declare profiles_of.simps [simp del] levels_of.simps [simp del]

lemma url_tables:
  assumes "u \<in> set valid_url"
  obtains ps ls where "encode_profiles (encode_type_of u) = Some ps" "map fst ps = profiles_of u"
    "encode_levels (encode_type_of u) = Some ls" "map fst ls = levels_of u"
proof -
  have "list_all (\<lambda>u. map_option (map fst) (encode_profiles (encode_type_of u)) = Some (profiles_of u)
      \<and> map_option (map fst) (encode_levels (encode_type_of u)) = Some (levels_of u)) valid_url"
    by code_simp
  with assms that show ?thesis by (auto simp: list_all_iff)
qed

lemma profile_result:
  assumes "url i = Some u" "u \<in> set valid_url" "profile i = Some p"
  shows "irr_check_encode_profile i = Some (if p \<in> set (profiles_of u) then 0 else - EINVAL)"
proof -
  obtain ps where ps: "encode_profiles (encode_type_of u) = Some ps" "map fst ps = profiles_of u"
    using url_tables [OF assms(2)] by metis
  have "map_of ps p = None \<longleftrightarrow> p \<notin> set (profiles_of u)" using ps(2) by (metis map_of_eq_None_iff set_map)
  then show ?thesis using assms(1,3) ps(1) by (simp add: irr_check_encode_profile_def)
qed

lemma level_result:
  assumes "url i = Some u" "u \<in> set valid_url" "level i = Some l"
  shows "irr_check_encode_level i = Some (if l \<in> set (levels_of u) then 0 else - EINVAL)"
proof -
  obtain ls where ls: "encode_levels (encode_type_of u) = Some ls" "map fst ls = levels_of u"
    using url_tables [OF assms(2)] by metis
  have "map_of ls l = None \<longleftrightarrow> l \<notin> set (levels_of u)" using ls(2) by (metis map_of_eq_None_iff set_map)
  then show ?thesis using assms(1,3) ls(1) by (simp add: irr_check_encode_level_def)
qed

lemma default_known: "''default'' \<in> set (profiles_of u)" "''default'' \<in> set (levels_of u)"
  by (auto simp: profiles_of.simps levels_of.simps vaapi_encode_h264_profiles_def vaapi_encode_h265_profiles_def vaapi_encode_av1_profiles_def
      vaapi_encode_h264_levels_def vaapi_encode_h265_levels_def vaapi_encode_av1_levels_def)

lemma check_url_valid: "\<exists>u. u \<in> set valid_url \<and> check_url i = i\<lparr>url := Some u\<rparr>"
proof (cases "\<exists>u. url i = Some u \<and> u \<in> set valid_url")
  case True
  then obtain u where u: "url i = Some u" "u \<in> set valid_url" by blast
  then have "check_url i = i\<lparr>url := Some u\<rparr>" by (simp add: check_url_def)
  with u(2) show ?thesis by blast
next
  case False
  then have "check_url i = i\<lparr>url := Some DEFAULT_URL\<rparr>" by (auto simp: check_url_def split: option.splits)
  moreover have "DEFAULT_URL \<in> set valid_url" by (simp add: DEFAULT_URL_def valid_url_def)
  ultimately show ?thesis by blast
qed

definition known :: "string option \<Rightarrow> string list \<Rightarrow> bool" where
  "known x xs = (case x of None \<Rightarrow> True | Some s \<Rightarrow> s \<in> set xs)"

lemma check_profile_known:
  assumes "url i = Some u" "u \<in> set valid_url"
  shows "\<exists>p. check_profile i = Some (i\<lparr>profile := p\<rparr>) \<and> known p (profiles_of u)
    \<and> (known (profile i) (profiles_of u) \<longrightarrow> p = profile i)"
proof (cases "profile i")
  case None
  then show ?thesis by (intro exI [of _ None]) (simp add: check_profile_def known_def)
next
  case (Some p)
  then show ?thesis using profile_result [OF assms Some] default_known
    by (intro exI [of _ "if p \<in> set (profiles_of u) then Some p else Some ''default''"])
       (simp add: check_profile_def known_def EINVAL_def)
qed

lemma check_level_known:
  assumes "url i = Some u" "u \<in> set valid_url"
  shows "\<exists>l. check_level i = Some (i\<lparr>level := l\<rparr>) \<and> known l (levels_of u)
    \<and> (known (level i) (levels_of u) \<longrightarrow> l = level i)"
proof (cases "level i")
  case None
  then show ?thesis by (intro exI [of _ None]) (simp add: check_level_def known_def)
next
  case (Some l)
  then show ?thesis using level_result [OF assms Some] default_known
    by (intro exI [of _ "if l \<in> set (levels_of u) then Some l else Some ''default''"])
       (simp add: check_level_def known_def EINVAL_def)
qed

section \<open>The other checks\<close>

lemma rir_result: "irr_check_rir_options i < 0 \<longleftrightarrow> \<not> rir_ok (ref_info i)"
  by (auto simp: irr_check_rir_options_def rir_ok_def QP_DELTA_MIN_VALUE_def QP_DELTA_MAX_VALUE_def QP_MAX_VALUE_def
      EINVAL_def split: option.splits)

lemma roi_result: "roi_enabled (roi_info i) \<Longrightarrow> irr_check_roi_options i < 0 \<longleftrightarrow> \<not> roi_ok i"
  by (auto simp: irr_check_roi_options_def roi_ok_def Let_def EINVAL_def)

lemma check_roi_ok: "\<exists>r. check_roi i = i\<lparr>roi_info := r\<rparr> \<and> roi_ok (i\<lparr>roi_info := r\<rparr>) \<and> (roi_ok i \<longrightarrow> r = roi_info i)"
proof (cases "roi_ok i")
  case True
  then have "check_roi i = i" using roi_result [of i] by (auto simp: check_roi_def)
  then show ?thesis using True by (intro exI [of _ "roi_info i"]) simp
next
  case False
  then have "check_roi i = i\<lparr>roi_info := (roi_info i)\<lparr>roi_enabled := False\<rparr>\<rparr>"
    using roi_result [of i] by (auto simp: check_roi_def roi_ok_def Let_def)
  then show ?thesis using False by (intro exI [of _ "(roi_info i)\<lparr>roi_enabled := False\<rparr>"]) (simp add: roi_ok_def)
qed

lemma check_framerate_ok:
  "\<exists>f. check_framerate i = i\<lparr>framerate := f\<rparr> \<and> positive f \<and> (positive (framerate i) \<longrightarrow> f = framerate i)"
proof (cases "positive (framerate i)")
  case True
  then have "check_framerate i = i" by (auto simp: check_framerate_def positive_cases)
  then show ?thesis using True by (intro exI [of _ "framerate i"]) simp
next
  case False
  then have "check_framerate i = i\<lparr>framerate := Some ''30''\<rparr>"
    by (auto simp: check_framerate_def split: option.splits)
  moreover have "positive (Some ''30'')" by code_simp
  ultimately show ?thesis using False by blast
qed

lemma check_max_frame_size_ok:
  assumes "check_max_frame_size i = Some j" "positive (framerate i)"
  shows "j = i\<lparr>max_frame_size := max_frame_size j\<rparr> \<and> frame_size_ok j"
proof -
  obtain f where f: "framerate i = Some f" using assms(2) by (auto simp: positive_cases)
  have avg: "average_frame_size (i\<lparr>max_frame_size := n\<rparr>) f = average_frame_size i f" for n
    by (simp add: average_frame_size_def)
  show ?thesis
  proof (cases "bitrate (rate_contrl_param i) = None \<or> max_frame_size i \<le> 0")
    case True
    then show ?thesis using assms f by (auto simp: check_max_frame_size_def frame_size_ok_def Let_def split: if_splits)
  next
    case False
    then show ?thesis using assms f
      by (auto simp: check_max_frame_size_def frame_size_ok_def Let_def avg split: if_splits bind_splits)
  qed
qed

lemma frame_size_ok_cong:
  assumes "framerate i = framerate j" "max_frame_size i = max_frame_size j" "rate_contrl_param i = rate_contrl_param j"
  shows "frame_size_ok i = frame_size_ok j"
  unfolding frame_size_ok_def average_frame_size_def assms ..

lemma check_max_frame_size_fixed: "frame_size_ok i \<Longrightarrow> check_max_frame_size i = Some i"
proof (cases "max_frame_size i = 0")
  case True
  then have [simp]: "i\<lparr>max_frame_size := 0\<rparr> = i" by simp
  assume "frame_size_ok i"
  with True show ?thesis
    by (auto simp: check_max_frame_size_def frame_size_ok_def positive_cases Let_def)
next
  case False
  assume "frame_size_ok i"
  then obtain f where f: "framerate i = Some f" and ok: "0 < max_frame_size i" "bitrate (rate_contrl_param i) \<noteq> None"
    "atof f \<le> 0 \<or> (case average_frame_size i f of None \<Rightarrow> False | Some a \<Rightarrow> a \<le> max_frame_size i)"
    using False by (auto simp: frame_size_ok_def positive_cases)
  show ?thesis
  proof (cases "atof f \<le> 0")
    case True
    with f ok show ?thesis by (auto simp: check_max_frame_size_def Let_def)
  next
    case False
    with f ok show ?thesis by (auto simp: check_max_frame_size_def Let_def split: option.splits)
  qed
qed

lemma check_numbers_ok:
  "\<exists>g s q m. check_numbers i = i\<lparr>gop_size := g, slices := s, quality := q, minfps_enc := m\<rparr>
     \<and> numbers_ok (i\<lparr>gop_size := g, slices := s, quality := q, minfps_enc := m\<rparr>)"
  by (rule exI [of _ "if gop_size i \<le> 0 then 120 else gop_size i"], rule exI [of _ "max 0 (slices i)"],
      rule exI [of _ "if quality i \<le> 0 \<or> quality i > 7 then 4 else quality i"],
      rule exI [of _ "if renderfps_enc i \<noteq> 0 \<and> minfps_enc i \<le> 0 then 3 else minfps_enc i"])
     (simp add: check_numbers_def numbers_ok_def Let_def max_def)

lemma check_numbers_fixed: "numbers_ok i \<Longrightarrow> check_numbers i = i"
proof -
  assume "numbers_ok i"
  then have "\<not> gop_size i \<le> 0" "\<not> slices i < 0" "\<not> (quality i \<le> 0 \<or> quality i > 7)"
    "\<not> (renderfps_enc i \<noteq> 0 \<and> minfps_enc i \<le> 0)"
    by (auto simp: numbers_ok_def)
  then show ?thesis by (simp only: check_numbers_def Let_def if_False)
qed

lemma check_modes_ok:
  assumes "ratectrl (rate_contrl_param i) = Some m"
  shows "\<exists>b p. map_option check_plugin (check_low_delay i) = Some (i\<lparr>low_delay_brc := b, plugin := p\<rparr>)
    \<and> modes_ok (i\<lparr>low_delay_brc := b, plugin := p\<rparr>) \<and> (modes_ok i \<longrightarrow> b = low_delay_brc i \<and> p = plugin i)"
proof -
  define b where "b = (low_delay_brc i \<and> (strcaseeq m ''VBR'' \<or> strcaseeq m ''QVBR''))"
  have 1: "check_low_delay i = Some (i\<lparr>low_delay_brc := b\<rparr>)" using assms by (simp add: check_low_delay_def b_def)
  define p where "p = (if plugin i = Some ''vaapi'' \<or> plugin i = Some ''qsv'' then plugin i else Some DEFAULT_PLUGIN)"
  have 2: "check_plugin (i\<lparr>low_delay_brc := b\<rparr>) = i\<lparr>low_delay_brc := b, plugin := p\<rparr>"
    by (auto simp: check_plugin_def p_def valid_plugin_def split: option.splits)
  have "modes_ok (i\<lparr>low_delay_brc := b, plugin := p\<rparr>)"
    using assms by (auto simp: modes_ok_def p_def b_def DEFAULT_PLUGIN_def)
  moreover have "modes_ok i \<longrightarrow> b = low_delay_brc i \<and> p = plugin i"
    using assms by (auto simp: modes_ok_def p_def b_def)
  ultimately show ?thesis using 1 2 by auto
qed

section \<open>The whole check\<close>

lemma options_fixed:
  assumes "options_ok i"
  shows "irr_check_options (Some i) = Some (0, Some i)"
proof -
  obtain u where u: "url i = Some u" "u \<in> set valid_url"
    and k: "known (profile i) (profiles_of u)" "known (level i) (levels_of u)"
    using assms by (auto simp: options_ok_def codec_ok_def known_def split: option.splits)
  obtain m where m: "ratectrl (rate_contrl_param i) = Some m"
    using assms by (auto simp: options_ok_def rate_ok_def split: option.splits)
  have "check_profile i = Some i" "check_level i = Some i"
    using check_profile_known [OF u] check_level_known [OF u] k by auto
  moreover have "check_roi i = i" using check_roi_ok [of i] assms by (auto simp: options_ok_def)
  moreover have "check_framerate i = i" using check_framerate_ok [of i] assms by (auto simp: options_ok_def frame_size_ok_def)
  moreover have "check_max_frame_size i = Some i" "check_numbers i = i"
    using assms check_max_frame_size_fixed check_numbers_fixed by (auto simp: options_ok_def)
  moreover have "map_option check_plugin (check_low_delay i) = Some i"
    using check_modes_ok [OF m] assms by (auto simp: options_ok_def)
  ultimately have "check_rest i = Some i" by (auto simp: check_rest_def)
  moreover have "check_url i = i" using u by (simp add: check_url_def)
  ultimately show ?thesis
    using assms rate_fixed [of i] rir_result [of i] by (simp add: irr_check_options_def options_ok_def)
qed

lemma options_accepted_ok:
  assumes "irr_check_options (Some i) = Some (0, Some j)"
  shows "options_ok j"
proof -
  obtain i2 where r: "irr_check_rate_ctrl_options (check_url i) = Some (0, i2)"
    and rir: "\<not> irr_check_rir_options i2 < 0" and j: "check_rest i2 = Some j"
  proof -
    obtain ret i2 where 1: "irr_check_rate_ctrl_options (check_url i) = Some (ret, i2)" "\<not> ret < 0"
      "\<not> irr_check_rir_options i2 < 0" "check_rest i2 = Some j"
      using assms by (auto simp: irr_check_options_def EINVAL_def split: bind_splits prod.splits if_splits)
    then have "ret = 0"
      by (auto simp: irr_check_rate_ctrl_options_def EINVAL_def split: option.splits bind_splits if_splits)
    with 1 that show ?thesis by blast
  qed
  obtain u where u: "u \<in> set valid_url" "check_url i = i\<lparr>url := Some u\<rparr>" using check_url_valid by blast
  have r2: "rate_ok (rate_contrl_param i2)" "url i2 = Some u"
    using rate_checked [OF r] u(2) by (metis, metis encoder_info_t.select_convs(5) encoder_info_t.surjective
        encoder_info_t.update_convs(5) encoder_info_t.update_convs(14))
  then obtain m where m: "ratectrl (rate_contrl_param i2) = Some m" by (auto simp: rate_ok_def split: option.splits)
  obtain p where p: "check_profile i2 = Some (i2\<lparr>profile := p\<rparr>)" "known p (profiles_of u)"
    using check_profile_known [OF r2(2) u(1)] by blast
  obtain l where l: "check_level (i2\<lparr>profile := p\<rparr>) = Some (i2\<lparr>profile := p, level := l\<rparr>)" "known l (levels_of u)"
    using check_level_known [of "i2\<lparr>profile := p\<rparr>" u] r2(2) u(1) by auto
  let ?i3 = "i2\<lparr>profile := p, level := l\<rparr>"
  obtain roi where roi: "check_roi ?i3 = ?i3\<lparr>roi_info := roi\<rparr>" "roi_ok (?i3\<lparr>roi_info := roi\<rparr>)"
    using check_roi_ok [of ?i3] by blast
  obtain f where f: "check_framerate (?i3\<lparr>roi_info := roi\<rparr>) = ?i3\<lparr>roi_info := roi, framerate := f\<rparr>" "positive f"
    using check_framerate_ok [of "?i3\<lparr>roi_info := roi\<rparr>"] by blast
  let ?i4 = "?i3\<lparr>roi_info := roi, framerate := f\<rparr>"
  obtain i5 where i5: "check_max_frame_size ?i4 = Some i5" "map_option check_plugin (check_low_delay (check_numbers i5)) = Some j"
    using j p(1) l(1) roi(1) f(1) by (auto simp: check_rest_def split: bind_splits)
  then have fs: "i5 = ?i4\<lparr>max_frame_size := max_frame_size i5\<rparr>" "frame_size_ok i5"
    using check_max_frame_size_ok [OF i5(1)] f(2) by auto
  obtain g s q mf where n: "check_numbers i5 = i5\<lparr>gop_size := g, slices := s, quality := q, minfps_enc := mf\<rparr>"
    "numbers_ok (i5\<lparr>gop_size := g, slices := s, quality := q, minfps_enc := mf\<rparr>)" using check_numbers_ok by blast
  let ?i6 = "i5\<lparr>gop_size := g, slices := s, quality := q, minfps_enc := mf\<rparr>"
  have keep: "rate_contrl_param i5 = rate_contrl_param i2" "ref_info i5 = ref_info i2" "url i5 = url i2" "profile i5 = p"
    "level i5 = l" "framerate i5 = f"
    by (subst fs(1), simp)+
  have "ratectrl (rate_contrl_param ?i6) = Some m" using m keep(1) by simp
  then obtain b pl where mo: "map_option check_plugin (check_low_delay ?i6) = Some (?i6\<lparr>low_delay_brc := b, plugin := pl\<rparr>)"
    "modes_ok (?i6\<lparr>low_delay_brc := b, plugin := pl\<rparr>)"
    using check_modes_ok by blast
  then have j': "j = ?i6\<lparr>low_delay_brc := b, plugin := pl\<rparr>" "modes_ok j"
    using i5(2) n(1) by (simp_all only: option.inject)
  have "roi_ok i5" using roi(2) by (subst fs(1)) (simp add: roi_ok_def)
  moreover have "frame_size_ok j" 
    using fs(2) frame_size_ok_cong [of j i5] by (simp add: j'(1))
  ultimately show ?thesis
    using r2 rir rir_result [of i2] p(2) l(2) u(1) n(2) j'(2) keep
    by (simp add: options_ok_def codec_ok_def known_def numbers_ok_def roi_ok_def j'(1))
qed

text \<open>Rates written as whole numbers with a unit.\<close>

lemma convert_bitrate_units:
  "int n \<le> INT_MAX \<Longrightarrow> convert_bitrate (Some (dec_of_nat n)) = Some (int n)"
  "int n * 1000 \<le> INT_MAX \<Longrightarrow> convert_bitrate (Some (dec_of_nat n @ ''K'')) = Some (int n * 1000)"
  "int n * 1000000 \<le> INT_MAX \<Longrightarrow> convert_bitrate (Some (dec_of_nat n @ ''M'')) = Some (int n * 1000000)"
proof -
  obtain d where "d < 10" "last (dec_of_nat n) = chr_of_nat (48 + d)"
    using dec_of_nat_set [of "last (dec_of_nat n)" n] by auto
  then have "last (dec_of_nat n) \<in> set ''0123456789''" using chr_digit_cases [of d] by simp
  then have last: "last (dec_of_nat n) \<noteq> CHR ''M''" "last (dec_of_nat n) \<noteq> CHR ''K''" by auto
  show "convert_bitrate (Some (dec_of_nat n)) = Some (int n)" if "int n \<le> INT_MAX"
    using that last atof_dec_of_nat [of n] int_of_dbl_of_nat [of n]
    by (simp add: convert_bitrate_def Let_def INT_MAX_def)
  show "convert_bitrate (Some (dec_of_nat n @ ''K'')) = Some (int n * 1000)" if "int n * 1000 \<le> INT_MAX"
    using that atof_dec_unit [of n "''K''"] int_of_dbl_of_nat [of "n * 1000"] dbl_of_nat [of "n * 1000"]
    by (simp add: convert_bitrate_def Let_def INT_MAX_def)
  show "convert_bitrate (Some (dec_of_nat n @ ''M'')) = Some (int n * 1000000)" if "int n * 1000000 \<le> INT_MAX"
    using that atof_dec_unit [of n "''M''"] int_of_dbl_of_nat [of "n * 1000000"] dbl_of_nat [of "n * 1000000"]
    by (simp add: convert_bitrate_def Let_def INT_MAX_def)
qed

section \<open>Which options are accepted\<close>

definition rate_acceptable :: "rate_control_info_t \<Rightarrow> bool" where
  "rate_acceptable p = (case ratectrl p of
       None \<Rightarrow> False
     | Some mode \<Rightarrow>
         if strcaseeq mode ''CQP'' then positive (qp p) \<and> atoi (the (qp p)) \<le> 51
         else (strcaseeq mode ''CBR'' \<or> strcaseeq mode ''VBR'' \<or> strcaseeq mode ''QVBR'')
           \<and> (\<not> strcaseeq mode ''QVBR'' \<or> positive (qfactor p))
           \<and> positive (bitrate p) \<and> positive (maxrate p) \<and> rates_related mode p)"

definition frame_text :: "encoder_info_t \<Rightarrow> string" where
  "frame_text i = (if positive (framerate i) then the (framerate i) else ''30'')"

lemma convert_defined:
  assumes "average_frame_size i f \<noteq> None"
  shows "convert_bitrate (bitrate (rate_contrl_param i)) \<noteq> None" "convert_bitrate (maxrate (rate_contrl_param i)) \<noteq> None"
  using assms by (auto simp: average_frame_size_def split: bind_splits)

lemma rate_compare_defined:
  "convert_bitrate (bitrate p) \<noteq> None \<Longrightarrow> convert_bitrate (maxrate p) \<noteq> None \<Longrightarrow> rate_compare mode p \<noteq> None"
  by (auto simp: rate_compare_def)

lemma rate_decided:
  assumes "average_frame_size i f \<noteq> None"
  shows "irr_check_rate_ctrl_options i =
    (if rate_acceptable (rate_contrl_param i) then irr_check_rate_ctrl_options i else Some (- EINVAL, i))
    \<and> (rate_acceptable (rate_contrl_param i) \<longrightarrow>
        (\<exists>j. irr_check_rate_ctrl_options i = Some (0, j) \<and> ref_info j = ref_info i
           \<and> (bitrate (rate_contrl_param j) = None \<or> average_frame_size j f = average_frame_size i f)))"
proof (cases "ratectrl (rate_contrl_param i)")
  case None
  then show ?thesis by (simp add: rate_acceptable_def irr_check_rate_ctrl_options_def)
next
  case mode: (Some mode)
  let ?p = "rate_contrl_param i"
  consider "strcaseeq mode ''CQP''" | "\<not> strcaseeq mode ''CQP''" "strcaseeq mode ''CBR'' \<or> strcaseeq mode ''VBR'' \<or> strcaseeq mode ''QVBR''"
    | "\<not> strcaseeq mode ''CQP''" "\<not> (strcaseeq mode ''CBR'' \<or> strcaseeq mode ''VBR'' \<or> strcaseeq mode ''QVBR'')"
    by blast
  then show ?thesis
  proof cases
    case 1
    then show ?thesis using rate_checked_qp [OF 1 mode] mode by (simp add: rate_acceptable_def Let_def)
  next
    case 2
    let ?q = "strcaseeq mode ''QVBR''"
    have keep: "bitrate (clip_rates ?q ?p) = bitrate ?p" "maxrate (clip_rates ?q ?p) = maxrate ?p" by (simp_all add: clip_rates_def)
    have rel: "rates_related mode (clip_rates ?q ?p) = rates_related mode ?p" by (simp only: rates_related_def keep)
    have qf: "?q \<Longrightarrow> qfactor (clip_rates ?q ?p) = qfactor ?p" by (simp add: clip_rates_def)
    show ?thesis
    proof (cases "rate_acceptable ?p")
      case True
      let ?j = "i\<lparr>rate_contrl_param := clip_rates ?q ?p\<rparr>"
      have "irr_check_rate_ctrl_options i = Some (0, ?j)"
        using True 2 mode qf by (simp add: rate_checked_rates [OF 2(2) mode] keep rel rate_acceptable_def Let_def)
      moreover have "average_frame_size ?j f = average_frame_size i f" by (simp add: average_frame_size_def keep)
      ultimately show ?thesis using True by auto
    next
      case False
      obtain ok where ok: "rate_compare mode (clip_rates ?q ?p) = Some ok"
        using rate_compare_defined [of "clip_rates ?q ?p" mode] convert_defined [OF assms] by (auto simp: keep)
      have "irr_check_rate_ctrl_options i \<noteq> Some (0, i\<lparr>rate_contrl_param := clip_rates ?q ?p\<rparr>)"
        using False 2 mode qf by (auto simp: rate_checked_rates [OF 2(2) mode] keep rel rate_acceptable_def Let_def)
      then have "irr_check_rate_ctrl_options i = Some (- EINVAL, i)"
        using ok mode by (auto simp: irr_check_rate_ctrl_options_def rate_mode_find [OF 2(2)] rate_stages_rates)
      with False show ?thesis by simp
    qed
  next
    case 3
    then show ?thesis using mode by (simp add: irr_check_rate_ctrl_options_def rate_ctrl_find_cases rate_acceptable_def)
  qed
qed

lemma check_max_frame_size_defined:
  assumes "framerate i = Some f" "bitrate (rate_contrl_param i) = None \<or> average_frame_size i f \<noteq> None"
  shows "\<exists>n. check_max_frame_size i = Some (i\<lparr>max_frame_size := n\<rparr>)"
proof (cases "bitrate (rate_contrl_param i) = None \<or> max_frame_size i < 0")
  case True
  then show ?thesis using assms(1) by (intro exI [of _ 0]) (auto simp: check_max_frame_size_def Let_def)
next
  case False
  then obtain a where a: "average_frame_size i f = Some a" using assms(2) by auto
  from False obtain y where "\<not> max_frame_size i < 0" "bitrate (rate_contrl_param i) = Some y" by auto
  then have "check_max_frame_size i =
      Some (if max_frame_size i > 0 \<and> atof f > 0 \<and> max_frame_size i < a then i\<lparr>max_frame_size := a\<rparr> else i)"
    using a assms(1) by (simp add: check_max_frame_size_def Let_def)
  moreover have "i = i\<lparr>max_frame_size := max_frame_size i\<rparr>" by simp
  ultimately show ?thesis by metis
qed

lemma rest_defined:
  assumes "url i = Some u" "u \<in> set valid_url" "ratectrl (rate_contrl_param i) = Some m"
    and "bitrate (rate_contrl_param i) = None \<or> average_frame_size i (frame_text i) \<noteq> None"
  shows "check_rest i \<noteq> None"
proof -
  obtain p where p: "check_profile i = Some (i\<lparr>profile := p\<rparr>)" using check_profile_known [OF assms(1,2)] by blast
  obtain l where l: "check_level (i\<lparr>profile := p\<rparr>) = Some (i\<lparr>profile := p, level := l\<rparr>)"
    using check_level_known [of "i\<lparr>profile := p\<rparr>" u] assms(1,2) by auto
  let ?i3 = "i\<lparr>profile := p, level := l\<rparr>"
  obtain roi where roi: "check_roi ?i3 = ?i3\<lparr>roi_info := roi\<rparr>" using check_roi_ok [of ?i3] by blast
  have f: "check_framerate (?i3\<lparr>roi_info := roi\<rparr>) = ?i3\<lparr>roi_info := roi, framerate := Some (frame_text i)\<rparr>"
    by (auto simp: check_framerate_def frame_text_def split: option.splits)
  let ?i4 = "?i3\<lparr>roi_info := roi, framerate := Some (frame_text i)\<rparr>"
  have avg: "average_frame_size ?i4 (frame_text i) = average_frame_size i (frame_text i)"
    by (simp add: average_frame_size_def)
  obtain i5 where i5: "check_max_frame_size ?i4 = Some i5" "rate_contrl_param i5 = rate_contrl_param i"
    using check_max_frame_size_defined [of ?i4 "frame_text i"] assms(4) avg by auto
  obtain g s q mf where n: "check_numbers i5 = i5\<lparr>gop_size := g, slices := s, quality := q, minfps_enc := mf\<rparr>"
    using check_numbers_ok by blast
  then have "ratectrl (rate_contrl_param (check_numbers i5)) = Some m" using i5(2) assms(3) by simp
  then have "check_low_delay (check_numbers i5) \<noteq> None" using check_modes_ok by fastforce
  then show ?thesis by (auto simp: check_rest_def p l roi f i5)
qed

section \<open>Properties\<close>

definition vbr_sample :: encoder_info_t where
  "vbr_sample = \<lparr>nPixfmt = 0, gop_size = 0, codec = None, format = None, url = Some ''irrv:265'', low_power = 0, width = 1280,
     height = 720, framerate = None, exp_vid_param = None, streaming = True, encodeType = VASURFACE_ID, encoderInstanceID = 0,
     rate_contrl_param = \<lparr>bitrate = Some ''2M'', qfactor = None, qp = Some ''25'', maxrate = Some ''4M'', ratectrl = Some ''vbr'',
       bufsize = Some ''0'', qmaxI = 60, qminI = -1, qmaxP = 0, qminP = 10\<rparr>,
     quality = 9, max_frame_size = 0,
     ref_info = \<lparr>int_ref_type = None, int_ref_cycle_size = 0, int_ref_qp_delta = 0\<rparr>,
     roi_info = \<lparr>roi_enabled = True, roi_x = 1200, roi_y = 0, roi_width = 100, roi_height = 100, roi_value = 10\<rparr>,
     slices = -1, sei = 0, finput = None, vframe = 0, foutput = None, loglevel = None, latency_opt = 1, auth = False,
     renderfps_enc = 1, minfps_enc = 0, profile = Some ''high'', level = Some ''4.1'', filter_nbthreads = 0,
     low_delay_brc = True, skip_frame = False, hwc_sock = None, plugin = None, tcaeEnabled = True, tcaeLogPath = None,
     user_id = 0\<rparr>"

definition vbr_checked :: encoder_info_t where
  "vbr_checked = vbr_sample\<lparr>gop_size := 120, framerate := Some ''30'', quality := 4, slices := 0, minfps_enc := 3,
     rate_contrl_param := (rate_contrl_param vbr_sample)\<lparr>qp := None, bufsize := None, qmaxI := 51, qminI := 0\<rparr>,
     roi_info := (roi_info vbr_sample)\<lparr>roi_enabled := False\<rparr>, profile := Some ''default'', plugin := Some ''vaapi''\<rparr>"

lemma sample_rates: "convert_bitrate (Some ''2M'') = Some 2000000" "convert_bitrate (Some ''4M'') = Some 4000000"
proof -
  have "dec_of_nat 2 = ''2''" "dec_of_nat 4 = ''4''" by code_simp+
  then show "convert_bitrate (Some ''2M'') = Some 2000000" "convert_bitrate (Some ''4M'') = Some 4000000"
    using convert_bitrate_units(3) [of 2] convert_bitrate_units(3) [of 4] by (simp_all add: INT_MAX_def)
qed

text \<open>
  Where the rates fit an \<open>int\<close> the check always comes to a decision, and the decision depends on nothing but the rate
  control and the intra refresh; options that are refused keep all their fields but the \<open>url\<close> and the rate control.
\<close>

theorem options_decided:
  assumes "average_frame_size i (frame_text i) \<noteq> None"
  shows "\<exists>r j. irr_check_options (Some i) = Some (r, Some j)
    \<and> r = (if rate_acceptable (rate_contrl_param i) \<and> rir_ok (ref_info i) then 0 else - EINVAL)
    \<and> (r = 0 \<or> j = i\<lparr>url := url j, rate_contrl_param := rate_contrl_param j\<rparr>)"
proof -
  obtain u where u: "u \<in> set valid_url" "check_url i = i\<lparr>url := Some u\<rparr>" using check_url_valid by blast
  let ?i = "i\<lparr>url := Some u\<rparr>"
  have avg: "average_frame_size ?i (frame_text i) = average_frame_size i (frame_text i)" by (simp add: average_frame_size_def)
  note dec = rate_decided [of ?i "frame_text i", unfolded avg, OF assms]
  show ?thesis
  proof (cases "rate_acceptable (rate_contrl_param i)")
    case False
    then have "irr_check_rate_ctrl_options ?i = Some (- EINVAL, ?i)" using dec by simp
    then show ?thesis using False u(2) by (simp add: irr_check_options_def EINVAL_def)
  next
    case True
    then obtain j where j: "irr_check_rate_ctrl_options ?i = Some (0, j)" "ref_info j = ref_info i"
      "bitrate (rate_contrl_param j) = None \<or> average_frame_size j (frame_text i) \<noteq> None"
      using dec assms by (auto simp: avg)
    have keep: "j = ?i\<lparr>rate_contrl_param := rate_contrl_param j\<rparr>" and "rate_ok (rate_contrl_param j)"
      using rate_checked [OF j(1)] by auto
    then obtain m where m: "ratectrl (rate_contrl_param j) = Some m" by (auto simp: rate_ok_def split: option.splits)
    have f: "frame_text j = frame_text i" "url j = Some u" by (subst keep, simp add: frame_text_def)+
    show ?thesis
    proof (cases "rir_ok (ref_info i)")
      case False
      then have "irr_check_options (Some i) = Some (- EINVAL, Some j)"
        using j(1,2) u(2) rir_result [of j] by (simp add: irr_check_options_def)
      moreover have "j = i\<lparr>url := url j, rate_contrl_param := rate_contrl_param j\<rparr>" using keep f(2) by simp
      ultimately show ?thesis using False by (auto simp: EINVAL_def)
    next
      case rir: True
      obtain k where "check_rest j = Some k" using rest_defined [OF f(2) u(1) m] j(3) f(1) by auto
      then have "irr_check_options (Some i) = Some (0, Some k)"
        using j(1,2) u(2) rir rir_result [of j] by (simp add: irr_check_options_def)
      then show ?thesis using True rir by auto
    qed
  qed
qed

theorem options_decided_witness:
  "\<exists>r j. irr_check_options (Some (vbr_sample\<lparr>framerate := Some ''25''\<rparr>)) = Some (r, Some j) \<and> r = 0"
proof -
  let ?i = "vbr_sample\<lparr>framerate := Some ''25''\<rparr>"
  have "dec_of_nat 25 = ''25''" by code_simp
  then have f: "atof ''25'' = 25" using atof_dec_of_nat [of 25] by simp
  have "dbl 160000 = 160000" "dbl 20000 = 20000" using dbl_of_nat [of 160000] dbl_of_nat [of 20000] by simp_all
  then have avg: "average_frame_size ?i ''25'' = Some 20000"
    by (simp add: average_frame_size_def vbr_sample_def sample_rates f int_of_dbl_def chk32_def INT_MIN_def INT_MAX_def)
  have t: "frame_text ?i = ''25''" "positive (Some ''2M'')" "positive (Some ''4M'')" "\<not> strcaseeq ''vbr'' ''CQP''"
    "strcaseeq ''vbr'' ''VBR''" "\<not> strcaseeq ''vbr'' ''QVBR''" "\<not> strcaseeq ''vbr'' ''CBR''" "rir_ok (ref_info ?i)"
    by code_simp+
  have "rate_acceptable (rate_contrl_param ?i)"
    using t(2-7) by (simp add: rate_acceptable_def rates_related_def vbr_sample_def sample_rates)
  then show ?thesis using options_decided [of ?i] avg t(1,8) by auto
qed

text \<open>C7. Options the check accepts are consistent, whatever they were before, and a second check accepts them as they are.\<close>

theorem options_checked:
  assumes "irr_check_options (Some i) = Some (0, Some j)"
  shows "options_ok j \<and> irr_check_options (Some j) = Some (0, Some j)"
  using options_accepted_ok [OF assms] options_fixed by blast

theorem options_checked_witness:
  "options_ok vbr_checked \<and> irr_check_options (Some vbr_checked) = Some (0, Some vbr_checked)"
proof -
  define q where "q = rate_contrl_param vbr_checked"
  have opts: "rate_ctrl_find ''vbr'' = Some \<lparr>need_qp = False, need_qfactor = False, need_bitrate = True, need_maxbitrate = True\<rparr>"
    "rate_stages \<lparr>need_qp = False, need_qfactor = False, need_bitrate = True, need_maxbitrate = True\<rparr>
       (rate_contrl_param vbr_sample) = Some q" "ratectrl (rate_contrl_param vbr_sample) = Some ''vbr''"
    "check_url vbr_sample = vbr_sample" "strcaseeq ''vbr'' ''VBR''" "\<not> strcaseeq ''vbr'' ''CBR''"
    unfolding q_def by code_simp+
  have "rate_compare ''vbr'' q = Some True" using opts(5,6)
    by (simp add: q_def vbr_checked_def vbr_sample_def rate_compare_def sample_rates)
  then have "irr_check_rate_ctrl_options (check_url vbr_sample) = Some (0, vbr_sample\<lparr>rate_contrl_param := q\<rparr>)"
    using opts(1-4) by (simp add: irr_check_rate_ctrl_options_def)
  moreover have "irr_check_rir_options (vbr_sample\<lparr>rate_contrl_param := q\<rparr>) = 0"
    "check_rest (vbr_sample\<lparr>rate_contrl_param := q\<rparr>) = Some vbr_checked"
    unfolding q_def by code_simp+
  ultimately have "irr_check_options (Some vbr_sample) = Some (0, Some vbr_checked)"
    by (simp add: irr_check_options_def)
  then show ?thesis using options_checked by blast
qed

end
