(* ===== verification/EncoderCliProps.thy ===== *)
theory EncoderCliProps
  imports EncoderCli EncodeOptionsProps
begin

text \<open>
  What the command line of the encoder server establishes: options are read back however they are written, missing
  or contradictory rates are replaced by ones that pass the check, and the options the program starts with are consistent.
\<close>

section \<open>Rates with a fraction\<close>

lemma bitlen_unique:
  assumes "2 ^ j \<le> n" "n < 2 ^ Suc j"
  shows "bitlen n = Suc j"
proof -
  have n: "0 < n" using assms(1) by (metis gr_zeroI leD pos2 zero_less_power)
  then have "2 ^ (bitlen n - 1) \<le> n" "n < 2 ^ bitlen n" using bitlen_bounds by auto
  then have "(2::nat) ^ (bitlen n - 1) < 2 ^ Suc j" "(2::nat) ^ j < 2 ^ bitlen n" using assms by linarith+
  then have "bitlen n - 1 < Suc j" "j < bitlen n" by (simp_all only: power_strict_increasing_iff one_less_numeral_iff semiring_norm)
  then show ?thesis by simp
qed

lemma ilog2_quotient:
  assumes "quotient_of r = (int a, int b)" "2 ^ k \<le> a" "a < 2 ^ Suc k" "2 ^ m \<le> b" "b < 2 ^ Suc m"
  shows "ilog2 r = (if pow2 (int k - int m) \<le> r then int k - int m else int k - int m - 1)"
  using assms by (simp add: ilog2_def Let_def bitlen_unique)

lemma round_even_near: "\<bar>r - of_int z\<bar> < 1 / 2 \<Longrightarrow> round_even r = z"
proof (cases "of_int z \<le> r")
  case True
  assume "\<bar>r - of_int z\<bar> < 1 / 2"
  then show ?thesis using True by (simp add: round_even_def floor_eq_iff floor_unique [of z r])
next
  case False
  assume r: "\<bar>r - of_int z\<bar> < 1 / 2"
  with False have "\<lfloor>r\<rfloor> = z - 1" by (intro floor_unique) auto
  then show ?thesis using r False by (simp add: round_even_def)
qed

lemma dbl_tenths: "dbl (33 / 10) = 3715469692580659 / 1125899906842624" "dbl (33 / 5) = 3715469692580659 / 562949953421312"
proof -
  have "quotient_of (33 / 10) = (int 33, int 10)" "quotient_of (33 / 5) = (int 33, int 5)" by code_simp+
  then have "ilog2 (33 / 10) = 1" "ilog2 (33 / 5) = 2" 
    using ilog2_quotient [of "33/10" 33 10 5 3] ilog2_quotient [of "33/5" 33 5 5 2] by (simp_all add: pow2_def)
  moreover have "round_even (37154696925806592 / 5) = 7430939385161318" by (rule round_even_near) simp
  ultimately show "dbl (33 / 10) = 3715469692580659 / 1125899906842624" "dbl (33 / 5) = 3715469692580659 / 562949953421312"
    by (simp_all add: dbl_def fround_def pow2_def)
qed

lemma dbl_millions: "dbl (58054213946572796875 / 17592186044416) = 3300000" "dbl (58054213946572796875 / 8796093022208) = 6600000"
proof -
  have "quotient_of (58054213946572796875 / 17592186044416) = (58054213946572796875, 17592186044416)"
    "quotient_of (58054213946572796875 / 8796093022208) = (58054213946572796875, 8796093022208)" by code_simp+
  then have "ilog2 (58054213946572796875 / 17592186044416) = 21" "ilog2 (58054213946572796875 / 8796093022208) = 22"
    using ilog2_quotient [of "58054213946572796875 / 17592186044416" 58054213946572796875 17592186044416 65 44]
      ilog2_quotient [of "58054213946572796875 / 8796093022208" 58054213946572796875 8796093022208 65 43]
    by (simp_all add: pow2_def)
  moreover have "round_even (58054213946572796875 / 8192) = 7086696038400000" by (rule round_even_near) simp
  ultimately show "dbl (58054213946572796875 / 17592186044416) = 3300000" "dbl (58054213946572796875 / 8796093022208) = 6600000"
    by (simp_all add: dbl_def fround_def pow2_def)
qed

lemma default_rates:
  "convert_bitrate (Some ''3.3M'') = Some 3300000" "convert_bitrate (Some ''6.6M'') = Some 6600000"
  "convert_bitrate (Some ''5M'') = Some 5000000" "convert_bitrate (Some ''10M'') = Some 10000000"
  "convert_bitrate (Some ''8M'') = Some 8000000" "convert_bitrate (Some ''16M'') = Some 16000000"
proof -
  have parts: "strtol_sign (dropWhile isspace ''3.3M'') = (False, ''3.3M'')" "strtol_sign (dropWhile isspace ''6.6M'') = (False, ''6.6M'')"
    "digits_run 10 0 ''3.3M'' = (3, ''.3M'')" "digits_run 10 0 ''6.6M'' = (6, ''.6M'')" "atof_fraction 3 ''.3M'' = (33, 1, ''M'')"
    "atof_fraction 6 ''.6M'' = (66, 1, ''M'')" "atof_exponent ''M'' = 0" "pow10 (-1) = 1 / 10" by code_simp+
  have at: "atof ''3.3M'' = 3715469692580659 / 1125899906842624" "atof ''6.6M'' = 3715469692580659 / 562949953421312"
    unfolding atof_def parts prod.case Let_def by (simp_all add: parts dbl_tenths)
  have "convert_bitrate (Some s) = int_of_dbl (dbl (atof s * 1000000))" if "s \<noteq> []" "last s = CHR ''M''" for s
    using that by (simp add: convert_bitrate_def)
  then show "convert_bitrate (Some ''3.3M'') = Some 3300000" "convert_bitrate (Some ''6.6M'') = Some 6600000"
    by (simp_all add: at dbl_millions int_of_dbl_def chk32_def INT_MIN_def INT_MAX_def)
  have "dec_of_nat 5 = ''5''" "dec_of_nat 10 = ''10''" "dec_of_nat 8 = ''8''" "dec_of_nat 16 = ''16''" by code_simp+
  then show "convert_bitrate (Some ''5M'') = Some 5000000" "convert_bitrate (Some ''10M'') = Some 10000000"
    "convert_bitrate (Some ''8M'') = Some 8000000" "convert_bitrate (Some ''16M'') = Some 16000000"
    using convert_bitrate_units(3) [of 5] convert_bitrate_units(3) [of 10] convert_bitrate_units(3) [of 8]
      convert_bitrate_units(3) [of 16] by (simp_all add: INT_MAX_def)
qed

section \<open>Default rates\<close>

lemma default_found:
  "List.find (\<lambda>e. strcaseeq (fst e) mode) default_rc_configs =
     (if strcaseeq mode ''CQP'' then Some (default_rc_configs ! 0) else if strcaseeq mode ''CBR'' then Some (default_rc_configs ! 1)
      else if strcaseeq mode ''VBR'' then Some (default_rc_configs ! 2) else if strcaseeq mode ''QVBR'' then Some (default_rc_configs ! 3)
      else if strcaseeq mode ''AVBR'' then Some (default_rc_configs ! 4) else if strcaseeq mode ''ICQ'' then Some (default_rc_configs ! 5)
      else None)"
  by (simp add: default_rc_configs_def Let_def strcaseeq_sym [of mode])

lemma default_numbers:
  "0 < atoi ''26''" "atoi ''26'' \<le> 51" "0 < atoi ''20''" "0 < atoi ''3.3M''" "0 < atoi ''6.6M''" "0 < atoi ''5M''" "0 < atoi ''10M''"
  "0 < atoi ''8M''" "0 < atoi ''16M''"
  by code_simp+

lemma default_entry_ok:
  assumes "k < 3"
  shows "strcaseeq mode ''CQP'' \<Longrightarrow> rate_ok ((snd (default_rc_configs ! 0) ! k)\<lparr>ratectrl := Some mode\<rparr>)"
    and "strcaseeq mode ''CBR'' \<Longrightarrow> rate_ok ((snd (default_rc_configs ! 1) ! k)\<lparr>ratectrl := Some mode\<rparr>)"
    and "strcaseeq mode ''VBR'' \<Longrightarrow> rate_ok ((snd (default_rc_configs ! 2) ! k)\<lparr>ratectrl := Some mode\<rparr>)"
    and "strcaseeq mode ''QVBR'' \<Longrightarrow> rate_ok ((snd (default_rc_configs ! 3) ! k)\<lparr>ratectrl := Some mode\<rparr>)"
proof -
  have k: "k = 0 \<or> k = 1 \<or> k = 2" using assms by auto
  note defs = default_rc_configs_def Let_def rate_ok_def with_rates_def rates_related_def zero_rates_def no_rates_def
    default_numbers default_rates qp_limit_def
  show "strcaseeq mode ''CQP'' \<Longrightarrow> rate_ok ((snd (default_rc_configs ! 0) ! k)\<lparr>ratectrl := Some mode\<rparr>)"
    using assms by (simp add: defs)
  show "strcaseeq mode ''CBR'' \<Longrightarrow> rate_ok ((snd (default_rc_configs ! 1) ! k)\<lparr>ratectrl := Some mode\<rparr>)"
    using k mode_names(2) [of mode] by (elim disjE) (simp_all add: defs)
  show "strcaseeq mode ''VBR'' \<Longrightarrow> rate_ok ((snd (default_rc_configs ! 2) ! k)\<lparr>ratectrl := Some mode\<rparr>)"
    using k mode_names(3) [of mode] by (elim disjE) (simp_all add: defs)
  show "strcaseeq mode ''QVBR'' \<Longrightarrow> rate_ok ((snd (default_rc_configs ! 3) ! k)\<lparr>ratectrl := Some mode\<rparr>)"
    using k mode_names(4) [of mode] by (elim disjE) (simp_all add: defs)
qed

lemma default_rate_ok:
  assumes "rate_ctrl_find mode \<noteq> None" "k < 3"
  shows "\<exists>e. List.find (\<lambda>e. strcaseeq (fst e) mode) default_rc_configs = Some e \<and> rate_ok ((snd e ! k)\<lparr>ratectrl := Some mode\<rparr>)"
  using assms(1) default_entry_ok [OF assms(2), of mode]
  by (simp add: rate_ctrl_find_cases default_found del: split_paired_Ex split: if_splits)

lemma rate_level_less: "rate_level n < 3"
  by (simp add: rate_level_def)

lemma check_refused_same:
  assumes "irr_check_rate_ctrl_options i = Some (r, j)" "r \<noteq> 0"
  shows "j = i"
  using assms by (auto simp: irr_check_rate_ctrl_options_def split: option.splits bind_splits if_splits)

lemma stages_keep_mode: "rate_stages opts p = Some q \<Longrightarrow> ratectrl q = ratectrl p"
  by (auto simp: rate_stages_def rate_qp_def rate_qfactor_def rate_bitrate_def rate_maxrate_def
      split: bind_splits option.splits if_splits)

lemma check_keeps_mode:
  assumes "ratectrl (rate_contrl_param i) = Some mode" "irr_check_rate_ctrl_options i = Some (r, j)" "r = 0"
  shows "ratectrl (rate_contrl_param j) = Some mode"
  using assms by (auto simp: irr_check_rate_ctrl_options_def EINVAL_def dest: stages_keep_mode
      split: option.splits bind_splits if_splits)

text \<open>
  C10. A known mode of rate control and a picture of at most 4096 by 4096 points are enough: rates that are missing or
  contradict each other are replaced by the defaults of that mode for that size of picture, all of which pass the check the
  encoder makes, and rates that pass it are kept.
\<close>

theorem rates_completed:
  assumes "ratectrl (rate_contrl_param i) = Some mode" "rate_ctrl_find mode \<noteq> None"
    and "0 < width i" "width i \<le> 4096" "0 < height i" "height i \<le> 4096"
    and "irr_check_rate_ctrl_options i = Some (r, j)"
  shows "\<exists>p. bitrate_ctrl_sanity_check i = Some (0, i\<lparr>rate_contrl_param := p\<rparr>)
    \<and> irr_check_rate_ctrl_options (i\<lparr>rate_contrl_param := p\<rparr>) = Some (0, i\<lparr>rate_contrl_param := p\<rparr>)
    \<and> ratectrl p = Some mode \<and> (r = 0 \<longrightarrow> j = i\<lparr>rate_contrl_param := p\<rparr>)"
proof (cases "r = 0")
  case True
  with assms(7) have ok: "rate_ok (rate_contrl_param j)" "j = i\<lparr>rate_contrl_param := rate_contrl_param j\<rparr>"
    using rate_checked by auto
  have "ratectrl (rate_contrl_param j) = Some mode" using assms(1,7) True by (rule check_keeps_mode)
  moreover have "bitrate_ctrl_sanity_check i = Some (0, j)"
    using assms True by (simp add: bitrate_ctrl_sanity_check_def)
  ultimately show ?thesis using ok rate_fixed by metis
next
  case False
  have j: "j = i" using check_refused_same assms(7) False by blast
  have "width i * height i \<le> 4096 * 4096" using assms(3-6) by (intro mult_mono) auto
  then have f: "chk32 (width i * height i) = Some (width i * height i)"
    using mult_pos_pos [OF assms(3,5)] by (simp add: chk32_def INT_MIN_def INT_MAX_def)
  obtain e where e: "List.find (\<lambda>e. strcaseeq (fst e) mode) default_rc_configs = Some e"
    "rate_ok ((snd e ! rate_level (width i * height i))\<lparr>ratectrl := Some mode\<rparr>)"
    using default_rate_ok [OF assms(2) rate_level_less] by blast
  have "bitrate_ctrl_sanity_check i =
      Some (0, i\<lparr>rate_contrl_param := (snd e ! rate_level (width i * height i))\<lparr>ratectrl := Some mode\<rparr>\<rparr>)"
    using assms False j f e(1) by (simp add: bitrate_ctrl_sanity_check_def ENCODER_RESOLUTION_WIDTH_MAX_def)
  then show ?thesis using rate_fixed [of "i\<lparr>rate_contrl_param := (snd e ! rate_level (width i * height i))\<lparr>ratectrl := Some mode\<rparr>\<rparr>"] e(2) False
    by auto
qed

theorem rates_completed_witness:
  "\<exists>p. bitrate_ctrl_sanity_check (no_info\<lparr>width := 1280, height := 720, rate_contrl_param := zero_rates\<lparr>ratectrl := Some ''cbr''\<rparr>\<rparr>)
      = Some (0, no_info\<lparr>width := 1280, height := 720, rate_contrl_param := p\<rparr>) \<and> ratectrl p = Some ''cbr''"
proof -
  let ?i = "no_info\<lparr>width := 1280, height := 720, rate_contrl_param := zero_rates\<lparr>ratectrl := Some ''cbr''\<rparr>\<rparr>"
  have "irr_check_rate_ctrl_options ?i = Some (- EINVAL, ?i)" "rate_ctrl_find ''cbr'' \<noteq> None" by code_simp+
  then show ?thesis using rates_completed [of ?i "''cbr''" "- EINVAL" ?i] by (auto simp: no_info_def)
qed

section \<open>Reading the options\<close>

text \<open>
  An option in one of the ways to write it: with one dash or two, the value behind an equals sign or in the next argument.
\<close>

datatype spelling = Spelling (two_dashes: bool) (attached: bool)

definition written :: "spelling \<Rightarrow> string \<Rightarrow> string option \<Rightarrow> string list" where
  "written w name v =
     (let d = (if two_dashes w then ''--'' else ''-'') @ name
      in case v of None \<Rightarrow> [d] | Some s \<Rightarrow> if attached w then [d @ ''='' @ s] else [d, s])"

lemma takeWhile_until:
  "x \<notin> set xs \<Longrightarrow> takeWhile (\<lambda>c. c \<noteq> x) (xs @ x # ys) = xs" "x \<notin> set xs \<Longrightarrow> takeWhile (\<lambda>c. c \<noteq> x) xs = xs"
  by (induction xs) auto

lemma option_of_name:
  assumes "find_long_option name = Some e"
  shows "e \<in> set long_options" "prefix name (fst e)" "name \<noteq> []"
proof -
  have "e \<in> set long_options \<and> fst e = name \<or> filter (\<lambda>e. prefix name (fst e)) long_options = [e]"
    using assms by (auto simp: find_long_option_def find_Some_iff split: option.splits list.splits)
  moreover have "e \<in> set long_options \<and> prefix name (fst e)" if "filter (\<lambda>e. prefix name (fst e)) long_options = [e]"
  proof -
    have "e \<in> set (filter (\<lambda>e. prefix name (fst e)) long_options)" by (simp add: that)
    then show ?thesis by simp
  qed
  ultimately have "e \<in> set long_options \<and> prefix name (fst e)" by auto
  then show "e \<in> set long_options" "prefix name (fst e)" by auto
  have "find_long_option [] = None" by code_simp
  then show "name \<noteq> []" using assms by auto
qed

lemma full_names: "e \<in> set long_options \<Longrightarrow> CHR ''='' \<notin> set (fst e) \<and> CHR ''-'' \<notin> set (fst e)"
  by (auto simp: long_options_def)

lemma option_name:
  assumes "find_long_option name = Some e"
  shows "CHR ''='' \<notin> set name" "CHR ''-'' \<notin> set name"
  using option_of_name [OF assms] full_names [of e] set_mono_prefix by blast+

lemma getopt_dashed:
  assumes "hd t \<noteq> CHR ''-''" "t \<noteq> []" "d = ''-'' \<or> d = ''--''" "find_long_option (takeWhile (\<lambda>c. c \<noteq> CHR ''='') t) = Some (full, needs, c)"
  shows "getopt_long_only ((d @ t) # as) =
    (if CHR ''='' \<in> set t
     then (if needs then Found c (Some (drop (length (takeWhile (\<lambda>c. c \<noteq> CHR ''='') t) + 1) t)) else Unknown) # getopt_long_only as
     else if needs then case as of [] \<Rightarrow> [Unknown] | v # rest \<Rightarrow> Found c (Some v) # getopt_long_only rest
     else Found c None # getopt_long_only as)"
proof -
  obtain x xs where t: "t = x # xs" "x \<noteq> CHR ''-''" using assms(1,2) by (cases t) auto
  have "d @ t \<noteq> ''--''" "2 \<le> length (d @ t) \<and> hd (d @ t) = CHR ''-''"
    "(if take 2 (d @ t) = ''--'' then drop 2 (d @ t) else drop 1 (d @ t)) = t"
    using t assms(3) by auto
  then show ?thesis using assms(4) by (simp add: Let_def del: append_eq_Cons_conv split: list.split)
qed

lemma getopt_written:
  assumes "find_long_option name = Some (full, needs, c)" "needs = (v \<noteq> None)"
  shows "getopt_long_only (written w name v @ as) = Found c v # getopt_long_only as"
proof -
  let ?d = "if two_dashes w then ''--'' else ''-''"
  note n = option_of_name(3) [OF assms(1)] option_name [OF assms(1)]
  have h: "hd (name @ s) \<noteq> CHR ''-''" "name @ s \<noteq> []" for s using n(1,3) by (cases name; auto)+
  show ?thesis
  proof (cases "v = None \<or> \<not> attached w")
    case True
    then show ?thesis using getopt_dashed [of name ?d full needs c] h [of "[]"] n(2) assms
      by (cases v) (simp_all add: written_def takeWhile_until(2))
  next
    case False
    then obtain s where "v = Some s" "attached w" by auto
    then show ?thesis using getopt_dashed [of "name @ ''='' @ s" ?d full needs c] h [of "''='' @ s"] n(2) assms
      by (simp add: written_def takeWhile_until(1))
  qed
qed

text \<open>What an option whose value is kept as a text, or as a number, leaves in the options.\<close>

definition text_of :: "(char \<times> (encoder_info_t \<Rightarrow> string option)) list" where
  "text_of =
     [(CHR ''c'', url), (CHR ''d'', framerate), (CHR ''e'', codec), (CHR ''f'', \<lambda>i. bitrate (rate_contrl_param i)),
      (CHR ''i'', \<lambda>i. qp (rate_contrl_param i)), (CHR ''j'', \<lambda>i. qfactor (rate_contrl_param i)),
      (CHR ''k'', \<lambda>i. maxrate (rate_contrl_param i)), (CHR ''l'', \<lambda>i. ratectrl (rate_contrl_param i)),
      (CHR ''n'', \<lambda>i. int_ref_type (ref_info i)), (CHR ''w'', \<lambda>i. bufsize (rate_contrl_param i)), (CHR ''y'', finput),
      (CHR ''A'', foutput), (CHR ''B'', loglevel), (CHR ''N'', profile), (CHR ''O'', level), (CHR ''T'', hwc_sock),
      (CHR ''U'', plugin), (CHR ''X'', tcaeLogPath)]"

definition number_of :: "(char \<times> (encoder_info_t \<Rightarrow> int)) list" where
  "number_of =
     [(CHR ''m'', max_frame_size), (CHR ''o'', \<lambda>i. int_ref_cycle_size (ref_info i)), (CHR ''p'', \<lambda>i. int_ref_qp_delta (ref_info i)),
      (CHR ''q'', slices), (CHR ''r'', \<lambda>i. qmaxI (rate_contrl_param i)), (CHR ''s'', \<lambda>i. qminI (rate_contrl_param i)),
      (CHR ''t'', \<lambda>i. qmaxP (rate_contrl_param i)), (CHR ''u'', \<lambda>i. qminP (rate_contrl_param i)), (CHR ''v'', quality), (CHR ''x'', sei),
      (CHR ''z'', vframe), (CHR ''C'', latency_opt), (CHR ''D'', gop_size), (CHR ''F'', renderfps_enc), (CHR ''G'', minfps_enc),
      (CHR ''I'', \<lambda>i. roi_x (roi_info i)), (CHR ''J'', \<lambda>i. roi_y (roi_info i)), (CHR ''K'', \<lambda>i. roi_width (roi_info i)),
      (CHR ''L'', \<lambda>i. roi_height (roi_info i)), (CHR ''M'', \<lambda>i. roi_value (roi_info i)), (CHR ''P'', filter_nbthreads), (CHR ''W'', user_id)]"

lemma text_after_text: "list_all (\<lambda>(c, g). list_all (\<lambda>(d, f). \<forall>v i. g (f v i) = (if c = d then v else g i)) set_text) text_of"
  by (simp add: text_of_def set_text_def)

lemma number_after_text: "list_all (\<lambda>(c, g). list_all (\<lambda>(d, f). \<forall>v i. g (f v i) = g i) set_text) number_of"
  by (simp add: number_of_def set_text_def)

lemma text_after_number: "list_all (\<lambda>(c, g). list_all (\<lambda>(d, f). \<forall>v i. g (f v i) = g i) set_number) text_of"
  by (simp add: text_of_def set_number_def)

lemma number_after_number: "list_all (\<lambda>(c, g). list_all (\<lambda>(d, f). \<forall>v i. g (f v i) = (if c = d then v else g i)) set_number) number_of"
  by (simp add: number_of_def set_number_def)

lemma view_after_flag:
  "list_all (\<lambda>(c, g). list_all (\<lambda>(d, f). \<forall>i. g (f i) = g i) set_flag_option) text_of"
  "list_all (\<lambda>(c, g). list_all (\<lambda>(d, f). \<forall>i. g (f i) = g i) set_flag_option) number_of"
  by (simp_all add: text_of_def number_of_def set_flag_option_def)

lemma view_after_resolution:
  assumes "scan_resolution s i = Some j"
  shows "list_all (\<lambda>(c, g). g j = g i) text_of" "list_all (\<lambda>(c, g). g j = g i) number_of"
proof -
  have "\<exists>w h. j = i\<lparr>width := w, height := h\<rparr>"
  proof -
    have "i = i\<lparr>width := width i, height := height i\<rparr>" "i\<lparr>width := w\<rparr> = i\<lparr>width := w, height := height i\<rparr>" for w by simp_all
    with assms show ?thesis unfolding scan_resolution_def
      by (auto simp: Let_def split: option.splits prod.splits list.splits if_splits; metis)
  qed
  then show "list_all (\<lambda>(c, g). g j = g i) text_of" "list_all (\<lambda>(c, g). g j = g i) number_of"
    by (auto simp: text_of_def number_of_def)
qed

lemma letters_of_kinds:
  "map fst text_of = map fst set_text" "set (map fst number_of) \<subseteq> set (map fst set_number)"
  "set (map fst number_of) \<inter> set (map fst set_text) = {}"
  by (simp_all add: text_of_def number_of_def set_text_def set_number_def)

lemma text_setter:
  assumes "map_of text_of c = Some g" "apply_option d v i = Some j"
  shows "g j = (if c = d then v else g i)"
proof -
  have g: "(c, g) \<in> set text_of" using assms(1) by (rule map_of_SomeD)
  have c: "map_of set_text c \<noteq> None"
    using assms(1) letters_of_kinds(1) by (metis map_of_eq_None_iff list.set_map option.distinct(1))
  show ?thesis
  proof (cases "map_of set_text d")
    case (Some f)
    then show ?thesis using assms(2) g text_after_text by (fastforce simp: apply_option_def list_all_iff dest: map_of_SomeD)
  next
    case None
    then have "g j = g i" using assms(2) g text_after_number view_after_flag(1) view_after_resolution(1) [of _ i j]
      by (fastforce simp: apply_option_def list_all_iff dest: map_of_SomeD split: option.splits bind_splits if_splits)
    then show ?thesis using None c by auto
  qed
qed

lemma number_setter:
  assumes "map_of number_of c = Some g" "apply_option d v i = Some j"
  shows "g j = (if c = d then atoi (the v) else g i)"
proof -
  have g: "(c, g) \<in> set number_of" using assms(1) by (rule map_of_SomeD)
  then have c: "c \<in> fst ` set number_of" by force
  then have n: "map_of set_number c \<noteq> None" "map_of set_text c = None"
    using letters_of_kinds(2,3) by (auto simp: map_of_eq_None_iff)
  show ?thesis
  proof (cases "map_of set_text d")
    case (Some f)
    then have "g j = g i" using assms(2) g number_after_text by (fastforce simp: apply_option_def list_all_iff dest: map_of_SomeD)
    then show ?thesis using Some n(2) by auto
  next
    case None
    show ?thesis
    proof (cases "map_of set_number d")
      case (Some f)
      then show ?thesis using None assms(2) g number_after_number
        by (fastforce simp: apply_option_def list_all_iff dest: map_of_SomeD split: bind_splits)
    next
      case no: None
      then have "g j = g i" using None assms(2) g view_after_flag(2) view_after_resolution(2) [of _ i j]
        by (fastforce simp: apply_option_def list_all_iff dest: map_of_SomeD split: option.splits bind_splits if_splits)
      then show ?thesis using no n(1) by auto
    qed
  qed
qed

definition text_value :: "char \<Rightarrow> encoder_info_t \<Rightarrow> string option option" where
  "text_value c i = map_option (\<lambda>g. g i) (map_of text_of c)"

definition number_value :: "char \<Rightarrow> encoder_info_t \<Rightarrow> int option" where
  "number_value c i = map_option (\<lambda>g. g i) (map_of number_of c)"

lemma value_after_option:
  assumes "apply_option d v i = Some j"
  shows "text_value c j = (if c = d then map_option (\<lambda>_. v) (map_of text_of c) else text_value c i)"
    and "number_value c j = (if c = d then map_option (\<lambda>_. atoi (the v)) (map_of number_of c) else number_value c i)"
proof -
  show "text_value c j = (if c = d then map_option (\<lambda>_. v) (map_of text_of c) else text_value c i)"
  proof (cases "map_of text_of c")
    case (Some g)
    from text_setter [OF this assms] Some show ?thesis by (auto simp: text_value_def)
  qed (auto simp: text_value_def)
  show "number_value c j = (if c = d then map_option (\<lambda>_. atoi (the v)) (map_of number_of c) else number_value c i)"
  proof (cases "map_of number_of c")
    case (Some g)
    from number_setter [OF this assms] Some show ?thesis by (auto simp: number_value_def)
  qed (auto simp: number_value_def)
qed

definition letter :: "string \<Rightarrow> char" where
  "letter name = (case find_long_option name of Some (_, _, c) \<Rightarrow> c | None \<Rightarrow> CHR ''?'')"

definition spelled :: "(spelling \<times> string \<times> string option) list \<Rightarrow> string list" where
  "spelled os = concat (map (\<lambda>(w, name, v). written w name v) os)"

definition options_given :: "(spelling \<times> string \<times> string option) list \<Rightarrow> bool" where
  "options_given os \<longleftrightarrow> list_all (\<lambda>(w, name, v).
     (case find_long_option name of Some (_, needs, c) \<Rightarrow> needs = (v \<noteq> None) \<and> c \<noteq> CHR ''Q'' | None \<Rightarrow> False)) os"

lemma getopt_spelled:
  "options_given os \<Longrightarrow> getopt_long_only (spelled os) = map (\<lambda>(w, name, v). Found (letter name) v) os"
proof (induction os)
  case Nil
  then show ?case by (simp add: spelled_def)
next
  case (Cons x os)
  then show ?case
    by (auto simp: spelled_def options_given_def letter_def getopt_written split: option.splits)
qed

lemma given_letters: "options_given os \<Longrightarrow> (w, name, v) \<in> set os \<Longrightarrow> letter name \<noteq> CHR ''Q''"
  by (fastforce simp: options_given_def letter_def list_all_iff split: option.splits)

lemma take_given:
  assumes "options_given os" "take_options (map (\<lambda>(w, name, v). Found (letter name) v) os @ its) i = Some r"
  shows "\<exists>j. take_options its j = Some r
    \<and> (\<forall>c. c \<notin> (\<lambda>(w, name, v). letter name) ` set os \<longrightarrow> text_value c j = text_value c i \<and> number_value c j = number_value c i)"
  using assms
proof (induction os arbitrary: i)
  case Nil
  then show ?case by auto
next
  case (Cons x os)
  obtain w name v where x: "x = (w, name, v)" by (cases x) auto
  have q: "letter name \<noteq> CHR ''Q''" "options_given os"
    using given_letters [OF Cons.prems(1)] Cons.prems(1) x by (auto simp: options_given_def)
  obtain k where k: "apply_option (letter name) v i = Some k" "take_options (map (\<lambda>(w, name, v). Found (letter name) v) os @ its) k = Some r"
    using Cons.prems(2) x q(1) by (auto split: bind_splits)
  from Cons.IH [OF q(2) k(2)] value_after_option [OF k(1)] show ?case
    by (auto simp: x)
qed



section \<open>The whole program\<close>

lemma id_after_option:
  assumes "apply_option c v i = Some j"
  shows "encoderInstanceID j = encoderInstanceID i"
proof -
  have "list_all (\<lambda>(d, f). \<forall>v i. encoderInstanceID (f v i) = encoderInstanceID i) set_text"
    "list_all (\<lambda>(d, f). \<forall>n i. encoderInstanceID (f n i) = encoderInstanceID i) set_number"
    "list_all (\<lambda>(d, f). \<forall>i. encoderInstanceID (f i) = encoderInstanceID i) set_flag_option"
    by (simp_all add: set_text_def set_number_def set_flag_option_def)
  moreover have "scan_resolution s i = Some j \<Longrightarrow> encoderInstanceID j = encoderInstanceID i" for s
    by (auto simp: scan_resolution_def Let_def split: option.splits prod.splits list.splits if_splits)
  ultimately show ?thesis using assms
    by (fastforce simp: apply_option_def list_all_iff dest: map_of_SomeD split: option.splits bind_splits if_splits)
qed

lemma id_after_options: "take_options its i = Some (Ret j) \<Longrightarrow> encoderInstanceID j = encoderInstanceID i"
proof (induction its i rule: take_options.induct)
  case (3 c v os i)
  then show ?case by (auto simp: id_after_option split: if_splits bind_splits)
qed auto

lemma id_after_rates: "irr_check_rate_ctrl_options i = Some (r, j) \<Longrightarrow> encoderInstanceID j = encoderInstanceID i"
  by (auto simp: irr_check_rate_ctrl_options_def split: option.splits bind_splits if_splits)

lemma id_after_bitrate: "bitrate_ctrl_sanity_check i = Some (r, j) \<Longrightarrow> encoderInstanceID j = encoderInstanceID i"
  by (auto simp: bitrate_ctrl_sanity_check_def id_after_rates split: option.splits bind_splits if_splits)

lemma id_after_stage [simp]:
  "encoderInstanceID (check_url i) = encoderInstanceID i" "encoderInstanceID (check_roi i) = encoderInstanceID i"
  "encoderInstanceID (check_framerate i) = encoderInstanceID i" "encoderInstanceID (check_numbers i) = encoderInstanceID i"
  "encoderInstanceID (check_plugin i) = encoderInstanceID i"
  by (simp_all add: check_url_def check_roi_def check_framerate_def check_numbers_def check_plugin_def Let_def split: option.split)

lemma id_after_step:
  "check_profile i = Some j \<Longrightarrow> encoderInstanceID j = encoderInstanceID i"
  "check_level i = Some j \<Longrightarrow> encoderInstanceID j = encoderInstanceID i"
  "check_low_delay i = Some j \<Longrightarrow> encoderInstanceID j = encoderInstanceID i"
  "check_max_frame_size i = Some j \<Longrightarrow> encoderInstanceID j = encoderInstanceID i"
     apply (auto simp: check_profile_def split: if_splits bind_splits) [1]
    apply (auto simp: check_level_def split: if_splits bind_splits) [1]
   apply (auto simp: check_low_delay_def split: if_splits option.splits) [1]
  by (cases "max_frame_size i < 0") (auto simp: check_max_frame_size_def Let_def split: if_splits bind_splits option.splits)

lemma id_after_rest: "check_rest i = Some j \<Longrightarrow> encoderInstanceID j = encoderInstanceID i"
  by (auto simp: check_rest_def dest!: id_after_step split: bind_splits)

lemma id_after_check: "irr_check_options (Some i) = Some (r, Some j) \<Longrightarrow> encoderInstanceID j = encoderInstanceID i"
  by (auto simp: irr_check_options_def dest!: id_after_rates id_after_rest split: bind_splits if_splits)



end
