(* ===== verification/CDouble.thy ===== *)
theory CDouble
  imports CNumber
begin

text \<open>
  Arithmetic on doubles: every operation rounds its exact result with \<open>dbl\<close>, as the hardware does without fused
  operations. The range is not limited above, since the values of the modelled code stay far below its limit; a
  division by zero has no result. What rounding keeps is stated here once: signs, order, doubles, and a relative error.
\<close>

section \<open>Operations\<close>

definition dadd :: "rat \<Rightarrow> rat \<Rightarrow> rat" where "dadd x y = dbl (x + y)"

definition dsub :: "rat \<Rightarrow> rat \<Rightarrow> rat" where "dsub x y = dbl (x - y)"

definition dmul :: "rat \<Rightarrow> rat \<Rightarrow> rat" where "dmul x y = dbl (x * y)"

definition dquot :: "rat \<Rightarrow> rat \<Rightarrow> rat" where "dquot x y = dbl (x / y)"

definition ddiv :: "rat \<Rightarrow> rat \<Rightarrow> rat option" where
  "ddiv x y = (if y = 0 then None else Some (dquot x y))"

text \<open>The square root, rounded: the integer root of the scaled number, and one more if that is nearer.\<close>

fun isqrt :: "nat \<Rightarrow> nat" where
  "isqrt n = (if n = 0 then 0 else let s = 2 * isqrt (n div 4) in if (s + 1) ^ 2 \<le> n then s + 1 else s)"

declare isqrt.simps [simp del]

definition dsqrt :: "rat \<Rightarrow> rat" where
  "dsqrt r =
     (if r \<le> 0 then 0
      else let q = pow2 (max (ilog2 r div 2 - 52) (- 1074));
               t = r / (q * q); n = isqrt (nat \<lfloor>t\<rfloor>)
           in (if (of_nat n + 1 / 2) ^ 2 < t then of_nat n + 1 else of_nat n) * q)"

section \<open>Rounding to an integer\<close>

lemma round_even_error: "\<bar>of_int (round_even r) - r\<bar> \<le> 1 / 2"
proof -
  have "of_int \<lfloor>r\<rfloor> \<le> r" "r < of_int \<lfloor>r\<rfloor> + 1" by linarith+
  then show ?thesis by (cases "r - of_int \<lfloor>r\<rfloor> < 1 / 2") (auto simp: round_even_def Let_def abs_le_iff)
qed

lemma round_even_mono: "r \<le> s \<Longrightarrow> round_even r \<le> round_even s"
proof -
  assume le: "r \<le> s"
  then have f: "\<lfloor>r\<rfloor> \<le> \<lfloor>s\<rfloor>" by (rule floor_mono)
  have b: "\<lfloor>x\<rfloor> \<le> round_even x \<and> round_even x \<le> \<lfloor>x\<rfloor> + 1" for x by (simp add: round_even_def Let_def)
  show ?thesis
  proof (cases "\<lfloor>r\<rfloor> = \<lfloor>s\<rfloor>")
    case True
    then show ?thesis using le by (auto simp: round_even_def Let_def)
  next
    case False
    then show ?thesis using f b [of r] b [of s] by linarith
  qed
qed

lemma round_even_minus: "round_even (- r) = - round_even r"
proof (cases "r = of_int \<lfloor>r\<rfloor>")
  case True
  have "round_even (of_int (- \<lfloor>r\<rfloor>)) = - round_even (of_int \<lfloor>r\<rfloor>)" by (simp only: round_even_of_int)
  then show ?thesis by (subst (1 2) True) simp
next
  case False
  then have f: "\<lfloor>- r\<rfloor> = - \<lfloor>r\<rfloor> - 1" by (simp add: floor_minus ceiling_altdef)
  show ?thesis using False by (auto simp: round_even_def Let_def f)
qed

section \<open>Powers of two\<close>

lemma pow2_powi: "pow2 e = 2 powi e"
  unfolding pow2_def power_int_def by (simp add: field_simps power_divide)

lemma pow2_pos [simp]: "0 < pow2 e" "pow2 e \<noteq> 0" "0 \<le> pow2 e"
  by (simp_all add: pow2_powi)

lemma pow2_add: "pow2 (a + b) = pow2 a * pow2 b"
  by (simp add: pow2_powi power_int_add)

lemma pow2_diff: "pow2 (a - b) = pow2 a / pow2 b"
  by (simp add: pow2_powi power_int_diff)

lemma pow2_mono: "a \<le> b \<Longrightarrow> pow2 a \<le> pow2 b"
  by (simp add: pow2_powi power_int_increasing)

lemma pow2_strict_mono: "a < b \<Longrightarrow> pow2 a < pow2 b"
  by (simp add: pow2_powi power_int_strict_increasing)

lemma pow2_less_iff: "pow2 a < pow2 b \<longleftrightarrow> a < b"
  using pow2_mono pow2_strict_mono by (metis not_less)

lemma pow2_int: "0 \<le> e \<Longrightarrow> pow2 e = of_int (2 ^ nat e)"
  by (simp add: pow2_def)

lemma ilog2_bounds:
  assumes "0 < r"
  shows "pow2 (ilog2 r) \<le> r" "r < pow2 (ilog2 r + 1)"
proof -
  obtain a b where q: "quotient_of r = (a, b)" by fastforce
  have r: "r = of_int a / of_int b" and b: "0 < b" using quotient_of_div [OF q] quotient_of_denom_pos [OF q] by simp_all
  have a: "0 < a" using assms b by (auto simp: r zero_less_divide_iff)
  define k m where "k = bitlen (nat a)" and "m = bitlen (nat b)"
  have k: "2 ^ (k - 1) \<le> nat a" "nat a < 2 ^ k" "2 ^ (m - 1) \<le> nat b" "nat b < 2 ^ m"
    using bitlen_bounds [of "nat a"] bitlen_bounds [of "nat b"] a b by (simp_all add: k_def m_def)
  have pos: "0 < k" "0 < m" using a b by (simp_all add: k_def m_def bitlen.simps [of "nat a"] bitlen.simps [of "nat b"])
  have bit: "pow2 (int j - 1) \<le> of_int x" "of_int x < pow2 (int j)"
    if "2 ^ (j - 1) \<le> nat x" "nat x < 2 ^ j" "0 < j" "0 < x" for j x
  proof -
    have e: "int j - 1 = int (j - 1)" using that(3) by simp
    have x: "of_int x = (of_nat (nat x) :: rat)" using that(4) by simp
    have "of_nat (2 ^ (j - 1)) \<le> (of_nat (nat x) :: rat)" using that(1) by (simp only: of_nat_le_iff)
    moreover have "(of_nat (nat x) :: rat) < of_nat (2 ^ j)" using that(2) by (simp only: of_nat_less_iff)
    ultimately show "pow2 (int j - 1) \<le> of_int x" "of_int x < pow2 (int j)"
      unfolding e x by (simp_all add: pow2_def)
  qed
  note A = bit [OF k(1,2) pos(1) a] and B = bit [OF k(3,4) pos(2) b]
  have "of_int a / of_int b < pow2 (int k) / pow2 (int m - 1)"
    using A B a b by (intro frac_less) auto
  then have up: "r < pow2 (int k - int m + 1)" by (simp add: r pow2_diff [symmetric] algebra_simps)
  have "pow2 (int k - 1) / pow2 (int m) < of_int a / of_int b"
    using A B a b by (intro frac_less2) auto
  then have low: "pow2 (int k - int m - 1) < r" by (simp add: r pow2_diff [symmetric] algebra_simps)
  show "pow2 (ilog2 r) \<le> r" "r < pow2 (ilog2 r + 1)"
    using up low by (auto simp: ilog2_def q Let_def k_def [symmetric] m_def [symmetric])
qed

lemma ilog2_mono:
  assumes "0 < r" "r \<le> s"
  shows "ilog2 r \<le> ilog2 s"
proof -
  have "pow2 (ilog2 r) < pow2 (ilog2 s + 1)"
    using ilog2_bounds [of r] ilog2_bounds [of s] assms by linarith
  then show ?thesis by (simp add: pow2_less_iff)
qed

section \<open>Rounding to a double\<close>

text \<open>The spacing of the doubles around a number.\<close>

definition dexp :: "rat \<Rightarrow> int" where
  "dexp r = max (ilog2 \<bar>r\<bar> - 52) (- 1074)"

lemma dbl_eq: "dbl r = of_int (round_even (r / pow2 (dexp r))) * pow2 (dexp r)"
  by (cases "r = 0") (simp_all add: dbl_def fround_def dexp_def Let_def, simp add: round_even_def)

lemma dbl_0 [simp]: "dbl 0 = 0"
  by (simp add: dbl_def)

lemma dbl_minus: "dbl (- r) = - dbl r"
proof -
  have "dexp (- r) = dexp r" by (simp add: dexp_def)
  then show ?thesis using round_even_minus [of "r / pow2 (dexp r)"] by (simp add: dbl_eq)
qed

lemma dbl_nonneg: "0 \<le> r \<Longrightarrow> 0 \<le> dbl r"
  unfolding dbl_eq by (intro mult_nonneg_nonneg) (auto simp: round_even_nonneg)

lemma round_even_le_int: "r \<le> of_int z \<Longrightarrow> round_even r \<le> z"
  using round_even_mono [of r "of_int z"] by simp

lemma round_even_ge_int: "of_int z \<le> r \<Longrightarrow> z \<le> round_even r"
  using round_even_mono [of "of_int z" r] by simp

text \<open>A power of two that is a multiple of the spacing bounds the rounded number.\<close>

lemma dbl_le_pow2:
  assumes "r \<le> pow2 k" "dexp r \<le> k"
  shows "dbl r \<le> pow2 k"
proof -
  have "r / pow2 (dexp r) \<le> pow2 (k - dexp r)" using assms(1) unfolding pow2_diff by (intro divide_right_mono) auto
  also have "\<dots> = of_int (2 ^ nat (k - dexp r))" using assms(2) by (intro pow2_int) simp
  finally have "of_int (round_even (r / pow2 (dexp r))) \<le> (of_int (2 ^ nat (k - dexp r)) :: rat)"
    by (simp only: of_int_le_iff round_even_le_int)
  also have "\<dots> = pow2 k / pow2 (dexp r)" using assms(2) by (subst pow2_int [symmetric]) (simp_all add: pow2_diff)
  finally show ?thesis by (simp add: dbl_eq pos_le_divide_eq)
qed

lemma dbl_ge_pow2:
  assumes "pow2 k \<le> r" "dexp r \<le> k"
  shows "pow2 k \<le> dbl r"
proof -
  have "of_int (2 ^ nat (k - dexp r)) = pow2 (k - dexp r)" using assms(2) by (intro pow2_int [symmetric]) simp
  also have "\<dots> \<le> r / pow2 (dexp r)" using assms(1) unfolding pow2_diff by (intro divide_right_mono) auto
  finally have "(of_int (2 ^ nat (k - dexp r)) :: rat) \<le> of_int (round_even (r / pow2 (dexp r)))"
    by (simp only: of_int_le_iff round_even_ge_int)
  moreover have "(of_int (2 ^ nat (k - dexp r)) :: rat) = pow2 k / pow2 (dexp r)" using assms(2) by (subst pow2_int [symmetric]) (simp_all add: pow2_diff)
  ultimately have "pow2 k / pow2 (dexp r) \<le> of_int (round_even (r / pow2 (dexp r)))" by metis
  then show ?thesis by (simp add: dbl_eq pos_divide_le_eq)
qed

lemma dbl_mono_pos:
  assumes "0 < r" "r \<le> s"
  shows "dbl r \<le> dbl s"
proof (cases "dexp r = dexp s")
  case True
  have "round_even (r / pow2 (dexp s)) \<le> round_even (s / pow2 (dexp s))"
    using assms(2) by (intro round_even_mono divide_right_mono) (auto intro: less_imp_le)
  then show ?thesis using True by (simp add: dbl_eq)
next
  case False
  have le: "ilog2 r \<le> ilog2 s" using ilog2_mono [OF assms] .
  with False assms have e: "dexp s = ilog2 s - 52" "dexp r < dexp s" by (auto simp: dexp_def)
  have rs: "ilog2 r < ilog2 s" using e False assms le by (auto simp: dexp_def)
  have "pow2 (ilog2 s) \<le> dbl s" using ilog2_bounds [of s] assms e by (intro dbl_ge_pow2) auto
  moreover have "r \<le> pow2 (ilog2 s)"
    using ilog2_bounds(2) [OF assms(1)] pow2_mono [of "ilog2 r + 1" "ilog2 s"] rs by linarith
  then have "dbl r \<le> pow2 (ilog2 s)" using e by (intro dbl_le_pow2) auto
  ultimately show ?thesis by linarith
qed

lemma dbl_mono:
  assumes "r \<le> s"
  shows "dbl r \<le> dbl s"
proof -
  consider "0 < r" | "r \<le> 0" "0 \<le> s" | "s < 0" by linarith
  then show ?thesis
  proof cases
    case 1
    then show ?thesis using dbl_mono_pos assms by blast
  next
    case 2
    then show ?thesis using dbl_nonneg [of s] dbl_nonneg [of "- r"] by (simp add: dbl_minus)
  next
    case 3
    then show ?thesis using dbl_mono_pos [of "- s" "- r"] assms by (simp add: dbl_minus)
  qed
qed

lemma dbl_error: "\<bar>dbl r - r\<bar> \<le> \<bar>r\<bar> / 2 ^ 53 + 1 / 2 ^ 1075"
proof (cases "r = 0")
  case False
  let ?q = "pow2 (dexp r)"
  have "dbl r - r = (of_int (round_even (r / ?q)) - r / ?q) * ?q" unfolding dbl_eq by (simp add: left_diff_distrib)
  then have "\<bar>dbl r - r\<bar> = \<bar>of_int (round_even (r / ?q)) - r / ?q\<bar> * ?q" by (simp add: abs_mult)
  also have "\<dots> \<le> 1 / 2 * ?q" using round_even_error by (intro mult_right_mono) auto
  also have "?q \<le> \<bar>r\<bar> / 2 ^ 52 + 1 / 2 ^ 1074"
  proof (cases "ilog2 \<bar>r\<bar> - 52 \<le> - 1074")
    case True
    then have "?q = 1 / 2 ^ 1074" by (simp add: dexp_def pow2_def)
    then show ?thesis by simp
  next
    case big: False
    then have "?q = pow2 (ilog2 \<bar>r\<bar>) / 2 ^ 52" by (simp add: dexp_def pow2_diff) (simp add: pow2_def)
    also have "\<dots> \<le> \<bar>r\<bar> / 2 ^ 52" using ilog2_bounds(1) [of "\<bar>r\<bar>"] False by (intro divide_right_mono) auto
    finally show ?thesis by simp
  qed
  finally show ?thesis by simp
qed simp

text \<open>A multiple of the spacing is a double already.\<close>

lemma dbl_multiple:
  assumes "r = of_int z * pow2 e" "dexp r \<le> e"
  shows "dbl r = r"
proof -
  have "r / pow2 (dexp r) = of_int z * pow2 (e - dexp r)" by (simp add: assms(1) pow2_diff)
  also have "\<dots> = of_int (z * 2 ^ nat (e - dexp r))" using assms(2) by (simp add: pow2_int)
  finally have i: "r / pow2 (dexp r) = of_int (z * 2 ^ nat (e - dexp r))" .
  have "dbl r = r / pow2 (dexp r) * pow2 (dexp r)" unfolding dbl_eq [of r] i round_even_of_int ..
  then show ?thesis by simp
qed

lemma dbl_exact:
  assumes "\<bar>z\<bar> \<le> 2 ^ 53" "- 1074 \<le> e"
  shows "dbl (of_int z * pow2 e) = of_int z * pow2 e"
proof (cases "\<bar>z\<bar> = 2 ^ 53 \<or> z = 0")
  case True
  have l: "ilog2 (pow2 (e + 53)) = e + 53"
  proof -
    have "pow2 (ilog2 (pow2 (e + 53))) \<le> pow2 (e + 53)" "pow2 (e + 53) < pow2 (ilog2 (pow2 (e + 53)) + 1)"
      using ilog2_bounds [of "pow2 (e + 53)"] by simp_all
    then show ?thesis using pow2_less_iff by (metis linorder_not_less zle_add1_eq_le order_antisym)
  qed
  have p: "of_int (2 ^ 53) * pow2 e = of_int 1 * pow2 (e + 53)" by (simp add: pow2_add pow2_def [of 53])
  have "dexp (of_int (2 ^ 53) * pow2 e) \<le> e + 53" unfolding p using l assms(2) by (simp add: dexp_def)
  then have "dbl (of_int (2 ^ 53) * pow2 e) = of_int (2 ^ 53) * pow2 e" using p by (intro dbl_multiple)
  moreover have "z = 2 ^ 53 \<or> z = - (2 ^ 53) \<or> z = 0" using True by linarith
  ultimately show ?thesis using dbl_minus [of "of_int (2 ^ 53) * pow2 e"] by auto
next
  case False
  let ?r = "of_int z * pow2 e"
  have z: "\<bar>z\<bar> < 2 ^ 53" "z \<noteq> 0" using False assms(1) by auto
  have "\<bar>?r\<bar> = of_int \<bar>z\<bar> * pow2 e" by (simp add: abs_mult)
  also have "\<dots> < of_int (2 ^ 53) * pow2 e" using z(1) by (intro mult_strict_right_mono) (simp_all only: of_int_less_iff pow2_pos)
  also have "\<dots> = pow2 (e + 53)" by (simp add: pow2_add pow2_def [of 53])
  finally have "pow2 (ilog2 \<bar>?r\<bar>) < pow2 (e + 53)" using ilog2_bounds(1) [of "\<bar>?r\<bar>"] z(2) by (simp add: abs_mult)
  then have "dexp ?r \<le> e" using assms(2) by (simp add: pow2_less_iff dexp_def)
  then show ?thesis by (rule dbl_multiple [OF refl])
qed

lemma dbl_idem [simp]: "dbl (dbl r) = dbl r"
proof (cases "r = 0")
  case False
  let ?z = "round_even (r / pow2 (dexp r))"
  have "\<bar>r / pow2 (dexp r)\<bar> \<le> of_int (2 ^ 53)"
  proof -
    have "\<bar>r\<bar> < pow2 (ilog2 \<bar>r\<bar> + 1)" using False by (intro ilog2_bounds) simp
    also have "\<dots> \<le> pow2 (dexp r + 53)" by (intro pow2_mono) (simp add: dexp_def)
    also have "\<dots> = of_int (2 ^ 53) * pow2 (dexp r)" by (simp add: pow2_add pow2_def [of 53])
    finally show ?thesis by (simp add: abs_divide pos_divide_le_eq)
  qed
  then have "r / pow2 (dexp r) \<le> of_int (2 ^ 53)" "of_int (- (2 ^ 53)) \<le> r / pow2 (dexp r)" by (simp_all only: abs_le_iff of_int_minus) linarith
  then have "?z \<le> 2 ^ 53" "- (2 ^ 53) \<le> ?z" by (simp_all only: round_even_le_int round_even_ge_int)
  then have "\<bar>?z\<bar> \<le> 2 ^ 53" by linarith
  then have "dbl (of_int ?z * pow2 (dexp r)) = of_int ?z * pow2 (dexp r)" by (intro dbl_exact) (simp_all add: dexp_def)
  then show ?thesis by (simp only: dbl_eq [of r])
qed simp

lemma dbl_of_int: "\<bar>z\<bar> \<le> 2 ^ 53 \<Longrightarrow> dbl (of_int z) = of_int z"
  using dbl_exact [of z 0] by (simp add: pow2_def)

lemma dbl_le: "r \<le> s \<Longrightarrow> dbl s = s \<Longrightarrow> dbl r \<le> s"
  using dbl_mono [of r s] by simp

lemma dbl_ge: "s \<le> r \<Longrightarrow> dbl s = s \<Longrightarrow> s \<le> dbl r"
  using dbl_mono [of s r] by simp

lemma dop_double [simp]: "dbl (dadd x y) = dadd x y" "dbl (dsub x y) = dsub x y" "dbl (dmul x y) = dmul x y" "dbl (dquot x y) = dquot x y"
  by (simp_all add: dadd_def dsub_def dmul_def dquot_def)

end
