(* ===== verification/NetPred.thy ===== *)
theory NetPred
  imports CDouble
begin

text \<open>
  The network model of adaptive encoding, \<open>sources/encoder/shared/tcae/net_pred.cpp\<close>: from the sizes of the frames that
  were transmitted and their delays it predicts the size of the next frame that meets the delay wanted. Doubles are rational
  numbers with the rounding of every operation, \<open>int\<close> counters are checked for overflow, \<open>uint32_t\<close> counters wrap
  around. What \<open>pow\<close> returns for the ratio by which older frames count less, and the two environment variables, are
  arguments. The dump files are left out. \<open>None\<close> is a division by zero or an overflow of an \<open>int\<close>.
\<close>

section \<open>State\<close>

record NetPred =
  m_targetDelay :: rat
  m_recordedLen :: int
  m_nextTargetSize :: rat
  m_exceptionThreshold :: rat
  m_reverseBandWidth :: rat
  m_propagotionDelay :: rat
  m_forgotRatio :: rat
  m_delays :: "rat list"
  m_sizes :: "rat list"
  m_effectiveDelays :: "rat list"
  m_effectiveSizes :: "rat list"
  m_effectiveSizeThreshold :: rat
  m_effectiveDataLen :: nat
  m_maxTargetSize :: rat
  m_minTargetSize :: rat
  m_fps :: rat
  m_estimatedThresholdSize :: rat
  m_timeout :: nat
  m_timeToExplore :: nat
  m_estimateAcc :: rat
  m_observeCounter :: nat
  m_observeCounterThreshold :: nat
  m_filteredTargetSize :: rat
  m_filterFactor :: rat
  m_previousTargetSize :: rat
  m_enableSteadyStateCheck :: bool
  m_framesSinceLastSpike :: int
  m_encFramesForThreshold :: int
  m_newState :: bool
  m_spikes :: int
  m_recoveryAttempt :: bool
  m_recoveryFrames :: int

definition MinReverseBandwidth :: rat where "MinReverseBandwidth = dbl (2 / 100)"

definition SubstantialChangeThreshold :: rat where "SubstantialChangeThreshold = dbl (1 / 10)"

text \<open>The constants of the code, as doubles.\<close>

abbreviation d_0_9 :: rat where "d_0_9 \<equiv> dbl (9 / 10)"

abbreviation d_0_95 :: rat where "d_0_95 \<equiv> dbl (95 / 100)"

abbreviation d_0_2 :: rat where "d_0_2 \<equiv> dbl (2 / 10)"

abbreviation d_0_1 :: rat where "d_0_1 \<equiv> dbl (1 / 10)"

abbreviation d_1e6 :: rat where "d_1e6 \<equiv> dbl (1 / 1000000)"

definition new_NetPred :: "rat \<Rightarrow> string option \<Rightarrow> NetPred" where
  "new_NetPred ratio steady_env =
     \<lparr>m_targetDelay = 16, m_recordedLen = 100, m_nextTargetSize = 0, m_exceptionThreshold = 1, m_reverseBandWidth = 1,
      m_propagotionDelay = 0, m_forgotRatio = ratio, m_delays = [], m_sizes = [], m_effectiveDelays = [], m_effectiveSizes = [],
      m_effectiveSizeThreshold = 1, m_effectiveDataLen = 2, m_maxTargetSize = 1000, m_minTargetSize = 5, m_fps = 30,
      m_estimatedThresholdSize = 0, m_timeout = 10, m_timeToExplore = 10, m_estimateAcc = 0, m_observeCounter = 0,
      m_observeCounterThreshold = 5, m_filteredTargetSize = 0, m_filterFactor = 1 / 2, m_previousTargetSize = 0,
      m_enableSteadyStateCheck = (case steady_env of None \<Rightarrow> True | Some s \<Rightarrow> atoi s \<noteq> 0),
      m_framesSinceLastSpike = 0, m_encFramesForThreshold = 0, m_newState = False, m_spikes = 0, m_recoveryAttempt = False,
      m_recoveryFrames = 0\<rparr>"

definition Clear :: "NetPred \<Rightarrow> NetPred" where
  "Clear n = n\<lparr>m_sizes := [], m_delays := []\<rparr>"

section \<open>Settings\<close>

definition SetOutputFilterFactor :: "rat \<Rightarrow> NetPred \<Rightarrow> NetPred" where
  "SetOutputFilterFactor factor n =
     (let factor = (if factor > 1 then 1 else factor); factor = (if factor < 0 then 0 else factor)
      in n\<lparr>m_filterFactor := factor\<rparr>)"

definition GetNextFrameSize :: "NetPred \<Rightarrow> nat option" where
  "GetNextFrameSize n = map_option (\<lambda>z. nat (z mod 2 ^ 32)) (int_of_dbl (dmul (m_nextTargetSize n) 1000))"

definition SetRecordedLen :: "int \<Rightarrow> NetPred \<Rightarrow> NetPred" where
  "SetRecordedLen record_len n = n\<lparr>m_recordedLen := record_len\<rparr>"

definition SetTargetDelay :: "rat \<Rightarrow> NetPred \<Rightarrow> NetPred" where
  "SetTargetDelay target_in_ms n = n\<lparr>m_targetDelay := target_in_ms\<rparr>"

definition SetMaxTargetSize :: "nat \<Rightarrow> NetPred \<Rightarrow> NetPred" where
  "SetMaxTargetSize maxBytes n = n\<lparr>m_maxTargetSize := dquot (of_nat maxBytes) 1000\<rparr>"

definition SetMinTargetSize :: "nat \<Rightarrow> NetPred \<Rightarrow> NetPred" where
  "SetMinTargetSize minBytes n = n\<lparr>m_minTargetSize := dquot (of_nat minBytes) 1000\<rparr>"

definition SetFPS :: "rat \<Rightarrow> NetPred \<Rightarrow> NetPred" where
  "SetFPS fps n = n\<lparr>m_fps := fps\<rparr>"

section \<open>The steady state\<close>

definition IsSpikeOn :: "NetPred \<Rightarrow> bool" where
  "IsSpikeOn n \<longleftrightarrow> m_observeCounterThreshold n \<le> m_observeCounter n"

text \<open>The frames in the time after which behaviour counts as steady.\<close>

definition timeout_frames :: "NetPred \<Rightarrow> rat" where
  "timeout_frames n = dmul (of_nat (m_timeout n)) (m_fps n)"

definition OscillationDetected :: "NetPred \<Rightarrow> bool" where
  "OscillationDetected n \<longleftrightarrow> of_int (m_framesSinceLastSpike n) < timeout_frames n \<and> 2 \<le> m_spikes n"

definition UpdateSteadyState :: "NetPred \<Rightarrow> bool \<times> NetPred" where
  "UpdateSteadyState n =
     (if m_newState n \<and> 0 < m_encFramesForThreshold n \<and> 2 \<le> m_spikes n
      then let newThresholdSize = dquot (dquot (m_estimateAcc n) (of_int (m_encFramesForThreshold n))) 1000;
               lowLimit = dmul (dsub 1 SubstantialChangeThreshold) (m_estimatedThresholdSize n);
               highLimit = dmul (dadd 1 SubstantialChangeThreshold) (m_estimatedThresholdSize n)
           in if newThresholdSize < lowLimit \<or> highLimit < newThresholdSize
              then (True, n\<lparr>m_estimatedThresholdSize := newThresholdSize\<rparr>) else (False, n)
      else (False, n))"

definition ManageRecoveryAttempt :: "NetPred \<Rightarrow> NetPred option" where
  "ManageRecoveryAttempt n =
     (let isAttemptOngoing = (m_recoveryAttempt n \<and> of_int (m_recoveryFrames n) \<le> timeout_frames n);
          initRecoveryCondition = (m_newState n \<and> \<not> m_recoveryAttempt n \<and> \<not> IsSpikeOn n
            \<and> of_int (m_framesSinceLastSpike n) = dmul (of_nat (m_timeToExplore n)) (m_fps n))
      in if \<not> initRecoveryCondition \<and> \<not> isAttemptOngoing then Some (n\<lparr>m_recoveryAttempt := False\<rparr>)
         else let n = (if initRecoveryCondition then n\<lparr>m_recoveryAttempt := True, m_recoveryFrames := 0\<rparr> else n)
              in if isAttemptOngoing
                 then do {
                   k \<leftarrow> chk32 (m_recoveryFrames n + 1);
                   let n = n\<lparr>m_recoveryFrames := k\<rparr>;
                   Some (if of_int k = timeout_frames n
                         then n\<lparr>m_recoveryAttempt := False, m_recoveryFrames := 0, m_timeToExplore := m_timeout n, m_newState := False,
                                m_estimateAcc := 0, m_framesSinceLastSpike := 0, m_encFramesForThreshold := 0,
                                m_estimatedThresholdSize := 0, m_spikes := 0\<rparr>
                         else n) }
                 else Some n)"

text \<open>The end of a spike.\<close>

definition spike_ended :: "NetPred \<Rightarrow> NetPred option" where
  "spike_ended n = do {
     k \<leftarrow> chk32 (m_spikes n + 1);
     let n = n\<lparr>m_spikes := k\<rparr>;
     let n = (if OscillationDetected n then n\<lparr>m_newState := True\<rparr> else n);
     let n = n\<lparr>m_framesSinceLastSpike := 0\<rparr>;
     let (updateThreshold, n) = UpdateSteadyState n;
     Some (if m_recoveryAttempt n \<and> 2 \<le> m_spikes n
           then n\<lparr>m_recoveryAttempt := False, m_recoveryFrames := 0,
                  m_timeToExplore := (if updateThreshold then m_timeout n else (m_timeToExplore n * 2) mod 2 ^ 32)\<rparr>
           else n) }"

definition high_delay :: "rat \<Rightarrow> NetPred \<Rightarrow> bool" where
  "high_delay delay n \<longleftrightarrow> m_targetDelay n < delay \<or> delay < 0 \<or> m_recoveryAttempt n \<and> dquot (m_targetDelay n) 2 < delay"

definition track_size :: "nat \<Rightarrow> NetPred \<Rightarrow> NetPred option" where
  "track_size encoded_size n =
     (if IsSpikeOn n \<or> m_recoveryAttempt n
      then let n = n\<lparr>m_estimateAcc := dadd (m_estimateAcc n) (of_nat encoded_size)\<rparr>
           in if encoded_size \<noteq> 0
              then map_option (\<lambda>k. n\<lparr>m_encFramesForThreshold := k\<rparr>) (chk32 (m_encFramesForThreshold n + 1))
              else Some n
      else Some n)"

definition CheckNewSteadyState :: "nat \<Rightarrow> rat \<Rightarrow> NetPred \<Rightarrow> NetPred option" where
  "CheckNewSteadyState encoded_size delay n =
     (if \<not> m_enableSteadyStateCheck n then Some n
      else do {
        n \<leftarrow> (if high_delay delay n then Some (n\<lparr>m_observeCounter := (m_observeCounter n + 1) mod 2 ^ 32\<rparr>)
              else let spikeEnds = IsSpikeOn n; n = n\<lparr>m_observeCounter := 0\<rparr>
                   in if spikeEnds then spike_ended n else Some n);
        n \<leftarrow> track_size encoded_size n;
        k \<leftarrow> chk32 (m_framesSinceLastSpike n + 1);
        n \<leftarrow> ManageRecoveryAttempt (n\<lparr>m_framesSinceLastSpike := k\<rparr>);
        Some (if timeout_frames n \<le> of_int (m_framesSinceLastSpike n) then n\<lparr>m_spikes := 0\<rparr> else n) })"

section \<open>The linear model\<close>

fun weighted_sums :: "rat \<Rightarrow> rat \<Rightarrow> rat list \<Rightarrow> rat \<times> rat \<Rightarrow> rat \<times> rat" where
  "weighted_sums ratio weight [] (accD, accN) = (accD, accN)"
| "weighted_sums ratio weight (x # xs) (accD, accN) =
     weighted_sums ratio (dmul weight ratio) xs (dadd accD (dmul weight x), dadd accN weight)"

definition WeightedMean :: "NetPred \<Rightarrow> rat list \<Rightarrow> rat" where
  "WeightedMean n data =
     (let (accD, accN) = weighted_sums (m_forgotRatio n) 1 data (0, 0) in if accN < d_1e6 then 0 else dquot accD accN)"

definition UpdateModelSmall :: "rat list \<Rightarrow> rat list \<Rightarrow> NetPred \<Rightarrow> NetPred" where
  "UpdateModelSmall delays sizes n =
     (let meanDelay = WeightedMean n delays; meanSize = WeightedMean n sizes
      in if meanSize < d_1e6 \<or> meanDelay < d_1e6 then n
         else n\<lparr>m_reverseBandWidth := dquot meanDelay meanSize, m_propagotionDelay := d_0_1\<rparr>)"

fun deviations :: "rat \<Rightarrow> rat \<Rightarrow> rat \<Rightarrow> rat \<Rightarrow> (rat \<times> rat) list \<Rightarrow> rat \<times> rat \<Rightarrow> rat \<times> rat" where
  "deviations ratio meanDelay meanSize weight [] acc = acc"
| "deviations ratio meanDelay meanSize weight ((d, s) # ps) (accD, accN) =
     deviations ratio meanDelay meanSize (dmul weight ratio) ps
       (if d < d_1e6 \<and> s < d_1e6 then (accD, accN)
        else (dadd accD (dmul (dmul (dmul weight weight) (dsub d meanDelay)) (dsub s meanSize)),
              dadd accN (dmul (dmul (dmul weight weight) (dsub s meanSize)) (dsub s meanSize))))"

definition UpdateModelNormal :: "rat list \<Rightarrow> rat list \<Rightarrow> NetPred \<Rightarrow> NetPred" where
  "UpdateModelNormal delays sizes n =
     (if of_nat (length delays) < dmul d_0_2 (of_int (m_recordedLen n)) then UpdateModelSmall delays sizes n
      else let meanDelay = WeightedMean n delays; meanSize = WeightedMean n sizes;
               (accD, accN) = deviations (m_forgotRatio n) meanDelay meanSize 1 (zip delays sizes) (0, 0)
           in if accN < d_1e6 then UpdateModelSmall delays sizes n
              else let rb = dquot accD accN
                   in n\<lparr>m_reverseBandWidth := rb, m_propagotionDelay := dsub meanDelay (dmul rb meanSize)\<rparr>)"

definition UpdateModelSafe :: "rat list \<Rightarrow> rat list \<Rightarrow> NetPred \<Rightarrow> NetPred" where
  "UpdateModelSafe delays sizes n =
     (let meanDelay = WeightedMean n delays; meanSize = WeightedMean n sizes;
          safe = map (\<lambda>(d, s). if 0 < dmul (dsub d meanDelay) (dsub s meanSize) then (d, s) else (0, 0)) (zip delays sizes)
      in UpdateModelNormal (map fst safe) (map snd safe) n)"

definition SanityCheck :: "NetPred \<Rightarrow> bool" where
  "SanityCheck n \<longleftrightarrow> MinReverseBandwidth < m_reverseBandWidth n \<and> 0 \<le> m_propagotionDelay n"

text \<open>\<open>push_front\<close> and \<open>pop_back\<close> for each number, the last one first.\<close>

definition push_all :: "rat list \<Rightarrow> rat list \<Rightarrow> rat list" where
  "push_all xs ys = fold (\<lambda>x ys. butlast (x # ys)) (rev xs) ys"

text \<open>The sizes are put into both lists.\<close>

definition model_data :: "NetPred \<Rightarrow> rat list \<times> rat list" where
  "model_data n =
     (if \<exists>s \<in> set (m_sizes n). m_effectiveSizeThreshold n \<le> s then (m_delays n, m_sizes n)
      else (push_all (m_effectiveSizes n) (m_delays n), push_all (m_effectiveSizes n) (m_sizes n)))"

definition UpdateModel :: "NetPred \<Rightarrow> NetPred" where
  "UpdateModel n =
     (let (delays, sizes) = model_data n;
          n = UpdateModelNormal delays sizes n;
          n = (if \<not> SanityCheck n then UpdateModelSafe delays sizes n else n)
      in if \<not> SanityCheck n then UpdateModelSmall delays sizes n else n)"

section \<open>The target\<close>

fun squared_error :: "NetPred \<Rightarrow> rat \<Rightarrow> (rat \<times> rat) list \<Rightarrow> rat \<times> rat \<Rightarrow> rat \<times> rat" where
  "squared_error n weight [] acc = acc"
| "squared_error n weight ((d, s) # ps) (mse, count) =
     squared_error n (dmul weight (m_forgotRatio n)) ps
       (if d < d_1e6 \<and> s < d_1e6 then (mse, count)
        else let e = dsub d (dadd (dmul (m_reverseBandWidth n) s) (m_propagotionDelay n))
             in (dadd mse (dmul (dmul (dmul weight weight) e) e), dadd count (dmul weight weight)))"

definition record_sample :: "rat \<Rightarrow> rat \<Rightarrow> NetPred \<Rightarrow> NetPred" where
  "record_sample sizeInK delay n =
     (let ds = delay # m_delays n; ss = sizeInK # m_sizes n;
          n = (if m_recordedLen n < int (length ds) then n\<lparr>m_delays := butlast ds, m_sizes := butlast ss\<rparr>
               else n\<lparr>m_delays := ds, m_sizes := ss\<rparr>)
      in if m_effectiveSizeThreshold n \<le> sizeInK
         then let es = sizeInK # m_effectiveSizes n; ed = delay # m_effectiveDelays n
              in if m_effectiveDataLen n < length ed then n\<lparr>m_effectiveSizes := butlast es, m_effectiveDelays := butlast ed\<rparr>
                 else n\<lparr>m_effectiveSizes := es, m_effectiveDelays := ed\<rparr>
         else n)"

text \<open>The delay and the reverse bandwidth the target is computed with: those of the model, or, when the last frame took much
  longer than the model says, ones that explain it.\<close>

definition model_or_exception :: "rat \<Rightarrow> rat \<Rightarrow> NetPred \<Rightarrow> (rat \<times> rat) option" where
  "model_or_exception sizeInK delay n =
     (let rb = m_reverseBandWidth n; pd = m_propagotionDelay n
      in if of_nat (length (m_sizes n)) < dmul d_0_2 (of_int (m_recordedLen n)) then Some (pd, rb)
         else let (mse, count) = squared_error n 1 (zip (drop 1 (m_delays n)) (drop 1 (m_sizes n))) (0, 0)
              in if count \<le> d_1e6 then Some (pd, rb)
                 else let standardError = dsqrt (dquot mse count); rtEstDelay = dadd (dmul rb sizeInK) pd
                      in if dmul (m_exceptionThreshold n) standardError < dsub delay rtEstDelay
                         then let pd' = dsub delay (dmul rb sizeInK)
                              in if dmul d_0_9 (m_targetDelay n) < delay
                                 then let pd'' = dadd (dmul (1 / 2) pd') (dmul (1 / 2) pd)
                                      in map_option (\<lambda>rb'. (pd'', rb')) (ddiv (dsub delay pd'') sizeInK)
                                 else Some (pd', rb)
                         else Some (pd, rb))"

definition AdjustTarget :: "rat \<Rightarrow> NetPred \<Rightarrow> NetPred" where
  "AdjustTarget delay n =
     (let n = (if dmul d_0_9 (m_targetDelay n) \<le> delay \<and> m_previousTargetSize n \<le> m_nextTargetSize n
               then n\<lparr>m_nextTargetSize := dmul (m_previousTargetSize n) d_0_9\<rparr> else n)
      in if \<not> m_enableSteadyStateCheck n \<or> m_recoveryAttempt n then n
         else if m_newState n \<and> 0 < m_estimatedThresholdSize n
                 \<and> dmul d_0_95 (m_estimatedThresholdSize n) < m_nextTargetSize n
         then n\<lparr>m_nextTargetSize := dmul d_0_95 (m_estimatedThresholdSize n)\<rparr> else n)"

definition limit_target :: "NetPred \<Rightarrow> NetPred" where
  "limit_target n =
     (let t = m_nextTargetSize n;
          t = (if t < m_minTargetSize n then m_minTargetSize n else t);
          t = (if m_maxTargetSize n < t then m_maxTargetSize n else t)
      in n\<lparr>m_nextTargetSize := t\<rparr>)"

definition filter_target :: "NetPred \<Rightarrow> NetPred" where
  "filter_target n =
     (let n = (if m_filteredTargetSize n < 1 then n\<lparr>m_filteredTargetSize := m_nextTargetSize n\<rparr> else n);
          t = dadd (dmul (dmul (m_filteredTargetSize n) d_0_9) (m_filterFactor n))
                (dmul (m_nextTargetSize n) (dsub 1 (dmul (m_filterFactor n) d_0_9)))
      in n\<lparr>m_filteredTargetSize := t, m_nextTargetSize := t\<rparr>)"

definition UpdateSizeAndDelay :: "nat \<Rightarrow> nat \<Rightarrow> rat \<Rightarrow> NetPred \<Rightarrow> NetPred option" where
  "UpdateSizeAndDelay trans_size encoded_size delay n = do {
     n \<leftarrow> CheckNewSteadyState encoded_size delay n;
     if delay < 0
     then let t = dmul (m_nextTargetSize n) d_0_95
          in Some (n\<lparr>m_nextTargetSize := (if t < m_minTargetSize n then m_minTargetSize n else t)\<rparr>)
     else do {
       let sizeInK = dquot (of_nat trans_size) 1000;
       let n = UpdateModel (record_sample sizeInK delay n);
       (pd, rb) \<leftarrow> model_or_exception sizeInK delay n;
       t \<leftarrow> ddiv (dsub (dmul d_0_9 (m_targetDelay n)) pd) rb;
       let n = n\<lparr>m_previousTargetSize := m_nextTargetSize n, m_nextTargetSize := t\<rparr>;
       Some (filter_target (limit_target (AdjustTarget delay n))) } }"

end
