(* ===== verification/Tcae.thy ===== *)
theory Tcae
  imports NetPred
begin

text \<open>
  Adaptive encoding, \<open>sources/encoder/shared/tcae/enc_frame_settings_predictor.cpp\<close> and \<open>CTcaeWrapper.cpp\<close>: the predictor
  of the settings of a frame, which queues what the network and the encoder report and feeds it to the network
  model, and the wrapper the transcoder uses. The log file is left out. Arguments beside those of the code: \<open>ratio\<close> and
  \<open>env\<close> for the network model, and whether memory could be allocated. \<open>None\<close> is undefined behaviour of
  the network model. Statuses are numbers, as the wrapper returns them.
\<close>

unbundle bit_operations_syntax

section \<open>Types\<close>

definition ERR_NONE :: int where "ERR_NONE = 0"

definition ERR_NULL_PTR :: int where "ERR_NULL_PTR = - 2"

definition ERR_UNSUPPORTED :: int where "ERR_UNSUPPORTED = - 3"

definition ERR_MEMORY_ALLOC :: int where "ERR_MEMORY_ALLOC = - 4"

definition ERR_INVALID_ARG :: int where "ERR_INVALID_ARG = - 5"

definition ERR_NOT_INITIALIZED :: int where "ERR_NOT_INITIALIZED = - 8"

definition TCAE_USE_DEFAULT_VALUE :: nat where "TCAE_USE_DEFAULT_VALUE = 0"

definition TCAE_MODE_UNKNOWN :: "32 word" where "TCAE_MODE_UNKNOWN = 0"

definition TCAE_PREDICT_FRAME_SIZE :: "32 word" where "TCAE_PREDICT_FRAME_SIZE = 1"

definition TCAE_FRAME_DROP :: "32 word" where "TCAE_FRAME_DROP = 2"

definition TCAE_MODE_STANDALONE :: "32 word" where "TCAE_MODE_STANDALONE = 4"

definition TCAE_FRAMETYPE_UNKNOWN :: "16 word" where "TCAE_FRAMETYPE_UNKNOWN = 0"

definition TCAE_FRAMETYPE_I :: "16 word" where "TCAE_FRAMETYPE_I = 1"

definition TCAE_FRAMETYPE_REF :: "16 word" where "TCAE_FRAMETYPE_REF = 64"

definition TCAE_FRAMETYPE_IDR :: "16 word" where "TCAE_FRAMETYPE_IDR = 128"

record TcaeInitParams_t =
  featuresSet :: "32 word"
  targetDelayInMs :: nat
  bufferedRecordsCount :: nat
  maxSequentialDropsCount :: nat
  maxFrameSizeInBytes :: nat
  minDropFramesDistance :: nat

record PerFrameNetworkData_t =
  firstPacketDelayInUs :: nat
  lastPacketDelayInUs :: nat
  transmittedDataSizeInBytes :: nat
  packetLossRate :: nat
  creditBytes :: int
  idrRequired :: bool

record EncodedFrameFeedback_t =
  fb_encFrameType :: "16 word"
  fb_frameSizeInBytes :: nat
  frameOrder :: nat

record FrameSettings_t =
  encFrameType :: "16 word"
  frameSizeInBytes :: nat
  dropFrame :: bool

record PredictorTcaeImpl =
  m_NetworkPredictor :: "NetPred option"
  m_features :: "32 word"
  m_initialTargetDelayInMs :: nat
  m_maxSequentialDropsCount :: nat
  m_maxFrameSizeInBytes :: nat
  m_minDropFramesDist :: nat
  m_framesSinceLastDrop :: nat
  m_cachedBitstreamSize :: "nat list"
  m_cachedNetworkStats :: "(nat \<times> nat) list"
  m_idrRequested :: bool
  m_validFeedback :: bool
  m_frameDropsCount :: nat
  m_lastKnownDelayInMs :: nat
  m_lastTransmittedSize :: nat

definition DefaultEnabledFeatures :: "32 word" where "DefaultEnabledFeatures = TCAE_PREDICT_FRAME_SIZE"

definition DefaultRecordsCount :: nat where "DefaultRecordsCount = 100"

definition DefaultMaxDropsCountInSequence :: nat where "DefaultMaxDropsCountInSequence = 3"

definition DefaultMinDropFramesDistance :: nat where "DefaultMinDropFramesDistance = 1"

definition DefaultMaxFrameSizeInBytes :: nat where "DefaultMaxFrameSizeInBytes = 50000"

definition new_Predictor :: PredictorTcaeImpl where
  "new_Predictor = \<lparr>m_NetworkPredictor = None, m_features = 0, m_initialTargetDelayInMs = 0, m_maxSequentialDropsCount = 0,
     m_maxFrameSizeInBytes = 0, m_minDropFramesDist = 0, m_framesSinceLastDrop = 0, m_cachedBitstreamSize = [], m_cachedNetworkStats = [],
     m_idrRequested = False, m_validFeedback = False, m_frameDropsCount = 0, m_lastKnownDelayInMs = 0, m_lastTransmittedSize = 0\<rparr>"

section \<open>Start and stop\<close>

definition or_default :: "nat \<Rightarrow> nat \<Rightarrow> nat" where
  "or_default v d = (if v = TCAE_USE_DEFAULT_VALUE then d else v)"

definition requested_features :: "32 word \<Rightarrow> 32 word" where
  "requested_features f =
     (let features = (if f = TCAE_MODE_UNKNOWN then DefaultEnabledFeatures else f)
      in if f = TCAE_MODE_STANDALONE then DefaultEnabledFeatures OR TCAE_MODE_STANDALONE else features)"

text \<open>\<open>None\<close> is the exception of an allocation that fails.\<close>

definition StartImpl :: "bool \<Rightarrow> rat \<Rightarrow> string option \<Rightarrow> TcaeInitParams_t option \<Rightarrow> PredictorTcaeImpl \<Rightarrow> (int \<times> PredictorTcaeImpl) option" where
  "StartImpl mem ratio env params p =
     (case params of
        None \<Rightarrow> Some (ERR_NULL_PTR, p)
      | Some q \<Rightarrow>
          let features = requested_features (featuresSet q);
              recCount = or_default (bufferedRecordsCount q) DefaultRecordsCount;
              delay = targetDelayInMs q;
              drops = (features AND TCAE_FRAME_DROP \<noteq> 0);
              dropsCount = (if drops then or_default (maxSequentialDropsCount q) DefaultMaxDropsCountInSequence else 0);
              dropsDistance = (if drops then or_default (minDropFramesDistance q) DefaultMinDropFramesDistance else 0);
              maxFrameSize = or_default (maxFrameSizeInBytes q) DefaultMaxFrameSizeInBytes
          in if features AND NOT (TCAE_PREDICT_FRAME_SIZE OR TCAE_MODE_UNKNOWN OR TCAE_FRAME_DROP OR TCAE_MODE_STANDALONE) \<noteq> 0
             then Some (ERR_INVALID_ARG, p)
             else if features AND TCAE_PREDICT_FRAME_SIZE = 0 then Some (ERR_UNSUPPORTED, p)
             else if recCount = 0 \<or> delay = 0 \<or> drops \<and> dropsCount = 0 \<or> drops \<and> dropsDistance = 0 \<or> maxFrameSize = 0
             then Some (ERR_INVALID_ARG, p)
             else if \<not> mem then None
             else let n = SetMinTargetSize (maxFrameSize div 10) (SetMaxTargetSize maxFrameSize (new_NetPred ratio env));
                      n = SetTargetDelay (of_nat delay) (SetRecordedLen (to_int32 (int recCount)) n)
                  in Some (ERR_NONE, p\<lparr>m_NetworkPredictor := Some n, m_features := features, m_initialTargetDelayInMs := delay,
                       m_maxSequentialDropsCount := dropsCount, m_maxFrameSizeInBytes := maxFrameSize,
                       m_minDropFramesDist := dropsDistance, m_framesSinceLastDrop := dropsDistance\<rparr>))"

text \<open>An exception is dropped, and the status it is dropped with is \<open>ERR_NONE\<close>.\<close>

definition Start :: "bool \<Rightarrow> rat \<Rightarrow> string option \<Rightarrow> TcaeInitParams_t option \<Rightarrow> PredictorTcaeImpl \<Rightarrow> int \<times> PredictorTcaeImpl" where
  "Start mem ratio env params p =
     (if m_NetworkPredictor p \<noteq> None then (ERR_UNSUPPORTED, p)
      else case StartImpl mem ratio env params p of None \<Rightarrow> (ERR_NONE, p) | Some r \<Rightarrow> r)"

definition Stop :: "PredictorTcaeImpl \<Rightarrow> int \<times> PredictorTcaeImpl" where
  "Stop p =
     (if m_NetworkPredictor p = None then (ERR_NOT_INITIALIZED, p)
      else (ERR_NONE, p\<lparr>m_NetworkPredictor := None, m_cachedBitstreamSize := [], m_cachedNetworkStats := [], m_idrRequested := False,
              m_frameDropsCount := 0, m_lastKnownDelayInMs := 0, m_lastTransmittedSize := 0\<rparr>))"

section \<open>Reports\<close>

definition SetFps :: "rat \<Rightarrow> PredictorTcaeImpl \<Rightarrow> int \<times> PredictorTcaeImpl" where
  "SetFps fps p =
     (case m_NetworkPredictor p of
        None \<Rightarrow> (ERR_NOT_INITIALIZED, p)
      | Some n \<Rightarrow> if fps \<le> 0 then (ERR_INVALID_ARG, p) else (ERR_NONE, p\<lparr>m_NetworkPredictor := Some (SetFPS fps n)\<rparr>))"

definition UpdateNetworkState :: "PerFrameNetworkData_t option \<Rightarrow> PredictorTcaeImpl \<Rightarrow> int \<times> PredictorTcaeImpl" where
  "UpdateNetworkState data p =
     (if m_NetworkPredictor p = None then (ERR_NOT_INITIALIZED, p)
      else case data of
        None \<Rightarrow> (ERR_NULL_PTR, p)
      | Some q \<Rightarrow>
          let p = p\<lparr>m_idrRequested := idrRequired q\<rparr>;
              delayInUs = lastPacketDelayInUs q; transmittedDataSize = transmittedDataSizeInBytes q
          in if delayInUs = 0 \<or> transmittedDataSize = 0 then (ERR_INVALID_ARG, p)
             else let delayInMs = nat \<lceil>dquot (of_nat delayInUs) 1000\<rceil>
                  in (ERR_NONE, p\<lparr>m_validFeedback := True, m_cachedNetworkStats := m_cachedNetworkStats p @ [(transmittedDataSize, delayInMs)]\<rparr>))"

definition BitstreamSent :: "EncodedFrameFeedback_t option \<Rightarrow> PredictorTcaeImpl \<Rightarrow> int \<times> PredictorTcaeImpl" where
  "BitstreamSent bts p =
     (if m_NetworkPredictor p = None then (ERR_NOT_INITIALIZED, p)
      else case bts of
        None \<Rightarrow> (ERR_NULL_PTR, p)
      | Some q \<Rightarrow>
          if m_features p AND TCAE_MODE_STANDALONE = 0 \<and> frameOrder q = 0 then (ERR_INVALID_ARG, p)
          else let p = (if fb_encFrameType q AND TCAE_FRAMETYPE_IDR \<noteq> 0 \<and> m_idrRequested p then p\<lparr>m_idrRequested := False\<rparr> else p)
               in (ERR_NONE, p\<lparr>m_cachedBitstreamSize := m_cachedBitstreamSize p @ [fb_frameSizeInBytes q]\<rparr>))"

section \<open>Prediction\<close>

text \<open>The reports of the network, each with the size of an encoded frame while there are such; the last report is kept.\<close>

fun feed_stats :: "(nat \<times> nat) list \<Rightarrow> nat list \<Rightarrow> nat \<times> nat \<Rightarrow> NetPred \<Rightarrow> (nat list \<times> (nat \<times> nat) \<times> NetPred) option" where
  "feed_stats [] bits lst n = Some (bits, lst, n)"
| "feed_stats ((transmitted, delay) # stats) bits lst n = do {
     n \<leftarrow> UpdateSizeAndDelay transmitted (case bits of [] \<Rightarrow> 0 | b # _ \<Rightarrow> b) (of_nat delay) n;
     feed_stats stats (drop 1 bits) (transmitted, delay) n }"

fun feed_bits :: "bool \<Rightarrow> nat \<Rightarrow> nat list \<Rightarrow> NetPred \<Rightarrow> NetPred option" where
  "feed_bits valid transmitted [] n = Some n"
| "feed_bits valid transmitted (b # bits) n = do {
     n \<leftarrow> (if valid then UpdateSizeAndDelay transmitted b (- 1) n else Some n);
     feed_bits valid transmitted bits n }"

definition feed_model :: "PredictorTcaeImpl \<Rightarrow> NetPred \<Rightarrow> (NetPred \<times> PredictorTcaeImpl) option" where
  "feed_model p n = do {
     (bits, (transmitted, delay), n) \<leftarrow> feed_stats (m_cachedNetworkStats p) (m_cachedBitstreamSize p) (0, 0) n;
     let p = (if delay \<noteq> 0 then p\<lparr>m_lastKnownDelayInMs := delay, m_lastTransmittedSize := transmitted\<rparr> else p);
     n \<leftarrow> feed_bits (m_validFeedback p) (m_lastTransmittedSize p) bits n;
     Some (n, p\<lparr>m_NetworkPredictor := Some n, m_cachedNetworkStats := [], m_cachedBitstreamSize := [], m_idrRequested := False\<rparr>) }"

definition calc_drops :: "PredictorTcaeImpl \<Rightarrow> nat" where
  "calc_drops p = nat \<lfloor>dquot (of_nat (m_lastKnownDelayInMs p)) (of_nat (m_initialTargetDelayInMs p)) + 1 / 2\<rfloor>"

definition drops_frame :: "PredictorTcaeImpl \<Rightarrow> bool" where
  "drops_frame p \<longleftrightarrow> m_features p AND TCAE_FRAME_DROP \<noteq> 0 \<and> m_frameDropsCount p < m_maxSequentialDropsCount p
     \<and> \<not> (m_frameDropsCount p = 0 \<and> m_framesSinceLastDrop p < m_minDropFramesDist p)
     \<and> m_initialTargetDelayInMs p < m_lastKnownDelayInMs p \<and> m_frameDropsCount p < calc_drops p"

definition IDRSizeIncreaseCoeff :: nat where "IDRSizeIncreaseCoeff = 3"

definition decide :: "bool \<Rightarrow> nat \<Rightarrow> FrameSettings_t \<Rightarrow> PredictorTcaeImpl \<Rightarrow> FrameSettings_t \<times> PredictorTcaeImpl" where
  "decide insertIDR predicted encSettings p =
     (if \<not> insertIDR \<and> drops_frame p
      then (encSettings\<lparr>dropFrame := True\<rparr>, p\<lparr>m_frameDropsCount := m_frameDropsCount p + 1, m_framesSinceLastDrop := 0\<rparr>)
      else let encSettings = (if insertIDR then encSettings\<lparr>encFrameType := TCAE_FRAMETYPE_IDR OR TCAE_FRAMETYPE_REF OR TCAE_FRAMETYPE_I\<rparr> else encSettings);
               predicted = (if insertIDR \<and> m_lastKnownDelayInMs p < m_initialTargetDelayInMs p
                            then min ((IDRSizeIncreaseCoeff * predicted) mod 2 ^ 32) (m_maxFrameSizeInBytes p) else predicted);
               p = p\<lparr>m_frameDropsCount := 0\<rparr>;
               p = (if m_features p AND TCAE_FRAME_DROP \<noteq> 0 then p\<lparr>m_framesSinceLastDrop := (m_framesSinceLastDrop p + 1) mod 2 ^ 64\<rparr> else p)
           in (encSettings\<lparr>frameSizeInBytes := predicted\<rparr>, p))"

definition PredictEncSettings ::
    "FrameSettings_t option \<Rightarrow> PredictorTcaeImpl \<Rightarrow> (int \<times> FrameSettings_t option \<times> PredictorTcaeImpl) option" where
  "PredictEncSettings settings p =
     (case m_NetworkPredictor p of
        None \<Rightarrow> Some (ERR_NOT_INITIALIZED, settings, p)
      | Some n \<Rightarrow>
          (case settings of
             None \<Rightarrow> Some (ERR_NULL_PTR, settings, p)
           | Some s \<Rightarrow> do {
               let insertIDR = m_idrRequested p;
               (n, p) \<leftarrow> feed_model p n;
               predicted \<leftarrow> GetNextFrameSize n;
               let (s, p) = decide insertIDR predicted s p;
               Some (ERR_NONE, Some s, p) }))"

section \<open>The wrapper\<close>

record CTcaeWrapper =
  m_tcae :: "PredictorTcaeImpl option"
  m_tcaeLogPath :: "string option"
  m_logEnabled :: bool
  m_runVBRmode :: bool

definition new_Wrapper :: CTcaeWrapper where
  "new_Wrapper = \<lparr>m_tcae = None, m_tcaeLogPath = None, m_logEnabled = False, m_runVBRmode = False\<rparr>"

text \<open>Whether the log file can be opened and the environment variable are arguments.\<close>

definition InitLog :: "bool \<Rightarrow> string option \<Rightarrow> CTcaeWrapper \<Rightarrow> CTcaeWrapper" where
  "InitLog opens brc_env w =
     (case m_tcaeLogPath w of
        None \<Rightarrow> w
      | Some _ \<Rightarrow> if \<not> opens then w\<lparr>m_logEnabled := False\<rparr>
                  else w\<lparr>m_logEnabled := True, m_runVBRmode := (case brc_env of Some s \<Rightarrow> atoi s = 1 \<or> m_runVBRmode w | None \<Rightarrow> m_runVBRmode w)\<rparr>)"

definition LogsOnlyMode :: "CTcaeWrapper \<Rightarrow> bool" where
  "LogsOnlyMode w = m_runVBRmode w"

definition setTcaeLogPath :: "string option \<Rightarrow> CTcaeWrapper \<Rightarrow> CTcaeWrapper" where
  "setTcaeLogPath path w = w\<lparr>m_tcaeLogPath := path\<rparr>"

definition Initialize ::
    "bool \<Rightarrow> bool \<Rightarrow> rat \<Rightarrow> string option \<Rightarrow> bool \<Rightarrow> string option \<Rightarrow> nat \<Rightarrow> nat \<Rightarrow> CTcaeWrapper \<Rightarrow> int \<times> CTcaeWrapper" where
  "Initialize mem net_mem ratio env opens brc_env targetDelay maxFrameSize w =
     (if \<not> mem then (ERR_MEMORY_ALLOC, w)
      else let params = \<lparr>featuresSet = TCAE_MODE_STANDALONE, targetDelayInMs = targetDelay, bufferedRecordsCount = 100,
                         maxSequentialDropsCount = 0, maxFrameSizeInBytes = (if 0 < maxFrameSize then maxFrameSize else 0),
                         minDropFramesDistance = 0\<rparr>;
               (sts, p) = Start net_mem ratio env (Some params) new_Predictor;
               w = w\<lparr>m_tcae := Some p\<rparr>
           in if sts \<noteq> ERR_NONE then (sts, w) else (0, InitLog opens brc_env w))"

definition with_tcae :: "(PredictorTcaeImpl \<Rightarrow> int \<times> PredictorTcaeImpl) \<Rightarrow> CTcaeWrapper \<Rightarrow> int \<times> CTcaeWrapper" where
  "with_tcae f w = (case m_tcae w of None \<Rightarrow> (ERR_NULL_PTR, w) | Some p \<Rightarrow> let (sts, p) = f p in (sts, w\<lparr>m_tcae := Some p\<rparr>))"

definition UpdateClientFeedback :: "nat \<Rightarrow> nat \<Rightarrow> CTcaeWrapper \<Rightarrow> int \<times> CTcaeWrapper" where
  "UpdateClientFeedback delay sz =
     with_tcae (UpdateNetworkState (Some \<lparr>firstPacketDelayInUs = 0, lastPacketDelayInUs = delay, transmittedDataSizeInBytes = sz,
       packetLossRate = 0, creditBytes = 0, idrRequired = False\<rparr>))"

definition UpdateEncodedSize :: "nat \<Rightarrow> CTcaeWrapper \<Rightarrow> int \<times> CTcaeWrapper" where
  "UpdateEncodedSize encodedSize =
     with_tcae (BitstreamSent (Some \<lparr>fb_encFrameType = TCAE_FRAMETYPE_UNKNOWN, fb_frameSizeInBytes = encodedSize, frameOrder = 0\<rparr>))"

text \<open>A status is returned as a \<open>uint32_t\<close>.\<close>

definition GetTargetSize :: "CTcaeWrapper \<Rightarrow> (nat \<times> CTcaeWrapper) option" where
  "GetTargetSize w =
     (case m_tcae w of
        None \<Rightarrow> Some (nat (ERR_NULL_PTR mod 2 ^ 32), w)
      | Some p \<Rightarrow> do {
          (sts, settings, p) \<leftarrow> PredictEncSettings (Some \<lparr>encFrameType = 0, frameSizeInBytes = 0, dropFrame = False\<rparr>) p;
          let w = w\<lparr>m_tcae := Some p\<rparr>;
          s \<leftarrow> settings;
          Some (if sts \<noteq> ERR_NONE then nat (sts mod 2 ^ 32) else frameSizeInBytes s, w) })"

definition wrapper_SetFps :: "rat \<Rightarrow> CTcaeWrapper \<Rightarrow> int \<times> CTcaeWrapper" where
  "wrapper_SetFps fps = with_tcae (SetFps fps)"

end
