(* ===== verification/NetPredProps.thy ===== *)
theory NetPredProps
  imports NetPred
begin

text \<open>
  What the network model guarantees: no update divides by zero or overflows, the prediction stays between a tenth of the
  largest frame size and that size in spite of rounding, and how the search for a steady state begins and ends.
\<close>

section \<open>Rounding within bounds\<close>

lemma double_pow2 [simp]: "-1074 \<le> e \<Longrightarrow> dbl (pow2 e) = pow2 e"
  using dbl_exact [of 1 e] by simp

lemma double_inverse_pow2: "k \<le> 1074 \<Longrightarrow> dbl (1 / 2 ^ k) = 1 / 2 ^ k"
  using double_pow2 [of "- int k"] by (cases "k = 0") (simp_all add: pow2_def)

lemma double_nat: "n \<le> 2 ^ 53 \<Longrightarrow> dbl (of_nat n) = of_nat n"
  using dbl_of_int [of "int n"] by simp

lemma dbl_err: "\<bar>dbl r - r\<bar> \<le> \<bar>r\<bar> / 2 ^ 53 + 1 / 2 ^ 100"
proof -
  have "(1::rat) / 2 ^ 1075 \<le> 1 / 2 ^ 100" by (intro divide_left_mono power_increasing) auto
  then show ?thesis using dbl_error [of r] by linarith
qed

lemma dbl_err_less:
  assumes "\<bar>r\<bar> \<le> 2 ^ k" "k \<le> 53"
  shows "\<bar>dbl r - r\<bar> \<le> 2 ^ k / 2 ^ 53 + 1 / 2 ^ 100"
proof -
  have "\<bar>r\<bar> / 2 ^ 53 \<le> 2 ^ k / 2 ^ 53" using assms(1) by (intro divide_right_mono) auto
  then show ?thesis using dbl_err [of r] by linarith
qed

lemma dbl_pos_iff: "0 < dbl r \<Longrightarrow> 0 < r"
  using dbl_mono [of r 0] by fastforce

lemma constants:
  "d_1e6 \<le> 1 / 2 ^ 19" "0 \<le> d_1e6" "1 / 2 ^ 6 \<le> MinReverseBandwidth" "d_0_1 \<le> 1 / 2 ^ 3" "0 \<le> d_0_1"
proof -
  show "d_1e6 \<le> 1 / 2 ^ 19" by (rule dbl_le [OF _ double_inverse_pow2]) simp_all
  show "0 \<le> d_1e6" "0 \<le> d_0_1" by (simp_all add: dbl_nonneg)
  show "1 / 2 ^ 6 \<le> MinReverseBandwidth" unfolding MinReverseBandwidth_def by (rule dbl_ge [OF _ double_inverse_pow2]) simp_all
  show "d_0_1 \<le> 1 / 2 ^ 3" by (rule dbl_le [OF _ double_inverse_pow2]) simp_all
qed

section \<open>Means\<close>

lemma weight_bounds: "0 \<le> w \<Longrightarrow> w \<le> 1 \<Longrightarrow> 0 \<le> r \<Longrightarrow> r \<le> 1 \<Longrightarrow> 0 \<le> dmul w r \<and> dmul w r \<le> 1"
  unfolding dmul_def using dbl_of_int [of 1] by (auto intro!: dbl_nonneg dbl_le mult_le_one)

text \<open>The limit of a sample: the largest \<open>uint32_t\<close> and one more.\<close>

abbreviation top :: rat where "top \<equiv> 2 ^ 32"

lemma weighted_sums_bounds:
  assumes "weighted_sums r w xs (D, N) = (D', N')" "0 \<le> w" "w \<le> 1" "0 \<le> r" "r \<le> 1" "\<forall>x \<in> set xs. 0 \<le> x \<and> x \<le> top"
    "dbl D = D" "dbl N = N" "D \<le> of_nat k * top" "N \<le> of_nat k" "k + length xs \<le> 1000"
  shows "D \<le> D' \<and> D' \<le> of_nat (k + length xs) * top \<and> N \<le> N' \<and> N' \<le> of_nat (k + length xs)"
  using assms
proof (induction xs arbitrary: w D N k)
  case (Cons x xs)
  have wx: "0 \<le> dmul w x" "dmul w x \<le> top"
  proof -
    have "w * x \<le> 1 * top" using Cons.prems by (intro mult_mono) auto
    moreover have "dbl top = top" using double_pow2 [of 32] by (simp add: pow2_def)
    ultimately show "dmul w x \<le> top" unfolding dmul_def by (intro dbl_le) auto
    show "0 \<le> dmul w x" unfolding dmul_def using Cons.prems by (intro dbl_nonneg) auto
  qed
  have kt: "dbl (of_nat (k + 1) * top) = of_nat (k + 1) * top" "dbl (of_nat (k + 1)) = of_nat (k + 1)"
    using double_nat [of "(k + 1) * 2 ^ 32"] double_nat [of "k + 1"] Cons.prems(11) by simp_all
  have D: "D \<le> dadd D (dmul w x)" "dadd D (dmul w x) \<le> of_nat (k + 1) * top"
    unfolding dadd_def using wx Cons.prems(7,9) kt(1) by (intro dbl_ge dbl_le; simp add: algebra_simps)+
  have N: "N \<le> dadd N w" "dadd N w \<le> of_nat (k + 1)"
    unfolding dadd_def using Cons.prems(2,3,8,10) kt(2) by (intro dbl_ge dbl_le; simp)+
  have "dadd D (dmul w x) \<le> D' \<and> D' \<le> of_nat (k + 1 + length xs) * top \<and> dadd N w \<le> N' \<and> N' \<le> of_nat (k + 1 + length xs)"
    using Cons.prems weight_bounds [of w r] D(2) N(2) by (intro Cons.IH [of "dmul w r" "dadd D (dmul w x)" "dadd N w" "k + 1"]) auto
  then show ?case using D(1) N(1) by auto
qed auto

lemma WeightedMean_bounds:
  assumes "xs \<noteq> []" "length xs \<le> 100" "\<forall>x \<in> set xs. 1 / 2 ^ 10 \<le> x \<and> x \<le> top" "0 \<le> m_forgotRatio n" "m_forgotRatio n \<le> 1"
  shows "1 / 2 ^ 17 \<le> WeightedMean n xs" "WeightedMean n xs \<le> 2 ^ 39"
    "\<forall>x \<in> set xs. 1 \<le> x \<Longrightarrow> 1 / 2 ^ 7 \<le> WeightedMean n xs"
proof -
  obtain y ys where xs: "xs = y # ys" using assms(1) by (cases xs) auto
  obtain D N where DN: "weighted_sums (m_forgotRatio n) 1 xs (0, 0) = (D, N)" by fastforce
  then have "weighted_sums (m_forgotRatio n) (dmul 1 (m_forgotRatio n)) ys (dbl y, 1) = (D, N)"
    using dbl_of_int [of 1] by (simp add: xs dadd_def dmul_def)
  moreover have "dbl y \<le> of_nat 1 * top" using assms(3) double_pow2 [of 32] by (auto simp: xs pow2_def intro: dbl_le)
  ultimately have b: "dbl y \<le> D \<and> D \<le> of_nat (1 + length ys) * top \<and> 1 \<le> N \<and> N \<le> of_nat (1 + length ys)"
    using assms weight_bounds [of 1 "m_forgotRatio n"] dbl_of_int [of 1]
    by (intro weighted_sums_bounds [of "m_forgotRatio n" "dmul 1 (m_forgotRatio n)" ys "dbl y" 1 D N 1]) (auto simp: xs intro: order_trans [of _ "1 / 2 ^ 10"])
  have len: "of_nat (1 + length ys) \<le> (100 :: rat)" using assms(2) by (simp add: xs)
  have mean: "WeightedMean n xs = dquot D N" using b constants(1) by (simp add: WeightedMean_def DN)
  have q: "a / 2 ^ 7 \<le> D / N" if "a \<le> dbl y" "0 \<le> a" for a
    using b len that by (intro frac_le) auto
  have y: "1 / 2 ^ 10 \<le> dbl y" using assms(3) double_inverse_pow2 [of 10] by (intro dbl_ge) (auto simp: xs)
  have "1 / 2 ^ 10 / 2 ^ 7 \<le> D / N" by (intro q y) simp
  then show "1 / 2 ^ 17 \<le> WeightedMean n xs"
    unfolding mean dquot_def using double_inverse_pow2 [of 17] by (intro dbl_ge) simp_all
  have "D / N \<le> 2 ^ 39 / 1" using b len by (intro frac_le) auto
  then show "WeightedMean n xs \<le> 2 ^ 39" unfolding mean dquot_def using double_pow2 [of 39] by (intro dbl_le) (simp_all add: pow2_def)
  assume "\<forall>x \<in> set xs. 1 \<le> x"
  then have "1 \<le> dbl y" using dbl_of_int [of 1] by (intro dbl_ge) (auto simp: xs)
  then have "1 / 2 ^ 7 \<le> D / N" by (intro q) simp_all
  then show "1 / 2 ^ 7 \<le> WeightedMean n xs"
    unfolding mean dquot_def using double_inverse_pow2 [of 7] by (intro dbl_ge) simp_all
qed

section \<open>The model\<close>

definition sample_ok :: "rat \<Rightarrow> bool" where "sample_ok s \<longleftrightarrow> 1 / 2 ^ 10 \<le> s \<and> s \<le> top"

definition samples_ok :: "NetPred \<Rightarrow> bool" where
  "samples_ok n \<longleftrightarrow> m_recordedLen n = 100 \<and> length (m_delays n) = length (m_sizes n) \<and> length (m_delays n) \<le> 100
     \<and> (\<forall>d \<in> set (m_delays n). 1 \<le> d \<and> d \<le> top) \<and> (\<forall>s \<in> set (m_sizes n). sample_ok s)
     \<and> (\<forall>s \<in> set (m_effectiveSizes n). 1 \<le> s \<and> s \<le> top) \<and> 0 \<le> m_forgotRatio n \<and> m_forgotRatio n \<le> 1
     \<and> m_effectiveSizeThreshold n = 1 \<and> m_exceptionThreshold n = 1"

lemma sample_ok_ge_1: "1 \<le> s \<Longrightarrow> s \<le> top \<Longrightarrow> sample_ok s"
  by (simp add: sample_ok_def)

lemma push_all_data: "length (push_all xs ys) = length ys" "set (push_all xs ys) \<subseteq> set xs \<union> set ys"
proof -
  have "length (fold (\<lambda>x ys. butlast (x # ys)) zs ys) = length ys \<and> set (fold (\<lambda>x ys. butlast (x # ys)) zs ys) \<subseteq> set zs \<union> set ys" for zs
  proof (induction zs arbitrary: ys)
    case (Cons z zs)
    have "set (butlast (z # ys)) \<subseteq> insert z (set ys)" by (auto dest: in_set_butlastD split: if_splits)
    then show ?case using Cons.IH [of "butlast (z # ys)"] by auto
  qed simp
  from this [of "rev xs"] show "length (push_all xs ys) = length ys" "set (push_all xs ys) \<subseteq> set xs \<union> set ys"
    by (simp_all only: push_all_def set_rev)
qed

lemma model_data_ok:
  assumes "samples_ok n" "model_data n = (ds, ss)"
  shows "length ds = length (m_delays n)" "length ss = length (m_delays n)"
    "\<forall>d \<in> set ds. 1 \<le> d \<and> d \<le> top" "\<forall>s \<in> set ss. sample_ok s"
proof -
  let ?p = "push_all (m_effectiveSizes n)"
  consider "(ds, ss) = (m_delays n, m_sizes n)" | "(ds, ss) = (?p (m_delays n), ?p (m_sizes n))"
    using assms(2) by (auto simp: model_data_def split: if_splits)
  then have "length ds = length (m_delays n) \<and> length ss = length (m_delays n) \<and> (\<forall>d \<in> set ds. 1 \<le> d \<and> d \<le> top) \<and> (\<forall>s \<in> set ss. sample_ok s)"
  proof cases
    case 1
    then show ?thesis using assms(1) by (auto simp: samples_ok_def)
  next
    case 2
    have "1 \<le> d \<and> d \<le> top" if "d \<in> set ds" for d
      using that 2 assms(1) push_all_data(2) [of "m_effectiveSizes n" "m_delays n"] unfolding samples_ok_def by blast
    moreover have "sample_ok s" if "s \<in> set ss" for s
      using that 2 assms(1) push_all_data(2) [of "m_effectiveSizes n" "m_sizes n"] sample_ok_ge_1 unfolding samples_ok_def by blast
    ultimately show ?thesis using 2 assms(1) by (simp add: push_all_data(1) samples_ok_def)
  qed
  then show "length ds = length (m_delays n)" "length ss = length (m_delays n)"
    "\<forall>d \<in> set ds. 1 \<le> d \<and> d \<le> top" "\<forall>s \<in> set ss. sample_ok s" by auto
qed

lemma UpdateModelSmall_pos:
  assumes "ds \<noteq> []" "length ds = length ss" "length ds \<le> 100" "\<forall>d \<in> set ds. 1 \<le> d \<and> d \<le> top" "\<forall>s \<in> set ss. sample_ok s"
    "0 \<le> m_forgotRatio n" "m_forgotRatio n \<le> 1"
  shows "\<exists>rb. UpdateModelSmall ds ss n = n\<lparr>m_reverseBandWidth := rb, m_propagotionDelay := d_0_1\<rparr> \<and> 1 / 2 ^ 46 \<le> rb"
proof -
  have d: "1 / 2 ^ 7 \<le> WeightedMean n ds" using assms by (intro WeightedMean_bounds(3)) (auto intro: order_trans [of _ 1])
  have s: "1 / 2 ^ 17 \<le> WeightedMean n ss" "WeightedMean n ss \<le> 2 ^ 39"
    using assms by (intro WeightedMean_bounds; auto simp: sample_ok_def)+
  have "1 / 2 ^ 7 / 2 ^ 39 \<le> WeightedMean n ds / WeightedMean n ss" using d s by (intro frac_le) auto
  then have "1 / 2 ^ 46 \<le> dquot (WeightedMean n ds) (WeightedMean n ss)"
    unfolding dquot_def using double_inverse_pow2 [of 46] by (intro dbl_ge) simp_all
  then show ?thesis using d s constants(1) by (auto simp: UpdateModelSmall_def)
qed

lemma model_frame:
  "\<exists>a b. UpdateModelSmall ds ss n = n\<lparr>m_reverseBandWidth := a, m_propagotionDelay := b\<rparr>"
  "\<exists>a b. UpdateModelNormal ds ss n = n\<lparr>m_reverseBandWidth := a, m_propagotionDelay := b\<rparr>"
  "\<exists>a b. UpdateModelSafe ds ss n = n\<lparr>m_reverseBandWidth := a, m_propagotionDelay := b\<rparr>"
proof -
  have same: "\<exists>a b. n = n\<lparr>m_reverseBandWidth := a, m_propagotionDelay := b\<rparr>"
    by (rule exI [of _ "m_reverseBandWidth n"], rule exI [of _ "m_propagotionDelay n"]) simp
  show small: "\<exists>a b. UpdateModelSmall ds ss n = n\<lparr>m_reverseBandWidth := a, m_propagotionDelay := b\<rparr>" for ds ss
    using same by (auto simp: UpdateModelSmall_def Let_def)
  show norm: "\<exists>a b. UpdateModelNormal ds ss n = n\<lparr>m_reverseBandWidth := a, m_propagotionDelay := b\<rparr>" for ds ss
    using small by (auto simp: UpdateModelNormal_def Let_def split: prod.split)
  show "\<exists>a b. UpdateModelSafe ds ss n = n\<lparr>m_reverseBandWidth := a, m_propagotionDelay := b\<rparr>"
    using norm by (simp add: UpdateModelSafe_def Let_def)
qed

text \<open>After an update the model passes its check, or it is the simple one of a constant delay.\<close>

definition model_ok :: "NetPred \<Rightarrow> bool" where
  "model_ok n \<longleftrightarrow> SanityCheck n \<or> 1 / 2 ^ 46 \<le> m_reverseBandWidth n \<and> m_propagotionDelay n = d_0_1"

lemma UpdateModel_ok:
  assumes "samples_ok n" "m_delays n \<noteq> []"
  shows "\<exists>a b. UpdateModel n = n\<lparr>m_reverseBandWidth := a, m_propagotionDelay := b\<rparr>" "model_ok (UpdateModel n)"
proof -
  obtain ds ss where m: "model_data n = (ds, ss)" by fastforce
  define n1 where "n1 = UpdateModelNormal ds ss n"
  define n2 where "n2 = (if \<not> SanityCheck n1 then UpdateModelSafe ds ss n1 else n1)"
  have u: "UpdateModel n = (if \<not> SanityCheck n2 then UpdateModelSmall ds ss n2 else n2)"
    by (simp add: UpdateModel_def m n1_def n2_def Let_def)
  obtain a1 b1 where n1: "n1 = n\<lparr>m_reverseBandWidth := a1, m_propagotionDelay := b1\<rparr>" using model_frame(2) n1_def by blast
  obtain a2 b2 where "n2 = n1\<lparr>m_reverseBandWidth := a2, m_propagotionDelay := b2\<rparr>"
  proof (cases "SanityCheck n1")
    case True
    then show ?thesis using that [of "m_propagotionDelay n1" "m_reverseBandWidth n1"] by (simp add: n2_def)
  next
    case False
    then show ?thesis using that model_frame(3) [of ds ss n1] by (auto simp: n2_def)
  qed
  then have n2: "n2 = n\<lparr>m_reverseBandWidth := a2, m_propagotionDelay := b2\<rparr>" by (simp add: n1)
  note md = model_data_ok [OF assms(1) m]
  have "ds \<noteq> []" using md(1) assms(2) by auto
  then obtain rb where s: "UpdateModelSmall ds ss n2 = n2\<lparr>m_reverseBandWidth := rb, m_propagotionDelay := d_0_1\<rparr>" "1 / 2 ^ 46 \<le> rb"
    using UpdateModelSmall_pos [of ds ss n2] md assms(1) by (auto simp: n2 samples_ok_def)
  show "\<exists>a b. UpdateModel n = n\<lparr>m_reverseBandWidth := a, m_propagotionDelay := b\<rparr>" using u s(1) n2 by auto
  show "model_ok (UpdateModel n)" using u s by (auto simp: model_ok_def)
qed

section \<open>The exception\<close>

text \<open>
  The propagation delay that explains a late frame is below the delay of the frame by a margin that rounding does
  not use up, so that the bandwidth computed from it is positive.
\<close>

lemma explained_delay:
  assumes "sample_ok s" "1 \<le> delay" "delay \<le> top"
    and "MinReverseBandwidth < rb \<and> 0 \<le> pd \<or> 1 / 2 ^ 46 \<le> rb \<and> pd = d_0_1"
    and "0 < dsub delay (dadd (dmul rb s) pd)"
  shows "1 / 2 ^ 17 \<le> delay - dadd (dmul (1 / 2) (dsub delay (dmul rb s))) (dmul (1 / 2) pd)"
proof -
  define t where "t = dmul rb s"
  have pd: "0 \<le> pd" and rb: "0 < rb" using assms(4) constants(3,5) by auto
  have s: "0 < s" using assms(1) by (simp add: sample_ok_def)
  have t0: "0 \<le> t" unfolding t_def dmul_def using rb s by (intro dbl_nonneg) simp
  have less: "dadd t pd < delay" using dbl_pos_iff [of "delay - dadd t pd"] assms(5) by (simp add: dsub_def t_def)
  have sum: "t + pd < 2 ^ 33"
  proof (rule ccontr)
    assume "\<not> t + pd < 2 ^ 33"
    then have "2 ^ 33 \<le> dadd t pd" unfolding dadd_def using double_pow2 [of 33] by (intro dbl_ge) (simp_all add: pow2_def)
    then show False using less assms(3) by simp
  qed
  have err: "dbl r \<le> r + 1 / 2 ^ 19" "r - 1 / 2 ^ 19 \<le> dbl r" if "r \<le> 2 ^ 33" "- (2 ^ 33) \<le> r" for r
  proof -
    have "\<bar>r\<bar> \<le> 2 ^ 33" using that by (simp add: abs_le_iff)
    then have "\<bar>dbl r - r\<bar> \<le> 2 ^ 33 / 2 ^ 53 + 1 / 2 ^ 100" by (rule dbl_err_less) simp
    also have "\<dots> \<le> 1 / 2 ^ 19" by simp
    finally show "dbl r \<le> r + 1 / 2 ^ 19" "r - 1 / 2 ^ 19 \<le> dbl r" unfolding abs_le_iff by linarith+
  qed
  define a where "a = dsub delay t"
  define h where "h = dmul (1 / 2) a"
  define p where "p = dmul (1 / 2) pd"
  have e1: "t + pd - 1 / 2 ^ 19 \<le> dadd t pd" unfolding dadd_def using sum t0 pd by (intro err) simp_all
  have e2: "a \<le> delay - t + 1 / 2 ^ 19" "delay - t - 1 / 2 ^ 19 \<le> a"
    unfolding a_def dsub_def using sum t0 pd assms(2,3) by (intro err; simp)+
  have e3: "h \<le> 1 / 2 * a + 1 / 2 ^ 19" "1 / 2 * a - 1 / 2 ^ 19 \<le> h"
    unfolding h_def dmul_def using e2 sum t0 pd assms(2,3) by (intro err; simp)+
  have e4: "p \<le> 1 / 2 * pd + 1 / 2 ^ 19" "1 / 2 * pd - 1 / 2 ^ 19 \<le> p" unfolding p_def dmul_def using sum t0 pd by (intro err; simp)+
  have e5: "dadd h p \<le> h + p + 1 / 2 ^ 19" unfolding dadd_def using e2 e3 e4 sum t0 pd assms(2,3) by (intro err) simp_all
  have "1 / 2 ^ 17 \<le> delay - dadd h p"
    using assms(4)
  proof
    assume m: "MinReverseBandwidth < rb \<and> 0 \<le> pd"
    have "1 / 2 ^ 6 * (1 / 2 ^ 10) \<le> rb * s" using m constants(3) assms(1) by (intro mult_mono) (auto simp: sample_ok_def)
    then have "1 / 2 ^ 16 \<le> t" unfolding t_def dmul_def using double_inverse_pow2 [of 16] by (intro dbl_ge) simp_all
    then show ?thesis using e1 e2 e3 e4 e5 less by simp
  next
    assume m: "1 / 2 ^ 46 \<le> rb \<and> pd = d_0_1"
    then show ?thesis using e2 e3 e4 e5 assms(2) t0 constants(4) by simp
  qed
  then show ?thesis by (simp add: h_def p_def a_def t_def)
qed

lemma dsqrt_nonneg: "0 \<le> dsqrt r"
  by (auto simp: dsqrt_def Let_def intro!: mult_nonneg_nonneg)

lemma model_or_exception_defined:
  assumes "sample_ok s" "1 \<le> delay" "delay \<le> top" "model_ok n" "m_exceptionThreshold n = 1"
  shows "\<exists>pd rb. model_or_exception s delay n = Some (pd, rb) \<and> 0 < rb"
proof -
  let ?rb = "m_reverseBandWidth n" and ?pd = "m_propagotionDelay n"
  let ?p = "dadd (dmul (1 / 2) (dsub delay (dmul ?rb s))) (dmul (1 / 2) ?pd)"
  have m: "MinReverseBandwidth < ?rb \<and> 0 \<le> ?pd \<or> 1 / 2 ^ 46 \<le> ?rb \<and> ?pd = d_0_1"
    using assms(4) by (auto simp: model_ok_def SanityCheck_def)
  then have rb: "0 < ?rb" using constants(3) by auto
  have s: "0 < s" "s \<le> top" using assms(1) by (auto simp: sample_ok_def)
  have "0 < dquot (dsub delay ?p) s" if "dmul 1 e < dsub delay (dadd (dmul ?rb s) ?pd)" "0 \<le> e" for e
  proof -
    have "0 \<le> dmul 1 e" unfolding dmul_def using that(2) by (simp add: dbl_nonneg)
    then have "1 / 2 ^ 17 \<le> delay - ?p" using that(1) by (intro explained_delay assms m) auto
    then have d: "1 / 2 ^ 17 \<le> dsub delay ?p" unfolding dsub_def using double_inverse_pow2 [of 17] by (intro dbl_ge) simp_all
    have "1 / 2 ^ 17 / top \<le> dsub delay ?p / s" using d s by (intro frac_le) auto
    then have "1 / 2 ^ 49 \<le> dquot (dsub delay ?p) s" unfolding dquot_def using double_inverse_pow2 [of 49] by (intro dbl_ge) simp_all
    then show ?thesis by (rule less_le_trans [rotated]) simp
  qed
  then show ?thesis using rb s assms(5) dsqrt_nonneg
    by (auto simp: model_or_exception_def ddiv_def Let_def split: prod.split)
qed

section \<open>The limits of the target\<close>

lemma dbl_rel:
  assumes "0 \<le> r"
  shows "dbl r \<le> r * (1 + 1 / 2 ^ 53) + 1 / 2 ^ 100" "r * (1 - 1 / 2 ^ 53) - 1 / 2 ^ 100 \<le> dbl r"
  using dbl_err [of r] assms unfolding abs_le_iff by (simp_all add: abs_of_nonneg algebra_simps)

lemma filter_constants:
  "9 / 10 - 1 / 2 ^ 53 \<le> d_0_9" "d_0_9 \<le> 9 / 10 + 1 / 2 ^ 53"
  "11 / 20 - 1 / 2 ^ 52 \<le> dsub 1 (dmul (1 / 2) d_0_9)" "dsub 1 (dmul (1 / 2) d_0_9) \<le> 11 / 20 + 1 / 2 ^ 52"
proof -
  show d: "9 / 10 - 1 / 2 ^ 53 \<le> d_0_9" "d_0_9 \<le> 9 / 10 + 1 / 2 ^ 53"
    using dbl_rel [of "9 / 10"] by simp_all
  have "1 / 2 * d_0_9 \<le> 9 / 20 + 1 / 2 ^ 54" "9 / 20 - 1 / 2 ^ 54 \<le> 1 / 2 * d_0_9" using d by simp_all
  then have h: "dmul (1 / 2) d_0_9 \<le> 9 / 20 + 1 / 2 ^ 53" "9 / 20 - 1 / 2 ^ 53 \<le> dmul (1 / 2) d_0_9"
    using dbl_rel [of "1 / 2 * d_0_9"] unfolding dmul_def by simp_all
  then show "11 / 20 - 1 / 2 ^ 52 \<le> dsub 1 (dmul (1 / 2) d_0_9)" "dsub 1 (dmul (1 / 2) d_0_9) \<le> 11 / 20 + 1 / 2 ^ 52"
    using dbl_rel [of "1 - dmul (1 / 2) d_0_9"] unfolding dsub_def by (simp_all add: algebra_simps add_divide_distrib diff_divide_distrib)
qed

text \<open>Smoothing keeps to the limits, up to a part in two to the 48.\<close>

abbreviation smoothed :: "rat \<Rightarrow> rat \<Rightarrow> rat" where
  "smoothed f x \<equiv> dadd (dmul (dmul f d_0_9) (1 / 2)) (dmul x (dsub 1 (dmul (1 / 2) d_0_9)))"

lemma smoothed_upper:
  assumes "0 \<le> f" "f \<le> M + M / 2 ^ 48" "0 \<le> x" "x \<le> M" "1 / 2 ^ 10 \<le> M"
  shows "smoothed f x \<le> M + M / 2 ^ 48"
proof -
  let ?c = "dsub 1 (dmul (1 / 2) d_0_9)"
  have d: "0 \<le> d_0_9" "0 \<le> ?c" using filter_constants(1,3) by simp_all
  have "f * d_0_9 \<le> (M + M / 2 ^ 48) * (9 / 10 + 1 / 2 ^ 53)" using assms filter_constants(2) d by (intro mult_mono) auto
  then have g: "dmul f d_0_9 \<le> (M + M / 2 ^ 48) * (9 / 10 + 1 / 2 ^ 53) * (1 + 1 / 2 ^ 53) + M / 2 ^ 90"
    using dbl_rel(1) [of "f * d_0_9"] assms(1,5) d unfolding dmul_def by simp
  have g0: "0 \<le> dmul f d_0_9" unfolding dmul_def using assms(1) d by (intro dbl_nonneg) simp
  then have h: "dmul (dmul f d_0_9) (1 / 2) \<le> dmul f d_0_9 * (1 / 2) * (1 + 1 / 2 ^ 53) + M / 2 ^ 90"
    using dbl_rel(1) [of "dmul f d_0_9 * (1 / 2)"] assms(5) unfolding dmul_def by simp
  have h0: "0 \<le> dmul (dmul f d_0_9) (1 / 2)" using g0 unfolding dmul_def [of "dmul f d_0_9"] by (intro dbl_nonneg) simp
  have "x * ?c \<le> M * (11 / 20 + 1 / 2 ^ 52)" using assms filter_constants(4) d by (intro mult_mono) auto
  then have y: "dmul x ?c \<le> M * (11 / 20 + 1 / 2 ^ 52) * (1 + 1 / 2 ^ 53) + M / 2 ^ 90"
    using dbl_rel(1) [of "x * ?c"] assms(3,5) d unfolding dmul_def [of x] by simp
  have y0: "0 \<le> dmul x ?c" unfolding dmul_def [of x] using assms(3) d by (intro dbl_nonneg) simp
  have "smoothed f x \<le> (dmul (dmul f d_0_9) (1 / 2) + dmul x ?c) * (1 + 1 / 2 ^ 53) + M / 2 ^ 90"
    using dbl_rel(1) [of "dmul (dmul f d_0_9) (1 / 2) + dmul x ?c"] h0 y0 assms(5) unfolding dadd_def by (simp add: algebra_simps)
  then show ?thesis using g h y assms(5) by (simp add: algebra_simps add_divide_distrib)
qed

lemma smoothed_lower:
  assumes "m - m / 2 ^ 48 \<le> f" "m \<le> x" "1 / 2 ^ 10 \<le> m \<or> m = 0"
  shows "m - m / 2 ^ 48 \<le> smoothed f x"
proof -
  let ?c = "dsub 1 (dmul (1 / 2) d_0_9)"
  have d: "0 \<le> d_0_9" "0 \<le> ?c" using filter_constants(1,3) by simp_all
  have fx: "0 \<le> f" "0 \<le> x" using assms by auto
  have g0: "0 \<le> dmul f d_0_9" unfolding dmul_def using fx d by (intro dbl_nonneg) simp
  then have h0: "0 \<le> dmul (dmul f d_0_9) (1 / 2)" unfolding dmul_def [of "dmul f d_0_9"] by (intro dbl_nonneg) simp
  have y0: "0 \<le> dmul x ?c" unfolding dmul_def [of x] using fx d by (intro dbl_nonneg) simp
  show ?thesis
  proof (cases "m = 0")
    case True
    have "0 \<le> smoothed f x" unfolding dadd_def using h0 y0 by (intro dbl_nonneg) simp
    then show ?thesis using True by simp
  next
    case False
    then have m: "1 / 2 ^ 10 \<le> m" using assms(3) by simp
    have "(m - m / 2 ^ 48) * (9 / 10 - 1 / 2 ^ 53) \<le> f * d_0_9" using assms(1) m filter_constants(1) fx by (intro mult_mono) auto
    then have g: "(m - m / 2 ^ 48) * (9 / 10 - 1 / 2 ^ 53) * (1 - 1 / 2 ^ 53) - m / 2 ^ 90 \<le> dmul f d_0_9"
      using dbl_rel(2) [of "f * d_0_9"] fx m d unfolding dmul_def by simp
    have h: "dmul f d_0_9 * (1 / 2) * (1 - 1 / 2 ^ 53) - m / 2 ^ 90 \<le> dmul (dmul f d_0_9) (1 / 2)"
      using dbl_rel(2) [of "dmul f d_0_9 * (1 / 2)"] g0 m unfolding dmul_def by simp
    have "m * (11 / 20 - 1 / 2 ^ 52) \<le> x * ?c" using assms(2) m filter_constants(3) fx by (intro mult_mono) auto
    then have y: "m * (11 / 20 - 1 / 2 ^ 52) * (1 - 1 / 2 ^ 53) - m / 2 ^ 90 \<le> dmul x ?c"
      using dbl_rel(2) [of "x * ?c"] fx m d unfolding dmul_def [of x] by simp
    have "(dmul (dmul f d_0_9) (1 / 2) + dmul x ?c) * (1 - 1 / 2 ^ 53) - m / 2 ^ 90 \<le> smoothed f x"
      using dbl_rel(2) [of "dmul (dmul f d_0_9) (1 / 2) + dmul x ?c"] h0 y0 m unfolding dadd_def by (simp add: algebra_simps)
    then show ?thesis using g h y m by (simp add: algebra_simps add_divide_distrib diff_divide_distrib)
  qed
qed

text \<open>The limits for frames of at most \<open>b\<close> bytes, and a target within them.\<close>

definition limits_ok :: "nat \<Rightarrow> NetPred \<Rightarrow> bool" where
  "limits_ok b n \<longleftrightarrow> 1 \<le> b \<and> int b \<le> INT_MAX \<and> m_maxTargetSize n = dquot (of_nat b) 1000
     \<and> m_minTargetSize n = dquot (of_nat (b div 10)) 1000 \<and> m_filterFactor n = 1 / 2"

definition target_in :: "NetPred \<Rightarrow> rat \<Rightarrow> bool" where
  "target_in n t \<longleftrightarrow> m_minTargetSize n - m_minTargetSize n / 2 ^ 48 \<le> t \<and> t \<le> m_maxTargetSize n + m_maxTargetSize n / 2 ^ 48"

definition targets_ok :: "NetPred \<Rightarrow> bool" where
  "targets_ok n \<longleftrightarrow> (m_nextTargetSize n = 0 \<or> target_in n (m_nextTargetSize n)) \<and> (m_filteredTargetSize n = 0 \<or> target_in n (m_filteredTargetSize n))"

lemma kilobytes:
  "0 \<le> dquot (of_nat k) 1000" "1 \<le> k \<Longrightarrow> 1 / 2 ^ 10 \<le> dquot (of_nat k) 1000" "j \<le> k \<Longrightarrow> dquot (of_nat j) 1000 \<le> dquot (of_nat k) 1000"
  "k = 0 \<Longrightarrow> dquot (of_nat k) 1000 = 0"
proof -
  show "0 \<le> dquot (of_nat k) 1000" unfolding dquot_def by (intro dbl_nonneg) simp
  show "1 \<le> k \<Longrightarrow> 1 / 2 ^ 10 \<le> dquot (of_nat k) 1000" unfolding dquot_def using double_inverse_pow2 [of 10] by (intro dbl_ge) auto
  show "j \<le> k \<Longrightarrow> dquot (of_nat j) 1000 \<le> dquot (of_nat k) 1000" unfolding dquot_def by (intro dbl_mono divide_right_mono) auto
  show "k = 0 \<Longrightarrow> dquot (of_nat k) 1000 = 0" by (simp add: dquot_def)
qed

lemma limits:
  assumes "limits_ok b n"
  shows "0 \<le> m_minTargetSize n" "m_minTargetSize n \<le> m_maxTargetSize n" "1 / 2 ^ 10 \<le> m_maxTargetSize n"
    "1 / 2 ^ 10 \<le> m_minTargetSize n \<or> m_minTargetSize n = 0"
proof -
  have l: "m_maxTargetSize n = dquot (of_nat b) 1000" "m_minTargetSize n = dquot (of_nat (b div 10)) 1000" "1 \<le> b"
    using assms unfolding limits_ok_def by blast+
  show "0 \<le> m_minTargetSize n" "m_minTargetSize n \<le> m_maxTargetSize n" "1 / 2 ^ 10 \<le> m_maxTargetSize n"
    unfolding l using l(3) by (intro kilobytes; simp)+
  show "1 / 2 ^ 10 \<le> m_minTargetSize n \<or> m_minTargetSize n = 0"
    unfolding l using kilobytes(2,4) [of "b div 10"] by (cases "b div 10 = 0") simp_all
qed

lemma target_in_limits: "limits_ok b n \<Longrightarrow> m_minTargetSize n \<le> t \<Longrightarrow> t \<le> m_maxTargetSize n \<Longrightarrow> target_in n t"
  using limits [of b n] by (simp add: target_in_def)

lemma target_in_nonneg: "limits_ok b n \<Longrightarrow> target_in n t \<Longrightarrow> 0 \<le> t"
  using limits(1) [of b n] by (simp add: target_in_def)

lemma filtered_target_ok:
  assumes "limits_ok b n" "m_filteredTargetSize n = 0 \<or> target_in n (m_filteredTargetSize n)"
  shows "\<exists>t. filter_target (limit_target n) = n\<lparr>m_nextTargetSize := t, m_filteredTargetSize := t\<rparr> \<and> target_in n t"
proof -
  define x where "x = m_nextTargetSize (limit_target n)"
  define f where "f = (if m_filteredTargetSize n < 1 then x else m_filteredTargetSize n)"
  have x: "m_minTargetSize n \<le> x" "x \<le> m_maxTargetSize n"
    using limits(2) [OF assms(1)] by (auto simp: x_def limit_target_def Let_def)
  then have f: "target_in n f" using target_in_limits [OF assms(1)] assms(2) by (auto simp: f_def)
  then have "target_in n (smoothed f x)"
    using x limits [OF assms(1)] target_in_nonneg [OF assms(1)] smoothed_upper [of f "m_maxTargetSize n" x] smoothed_lower [of "m_minTargetSize n" f x]
    by (auto simp: target_in_def)
  moreover have "filter_target (limit_target n) = n\<lparr>m_nextTargetSize := smoothed f x, m_filteredTargetSize := smoothed f x\<rparr>"
  proof -
    have ff: "m_filterFactor n = 1 / 2" using assms(1) unfolding limits_ok_def by blast
    have "limit_target n = n\<lparr>m_nextTargetSize := x\<rparr>" by (simp add: x_def limit_target_def Let_def)
    then show ?thesis by (simp add: filter_target_def ff f_def Let_def)
  qed
  ultimately show ?thesis by blast
qed

lemma target_bytes:
  assumes "limits_ok b n" "target_in n (m_nextTargetSize n)"
  shows "\<exists>s. GetNextFrameSize n = Some s \<and> b div 10 - 1 \<le> s \<and> s \<le> b"
proof -
  define t r k where "t = m_nextTargetSize n" and "r = dmul t 1000" and "k = b div 10"
  have b: "m_maxTargetSize n = dquot (of_nat b) 1000" "m_minTargetSize n = dquot (of_nat k) 1000" "of_nat b < (2 ^ 31 :: rat)" "k \<le> b"
    using assms(1) unfolding limits_ok_def k_def by (auto simp: INT_MAX_def)
  have t: "m_minTargetSize n - m_minTargetSize n / 2 ^ 48 \<le> t" "t \<le> m_maxTargetSize n + m_maxTargetSize n / 2 ^ 48" "0 \<le> t"
    using assms(2) target_in_nonneg [OF assms] by (simp_all add: target_in_def t_def)
  have kb: "(of_nat k :: rat) \<le> of_nat b" using b(4) by simp
  have r0: "0 \<le> r" unfolding r_def dmul_def using t(3) by (intro dbl_nonneg) simp
  have "m_maxTargetSize n \<le> of_nat b / 1000 * (1 + 1 / 2 ^ 53) + 1 / 2 ^ 100" unfolding b dquot_def by (intro dbl_rel) simp
  moreover have "r \<le> t * 1000 * (1 + 1 / 2 ^ 53) + 1 / 2 ^ 100" unfolding r_def dmul_def using t(3) by (intro dbl_rel) simp
  ultimately have up: "r < of_nat b + 1" using t(2) b(3) by (simp add: algebra_simps add_divide_distrib)
  have "of_nat k / 1000 * (1 - 1 / 2 ^ 53) - 1 / 2 ^ 100 \<le> m_minTargetSize n" unfolding b dquot_def by (intro dbl_rel) simp
  moreover have "t * 1000 * (1 - 1 / 2 ^ 53) - 1 / 2 ^ 100 \<le> r" unfolding r_def dmul_def using t(3) by (intro dbl_rel) simp
  ultimately have low: "of_nat k - 1 < r" using t(1) b(3) kb by (simp add: algebra_simps add_divide_distrib diff_divide_distrib)
  have f: "0 \<le> \<lfloor>r\<rfloor>" "\<lfloor>r\<rfloor> \<le> int b" "int k - 1 \<le> \<lfloor>r\<rfloor>"
  proof -
    show "0 \<le> \<lfloor>r\<rfloor>" using r0 by simp
    show "\<lfloor>r\<rfloor> \<le> int b" using up by (simp add: floor_le_iff)
    show "int k - 1 \<le> \<lfloor>r\<rfloor>" using low by (simp add: le_floor_iff)
  qed
  have hb: "int b \<le> INT_MAX" using assms(1) by (simp add: limits_ok_def)
  have "INT_MIN \<le> \<lfloor>r\<rfloor>" "\<lfloor>r\<rfloor> \<le> INT_MAX" using f(1,2) hb by (simp_all only: INT_MIN_def)
  then have "chk32 \<lfloor>r\<rfloor> = Some \<lfloor>r\<rfloor>" by (simp only: chk32_def simp_thms if_True)
  moreover have "z mod 2 ^ 32 = z" if "0 \<le> z" "z \<le> INT_MAX" for z :: int using that by (simp add: INT_MAX_def)
  then have "\<lfloor>r\<rfloor> mod 2 ^ 32 = \<lfloor>r\<rfloor>" using f(1) \<open>\<lfloor>r\<rfloor> \<le> INT_MAX\<close> by blast
  ultimately have "GetNextFrameSize n = Some (nat \<lfloor>r\<rfloor>)"
    using r0 by (simp add: GetNextFrameSize_def t_def [symmetric] r_def [symmetric] int_of_dbl_def)
  then show ?thesis using f by (auto simp: k_def)
qed

section \<open>Updates\<close>

definition counters_le :: "int \<Rightarrow> NetPred \<Rightarrow> bool" where
  "counters_le k n \<longleftrightarrow> 0 \<le> m_framesSinceLastSpike n \<and> m_framesSinceLastSpike n \<le> k \<and> 0 \<le> m_spikes n \<and> m_spikes n \<le> k
     \<and> 0 \<le> m_encFramesForThreshold n \<and> m_encFramesForThreshold n \<le> k \<and> 0 \<le> m_recoveryFrames n \<and> m_recoveryFrames n \<le> k"

text \<open>What the search for a steady state leaves alone.\<close>

definition network_view where
  "network_view n = (m_targetDelay n, m_recordedLen n, m_nextTargetSize n, m_exceptionThreshold n, m_reverseBandWidth n,
     m_propagotionDelay n, m_forgotRatio n, m_delays n, m_sizes n, m_effectiveDelays n, m_effectiveSizes n,
     m_effectiveSizeThreshold n, m_maxTargetSize n, m_minTargetSize n, m_fps n, m_timeout n, m_filteredTargetSize n, m_filterFactor n)"

lemma chk32_counter: "0 \<le> c \<Longrightarrow> c \<le> k \<Longrightarrow> k < INT_MAX \<Longrightarrow> chk32 (c + 1) = Some (c + 1)"
  by (simp add: chk32_def INT_MIN_def INT_MAX_def)

lemma spike_ended_defined:
  assumes "counters_le k n" "k < INT_MAX"
  shows "\<exists>n'. spike_ended n = Some n' \<and> counters_le k (n'\<lparr>m_spikes := 0\<rparr>) \<and> 0 \<le> m_spikes n' \<and> m_spikes n' \<le> k + 1
    \<and> network_view n' = network_view n"
  using assms chk32_counter [of "m_spikes n" k]
  by (auto simp: spike_ended_def counters_le_def network_view_def UpdateSteadyState_def Let_def split: if_splits)

lemma recovery_defined:
  assumes "counters_le k n" "m_recoveryFrames n < INT_MAX"
  shows "\<exists>n'. ManageRecoveryAttempt n = Some n' \<and> counters_le (max k (m_recoveryFrames n + 1)) n' \<and> network_view n' = network_view n"
  using assms chk32_counter [of "m_recoveryFrames n" "m_recoveryFrames n"]
  by (auto simp: ManageRecoveryAttempt_def counters_le_def network_view_def Let_def)

lemma track_defined:
  assumes "counters_le k (n\<lparr>m_spikes := 0\<rparr>)" "0 \<le> m_spikes n" "m_spikes n \<le> k + 1" "k < INT_MAX"
  shows "\<exists>n'. track_size e n = Some n' \<and> counters_le (k + 1) n' \<and> network_view n' = network_view n
    \<and> m_framesSinceLastSpike n' \<le> k \<and> m_recoveryFrames n' \<le> k"
proof -
  have "0 \<le> m_encFramesForThreshold n" "m_encFramesForThreshold n \<le> k" using assms(1) by (simp_all add: counters_le_def)
  then have c: "chk32 (m_encFramesForThreshold n + 1) = Some (m_encFramesForThreshold n + 1)" using chk32_counter assms(4) by blast
  show ?thesis using assms
    by (cases "IsSpikeOn n \<or> m_recoveryAttempt n"; cases "e = 0") (simp_all add: track_size_def counters_le_def network_view_def c)
qed

lemma steady_defined:
  assumes "counters_le k n" "k < INT_MAX"
  shows "\<exists>n'. CheckNewSteadyState e d n = Some n' \<and> counters_le (k + 1) n' \<and> network_view n' = network_view n"
proof (cases "m_enableSteadyStateCheck n")
  case True
  define s1 where "s1 = (if high_delay d n then Some (n\<lparr>m_observeCounter := (m_observeCounter n + 1) mod 2 ^ 32\<rparr>)
    else let spikeEnds = IsSpikeOn n; n = n\<lparr>m_observeCounter := 0\<rparr> in if spikeEnds then spike_ended n else Some n)"
  obtain n1 where n1: "s1 = Some n1" "counters_le k (n1\<lparr>m_spikes := 0\<rparr>)" "0 \<le> m_spikes n1" "m_spikes n1 \<le> k + 1" "network_view n1 = network_view n"
  proof -
    have "counters_le k (n\<lparr>m_observeCounter := c\<rparr>)" "network_view (n\<lparr>m_observeCounter := c\<rparr>) = network_view n" for c
      using assms(1) by (simp_all add: counters_le_def network_view_def)
    moreover have "counters_le k (n\<lparr>m_observeCounter := c, m_spikes := 0\<rparr>)" for c using assms(1) by (simp add: counters_le_def)
    moreover have "0 \<le> m_spikes n" "m_spikes n \<le> k + 1" using assms(1) by (simp_all add: counters_le_def)
    ultimately show ?thesis using that spike_ended_defined [of k "n\<lparr>m_observeCounter := 0\<rparr>"] assms(2)
      by (cases "high_delay d n"; cases "IsSpikeOn n") (auto simp: s1_def Let_def)
  qed
  obtain n2 where n2: "track_size e n1 = Some n2" "counters_le (k + 1) n2" "network_view n2 = network_view n"
    "m_framesSinceLastSpike n2 \<le> k" "m_recoveryFrames n2 \<le> k"
    using track_defined [OF n1(2-4) assms(2)] n1(5) by metis
  let ?n3 = "n2\<lparr>m_framesSinceLastSpike := m_framesSinceLastSpike n2 + 1\<rparr>"
  have "counters_le (k + 1) ?n3" "m_recoveryFrames ?n3 < INT_MAX" using n2 assms(2) by (simp_all add: counters_le_def)
  then obtain n4 where n4: "ManageRecoveryAttempt ?n3 = Some n4" "counters_le (k + 1) n4" "network_view n4 = network_view n"
  proof -
    have "max (k + 1) (m_recoveryFrames ?n3 + 1) = k + 1" "network_view ?n3 = network_view n"
      using n2(3,5) by (simp_all add: network_view_def)
    then show ?thesis using recovery_defined [of "k + 1" ?n3] that \<open>counters_le (k + 1) ?n3\<close> \<open>m_recoveryFrames ?n3 < INT_MAX\<close> by metis
  qed
  have "chk32 (m_framesSinceLastSpike n2 + 1) = Some (m_framesSinceLastSpike n2 + 1)"
    using n2(2,4) assms(2) by (intro chk32_counter) (auto simp: counters_le_def)
  then have "CheckNewSteadyState e d n = Some (if timeout_frames n4 \<le> of_int (m_framesSinceLastSpike n4) then n4\<lparr>m_spikes := 0\<rparr> else n4)"
    using True n1(1) n2(1) n4(1) by (simp add: CheckNewSteadyState_def s1_def [symmetric])
  moreover have "counters_le (k + 1) (n4\<lparr>m_spikes := 0\<rparr>)" "network_view (n4\<lparr>m_spikes := 0\<rparr>) = network_view n"
    using n4(2,3) by (simp_all add: counters_le_def network_view_def)
  ultimately show ?thesis using n4(2,3) by auto
next
  case False
  then show ?thesis using assms(1) by (auto simp: CheckNewSteadyState_def counters_le_def)
qed

text \<open>The whole invariant, for frames of at most \<open>b\<close> bytes and counters up to \<open>k\<close>.\<close>

definition net_inv :: "nat \<Rightarrow> int \<Rightarrow> NetPred \<Rightarrow> bool" where
  "net_inv b k n \<longleftrightarrow> limits_ok b n \<and> targets_ok n \<and> samples_ok n \<and> counters_le k n"

lemma view_cong:
  assumes "network_view n' = network_view n"
  shows "limits_ok b n' = limits_ok b n" "target_in n' = target_in n" "targets_ok n' = targets_ok n" "samples_ok n' = samples_ok n"
  using assms by (auto simp: network_view_def limits_ok_def target_in_def targets_ok_def samples_ok_def fun_eq_iff)

definition update_valid :: "nat \<times> nat \<times> rat \<Rightarrow> bool" where
  "update_valid = (\<lambda>(sz, e, d). sz < 2 ^ 32 \<and> (d < 0 \<or> 1 \<le> sz \<and> 1 \<le> d \<and> d \<le> top))"

lemma record_sample_ok:
  assumes "samples_ok n" "sample_ok s" "1 \<le> d" "d \<le> top"
  shows "samples_ok (record_sample s d n)" "m_delays (record_sample s d n) \<noteq> []"
    "\<exists>ds ss es ed. record_sample s d n = n\<lparr>m_delays := ds, m_sizes := ss, m_effectiveSizes := es, m_effectiveDelays := ed\<rparr>"
proof -
  define ds where "ds = (if m_recordedLen n < int (length (d # m_delays n)) then butlast (d # m_delays n) else d # m_delays n)"
  define ss where "ss = (if m_recordedLen n < int (length (d # m_delays n)) then butlast (s # m_sizes n) else s # m_sizes n)"
  obtain es ed where r: "record_sample s d n = n\<lparr>m_delays := ds, m_sizes := ss, m_effectiveSizes := es, m_effectiveDelays := ed\<rparr>"
    and es: "set es \<subseteq> (if 1 \<le> s then {s} else {}) \<union> set (m_effectiveSizes n)"
  proof (cases "1 \<le> s")
    case True
    let ?cut = "m_effectiveDataLen n < length (d # m_effectiveDelays n)"
    let ?es = "if ?cut then butlast (s # m_effectiveSizes n) else s # m_effectiveSizes n"
    let ?ed = "if ?cut then butlast (d # m_effectiveDelays n) else d # m_effectiveDelays n"
    have "record_sample s d n = n\<lparr>m_delays := ds, m_sizes := ss, m_effectiveSizes := ?es, m_effectiveDelays := ?ed\<rparr>"
      using True assms(1) by (simp add: record_sample_def ds_def ss_def samples_ok_def Let_def del: butlast.simps)
    moreover have "set ?es \<subseteq> (if 1 \<le> s then {s} else {}) \<union> set (m_effectiveSizes n)"
      using True by (auto dest: in_set_butlastD split: if_splits)
    ultimately show ?thesis by (rule that)
  next
    case False
    then have "record_sample s d n = n\<lparr>m_delays := ds, m_sizes := ss, m_effectiveSizes := m_effectiveSizes n, m_effectiveDelays := m_effectiveDelays n\<rparr>"
      using assms(1) by (simp add: record_sample_def ds_def ss_def samples_ok_def Let_def del: butlast.simps)
    then show ?thesis using that by blast
  qed
  show "\<exists>ds ss es ed. record_sample s d n = n\<lparr>m_delays := ds, m_sizes := ss, m_effectiveSizes := es, m_effectiveDelays := ed\<rparr>" using r by blast
  have sets: "set ds \<subseteq> insert d (set (m_delays n))" "set ss \<subseteq> insert s (set (m_sizes n))"
    by (auto simp: ds_def ss_def dest: in_set_butlastD split: if_splits)
  have len: "length ds = length ss" "length ds \<le> 100" "ds \<noteq> []"
    using assms(1) by (auto simp: ds_def ss_def samples_ok_def)
  show "m_delays (record_sample s d n) \<noteq> []" using len(3) by (simp add: r)
  have "\<forall>x \<in> set ds. 1 \<le> x \<and> x \<le> top" using sets(1) assms unfolding samples_ok_def by blast
  moreover have "\<forall>x \<in> set ss. sample_ok x" using sets(2) assms unfolding samples_ok_def by blast
  moreover have "\<forall>x \<in> set es. 1 \<le> x \<and> x \<le> top"
    using es assms(1,2) unfolding samples_ok_def sample_ok_def by (auto split: if_splits)
  ultimately show "samples_ok (record_sample s d n)" using assms(1) len by (simp add: r samples_ok_def)
qed

lemma AdjustTarget_frame: "\<exists>t. AdjustTarget d n = n\<lparr>m_nextTargetSize := t\<rparr>"
proof -
  have "n = n\<lparr>m_nextTargetSize := m_nextTargetSize n\<rparr>" by simp
  then show ?thesis unfolding AdjustTarget_def Let_def by (auto intro: exI [of _ "m_nextTargetSize n"])
qed

lemma kilobyte_sample: "1 \<le> sz \<Longrightarrow> sz < 2 ^ 32 \<Longrightarrow> sample_ok (dquot (of_nat sz) 1000)"
proof -
  assume sz: "1 \<le> sz" "sz < 2 ^ 32"
  have "(of_nat sz :: rat) \<le> of_nat (2 ^ 32)" using sz(2) by (simp only: of_nat_le_iff)
  then have "dquot (of_nat sz) 1000 \<le> top" unfolding dquot_def using double_pow2 [of 32] by (intro dbl_le) (simp_all add: pow2_def)
  then show ?thesis using kilobytes(2) [OF sz(1)] by (simp add: sample_ok_def)
qed

lemma reduced_target:
  assumes "limits_ok b n" "m_nextTargetSize n = 0 \<or> target_in n (m_nextTargetSize n)"
  shows "target_in n (let t = dmul (m_nextTargetSize n) d_0_95 in if t < m_minTargetSize n then m_minTargetSize n else t)"
proof -
  define u where "u = m_maxTargetSize n + m_maxTargetSize n / 2 ^ 48"
  note l = limits [OF assms(1)]
  have x: "0 \<le> m_nextTargetSize n" "m_nextTargetSize n \<le> u"
    using assms target_in_nonneg [OF assms(1)] l(3) by (auto simp: u_def target_in_def)
  have "d_0_95 \<le> 96 / 100" "0 \<le> d_0_95" using dbl_rel(1) [of "95 / 100"] dbl_nonneg [of "95 / 100"] by simp_all
  then have "m_nextTargetSize n * d_0_95 \<le> u * (96 / 100)" "0 \<le> m_nextTargetSize n * d_0_95"
    using mult_mono [of "m_nextTargetSize n" u d_0_95 "96 / 100"] mult_nonneg_nonneg [of "m_nextTargetSize n" d_0_95] x by linarith+
  then have "dmul (m_nextTargetSize n) d_0_95 \<le> u * (96 / 100) * (1 + 1 / 2 ^ 53) + 1 / 2 ^ 100"
    using dbl_rel(1) [of "m_nextTargetSize n * d_0_95"] unfolding dmul_def by simp
  moreover have "m_maxTargetSize n \<le> u" using l(3) by (simp add: u_def)
  ultimately have "dmul (m_nextTargetSize n) d_0_95 \<le> u" using l(3) by (simp add: algebra_simps)
  then show ?thesis using target_in_limits [OF assms(1), of "m_minTargetSize n"] l(1,2) by (auto simp: target_in_def u_def Let_def)
qed

lemma update_inv:
  assumes "net_inv b k n" "k < INT_MAX" "update_valid (sz, e, d)"
  shows "\<exists>n'. UpdateSizeAndDelay sz e d n = Some n' \<and> net_inv b (k + 1) n' \<and> target_in n' (m_nextTargetSize n')"
proof -
  obtain n1 where n1: "CheckNewSteadyState e d n = Some n1" "counters_le (k + 1) n1" "network_view n1 = network_view n"
    using steady_defined assms(1,2) by (metis net_inv_def)
  have inv: "limits_ok b n1" "targets_ok n1" "samples_ok n1" using view_cong [OF n1(3)] assms(1) by (simp_all add: net_inv_def)
  show ?thesis
  proof (cases "d < 0")
    case True
    define t where "t = (let t = dmul (m_nextTargetSize n1) d_0_95 in if t < m_minTargetSize n1 then m_minTargetSize n1 else t)"
    have u: "UpdateSizeAndDelay sz e d n = Some (n1\<lparr>m_nextTargetSize := t\<rparr>)"
      using True n1(1) by (simp add: UpdateSizeAndDelay_def t_def Let_def)
    have "target_in n1 t" unfolding t_def using inv by (intro reduced_target) (simp_all add: targets_ok_def)
    then show ?thesis using u inv n1(2)
      by (simp add: net_inv_def limits_ok_def targets_ok_def target_in_def samples_ok_def counters_le_def)
  next
    case False
    define s where "s = dquot (of_nat sz) 1000"
    have d: "1 \<le> d" "d \<le> top" and s: "sample_ok s"
      using assms(3) False kilobyte_sample [of sz] by (auto simp: update_valid_def s_def)
    define n2 where "n2 = record_sample s d n1"
    have n2: "samples_ok n2" "m_delays n2 \<noteq> []" using record_sample_ok [OF inv(3) s d] by (simp_all add: n2_def)
    obtain n3 where n3: "n3 = UpdateModel n2" by blast
    obtain rb pd where fr: "n3 = n2\<lparr>m_reverseBandWidth := rb, m_propagotionDelay := pd\<rparr>" using UpdateModel_ok(1) [OF n2] n3 by blast
    obtain ds ss es ed where fr2: "n2 = n1\<lparr>m_delays := ds, m_sizes := ss, m_effectiveSizes := es, m_effectiveDelays := ed\<rparr>"
      using record_sample_ok(3) [OF inv(3) s d] n2_def by blast
    have "model_ok n3" using UpdateModel_ok(2) [OF n2] n3 by simp
    moreover have "m_exceptionThreshold n3 = 1" using n2(1) by (simp add: fr samples_ok_def)
    ultimately obtain pd' rb' where ex: "model_or_exception s d n3 = Some (pd', rb')" "0 < rb'"
      using model_or_exception_defined s d by blast
    define t where "t = dquot (dsub (dmul d_0_9 (m_targetDelay n3)) pd') rb'"
    define n4 where "n4 = n3\<lparr>m_previousTargetSize := m_nextTargetSize n3, m_nextTargetSize := t\<rparr>"
    obtain t' where t': "AdjustTarget d n4 = n4\<lparr>m_nextTargetSize := t'\<rparr>" using AdjustTarget_frame by blast
    let ?n5 = "n4\<lparr>m_nextTargetSize := t'\<rparr>"
    have l5: "limits_ok b ?n5" "m_filteredTargetSize ?n5 = 0 \<or> target_in ?n5 (m_filteredTargetSize ?n5)"
      using inv(1,2) by (simp_all add: n4_def fr fr2 limits_ok_def targets_ok_def target_in_def)
    then obtain t6 where t6: "filter_target (limit_target ?n5) = ?n5\<lparr>m_nextTargetSize := t6, m_filteredTargetSize := t6\<rparr>" "target_in ?n5 t6"
      using filtered_target_ok by blast
    have "UpdateSizeAndDelay sz e d n = Some (?n5\<lparr>m_nextTargetSize := t6, m_filteredTargetSize := t6\<rparr>)"
      using False n1(1) ex t' t6(1)
      by (simp add: UpdateSizeAndDelay_def s_def [symmetric] n2_def [symmetric] n3 [symmetric] ddiv_def t_def [symmetric] n4_def [symmetric])
    moreover have "samples_ok ?n5" "counters_le (k + 1) ?n5"
      using n2(1) n1(2) by (simp_all add: n4_def fr samples_ok_def counters_le_def) (simp_all add: fr2)
    ultimately show ?thesis using l5(1) t6(2)
      by (simp add: net_inv_def limits_ok_def targets_ok_def target_in_def samples_ok_def counters_le_def)
  qed
qed

section \<open>Histories of updates\<close>

fun net_run :: "(nat \<times> nat \<times> rat) list \<Rightarrow> NetPred \<Rightarrow> NetPred option" where
  "net_run [] n = Some n"
| "net_run ((sz, e, d) # us) n = do { n \<leftarrow> UpdateSizeAndDelay sz e d n; net_run us n }"

lemma net_run_inv:
  assumes "net_inv b k n" "k + int (length us) \<le> INT_MAX" "list_all update_valid us"
  shows "\<exists>n'. net_run us n = Some n' \<and> net_inv b (k + int (length us)) n' \<and> (us = [] \<or> target_in n' (m_nextTargetSize n'))"
  using assms
proof (induction us arbitrary: k n)
  case (Cons u us)
  obtain sz e d where u: "u = (sz, e, d)" by (cases u) auto
  obtain n1 where n1: "UpdateSizeAndDelay sz e d n = Some n1" "net_inv b (k + 1) n1" "target_in n1 (m_nextTargetSize n1)"
    using update_inv [of b k n sz e d] Cons.prems by (auto simp: u)
  then have "\<exists>n'. net_run us n1 = Some n' \<and> net_inv b (k + 1 + int (length us)) n' \<and> (us = [] \<or> target_in n' (m_nextTargetSize n'))"
    using Cons.prems by (intro Cons.IH) (auto simp: u)
  then show ?case using n1 by (auto simp: u add.assoc)
qed auto

text \<open>The model as the predictor sets it up.\<close>

definition net_setup :: "rat \<Rightarrow> string option \<Rightarrow> nat \<Rightarrow> rat \<Rightarrow> NetPred" where
  "net_setup ratio env b delay =
     SetTargetDelay delay (SetRecordedLen 100 (SetMinTargetSize (b div 10) (SetMaxTargetSize b (new_NetPred ratio env))))"

lemma net_setup_inv:
  assumes "0 \<le> ratio" "ratio \<le> 1" "1 \<le> b" "int b \<le> INT_MAX"
  shows "net_inv b 0 (net_setup ratio env b delay)"
  using assms
  by (simp add: net_inv_def net_setup_def new_NetPred_def SetTargetDelay_def SetRecordedLen_def SetMinTargetSize_def SetMaxTargetSize_def
      limits_ok_def targets_ok_def samples_ok_def counters_le_def)

text \<open>
  Whatever sizes and delays are reported, the network model never divides by zero and never overflows, and the
  size it predicts for the next frame is at most the largest frame size and at least a tenth of it, less one byte.
\<close>

theorem prediction_bounded:
  assumes "0 \<le> ratio" "ratio \<le> 1" "1 \<le> b" "int b \<le> INT_MAX" "list_all update_valid us" "us \<noteq> []" "int (length us) \<le> INT_MAX"
  shows "\<exists>n s. net_run us (net_setup ratio env b delay) = Some n \<and> GetNextFrameSize n = Some s \<and> b div 10 - 1 \<le> s \<and> s \<le> b"
proof -
  obtain n where n: "net_run us (net_setup ratio env b delay) = Some n" "net_inv b (int (length us)) n" "target_in n (m_nextTargetSize n)"
    using net_run_inv [OF net_setup_inv [OF assms(1-4)]] assms(5-7) by fastforce
  then show ?thesis using target_bytes [of b n] by (auto simp: net_inv_def)
qed

theorem prediction_bounded_witness:
  "\<exists>n s. net_run [(48000, 50000, 20), (48000, 50000, -1), (1, 0, 900)] (net_setup (977 / 1000) None 50000 100) = Some n
     \<and> GetNextFrameSize n = Some s \<and> 4999 \<le> s \<and> s \<le> 50000"
  using prediction_bounded [of "977 / 1000" 50000 "[(48000, 50000, 20), (48000, 50000, -1), (1, 0, 900)]" None 100]
  by (simp add: update_valid_def INT_MAX_def)

section \<open>Recovery from a new steady state\<close>

text \<open>The part of the state that the search for a steady state reads and writes.\<close>

definition steady_view where
  "steady_view n = (m_enableSteadyStateCheck n, m_targetDelay n, m_fps n, m_timeout n, m_observeCounterThreshold n, m_observeCounter n,
     m_newState n, m_recoveryAttempt n, m_recoveryFrames n, m_framesSinceLastSpike n, m_timeToExplore n, m_estimatedThresholdSize n)"

lemma UpdateModel_frame: "\<exists>a b. UpdateModel n = n\<lparr>m_reverseBandWidth := a, m_propagotionDelay := b\<rparr>"
proof -
  obtain ds ss where m: "model_data n = (ds, ss)" by fastforce
  obtain a b where n1: "UpdateModelNormal ds ss n = n\<lparr>m_reverseBandWidth := a, m_propagotionDelay := b\<rparr>" using model_frame(2) by blast
  obtain c d where n2: "UpdateModelSafe ds ss (n\<lparr>m_reverseBandWidth := a, m_propagotionDelay := b\<rparr>) = n\<lparr>m_reverseBandWidth := c, m_propagotionDelay := d\<rparr>"
    using model_frame(3) [of ds ss "n\<lparr>m_reverseBandWidth := a, m_propagotionDelay := b\<rparr>"] by auto
  have "\<exists>x y. UpdateModelSmall ds ss (n\<lparr>m_reverseBandWidth := e, m_propagotionDelay := f\<rparr>) = n\<lparr>m_reverseBandWidth := x, m_propagotionDelay := y\<rparr>" for e f
    using model_frame(1) [of ds ss "n\<lparr>m_reverseBandWidth := e, m_propagotionDelay := f\<rparr>"] by auto
  then show ?thesis using n1 n2 unfolding UpdateModel_def m by (simp add: Let_def) metis
qed

lemma update_steady_view:
  assumes "UpdateSizeAndDelay sz e d n = Some n'"
  shows "\<exists>n1. CheckNewSteadyState e d n = Some n1 \<and> steady_view n' = steady_view n1"
proof -
  obtain n1 where n1: "CheckNewSteadyState e d n = Some n1" using assms by (auto simp: UpdateSizeAndDelay_def split: bind_splits)
  have 1: "steady_view (record_sample s d m) = steady_view m" for s d m by (simp add: record_sample_def steady_view_def Let_def)
  have 2: "steady_view (UpdateModel m) = steady_view m" for m using UpdateModel_frame [of m] by (auto simp: steady_view_def)
  have 3: "steady_view (filter_target (limit_target (AdjustTarget d m))) = steady_view m" for d m
    using AdjustTarget_frame [of d m] by (auto simp: steady_view_def filter_target_def limit_target_def Let_def)
  have 4: "steady_view (m\<lparr>m_previousTargetSize := a\<rparr>) = steady_view m" "steady_view (m\<lparr>m_nextTargetSize := b\<rparr>) = steady_view m" for m a b
    by (simp_all add: steady_view_def)
  have "steady_view n' = steady_view n1"
    using assms n1 by (auto simp: UpdateSizeAndDelay_def 1 2 3 4 Let_def split: bind_splits if_splits)
  then show ?thesis using n1 by blast
qed

definition quiet_frame :: "rat \<Rightarrow> nat \<times> nat \<times> rat \<Rightarrow> bool" where
  "quiet_frame td = (\<lambda>(sz, e, d). 0 \<le> d \<and> d \<le> td \<and> d \<le> dquot td 2)"

text \<open>Waiting for a recovery, and the recovery after \<open>k\<close> frames, for the whole numbers of frames \<open>X\<close> and \<open>T\<close>.\<close>

definition searching :: "int \<Rightarrow> int \<Rightarrow> rat \<Rightarrow> NetPred \<Rightarrow> bool" where
  "searching T X td n \<longleftrightarrow> m_enableSteadyStateCheck n \<and> m_targetDelay n = td \<and> timeout_frames n = of_int T
     \<and> dmul (of_nat (m_timeToExplore n)) (m_fps n) = of_int X \<and> m_newState n \<and> m_observeCounter n < m_observeCounterThreshold n"

definition awaiting :: "int \<Rightarrow> int \<Rightarrow> rat \<Rightarrow> int \<Rightarrow> NetPred \<Rightarrow> bool" where
  "awaiting T X td k n \<longleftrightarrow> searching T X td n \<and> \<not> m_recoveryAttempt n \<and> m_framesSinceLastSpike n = k"

definition recovering :: "int \<Rightarrow> int \<Rightarrow> rat \<Rightarrow> int \<Rightarrow> NetPred \<Rightarrow> bool" where
  "recovering T X td k n \<longleftrightarrow> searching T X td n \<and> m_recoveryAttempt n \<and> m_recoveryFrames n = k"

definition recovered :: "NetPred \<Rightarrow> bool" where
  "recovered n \<longleftrightarrow> \<not> m_newState n \<and> \<not> m_recoveryAttempt n \<and> m_estimatedThresholdSize n = 0"

lemma steady_cong:
  assumes "steady_view n' = steady_view n"
  shows "awaiting T X td k n' = awaiting T X td k n" "recovering T X td k n' = recovering T X td k n" "recovered n' = recovered n"
  using assms by (auto simp: steady_view_def awaiting_def recovering_def searching_def recovered_def timeout_frames_def)

lemma quiet_frame_check:
  assumes "CheckNewSteadyState e d n = Some n'" "quiet_frame td (sz, e, d)" "searching T X td n"
  shows "\<exists>m m'. ManageRecoveryAttempt m = Some m' \<and> steady_view n' = steady_view m'
    \<and> steady_view m = steady_view (n\<lparr>m_observeCounter := 0, m_framesSinceLastSpike := m_framesSinceLastSpike n + 1\<rparr>)"
proof -
  have h: "\<not> high_delay d n" "\<not> IsSpikeOn n" using assms(2,3) by (auto simp: quiet_frame_def high_delay_def searching_def IsSpikeOn_def)
  then obtain m1 k m' where m: "track_size e (n\<lparr>m_observeCounter := 0\<rparr>) = Some m1" "chk32 (m_framesSinceLastSpike m1 + 1) = Some k"
    "ManageRecoveryAttempt (m1\<lparr>m_framesSinceLastSpike := k\<rparr>) = Some m'"
    "n' = (if timeout_frames m' \<le> of_int (m_framesSinceLastSpike m') then m'\<lparr>m_spikes := 0\<rparr> else m')"
    using assms(1,3) by (auto simp: CheckNewSteadyState_def searching_def Let_def split: bind_splits)
  have "k = m_framesSinceLastSpike m1 + 1" using m(2) by (simp add: chk32_def split: if_splits)
  moreover have "steady_view m1 = steady_view (n\<lparr>m_observeCounter := 0\<rparr>)"
    using m(1) by (auto simp: track_size_def steady_view_def Let_def split: if_splits)
  ultimately have "steady_view (m1\<lparr>m_framesSinceLastSpike := k\<rparr>) = steady_view (n\<lparr>m_observeCounter := 0, m_framesSinceLastSpike := m_framesSinceLastSpike n + 1\<rparr>)"
    by (simp add: steady_view_def)
  moreover have "steady_view n' = steady_view m'" using m(4) by (simp add: steady_view_def)
  ultimately show ?thesis using m(3) by blast
qed

lemma awaiting_check:
  assumes "CheckNewSteadyState e d n = Some n'" "quiet_frame td (sz, e, d)" "awaiting T X td k n"
  shows "if k + 1 = X then recovering T X td 0 n' else awaiting T X td (k + 1) n'"
proof -
  obtain m m' where m: "ManageRecoveryAttempt m = Some m'" "steady_view n' = steady_view m'"
    "steady_view m = steady_view (n\<lparr>m_observeCounter := 0, m_framesSinceLastSpike := m_framesSinceLastSpike n + 1\<rparr>)"
    using quiet_frame_check [OF assms(1,2), of T X] assms(3) unfolding awaiting_def by blast
  then have v: "\<not> m_recoveryAttempt m" "m_newState m" "\<not> IsSpikeOn m" "m_framesSinceLastSpike m = k + 1" "searching T X td m"
    "dmul (of_nat (m_timeToExplore m)) (m_fps m) = of_int X"
    using assms(3) by (auto simp: steady_view_def awaiting_def searching_def IsSpikeOn_def timeout_frames_def)
  have "m' = (if k + 1 = X then m\<lparr>m_recoveryAttempt := True, m_recoveryFrames := 0\<rparr> else m\<lparr>m_recoveryAttempt := False\<rparr>)"
    using m(1) v by (auto simp: ManageRecoveryAttempt_def Let_def)
  then have "if k + 1 = X then recovering T X td 0 m' else awaiting T X td (k + 1) m'"
    using v by (auto simp: recovering_def awaiting_def searching_def timeout_frames_def)
  then show ?thesis using steady_cong [OF m(2)] by auto
qed

lemma recovering_check:
  assumes "CheckNewSteadyState e d n = Some n'" "quiet_frame td (sz, e, d)" "recovering T X td k n" "k < T"
  shows "if k + 1 = T then recovered n' else recovering T X td (k + 1) n'"
proof -
  obtain m m' where m: "ManageRecoveryAttempt m = Some m'" "steady_view n' = steady_view m'"
    "steady_view m = steady_view (n\<lparr>m_observeCounter := 0, m_framesSinceLastSpike := m_framesSinceLastSpike n + 1\<rparr>)"
    using quiet_frame_check [OF assms(1,2), of T X] assms(3) unfolding recovering_def by blast
  then have v: "m_recoveryAttempt m" "m_recoveryFrames m = k" "searching T X td m" "timeout_frames m = of_int T"
    using assms(3) by (auto simp: steady_view_def recovering_def searching_def timeout_frames_def)
  have on: "of_int (m_recoveryFrames m) \<le> timeout_frames m" using v assms(4) by simp
  have tf: "timeout_frames (m\<lparr>m_recoveryFrames := j\<rparr>) = of_int T" for j using v(4) by (simp add: timeout_frames_def)
  obtain j where j: "chk32 (k + 1) = Some j" using m(1) v on by (auto simp: ManageRecoveryAttempt_def Let_def split: bind_splits)
  then have "j = k + 1" by (simp add: chk32_def split: if_splits)
  then have "if k + 1 = T then recovered m' else recovering T X td (k + 1) m'"
    using m(1) v on tf j by (auto simp: ManageRecoveryAttempt_def Let_def recovered_def recovering_def searching_def timeout_frames_def)
  then show ?thesis using steady_cong [OF m(2)] by auto
qed

lemma recovering_run:
  assumes "net_run us n = Some n'" "recovering T X td k n" "k < T" "int (length us) = T - k" "list_all (quiet_frame td) us"
  shows "recovered n'"
  using assms
proof (induction us arbitrary: n k)
  case (Cons u us)
  obtain sz e d where u: "u = (sz, e, d)" by (cases u) auto
  obtain n1 where n1: "UpdateSizeAndDelay sz e d n = Some n1" "net_run us n1 = Some n'" using Cons.prems(1) by (auto simp: u split: bind_splits)
  obtain n2 where n2: "CheckNewSteadyState e d n = Some n2" "steady_view n1 = steady_view n2" using update_steady_view [OF n1(1)] by blast
  have "if k + 1 = T then recovered n1 else recovering T X td (k + 1) n1"
    using recovering_check [OF n2(1), of td sz T X k] Cons.prems steady_cong [OF n2(2)] by (auto simp: u)
  then show ?case using Cons.IH [OF n1(2), of "k + 1"] Cons.prems n1(2) by (cases "k + 1 = T") (auto simp: u)
qed simp

lemma awaiting_run:
  assumes "net_run us n = Some n'" "awaiting T X td k n" "k < X" "0 < T" "int (length us) = X - k + T" "list_all (quiet_frame td) us"
  shows "recovered n'"
  using assms
proof (induction us arbitrary: n k)
  case (Cons u us)
  obtain sz e d where u: "u = (sz, e, d)" by (cases u) auto
  obtain n1 where n1: "UpdateSizeAndDelay sz e d n = Some n1" "net_run us n1 = Some n'" using Cons.prems(1) by (auto simp: u split: bind_splits)
  obtain n2 where n2: "CheckNewSteadyState e d n = Some n2" "steady_view n1 = steady_view n2" using update_steady_view [OF n1(1)] by blast
  have w: "if k + 1 = X then recovering T X td 0 n1 else awaiting T X td (k + 1) n1"
    using awaiting_check [OF n2(1), of td sz T X k] Cons.prems steady_cong [OF n2(2)] by (auto simp: u)
  show ?case
  proof (cases "k + 1 = X")
    case True
    then show ?thesis using recovering_run [OF n1(2), of T X td 0] w Cons.prems by (auto simp: u)
  next
    case False
    then show ?thesis using Cons.IH [OF n1(2), of "k + 1"] w Cons.prems by (auto simp: u)
  qed
qed simp


lemma net_inv_settings:
  "net_inv b k (n\<lparr>m_fps := f\<rparr>) = net_inv b k n" "net_inv b k (n\<lparr>m_newState := s\<rparr>) = net_inv b k n"
  "net_inv b k (n\<lparr>m_estimatedThresholdSize := t\<rparr>) = net_inv b k n"
  by (simp_all add: net_inv_def limits_ok_def targets_ok_def target_in_def samples_ok_def counters_le_def)


section \<open>What does not work as meant\<close>

text \<open>The delays kept with the sizes of the effective frames are never looked at: the sizes are taken for delays.\<close>

lemma effective_delays_unused: "model_data (n\<lparr>m_effectiveDelays := ds\<rparr>) = model_data n"
  by (simp add: model_data_def)

lemma sizes_taken_for_delays:
  "model_data (n\<lparr>m_effectiveSizeThreshold := 1, m_sizes := [1 / 2], m_delays := [30], m_effectiveSizes := [40], m_effectiveDelays := [90]\<rparr>)
     = ([40], [40])"
  by (simp add: model_data_def push_all_def)

text \<open>A frame rate for which the time to explore is not a whole number of frames never leads to an attempt at recovery.\<close>

lemma fractional_rate_never_recovers:
  assumes "\<forall>z. dmul (of_nat (m_timeToExplore n)) (m_fps n) \<noteq> of_int z" "\<not> m_recoveryAttempt n" "ManageRecoveryAttempt n = Some n'"
  shows "\<not> m_recoveryAttempt n' \<and> m_newState n' = m_newState n"
proof -
  have "of_int (m_framesSinceLastSpike n) \<noteq> dmul (of_nat (m_timeToExplore n)) (m_fps n)" using assms(1) by metis
  then have "n' = n\<lparr>m_recoveryAttempt := False\<rparr>" using assms(2,3) by (simp add: ManageRecoveryAttempt_def Let_def)
  then show ?thesis by simp
qed

end
