(* ===== verification/TcaeProps.thy ===== *)
theory TcaeProps
  imports Tcae NetPredProps
begin

text \<open>
  What adaptive encoding guarantees its users: target sizes within the limits set at the start, whatever the network
  and the encoder report and in whatever order, and frames that are dropped only in short runs and far apart.
\<close>

section \<open>Target sizes\<close>

definition stat_ok :: "nat \<times> nat \<Rightarrow> bool" where
  "stat_ok = (\<lambda>(tr, d). 1 \<le> tr \<and> tr < 2 ^ 32 \<and> 1 \<le> d \<and> d \<le> 2 ^ 32)"

definition fed :: "nat \<Rightarrow> int \<Rightarrow> NetPred \<Rightarrow> bool" where
  "fed b k n \<longleftrightarrow> net_inv b k n \<and> (m_nextTargetSize n = 0 \<or> target_in n (m_nextTargetSize n))"

lemma fed_update: "fed b k n \<Longrightarrow> k < INT_MAX \<Longrightarrow> update_valid (sz, e, d) \<Longrightarrow> \<exists>n'. UpdateSizeAndDelay sz e d n = Some n' \<and> fed b (k + 1) n'"
  using update_inv [of b k n sz e d] by (auto simp: fed_def)

lemma feed_stats_ok:
  assumes "fed b k n" "k + int (length stats) \<le> INT_MAX" "list_all stat_ok stats" "fst lst < 2 ^ 32"
  shows "\<exists>lst' n'. feed_stats stats bits lst n = Some (drop (length stats) bits, lst', n') \<and> fed b (k + int (length stats)) n' \<and> fst lst' < 2 ^ 32"
  using assms
proof (induction stats arbitrary: bits lst k n)
  case (Cons s stats)
  obtain tr d where s: "s = (tr, d)" by (cases s)
  have v: "update_valid (tr, e, of_nat d)" for e
  proof -
    have "(of_nat d :: rat) \<le> of_nat (2 ^ 32)" using Cons.prems(3) by (simp only: of_nat_le_iff) (simp add: s stat_ok_def)
    then show ?thesis using Cons.prems(3) by (simp add: s stat_ok_def update_valid_def)
  qed
  obtain n1 where n1: "UpdateSizeAndDelay tr (case bits of [] \<Rightarrow> 0 | b # _ \<Rightarrow> b) (of_nat d) n = Some n1" "fed b (k + 1) n1"
    using fed_update [OF Cons.prems(1) _ v] Cons.prems(2) by fastforce
  obtain lst' n' where "feed_stats stats (drop 1 bits) (tr, d) n1 = Some (drop (length stats) (drop 1 bits), lst', n')"
    "fed b (k + 1 + int (length stats)) n'" "fst lst' < 2 ^ 32"
    using Cons.IH [OF n1(2), of "(tr, d)" "drop 1 bits"] Cons.prems by (auto simp: s stat_ok_def)
  then show ?case using n1(1) by (simp add: s add.assoc)
qed simp

lemma feed_bits_ok:
  assumes "fed b k n" "k + int (length bits) \<le> INT_MAX" "tr < 2 ^ 32"
  shows "\<exists>n'. feed_bits valid tr bits n = Some n' \<and> fed b (k + int (length bits)) n'"
  using assms
proof (induction bits arbitrary: k n)
  case (Cons e bits)
  have mono: "fed b k n \<Longrightarrow> fed b (k + 1) n" by (auto simp: fed_def net_inv_def counters_le_def)
  obtain n1 where n1: "(if valid then UpdateSizeAndDelay tr e (- 1) n else Some n) = Some n1" "fed b (k + 1) n1"
    using fed_update [OF Cons.prems(1), of tr e "- 1"] Cons.prems mono by (cases valid) (auto simp: update_valid_def)
  then show ?case using Cons.IH [OF n1(2)] Cons.prems by (auto simp: add.assoc)
qed simp

text \<open>A running predictor with at most \<open>c\<close> reports so far, for frames of at most \<open>b\<close> bytes.\<close>

definition tcae_inv :: "nat \<Rightarrow> int \<Rightarrow> PredictorTcaeImpl \<Rightarrow> bool" where
  "tcae_inv b c p \<longleftrightarrow> m_maxFrameSizeInBytes p = b \<and> list_all stat_ok (m_cachedNetworkStats p) \<and> m_lastTransmittedSize p < 2 ^ 32
     \<and> m_features p AND TCAE_FRAME_DROP = 0 \<and> m_features p AND TCAE_MODE_STANDALONE \<noteq> 0 \<and> \<not> m_idrRequested p
     \<and> (\<exists>n k. m_NetworkPredictor p = Some n \<and> fed b k n \<and> k + int (length (m_cachedNetworkStats p)) + int (length (m_cachedBitstreamSize p)) \<le> c)"

lemma feed_model_ok:
  assumes "tcae_inv b c p" "m_NetworkPredictor p = Some n" "c \<le> INT_MAX"
  shows "\<exists>n' p'. feed_model p n = Some (n', p') \<and> fed b c n' \<and> tcae_inv b c p' \<and> m_NetworkPredictor p' = Some n'"
proof -
  obtain k where k: "fed b k n" "k + int (length (m_cachedNetworkStats p)) + int (length (m_cachedBitstreamSize p)) \<le> c"
    using assms(1,2) by (auto simp: tcae_inv_def)
  define j where "j = k + int (length (m_cachedNetworkStats p))"
  define bits where "bits = drop (length (m_cachedNetworkStats p)) (m_cachedBitstreamSize p)"
  obtain tr d n1 where n1: "feed_stats (m_cachedNetworkStats p) (m_cachedBitstreamSize p) (0, 0) n = Some (bits, (tr, d), n1)"
    "fed b j n1" "tr < 2 ^ 32"
    using feed_stats_ok [OF k(1), of "m_cachedNetworkStats p" "(0, 0)" "m_cachedBitstreamSize p"] k(2) assms
    by (auto simp: tcae_inv_def j_def bits_def)
  define q where "q = (if d \<noteq> 0 then p\<lparr>m_lastKnownDelayInMs := d, m_lastTransmittedSize := tr\<rparr> else p)"
  have len: "j + int (length bits) \<le> c" using k(2) by (simp add: bits_def j_def)
  have "m_lastTransmittedSize q < 2 ^ 32" using assms(1) n1(3) by (simp add: q_def tcae_inv_def)
  then obtain n2 where n2: "feed_bits (m_validFeedback q) (m_lastTransmittedSize q) bits n1 = Some n2" "fed b (j + int (length bits)) n2"
    using feed_bits_ok [OF n1(2)] len assms(3) by (metis order_trans)
  have up: "fed b c n2" using n2(2) len by (auto simp: fed_def net_inv_def counters_le_def)
  have "feed_model p n = Some (n2, q\<lparr>m_NetworkPredictor := Some n2, m_cachedNetworkStats := [], m_cachedBitstreamSize := [], m_idrRequested := False\<rparr>)"
    unfolding feed_model_def n1(1) using n2(1) by (simp add: Let_def q_def split: if_splits)
  moreover have "tcae_inv b c (q\<lparr>m_NetworkPredictor := Some n2, m_cachedNetworkStats := [], m_cachedBitstreamSize := [], m_idrRequested := False\<rparr>)"
    using assms(1) up n1(3) by (auto simp: tcae_inv_def q_def)
  ultimately show ?thesis using up by auto
qed

lemma fed_prediction:
  assumes "fed b k n"
  shows "\<exists>s. GetNextFrameSize n = Some s \<and> (s = 0 \<or> b div 10 - 1 \<le> s) \<and> s \<le> b"
proof (cases "m_nextTargetSize n = 0")
  case True
  then show ?thesis by (simp add: GetNextFrameSize_def dmul_def int_of_dbl_def chk32_def INT_MIN_def INT_MAX_def)
next
  case False
  then show ?thesis using assms target_bytes [of b n] by (auto simp: fed_def net_inv_def)
qed

lemma predict_ok:
  assumes "tcae_inv b c p" "c \<le> INT_MAX"
  shows "\<exists>s p'. PredictEncSettings (Some \<lparr>encFrameType = 0, frameSizeInBytes = 0, dropFrame = False\<rparr>) p = Some (ERR_NONE, Some s, p')
    \<and> tcae_inv b c p' \<and> (frameSizeInBytes s = 0 \<or> b div 10 - 1 \<le> frameSizeInBytes s) \<and> frameSizeInBytes s \<le> b"
proof -
  obtain n where n: "m_NetworkPredictor p = Some n" using assms(1) by (auto simp: tcae_inv_def)
  obtain n' q where q: "feed_model p n = Some (n', q)" "fed b c n'" "tcae_inv b c q" using feed_model_ok [OF assms(1) n assms(2)] by blast
  obtain s where s: "GetNextFrameSize n' = Some s" "s = 0 \<or> b div 10 - 1 \<le> s" "s \<le> b" using fed_prediction [OF q(2)] by blast
  have "\<not> m_idrRequested p" using assms(1) by (simp add: tcae_inv_def)
  moreover have "\<not> drops_frame q" using q(3) by (simp add: drops_frame_def tcae_inv_def)
  moreover have "m_features q AND TCAE_FRAME_DROP = 0" using q(3) by (simp add: tcae_inv_def)
  moreover have "tcae_inv b c (q\<lparr>m_frameDropsCount := 0\<rparr>)" using q(3) by (simp add: tcae_inv_def)
  ultimately show ?thesis using n q(1) s by (simp add: PredictEncSettings_def decide_def)
qed

text \<open>What the user of the wrapper does.\<close>

datatype tcae_op = Feedback nat nat | Encoded nat | Target | Fps rat

fun tcae_run :: "tcae_op list \<Rightarrow> CTcaeWrapper \<Rightarrow> nat list option" where
  "tcae_run [] w = Some []"
| "tcae_run (Feedback d s # ops) w = tcae_run ops (snd (UpdateClientFeedback d s w))"
| "tcae_run (Encoded e # ops) w = tcae_run ops (snd (UpdateEncodedSize e w))"
| "tcae_run (Fps f # ops) w = tcae_run ops (snd (wrapper_SetFps f w))"
| "tcae_run (Target # ops) w = do { (t, w) \<leftarrow> GetTargetSize w; ts \<leftarrow> tcae_run ops w; Some (t # ts) }"

fun op_ok :: "tcae_op \<Rightarrow> bool" where
  "op_ok (Feedback d s) = (d < 2 ^ 32 \<and> s < 2 ^ 32)"
| "op_ok _ = True"

lemma tcae_inv_mono: "tcae_inv b c p \<Longrightarrow> c \<le> c' \<Longrightarrow> tcae_inv b c' p"
  unfolding tcae_inv_def by (meson order_trans)

lemma delay_in_ms:
  assumes "0 < d" "d < 2 ^ 32"
  shows "1 \<le> nat \<lceil>dquot (of_nat d) 1000\<rceil>" "nat \<lceil>dquot (of_nat d) 1000\<rceil> \<le> 2 ^ 32"
proof -
  have s: "sample_ok (dquot (of_nat d) 1000)" using kilobyte_sample [of d] assms by simp
  then have "0 < dquot (of_nat d) 1000" by (simp add: sample_ok_def)
  then show "1 \<le> nat \<lceil>dquot (of_nat d) 1000\<rceil>" by (simp add: le_nat_iff)
  have "\<lceil>dquot (of_nat d) 1000\<rceil> \<le> 2 ^ 32" using s by (simp add: sample_ok_def ceiling_le_iff)
  then show "nat \<lceil>dquot (of_nat d) 1000\<rceil> \<le> 2 ^ 32" unfolding nat_le_iff by (simp only: of_nat_power of_nat_numeral)
qed

lemma feedback_inv:
  assumes "tcae_inv b c p" "m_tcae w = Some p" "d < 2 ^ 32" "s < 2 ^ 32"
  shows "\<exists>p'. m_tcae (snd (UpdateClientFeedback d s w)) = Some p' \<and> tcae_inv b (c + 1) p'"
proof (cases "d = 0 \<or> s = 0")
  case True
  then show ?thesis using assms(1,2) tcae_inv_mono [OF assms(1), of "c + 1"]
    by (auto simp: UpdateClientFeedback_def with_tcae_def UpdateNetworkState_def tcae_inv_def)
next
  case False
  have "stat_ok (s, nat \<lceil>dquot (of_nat d) 1000\<rceil>)" using delay_in_ms [of d] False assms(3,4) by (simp add: stat_ok_def)
  then show ?thesis using assms(1,2) False
    by (auto simp: UpdateClientFeedback_def with_tcae_def UpdateNetworkState_def tcae_inv_def add.assoc)
qed

lemma encoded_inv:
  assumes "tcae_inv b c p" "m_tcae w = Some p"
  shows "\<exists>p'. m_tcae (snd (UpdateEncodedSize e w)) = Some p' \<and> tcae_inv b (c + 1) p'"
  using assms by (auto simp: UpdateEncodedSize_def with_tcae_def BitstreamSent_def tcae_inv_def add.assoc)

lemma fps_inv:
  assumes "tcae_inv b c p" "m_tcae w = Some p"
  shows "\<exists>p'. m_tcae (snd (wrapper_SetFps f w)) = Some p' \<and> tcae_inv b c p'"
proof -
  have "fed b k (SetFPS f n) = fed b k n" for k n by (simp add: fed_def SetFPS_def net_inv_settings target_in_def)
  then show ?thesis using assms by (auto simp: wrapper_SetFps_def with_tcae_def SetFps_def tcae_inv_def)
qed

lemma run_inv:
  assumes "tcae_inv b c p" "m_tcae w = Some p" "list_all op_ok ops" "c + int (length ops) \<le> INT_MAX"
  shows "\<exists>ts. tcae_run ops w = Some ts \<and> (\<forall>t \<in> set ts. (t = 0 \<or> b div 10 - 1 \<le> t) \<and> t \<le> b)"
  using assms
proof (induction ops arbitrary: c p w)
  case (Cons op ops)
  show ?case
  proof (cases op)
    case (Feedback d s)
    then obtain p' where "m_tcae (snd (UpdateClientFeedback d s w)) = Some p'" "tcae_inv b (c + 1) p'"
      using feedback_inv [OF Cons.prems(1,2)] Cons.prems(3) by auto
    then show ?thesis using Cons.IH [of "c + 1" p' "snd (UpdateClientFeedback d s w)"] Cons.prems Feedback by auto
  next
    case (Encoded e)
    then obtain p' where "m_tcae (snd (UpdateEncodedSize e w)) = Some p'" "tcae_inv b (c + 1) p'"
      using encoded_inv [OF Cons.prems(1,2)] by blast
    then show ?thesis using Cons.IH [of "c + 1" p' "snd (UpdateEncodedSize e w)"] Cons.prems Encoded by auto
  next
    case (Fps f)
    then obtain p' where "m_tcae (snd (wrapper_SetFps f w)) = Some p'" "tcae_inv b c p'"
      using fps_inv [OF Cons.prems(1,2)] by blast
    then show ?thesis using Cons.IH [of c p' "snd (wrapper_SetFps f w)"] Cons.prems Fps by auto
  next
    case Target
    obtain s p' where p': "PredictEncSettings (Some \<lparr>encFrameType = 0, frameSizeInBytes = 0, dropFrame = False\<rparr>) p = Some (ERR_NONE, Some s, p')"
      "tcae_inv b c p'" "frameSizeInBytes s = 0 \<or> b div 10 - 1 \<le> frameSizeInBytes s" "frameSizeInBytes s \<le> b"
      using predict_ok [OF Cons.prems(1)] Cons.prems(4) by auto
    then have g: "GetTargetSize w = Some (frameSizeInBytes s, w\<lparr>m_tcae := Some p'\<rparr>)" using Cons.prems(2) by (simp add: GetTargetSize_def)
    obtain ts where "tcae_run ops (w\<lparr>m_tcae := Some p'\<rparr>) = Some ts" "\<forall>t \<in> set ts. (t = 0 \<or> b div 10 - 1 \<le> t) \<and> t \<le> b"
      using Cons.IH [OF p'(2), of "w\<lparr>m_tcae := Some p'\<rparr>"] Cons.prems by auto
    then show ?thesis using g p'(3,4) Target by auto
  qed
qed simp

lemma tcae_initialized:
  assumes "0 \<le> ratio" "ratio \<le> 1" "1 \<le> b" "int b \<le> INT_MAX" "1 \<le> delay"
  shows "\<exists>w p. Initialize True True ratio env opens brc delay b w0 = (0, w) \<and> m_tcae w = Some p \<and> tcae_inv b 0 p"
proof -
  have "fed b 0 (net_setup ratio env b (of_nat delay))"
    using net_setup_inv [OF assms(1-4), of env "of_nat delay"]
    by (simp add: fed_def net_setup_def new_NetPred_def SetTargetDelay_def SetRecordedLen_def SetMinTargetSize_def SetMaxTargetSize_def)
  moreover have f: "requested_features TCAE_MODE_STANDALONE = 5" "(5 :: 32 word) AND TCAE_FRAME_DROP = 0" "(5 :: 32 word) AND TCAE_PREDICT_FRAME_SIZE \<noteq> 0"
    "(5 :: 32 word) AND TCAE_MODE_STANDALONE \<noteq> 0"
    "(5 :: 32 word) AND NOT (TCAE_PREDICT_FRAME_SIZE OR TCAE_MODE_UNKNOWN OR TCAE_FRAME_DROP OR TCAE_MODE_STANDALONE) = 0"
    by code_simp+
  define p where "p = new_Predictor\<lparr>m_NetworkPredictor := Some (net_setup ratio env b (of_nat delay)), m_features := 5,
    m_initialTargetDelayInMs := delay, m_maxFrameSizeInBytes := b\<rparr>"
  define params where "params = \<lparr>featuresSet = TCAE_MODE_STANDALONE, targetDelayInMs = delay, bufferedRecordsCount = 100,
    maxSequentialDropsCount = 0, maxFrameSizeInBytes = b, minDropFramesDistance = 0\<rparr>"
  have r: "or_default 100 DefaultRecordsCount = 100" "or_default b DefaultMaxFrameSizeInBytes = b" "to_int32 100 = 100"
    using assms(3) by (simp_all add: or_default_def TCAE_USE_DEFAULT_VALUE_def to_int32_def)
  have "Start True ratio env (Some params) new_Predictor = (ERR_NONE, p)"
    using assms(3,5) by (simp add: Start_def StartImpl_def params_def f f(5) [simplified] r Let_def) (simp add: p_def new_Predictor_def net_setup_def)
  then have i: "Initialize True True ratio env opens brc delay b w0 = (0, InitLog opens brc (w0\<lparr>m_tcae := Some p\<rparr>))"
    using assms(3) by (simp add: Initialize_def params_def)
  have "m_tcae (InitLog opens brc (w0\<lparr>m_tcae := Some p\<rparr>)) = Some p" by (simp add: InitLog_def split: option.split)
  moreover have "tcae_inv b 0 p" using calculation(1) f by (auto simp: tcae_inv_def p_def new_Predictor_def)
  ultimately show ?thesis using i by blast
qed



section \<open>Dropped frames\<close>

text \<open>The drops of a history of reports and predictions, the newest first.\<close>

datatype pred_op = Net "PerFrameNetworkData_t option" | Sent "EncodedFrameFeedback_t option" | Predict

fun drop_run :: "pred_op list \<Rightarrow> PredictorTcaeImpl \<Rightarrow> bool list \<Rightarrow> (bool list \<times> PredictorTcaeImpl) option" where
  "drop_run [] p ds = Some (ds, p)"
| "drop_run (Net data # ops) p ds = drop_run ops (snd (UpdateNetworkState data p)) ds"
| "drop_run (Sent bts # ops) p ds = drop_run ops (snd (BitstreamSent bts p)) ds"
| "drop_run (Predict # ops) p ds = do {
     (_, s, p) \<leftarrow> PredictEncSettings (Some \<lparr>encFrameType = 0, frameSizeInBytes = 0, dropFrame = False\<rparr>) p;
     s \<leftarrow> s;
     drop_run ops p (dropFrame s # ds) }"

definition drop_view where
  "drop_view p = (m_NetworkPredictor p = None, m_features p, m_maxSequentialDropsCount p, m_minDropFramesDist p, m_framesSinceLastDrop p, m_frameDropsCount p)"

lemma drop_view_reports: "drop_view (snd (UpdateNetworkState data p)) = drop_view p" "drop_view (snd (BitstreamSent bts p)) = drop_view p"
  by (auto simp: drop_view_def UpdateNetworkState_def BitstreamSent_def Let_def split: option.split)

lemma drop_view_feed: "feed_model p n = Some (n', p') \<Longrightarrow> m_NetworkPredictor p = Some n \<Longrightarrow> drop_view p' = drop_view p"
  by (auto simp: drop_view_def feed_model_def Let_def split: bind_splits if_splits)

text \<open>The counters say how many frames were dropped in a row, and how many were not since the last drop.\<close>

definition drop_inv :: "nat \<Rightarrow> nat \<Rightarrow> PredictorTcaeImpl \<Rightarrow> bool list \<Rightarrow> bool" where
  "drop_inv d m p ds \<longleftrightarrow> m_NetworkPredictor p \<noteq> None \<and> m_maxSequentialDropsCount p = d \<and> m_minDropFramesDist p = m \<and> m_features p AND TCAE_FRAME_DROP \<noteq> 0
     \<and> m_frameDropsCount p = length (takeWhile id ds)
     \<and> (True \<in> set ds \<longrightarrow> m_framesSinceLastDrop p = length (takeWhile Not ds))"

fun drops_ok :: "nat \<Rightarrow> nat \<Rightarrow> bool list \<Rightarrow> bool" where
  "drops_ok d m [] = True"
| "drops_ok d m (x # ds) = ((x \<longrightarrow> length (takeWhile id ds) < d \<and> (takeWhile id ds = [] \<and> True \<in> set ds \<longrightarrow> m \<le> length (takeWhile Not ds)))
     \<and> drops_ok d m ds)"

lemma drop_step:
  assumes "drop_inv d m p ds" "drops_ok d m ds" "drop_view q = drop_view p" "decide idr s st q = (st', p')" "\<not> dropFrame st"
    and "length ds < 2 ^ 64 - 1"
  shows "drop_inv d m p' (dropFrame st' # ds)" "drops_ok d m (dropFrame st' # ds)"
proof -
  have v: "m_NetworkPredictor q \<noteq> None" "m_maxSequentialDropsCount q = d" "m_minDropFramesDist q = m" "m_features q AND TCAE_FRAME_DROP \<noteq> 0"
    "m_frameDropsCount q = length (takeWhile id ds)" "True \<in> set ds \<longrightarrow> m_framesSinceLastDrop q = length (takeWhile Not ds)"
    using assms(1,3) by (auto simp: drop_inv_def drop_view_def)
  have len: "length (takeWhile Not ds) + 1 < 2 ^ 64" using length_takeWhile_le [of Not ds] assms(6) by linarith
  show "drop_inv d m p' (dropFrame st' # ds)"
    using assms(4,5) v len by (auto simp: decide_def drop_inv_def Let_def split: if_splits)
  show "drops_ok d m (dropFrame st' # ds)"
    using assms(2,4,5) v by (auto simp: decide_def drops_frame_def Let_def split: if_splits)
qed

lemma drop_run_ok:
  assumes "drop_run ops p ds = Some (ds', p')" "drop_inv d m p ds" "drops_ok d m ds" "length ds + length ops < 2 ^ 64"
  shows "drops_ok d m ds'"
  using assms
proof (induction ops p ds rule: drop_run.induct)
  case (2 data ops p ds)
  have "drop_inv d m (snd (UpdateNetworkState data p)) ds"
    using "2.prems"(2) drop_view_reports(1) [of data p] by (auto simp: drop_inv_def drop_view_def)
  then show ?case using 2 by auto
next
  case (3 bts ops p ds)
  have "drop_inv d m (snd (BitstreamSent bts p)) ds"
    using "3.prems"(2) drop_view_reports(2) [of bts p] by (auto simp: drop_inv_def drop_view_def)
  then show ?case using 3 by auto
next
  case (4 ops p ds)
  let ?st = "\<lparr>encFrameType = 0, frameSizeInBytes = 0, dropFrame = False\<rparr>"
  obtain r s q where q: "PredictEncSettings (Some ?st) p = Some (r, Some s, q)" "drop_run ops q (dropFrame s # ds) = Some (ds', p')"
    using "4.prems"(1) by (auto split: bind_splits)
  have "drop_inv d m q (dropFrame s # ds) \<and> drops_ok d m (dropFrame s # ds)"
  proof (cases "m_NetworkPredictor p")
    case None
    then show ?thesis using "4.prems"(2) by (simp add: drop_inv_def)
  next
    case (Some n)
    then obtain n1 q1 z where f: "feed_model p n = Some (n1, q1)" "decide (m_idrRequested p) z ?st q1 = (s, q)"
      using q(1) by (auto simp: PredictEncSettings_def Let_def split: bind_splits prod.splits)
    then show ?thesis using drop_step [OF "4.prems"(2,3) drop_view_feed [OF f(1) Some] f(2)] "4.prems"(4) by auto
  qed
  then show ?case using "4.IH" q "4.prems"(4) by auto
qed auto

lemma drops_ok_suffix: "drops_ok d m (xs @ ys) \<Longrightarrow> drops_ok d m ys"
  by (induction xs) auto

lemma drops_in_a_row:
  assumes "drops_ok d m (xs @ replicate k True @ ys)"
  shows "k \<le> d"
proof (cases k)
  case (Suc j)
  have "drops_ok d m (True # replicate j True @ ys)" using drops_ok_suffix [OF assms] Suc by simp
  then have "length (takeWhile id (replicate j True @ ys)) < d" by simp
  moreover have "takeWhile id (replicate j True @ ys) = replicate j True @ takeWhile id ys" by (induction j) auto
  ultimately show ?thesis using Suc by simp
qed simp

lemma drops_apart:
  assumes "drops_ok d m (xs @ True # replicate k False @ True # ys)" "0 < k"
  shows "m \<le> k"
proof -
  have "takeWhile id (replicate k False @ True # ys) = []" using assms(2) by (cases k) auto
  moreover have "takeWhile Not (replicate k False @ True # ys) = replicate k False" by (induction k) auto
  ultimately show ?thesis using drops_ok_suffix [OF assms(1)] by simp
qed

text \<open>
  C13. A predictor that may drop frames drops at most as many in a row as it was started with, and between two runs of
  dropped frames there are at least as many others as it was started with.
\<close>

theorem frames_dropped_sparingly:
  assumes "Start mem ratio env params new_Predictor = (ERR_NONE, p)" "m_features p AND TCAE_FRAME_DROP \<noteq> 0"
    and "drop_run ops p [] = Some (ds, p')" "length ops < 2 ^ 64"
  shows "(rev ds = xs @ replicate k True @ ys \<longrightarrow> k \<le> m_maxSequentialDropsCount p)
    \<and> (rev ds = xs @ True # replicate k False @ True # ys \<and> 0 < k \<longrightarrow> m_minDropFramesDist p \<le> k)"
proof -
  have "m_NetworkPredictor p \<noteq> None \<and> m_frameDropsCount p = 0"
    using assms(1,2) by (auto simp: Start_def StartImpl_def new_Predictor_def ERR_NULL_PTR_def ERR_NONE_def ERR_INVALID_ARG_def
        ERR_UNSUPPORTED_def Let_def split: option.splits if_splits)
  then have "drop_inv (m_maxSequentialDropsCount p) (m_minDropFramesDist p) p []" using assms(2) by (simp add: drop_inv_def)
  then have ok: "drops_ok (m_maxSequentialDropsCount p) (m_minDropFramesDist p) ds"
    using drop_run_ok [OF assms(3)] assms(4) by simp
  have r: "ds = rev ys @ replicate k True @ rev xs" if "rev ds = xs @ replicate k True @ ys"
    using arg_cong [OF that, of rev] by simp
  have s: "ds = rev ys @ True # replicate k False @ True # rev xs" if "rev ds = xs @ True # replicate k False @ True # ys"
    using arg_cong [OF that, of rev] by simp
  show ?thesis using ok r s drops_in_a_row [of _ _ "rev ys" k "rev xs"] drops_apart [of _ _ "rev ys" k "rev xs"] by auto
qed

text \<open>A predictor with the default numbers of drops, and a report of half a second.\<close>

definition drop_params :: TcaeInitParams_t where
  "drop_params = \<lparr>featuresSet = 3, targetDelayInMs = 100, bufferedRecordsCount = 100, maxSequentialDropsCount = 0,
     maxFrameSizeInBytes = 50000, minDropFramesDistance = 0\<rparr>"

definition late_report :: PerFrameNetworkData_t where
  "late_report = \<lparr>firstPacketDelayInUs = 0, lastPacketDelayInUs = 500000, transmittedDataSizeInBytes = 48000, packetLossRate = 0,
     creditBytes = 0, idrRequired = False\<rparr>"

definition drop_state :: "NetPred \<Rightarrow> PredictorTcaeImpl" where
  "drop_state n = new_Predictor\<lparr>m_NetworkPredictor := Some n, m_features := 3, m_initialTargetDelayInMs := 100, m_maxSequentialDropsCount := 3,
     m_maxFrameSizeInBytes := 50000, m_minDropFramesDist := 1, m_framesSinceLastDrop := 1\<rparr>"

lemma drop_start: "Start True (977 / 1000) None (Some drop_params) new_Predictor = (ERR_NONE, drop_state (net_setup (977 / 1000) None 50000 100))"
proof -
  have f: "requested_features 3 = 3" "(3 :: 32 word) AND TCAE_FRAME_DROP \<noteq> 0" "(3 :: 32 word) AND TCAE_PREDICT_FRAME_SIZE \<noteq> 0"
    "(3 :: 32 word) AND NOT (TCAE_PREDICT_FRAME_SIZE OR TCAE_MODE_UNKNOWN OR TCAE_FRAME_DROP OR TCAE_MODE_STANDALONE) = 0"
    by code_simp+
  have r: "or_default 100 DefaultRecordsCount = 100" "or_default 50000 DefaultMaxFrameSizeInBytes = 50000" "to_int32 100 = 100"
    "or_default 0 DefaultMaxDropsCountInSequence = 3" "or_default 0 DefaultMinDropFramesDistance = 1"
    by (simp_all add: or_default_def TCAE_USE_DEFAULT_VALUE_def to_int32_def DefaultMaxDropsCountInSequence_def DefaultMinDropFramesDistance_def)
  show ?thesis by (simp add: Start_def StartImpl_def drop_params_def f f(4) [simplified] r Let_def)
      (simp add: drop_state_def new_Predictor_def net_setup_def)
qed

lemma late_frames_dropped:
  "\<exists>p'. drop_run [Net (Some late_report), Predict, Predict, Predict, Predict] (drop_state (net_setup (977 / 1000) None 50000 100)) []
     = Some ([False, True, True, True], p')"
proof -
  let ?n = "net_setup (977 / 1000) None 50000 100"
  have "net_inv 50000 0 ?n" by (rule net_setup_inv) (simp_all add: INT_MAX_def)
  then obtain n1 where n1: "UpdateSizeAndDelay 48000 0 500 ?n = Some n1" "fed 50000 1 n1"
    using update_inv [of 50000 0 ?n 48000 0 500] by (auto simp: fed_def update_valid_def INT_MAX_def)
  obtain s where s: "GetNextFrameSize n1 = Some s" using fed_prediction [OF n1(2)] by blast
  have d: "dquot 500000 1000 = 500" "dquot 500 100 = 5" using dbl_of_int [of 500] dbl_of_int [of 5] by (simp_all add: dquot_def)
  have f: "(3 :: 32 word) AND TCAE_FRAME_DROP \<noteq> 0" by code_simp
  have h: "\<lfloor>11 / 2 :: rat\<rfloor> = 5" by (rule floor_unique) simp_all
  let ?p = "\<lambda>k. (drop_state n1)\<lparr>m_validFeedback := True, m_lastKnownDelayInMs := 500, m_lastTransmittedSize := 48000,
    m_frameDropsCount := k, m_framesSinceLastDrop := 0\<rparr>"
  have feed: "feed_model (?p k) n1 = Some (n1, ?p k)" for k by (simp add: feed_model_def drop_state_def new_Predictor_def)
  have drop: "drops_frame (?p k) \<longleftrightarrow> k < 3 \<and> k \<noteq> 0" for k
    by (auto simp: drops_frame_def calc_drops_def drop_state_def new_Predictor_def d f h)
  let ?q = "snd (UpdateNetworkState (Some late_report) (drop_state ?n))"
  let ?st = "\<lparr>encFrameType = 0, frameSizeInBytes = 0, dropFrame = False\<rparr>"
  have first: "PredictEncSettings (Some ?st) ?q = Some (ERR_NONE, Some (?st\<lparr>dropFrame := True\<rparr>), ?p 1)"
    by (simp add: PredictEncSettings_def UpdateNetworkState_def late_report_def drop_state_def new_Predictor_def feed_model_def d n1(1) s
        decide_def drops_frame_def calc_drops_def f h)
  have nxt: "PredictEncSettings (Some ?st) (?p k) = Some (ERR_NONE, Some (?st\<lparr>dropFrame := True\<rparr>), ?p (k + 1))" if "0 < k" "k < 3" for k
    using that feed [of k] drop [of k] s by (simp add: PredictEncSettings_def) (simp add: decide_def drop_state_def new_Predictor_def)
  obtain p' where lst: "PredictEncSettings (Some ?st) (?p 3) = Some (ERR_NONE, Some (?st\<lparr>frameSizeInBytes := s\<rparr>), p')"
    using feed [of 3] drop [of 3] s by (simp add: PredictEncSettings_def) (simp add: decide_def drop_state_def new_Predictor_def Let_def)
  have "PredictEncSettings (Some ?st) (?p 1) = Some (ERR_NONE, Some (?st\<lparr>dropFrame := True\<rparr>), ?p 2)"
    "PredictEncSettings (Some ?st) (?p 2) = Some (ERR_NONE, Some (?st\<lparr>dropFrame := True\<rparr>), ?p 3)"
    using nxt [of 1] nxt [of 2] by (simp_all add: numeral_2_eq_2 del: One_nat_def)
  then show ?thesis using first lst by simp
qed

theorem frames_dropped_sparingly_witness:
  "\<exists>p'. drop_run [Net (Some late_report), Predict, Predict, Predict, Predict] (drop_state (net_setup (977 / 1000) None 50000 100)) []
     = Some ([False, True, True, True], p') \<and> (3::nat) \<le> m_maxSequentialDropsCount (drop_state (net_setup (977 / 1000) None 50000 100))"
proof -
  obtain p' where p': "drop_run [Net (Some late_report), Predict, Predict, Predict, Predict] (drop_state (net_setup (977 / 1000) None 50000 100)) []
     = Some ([False, True, True, True], p')" using late_frames_dropped by blast
  have "(3 :: 32 word) AND TCAE_FRAME_DROP \<noteq> 0" by code_simp
  then have "m_features (drop_state (net_setup (977 / 1000) None 50000 100)) AND TCAE_FRAME_DROP \<noteq> 0" by (simp add: drop_state_def)
  moreover have "rev [False, True, True, True] = [] @ replicate 3 True @ [False]" by (simp add: numeral_3_eq_3)
  ultimately have "3 \<le> m_maxSequentialDropsCount (drop_state (net_setup (977 / 1000) None 50000 100))"
    using frames_dropped_sparingly [OF drop_start _ p', of "[]" 3 "[False]"] by simp
  then show ?thesis using p' by blast
qed

section \<open>What does not work as meant\<close>

text \<open>Without memory for the network model a start reports success, and nothing is started.\<close>

lemma start_without_memory: "Start False ratio env (Some drop_params) new_Predictor = (ERR_NONE, new_Predictor)"
proof -
  have f: "requested_features 3 = 3" "(3 :: 32 word) AND TCAE_PREDICT_FRAME_SIZE \<noteq> 0"
    "(3 :: 32 word) AND NOT (TCAE_PREDICT_FRAME_SIZE OR TCAE_MODE_UNKNOWN OR TCAE_FRAME_DROP OR TCAE_MODE_STANDALONE) = 0"
    by code_simp+
  show ?thesis by (simp add: Start_def StartImpl_def drop_params_def f f(3) [simplified] Let_def or_default_def TCAE_USE_DEFAULT_VALUE_def
      DefaultMaxDropsCountInSequence_def DefaultMinDropFramesDistance_def) (simp add: new_Predictor_def)
qed

text \<open>A report that does not ask for a key frame withdraws a request that was not served yet.\<close>

lemma key_frame_request_withdrawn: "m_NetworkPredictor p \<noteq> None \<Longrightarrow> \<not> m_idrRequested (snd (UpdateNetworkState (Some late_report) p))"
  by (auto simp: UpdateNetworkState_def late_report_def Let_def)

text \<open>A wrapper that is not initialised hands out its error as a target of nearly four gigabytes.\<close>

lemma error_as_target: "GetTargetSize new_Wrapper = Some (4294967294, new_Wrapper)"
  by (simp add: GetTargetSize_def new_Wrapper_def ERR_NULL_PTR_def)

end
