(* ===== verification/CFFEncoder.thy ===== *)
theory CFFEncoder
  imports EncodeOptions "HOL-Library.List_Lexorder" "HOL-Library.Char_ord"
begin

text \<open>
  The wrapper of an FFmpeg encoder, \<open>sources/encoder/shared/CFFEncoder.cpp\<close>, for the build without
  \<open>FFMPEG_v42\<close> and \<open>ENABLE_MEMSHARE\<close>. FFmpeg is a parameter: which encoders there are (\<open>avcodec\<close>), what
  its calls answer, and the numbers of its profiles (\<open>prof\<close>). An \<open>AVDictionary\<close> is the list of the
  \<open>av_dict_set\<close> calls made on it, newest first, with \<open>None\<close> for a deletion; \<open>dget\<close> is
  \<open>av_dict_get\<close>, and \<open>dict_laws\<close> what its documentation promises. The log, the latency timers and the
  start and end of traces are left out.
\<close>

section \<open>Dictionaries\<close>

type_synonym av_dict = "(string \<times> string option) list"

definition av_dict_set :: "string \<Rightarrow> string option \<Rightarrow> av_dict \<Rightarrow> av_dict" where
  "av_dict_set k v d = (k, v) # d"

text \<open>Keys are compared without regard to case; setting replaces, and setting a null pointer deletes.\<close>

definition dict_laws :: "(av_dict \<Rightarrow> string \<Rightarrow> string option) \<Rightarrow> bool" where
  "dict_laws dget \<longleftrightarrow> (\<forall>k. dget [] k = None)
     \<and> (\<forall>d k v k'. dget (av_dict_set k v d) k' = (if strcaseeq k k' then v else dget d k'))"

section \<open>Encoders\<close>

definition AV_CODEC_ID_MPEG2VIDEO :: int where "AV_CODEC_ID_MPEG2VIDEO = 2"
definition AV_CODEC_ID_MJPEG :: int where "AV_CODEC_ID_MJPEG = 7"
definition AV_CODEC_ID_NONE :: int where "AV_CODEC_ID_NONE = 0"

definition AVERROR_EOF :: int where "AVERROR_EOF = -541478725"

text \<open>The encoders FFmpeg has: by name the codec, by codec the name of some encoder.\<close>

record avcodec =
  find_encoder_by_name :: "string \<Rightarrow> int option"
  find_encoder :: "int \<Rightarrow> (string \<times> int) option"

definition by_name :: "avcodec \<Rightarrow> string \<Rightarrow> (string \<times> int) option" where
  "by_name av nm = map_option (Pair nm) (find_encoder_by_name av nm)"

definition FindEncoder :: "avcodec \<Rightarrow> int \<Rightarrow> (string \<times> int) option" where
  "FindEncoder av i =
     (if i = AV_CODEC_ID_H264 then by_name av ''h264_vaapi''
      else if i = AV_CODEC_ID_MPEG2VIDEO then by_name av ''mpeg2_vaapi''
      else if i = AV_CODEC_ID_HEVC then by_name av ''hevc_vaapi''
      else if i = AV_CODEC_ID_MJPEG then by_name av ''mjpeg_vaapi''
      else if i = AV_CODEC_ID_AV1 then by_name av ''av1_vaapi''
      else find_encoder av i)"

definition is_qsv_encoder :: "string \<Rightarrow> bool" where
  "is_qsv_encoder nm \<longleftrightarrow>
     nm \<in> set [''av1_qsv'', ''h264_qsv'', ''hevc_qsv'', ''mjpeg_qsv'', ''mpeg2_qsv'', ''vp9_qsv'']"

datatype std_compliance = FF_COMPLIANCE_STRICT | FF_COMPLIANCE_UNOFFICIAL

text \<open>
  \<open>ce_codec\<close> is the codec of the context with its name, \<open>None\<close> when no encoder was found. A rate is
  \<open>None\<close> as long as the context has the one of its options.
\<close>

record CFFEncoder =
  ce_codec :: "(string \<times> int) option"
  ce_codec_id :: int
  ce_profile :: "int option"
  ce_level :: "int option"
  ce_compliance :: "std_compliance option"
  ce_qscale :: bool
  ce_dict :: av_dict
  ce_inited :: bool
  ce_nFrames :: nat
  ce_bit_rate :: "int option"
  ce_rc_max_rate :: "int option"
  ce_framerate :: "int option"
  ce_low_delay_brc :: "int option"

definition encoder_of :: "(string \<times> int) option \<Rightarrow> int \<Rightarrow> CFFEncoder" where
  "encoder_of cd i = \<lparr>ce_codec = cd, ce_codec_id = i, ce_profile = None, ce_level = None, ce_compliance = None, ce_qscale = False,
     ce_dict = [], ce_inited = False, ce_nFrames = 0, ce_bit_rate = None, ce_rc_max_rate = None, ce_framerate = None,
     ce_low_delay_brc = None\<rparr>"

definition new_encoder :: "avcodec \<Rightarrow> string \<Rightarrow> int \<Rightarrow> CFFEncoder" where
  "new_encoder av pCodec info_id =
     (let cd = (case by_name av pCodec of None \<Rightarrow> FindEncoder av info_id | Some c \<Rightarrow> Some c)
      in encoder_of cd (case cd of None \<Rightarrow> info_id | Some (_, i) \<Rightarrow> i))"

definition new_encoder_by_id :: "avcodec \<Rightarrow> int \<Rightarrow> CFFEncoder" where
  "new_encoder_by_id av i = encoder_of (FindEncoder av i) i"

text \<open>The tables by codec.\<close>

definition profiles_for :: "(ff_profile \<Rightarrow> int) \<Rightarrow> int \<Rightarrow> (string \<times> int) list option" where
  "profiles_for prof i =
     (if i = AV_CODEC_ID_H264 then Some (map (map_prod id prof) vaapi_encode_h264_profiles)
      else if i = AV_CODEC_ID_HEVC then Some (map (map_prod id prof) vaapi_encode_h265_profiles)
      else if i = AV_CODEC_ID_MJPEG then Some (map (map_prod id prof) vaapi_encode_mjpeg_profiles)
      else if i = AV_CODEC_ID_AV1 then Some (map (map_prod id prof) vaapi_encode_av1_profiles)
      else None)"

definition levels_for :: "int \<Rightarrow> (string \<times> int) list option" where
  "levels_for i =
     (if i = AV_CODEC_ID_H264 then Some vaapi_encode_h264_levels
      else if i = AV_CODEC_ID_HEVC then Some vaapi_encode_h265_levels
      else if i = AV_CODEC_ID_AV1 then Some vaapi_encode_av1_levels
      else None)"

text \<open>The value of a key, or of \<open>default\<close> when there is no key or it is not in the table.\<close>

definition value_or_default :: "(string \<times> int) list \<Rightarrow> string option \<Rightarrow> int option" where
  "value_or_default tab k =
     (case k of
        None \<Rightarrow> map_of tab ''default''
      | Some s \<Rightarrow> (case map_of tab s of None \<Rightarrow> map_of tab ''default'' | Some v \<Rightarrow> Some v))"

definition init_profile_level ::
  "(av_dict \<Rightarrow> string \<Rightarrow> string option) \<Rightarrow> (ff_profile \<Rightarrow> int) \<Rightarrow> av_dict \<Rightarrow> CFFEncoder \<Rightarrow> CFFEncoder" where
  "init_profile_level dget prof d e =
     (let e = (case profiles_for prof (ce_codec_id e) of
                 None \<Rightarrow> e | Some tab \<Rightarrow> e\<lparr>ce_profile := value_or_default tab (dget d ''profile'')\<rparr>)
      in case levels_for (ce_codec_id e) of
           None \<Rightarrow> e | Some tab \<Rightarrow> e\<lparr>ce_level := value_or_default tab (dget d ''level'')\<rparr>)"

definition init_qsv :: "(av_dict \<Rightarrow> string \<Rightarrow> string option) \<Rightarrow> av_dict \<Rightarrow> CFFEncoder \<Rightarrow> CFFEncoder" where
  "init_qsv dget d e =
     (let e = (if ce_codec_id e = AV_CODEC_ID_HEVC then e\<lparr>ce_level := map_option (\<lambda>l. c_div l 3) (ce_level e)\<rparr> else e);
          e = (case dget d ''hrd_compliance'' of
                 None \<Rightarrow> e
               | Some h \<Rightarrow> if atoi h = 1 then e\<lparr>ce_compliance := Some FF_COMPLIANCE_STRICT\<rparr>
                          else if atoi h = -1 then e\<lparr>ce_compliance := Some FF_COMPLIANCE_UNOFFICIAL\<rparr> else e)
      in if dget d ''rc_mode'' = Some ''CQP'' then e\<lparr>ce_qscale := True\<rparr> else e)"

text \<open>
  Without a codec the name of the null codec is read: \<open>None\<close>. \<open>params_ok\<close> is whether FFmpeg takes the stream
  information.
\<close>

definition encoder_init ::
  "(av_dict \<Rightarrow> string \<Rightarrow> string option) \<Rightarrow> (ff_profile \<Rightarrow> int) \<Rightarrow> bool \<Rightarrow> av_dict \<Rightarrow> CFFEncoder \<Rightarrow> CFFEncoder option" where
  "encoder_init dget prof params_ok d e = do {
     let e = init_profile_level dget prof d (e\<lparr>ce_inited := False, ce_dict := [], ce_nFrames := 0\<rparr>);
     (nm, _) \<leftarrow> ce_codec e;
     let e = (if is_qsv_encoder nm then init_qsv dget d e else e);
     Some (if params_ok then e\<lparr>ce_dict := d\<rparr> else e) }"

text \<open>\<open>open_ret\<close> and \<open>send_ret\<close> are what opening the codec and sending the frame answer.\<close>

definition encoder_write :: "int \<Rightarrow> int \<Rightarrow> bool \<Rightarrow> CFFEncoder \<Rightarrow> int \<times> CFFEncoder" where
  "encoder_write open_ret send_ret frame e =
     (if \<not> ce_inited e
      then if \<not> frame then (- EINVAL, e)
           else if ce_codec e = None then (AVERROR_EOF, e)
           else if open_ret < 0 then (open_ret, e)
           else (send_ret, e\<lparr>ce_inited := True\<rparr>)
      else (send_ret, e))"

definition encoder_read :: "int \<Rightarrow> CFFEncoder \<Rightarrow> int \<times> CFFEncoder" where
  "encoder_read ret e = (ret, if ret \<ge> 0 then e\<lparr>ce_nFrames := ce_nFrames e + 1\<rparr> else e)"

text \<open>\<open>fmts\<close> are the formats of the encoder of that name before the terminating entry; it has at least one.\<close>

definition GetBestFormat :: "(string \<Rightarrow> int list option) \<Rightarrow> string \<Rightarrow> int \<Rightarrow> int" where
  "GetBestFormat fmts codec_name fmt =
     (case fmts codec_name of
        None \<Rightarrow> -1
      | Some fs \<Rightarrow> if fmt \<in> set fs then fmt else hd fs)"

definition enc_updateDynamicChangedFramerate :: "int \<Rightarrow> CFFEncoder \<Rightarrow> CFFEncoder" where
  "enc_updateDynamicChangedFramerate f e = e\<lparr>ce_framerate := Some f\<rparr>"

definition enc_setBitrate :: "int \<Rightarrow> CFFEncoder \<Rightarrow> CFFEncoder" where
  "enc_setBitrate b e = e\<lparr>ce_bit_rate := Some b\<rparr>"

definition enc_setMaxBitrate :: "int \<Rightarrow> CFFEncoder \<Rightarrow> CFFEncoder" where
  "enc_setMaxBitrate b e = e\<lparr>ce_rc_max_rate := Some b\<rparr>"

definition enc_setLowDelayBrc :: "int \<Rightarrow> CFFEncoder \<Rightarrow> CFFEncoder" where
  "enc_setLowDelayBrc b e = e\<lparr>ce_low_delay_brc := Some b\<rparr>"

text \<open>A \<open>std::map\<close> is walked in the order of its keys: the smallest key with the value is the one found.\<close>

definition name_of_value :: "(string \<times> int) list \<Rightarrow> int \<Rightarrow> string" where
  "name_of_value tab v = (case sort (map fst (filter (\<lambda>e. snd e = v) tab)) of [] \<Rightarrow> [] | nm # _ \<Rightarrow> nm)"

definition getProfileNameByValue :: "(ff_profile \<Rightarrow> int) \<Rightarrow> int \<Rightarrow> CFFEncoder \<Rightarrow> string" where
  "getProfileNameByValue prof v e =
     (case profiles_for prof (ce_codec_id e) of None \<Rightarrow> [] | Some tab \<Rightarrow> name_of_value tab v)"

definition getLevelNameByValue :: "int \<Rightarrow> CFFEncoder \<Rightarrow> string" where
  "getLevelNameByValue v e = (case levels_for (ce_codec_id e) of None \<Rightarrow> [] | Some tab \<Rightarrow> name_of_value tab v)"

section \<open>Facts\<close>

lemma dict_get_same: "dict_laws dget \<Longrightarrow> dget (av_dict_set k v d) k = v"
  by (simp add: dict_laws_def strcaseeq_def)

lemma dict_get_other: "dict_laws dget \<Longrightarrow> \<not> strcaseeq k k' \<Longrightarrow> dget (av_dict_set k v d) k' = dget d k'"
  by (simp add: dict_laws_def)

text \<open>The dictionary that keeps to the letter of its documentation.\<close>

fun dict_get :: "av_dict \<Rightarrow> string \<Rightarrow> string option" where
  "dict_get [] k = None"
| "dict_get ((k', v) # d) k = (if strcaseeq k' k then v else dict_get d k)"

lemma dict_get_laws: "dict_laws dict_get"
  by (simp add: dict_laws_def av_dict_set_def)

lemma name_of_value_found:
  assumes "(k, v) \<in> set tab"
  shows "(name_of_value tab v, v) \<in> set tab"
proof -
  let ?ns = "map fst (filter (\<lambda>e. snd e = v) tab)"
  have "k \<in> set (sort ?ns)" using assms by force
  then obtain nm ns where "sort ?ns = nm # ns" by (cases "sort ?ns") auto
  moreover from this have "nm \<in> set ?ns" by (metis list.set_intros(1) set_sort)
  ultimately show ?thesis by (auto simp: name_of_value_def)
qed

lemma name_of_value_missing: "v \<notin> snd ` set tab \<Longrightarrow> name_of_value tab v = []"
proof -
  assume "v \<notin> snd ` set tab"
  then have "filter (\<lambda>e. snd e = v) tab = []" by (auto simp: filter_empty_conv)
  then show ?thesis by (simp add: name_of_value_def)
qed

lemma tables_distinct:
  "profiles_for prof i = Some tab \<Longrightarrow> distinct (map fst tab) \<and> [] \<notin> set (map fst tab)"
  "levels_for i = Some tab \<Longrightarrow> distinct (map fst tab) \<and> [] \<notin> set (map fst tab)"
proof -
  have p: "list_all (\<lambda>t. distinct (map fst t) \<and> [] \<notin> set (map fst t))
      [vaapi_encode_h264_profiles, vaapi_encode_h265_profiles, vaapi_encode_av1_profiles, vaapi_encode_mjpeg_profiles]"
    and l: "list_all (\<lambda>t. distinct (map fst t) \<and> [] \<notin> set (map fst t))
      [vaapi_encode_h264_levels, vaapi_encode_h265_levels, vaapi_encode_av1_levels]"
    by code_simp+
  show "profiles_for prof i = Some tab \<Longrightarrow> distinct (map fst tab) \<and> [] \<notin> set (map fst tab)"
    using p by (auto simp: profiles_for_def comp_def split: if_splits simp del: set_map)
  show "levels_for i = Some tab \<Longrightarrow> distinct (map fst tab) \<and> [] \<notin> set (map fst tab)"
    using l by (auto simp: levels_for_def split: if_splits simp del: set_map)
qed

lemma value_of_name:
  assumes "distinct (map fst tab)" "v \<in> snd ` set tab"
  shows "value_or_default tab (Some (name_of_value tab v)) = Some v"
proof -
  obtain k where "(k, v) \<in> set tab" using assms(2) by auto
  then have "map_of tab (name_of_value tab v) = Some v"
    using name_of_value_found [of k v tab] assms(1) by simp
  then show ?thesis by (simp add: value_or_default_def)
qed

end
