(* ===== verification/TransCoder.thy ===== *)
theory TransCoder
  imports CFFEncoder StdMap
begin

text \<open>
  The transcoder of the encoder server, \<open>sources/encoder/shared/CTransCoder.cpp\<close>: its properties, the settings made
  while it runs, and how a frame takes them to the encoder, for the build without \<open>FFMPEG_v42\<close> and
  \<open>ENABLE_MEMSHARE\<close>. The fields are those of the class with \<open>t_\<close> for \<open>m_\<close>. Frame rates are \<open>float\<close>
  values, which are rational numbers here. The dictionary of FFmpeg is the parameter \<open>dget\<close>; the adaptive encoding
  of \<open>tcae/\<close>, modelled in \<open>Tcae\<close>, is represented here by its answers.
\<close>

section \<open>State\<close>

record crop_info =
  client_rect_right :: int
  client_rect_bottom :: int
  fb_rect_right :: int
  fb_rect_bottom :: int
  crop_top :: int
  crop_bottom :: int
  crop_left :: int
  crop_right :: int
  valid_crop :: int

definition no_crop :: crop_info where
  "no_crop = \<lparr>client_rect_right = 0, client_rect_bottom = 0, fb_rect_right = 0, fb_rect_bottom = 0, crop_top = 0,
     crop_bottom = 0, crop_left = 0, crop_right = 0, valid_crop = 0\<rparr>"

definition DEFAULT_SCREEN_CAPTURE_QUALITY :: int where "DEFAULT_SCREEN_CAPTURE_QUALITY = 80"

definition RESOLUTION_MIN :: int where "RESOLUTION_MIN = 32"

definition RESOLUTION_MAX :: int where "RESOLUTION_MAX = 4096"

text \<open>
  \<open>t_decoders\<close> is the map of decoders, each with the size of its pictures, \<open>t_filters\<close> that of the filters, each
  with the size it was made for; \<open>t_encoders\<close> the map of encoders, where
  \<open>None\<close> as a value is a null pointer that \<open>operator[]\<close> put there; \<open>t_thread\<close> whether there is a thread to join.
\<close>

record 'c CTransCoder =
  t_decoders :: "(int, int \<times> int) omap"
  t_filters :: "(int, int \<times> int) omap"
  t_encoders :: "(int, CFFEncoder option) omap"
  t_MJPEGEncoder :: "CFFEncoder option"
  t_DispCtrlQueue :: "'c list"
  t_mStreamFound :: "(int, bool) omap"
  t_stop :: bool
  t_thread :: bool
  t_pInProp :: av_dict
  t_pOutProp :: av_dict
  t_forceKeyFrame :: int
  t_setQP :: int
  t_setBitrate :: int
  t_bitrate :: int
  t_setMaxBitrate :: int
  t_maxBitrate :: int
  t_setMinMaxQP :: int
  t_maxQP :: int
  t_minQP :: int
  t_setFramerate :: rat
  t_frameRate :: rat
  t_setMaxframeSize :: int
  t_setRIR :: bool
  t_IntRefType :: int
  t_IntRefCycleSize :: int
  t_IntRefQPDelta :: int
  t_setSEI :: bool
  t_SEIType :: int
  t_SEIUserId :: int
  t_isEncHWError :: bool
  t_setDynamicEncode :: bool
  t_gopSize :: int
  t_setGopSize :: bool
  t_screenCaptureFlag :: bool
  t_screenCaptureInterval :: int
  t_countScreenCapture :: int
  t_screenCaptureQuality :: int
  t_nCodecId :: int
  t_isResolutionChange :: bool
  t_isCodecChange :: bool
  t_newWidth :: int
  t_newHeight :: int
  t_isFramerateChange :: bool
  t_bSkipFrame :: bool
  t_isAlphaChannelMode :: bool
  t_id :: int
  t_hwErrorCnt :: int
  t_hwErrorOccurTimeInMs :: int
  t_hwErrorDurationInMs :: int
  t_crop :: crop_info
  t_frameNumInFrameRate :: int
  t_totalFrameSizeInFrameRate :: int
  t_buffer_width :: int
  t_buffer_height :: int
  t_prev_client_right :: int
  t_prev_client_bottom :: int
  t_isProfileLevelChange :: bool
  t_vaapiPlugin :: bool
  t_qsvPlugin :: bool
  t_tcaeEnabled :: bool
  t_nLastPktSize :: int

definition trans_coder :: "'c CTransCoder" where
  "trans_coder = \<lparr>t_decoders = [], t_filters = [], t_encoders = [], t_MJPEGEncoder = None, t_DispCtrlQueue = [], t_mStreamFound = [],
     t_stop = False, t_thread = False, t_pInProp = [], t_pOutProp = [], t_forceKeyFrame = 0, t_setQP = 0, t_setBitrate = 0,
     t_bitrate = 0, t_setMaxBitrate = 0, t_maxBitrate = 0, t_setMinMaxQP = 0, t_maxQP = 0, t_minQP = 0, t_setFramerate = 0,
     t_frameRate = 0, t_setMaxframeSize = 0, t_setRIR = False, t_IntRefType = 0, t_IntRefCycleSize = 0, t_IntRefQPDelta = 0,
     t_setSEI = False, t_SEIType = 0, t_SEIUserId = 0, t_isEncHWError = False, t_setDynamicEncode = False, t_gopSize = 0,
     t_setGopSize = False, t_screenCaptureFlag = False, t_screenCaptureInterval = 0, t_countScreenCapture = 0,
     t_screenCaptureQuality = DEFAULT_SCREEN_CAPTURE_QUALITY, t_nCodecId = AV_CODEC_ID_NONE, t_isResolutionChange = False,
     t_isCodecChange = False, t_newWidth = 0, t_newHeight = 0, t_isFramerateChange = False, t_bSkipFrame = False,
     t_isAlphaChannelMode = False, t_id = 0, t_hwErrorCnt = 0, t_hwErrorOccurTimeInMs = 0, t_hwErrorDurationInMs = 0,
     t_crop = no_crop, t_frameNumInFrameRate = 0, t_totalFrameSizeInFrameRate = 0, t_buffer_width = 0, t_buffer_height = 0,
     t_prev_client_right = 0, t_prev_client_bottom = 0, t_isProfileLevelChange = False, t_vaapiPlugin = True,
     t_qsvPlugin = False, t_tcaeEnabled = False, t_nLastPktSize = 0\<rparr>"

section \<open>Properties\<close>

definition trans_init :: "int \<Rightarrow> int \<Rightarrow> 'c CTransCoder \<Rightarrow> 'c CTransCoder" where
  "trans_init i codec_type t =
     t\<lparr>t_id := i, t_screenCaptureQuality := DEFAULT_SCREEN_CAPTURE_QUALITY, t_nCodecId := codec_type\<rparr>"

definition setInputProp :: "string \<Rightarrow> string option \<Rightarrow> 'c CTransCoder \<Rightarrow> 'c CTransCoder" where
  "setInputProp k v t = t\<lparr>t_pInProp := av_dict_set k v (t_pInProp t)\<rparr>"

definition setOutputProp :: "string \<Rightarrow> string option \<Rightarrow> 'c CTransCoder \<Rightarrow> 'c CTransCoder" where
  "setOutputProp k v t = t\<lparr>t_pOutProp := av_dict_set k v (t_pOutProp t)\<rparr>"

definition setOutputProp_int :: "string \<Rightarrow> int \<Rightarrow> 'c CTransCoder \<Rightarrow> 'c CTransCoder" where
  "setOutputProp_int k v = setOutputProp k (Some (dec_of_int v))"

definition getInOptVal ::
  "(av_dict \<Rightarrow> string \<Rightarrow> string option) \<Rightarrow> string \<Rightarrow> string \<Rightarrow> string option \<Rightarrow> 'c CTransCoder \<Rightarrow> string option" where
  "getInOptVal dget short_name long_name default_value t =
     (case dget (t_pInProp t) short_name of
        Some v \<Rightarrow> Some v
      | None \<Rightarrow> (case dget (t_pInProp t) long_name of Some v \<Rightarrow> Some v | None \<Rightarrow> default_value))"

definition getOutOptVal ::
  "(av_dict \<Rightarrow> string \<Rightarrow> string option) \<Rightarrow> string \<Rightarrow> string \<Rightarrow> string option \<Rightarrow> 'c CTransCoder \<Rightarrow> string option" where
  "getOutOptVal dget short_name long_name default_value t =
     (case dget (t_pOutProp t) short_name of
        Some v \<Rightarrow> Some v
      | None \<Rightarrow> (case dget (t_pOutProp t) long_name of Some v \<Rightarrow> Some v | None \<Rightarrow> default_value))"

definition getInitGopSize :: "(av_dict \<Rightarrow> string \<Rightarrow> string option) \<Rightarrow> av_dict \<Rightarrow> int" where
  "getInitGopSize dget d = (case dget d ''g'' of None \<Rightarrow> 0 | Some v \<Rightarrow> atoi v)"

text \<open>The same conversion as that of the option check, and undefined for the same texts.\<close>

definition getInitBitrate :: "(av_dict \<Rightarrow> string \<Rightarrow> string option) \<Rightarrow> av_dict \<Rightarrow> int option" where
  "getInitBitrate dget d = (case dget d ''b'' of None \<Rightarrow> Some 0 | Some v \<Rightarrow> convert_bitrate (Some v))"

definition getMaxBitrate :: "(av_dict \<Rightarrow> string \<Rightarrow> string option) \<Rightarrow> av_dict \<Rightarrow> int option" where
  "getMaxBitrate dget d = (case dget d ''maxrate'' of None \<Rightarrow> Some 0 | Some v \<Rightarrow> convert_bitrate (Some v))"

definition EnableVaapiPlugin :: "'c CTransCoder \<Rightarrow> 'c CTransCoder" where
  "EnableVaapiPlugin t = t\<lparr>t_vaapiPlugin := True, t_qsvPlugin := False\<rparr>"

definition EnableQsvPlugin :: "'c CTransCoder \<Rightarrow> 'c CTransCoder" where
  "EnableQsvPlugin t = t\<lparr>t_qsvPlugin := True, t_vaapiPlugin := False\<rparr>"

section \<open>Settings while running\<close>

definition forceKeyFrame :: "int \<Rightarrow> 'c CTransCoder \<Rightarrow> 'c CTransCoder" where
  "forceKeyFrame f t = t\<lparr>t_forceKeyFrame := f, t_setDynamicEncode := True\<rparr>"

definition setQP :: "int \<Rightarrow> 'c CTransCoder \<Rightarrow> 'c CTransCoder" where
  "setQP q t = t\<lparr>t_setQP := q, t_setDynamicEncode := True\<rparr>"

definition setBitrate :: "int \<Rightarrow> 'c CTransCoder \<Rightarrow> 'c CTransCoder" where
  "setBitrate b t = t\<lparr>t_setBitrate := b, t_bitrate := b, t_setDynamicEncode := True\<rparr>"

definition setMaxBitrate :: "int \<Rightarrow> 'c CTransCoder \<Rightarrow> 'c CTransCoder" where
  "setMaxBitrate b t = t\<lparr>t_setMaxBitrate := b, t_maxBitrate := b, t_setDynamicEncode := True\<rparr>"

definition setFramerate :: "rat \<Rightarrow> 'c CTransCoder \<Rightarrow> 'c CTransCoder" where
  "setFramerate f t = t\<lparr>t_setFramerate := f, t_frameRate := f, t_setDynamicEncode := True\<rparr>"

definition setMaxFrameSize :: "int \<Rightarrow> 'c CTransCoder \<Rightarrow> 'c CTransCoder" where
  "setMaxFrameSize n t = t\<lparr>t_setMaxframeSize := n, t_setDynamicEncode := True\<rparr>"

definition setRollingIntraRefresh :: "int \<Rightarrow> int \<Rightarrow> int \<Rightarrow> 'c CTransCoder \<Rightarrow> 'c CTransCoder" where
  "setRollingIntraRefresh ty cycle_size qp_delta t =
     t\<lparr>t_setRIR := True, t_IntRefType := ty, t_IntRefCycleSize := cycle_size, t_IntRefQPDelta := qp_delta,
       t_setDynamicEncode := True\<rparr>"

definition setMinMaxQP :: "int \<Rightarrow> int \<Rightarrow> 'c CTransCoder \<Rightarrow> 'c CTransCoder" where
  "setMinMaxQP min_qp max_qp t =
     t\<lparr>t_setMinMaxQP := 1, t_minQP := min_qp, t_maxQP := max_qp, t_setDynamicEncode := True\<rparr>"

definition changeResolution :: "int \<Rightarrow> int \<Rightarrow> 'c CTransCoder \<Rightarrow> int \<times> 'c CTransCoder" where
  "changeResolution w h t =
     (if w < RESOLUTION_MIN \<or> w > RESOLUTION_MAX \<or> h < RESOLUTION_MIN \<or> h > RESOLUTION_MAX then (-1, t)
      else (0, t\<lparr>t_isResolutionChange := True, t_newWidth := w, t_newHeight := h\<rparr>))"

text \<open>The name of the encoder for a codec with the plug-in in use.\<close>

definition set_codec_prop :: "string \<Rightarrow> string \<Rightarrow> 'c CTransCoder \<Rightarrow> 'c CTransCoder" where
  "set_codec_prop va qsv t =
     (if t_vaapiPlugin t then setOutputProp ''c'' (Some va) t
      else if t_qsvPlugin t then setOutputProp ''c'' (Some qsv) t else t)"

definition changeCodec :: "int \<Rightarrow> 'c CTransCoder \<Rightarrow> int \<times> 'c CTransCoder" where
  "changeCodec codec_type t =
     (if codec_type \<noteq> AV_CODEC_ID_H264 \<and> codec_type \<noteq> AV_CODEC_ID_HEVC then (-1, t)
      else if t_nCodecId t \<noteq> codec_type
      then let t = setOutputProp ''level'' None (setOutputProp ''profile'' None
                     (t\<lparr>t_nCodecId := codec_type, t_isCodecChange := True\<rparr>))
           in (0, if t_nCodecId t = AV_CODEC_ID_H264 then set_codec_prop ''h264_vaapi'' ''h264_qsv'' t
                  else if t_nCodecId t = AV_CODEC_ID_HEVC then set_codec_prop ''hevc_vaapi'' ''hevc_qsv'' t
                  else if t_nCodecId t = AV_CODEC_ID_AV1 then set_codec_prop ''av1_vaapi'' ''av1_qsv'' t
                  else t)
      else (0, t))"

definition setSEI :: "int \<Rightarrow> int \<Rightarrow> 'c CTransCoder \<Rightarrow> 'c CTransCoder" where
  "setSEI sei_type sei_user_id t =
     t\<lparr>t_setSEI := True, t_SEIType := sei_type, t_SEIUserId := sei_user_id, t_setDynamicEncode := True\<rparr>"

definition setGopSize :: "int \<Rightarrow> 'c CTransCoder \<Rightarrow> int \<times> 'c CTransCoder" where
  "setGopSize n t =
     (if n < 1 then (-1, t)
      else if n = t_gopSize t then (0, t)
      else (0, t\<lparr>t_setGopSize := True, t_gopSize := n, t_setDynamicEncode := True\<rparr>))"

definition setSkipFrameFlag :: "bool \<Rightarrow> 'c CTransCoder \<Rightarrow> 'c CTransCoder" where
  "setSkipFrameFlag b t = t\<lparr>t_bSkipFrame := b\<rparr>"

definition setScreenCaptureFlag :: "bool \<Rightarrow> 'c CTransCoder \<Rightarrow> 'c CTransCoder" where
  "setScreenCaptureFlag b t = t\<lparr>t_screenCaptureFlag := b\<rparr>"

definition setScreenCaptureInterval :: "int \<Rightarrow> 'c CTransCoder \<Rightarrow> 'c CTransCoder" where
  "setScreenCaptureInterval n t = t\<lparr>t_screenCaptureInterval := n\<rparr>"

definition setScreenCaptureQuality :: "int \<Rightarrow> 'c CTransCoder \<Rightarrow> 'c CTransCoder" where
  "setScreenCaptureQuality q t =
     t\<lparr>t_screenCaptureQuality := (if q < 1 \<or> q > 100 then DEFAULT_SCREEN_CAPTURE_QUALITY else q)\<rparr>"

definition trans_set_crop :: "crop_info \<Rightarrow> 'c CTransCoder \<Rightarrow> 'c CTransCoder" where
  "trans_set_crop c t = t\<lparr>t_crop := c\<rparr>"

definition erase_encoders :: "'c CTransCoder \<Rightarrow> 'c CTransCoder" where
  "erase_encoders t = t\<lparr>t_encoders := []\<rparr>"

definition erase_filters :: "'c CTransCoder \<Rightarrow> 'c CTransCoder" where
  "erase_filters t = t\<lparr>t_filters := []\<rparr>"

definition setVideoMode :: "bool \<Rightarrow> 'c CTransCoder \<Rightarrow> 'c CTransCoder" where
  "setVideoMode b t = t\<lparr>t_isAlphaChannelMode := b\<rparr>"

definition setFrameBufferSize :: "int \<Rightarrow> int \<Rightarrow> 'c CTransCoder \<Rightarrow> 'c CTransCoder" where
  "setFrameBufferSize w h t = t\<lparr>t_buffer_width := w, t_buffer_height := h\<rparr>"

text \<open>\<open>m_mEncoders[0]\<close> is used whether or not there is such an encoder: \<open>None\<close> is the call on a null pointer.\<close>

definition changeEncoderProfileLevel ::
  "(ff_profile \<Rightarrow> int) \<Rightarrow> int \<Rightarrow> int \<Rightarrow> 'c CTransCoder \<Rightarrow> (int \<times> 'c CTransCoder) option" where
  "changeEncoderProfileLevel prof iProfile iLevel t =
     (case om_find (t_encoders t) 0 of
        Some (Some e) \<Rightarrow>
          let p = getProfileNameByValue prof iProfile e; l = getLevelNameByValue iLevel e
          in Some (if p = [] \<and> l = [] then (-1, t)
             else let t = (if p \<noteq> [] then setOutputProp ''profile'' (Some p) t else t);
                      t = (if l \<noteq> [] then setOutputProp ''level'' (Some l) t else t)
                  in (0, t\<lparr>t_isProfileLevelChange := True\<rparr>))
      | _ \<Rightarrow> None)"

section \<open>Start and stop\<close>

text \<open>
  The arguments answer for the demultiplexer's start and for the creation of the thread. The frame rate is converted
  to \<open>float\<close>.
\<close>

definition trans_start ::
  "(av_dict \<Rightarrow> string \<Rightarrow> string option) \<Rightarrow> int \<Rightarrow> bool \<Rightarrow> 'c CTransCoder \<Rightarrow> (int \<times> 'c CTransCoder) option" where
  "trans_start dget demux_ret thread_ok t = do {
     b \<leftarrow> getInitBitrate dget (t_pOutProp t);
     let t = t\<lparr>t_bitrate := b, t_gopSize := getInitGopSize dget (t_pOutProp t)\<rparr>;
     if t_thread t then Some (0, t)
     else let t = t\<lparr>t_stop := False\<rparr>
          in if demux_ret < 0 then Some (demux_ret, t)
             else let t = (case getOutOptVal dget ''r'' ''framerate'' None t of
                             None \<Rightarrow> t | Some v \<Rightarrow> t\<lparr>t_frameRate := flt (atof v)\<rparr>)
                  in Some (if thread_ok then (0, t\<lparr>t_thread := True\<rparr>) else (-1, t)) }"

definition trans_stop :: "'c CTransCoder \<Rightarrow> 'c CTransCoder" where
  "trans_stop t = (if t_thread t then t\<lparr>t_stop := True, t_thread := False\<rparr> else t)"

section \<open>Adaptive encoding\<close>

text \<open>
  The size of a frame at the largest rate: the division of the unsigned rate by 8 is whole, that by the frame rate is
  one of \<open>float\<close>. \<open>None\<close> is a conversion to \<open>unsigned\<close> out of range.
\<close>

definition tcae_max_size :: "int \<Rightarrow> rat \<Rightarrow> int option" where
  "tcae_max_size maxBitrate f =
     (let b = to_uint32 maxBitrate
      in if b > 0 \<and> f > 0
         then let q = \<lfloor>flt (flt (of_int (b div 8)) / f)\<rfloor> in if q < 2 ^ 32 then Some q else None
         else Some 0)"

text \<open>\<open>tcae_ret\<close> is what the initialisation answers for the size. The result is whether adaptive encoding is on.\<close>

definition enableTcae ::
  "(av_dict \<Rightarrow> string \<Rightarrow> string option) \<Rightarrow> (int \<Rightarrow> int) \<Rightarrow> 'c CTransCoder \<Rightarrow> (bool \<times> 'c CTransCoder) option" where
  "enableTcae dget tcae_ret t = do {
     b \<leftarrow> getMaxBitrate dget (t_pOutProp t);
     let f = (case getOutOptVal dget ''r'' ''framerate'' None t of None \<Rightarrow> 0 | Some v \<Rightarrow> flt (atof v));
     n \<leftarrow> tcae_max_size b f;
     let t = (if tcae_ret n < 0 then t
              else setOutputProp_int ''hrd_compliance'' (-1) (setOutputProp_int ''low_delay_brc'' 1 (t\<lparr>t_tcaeEnabled := True\<rparr>)));
     Some (t_tcaeEnabled t, t) }"

section \<open>Settings taken to a frame\<close>

datatype pict_type = PICTURE_TYPE_I | PICTURE_TYPE_P

text \<open>What a frame is given: its picture type if one is forced, and the display control it carries.\<close>

record 'c frame_settings =
  fs_pict_type :: "pict_type option"
  fs_sei :: "'c option"

text \<open>
  \<open>target\<close> is the answer of the adaptive encoding, the size it wants and whether it only logs. The rate it asks for is
  a product of \<open>float\<close> values; \<open>None\<close> is one that does not fit an \<open>int\<close>.
\<close>

definition tcae_rate :: "rat \<Rightarrow> int \<Rightarrow> int option" where
  "tcae_rate f sz = int_of_dbl (flt (flt (f * flt (of_int sz)) * 8))"

definition apply_tcae :: "int \<times> bool \<Rightarrow> CFFEncoder \<Rightarrow> 'c CTransCoder \<Rightarrow> (CFFEncoder \<times> 'c CTransCoder) option" where
  "apply_tcae target e t =
     (if t_tcaeEnabled t
      then if fst target > 0 \<and> t_qsvPlugin t \<and> \<not> snd target
           then do {
             b \<leftarrow> tcae_rate (t_frameRate t) (fst target);
             Some (enc_setLowDelayBrc 1 e, setMaxBitrate b (setBitrate b t)) }
           else Some (enc_setLowDelayBrc 0 e, t)
      else Some (e, t))"

definition apply_pict_type :: "'c CTransCoder \<Rightarrow> pict_type option \<times> 'c CTransCoder" where
  "apply_pict_type t =
     (if t_forceKeyFrame t \<noteq> 0 then (Some PICTURE_TYPE_I, t\<lparr>t_forceKeyFrame := 0\<rparr>)
      else (if t_qsvPlugin t then Some PICTURE_TYPE_P else None, t))"

definition apply_rates :: "CFFEncoder \<Rightarrow> 'c CTransCoder \<Rightarrow> CFFEncoder \<times> 'c CTransCoder" where
  "apply_rates e t =
     (let t = t\<lparr>t_setQP := 0\<rparr>;
          (e, t) = (if t_setBitrate t \<noteq> 0 then (enc_setBitrate (t_bitrate t) e, t\<lparr>t_setBitrate := 0\<rparr>) else (e, t));
          (e, t) = (if t_setMaxBitrate t \<noteq> 0 then (enc_setMaxBitrate (t_maxBitrate t) e, t\<lparr>t_setMaxBitrate := 0\<rparr>) else (e, t));
          t = (if t_setFramerate t \<noteq> 0
               then t\<lparr>t_setFramerate := 0, t_totalFrameSizeInFrameRate := 0, t_frameNumInFrameRate := 0, t_isFramerateChange := True\<rparr>
               else t)
      in (e, t\<lparr>t_setMaxframeSize := 0, t_setRIR := False, t_setMinMaxQP := 0\<rparr>))"

definition apply_display_control :: "'c CTransCoder \<Rightarrow> 'c option \<times> 'c CTransCoder" where
  "apply_display_control t = (case t_DispCtrlQueue t of [] \<Rightarrow> (None, t) | c # cs \<Rightarrow> (Some c, t\<lparr>t_DispCtrlQueue := cs\<rparr>))"

definition dynamicSetEncParameters ::
  "int \<times> bool \<Rightarrow> CFFEncoder \<Rightarrow> 'c CTransCoder \<Rightarrow> ('c frame_settings \<times> CFFEncoder \<times> 'c CTransCoder) option" where
  "dynamicSetEncParameters target e t = do {
     let (pict, t) = apply_pict_type t;
     (e, t) \<leftarrow> apply_tcae target e t;
     let (e, t) = apply_rates e t;
     let (sei, t) = apply_display_control t;
     Some (\<lparr>fs_pict_type = pict, fs_sei = sei\<rparr>, e, t\<lparr>t_setSEI := False\<rparr>) }"

definition updateDynamicChangedFramerate :: "CFFEncoder \<Rightarrow> 'c CTransCoder \<Rightarrow> (CFFEncoder \<times> 'c CTransCoder) option" where
  "updateDynamicChangedFramerate e t = do {
     f \<leftarrow> int_of_dbl (t_frameRate t);
     Some (enc_updateDynamicChangedFramerate f e, t\<lparr>t_isFramerateChange := False\<rparr>) }"

section \<open>Hardware errors\<close>

definition HW_ERROR_INTERVAL :: int where "HW_ERROR_INTERVAL = 5000"
definition HW_ERROR_DURATION_MAX :: int where "HW_ERROR_DURATION_MAX = 300"
definition HW_ERROR_COUNT_MAX :: int where "HW_ERROR_COUNT_MAX = 10"

text \<open>\<open>now\<close> is the time in milliseconds; the result says whether the process is sent \<open>SIGINT\<close>.\<close>

definition hwErrorCount :: "int \<Rightarrow> 'c CTransCoder \<Rightarrow> bool \<times> 'c CTransCoder" where
  "hwErrorCount now t =
     (let delta = now - t_hwErrorOccurTimeInMs t;
          t = (if delta \<ge> HW_ERROR_INTERVAL then t\<lparr>t_hwErrorCnt := 0, t_hwErrorDurationInMs := 0\<rparr>
               else t\<lparr>t_hwErrorCnt := t_hwErrorCnt t + 1, t_hwErrorDurationInMs := t_hwErrorDurationInMs t + delta\<rparr>);
          t = t\<lparr>t_hwErrorOccurTimeInMs := now\<rparr>
      in (t_hwErrorDurationInMs t > HW_ERROR_DURATION_MAX \<or> t_hwErrorCnt t > HW_ERROR_COUNT_MAX, t))"

end
