(* ===== verification/TransCoderProps.thy ===== *)
theory TransCoderProps
  imports TransCoder
begin

text \<open>
  What becomes of the settings of a running transcoder: the calls the streamer makes on it, the frame that takes the
  settings to the encoder, the agreement of the encoder's name with the codec, and the counting of hardware errors.
\<close>

section \<open>The calls of the streamer\<close>

text \<open>Calls the streamer makes on other objects leave the transcoder alone.\<close>

fun trans_call :: "(ff_profile \<Rightarrow> int) \<Rightarrow> stream_call \<Rightarrow> 'c CTransCoder \<Rightarrow> 'c CTransCoder option" where
  "trans_call prof (ForceKeyFrame f) t = Some (forceKeyFrame f t)"
| "trans_call prof (SetQP q) t = Some (setQP q t)"
| "trans_call prof (SetBitrate b) t = Some (setBitrate b t)"
| "trans_call prof (SetMaxBitrate b) t = Some (setMaxBitrate b t)"
| "trans_call prof (SetMaxFrameSize n) t = Some (setMaxFrameSize n t)"
| "trans_call prof (SetRollingIntraRefresh ty c q) t = Some (setRollingIntraRefresh ty c q t)"
| "trans_call prof (SetMinMaxQP a b) t = Some (setMinMaxQP a b t)"
| "trans_call prof (SetFramerate f) t = Some (setFramerate (of_int f) t)"
| "trans_call prof (SetOutputProp k v) t = Some (setOutputProp k (Some v) t)"
| "trans_call prof (ChangeResolution w h) t = Some (snd (changeResolution w h t))"
| "trans_call prof (ChangeCodec c) t = Some (snd (changeCodec c t))"
| "trans_call prof (SetSEI a b) t = Some (setSEI a b t)"
| "trans_call prof (SetGopSize n) t = Some (snd (setGopSize n t))"
| "trans_call prof (SetScreenCaptureFlag b) t = Some (setScreenCaptureFlag b t)"
| "trans_call prof (SetScreenCaptureInterval n) t = Some (setScreenCaptureInterval n t)"
| "trans_call prof (SetScreenCaptureQuality q) t = Some (setScreenCaptureQuality q t)"
| "trans_call prof (SetSkipFrameFlag b) t = Some (setSkipFrameFlag b t)"
| "trans_call prof (ChangeEncoderProfileLevel p l) t = map_option snd (changeEncoderProfileLevel prof p l t)"
| "trans_call prof _ t = Some t"

fun trans_calls :: "(ff_profile \<Rightarrow> int) \<Rightarrow> stream_call list \<Rightarrow> 'c CTransCoder \<Rightarrow> 'c CTransCoder option" where
  "trans_calls prof [] t = Some t"
| "trans_calls prof (c # cs) t = do { t' \<leftarrow> trans_call prof c t; trans_calls prof cs t' }"

lemma trans_calls_append: "trans_calls prof (cs @ ds) t = do { t' \<leftarrow> trans_calls prof cs t; trans_calls prof ds t' }"
  by (induction cs arbitrary: t) (auto split: bind_splits)

section \<open>Pending settings\<close>

fun bitrate_of :: "stream_call \<Rightarrow> int option" where
  "bitrate_of (SetBitrate b) = Some b"
| "bitrate_of _ = None"

fun max_bitrate_of :: "stream_call \<Rightarrow> int option" where
  "max_bitrate_of (SetMaxBitrate b) = Some b"
| "max_bitrate_of _ = None"

fun key_frame_of :: "stream_call \<Rightarrow> int option" where
  "key_frame_of (ForceKeyFrame f) = Some f"
| "key_frame_of _ = None"

text \<open>The value given last, or the one there was.\<close>

fun latest :: "(stream_call \<Rightarrow> 'v option) \<Rightarrow> 'v \<Rightarrow> stream_call list \<Rightarrow> 'v" where
  "latest f v [] = v"
| "latest f v (c # cs) = latest f (case f c of None \<Rightarrow> v | Some w \<Rightarrow> w) cs"

definition none_pending :: "'c CTransCoder \<Rightarrow> bool" where
  "none_pending t \<longleftrightarrow> t_forceKeyFrame t = 0 \<and> t_setBitrate t = 0 \<and> t_setMaxBitrate t = 0 \<and> t_setFramerate t = 0"

definition pending_ok :: "'c CTransCoder \<Rightarrow> bool" where
  "pending_ok t \<longleftrightarrow> (t_setBitrate t \<noteq> 0 \<longrightarrow> t_bitrate t = t_setBitrate t) \<and>
     (t_setMaxBitrate t \<noteq> 0 \<longrightarrow> t_maxBitrate t = t_setMaxBitrate t)"

text \<open>What of the state the settings of a rate and of a key frame concern; \<open>keeps\<close> is a step that leaves it alone.\<close>

definition keeps :: "'c CTransCoder \<Rightarrow> 'c CTransCoder \<Rightarrow> bool" where
  "keeps t t' \<longleftrightarrow> t_setBitrate t' = t_setBitrate t \<and> t_bitrate t' = t_bitrate t \<and> t_setMaxBitrate t' = t_setMaxBitrate t
     \<and> t_maxBitrate t' = t_maxBitrate t \<and> t_forceKeyFrame t' = t_forceKeyFrame t \<and> t_tcaeEnabled t' = t_tcaeEnabled t
     \<and> t_qsvPlugin t' = t_qsvPlugin t \<and> t_vaapiPlugin t' = t_vaapiPlugin t \<and> t_encoders t' = t_encoders t"

lemma keeps_refl: "keeps t t"
  by (simp add: keeps_def)

lemma keeps_trans: "keeps t u \<Longrightarrow> keeps u v \<Longrightarrow> keeps t v"
  by (simp add: keeps_def)

lemma keeps_prop: "keeps t (setOutputProp k v t)"
  by (simp add: keeps_def setOutputProp_def)

lemma keeps_setters:
  "keeps t (setQP q t)" "keeps t (setMaxFrameSize n t)" "keeps t (setRollingIntraRefresh a b c t)"
  "keeps t (setMinMaxQP a b t)" "keeps t (setFramerate f t)" "keeps t (setSEI a b t)"
  "keeps t (setScreenCaptureFlag x t)" "keeps t (setScreenCaptureInterval n t)" "keeps t (setScreenCaptureQuality n t)"
  "keeps t (setSkipFrameFlag x t)"
  by (simp_all add: keeps_def setQP_def setMaxFrameSize_def setRollingIntraRefresh_def setMinMaxQP_def setFramerate_def
      setSEI_def setScreenCaptureFlag_def setScreenCaptureInterval_def setScreenCaptureQuality_def setSkipFrameFlag_def)

lemma keeps_changeResolution: "keeps t (snd (changeResolution w h t))"
  by (simp add: keeps_def changeResolution_def)

lemma keeps_setGopSize: "keeps t (snd (setGopSize n t))"
  by (simp add: keeps_def setGopSize_def)

lemma keeps_codec_prop: "keeps t (set_codec_prop a b t)"
  by (simp add: set_codec_prop_def keeps_prop keeps_refl)

definition codec_stem :: "int \<Rightarrow> string" where
  "codec_stem c = (if c = AV_CODEC_ID_HEVC then ''hevc'' else if c = AV_CODEC_ID_AV1 then ''av1'' else ''h264'')"

lemma codec_ids_differ: "AV_CODEC_ID_H264 \<noteq> AV_CODEC_ID_HEVC" "AV_CODEC_ID_H264 \<noteq> AV_CODEC_ID_AV1" "AV_CODEC_ID_HEVC \<noteq> AV_CODEC_ID_AV1"
  by (simp_all add: AV_CODEC_ID_H264_def AV_CODEC_ID_HEVC_def AV_CODEC_ID_AV1_def)

lemma changeCodec_new:
  assumes "c = AV_CODEC_ID_H264 \<or> c = AV_CODEC_ID_HEVC" "t_nCodecId t \<noteq> c"
  shows "changeCodec c t = (0, set_codec_prop (codec_stem c @ ''_vaapi'') (codec_stem c @ ''_qsv'')
    (setOutputProp ''level'' None (setOutputProp ''profile'' None (t\<lparr>t_nCodecId := c, t_isCodecChange := True\<rparr>))))"
proof -
  have c: "t_nCodecId (setOutputProp ''level'' None (setOutputProp ''profile'' None (t\<lparr>t_nCodecId := c, t_isCodecChange := True\<rparr>))) = c"
    by (simp add: setOutputProp_def)
  from assms(1) show ?thesis
  proof
    assume "c = AV_CODEC_ID_H264"
    then show ?thesis using assms(2) c codec_ids_differ by (simp add: changeCodec_def Let_def codec_stem_def)
  next
    assume "c = AV_CODEC_ID_HEVC"
    then show ?thesis using assms(2) c codec_ids_differ by (simp add: changeCodec_def Let_def codec_stem_def)
  qed
qed

lemma changeCodec_same: "\<not> (c = AV_CODEC_ID_H264 \<or> c = AV_CODEC_ID_HEVC) \<or> t_nCodecId t = c \<Longrightarrow> snd (changeCodec c t) = t"
  by (auto simp: changeCodec_def)

lemma keeps_changeCodec: "keeps t (snd (changeCodec c t))"
proof (cases "(c = AV_CODEC_ID_H264 \<or> c = AV_CODEC_ID_HEVC) \<and> t_nCodecId t \<noteq> c")
  case True
  have "keeps t (t\<lparr>t_nCodecId := c, t_isCodecChange := True\<rparr>)" by (simp add: keeps_def)
  with True show ?thesis by (auto simp: changeCodec_new) (meson keeps_prop keeps_codec_prop keeps_trans)+
next
  case False
  then show ?thesis using changeCodec_same [of c t] keeps_refl by auto
qed

lemma keeps_profile:
  assumes "changeEncoderProfileLevel prof p l t = Some (r, t')"
  shows "keeps t t'"
proof -
  have last: "keeps u (u\<lparr>t_isProfileLevelChange := True\<rparr>)" for u :: "'a CTransCoder" by (simp add: keeps_def)
  show ?thesis using assms
    by (auto simp: changeEncoderProfileLevel_def Let_def keeps_refl split: option.splits if_splits
        intro: keeps_trans [OF keeps_prop last] keeps_trans [OF keeps_trans [OF keeps_prop keeps_prop] last])
qed

lemma trans_call_keeps:
  assumes "trans_call prof c t = Some t'" "bitrate_of c = None" "max_bitrate_of c = None" "key_frame_of c = None"
  shows "keeps t t'"
  using assms keeps_setters keeps_prop keeps_changeResolution keeps_setGopSize keeps_changeCodec keeps_refl
  by (cases c) (auto intro: keeps_profile)

lemma trans_call_pending:
  assumes "trans_call prof c t = Some t'"
  shows "t_setBitrate t' = (case bitrate_of c of None \<Rightarrow> t_setBitrate t | Some b \<Rightarrow> b)
    \<and> t_setMaxBitrate t' = (case max_bitrate_of c of None \<Rightarrow> t_setMaxBitrate t | Some b \<Rightarrow> b)
    \<and> t_forceKeyFrame t' = (case key_frame_of c of None \<Rightarrow> t_forceKeyFrame t | Some b \<Rightarrow> b)
    \<and> t_tcaeEnabled t' = t_tcaeEnabled t \<and> t_qsvPlugin t' = t_qsvPlugin t \<and> t_vaapiPlugin t' = t_vaapiPlugin t
    \<and> t_encoders t' = t_encoders t \<and> (pending_ok t \<longrightarrow> pending_ok t')"
proof (cases "bitrate_of c = None \<and> max_bitrate_of c = None \<and> key_frame_of c = None")
  case True
  with trans_call_keeps [OF assms] show ?thesis by (simp add: keeps_def pending_ok_def)
next
  case False
  then consider b where "c = SetBitrate b" | b where "c = SetMaxBitrate b" | b where "c = ForceKeyFrame b"
    by (cases c) auto
  then show ?thesis using assms
    by cases (simp_all add: setBitrate_def setMaxBitrate_def forceKeyFrame_def pending_ok_def, auto simp: pending_ok_def)
qed

lemma trans_calls_pending:
  "trans_calls prof cs t = Some t' \<Longrightarrow>
    t_setBitrate t' = latest bitrate_of (t_setBitrate t) cs
    \<and> t_setMaxBitrate t' = latest max_bitrate_of (t_setMaxBitrate t) cs
    \<and> t_forceKeyFrame t' = latest key_frame_of (t_forceKeyFrame t) cs
    \<and> t_tcaeEnabled t' = t_tcaeEnabled t \<and> t_qsvPlugin t' = t_qsvPlugin t \<and> t_vaapiPlugin t' = t_vaapiPlugin t
    \<and> t_encoders t' = t_encoders t \<and> (pending_ok t \<longrightarrow> pending_ok t')"
proof (induction cs arbitrary: t)
  case (Cons c cs)
  then obtain u where u: "trans_call prof c t = Some u" "trans_calls prof cs u = Some t'" by (auto split: bind_splits)
  show ?case using trans_call_pending [OF u(1)] Cons.IH [OF u(2)] by simp
qed simp

text \<open>What a frame does, without adaptive encoding.\<close>

lemma frame_takes:
  assumes "dynamicSetEncParameters target e t = Some (fs, e', t')" "\<not> t_tcaeEnabled t"
  shows "fs_pict_type fs = (if t_forceKeyFrame t \<noteq> 0 then Some PICTURE_TYPE_I else if t_qsvPlugin t then Some PICTURE_TYPE_P else None)"
    "e' = (if t_setMaxBitrate t \<noteq> 0 then enc_setMaxBitrate (t_maxBitrate t) else id)
           ((if t_setBitrate t \<noteq> 0 then enc_setBitrate (t_bitrate t) else id) e)"
    "none_pending t'" "t_tcaeEnabled t' = t_tcaeEnabled t"
  using assms
  by (auto simp: dynamicSetEncParameters_def apply_pict_type_def apply_tcae_def apply_rates_def apply_display_control_def
      none_pending_def Let_def split: list.splits if_splits)

lemma frame_defined: "\<not> t_tcaeEnabled t \<Longrightarrow> dynamicSetEncParameters target e t \<noteq> None"
  by (auto simp: dynamicSetEncParameters_def apply_pict_type_def apply_tcae_def split: prod.splits)



section \<open>The name of the encoder\<close>

definition encoder_name :: "'c CTransCoder \<Rightarrow> string" where
  "encoder_name t = codec_stem (t_nCodecId t) @ (if t_vaapiPlugin t then ''_vaapi'' else ''_qsv'')"

definition codec_named :: "(av_dict \<Rightarrow> string \<Rightarrow> string option) \<Rightarrow> 'c CTransCoder \<Rightarrow> bool" where
  "codec_named dget t \<longleftrightarrow> dget (t_pOutProp t) ''c'' = Some (encoder_name t) \<and> t_vaapiPlugin t \<noteq> t_qsvPlugin t"

definition codec_view :: "'c CTransCoder \<Rightarrow> av_dict \<times> int \<times> bool \<times> bool" where
  "codec_view t = (t_pOutProp t, t_nCodecId t, t_vaapiPlugin t, t_qsvPlugin t)"

lemma codec_named_view: "codec_view t = codec_view t' \<Longrightarrow> codec_named dget t = codec_named dget t'"
  by (simp add: codec_view_def codec_named_def encoder_name_def)

lemma codec_view_setters:
  "codec_view (forceKeyFrame f t) = codec_view t" "codec_view (setQP q t) = codec_view t"
  "codec_view (setBitrate b t) = codec_view t" "codec_view (setMaxBitrate b t) = codec_view t"
  "codec_view (setMaxFrameSize n t) = codec_view t" "codec_view (setRollingIntraRefresh i j k t) = codec_view t"
  "codec_view (setMinMaxQP i j t) = codec_view t" "codec_view (setFramerate r t) = codec_view t"
  "codec_view (snd (changeResolution i j t)) = codec_view t" "codec_view (setSEI i j t) = codec_view t"
  "codec_view (snd (setGopSize n t)) = codec_view t" "codec_view (setScreenCaptureFlag x t) = codec_view t"
  "codec_view (setScreenCaptureInterval n t) = codec_view t" "codec_view (setScreenCaptureQuality n t) = codec_view t"
  "codec_view (setSkipFrameFlag x t) = codec_view t"
  by (simp_all add: codec_view_def forceKeyFrame_def setQP_def setBitrate_def setMaxBitrate_def setMaxFrameSize_def
      setRollingIntraRefresh_def setMinMaxQP_def setFramerate_def changeResolution_def setSEI_def setGopSize_def
      setScreenCaptureFlag_def setScreenCaptureInterval_def setScreenCaptureQuality_def setSkipFrameFlag_def)

lemmas codec_named_setters = codec_view_setters [THEN codec_named_view]

lemma prop_names: "\<not> strcaseeq ''profile'' ''c''" "\<not> strcaseeq ''level'' ''c''" "\<not> strcaseeq ''r'' ''c''"
  by code_simp+

lemma codec_named_prop:
  "dict_laws dget \<Longrightarrow> \<not> strcaseeq k ''c'' \<Longrightarrow> codec_named dget (setOutputProp k v t) = codec_named dget t"
  by (simp add: codec_named_def encoder_name_def setOutputProp_def dict_get_other)

lemma codec_named_changeCodec:
  assumes "dict_laws dget" "codec_named dget t"
  shows "codec_named dget (snd (changeCodec c t))"
proof (cases "(c = AV_CODEC_ID_H264 \<or> c = AV_CODEC_ID_HEVC) \<and> t_nCodecId t \<noteq> c")
  case True
  let ?u = "setOutputProp ''level'' None (setOutputProp ''profile'' None (t\<lparr>t_nCodecId := c, t_isCodecChange := True\<rparr>))"
  have u: "t_nCodecId ?u = c" "t_vaapiPlugin ?u = t_vaapiPlugin t" "t_qsvPlugin ?u = t_qsvPlugin t"
    by (simp_all add: setOutputProp_def)
  have "codec_named dget (set_codec_prop (codec_stem c @ ''_vaapi'') (codec_stem c @ ''_qsv'') ?u)"
    using assms u by (cases "t_vaapiPlugin t")
      (simp_all add: codec_named_def encoder_name_def set_codec_prop_def setOutputProp_def dict_get_same)
  with True show ?thesis by (simp add: changeCodec_new)
next
  case False
  then show ?thesis using changeCodec_same [of c t] assms(2) by auto
qed

lemma codec_named_profile:
  assumes "dict_laws dget" "codec_named dget t" "changeEncoderProfileLevel prof p l t = Some (r, t')"
  shows "codec_named dget t'"
proof -
  have flag: "codec_named dget (u\<lparr>t_isProfileLevelChange := True\<rparr>) = codec_named dget u" for u :: "'a CTransCoder"
    by (simp add: codec_named_def encoder_name_def)
  show ?thesis using assms(2,3)
    by (auto simp: changeEncoderProfileLevel_def Let_def flag codec_named_prop [OF assms(1)] prop_names
        split: option.splits if_splits)
qed

fun leaves_codec_prop :: "stream_call \<Rightarrow> bool" where
  "leaves_codec_prop (SetOutputProp k v) = (\<not> strcaseeq k ''c'')"
| "leaves_codec_prop _ = True"

lemma codec_named_call:
  assumes "dict_laws dget" "codec_named dget t" "trans_call prof c t = Some t'"
    and "leaves_codec_prop c"
  shows "codec_named dget t'"
  using assms(2-)
  by (cases c) (auto simp: codec_named_setters codec_named_prop [OF assms(1)] codec_named_changeCodec [OF assms(1,2)]
      dest: codec_named_profile [OF assms(1,2)])



section \<open>Hardware errors\<close>

text \<open>The errors of one run: each less than five seconds after the one before.\<close>

fun one_run :: "int list \<Rightarrow> bool" where
  "one_run (a # b # ts) = (a \<le> b \<and> b < a + 5000 \<and> one_run (b # ts))"
| "one_run _ = True"

definition after_errors :: "int list \<Rightarrow> 'c CTransCoder \<Rightarrow> 'c CTransCoder" where
  "after_errors ts t = fold (\<lambda>now t. snd (hwErrorCount now t)) ts t"

lemma errors_counted:
  assumes "one_run (t_hwErrorOccurTimeInMs t # ts)"
  shows "t_hwErrorCnt (after_errors ts t) = t_hwErrorCnt t + int (length ts)
    \<and> t_hwErrorDurationInMs (after_errors ts t) = t_hwErrorDurationInMs t + (last (t_hwErrorOccurTimeInMs t # ts) - t_hwErrorOccurTimeInMs t)
    \<and> t_hwErrorOccurTimeInMs (after_errors ts t) = last (t_hwErrorOccurTimeInMs t # ts)"
  using assms
proof (induction ts arbitrary: t)
  case (Cons a ts)
  let ?u = "snd (hwErrorCount a t)"
  have u: "t_hwErrorCnt ?u = t_hwErrorCnt t + 1"
    "t_hwErrorDurationInMs ?u = t_hwErrorDurationInMs t + (a - t_hwErrorOccurTimeInMs t)" "t_hwErrorOccurTimeInMs ?u = a"
    using Cons.prems by (simp_all add: hwErrorCount_def HW_ERROR_INTERVAL_def Let_def)
  have "after_errors (a # ts) t = after_errors ts ?u" by (simp add: after_errors_def)
  with Cons.IH [of ?u] Cons.prems u show ?case by simp
qed (simp add: after_errors_def)

text \<open>
  C24. The process is interrupted at a hardware error exactly if the run of errors it belongs to has lasted more than 300
  milliseconds or consists of more than ten errors before it, where five seconds without an error end a run.
\<close>

theorem hw_error_interrupts:
  assumes "first - t_hwErrorOccurTimeInMs t \<ge> 5000" "one_run (first # ts @ [now])"
  shows "fst (hwErrorCount now (after_errors (first # ts) t)) \<longleftrightarrow> now - first > 300 \<or> length ts + 1 > 10"
proof -
  let ?t = "snd (hwErrorCount first t)"
  have start: "t_hwErrorCnt ?t = 0" "t_hwErrorDurationInMs ?t = 0" "t_hwErrorOccurTimeInMs ?t = first"
    using assms(1) by (simp_all add: hwErrorCount_def HW_ERROR_INTERVAL_def Let_def)
  have split: "one_run (a # ts @ [now]) \<Longrightarrow> one_run (a # ts) \<and> last (a # ts) \<le> now \<and> now < last (a # ts) + 5000" for a
    by (induction ts arbitrary: a) auto
  let ?v = "after_errors ts ?t"
  have "t_hwErrorCnt ?v = int (length ts)" "t_hwErrorDurationInMs ?v = last (first # ts) - first"
    "t_hwErrorOccurTimeInMs ?v = last (first # ts)"
    using errors_counted [of ?t ts] start split [OF assms(2)] by auto
  moreover have "after_errors (first # ts) t = ?v" by (simp add: after_errors_def)
  ultimately show ?thesis
    using split [OF assms(2)]
    by (simp add: hwErrorCount_def HW_ERROR_INTERVAL_def HW_ERROR_DURATION_MAX_def HW_ERROR_COUNT_MAX_def Let_def) linarith
qed

theorem hw_error_interrupts_witness:
  "fst (hwErrorCount 10400 (after_errors [10000, 10050] (trans_coder :: nat CTransCoder)))
   \<and> \<not> fst (hwErrorCount 10200 (after_errors [10000, 10050] (trans_coder :: nat CTransCoder)))"
  using hw_error_interrupts [of 10000 "trans_coder :: nat CTransCoder" "[10050]" 10400]
    hw_error_interrupts [of 10000 "trans_coder :: nat CTransCoder" "[10050]" 10200]
  by (simp add: trans_coder_def)

end
