(* ===== verification/TransOutput.thy ===== *)
theory TransOutput
  imports TransCoder
begin

text \<open>
  The work of a round of the transcoder, \<open>doOutput\<close>, \<open>decode\<close>, \<open>processInput\<close> and \<open>run\<close> of
  \<open>sources/encoder/shared/CTransCoder.cpp\<close>. What the decoder, the filters, the encoder and the multiplexer answer are
  arguments: the frames a filter hands out, for each frame the packets the encoder makes of it with the multiplexer's
  answer to each, and the negative answer that ends the reading. What reaches the encoder and the multiplexer is kept
  as a list of events. Packets are of any type \<open>'p\<close>, with their size. The statistics that are only printed are left out.
\<close>

section \<open>Answers and events\<close>

definition EIO :: int where "EIO = 5"

definition AVERROR_EXIT :: int where "AVERROR_EXIT = -1414092869"

definition AVERROR_STREAM_NOT_FOUND :: int where "AVERROR_STREAM_NOT_FOUND = -1381258232"

record 'p frame_answers =
  fa_target :: "int \<times> bool"
  fa_open :: int
  fa_send :: int
  fa_add :: int
  fa_pkts :: "('p \<times> int) list"
  fa_end :: int
  fa_mj_open :: int
  fa_mj_send :: int
  fa_mj_pkts :: "('p \<times> int) list"

datatype ('c, 'p) out_event =
    EncWrite int "'c frame_settings option"
  | AddStream int
  | MuxWrite int 'p
  | MuxJpeg 'p

text \<open>
  A filter's answers: its frames, the flush of the encoder, whether its sink is video, its codec, its last error, and
  whether FFmpeg takes the stream information for a new encoder.
\<close>

record 'p filter_answers =
  fl_frames :: "'p frame_answers list"
  fl_flush :: "'p frame_answers"
  fl_video :: bool
  fl_codec_id :: int
  fl_params_ok :: bool
  fl_mj_params_ok :: bool
  fl_last_error :: int

text \<open>What FFmpeg has, and what is constant in a round.\<close>

record 'p trans_env =
  te_dget :: "av_dict \<Rightarrow> string \<Rightarrow> string option"
  te_av :: avcodec
  te_prof :: "ff_profile \<Rightarrow> int"
  te_size :: "'p \<Rightarrow> int"
  te_render_fps :: bool

text \<open>A piece of the work goes on, or makes \<open>doOutput\<close> return; \<open>None\<close> is undefined behaviour or an exception.\<close>

datatype ('x, 'c, 'p) out_step = Go 'x "('c, 'p) out_event list" | Ret_out int "'c CTransCoder" "('c, 'p) out_event list"

section \<open>One frame\<close>

text \<open>The settings that are printed apart, a packet counts for the rate and the size of the last packet.\<close>

definition count_packet :: "bool \<Rightarrow> int \<Rightarrow> 'c CTransCoder \<Rightarrow> 'c CTransCoder" where
  "count_packet render_fps sz t =
     (let t = t\<lparr>t_setDynamicEncode := False\<rparr>
      in if render_fps then t
         else let t = t\<lparr>t_totalFrameSizeInFrameRate := t_totalFrameSizeInFrameRate t + sz\<rparr>
              in if t_frameRate t > 0
                 then let n = t_frameNumInFrameRate t + 1
                      in if of_int n \<ge> t_frameRate t
                         then t\<lparr>t_totalFrameSizeInFrameRate := 0, t_frameNumInFrameRate := 0\<rparr>
                         else t\<lparr>t_frameNumInFrameRate := n\<rparr>
                 else t)"

fun read_packets ::
  "'p trans_env \<Rightarrow> int \<Rightarrow> ('p \<times> int) list \<Rightarrow> CFFEncoder \<Rightarrow> 'c CTransCoder \<Rightarrow> (CFFEncoder \<times> 'c CTransCoder, 'c, 'p) out_step" where
  "read_packets env idx [] e t = Go (e, t) []"
| "read_packets env idx ((p, ret) # ps) e t =
     (let e = snd (encoder_read 0 e);
          t = count_packet (te_render_fps env) (te_size env p) t
      in if ret < 0 then Ret_out ret (t\<lparr>t_encoders := om_put idx (Some e) (t_encoders t)\<rparr>) [MuxWrite idx p]
         else case read_packets env idx ps e (t\<lparr>t_nLastPktSize := te_size env p\<rparr>) of
                Go x ev \<Rightarrow> Go x (MuxWrite idx p # ev)
              | Ret_out r t ev \<Rightarrow> Ret_out r t (MuxWrite idx p # ev))"

fun read_jpegs :: "('p \<times> int) list \<Rightarrow> int option \<times> 'p list" where
  "read_jpegs [] = (None, [])"
| "read_jpegs ((p, ret) # ps) =
     (if ret < 0 then (Some ret, [p]) else case read_jpegs ps of (r, qs) \<Rightarrow> (r, p # qs))"

text \<open>The capture of the screen, at every frame whose number is a multiple of the interval.\<close>

definition capture_due :: "'c CTransCoder \<Rightarrow> bool" where
  "capture_due t \<longleftrightarrow> t_MJPEGEncoder t \<noteq> None \<and> t_screenCaptureInterval t > 0
     \<and> c_mod (t_countScreenCapture t) (t_screenCaptureInterval t) = 0"

definition capture_frame ::
  "'p frame_answers \<Rightarrow> bool \<Rightarrow> 'c CTransCoder \<Rightarrow> ('c CTransCoder, 'c, 'p) out_step" where
  "capture_frame fa frame t =
     (case t_MJPEGEncoder t of
        None \<Rightarrow> Go t []
      | Some mj \<Rightarrow>
          if capture_due t
          then let (ret, mj) = encoder_write (fa_mj_open fa) (fa_mj_send fa) frame mj;
                   t = t\<lparr>t_MJPEGEncoder := Some mj\<rparr>
               in if ret < 0 then Ret_out ret t []
                  else case read_jpegs (fa_mj_pkts fa) of
                         (r, ps) \<Rightarrow>
                           let t = t\<lparr>t_MJPEGEncoder := Some (mj\<lparr>ce_nFrames := ce_nFrames mj + length ps\<rparr>)\<rparr>
                           in (case r of Some k \<Rightarrow> Ret_out k t (map MuxJpeg ps)
                               | None \<Rightarrow> Go (t\<lparr>t_countScreenCapture := 0\<rparr>) (map MuxJpeg ps))
          else Go t [])"

definition count_capture :: "'c CTransCoder \<Rightarrow> 'c CTransCoder" where
  "count_capture t = (if t_screenCaptureFlag t then t\<lparr>t_countScreenCapture := t_countScreenCapture t + 1\<rparr> else t)"

definition allStreamFound :: "'c CTransCoder \<Rightarrow> bool" where
  "allStreamFound t \<longleftrightarrow> list_all snd (t_mStreamFound t)"

text \<open>The packets of a frame, and the capture behind them.\<close>

definition drain_encoder ::
  "'p trans_env \<Rightarrow> int \<Rightarrow> 'p frame_answers \<Rightarrow> bool \<Rightarrow> CFFEncoder \<Rightarrow> 'c CTransCoder \<Rightarrow> (CFFEncoder \<times> 'c CTransCoder, 'c, 'p) out_step" where
  "drain_encoder env idx fa frame e t =
     (case read_packets env idx (fa_pkts fa) e t of
        Ret_out r t ev \<Rightarrow> Ret_out r t ev
      | Go (e, t) ev \<Rightarrow>
          if fa_end fa = - EIO then Ret_out (- EIO) (t\<lparr>t_encoders := om_put idx (Some e) (t_encoders t)\<rparr>) ev
          else case capture_frame fa frame t of
                 Ret_out r t ev' \<Rightarrow> Ret_out r (t\<lparr>t_encoders := om_put idx (Some e) (t_encoders t)\<rparr>) (ev @ ev')
               | Go t ev' \<Rightarrow> Go (e, count_capture t) (ev @ ev'))"

text \<open>The first frame of a stream adds it to the multiplexer. \<open>at\<close> throws for a stream never seen: \<open>None\<close>.\<close>

definition add_stream ::
  "int \<Rightarrow> int \<Rightarrow> 'c CTransCoder \<Rightarrow> ('c CTransCoder, 'c, 'p) out_step option" where
  "add_stream idx ret t = do {
     found \<leftarrow> om_find (t_mStreamFound t) idx;
     Some (if found then Go t []
           else if ret < 0 then Ret_out ret t [AddStream idx]
           else Go (t\<lparr>t_mStreamFound := om_put idx True (t_mStreamFound t)\<rparr>) [AddStream idx]) }"

definition output_frame ::
  "'p trans_env \<Rightarrow> int \<Rightarrow> 'p frame_answers \<Rightarrow> CFFEncoder \<Rightarrow> 'c CTransCoder
     \<Rightarrow> (CFFEncoder \<times> 'c CTransCoder, 'c, 'p) out_step option" where
  "output_frame env idx fa e t = do {
     (fs, e, t) \<leftarrow> dynamicSetEncParameters (fa_target fa) e t;
     (e, t) \<leftarrow> (if t_isFramerateChange t then updateDynamicChangedFramerate e t else Some (e, t));
     let (ret, e) = encoder_write (fa_open fa) (fa_send fa) True e;
     let wr = EncWrite idx (Some fs);
     if ret < 0 then Some (Ret_out ret (t\<lparr>t_encoders := om_put idx (Some e) (t_encoders t)\<rparr>) [wr])
     else do {
       added \<leftarrow> add_stream idx (fa_add fa) t;
       case added of
         Ret_out r t ev \<Rightarrow> Some (Ret_out r (t\<lparr>t_encoders := om_put idx (Some e) (t_encoders t)\<rparr>) (wr # ev))
       | Go t ev \<Rightarrow>
           if \<not> allStreamFound t then Some (Go (e, t) (wr # ev))
           else Some (case drain_encoder env idx fa True e t of
                        Ret_out r t ev' \<Rightarrow> Ret_out r t (wr # ev @ ev')
                      | Go x ev' \<Rightarrow> Go x (wr # ev @ ev')) } }"

fun output_frames ::
  "'p trans_env \<Rightarrow> int \<Rightarrow> 'p frame_answers list \<Rightarrow> CFFEncoder \<Rightarrow> 'c CTransCoder
     \<Rightarrow> (CFFEncoder \<times> 'c CTransCoder, 'c, 'p) out_step option" where
  "output_frames env idx [] e t = Some (Go (e, t) [])"
| "output_frames env idx (fa # fas) e t = do {
     r \<leftarrow> output_frame env idx fa e t;
     case r of
       Ret_out k t ev \<Rightarrow> Some (Ret_out k t ev)
     | Go (e, t) ev \<Rightarrow> do {
         r' \<leftarrow> output_frames env idx fas e t;
         Some (case r' of Ret_out k t ev' \<Rightarrow> Ret_out k t (ev @ ev') | Go x ev' \<Rightarrow> Go x (ev @ ev')) } }"

text \<open>At the end the encoder is given a null frame and read once more.\<close>

definition flush_encoder ::
  "'p trans_env \<Rightarrow> int \<Rightarrow> 'p frame_answers \<Rightarrow> CFFEncoder \<Rightarrow> 'c CTransCoder \<Rightarrow> (CFFEncoder \<times> 'c CTransCoder, 'c, 'p) out_step" where
  "flush_encoder env idx fa e t =
     (let e = snd (encoder_write (fa_open fa) (fa_send fa) False e)
      in case drain_encoder env idx fa False e t of
           Ret_out r t ev \<Rightarrow> Ret_out r t (EncWrite idx None # ev)
         | Go x ev \<Rightarrow> Go x (EncWrite idx None # ev))"

section \<open>One filter\<close>

definition restart_encoders :: "'c CTransCoder \<Rightarrow> 'c CTransCoder" where
  "restart_encoders t =
     (if t_isEncHWError t \<or> t_isResolutionChange t \<or> t_isCodecChange t \<or> t_isProfileLevelChange t
      then (erase_encoders t)\<lparr>t_isEncHWError := False, t_isResolutionChange := False, t_isCodecChange := False,
             t_isProfileLevelChange := False\<rparr>
      else t)"

definition video_encoder_name :: "(av_dict \<Rightarrow> string \<Rightarrow> string option) \<Rightarrow> 'c CTransCoder \<Rightarrow> string" where
  "video_encoder_name dget t =
     (let pick = (\<lambda>qsv va. if t_qsvPlugin t then the (getOutOptVal dget ''c'' ''codec'' (Some qsv) t)
                          else if t_vaapiPlugin t then the (getOutOptVal dget ''c'' ''codec'' (Some va) t) else [])
      in if t_nCodecId t = AV_CODEC_ID_H264 \<or> t_nCodecId t = AV_CODEC_ID_NONE then pick ''h264_qsv'' ''h264_vaapi''
         else if t_nCodecId t = AV_CODEC_ID_HEVC then pick ''hevc_qsv'' ''hevc_vaapi''
         else if t_nCodecId t = AV_CODEC_ID_AV1 then pick ''av1_qsv'' ''av1_vaapi''
         else [])"

text \<open>A key that is in the map with a null pointer counts as there: its use is \<open>None\<close>.\<close>

definition make_encoder :: "'p trans_env \<Rightarrow> 'p filter_answers \<Rightarrow> int \<Rightarrow> 'c CTransCoder \<Rightarrow> (CFFEncoder \<times> 'c CTransCoder) option" where
  "make_encoder env fl idx t =
     (case om_find (t_encoders t) idx of
        Some e \<Rightarrow> do { e' \<leftarrow> e; Some (e', t) }
      | None \<Rightarrow> do {
          let nm = (if fl_video fl then video_encoder_name (te_dget env) t
                    else the (getOutOptVal (te_dget env) ''ac'' ''acodec'' (Some ''aac'') t));
          e \<leftarrow> encoder_init (te_dget env) (te_prof env) (fl_params_ok fl) (t_pOutProp t) (new_encoder (te_av env) nm (fl_codec_id fl));
          Some (e, t\<lparr>t_encoders := om_put idx (Some e) (t_encoders t)\<rparr>) })"

definition make_capture :: "'p trans_env \<Rightarrow> 'p filter_answers \<Rightarrow> 'c CTransCoder \<Rightarrow> 'c CTransCoder option" where
  "make_capture env fl t =
     (if t_screenCaptureFlag t \<and> t_MJPEGEncoder t = None \<and> t_screenCaptureInterval t > 0 \<and> fl_video fl
      then do {
        mj \<leftarrow> encoder_init (te_dget env) (te_prof env) (fl_mj_params_ok fl)
               (av_dict_set ''global_quality'' (Some (dec_of_int (t_screenCaptureQuality t))) [])
               (new_encoder_by_id (te_av env) AV_CODEC_ID_MJPEG);
        Some (t\<lparr>t_MJPEGEncoder := Some mj, t_countScreenCapture := 0\<rparr>) }
      else Some t)"

text \<open>
  The filters are erased when the last error of one that has no frame was \<open>EIO\<close>; the loop over them then goes on with
  an iterator that is no longer valid: \<open>None\<close>.
\<close>

definition output_filter ::
  "'p trans_env \<Rightarrow> bool \<Rightarrow> int \<Rightarrow> 'p filter_answers \<Rightarrow> 'c CTransCoder \<Rightarrow> ('c CTransCoder, 'c, 'p) out_step option" where
  "output_filter env flush idx fl t = do {
     (e, t) \<leftarrow> make_encoder env fl idx (restart_encoders t);
     t \<leftarrow> make_capture env fl t;
     r \<leftarrow> output_frames env idx (fl_frames fl) e t;
     case r of
       Ret_out k t ev \<Rightarrow> Some (Ret_out k t ev)
     | Go (e, t) ev \<Rightarrow>
         (case (if flush then flush_encoder env idx (fl_flush fl) e t else Go (e, t) []) of
            Ret_out k t ev' \<Rightarrow> Some (Ret_out k t (ev @ ev'))
          | Go (e, t) ev' \<Rightarrow>
              if fl_frames fl = [] \<and> fl_last_error fl = - EIO then None
              else Some (Go (t\<lparr>t_encoders := om_put idx (Some e) (t_encoders t)\<rparr>) (ev @ ev'))) }"

fun output_filters ::
  "'p trans_env \<Rightarrow> bool \<Rightarrow> (int \<Rightarrow> 'p filter_answers) \<Rightarrow> int list \<Rightarrow> 'c CTransCoder \<Rightarrow> ('c CTransCoder, 'c, 'p) out_step option" where
  "output_filters env flush fls [] t = Some (Go t [])"
| "output_filters env flush fls (idx # idxs) t = do {
     r \<leftarrow> output_filter env flush idx (fls idx) t;
     case r of
       Ret_out k t ev \<Rightarrow> Some (Ret_out k t ev)
     | Go t ev \<Rightarrow> do {
         r' \<leftarrow> output_filters env flush fls idxs t;
         Some (case r' of Ret_out k t ev' \<Rightarrow> Ret_out k t (ev @ ev') | Go x ev' \<Rightarrow> Go x (ev @ ev')) } }"

definition doOutput ::
  "'p trans_env \<Rightarrow> bool \<Rightarrow> (int \<Rightarrow> 'p filter_answers) \<Rightarrow> 'c CTransCoder \<Rightarrow> (int \<times> 'c CTransCoder \<times> ('c, 'p) out_event list) option" where
  "doOutput env flush fls t = do {
     r \<leftarrow> output_filters env flush fls (om_keys (t_filters t)) t;
     Some (case r of Ret_out k t ev \<Rightarrow> (k, t, ev) | Go t ev \<Rightarrow> (0, t, ev)) }"

end
