(* ===== verification/TransRun.thy ===== *)
theory TransRun
  imports TransOutput CallbackMux
begin

text \<open>
  The input side of the transcoder and its rounds, \<open>decode\<close>, \<open>newInputStream\<close>, \<open>processInput\<close> and \<open>run\<close> of
  \<open>sources/encoder/shared/CTransCoder.cpp\<close>. The decoder's frames are represented by what the filter answers to each; a
  frame handed to a filter is represented by the size and the cropping given to it. Surface numbers, time stamps and the
  hardware frame context, which only pass through, are left out. The calls the streamer received are carried out on the
  transcoder before a round.
\<close>

section \<open>Decoding\<close>

record pushed_frame =
  pf_size :: "(int \<times> int) option"
  pf_crop :: "(int \<times> int \<times> int \<times> int) option"

text \<open>
  The answers: whether frames are surfaces, whether the stream is video, the parsing of the frame rate, the format of
  the encoder of a name (negative if there is none; the name may be a null pointer), and the filter's answer to each decoded frame.
\<close>

record dec_answers =
  da_surface :: bool
  da_video :: bool
  da_parse_rate :: "string \<Rightarrow> int"
  da_format :: "string option \<Rightarrow> int"
  da_push :: "int list"

text \<open>The codec's name as \<open>decode\<close> looks it up; the plug-in for VA-API comes first here.\<close>

definition filter_encoder_name :: "(av_dict \<Rightarrow> string \<Rightarrow> string option) \<Rightarrow> 'c CTransCoder \<Rightarrow> string option" where
  "filter_encoder_name dget t =
     (let pick = (\<lambda>va qsv. if t_vaapiPlugin t then getOutOptVal dget ''c'' ''codec'' (Some va) t
                          else if t_qsvPlugin t then getOutOptVal dget ''c'' ''codec'' (Some qsv) t
                          else getOutOptVal dget ''r'' ''framerate'' None t)
      in if t_nCodecId t = AV_CODEC_ID_H264 \<or> t_nCodecId t = AV_CODEC_ID_NONE then pick ''h264_vaapi'' ''h264_qsv''
         else if t_nCodecId t = AV_CODEC_ID_HEVC then pick ''hevc_vaapi'' ''hevc_qsv''
         else if t_nCodecId t = AV_CODEC_ID_AV1 then pick ''av1_vaapi'' ''av1_qsv''
         else getOutOptVal dget ''r'' ''framerate'' None t)"

definition same_orientation :: "int \<times> int \<Rightarrow> crop_info \<Rightarrow> bool" where
  "same_orientation wh c \<longleftrightarrow> (fst wh < snd wh) = (client_rect_right c < client_rect_bottom c) \<and> client_rect_right c > 0"

definition crop_for :: "int \<times> int \<Rightarrow> crop_info \<Rightarrow> (int \<times> int \<times> int \<times> int) option" where
  "crop_for wh c =
     (if same_orientation wh c
        \<and> crop_top c \<ge> 0 \<and> crop_bottom c \<ge> 0 \<and> crop_left c \<ge> 0 \<and> crop_right c \<ge> 0
        \<and> crop_top c < fb_rect_bottom c \<and> crop_bottom c < fb_rect_bottom c
        \<and> crop_left c < fb_rect_right c \<and> crop_right c < fb_rect_right c
      then Some (crop_top c, crop_bottom c, crop_left c, crop_right c) else None)"

definition pushed :: "dec_answers \<Rightarrow> int \<times> int \<Rightarrow> 'c CTransCoder \<Rightarrow> pushed_frame" where
  "pushed da wh t = \<lparr>pf_size = (if da_surface da \<and> t_buffer_width t > 0 \<and> t_buffer_height t > 0 \<and> t_isAlphaChannelMode t
                             then Some (t_buffer_width t, t_buffer_height t) else None),
     pf_crop = crop_for wh (t_crop t)\<rparr>"

fun push_frames :: "int list \<Rightarrow> pushed_frame \<Rightarrow> int \<times> pushed_frame list" where
  "push_frames [] f = (0, [])"
| "push_frames (r # rs) f = (if r < 0 then (r, [f]) else case push_frames rs f of (k, fs) \<Rightarrow> (k, f # fs))"

text \<open>The filter for a stream. A result below 0 is an error.\<close>

definition make_filter ::
  "(av_dict \<Rightarrow> string \<Rightarrow> string option) \<Rightarrow> dec_answers \<Rightarrow> int \<Rightarrow> int \<times> int \<Rightarrow> 'c CTransCoder \<Rightarrow> int \<times> 'c CTransCoder" where
  "make_filter dget da idx wh t =
     (let r = (if da_video da
               then let pr = (case getOutOptVal dget ''r'' ''framerate'' None t of None \<Rightarrow> 0 | Some v \<Rightarrow> da_parse_rate da v)
                    in if pr < 0 then pr else if da_format da (filter_encoder_name dget t) < 0 then -1 else 0
               else 0)
      in if r < 0 then (r, t)
         else let (t, wh) = (if t_isResolutionChange t
                             then (t\<lparr>t_decoders := om_put idx (t_newWidth t, t_newHeight t) (t_decoders t)\<rparr>, (t_newWidth t, t_newHeight t))
                             else (t, wh))
              in (0, t\<lparr>t_filters := om_put idx wh (t_filters t)\<rparr>))"

text \<open>\<open>m_mDecoders[strIdx]\<close> of a stream without decoder is a null pointer that is used: \<open>None\<close>.\<close>

definition decode ::
  "(av_dict \<Rightarrow> string \<Rightarrow> string option) \<Rightarrow> dec_answers \<Rightarrow> int \<Rightarrow> 'c CTransCoder \<Rightarrow> (int \<times> 'c CTransCoder \<times> pushed_frame list) option" where
  "decode dget da idx t = do {
     wh \<leftarrow> om_find (t_decoders t) idx;
     let t = (if t_isEncHWError t \<or> t_isResolutionChange t then erase_filters t else t);
     let (r, t) = (if om_find (t_filters t) idx = None then make_filter dget da idx wh t else (0, t));
     if r < 0 then Some (r, t, [])
     else do {
       wh \<leftarrow> om_find (t_decoders t) idx;
       let (k, fs) = push_frames (da_push da) (pushed da wh t);
       Some (k, t, fs) } }"

section \<open>Input\<close>

text \<open>What the demultiplexer knows of a stream: whether it is video or audio, or neither, and its size.\<close>

datatype media_kind = Media_video | Media_audio | Media_other

definition newInputStream :: "media_kind \<Rightarrow> int \<times> int \<Rightarrow> int \<Rightarrow> 'c CTransCoder \<Rightarrow> 'c CTransCoder" where
  "newInputStream kind wh idx t =
     (let t = (if om_find (t_mStreamFound t) idx = None then t\<lparr>t_mStreamFound := om_put idx False (t_mStreamFound t)\<rparr> else t)
      in if om_find (t_mStreamFound t) idx = Some True then t
         else case kind of
                Media_other \<Rightarrow> t\<lparr>t_mStreamFound := om_put idx True (t_mStreamFound t)\<rparr>
              | _ \<Rightarrow> t\<lparr>t_decoders := om_put idx wh (t_decoders t)\<rparr>)"

text \<open>
  A packet read: its stream with kind and size, its display control, and the answers of the decoder. \<open>Read_failed\<close> is
  a negative result; at the end of the input every decoder is flushed, with the answers \<open>das\<close>.
\<close>

datatype 'c input =
    Read_failed int "int \<Rightarrow> dec_answers"
  | Read_packet int media_kind "int \<times> int" "'c option" int dec_answers

fun flush_decoders ::
  "(av_dict \<Rightarrow> string \<Rightarrow> string option) \<Rightarrow> (int \<Rightarrow> dec_answers) \<Rightarrow> int list \<Rightarrow> 'c CTransCoder \<Rightarrow> 'c CTransCoder option" where
  "flush_decoders dget das [] t = Some t"
| "flush_decoders dget das (idx # idxs) t = do { (_, t, _) \<leftarrow> decode dget (das idx) idx t; flush_decoders dget das idxs t }"

text \<open>A change of the cropping may ask for another resolution.\<close>

definition follow_crop :: "int \<times> int \<Rightarrow> 'c CTransCoder \<Rightarrow> 'c CTransCoder" where
  "follow_crop wh t =
     (let c = t_crop t
      in if valid_crop c = 1 \<and> same_orientation wh c
           \<and> (client_rect_right c \<noteq> fb_rect_right c \<and> t_prev_client_right t \<noteq> client_rect_right c
              \<or> client_rect_bottom c \<noteq> fb_rect_bottom c \<and> t_prev_client_bottom t \<noteq> client_rect_bottom c)
         then (snd (changeResolution (client_rect_right c) (client_rect_bottom c) t))
                \<lparr>t_prev_client_bottom := client_rect_bottom c, t_prev_client_right := client_rect_right c\<rparr>
         else t)"

fun processInput ::
  "(av_dict \<Rightarrow> string \<Rightarrow> string option) \<Rightarrow> 'c input \<Rightarrow> 'c CTransCoder \<Rightarrow> (int \<times> 'c CTransCoder \<times> pushed_frame list) option" where
  "processInput dget (Read_failed r das) t =
     (if r = AVERROR_EOF
      then do { t \<leftarrow> flush_decoders dget das (om_keys (t_decoders t)) t; Some (r, t, []) }
      else Some (r, t, []))"
| "processInput dget (Read_packet idx kind wh ctrl dec_ret da) t =
     (let t = (if om_find (t_mStreamFound t) idx = None then newInputStream kind wh idx t else t)
      in case om_find (t_decoders t) idx of
           None \<Rightarrow> Some (0, t, [])
         | Some dwh \<Rightarrow>
             let t = follow_crop dwh t
             in if dec_ret < 0 then Some (dec_ret, t, [])
                else do {
                  (r, t, fs) \<leftarrow> decode dget da idx t;
                  Some (r, if r < 0 then t
                           else case ctrl of None \<Rightarrow> t | Some c \<Rightarrow> t\<lparr>t_DispCtrlQueue := t_DispCtrlQueue t @ [c]\<rparr>, fs) })"

section \<open>A round\<close>

text \<open>Whether the round goes on. The flag is read before the messages of the clients.\<close>

definition run_gate :: "mux_env \<Rightarrow> poll_answers \<Rightarrow> poll_answers \<Rightarrow> CCallbackMux \<Rightarrow> bool mux_step" where
  "run_gate env a a2 mux w =
     (case ir_streamer (ew_irrv w) of
        None \<Rightarrow> None
      | Some s \<Rightarrow>
          let clientNum = m_nClientNum s;
              allow = m_bAllowEncode s \<or> set_to_1 (me_enable env)
          in if set_to_1 (me_unlimit env) then mret True w
             else if clientNum \<le> 0 \<or> \<not> allow
             then mbind (checkNewConn env a a2 mux) (\<lambda>n. mret (n > 0 \<and> allow)) w
             else mret True w)"

definition stop_capture :: "'c CTransCoder \<Rightarrow> 'c CTransCoder" where
  "stop_capture t =
     (if \<not> t_screenCaptureFlag t \<and> t_MJPEGEncoder t \<noteq> None
      then t\<lparr>t_MJPEGEncoder := None, t_countScreenCapture := 0, t_screenCaptureInterval := 0\<rparr> else t)"

text \<open>
  What a round that goes on does; the last component of the result says whether the process is interrupted. At the end
  of the input the encoders are flushed; another error of the input makes the transcoder stop.
\<close>

definition run_round ::
  "'p trans_env \<Rightarrow> int \<Rightarrow> 'c input \<Rightarrow> (int \<Rightarrow> 'p filter_answers) \<Rightarrow> 'c CTransCoder
     \<Rightarrow> ('c CTransCoder \<times> ('c, 'p) out_event list \<times> bool) option" where
  "run_round env now inp fls t = do {
     (ret, t, _) \<leftarrow> processInput (te_dget env) inp (stop_capture t);
     if ret < 0
     then if ret = AVERROR_STREAM_NOT_FOUND then Some (t, [], False)
          else do {
            (t, ev) \<leftarrow> (if ret = AVERROR_EOF then do { (_, t, ev) \<leftarrow> doOutput env True fls t; Some (t, ev) } else Some (t, []));
            Some (t\<lparr>t_stop := True\<rparr>, ev, False) }
     else do {
       (ret, t, ev) \<leftarrow> doOutput env False fls t;
       Some (if ret = AVERROR_EXIT \<or> ret = - EIO
             then let (kill, t) = hwErrorCount now (t\<lparr>t_isEncHWError := True\<rparr>) in (t, ev, kill)
             else (t, ev, False)) } }"

end
