(* ===== verification/TransRunProps.thy ===== *)
theory TransRunProps
  imports TransRun "HOL-Library.Sublist"
begin

text \<open>
  What a round of the transcoder does with packets, screen captures and changes of resolution. The locale
  \<open>drain_keeps\<close> has as its parameter a view of the transcoder that taking packets from the encoder does not change;
  \<open>out_keeps\<close> extends it to the whole output.
\<close>

section \<open>Views the output keeps\<close>

fun out_state :: "('e \<times> 'c CTransCoder, 'c, 'p) out_step \<Rightarrow> 'c CTransCoder" where
  "out_state (Go (e, t) ev) = t"
| "out_state (Ret_out r t ev) = t"

fun out_state1 :: "('c CTransCoder, 'c, 'p) out_step \<Rightarrow> 'c CTransCoder" where
  "out_state1 (Go t ev) = t"
| "out_state1 (Ret_out r t ev) = t"

fun out_events :: "('x, 'c, 'p) out_step \<Rightarrow> ('c, 'p) out_event list" where
  "out_events (Go x ev) = ev"
| "out_events (Ret_out r t ev) = ev"

text \<open>The ways a frame can go.\<close>

lemma output_frame_cases:
  assumes "output_frame (env :: 'p trans_env) idx fa e (t :: 'c CTransCoder) = Some r"
  obtains fs e1 t1 e2 t2 ret e3 where "dynamicSetEncParameters (fa_target fa) e t = Some (fs, e1, t1)"
    "(if t_isFramerateChange t1 then updateDynamicChangedFramerate e1 t1 else Some (e1, t1)) = Some (e2, t2)"
    "encoder_write (fa_open fa) (fa_send fa) True e2 = (ret, e3)" "ret < 0"
    "r = Ret_out ret (t2\<lparr>t_encoders := om_put idx (Some e3) (t_encoders t2)\<rparr>) [EncWrite idx (Some fs)]"
  | fs e1 t1 e2 t2 ret e3 k t3 ev where "dynamicSetEncParameters (fa_target fa) e t = Some (fs, e1, t1)"
    "(if t_isFramerateChange t1 then updateDynamicChangedFramerate e1 t1 else Some (e1, t1)) = Some (e2, t2)"
    "encoder_write (fa_open fa) (fa_send fa) True e2 = (ret, e3)" "add_stream idx (fa_add fa) t2 = Some (Ret_out k t3 ev)"
    "r = Ret_out k (t3\<lparr>t_encoders := om_put idx (Some e3) (t_encoders t3)\<rparr>) (EncWrite idx (Some fs) # ev)"
  | fs e1 t1 e2 t2 ret e3 t3 ev where "dynamicSetEncParameters (fa_target fa) e t = Some (fs, e1, t1)"
    "(if t_isFramerateChange t1 then updateDynamicChangedFramerate e1 t1 else Some (e1, t1)) = Some (e2, t2)"
    "encoder_write (fa_open fa) (fa_send fa) True e2 = (ret, e3)" "add_stream idx (fa_add fa) t2 = Some (Go t3 ev)"
    "\<not> allStreamFound t3" "r = Go (e3, t3) (EncWrite idx (Some fs) # ev)"
  | fs e1 t1 e2 t2 ret e3 t3 ev where "dynamicSetEncParameters (fa_target fa) e t = Some (fs, e1, t1)"
    "(if t_isFramerateChange t1 then updateDynamicChangedFramerate e1 t1 else Some (e1, t1)) = Some (e2, t2)"
    "encoder_write (fa_open fa) (fa_send fa) True e2 = (ret, e3)" "add_stream idx (fa_add fa) t2 = Some (Go t3 ev)"
    "allStreamFound t3" "r = (case drain_encoder env idx fa True e3 t3 of
        Ret_out k u ev' \<Rightarrow> Ret_out k u (EncWrite idx (Some fs) # ev @ ev') | Go x ev' \<Rightarrow> Go x (EncWrite idx (Some fs) # ev @ ev'))"
proof -
  obtain fs e1 t1 where s: "dynamicSetEncParameters (fa_target fa) e t = Some (fs, e1, t1)"
    using assms by (auto simp: output_frame_def split: bind_splits)
  obtain e2 t2 where u: "(if t_isFramerateChange t1 then updateDynamicChangedFramerate e1 t1 else Some (e1, t1)) = Some (e2, t2)"
    using assms s by (cases "if t_isFramerateChange t1 then updateDynamicChangedFramerate e1 t1 else Some (e1, t1)")
      (auto simp: output_frame_def)
  obtain ret e3 where w: "encoder_write (fa_open fa) (fa_send fa) True e2 = (ret, e3)" by fastforce
  show ?thesis
  proof (cases "ret < 0")
    case True
    then show ?thesis using that(1) [OF s u w] assms s u w by (simp add: output_frame_def)
  next
    case False
    then obtain ad :: "('c CTransCoder, 'c, 'p) out_step" where ad: "add_stream idx (fa_add fa) t2 = Some ad"
      using assms s u w by (auto simp: output_frame_def Let_def split: bind_splits)
    show ?thesis
    proof (cases ad)
      case (Ret_out k t3 ev)
      then show ?thesis using that(2) [OF s u w] assms s u w ad False by (simp add: output_frame_def)
    next
      case (Go t3 ev)
      then show ?thesis using that(3,4) [OF s u w] assms s u w ad False
        by (cases "allStreamFound t3") (simp_all add: output_frame_def Let_def)
    qed
  qed
qed

locale drain_keeps =
  fixes V :: "'c CTransCoder \<Rightarrow> 'v"
  assumes V_count: "V (count_packet b n t) = V t"
    and V_last: "V (t\<lparr>t_nLastPktSize := n\<rparr>) = V t"
    and V_encoders: "V (t\<lparr>t_encoders := m\<rparr>) = V t"
    and V_settings: "dynamicSetEncParameters x e t = Some (fs, e', t') \<Longrightarrow> V t' = V t"
    and V_rate: "updateDynamicChangedFramerate e t = Some (e', t') \<Longrightarrow> V t' = V t"
    and V_jpeg: "t_MJPEGEncoder t = Some mj \<Longrightarrow> V (t\<lparr>t_MJPEGEncoder := Some mj'\<rparr>) = V t"
    and V_capture: "V (t\<lparr>t_countScreenCapture := n\<rparr>) = V t"
begin

lemma V_read: "V (out_state (read_packets env idx ps e t)) = V t"
proof (induction ps arbitrary: e t)
  case (Cons a ps)
  obtain p ret where a: "a = (p, ret)" by fastforce
  let ?t = "count_packet (te_render_fps env) (te_size env p) t"
  let ?r = "read_packets env idx ps (snd (encoder_read 0 e)) (?t\<lparr>t_nLastPktSize := te_size env p\<rparr>)"
  have "V (out_state ?r) = V t" using Cons.IH V_count V_last by metis
  then show ?case by (cases ?r) (auto simp: a Let_def V_encoders V_count)
qed simp

lemma V_capture_frame: "V (out_state1 (capture_frame fa frame t)) = V t"
proof (cases "t_MJPEGEncoder t")
  case (Some mj)
  obtain ret mj1 where w: "encoder_write (fa_mj_open fa) (fa_mj_send fa) frame mj = (ret, mj1)" by fastforce
  obtain r ps where r: "read_jpegs (fa_mj_pkts fa) = (r, ps)" by fastforce
  have "V (t\<lparr>t_MJPEGEncoder := Some m2, t_countScreenCapture := 0\<rparr>) = V t" for m2
    using V_capture V_jpeg [OF Some] by metis
  then show ?thesis using V_jpeg [OF Some]
    by (cases r) (simp_all add: capture_frame_def Some w r Let_def)
qed (simp add: capture_frame_def)

lemma V_count_capture: "V (count_capture t) = V t"
  by (simp add: count_capture_def V_capture)

lemma V_drain: "V (out_state (drain_encoder env idx fa frame e t)) = V t"
proof (cases "read_packets env idx (fa_pkts fa) e t")
  case (Ret_out r u ev)
  then show ?thesis using V_read [of env idx "fa_pkts fa" e t] by (simp add: drain_encoder_def)
next
  case (Go x ev)
  obtain e1 u where x: "x = (e1, u)" by fastforce
  have u: "V u = V t" using V_read [of env idx "fa_pkts fa" e t] by (simp add: Go x)
  show ?thesis
    using V_capture_frame [of fa frame u] u
    by (cases "capture_frame fa frame u") (simp_all add: drain_encoder_def Go x V_encoders V_count_capture)
qed

lemma V_flush: "V (out_state (flush_encoder env idx fa e t)) = V t"
  using V_drain [of env idx fa False "snd (encoder_write (fa_open fa) (fa_send fa) False e)" t]
  by (cases "drain_encoder env idx fa False (snd (encoder_write (fa_open fa) (fa_send fa) False e)) t")
     (auto simp: flush_encoder_def)

end

locale out_keeps = drain_keeps V for V :: "'c CTransCoder \<Rightarrow> 'v" +
  assumes V_found: "V (t\<lparr>t_mStreamFound := f\<rparr>) = V t"
begin

lemma V_add: "add_stream idx ret t = Some r \<Longrightarrow> V (out_state1 r) = V t"
  by (auto simp: add_stream_def V_found split: bind_splits if_splits)

lemma V_frame:
  assumes "output_frame env idx fa e t = Some r"
  shows "V (out_state r) = V t"
  using assms
proof (cases rule: output_frame_cases)
  case (1 fs e1 t1 e2 t2 ret e3)
  then show ?thesis using V_settings V_rate by (auto simp: V_encoders split: if_splits)
next
  case (2 fs e1 t1 e2 t2 ret e3 k t3 ev)
  have "V t3 = V t2" using V_add [OF 2(4)] by simp
  then show ?thesis using 2 V_settings V_rate by (auto simp: V_encoders split: if_splits)
next
  case (3 fs e1 t1 e2 t2 ret e3 t3 ev)
  have "V t3 = V t2" using V_add [OF 3(4)] by simp
  then show ?thesis using 3 V_settings V_rate by (auto split: if_splits)
next
  case (4 fs e1 t1 e2 t2 ret e3 t3 ev)
  have "V t3 = V t2" using V_add [OF 4(4)] by simp
  moreover have "V t2 = V t" using 4(1,2) V_settings V_rate by (auto split: if_splits)
  moreover have "V (out_state r) = V (out_state (drain_encoder env idx fa True e3 t3))"
    unfolding 4(6) by (cases "drain_encoder env idx fa True e3 t3") auto
  ultimately show ?thesis by (simp add: V_drain)
qed

lemma V_frames: "output_frames env idx fas e t = Some r \<Longrightarrow> V (out_state r) = V t"
proof (induction fas arbitrary: e t r)
  case (Cons fa fas)
  obtain r1 where r1: "output_frame env idx fa e t = Some r1" using Cons.prems by (auto split: bind_splits)
  show ?case
  proof (cases r1)
    case (Ret_out k u ev)
    then show ?thesis using Cons.prems r1 V_frame [OF r1] by simp
  next
    case (Go x ev)
    obtain e1 u where x: "x = (e1, u)" by fastforce
    obtain r2 where r2: "output_frames env idx fas e1 u = Some r2" using Cons.prems r1 Go x by (auto split: bind_splits)
    have "V (out_state r) = V (out_state r2)" using Cons.prems r1 r2 Go x by (cases r2) auto
    then show ?thesis using Cons.IH [OF r2] V_frame [OF r1] Go x by simp
  qed
qed simp

end

text \<open>The three views used below, with the laws for each.\<close>

definition res_view :: "'c CTransCoder \<Rightarrow> (int, int \<times> int) omap \<times> (int, int \<times> int) omap \<times> bool" where
  "res_view t = (t_filters t, t_decoders t, t_isResolutionChange t)"

definition cap_view :: "'c CTransCoder \<Rightarrow> bool \<times> int \<times> bool" where
  "cap_view t = (t_screenCaptureFlag t, t_screenCaptureInterval t, t_MJPEGEncoder t = None)"

definition all_views :: "'c CTransCoder \<Rightarrow> _" where
  "all_views t = (t_mStreamFound t, res_view t, cap_view t)"

lemmas view_defs = all_views_def res_view_def cap_view_def

lemma views_settings:
  assumes "dynamicSetEncParameters x e t = Some (fs, e', t')"
  shows "all_views t' = all_views t"
proof -
  obtain pict t1 where 1: "apply_pict_type t = (pict, t1)" by fastforce
  obtain e2 t2 where 2: "apply_tcae x e t1 = Some (e2, t2)" using assms 1 by (auto simp: dynamicSetEncParameters_def split: bind_splits)
  obtain e3 t3 where 3: "apply_rates e2 t2 = (e3, t3)" by fastforce
  obtain sei t4 where 4: "apply_display_control t3 = (sei, t4)" by fastforce
  have "t' = t4\<lparr>t_setSEI := False\<rparr>" using assms 1 2 3 4 by (simp add: dynamicSetEncParameters_def)
  moreover have "all_views t1 = all_views t" using 1 by (auto simp: apply_pict_type_def view_defs split: if_splits)
  moreover have "all_views t2 = all_views t1"
    using 2 by (auto simp: apply_tcae_def view_defs setBitrate_def setMaxBitrate_def split: if_splits bind_splits)
  moreover have "all_views t3 = all_views t2"
    using 3 by (auto simp: apply_rates_def view_defs Let_def split: if_splits)
  moreover have "all_views t4 = all_views t3"
    using 4 by (auto simp: apply_display_control_def view_defs split: list.splits)
  ultimately show ?thesis by (simp add: view_defs)
qed

lemma views_rate: "updateDynamicChangedFramerate e t = Some (e', t') \<Longrightarrow> all_views t' = all_views t"
  by (auto simp: updateDynamicChangedFramerate_def view_defs split: bind_splits)

lemma views_count: "all_views (count_packet b n t) = all_views t"
  by (simp add: count_packet_def view_defs Let_def)

interpretation fnd: drain_keeps t_mStreamFound
proof unfold_locales
  show "t_mStreamFound (count_packet b n t) = t_mStreamFound t" for b n and t :: "'a CTransCoder"
    using views_count [of b n t] by (simp add: all_views_def)
  show "dynamicSetEncParameters x e t = Some (fs, e', t') \<Longrightarrow> t_mStreamFound t' = t_mStreamFound t"
    for x e fs e' and t t' :: "'a CTransCoder" using views_settings [of x e t fs e' t'] by (simp add: all_views_def)
  show "updateDynamicChangedFramerate e t = Some (e', t') \<Longrightarrow> t_mStreamFound t' = t_mStreamFound t"
    for e e' and t t' :: "'a CTransCoder" using views_rate [of e t e' t'] by (simp add: all_views_def)
qed simp_all

interpretation res: out_keeps res_view
proof unfold_locales
  show "res_view (count_packet b n t) = res_view t" for b n and t :: "'a CTransCoder"
    using views_count [of b n t] by (simp add: all_views_def)
  show "dynamicSetEncParameters x e t = Some (fs, e', t') \<Longrightarrow> res_view t' = res_view t"
    for x e fs e' and t t' :: "'a CTransCoder" using views_settings [of x e t fs e' t'] by (simp add: all_views_def)
  show "updateDynamicChangedFramerate e t = Some (e', t') \<Longrightarrow> res_view t' = res_view t"
    for e e' and t t' :: "'a CTransCoder" using views_rate [of e t e' t'] by (simp add: all_views_def)
qed (simp_all add: res_view_def)

interpretation cap: out_keeps cap_view
proof unfold_locales
  show "cap_view (count_packet b n t) = cap_view t" for b n and t :: "'a CTransCoder"
    using views_count [of b n t] by (simp add: all_views_def)
  show "dynamicSetEncParameters x e t = Some (fs, e', t') \<Longrightarrow> cap_view t' = cap_view t"
    for x e fs e' and t t' :: "'a CTransCoder" using views_settings [of x e t fs e' t'] by (simp add: all_views_def)
  show "updateDynamicChangedFramerate e t = Some (e', t') \<Longrightarrow> cap_view t' = cap_view t"
    for e e' and t t' :: "'a CTransCoder" using views_rate [of e t e' t'] by (simp add: all_views_def)
qed (simp_all add: cap_view_def)

section \<open>Packets in order\<close>

definition written :: "('c, 'p) out_event list \<Rightarrow> 'p list" where
  "written ev = List.map_filter (\<lambda>e. case e of MuxWrite i p \<Rightarrow> Some p | _ \<Rightarrow> None) ev"

lemma written_simps [simp]:
  "written [] = []" "written (EncWrite i f # ev) = written ev" "written (AddStream i # ev) = written ev"
  "written (MuxWrite i p # ev) = p # written ev" "written (MuxJpeg p # ev) = written ev"
  "written (ev @ ev') = written ev @ written ev'" "written (map MuxJpeg ps) = []"
  by (auto simp: written_def map_filter_simps map_filter_def comp_def)

fun is_go :: "('x, 'c, 'p) out_step \<Rightarrow> bool" where
  "is_go (Go x ev) = True"
| "is_go (Ret_out r t ev) = False"

lemma read_packets_written:
  "prefix (written (out_events (read_packets env idx ps e t))) (map fst ps)
   \<and> (is_go (read_packets env idx ps e t) \<longrightarrow> written (out_events (read_packets env idx ps e t)) = map fst ps)"
proof (induction ps arbitrary: e t)
  case (Cons a ps)
  obtain p ret where a: "a = (p, ret)" by fastforce
  let ?r = "read_packets env idx ps (snd (encoder_read 0 e))
    ((count_packet (te_render_fps env) (te_size env p) t)\<lparr>t_nLastPktSize := te_size env p\<rparr>)"
  show ?case using Cons.IH [of "snd (encoder_read 0 e)" "(count_packet (te_render_fps env) (te_size env p) t)\<lparr>t_nLastPktSize := te_size env p\<rparr>"]
    by (cases ?r) (auto simp: a Let_def)
qed simp

lemma capture_written: "written (out_events (capture_frame fa frame t)) = []"
  by (auto simp: capture_frame_def Let_def split: option.splits prod.splits)

lemma drain_written:
  "prefix (written (out_events (drain_encoder env idx fa frame e t))) (map fst (fa_pkts fa))
   \<and> (is_go (drain_encoder env idx fa frame e t) \<longrightarrow>
        written (out_events (drain_encoder env idx fa frame e t)) = map fst (fa_pkts fa))"
proof (cases "read_packets env idx (fa_pkts fa) e t")
  case (Ret_out r u ev)
  then show ?thesis using read_packets_written [of env idx "fa_pkts fa" e t] by (simp add: drain_encoder_def)
next
  case (Go x ev)
  obtain e1 u where x: "x = (e1, u)" by fastforce
  show ?thesis using read_packets_written [of env idx "fa_pkts fa" e t] capture_written [of fa frame u]
    by (cases "capture_frame fa frame u") (auto simp: drain_encoder_def Go x)
qed

text \<open>With the one stream of the server, the stream is found as soon as a frame of it got into the encoder.\<close>

definition one_stream :: "int \<Rightarrow> 'c CTransCoder \<Rightarrow> bool" where
  "one_stream idx t \<longleftrightarrow> map fst (t_mStreamFound t) = [idx]"

lemma one_stream_add:
  assumes "add_stream idx ret t = Some (Go t' ev)" "one_stream idx t"
  shows "one_stream idx t' \<and> allStreamFound t' \<and> written ev = []"
proof -
  obtain b where "t_mStreamFound t = [(idx, b)]" using assms(2) by (cases "t_mStreamFound t") (auto simp: one_stream_def)
  with assms show ?thesis
    by (auto simp: add_stream_def one_stream_def allStreamFound_def om_find_def split: if_splits)
qed

lemma one_stream_frame:
  assumes "output_frame env idx fa e t = Some r" "one_stream idx t"
  shows "prefix (written (out_events r)) (map fst (fa_pkts fa))
    \<and> (is_go r \<longrightarrow> written (out_events r) = map fst (fa_pkts fa) \<and> one_stream idx (out_state r))"
  using assms(1)
proof (cases rule: output_frame_cases)
  case (1 fs e1 t1 e2 t2 ret e3)
  then show ?thesis by simp
next
  case (2 fs e1 t1 e2 t2 ret e3 k t3 ev)
  then have "written ev = []" by (auto simp: add_stream_def split: bind_splits if_splits)
  with 2 show ?thesis by simp
next
  case (3 fs e1 t1 e2 t2 ret e3 t3 ev)
  have "t_mStreamFound t2 = t_mStreamFound t"
    using fnd.V_settings [OF 3(1)] fnd.V_rate [of e1 t1 e2 t2] 3(2) by (auto split: if_splits)
  then have "one_stream idx t2" using assms(2) by (simp add: one_stream_def)
  with one_stream_add 3(4,5) show ?thesis by blast
next
  case (4 fs e1 t1 e2 t2 ret e3 t3 ev)
  have "t_mStreamFound t2 = t_mStreamFound t"
    using fnd.V_settings [OF 4(1)] fnd.V_rate [of e1 t1 e2 t2] 4(2) by (auto split: if_splits)
  then have "one_stream idx t2" using assms(2) by (simp add: one_stream_def)
  then have t3: "one_stream idx t3" "written ev = []" using one_stream_add [OF 4(4)] by auto
  show ?thesis
    using drain_written [of env idx fa True e3 t3] fnd.V_drain [of env idx fa True e3 t3] t3
    by (cases "drain_encoder env idx fa True e3 t3") (auto simp: 4(6) one_stream_def)
qed

lemma one_stream_frames:
  "output_frames env idx fas e t = Some r \<Longrightarrow> one_stream idx t \<Longrightarrow>
   prefix (written (out_events r)) (concat (map (map fst \<circ> fa_pkts) fas))
   \<and> (is_go r \<longrightarrow> written (out_events r) = concat (map (map fst \<circ> fa_pkts) fas) \<and> one_stream idx (out_state r))"
proof (induction fas arbitrary: e t r)
  case (Cons fa fas)
  obtain r1 where r1: "output_frame env idx fa e t = Some r1" using Cons.prems by (auto split: bind_splits)
  note f = one_stream_frame [OF r1 Cons.prems(2)]
  show ?case
  proof (cases r1)
    case (Ret_out k u ev)
    then show ?thesis using Cons.prems r1 f by (auto intro: prefix_prefix)
  next
    case (Go x ev)
    obtain e1 u where x: "x = (e1, u)" by fastforce
    obtain r2 where r2: "output_frames env idx fas e1 u = Some r2" using Cons.prems r1 Go x by (auto split: bind_splits)
    have "one_stream idx u" using f Go x by simp
    note g = Cons.IH [OF r2 this]
    show ?thesis using Cons.prems r1 r2 Go x f g by (cases r2) auto
  qed
qed simp

text \<open>Where the output returns early it returns an error.\<close>

fun fails :: "('x, 'c, 'p) out_step \<Rightarrow> bool" where
  "fails (Go x ev) = True"
| "fails (Ret_out r t ev) = (r < 0)"

lemma fails_read: "fails (read_packets env idx ps e t)"
  by (induction env idx ps e t rule: read_packets.induct) (auto simp: Let_def split: out_step.splits)

lemma read_jpegs_results: "read_jpegs ps = (Some r, qs) \<Longrightarrow> r < 0" "read_jpegs ps = (None, qs) \<Longrightarrow> qs = map fst ps"
  by (induction ps arbitrary: qs) (auto split: if_splits prod.splits)

lemma fails_capture: "fails (capture_frame fa frame t)"
  by (auto simp: capture_frame_def Let_def dest: read_jpegs_results(1) split: option.splits prod.splits)

lemma fails_drain: "fails (drain_encoder env idx fa frame e t)"
proof (cases "read_packets env idx (fa_pkts fa) e t")
  case (Ret_out r u ev)
  then show ?thesis using fails_read [of env idx "fa_pkts fa" e t] by (simp add: drain_encoder_def)
next
  case (Go x ev)
  obtain e1 u where x: "x = (e1, u)" by fastforce
  show ?thesis using fails_capture [of fa frame u]
    by (cases "capture_frame fa frame u") (auto simp: drain_encoder_def Go x EIO_def)
qed

lemma fails_frame:
  assumes "output_frame env idx fa e t = Some r"
  shows "fails r"
  using assms
proof (cases rule: output_frame_cases)
  case (2 fs e1 t1 e2 t2 ret e3 k t3 ev)
  then have "k < 0" by (auto simp: add_stream_def split: bind_splits if_splits)
  with 2 show ?thesis by simp
next
  case (4 fs e1 t1 e2 t2 ret e3 t3 ev)
  show ?thesis using fails_drain [of env idx fa True e3 t3] by (cases "drain_encoder env idx fa True e3 t3") (simp_all add: 4(6))
qed simp_all

lemma fails_frames: "output_frames env idx fas e t = Some r \<Longrightarrow> fails r"
proof (induction fas arbitrary: e t r)
  case (Cons fa fas)
  obtain r1 where r1: "output_frame env idx fa e t = Some r1" using Cons.prems by (auto split: bind_splits)
  show ?case
  proof (cases r1)
    case (Ret_out k u ev)
    then show ?thesis using Cons.prems r1 fails_frame [OF r1] by simp
  next
    case (Go x ev)
    obtain e1 u where x: "x = (e1, u)" by fastforce
    obtain r2 where r2: "output_frames env idx fas e1 u = Some r2" using Cons.prems r1 Go x by (auto split: bind_splits)
    show ?thesis using Cons.prems r1 r2 Go x Cons.IH [OF r2] by (cases r2) auto
  qed
qed simp

lemma flush_cases:
  "fails (flush_encoder env idx fa e t) \<and> prefix (written (out_events (flush_encoder env idx fa e t))) (map fst (fa_pkts fa))
   \<and> (is_go (flush_encoder env idx fa e t) \<longrightarrow> written (out_events (flush_encoder env idx fa e t)) = map fst (fa_pkts fa))"
  using fails_drain [of env idx fa False "snd (encoder_write (fa_open fa) (fa_send fa) False e)" t]
    drain_written [of env idx fa False "snd (encoder_write (fa_open fa) (fa_send fa) False e)" t]
  by (cases "drain_encoder env idx fa False (snd (encoder_write (fa_open fa) (fa_send fa) False e)) t")
     (auto simp: flush_encoder_def)

lemma found_kept_start:
  "t_mStreamFound (restart_encoders t) = t_mStreamFound t"
  "make_encoder env fl idx t = Some (e, t') \<Longrightarrow> t_mStreamFound t' = t_mStreamFound t"
  "make_capture env fl t = Some t' \<Longrightarrow> t_mStreamFound t' = t_mStreamFound t"
  by (auto simp: restart_encoders_def erase_encoders_def make_encoder_def make_capture_def
      split: option.splits bind_splits if_splits)

definition encoded :: "bool \<Rightarrow> 'p filter_answers \<Rightarrow> 'p list" where
  "encoded flush fl = concat (map (map fst \<circ> fa_pkts) (fl_frames fl @ (if flush then [fl_flush fl] else [])))"

lemma output_filter_written:
  assumes "output_filter env flush idx fl t = Some r" "one_stream idx t"
  shows "fails r \<and> prefix (written (out_events r)) (encoded flush fl) \<and> (is_go r \<longrightarrow> written (out_events r) = encoded flush fl)"
proof -
  obtain e t1 where 1: "make_encoder env fl idx (restart_encoders t) = Some (e, t1)"
    using assms(1) by (auto simp: output_filter_def split: bind_splits)
  obtain t2 where 2: "make_capture env fl t1 = Some t2" using assms(1) 1 by (auto simp: output_filter_def split: bind_splits)
  obtain r1 where 3: "output_frames env idx (fl_frames fl) e t2 = Some r1"
    using assms(1) 1 2 by (auto simp: output_filter_def split: bind_splits)
  have "one_stream idx t2"
    using assms(2) found_kept_start(1) [of t] found_kept_start(2) [OF 1] found_kept_start(3) [OF 2] by (simp add: one_stream_def)
  note f = one_stream_frames [OF 3 this] fails_frames [OF 3]
  show ?thesis
  proof (cases r1)
    case (Ret_out k u ev)
    then show ?thesis using assms(1) 1 2 3 f by (auto simp: output_filter_def encoded_def intro: prefix_prefix)
  next
    case (Go x ev)
    obtain e3 u where x: "x = (e3, u)" by fastforce
    show ?thesis
    proof (cases flush)
      case False
      then show ?thesis using assms(1) 1 2 3 f Go x by (auto simp: output_filter_def encoded_def split: if_splits)
    next
      case True
      then show ?thesis using assms(1) 1 2 3 f Go x flush_cases [of env idx "fl_flush fl" e3 u]
        by (cases "flush_encoder env idx (fl_flush fl) e3 u") (auto simp: output_filter_def encoded_def split: if_splits)
    qed
  qed
qed

text \<open>
  C14. With the one stream of the server, the packets handed to the multiplexer in a round are the packets the encoder made
  of the round's frames, in order and none twice; they are all of them unless the round ends with an error, and then
  the ones before it.
\<close>

theorem packets_muxed_in_order:
  assumes "om_keys (t_filters t) = [idx]" "one_stream idx t" "doOutput env flush fls t = Some (ret, t', ev)"
  shows "prefix (written ev) (encoded flush (fls idx)) \<and> (ret = 0 \<longrightarrow> written ev = encoded flush (fls idx)) \<and> ret \<le> 0"
proof -
  obtain r where r: "output_filter env flush idx (fls idx) t = Some r"
    using assms(1,3) by (auto simp: doOutput_def split: bind_splits)
  have "doOutput env flush fls t = Some (case r of Ret_out k u ev \<Rightarrow> (k, u, ev) | Go u ev \<Rightarrow> (0, u, ev))"
    using assms(1) r by (cases r) (simp_all add: doOutput_def)
  with assms(3) output_filter_written [OF r assms(2)] show ?thesis by (cases r) auto
qed

section \<open>Screen captures\<close>

definition jpegs :: "('c, 'p) out_event list \<Rightarrow> 'p list" where
  "jpegs ev = List.map_filter (\<lambda>e. case e of MuxJpeg p \<Rightarrow> Some p | _ \<Rightarrow> None) ev"

lemma jpegs_simps [simp]:
  "jpegs [] = []" "jpegs (EncWrite i f # ev) = jpegs ev" "jpegs (AddStream i # ev) = jpegs ev"
  "jpegs (MuxWrite i p # ev) = jpegs ev" "jpegs (MuxJpeg p # ev) = p # jpegs ev"
  "jpegs (ev @ ev') = jpegs ev @ jpegs ev'" "jpegs (map MuxJpeg ps) = ps"
  "jpegs (map (MuxJpeg \<circ> g) xs) = map g xs"
  by (auto simp: jpegs_def map_filter_simps map_filter_def comp_def)

definition capturing :: "int \<Rightarrow> 'c CTransCoder \<Rightarrow> bool" where
  "capturing n t \<longleftrightarrow> 0 < n \<and> cap_view t = (True, n, False) \<and> 0 \<le> t_countScreenCapture t"

lemma jpegs_read:
  "jpegs (out_events (read_packets env idx ps e t)) = []
   \<and> t_countScreenCapture (out_state (read_packets env idx ps e t)) = t_countScreenCapture t"
proof (induction ps arbitrary: e t)
  case (Cons a ps)
  obtain p ret where a: "a = (p, ret)" by fastforce
  let ?t = "count_packet (te_render_fps env) (te_size env p) t"
  have "t_countScreenCapture ?t = t_countScreenCapture t" by (simp add: count_packet_def Let_def)
  then show ?case using Cons.IH [of "snd (encoder_read 0 e)" "?t\<lparr>t_nLastPktSize := te_size env p\<rparr>"]
    by (cases "read_packets env idx ps (snd (encoder_read 0 e)) (?t\<lparr>t_nLastPktSize := te_size env p\<rparr>)")
       (auto simp: a Let_def)
qed simp

lemma capture_step:
  assumes "capture_frame fa frame t = Go u ev" "capturing n t"
  shows "jpegs ev = (if t_countScreenCapture t mod n = 0 then map fst (fa_mj_pkts fa) else [])
    \<and> t_countScreenCapture u = (if t_countScreenCapture t mod n = 0 then 0 else t_countScreenCapture t)"
proof -
  obtain mj where mj: "t_MJPEGEncoder t = Some mj" using assms(2) by (cases "t_MJPEGEncoder t") (auto simp: capturing_def cap_view_def)
  have due: "capture_due t \<longleftrightarrow> t_countScreenCapture t mod n = 0"
    using assms(2) mj by (auto simp: capturing_def cap_view_def capture_due_def c_mod_nonneg)
  obtain ret mj1 where w: "encoder_write (fa_mj_open fa) (fa_mj_send fa) frame mj = (ret, mj1)" by fastforce
  obtain r ps where r: "read_jpegs (fa_mj_pkts fa) = (r, ps)" by fastforce
  show ?thesis using assms(1) due read_jpegs_results(2) [of "fa_mj_pkts fa" ps] r
    by (cases r) (auto simp: capture_frame_def mj w Let_def split: if_splits)
qed

lemma drain_captures:
  assumes "drain_encoder env idx fa frame e t = Go (e', u) ev" "capturing n t"
  shows "jpegs ev = (if t_countScreenCapture t mod n = 0 then map fst (fa_mj_pkts fa) else [])
    \<and> capturing n u \<and> t_countScreenCapture u mod n = (t_countScreenCapture t + 1) mod n"
proof -
  obtain e1 t1 ev1 where 1: "read_packets env idx (fa_pkts fa) e t = Go (e1, t1) ev1"
    using assms(1) by (cases "read_packets env idx (fa_pkts fa) e t") (auto simp: drain_encoder_def)
  obtain t2 ev2 where 2: "capture_frame fa frame t1 = Go t2 ev2" "ev = ev1 @ ev2" "u = count_capture t2"
    using assms(1) 1 by (cases "capture_frame fa frame t1") (auto simp: drain_encoder_def split: if_splits)
  have t1: "t_countScreenCapture t1 = t_countScreenCapture t" "jpegs ev1 = []"
    using jpegs_read [of env idx "fa_pkts fa" e t] 1 by simp_all
  have "cap_view t1 = cap_view t" using cap.V_read [of env idx "fa_pkts fa" e t] 1 by simp
  then have c1: "capturing n t1" using assms(2) t1 by (simp add: capturing_def)
  have "cap_view t2 = cap_view t1" using cap.V_capture_frame [of fa frame t1] 2(1) by simp
  then have v: "cap_view t2 = (True, n, False)" using c1 by (simp add: capturing_def)
  note st = capture_step [OF 2(1) c1]
  have u: "u = t2\<lparr>t_countScreenCapture := t_countScreenCapture t2 + 1\<rparr>"
    using v 2(3) by (simp add: count_capture_def cap_view_def)
  have "0 \<le> t_countScreenCapture t2" using st c1 by (auto simp: capturing_def)
  then have "capturing n u" using v c1 by (simp add: u capturing_def cap_view_def)
  moreover have "t_countScreenCapture t2 mod n = t_countScreenCapture t mod n" using st t1 by auto
  then have "t_countScreenCapture u mod n = (t_countScreenCapture t + 1) mod n" by (simp add: u) (metis mod_add_left_eq)
  ultimately show ?thesis using st t1 2(2) by simp
qed

lemma count_kept_settings:
  assumes "dynamicSetEncParameters x e t = Some (fs, e1, t1)"
    and "(if t_isFramerateChange t1 then updateDynamicChangedFramerate e1 t1 else Some (e1, t1)) = Some (e2, t2)"
  shows "t_countScreenCapture t2 = t_countScreenCapture t"
proof -
  have "t_countScreenCapture t1 = t_countScreenCapture t" using assms(1)
    by (auto simp: dynamicSetEncParameters_def apply_pict_type_def apply_tcae_def apply_rates_def apply_display_control_def
        setBitrate_def setMaxBitrate_def Let_def split: list.splits if_splits bind_splits)
  moreover have "t_countScreenCapture t2 = t_countScreenCapture t1" using assms(2)
    by (auto simp: updateDynamicChangedFramerate_def split: if_splits bind_splits)
  ultimately show ?thesis by simp
qed

lemma frame_captures:
  assumes "output_frame env idx fa e t = Some (Go (e', u) ev)" "capturing n t" "one_stream idx t"
  shows "jpegs ev = (if t_countScreenCapture t mod n = 0 then map fst (fa_mj_pkts fa) else [])
    \<and> capturing n u \<and> t_countScreenCapture u mod n = (t_countScreenCapture t + 1) mod n"
  using assms(1)
proof (cases rule: output_frame_cases)
  case (3 fs e1 t1 e2 t2 ret e3 t3 ev)
  have "t_mStreamFound t2 = t_mStreamFound t"
    using fnd.V_settings [OF 3(1)] fnd.V_rate [of e1 t1 e2 t2] 3(2) by (auto split: if_splits)
  then have "one_stream idx t2" using assms(3) by (simp add: one_stream_def)
  with one_stream_add 3(4,5) show ?thesis by blast
next
  case (4 fs e1 t1 e2 t2 ret e3 t3 ev3)
  obtain ev4 where d: "drain_encoder env idx fa True e3 t3 = Go (e', u) ev4" "ev = EncWrite idx (Some fs) # ev3 @ ev4"
    using 4(6) by (cases "drain_encoder env idx fa True e3 t3") auto
  have "cap_view t2 = cap_view t" using cap.V_settings [OF 4(1)] cap.V_rate [of e1 t1 e2 t2] 4(2) by (auto split: if_splits)
  moreover have "cap_view t3 = cap_view t2" using cap.V_add [OF 4(4)] by simp
  moreover have "t_countScreenCapture t3 = t_countScreenCapture t2 \<and> jpegs ev3 = []"
    using 4(4) by (auto simp: add_stream_def split: bind_splits if_splits)
  ultimately have "capturing n t3" "t_countScreenCapture t3 = t_countScreenCapture t" "jpegs ev3 = []"
    using count_kept_settings [OF 4(1,2)] assms(2) by (auto simp: capturing_def)
  then show ?thesis using drain_captures [OF d(1)] d(2) by simp
qed simp_all

text \<open>
  While the screen is captured every \<open>n\<close> frames, the pictures sent are those made of the frames number 0, \<open>n\<close>,
  \<open>2n\<close> and so on, counted from the start of the capture.
\<close>

theorem screen_captured_every_interval:
  assumes "output_frames env idx fas e t = Some (Go (e', t') ev)" "capturing n t" "one_stream idx t"
    and "t_countScreenCapture t = 0"
  shows "jpegs ev = concat (map (\<lambda>(i, fa). if int i mod n = 0 then map fst (fa_mj_pkts fa) else []) (enumerate 0 fas))"
proof -
  have "output_frames env idx fas e t = Some (Go (e', t') ev) \<Longrightarrow> capturing n t \<Longrightarrow> one_stream idx t \<Longrightarrow>
      t_countScreenCapture t mod n = int k mod n \<Longrightarrow>
      jpegs ev = concat (map (\<lambda>(i, fa). if int i mod n = 0 then map fst (fa_mj_pkts fa) else []) (enumerate k fas))"
    for k e t ev
  proof (induction fas arbitrary: k e t ev)
    case (Cons fa fas)
    obtain e1 u ev1 ev2 where 1: "output_frame env idx fa e t = Some (Go (e1, u) ev1)"
      "output_frames env idx fas e1 u = Some (Go (e', t') ev2)" "ev = ev1 @ ev2"
      using Cons.prems(1) by (auto split: bind_splits out_step.splits prod.splits)
    note f = frame_captures [OF 1(1) Cons.prems(2,3)]
    have o: "one_stream idx u" using one_stream_frame [OF 1(1) Cons.prems(3)] by simp
    have "t_countScreenCapture u mod n = int (Suc k) mod n" using f Cons.prems(4) by simp (metis add.commute mod_add_left_eq)
    with Cons.IH [OF 1(2) _ o] f 1(3) Cons.prems(4) show ?case by simp
  qed simp
  from this [of e t ev 0] assms show ?thesis by simp
qed

section \<open>Changes of resolution\<close>

lemma restart_view: "t_isResolutionChange t \<Longrightarrow> res_view (restart_encoders t) = (t_filters t, t_decoders t, False)"
  by (simp add: restart_encoders_def erase_encoders_def res_view_def)

lemma make_encoder_view: "make_encoder env fl idx t = Some (e, t') \<Longrightarrow> res_view t' = res_view t"
  by (auto simp: make_encoder_def res_view_def split: option.splits bind_splits)

lemma make_capture_view: "make_capture env fl t = Some t' \<Longrightarrow> res_view t' = res_view t"
  by (auto simp: make_capture_def res_view_def split: if_splits bind_splits)

lemma output_filter_view:
  assumes "output_filter env flush idx fl t = Some r" "t_isResolutionChange t"
  shows "res_view (out_state1 r) = (t_filters t, t_decoders t, False)"
proof -
  obtain e t1 where 1: "make_encoder env fl idx (restart_encoders t) = Some (e, t1)"
    using assms(1) by (auto simp: output_filter_def split: bind_splits)
  obtain t2 where 2: "make_capture env fl t1 = Some t2" using assms(1) 1 by (auto simp: output_filter_def split: bind_splits)
  obtain r1 where 3: "output_frames env idx (fl_frames fl) e t2 = Some r1"
    using assms(1) 1 2 by (auto simp: output_filter_def split: bind_splits)
  have v: "res_view (out_state r1) = (t_filters t, t_decoders t, False)"
    using res.V_frames [OF 3] make_capture_view [OF 2] make_encoder_view [OF 1] restart_view [OF assms(2)] by simp
  show ?thesis
  proof (cases r1)
    case (Ret_out k u ev)
    then show ?thesis using assms(1) 1 2 3 v by (auto simp: output_filter_def)
  next
    case (Go x ev)
    obtain e3 u where x: "x = (e3, u)" by fastforce
    have fl: "res_view (out_state (flush_encoder env idx (fl_flush fl) e3 u)) = res_view u" by (rule res.V_flush)
    show ?thesis
    proof (cases flush)
      case False
      then show ?thesis using assms(1) 1 2 3 v Go x by (auto simp: output_filter_def res.V_encoders split: if_splits)
    next
      case True
      then show ?thesis using assms(1) 1 2 3 v Go x fl
        by (cases "flush_encoder env idx (fl_flush fl) e3 u") (auto simp: output_filter_def res.V_encoders split: if_splits)
    qed
  qed
qed

lemma decode_new_resolution:
  assumes "decode dget da idx t = Some (r, t', fs)" "0 \<le> r" "t_isResolutionChange t"
  shows "t_filters t' = [(idx, (t_newWidth t, t_newHeight t))] \<and> om_find (t_decoders t') idx = Some (t_newWidth t, t_newHeight t)
    \<and> t_isResolutionChange t' \<and> t_DispCtrlQueue t' = t_DispCtrlQueue t"
proof -
  obtain wh where wh: "om_find (t_decoders t) idx = Some wh" using assms(1) by (auto simp: decode_def split: bind_splits)
  let ?u = "erase_filters t"
  have none: "om_find (t_filters ?u) idx = None" by (simp add: erase_filters_def om_find_def)
  obtain k u where m: "make_filter dget da idx wh ?u = (k, u)" by fastforce
  have "k \<ge> 0" using assms(1,2) wh none m assms(3) by (auto simp: decode_def split: if_splits)
  then have u: "u = ?u\<lparr>t_decoders := om_put idx (t_newWidth t, t_newHeight t) (t_decoders t),
      t_filters := [(idx, (t_newWidth t, t_newHeight t))]\<rparr>"
    using m assms(3) by (auto simp: make_filter_def erase_filters_def Let_def split: if_splits)
  have "t' = u" using assms wh none m \<open>k \<ge> 0\<close>
    by (auto simp: decode_def split: if_splits bind_splits prod.splits)
  moreover have "om_find (om_put idx v m) idx = Some v" for v and m :: "(int, int \<times> int) omap"
    by (induction m) (auto simp: om_find_def)
  ultimately show ?thesis using assms(3) by (simp add: u erase_filters_def)
qed

text \<open>
  C23. A new resolution within the limits takes effect with the next packet: in the round that decodes it the decoder gets the
  new size, the filters of the old size are gone and one is made in the new size, and the request is done with.
\<close>

theorem resolution_change_applied:
  assumes "changeResolution w h t = (0, t1)" "om_find (t_mStreamFound t) idx \<noteq> None" "om_find (t_decoders t) idx = Some dwh"
    and "valid_crop (t_crop t) \<noteq> 1"
    and "processInput dget (Read_packet idx kind wh ctrl dec_ret da) t1 = Some (r, t2, fs)" "0 \<le> r"
    and "doOutput env flush fls t2 = Some (k, t3, ev)"
  shows "t_filters t3 = [(idx, (w, h))] \<and> om_find (t_decoders t3) idx = Some (w, h) \<and> \<not> t_isResolutionChange t3"
proof -
  have t1: "t1 = t\<lparr>t_isResolutionChange := True, t_newWidth := w, t_newHeight := h\<rparr>"
    using assms(1) by (auto simp: changeResolution_def split: if_splits)
  have crop: "follow_crop dwh t1 = t1" using assms(4) by (simp add: follow_crop_def t1 Let_def)
  obtain u fs' where d: "decode dget da idx t1 = Some (r, u, fs')"
    "t2 = (case ctrl of None \<Rightarrow> u | Some c \<Rightarrow> u\<lparr>t_DispCtrlQueue := t_DispCtrlQueue u @ [c]\<rparr>)"
    using assms(2,3,5,6) crop by (auto simp: t1 Let_def split: bind_splits if_splits)
  have "t_isResolutionChange t1" "t_newWidth t1 = w" "t_newHeight t1 = h" by (simp_all add: t1)
  then have u: "t_filters u = [(idx, (w, h))]" "om_find (t_decoders u) idx = Some (w, h)" "t_isResolutionChange u"
    using decode_new_resolution [OF d(1) assms(6)] by simp_all
  then have t2: "t_filters t2 = [(idx, (w, h))]" "om_find (t_decoders t2) idx = Some (w, h)" "t_isResolutionChange t2"
    using d(2) by (auto split: option.splits)
  obtain q where q: "output_filter env flush idx (fls idx) t2 = Some q"
    using assms(7) t2(1) by (auto simp: doOutput_def om_keys_def split: bind_splits)
  have "t3 = out_state1 q" using assms(7) t2(1) q by (cases q) (simp_all add: doOutput_def om_keys_def)
  then show ?thesis using output_filter_view [OF q t2(3)] t2 by (simp add: res_view_def)
qed

section \<open>An error of a filter\<close>

text \<open>
  A filter without a frame whose last error was an input/output error makes the loop over the filters go on from a node
  that was erased: the recovery it was meant to start is undefined behaviour.
\<close>

theorem filter_error_undefined:
  assumes "om_keys (t_filters t) = idx # idxs" "om_find (t_encoders t) idx = Some (Some e)"
    and "\<not> (t_isEncHWError t \<or> t_isResolutionChange t \<or> t_isCodecChange t \<or> t_isProfileLevelChange t)"
    and "\<not> t_screenCaptureFlag t" "fl_frames (fls idx) = []" "fl_last_error (fls idx) = - EIO"
  shows "doOutput env False fls t = None"
  using assms by (simp add: doOutput_def output_filter_def restart_encoders_def make_encoder_def make_capture_def)

section \<open>Examples\<close>

definition sample_env :: "nat trans_env" where
  "sample_env = \<lparr>te_dget = dict_get, te_av = \<lparr>find_encoder_by_name = \<lambda>_. Some AV_CODEC_ID_H264, find_encoder = \<lambda>_. None\<rparr>,
     te_prof = \<lambda>_. 0, te_size = \<lambda>p. 100, te_render_fps = True\<rparr>"

definition sample_frame :: "nat list \<Rightarrow> nat list \<Rightarrow> nat frame_answers" where
  "sample_frame ps js = \<lparr>fa_target = (0, False), fa_open = 0, fa_send = 0, fa_add = 0, fa_pkts = map (\<lambda>p. (p, 0)) ps, fa_end = -11,
     fa_mj_open = 0, fa_mj_send = 0, fa_mj_pkts = map (\<lambda>p. (p, 0)) js\<rparr>"

definition sample_filter :: "nat frame_answers list \<Rightarrow> int \<Rightarrow> nat filter_answers" where
  "sample_filter fas err = \<lparr>fl_frames = fas, fl_flush = sample_frame [] [], fl_video = True, fl_codec_id = 0, fl_params_ok = True,
     fl_mj_params_ok = True, fl_last_error = err\<rparr>"

definition sample_trans :: "nat CTransCoder" where
  "sample_trans = (trans_init 0 AV_CODEC_ID_H264 trans_coder)\<lparr>t_decoders := [(0, (640, 480))], t_filters := [(0, (640, 480))],
     t_mStreamFound := [(0, False)]\<rparr>"

definition sample_answers :: "int \<Rightarrow> nat filter_answers" where
  "sample_answers = (\<lambda>_. sample_filter [sample_frame [1] [10], sample_frame [2, 3] [20], sample_frame [4] [30]] 0)"

definition sample_encoder :: CFFEncoder where
  "sample_encoder = encoder_of (Some (''h264_vaapi'', AV_CODEC_ID_H264)) AV_CODEC_ID_H264"

theorem packets_muxed_in_order_witness:
  "\<exists>t' ev. doOutput sample_env False sample_answers sample_trans = Some (0, t', ev) \<and> written ev = [1, 2, 3, 4]"
proof -
  have "map_option fst (doOutput sample_env False sample_answers sample_trans) = Some 0" by code_simp
  then obtain t' ev where d: "doOutput sample_env False sample_answers sample_trans = Some (0, t', ev)" by auto
  have k: "om_keys (t_filters sample_trans) = [0]" "one_stream 0 sample_trans" "encoded False (sample_answers 0) = [1, 2, 3, 4]"
    by (code_simp, simp add: one_stream_def sample_trans_def, code_simp)
  show ?thesis using packets_muxed_in_order [OF k(1,2) d] k(3) d by simp
qed

definition capture_trans :: "nat CTransCoder" where
  "capture_trans = sample_trans\<lparr>t_screenCaptureFlag := True, t_screenCaptureInterval := 2, t_MJPEGEncoder := Some sample_encoder\<rparr>"

theorem screen_captured_every_interval_witness:
  "\<exists>e' t' ev. output_frames sample_env 0 (fl_frames (sample_answers 0)) sample_encoder capture_trans = Some (Go (e', t') ev)
    \<and> jpegs ev = [10, 30]"
proof -
  have "map_option is_go (output_frames sample_env 0 (fl_frames (sample_answers 0)) sample_encoder capture_trans) = Some True"
    by code_simp
  then obtain r where r: "output_frames sample_env 0 (fl_frames (sample_answers 0)) sample_encoder capture_trans = Some r" "is_go r"
    by auto
  then obtain e' t' ev where g: "r = Go (e', t') ev" by (cases r) auto
  have c: "capturing 2 capture_trans" "one_stream 0 capture_trans" "t_countScreenCapture capture_trans = 0"
    by (simp_all add: capturing_def cap_view_def capture_trans_def sample_trans_def one_stream_def trans_init_def trans_coder_def)
  have "concat (map (\<lambda>(i, fa). if int i mod 2 = 0 then map fst (fa_mj_pkts fa) else []) (enumerate 0 (fl_frames (sample_answers 0)))) = [10, 30]"
    by code_simp
  then show ?thesis using screen_captured_every_interval [OF r(1) [unfolded g] c] r(1) g by simp
qed

definition sample_dec :: dec_answers where
  "sample_dec = \<lparr>da_surface = True, da_video = True, da_parse_rate = \<lambda>_. 0, da_format = \<lambda>_. 0, da_push = [0]\<rparr>"

theorem resolution_change_applied_witness:
  "\<exists>t2 fs t3 ev. processInput dict_get (Read_packet 0 Media_video (640, 480) None 0 sample_dec) (snd (changeResolution 800 600 sample_trans)) = Some (0, t2, fs)
    \<and> doOutput sample_env False sample_answers t2 = Some (0, t3, ev) \<and> t_filters t3 = [(0, (800, 600))]"
proof -
  let ?t1 = "snd (changeResolution 800 600 sample_trans)"
  have 1: "changeResolution 800 600 sample_trans = (0, ?t1)" "om_find (t_mStreamFound sample_trans) 0 \<noteq> None"
    "om_find (t_decoders sample_trans) 0 = Some (640, 480)" "valid_crop (t_crop sample_trans) \<noteq> 1"
    by (simp_all add: changeResolution_def RESOLUTION_MIN_def RESOLUTION_MAX_def sample_trans_def om_find_def trans_init_def
        trans_coder_def no_crop_def)
  have "map_option fst (processInput dict_get (Read_packet 0 Media_video (640, 480) None 0 sample_dec) ?t1) = Some 0"
    "map_option fst (Option.bind (processInput dict_get (Read_packet 0 Media_video (640, 480) None 0 sample_dec) ?t1)
      (\<lambda>(r, t2, fs). doOutput sample_env False sample_answers t2)) = Some 0"
    by code_simp+
  then obtain t2 fs t3 ev where 2: "processInput dict_get (Read_packet 0 Media_video (640, 480) None 0 sample_dec) ?t1 = Some (0, t2, fs)"
    "doOutput sample_env False sample_answers t2 = Some (0, t3, ev)" by auto
  then show ?thesis using resolution_change_applied [OF 1 2(1) _ 2(2)] by auto
qed

theorem filter_error_undefined_witness:
  "doOutput sample_env False (\<lambda>_. sample_filter [] (- EIO)) (sample_trans\<lparr>t_encoders := [(0, Some sample_encoder)]\<rparr>) = None"
  using filter_error_undefined [of "sample_trans\<lparr>t_encoders := [(0, Some sample_encoder)]\<rparr>" 0 "[]" sample_encoder
      "\<lambda>_. sample_filter [] (- EIO)" sample_env]
  by (simp add: om_keys_def om_find_def sample_trans_def trans_init_def trans_coder_def sample_filter_def)

end
