(* ===== verification/IddUtility.thy ===== *)
theory IddUtility
  imports CString "HOL-Library.Sublist"
begin

text \<open>
  The helpers of the driver set-up tool, \<open>sources/apps/idd-setup-tool/Utility.cpp\<close> and \<open>Utility.h\<close>: searching and
  lower-casing of strings, \<open>std::stoi\<close>, the indentation of output, and the tables of patterns and resolutions. The tool
  is built with wide characters; a string is the list of its characters. \<open>None\<close> is an exception or an access that is
  not defined.
\<close>

section \<open>Strings\<close>

text \<open>\<open>find\<close>: the first position a string occurs at, \<open>None\<close> for \<open>npos\<close>.\<close>

fun str_find :: "string \<Rightarrow> string \<Rightarrow> nat option" where
  "str_find [] pat = (if pat = [] then Some 0 else None)"
| "str_find (c # s) pat = (if prefix pat (c # s) then Some 0 else map_option Suc (str_find s pat))"

definition StringToLowerCase :: "string \<Rightarrow> string" where
  "StringToLowerCase s = map tolower s"

definition CheckIfStringContainsPattern :: "string \<Rightarrow> string \<Rightarrow> bool \<Rightarrow> bool" where
  "CheckIfStringContainsPattern target pattern ignore_case =
     (if ignore_case then str_find (StringToLowerCase target) (StringToLowerCase pattern) \<noteq> None
      else str_find target pattern \<noteq> None)"

text \<open>An empty delimiter is found at every position and never passed: the loop does not end, \<open>None\<close>.\<close>

function split_from :: "string \<Rightarrow> string \<Rightarrow> string list" where
  "split_from d s =
     (case str_find s d of
        Some k \<Rightarrow> if d \<noteq> [] \<and> s \<noteq> [] then take k s # split_from d (drop (k + length d) s) else []
      | None \<Rightarrow> if s = [] then [] else [s])"
  by pat_completeness auto
termination by (relation "measure (length \<circ> snd)") auto

definition SplitStringOnDelimiter :: "string \<Rightarrow> string \<Rightarrow> string list option" where
  "SplitStringOnDelimiter content delimiter =
     (if delimiter = [] \<and> content \<noteq> [] then None else Some (split_from delimiter content))"

text \<open>\<open>std::stoi\<close> throws where there is no number at the start, and where it is outside the range of \<open>int\<close>.\<close>

definition stoi :: "string \<Rightarrow> int option" where
  "stoi s =
     (let (neg, u) = strtol_sign (dropWhile isspace s)
      in case u of
           [] \<Rightarrow> None
         | c # _ \<Rightarrow> if is_digit 10 c
                    then let n = int (fst (digits_run 10 0 u)) in chk32 (if neg then - n else n)
                    else None)"

section \<open>Lines\<close>

abbreviation LF :: char where "LF \<equiv> CHR 0x0A"
abbreviation CR :: char where "CR \<equiv> CHR 0x0D"

text \<open>The pieces between the newlines, as the loops over \<open>find\<close> and \<open>substr\<close> take them.\<close>

fun lines_of :: "string \<Rightarrow> string list" where
  "lines_of [] = [[]]"
| "lines_of (c # s) = (if c = LF then [] # lines_of s else case lines_of s of [] \<Rightarrow> [[c]] | l # ls \<Rightarrow> (c # l) # ls)"

fun join_with :: "string \<Rightarrow> string list \<Rightarrow> string" where
  "join_with d [] = []"
| "join_with d [x] = x"
| "join_with d (x # y # xs) = x @ d @ join_with d (y # xs)"

definition clean_line :: "string \<Rightarrow> string" where
  "clean_line s = filter (\<lambda>c. c \<noteq> CR) (filter (\<lambda>c. c \<noteq> LF) s)"

text \<open>\<open>FormatOutput\<close> of a message already formatted, with the indentation level of the options.\<close>

definition FormatOutput :: "nat \<Rightarrow> string \<Rightarrow> string" where
  "FormatOutput level message =
     join_with [LF] (map (\<lambda>l. replicate (2 * level) (CHR '' '') @ clean_line l) (lines_of message))"

definition FormatOutputWithOffset :: "nat \<Rightarrow> nat \<Rightarrow> string \<Rightarrow> string" where
  "FormatOutputWithOffset level offset message = FormatOutput (level + offset) message"

section \<open>Tables\<close>

datatype ENABLE_DISABLE_PATTERN_TYPES = DESCRIPTION | VENDOR_AND_DEVICE_ID

record EnableDisablePatternStruct =
  Abbreviation :: string
  DisplaysToMatch :: "string list"
  AdaptersToMatch :: "string list"
  IsAnInvertedTarget :: bool
  PatternType :: ENABLE_DISABLE_PATTERN_TYPES

definition SupportedEnableDisablePatterns :: "EnableDisablePatternStruct list" where
  "SupportedEnableDisablePatterns =
     [\<lparr>Abbreviation = ''flex'', DisplaysToMatch = [], AdaptersToMatch = [''VEN_8086&DEV_56C0'', ''VEN_8086&DEV_56C1''],
        IsAnInvertedTarget = False, PatternType = VENDOR_AND_DEVICE_ID\<rparr>,
      \<lparr>Abbreviation = ''non-flex'', DisplaysToMatch = [''VEN_8086&DEV_56C1'', ''VEN_8086&DEV_56C1''], AdaptersToMatch = [],
        IsAnInvertedTarget = True, PatternType = VENDOR_AND_DEVICE_ID\<rparr>,
      \<lparr>Abbreviation = ''idd'', DisplaysToMatch = [''Intel IddSampleDriver Device''], AdaptersToMatch = [''Intel IddSampleDriver Device''],
        IsAnInvertedTarget = False, PatternType = DESCRIPTION\<rparr>,
      \<lparr>Abbreviation = ''non-idd'', DisplaysToMatch = [''Intel IddSampleDriver Device''], AdaptersToMatch = [],
        IsAnInvertedTarget = True, PatternType = DESCRIPTION\<rparr>,
      \<lparr>Abbreviation = ''msft'', DisplaysToMatch = [''Microsoft Basic Display''], AdaptersToMatch = [''Microsoft Basic Display Adapter''],
        IsAnInvertedTarget = False, PatternType = DESCRIPTION\<rparr>,
      \<lparr>Abbreviation = ''virtio'', DisplaysToMatch = [''Red Hat VirtIO GPU DOD controller'', ''Red Hat QXL controller''],
        AdaptersToMatch = [], IsAnInvertedTarget = False, PatternType = DESCRIPTION\<rparr>]"

record ResolutionStruct =
  res_width :: int
  res_height :: int
  res_type :: ENABLE_DISABLE_PATTERN_TYPES

definition DisplayToResolutionMap :: "string \<rightharpoonup> ResolutionStruct" where
  "DisplayToResolutionMap = map_of
     [(''VEN_8086&DEV_56C0'', \<lparr>res_width = 1920, res_height = 1080, res_type = VENDOR_AND_DEVICE_ID\<rparr>),
      (''VEN_8086&DEV_56C1'', \<lparr>res_width = 1920, res_height = 1080, res_type = VENDOR_AND_DEVICE_ID\<rparr>),
      (''Intel IddSampleDriver Device'', \<lparr>res_width = 1920, res_height = 1080, res_type = DESCRIPTION\<rparr>),
      (''Microsoft Basic Display'', \<lparr>res_width = 1024, res_height = 768, res_type = DESCRIPTION\<rparr>),
      (''Red Hat VirtIO GPU DOD controller'', \<lparr>res_width = 1280, res_height = 1024, res_type = DESCRIPTION\<rparr>),
      (''Red Hat QXL controller'', \<lparr>res_width = 1024, res_height = 768, res_type = DESCRIPTION\<rparr>)]"

section \<open>Facts\<close>

declare split_from.simps [simp del]

lemma str_find_Some: "str_find s pat = Some k \<Longrightarrow> \<exists>a b. s = a @ pat @ b \<and> length a = k"
proof (induction s arbitrary: k)
  case (Cons c s)
  show ?case
  proof (cases "prefix pat (c # s)")
    case True
    then obtain b where "c # s = [] @ pat @ b" by (auto simp: prefix_def)
    moreover have "length [] = k" using Cons.prems True by simp
    ultimately show ?thesis by blast
  next
    case False
    then obtain j where j: "str_find s pat = Some j" "k = Suc j" using Cons.prems by auto
    from Cons.IH [OF j(1)] obtain a b where "s = a @ pat @ b" "length a = j" by blast
    then have "c # s = (c # a) @ pat @ b" "length (c # a) = k" using j(2) by simp_all
    then show ?thesis by blast
  qed
qed (auto split: if_splits)

lemma str_find_None: "str_find s pat = None \<longleftrightarrow> \<not> sublist pat s"
  by (induction s) (auto simp: sublist_Cons_right)

lemma str_find_prefix: "str_find s pat = Some 0 \<longleftrightarrow> prefix pat s"
  by (cases s) auto

lemma str_find_0: "prefix pat s \<Longrightarrow> str_find s pat = Some 0"
  by (simp add: str_find_prefix)

text \<open>The first occurrence behind a part that has no character of the pattern's first kind.\<close>

lemma str_find_append:
  assumes "c \<notin> set a"
  shows "str_find (a @ c # b) [c] = Some (length a)"
  using assms by (induction a) auto

lemma str_find_char_None: "str_find s [c] = None \<longleftrightarrow> c \<notin> set s"
  by (induction s) auto

lemma lower_lower [simp]: "StringToLowerCase (StringToLowerCase s) = StringToLowerCase s"
proof -
  have "tolower (tolower c) = tolower c" for c
    by (auto simp: tolower_def nat_of_chr_def chr_of_nat_def)
  then show ?thesis by (simp add: StringToLowerCase_def)
qed

lemma lower_append [simp]: "StringToLowerCase (a @ b) = StringToLowerCase a @ StringToLowerCase b"
  by (simp add: StringToLowerCase_def)

lemma length_lower [simp]: "length (StringToLowerCase s) = length s"
  by (simp add: StringToLowerCase_def)

lemma lines_of_Nil [simp]: "lines_of s \<noteq> []"
  by (induction s) (auto split: list.splits)

lemma lines_of_no_LF: "l \<in> set (lines_of s) \<Longrightarrow> LF \<notin> set l"
  by (induction s arbitrary: l) (auto split: if_splits list.splits)

lemma lines_of_join: "join_with [LF] (lines_of s) = s"
proof (induction s)
  case (Cons c s)
  then show ?case
  proof (cases "lines_of s")
    case (Cons l ls)
    with Cons.IH show ?thesis by (cases ls) auto
  qed simp
qed simp

lemma lines_of_single: "LF \<notin> set l \<Longrightarrow> lines_of l = [l]"
  by (induction l) auto

lemma lines_of_append: "LF \<notin> set l \<Longrightarrow> lines_of (l @ LF # s) = l # lines_of s"
  by (induction l) auto

lemma join_with_Cons: "xs \<noteq> [] \<Longrightarrow> join_with d (x # xs) = x @ d @ join_with d xs"
  by (cases xs) auto

lemma join_with_lines:
  assumes "ls \<noteq> []" "list_all (\<lambda>l. LF \<notin> set l) ls"
  shows "lines_of (join_with [LF] ls) = ls"
  using assms
proof (induction ls)
  case (Cons l ls)
  then show ?case by (cases "ls = []") (simp_all add: join_with_Cons lines_of_append lines_of_single)
qed simp

end
