(* ===== verification/CommandParser.thy ===== *)
theory CommandParser
  imports IddUtility
begin

text \<open>
  The command line parser of the driver set-up tool, \<open>sources/apps/idd-setup-tool/CommandParserImpl.cpp\<close>. The options of
  the derived class, which switches and parameters point at, are a store from targets to values; an array has the length
  it is declared with, and a write behind it is not defined. The \<open>unordered_map\<close>s that are read with \<open>operator[]\<close> only are
  functions with the default value where nothing was put, since nobody can see the entries such a read makes. The variable arguments of
  a call are a list, a count beyond its length is not defined. \<open>None\<close> stands for that and for exceptions, which
  nobody catches: the tool parses its arguments outside the \<open>try\<close> block of \<open>main\<close>. Lengths are below $2^{32}$ and
  messages shorter than the 4096 characters of the format buffers.
\<close>

section \<open>State\<close>

datatype ArgumentTypes = NONE | STRING | INTEGER | STRING_VECTOR | INTEGER_VECTOR | PATH

datatype opt_value =
    Flag bool
  | Ints "int list"
  | Strings "string list"
  | Paths "string list"
  | StringVector "string list"
  | IntVector "int list"

definition MAX_ARGUMENT_VARIATIONS :: nat where "MAX_ARGUMENT_VARIATIONS = 3"

definition HELP_MESSAGE_MAX_LENGTH :: nat where "HELP_MESSAGE_MAX_LENGTH = 110"

record CommandStruct =
  CommandNumber :: nat
  CommandName :: string
  CommandAbbreviatedDescription :: string
  CommandDescription :: string
  CommandBugs :: string
  cmd_IsHidden :: bool

text \<open>\<open>OptionsList\<close> holds the \<open>VariationsCount\<close> entries in use.\<close>

record 't SwitchStruct =
  sw_Target :: 't
  sw_OptionsList :: "string list"
  sw_HelpMessage :: string
  sw_IsHidden :: bool

record 't ParamStruct =
  p_Target :: 't
  p_Type :: ArgumentTypes
  p_OptionsList :: "string list"
  p_Delimiter :: string
  p_ArgumentCount :: nat
  p_IgnoreCase :: bool
  p_HelpMessage :: string
  p_IsHidden :: bool

record 't CommandParserImpl =
  CurrentCommandNumber :: nat
  GlobalDescription :: string
  GlobalBugs :: string
  MiscCounters :: "string \<Rightarrow> nat"
  Commands :: "CommandStruct list"
  CommandNumberToNameLookup :: "nat \<rightharpoonup> string"
  CommandNameToNumberLookup :: "string \<rightharpoonup> nat"
  GlobalSwitches :: "'t SwitchStruct list"
  GlobalParams :: "'t ParamStruct list"
  CommandSpecificSettings :: "string \<Rightarrow> 't ParamStruct list"
  CommandSpecificSwitches :: "string \<Rightarrow> 't SwitchStruct list"
  CommandSpecificParams :: "string \<Rightarrow> 't ParamStruct list"
  ToolName :: string
  RawArguments :: "string list"
  Options :: "'t \<Rightarrow> opt_value"

definition command_parser :: "string \<Rightarrow> ('t \<Rightarrow> opt_value) \<Rightarrow> 't CommandParserImpl" where
  "command_parser tool opts = \<lparr>CurrentCommandNumber = 0, GlobalDescription = [], GlobalBugs = [], MiscCounters = (\<lambda>_. 0), Commands = [],
     CommandNumberToNameLookup = Map.empty, CommandNameToNumberLookup = Map.empty, GlobalSwitches = [], GlobalParams = [],
     CommandSpecificSettings = (\<lambda>_. []), CommandSpecificSwitches = (\<lambda>_. []), CommandSpecificParams = (\<lambda>_. []),
     ToolName = tool, RawArguments = [], Options = opts\<rparr>"

section \<open>Building the tables\<close>

definition va_args :: "nat \<Rightarrow> 'a list \<Rightarrow> 'a list option" where
  "va_args n xs = (if n \<le> length xs then Some (take n xs) else None)"

definition raise_counter :: "string \<Rightarrow> nat \<Rightarrow> 't CommandParserImpl \<Rightarrow> 't CommandParserImpl" where
  "raise_counter k n p = (if MiscCounters p k < n then p\<lparr>MiscCounters := (MiscCounters p)(k := n)\<rparr> else p)"

definition AddCommand :: "string \<Rightarrow> string \<Rightarrow> 't CommandParserImpl \<Rightarrow> 't CommandParserImpl" where
  "AddCommand nm abbrev p =
     (let n = length (Commands p) + 1;
          c = \<lparr>CommandNumber = n, CommandName = nm, CommandAbbreviatedDescription = abbrev, CommandDescription = [],
               CommandBugs = [], cmd_IsHidden = False\<rparr>;
          p = raise_counter ''Commands Offset'' (length nm + 2) (p\<lparr>Commands := Commands p @ [c]\<rparr>);
          l = StringToLowerCase nm
      in p\<lparr>CommandNumberToNameLookup := (CommandNumberToNameLookup p)(n \<mapsto> l),
           CommandNameToNumberLookup := (CommandNameToNumberLookup p)(l \<mapsto> n),
           CommandSpecificSwitches := (CommandSpecificSwitches p)(l := []),
           CommandSpecificParams := (CommandSpecificParams p)(l := [])\<rparr>)"

definition AddGlobalDescription :: "nat \<Rightarrow> string list \<Rightarrow> 't CommandParserImpl \<Rightarrow> 't CommandParserImpl option" where
  "AddGlobalDescription n args p = do {
     xs \<leftarrow> va_args n args;
     Some (p\<lparr>GlobalDescription := GlobalDescription p @ join_with [LF] xs\<rparr>) }"

definition AddGlobalBugs :: "nat \<Rightarrow> string list \<Rightarrow> 't CommandParserImpl \<Rightarrow> 't CommandParserImpl option" where
  "AddGlobalBugs n args p = do {
     xs \<leftarrow> va_args n args;
     Some (p\<lparr>GlobalBugs := GlobalBugs p @ join_with [LF] xs\<rparr>) }"

text \<open>A command that was never added has the number 0, and 0 - 1 is no index.\<close>

definition update_command ::
  "string \<Rightarrow> (CommandStruct \<Rightarrow> CommandStruct) \<Rightarrow> 't CommandParserImpl \<Rightarrow> 't CommandParserImpl option" where
  "update_command nm f p = do {
     n \<leftarrow> CommandNameToNumberLookup p (StringToLowerCase nm);
     if n = 0 \<or> length (Commands p) < n then None
     else Some (p\<lparr>Commands := (Commands p)[n - 1 := f (Commands p ! (n - 1))]\<rparr>) }"

definition AddCommandSpecificDescription :: "string \<Rightarrow> nat \<Rightarrow> string list \<Rightarrow> 't CommandParserImpl \<Rightarrow> 't CommandParserImpl option" where
  "AddCommandSpecificDescription nm n args p = do {
     xs \<leftarrow> va_args n args;
     update_command nm (\<lambda>c. c\<lparr>CommandDescription := CommandDescription c @ join_with [LF] xs\<rparr>) p }"

definition AddCommandSpecificBugs :: "string \<Rightarrow> nat \<Rightarrow> string list \<Rightarrow> 't CommandParserImpl \<Rightarrow> 't CommandParserImpl option" where
  "AddCommandSpecificBugs nm n args p = do {
     xs \<leftarrow> va_args n args;
     update_command nm (\<lambda>c. c\<lparr>CommandBugs := CommandBugs c @ join_with [LF] xs\<rparr>) p }"

text \<open>
  Too many variations print an error, with \<open>%s\<close> for a number, which is not defined. The expression for the values is printed
  with \<open>swprintf\<close> into the buffer it is read from; the model has the text that comes out when the argument is
  copied first.
\<close>

definition option_names :: "nat \<Rightarrow> string list \<Rightarrow> string list option" where
  "option_names n args = (if n > MAX_ARGUMENT_VARIATIONS then None else va_args n args)"

definition value_expression :: "ArgumentTypes \<Rightarrow> string \<Rightarrow> nat \<Rightarrow> string" where
  "value_expression ty delim n =
     (if ty = INTEGER_VECTOR \<or> ty = STRING_VECTOR then ''<VALUE>'' @ delim @ ''<VALUE>'' @ delim @ ''...''
      else join_with delim (replicate n ''<VALUE>''))"

definition switch_offset :: "string list \<Rightarrow> nat" where
  "switch_offset names = length names * 2 + sum_list (map length names)"

definition param_offset :: "ArgumentTypes \<Rightarrow> string \<Rightarrow> nat \<Rightarrow> string list \<Rightarrow> nat" where
  "param_offset ty delim n names = length (value_expression ty delim n) + 3 + foldr (\<lambda>s m. max (length s) m) names 0"

definition new_switch :: "'t \<Rightarrow> string \<Rightarrow> string list \<Rightarrow> 't SwitchStruct" where
  "new_switch tg help names = \<lparr>sw_Target = tg, sw_OptionsList = names, sw_HelpMessage = help, sw_IsHidden = False\<rparr>"

definition new_param :: "'t \<Rightarrow> ArgumentTypes \<Rightarrow> bool \<Rightarrow> string \<Rightarrow> nat \<Rightarrow> string \<Rightarrow> string list \<Rightarrow> 't ParamStruct" where
  "new_param tg ty ignore_case delim n help names =
     \<lparr>p_Target = tg, p_Type = ty, p_OptionsList = names, p_Delimiter = delim, p_ArgumentCount = n, p_IgnoreCase = ignore_case,
      p_HelpMessage = help, p_IsHidden = False\<rparr>"

definition AddGlobalSwitch :: "'t \<Rightarrow> string \<Rightarrow> nat \<Rightarrow> string list \<Rightarrow> 't CommandParserImpl \<Rightarrow> 't CommandParserImpl option" where
  "AddGlobalSwitch tg help n args p = do {
     names \<leftarrow> option_names n args;
     Some (raise_counter ''Global Options Offset'' (switch_offset names)
       (p\<lparr>GlobalSwitches := GlobalSwitches p @ [new_switch tg help names]\<rparr>)) }"

definition AddGlobalParam ::
  "'t \<Rightarrow> ArgumentTypes \<Rightarrow> bool \<Rightarrow> string \<Rightarrow> nat \<Rightarrow> string \<Rightarrow> nat \<Rightarrow> string list \<Rightarrow> 't CommandParserImpl \<Rightarrow> 't CommandParserImpl option" where
  "AddGlobalParam tg ty ignore_case delim cnt help n args p = do {
     names \<leftarrow> option_names n args;
     Some (raise_counter ''Global Options Offset'' (param_offset ty delim cnt names)
       (p\<lparr>GlobalParams := GlobalParams p @ [new_param tg ty ignore_case delim cnt help names]\<rparr>)) }"

definition AddCommandSpecificSetting ::
  "string \<Rightarrow> 't \<Rightarrow> ArgumentTypes \<Rightarrow> bool \<Rightarrow> string \<Rightarrow> nat \<Rightarrow> string \<Rightarrow> nat \<Rightarrow> string list \<Rightarrow> 't CommandParserImpl \<Rightarrow> 't CommandParserImpl option" where
  "AddCommandSpecificSetting cmd tg ty ignore_case delim cnt help n args p = do {
     names \<leftarrow> option_names n args;
     let l = StringToLowerCase cmd;
     Some (raise_counter (''Command Specific Settings Offset: '' @ l) (param_offset ty delim cnt names)
       (p\<lparr>CommandSpecificSettings := (CommandSpecificSettings p)
            (l := CommandSpecificSettings p l @ [new_param tg ty ignore_case delim cnt help names])\<rparr>)) }"

definition AddCommandSpecificSwitch ::
  "string \<Rightarrow> 't \<Rightarrow> string \<Rightarrow> nat \<Rightarrow> string list \<Rightarrow> 't CommandParserImpl \<Rightarrow> 't CommandParserImpl option" where
  "AddCommandSpecificSwitch cmd tg help n args p = do {
     names \<leftarrow> option_names n args;
     let l = StringToLowerCase cmd;
     Some (raise_counter (''Command Specific Options Offset: '' @ l) (switch_offset names)
       (p\<lparr>CommandSpecificSwitches := (CommandSpecificSwitches p)
            (l := CommandSpecificSwitches p l @ [new_switch tg help names])\<rparr>)) }"

definition AddCommandSpecificParam ::
  "string \<Rightarrow> 't \<Rightarrow> ArgumentTypes \<Rightarrow> bool \<Rightarrow> string \<Rightarrow> nat \<Rightarrow> string \<Rightarrow> nat \<Rightarrow> string list \<Rightarrow> 't CommandParserImpl \<Rightarrow> 't CommandParserImpl option" where
  "AddCommandSpecificParam cmd tg ty ignore_case delim cnt help n args p = do {
     names \<leftarrow> option_names n args;
     let l = StringToLowerCase cmd;
     Some (raise_counter (''Command Specific Options Offset: '' @ l) (param_offset ty delim cnt names)
       (p\<lparr>CommandSpecificParams := (CommandSpecificParams p)
            (l := CommandSpecificParams p l @ [new_param tg ty ignore_case delim cnt help names])\<rparr>)) }"

text \<open>\<open>SetHidden\<close> is always applied to what was added last, which the reference returned refers to.\<close>

definition on_last :: "('a \<Rightarrow> 'a) \<Rightarrow> 'a list \<Rightarrow> 'a list" where
  "on_last f xs = (if xs = [] then [] else butlast xs @ [f (last xs)])"

definition SetHidden_command :: "CommandStruct \<Rightarrow> CommandStruct" where
  "SetHidden_command c = c\<lparr>cmd_IsHidden := True\<rparr>"

definition SetHidden_switch :: "'t SwitchStruct \<Rightarrow> 't SwitchStruct" where
  "SetHidden_switch s = s\<lparr>sw_IsHidden := True\<rparr>"

definition SetHidden_param :: "'t ParamStruct \<Rightarrow> 't ParamStruct" where
  "SetHidden_param s = s\<lparr>p_IsHidden := True\<rparr>"

definition GetCurrentCommand :: "'t CommandParserImpl \<Rightarrow> CommandStruct option" where
  "GetCurrentCommand p = (if CurrentCommandNumber p = 0 then None else Some (Commands p ! (CurrentCommandNumber p - 1)))"

section \<open>Parsing\<close>

definition store_at :: "nat \<Rightarrow> 'a \<Rightarrow> 'a list \<Rightarrow> 'a list option" where
  "store_at i v xs = (if i < length xs then Some (xs[i := v]) else None)"

text \<open>One segment is put where the parameter points; a target of another type than the parameter's is not defined.\<close>

definition store_segment :: "'t ParamStruct \<Rightarrow> nat \<Rightarrow> string \<Rightarrow> ('t \<Rightarrow> opt_value) \<Rightarrow> ('t \<Rightarrow> opt_value) option" where
  "store_segment pr i seg opts =
     (let tg = p_Target pr; put = (\<lambda>v. Some (opts(tg := v)))
      in case p_Type pr of
           NONE \<Rightarrow> Some opts
         | STRING \<Rightarrow> (case opts tg of Strings xs \<Rightarrow> do { ys \<leftarrow> store_at i seg xs; put (Strings ys) } | _ \<Rightarrow> None)
         | INTEGER \<Rightarrow> (case opts tg of Ints xs \<Rightarrow> do { v \<leftarrow> stoi seg; ys \<leftarrow> store_at i v xs; put (Ints ys) } | _ \<Rightarrow> None)
         | STRING_VECTOR \<Rightarrow> (case opts tg of StringVector xs \<Rightarrow> put (StringVector (xs @ [seg])) | _ \<Rightarrow> None)
         | INTEGER_VECTOR \<Rightarrow> (case opts tg of IntVector xs \<Rightarrow> do { v \<leftarrow> stoi seg; put (IntVector (xs @ [v])) } | _ \<Rightarrow> None)
         | PATH \<Rightarrow> (case opts tg of Paths xs \<Rightarrow> do { ys \<leftarrow> store_at i seg xs; put (Paths ys) } | _ \<Rightarrow> None))"

text \<open>The next segment and the rest of the arguments.\<close>

definition next_segment :: "string \<Rightarrow> string \<Rightarrow> string \<times> string" where
  "next_segment delim args =
     (case str_find args delim of
        Some k \<Rightarrow> if delim \<noteq> [] then (take k args, drop (k + length delim) args) else (args, [])
      | None \<Rightarrow> (args, []))"

lemma next_segment_shorter: "args \<noteq> [] \<Longrightarrow> length (snd (next_segment delim args)) < length args"
  by (auto simp: next_segment_def split: option.splits)

function extract_segments :: "'t ParamStruct \<Rightarrow> nat \<Rightarrow> string \<Rightarrow> ('t \<Rightarrow> opt_value) \<Rightarrow> (nat \<times> ('t \<Rightarrow> opt_value)) option" where
  "extract_segments pr i args opts =
     (if args = [] then Some (i, opts)
      else let (seg, rest) = next_segment (p_Delimiter pr) args;
               seg = (if p_IgnoreCase pr then StringToLowerCase seg else seg)
           in do {
             opts \<leftarrow> store_segment pr i seg opts;
             extract_segments pr (i + 1) rest opts })"
  by pat_completeness auto
termination
  by (relation "measure (\<lambda>(pr, i, args, opts). length args)") (auto, metis next_segment_shorter snd_conv)

declare extract_segments.simps [simp del]

definition ExtractAndStoreParamInfo ::
  "'t ParamStruct \<Rightarrow> string \<Rightarrow> ('t \<Rightarrow> opt_value) \<Rightarrow> (bool \<times> ('t \<Rightarrow> opt_value)) option" where
  "ExtractAndStoreParamInfo pr args opts = do {
     (n, opts) \<leftarrow> extract_segments pr 0 args opts;
     Some (\<not> (p_ArgumentCount pr \<noteq> 0 \<and> n \<noteq> p_ArgumentCount pr) \<and> \<not> (p_ArgumentCount pr = 0 \<and> n = 0), opts) }"

text \<open>The first parameter one of whose names, with an equals sign, occurs in the argument.\<close>

definition find_param :: "string \<Rightarrow> 't ParamStruct list \<Rightarrow> ('t ParamStruct \<times> string) option" where
  "find_param arg ps =
     List.find (\<lambda>(pr, c). str_find (StringToLowerCase arg) c \<noteq> None)
       (concat (map (\<lambda>pr. map (\<lambda>v. (pr, StringToLowerCase v @ ''='')) (p_OptionsList pr)) ps))"

definition find_switch :: "string \<Rightarrow> 't SwitchStruct list \<Rightarrow> 't SwitchStruct option" where
  "find_switch arg ss =
     List.find (\<lambda>s. list_ex (\<lambda>v. StringToLowerCase arg = StringToLowerCase v) (sw_OptionsList s)) ss"

text \<open>A violated constraint is printed, and the argument counts as taken.\<close>

definition take_param :: "string \<Rightarrow> 't ParamStruct \<times> string \<Rightarrow> 't CommandParserImpl \<Rightarrow> (bool \<times> 't CommandParserImpl) option" where
  "take_param arg prc p = do {
     (ok, opts) \<leftarrow> ExtractAndStoreParamInfo (fst prc) (drop (length (snd prc)) arg) (Options p);
     Some (True, p\<lparr>Options := opts\<rparr>) }"

definition take_switch :: "'t SwitchStruct \<Rightarrow> 't CommandParserImpl \<Rightarrow> 't CommandParserImpl" where
  "take_switch s p = p\<lparr>Options := (Options p)(sw_Target s := Flag True)\<rparr>"

definition CheckForGlobalOptions :: "string \<Rightarrow> 't CommandParserImpl \<Rightarrow> (bool \<times> 't CommandParserImpl) option" where
  "CheckForGlobalOptions arg p =
     (case find_param arg (GlobalParams p) of
        Some prc \<Rightarrow> take_param arg prc p
      | None \<Rightarrow>
          (case find_switch arg (GlobalSwitches p) of
             Some s \<Rightarrow> Some (True, take_switch s p)
           | None \<Rightarrow> Some (False, p)))"

text \<open>Without a command the index is -1.\<close>

definition CheckForCommandSpecificOptions :: "string \<Rightarrow> 't CommandParserImpl \<Rightarrow> (bool \<times> 't CommandParserImpl) option" where
  "CheckForCommandSpecificOptions arg p = do {
     c \<leftarrow> GetCurrentCommand p;
     let nm = StringToLowerCase (CommandName c);
     case find_param arg (CommandSpecificSettings p nm) of
       Some prc \<Rightarrow> take_param arg prc p
     | None \<Rightarrow>
         (case find_param arg (CommandSpecificParams p nm) of
            Some prc \<Rightarrow> take_param arg prc p
          | None \<Rightarrow>
              (case find_switch arg (CommandSpecificSwitches p nm) of
                 Some s \<Rightarrow> Some (True, take_switch s p)
               | None \<Rightarrow> Some (False, p))) }"

definition CheckForCommandChange :: "string \<Rightarrow> 't CommandParserImpl \<Rightarrow> bool \<times> 't CommandParserImpl" where
  "CheckForCommandChange arg p =
     (case CommandNameToNumberLookup p (StringToLowerCase arg) of
        Some n \<Rightarrow> (True, p\<lparr>CurrentCommandNumber := n\<rparr>)
      | None \<Rightarrow> (False, p))"

definition ProcessSingleCommand :: "string \<Rightarrow> 't CommandParserImpl \<Rightarrow> (bool \<times> 't CommandParserImpl) option" where
  "ProcessSingleCommand arg p = do {
     (ok, p) \<leftarrow> CheckForGlobalOptions arg p;
     if ok then Some (True, p)
     else let (ok, p) = (if CurrentCommandNumber p = 0 then CheckForCommandChange arg p else (False, p))
          in if ok then Some (True, p) else CheckForCommandSpecificOptions arg p }"

text \<open>The arguments behind the name of the program; \<open>ConstraintFunction\<close> is that of the derived class and may end the process.\<close>

fun ParseCommands ::
  "('t CommandParserImpl \<Rightarrow> (bool \<times> 't CommandParserImpl) outcome option) \<Rightarrow> string list \<Rightarrow> 't CommandParserImpl
     \<Rightarrow> (bool \<times> 't CommandParserImpl) outcome option" where
  "ParseCommands constraint [] p = constraint p"
| "ParseCommands constraint (arg # args) p = do {
     (ok, p) \<leftarrow> ProcessSingleCommand arg (p\<lparr>RawArguments := RawArguments p @ [arg]\<rparr>);
     if ok then ParseCommands constraint args p else Some (Ret (False, p)) }"

section \<open>Help\<close>

text \<open>
  The splitting of a line. The index counts down with the wrap-around of an unsigned number, and \<open>at\<close> throws as soon as
  it is outside the line: \<open>space_upto\<close> looks for a space at the position and below, \<open>text_upto\<close> for another character.
\<close>

fun space_upto :: "string \<Rightarrow> nat \<Rightarrow> nat option" where
  "space_upto s k =
     (if k \<ge> length s then None
      else if s ! k = CHR '' '' then Some k
      else if k = 0 then None else space_upto s (k - 1))"

fun text_upto :: "string \<Rightarrow> nat \<Rightarrow> nat option" where
  "text_upto s k =
     (if k \<ge> length s then None
      else if s ! k \<noteq> CHR '' '' then Some k
      else if k = 0 then None else text_upto s (k - 1))"

declare space_upto.simps [simp del] text_upto.simps [simp del]

definition split_size :: "nat \<Rightarrow> string \<Rightarrow> nat option" where
  "split_size max_len s = do {
     k \<leftarrow> space_upto s (nat (to_uint32 (int max_len + 1)));
     if k = 0 then None
     else do { j \<leftarrow> text_upto s (k - 1); Some (j + 2) } }"

function wrap_line :: "nat \<Rightarrow> nat \<Rightarrow> string \<Rightarrow> string list option" where
  "wrap_line limit max_len s =
     (if length s > limit
      then (case split_size max_len s of
              None \<Rightarrow> None
            | Some n \<Rightarrow> map_option ((#) (take n s)) (wrap_line limit max_len (drop n s)))
      else Some [s])"
  by pat_completeness auto
termination
  by (relation "measure (\<lambda>(l, m, s). length s)") (auto simp: split_size_def split: bind_splits if_splits)

declare wrap_line.simps [simp del]

definition max_line :: "nat \<Rightarrow> nat" where
  "max_line whitespace = nat (to_uint32 (int HELP_MESSAGE_MAX_LENGTH - int whitespace))"

text \<open>All lines but the last are split when longer than the limit, the last one when longer by two.\<close>

fun wrap_lines :: "nat \<Rightarrow> string list \<Rightarrow> string list option" where
  "wrap_lines m [] = Some []"
| "wrap_lines m [l] = wrap_line (nat (to_uint32 (int m + 1))) m (clean_line l)"
| "wrap_lines m (l # l' # ls) = do { xs \<leftarrow> wrap_line m m (clean_line l); ys \<leftarrow> wrap_lines m (l' # ls); Some (xs @ ys) }"

definition FormatHelpMessage :: "nat \<Rightarrow> string \<Rightarrow> string \<Rightarrow> string option" where
  "FormatHelpMessage whitespace header content = do {
     let indent = replicate whitespace (CHR '' '');
     let header = header @ replicate (whitespace - length header) (CHR '' '');
     ls \<leftarrow> wrap_lines (max_line whitespace) (lines_of content);
     case ls of
       [] \<Rightarrow> None
     | l # ls \<Rightarrow> Some (join_with [LF] ((header @ clean_line l) # map (\<lambda>x. indent @ clean_line x) ls)) }"

text \<open>
  What \<open>ShowHelpMessage\<close> prints, an entry for each line or message that \<open>endl\<close> ends; \<open>level\<close> is the indentation.
  No text of the tables has a percent sign, which \<open>FormatOutput\<close> would take for a conversion.
\<close>

definition help_entry :: "nat \<Rightarrow> nat \<Rightarrow> string \<Rightarrow> string \<Rightarrow> string option" where
  "help_entry level offset header content = map_option (FormatOutputWithOffset level 1) (FormatHelpMessage offset header content)"

definition help_switches :: "nat \<Rightarrow> nat \<Rightarrow> 't SwitchStruct list \<Rightarrow> string list option" where
  "help_switches level offset ss =
     those (map (\<lambda>s. help_entry level offset (join_with '', '' (sw_OptionsList s)) (sw_HelpMessage s))
       (filter (\<lambda>s. \<not> sw_IsHidden s) ss))"

definition help_params :: "nat \<Rightarrow> nat \<Rightarrow> 't ParamStruct list \<Rightarrow> string list option" where
  "help_params level offset ps =
     those (concat (map (\<lambda>pr. map (\<lambda>v. help_entry level offset
         (v @ ''='' @ value_expression (p_Type pr) (p_Delimiter pr) (p_ArgumentCount pr)) (p_HelpMessage pr)) (p_OptionsList pr))
       (filter (\<lambda>pr. \<not> p_IsHidden pr) ps)))"

definition help_text :: "nat \<Rightarrow> string \<Rightarrow> string \<Rightarrow> string list option" where
  "help_text level title content =
     (if content = [] then Some []
      else do { t \<leftarrow> help_entry level 0 [] content; Some [[], FormatOutput level title, [], t] })"

definition help_commands :: "nat \<Rightarrow> 't CommandParserImpl \<Rightarrow> string list option" where
  "help_commands level p = do {
     cs \<leftarrow> those (map (\<lambda>c. help_entry level (MiscCounters p ''Commands Offset'') (CommandName c) (CommandAbbreviatedDescription c))
            (filter (\<lambda>c. \<not> cmd_IsHidden c) (Commands p)));
     Some ([FormatOutput level (''1) '' @ ToolName p @ '' [<global-options>]''),
            FormatOutput level (''2) '' @ ToolName p @ '' <command> [<options>] [<global-options>]''), [],
            FormatOutput level ''Supported Commands:'', []] @ cs) }"

definition help_command :: "nat \<Rightarrow> CommandStruct \<Rightarrow> 't CommandParserImpl \<Rightarrow> string list option" where
  "help_command level c p = do {
     let nm = StringToLowerCase (CommandName c);
     let settings = CommandSpecificSettings p nm;
     let n_options = length (CommandSpecificSwitches p nm) + length (CommandSpecificParams p nm);
     let usage = ToolName p @ '' '' @ CommandName c @ (if settings \<noteq> [] then '' <settings> ...'' else [])
                   @ (if n_options > 0 then '' [<options>]'' else [])
                   @ (if length (GlobalSwitches p) + length (GlobalParams p) > 0 then '' [<global-options>]'' else []);
     se \<leftarrow> (if settings \<noteq> []
            then do { xs \<leftarrow> help_params level (MiscCounters p (''Command Specific Settings Offset: '' @ nm)) settings;
                      Some ([[], FormatOutput level ''Settings:'', []] @ xs) }
            else Some []);
     let offset = MiscCounters p (''Command Specific Options Offset: '' @ nm);
     op \<leftarrow> (if n_options > 0
            then do { xs \<leftarrow> help_switches level offset (CommandSpecificSwitches p nm);
                      ys \<leftarrow> help_params level offset (CommandSpecificParams p nm);
                      Some ([[], FormatOutput level ''Options:'', []] @ xs @ ys) }
            else Some []);
     Some ([FormatOutput level usage] @ se @ op) }"

definition ShowHelpMessage :: "nat \<Rightarrow> 't CommandParserImpl \<Rightarrow> string list option" where
  "ShowHelpMessage level p = do {
     let cur = GetCurrentCommand p;
     top \<leftarrow> (case cur of None \<Rightarrow> help_commands level p | Some c \<Rightarrow> help_command level c p);
     let offset = MiscCounters p ''Global Options Offset'';
     xs \<leftarrow> help_switches level offset (GlobalSwitches p);
     ys \<leftarrow> help_params level offset (GlobalParams p);
     de \<leftarrow> help_text level ''Description:'' (case cur of None \<Rightarrow> GlobalDescription p | Some c \<Rightarrow> CommandDescription c);
     bu \<leftarrow> help_text level ''Bugs:'' (case cur of None \<Rightarrow> GlobalBugs p | Some c \<Rightarrow> CommandBugs c);
     Some (top @ [[], FormatOutput level ''Globally Available Options:'', []] @ xs @ ys @ de @ bu) }"

end
