(* ===== verification/CommandParserProps.thy ===== *)
theory CommandParserProps
  imports CommandParser "HOL-Library.Multiset"
begin

text \<open>
  What the command line parser does for any tables: which parameter an argument names, how the values of a parameter
  are stored, what an unknown first argument and a wrong number of values lead to, and that the help text is
  broken into lines without losing a character.
\<close>

section \<open>Finding the parameter\<close>

lemma tolower_eq_sign [simp]: "tolower c = CHR ''='' \<longleftrightarrow> c = CHR ''=''"
proof -
  have "tolower c = CHR ''='' \<Longrightarrow> c = CHR ''=''"
  proof (rule ccontr)
    assume t: "tolower c = CHR ''=''" "c \<noteq> CHR ''=''"
    then have r: "65 \<le> nat_of_chr c" "nat_of_chr c \<le> 90" "chr_of_nat (nat_of_chr c + 32) = CHR ''=''"
      by (auto simp: tolower_def split: if_splits)
    have "nat_of_chr c + 32 < 256" using r(2) by simp
    then have "of_char (chr_of_nat (nat_of_chr c + 32)) = nat_of_chr c + 32" by (simp add: chr_of_nat_def)
    with r show False by simp
  qed
  moreover have "tolower (CHR ''='') = CHR ''=''" by code_simp
  ultimately show ?thesis by auto
qed

lemma eq_sign_lower [simp]: "CHR ''='' \<in> set (StringToLowerCase s) \<longleftrightarrow> CHR ''='' \<in> set s"
  by (induction s) (auto simp: StringToLowerCase_def eq_commute [of "CHR ''=''"])

lemma split_at_sign:
  assumes "a @ c # b = x @ c # y" "c \<notin> set a" "c \<notin> set x"
  shows "a = x \<and> b = y"
proof -
  have "takeWhile (\<lambda>z. z \<noteq> c) (a @ c # b) = a" "takeWhile (\<lambda>z. z \<noteq> c) (x @ c # y) = x"
    using assms(2,3) by (simp_all add: takeWhile_neq_append)
  with assms(1) have "a = x" by simp
  with assms(1) show ?thesis by simp
qed

text \<open>An argument with one equals sign contains a name with the sign exactly if the name ends the part before it.\<close>

lemma sublist_named:
  assumes "CHR ''='' \<notin> set nm" "CHR ''='' \<notin> set v" "CHR ''='' \<notin> set x"
  shows "sublist (x @ ''='') (nm @ ''='' @ v) \<longleftrightarrow> suffix x nm"
proof
  assume "sublist (x @ ''='') (nm @ ''='' @ v)"
  then obtain a b where "nm @ ''='' @ v = a @ (x @ ''='') @ b" by (auto simp: sublist_def)
  then have eq: "nm @ CHR ''='' # v = (a @ x) @ CHR ''='' # b" by simp
  have "CHR ''='' \<notin> set a"
  proof
    assume "CHR ''='' \<in> set a"
    then have "1 < count_list ((a @ x) @ CHR ''='' # b) (CHR ''='')" by (simp add: count_list_append) (metis count_list_0_iff not_gr_zero)
    moreover have "count_list (nm @ CHR ''='' # v) (CHR ''='') = 1" using assms by (simp add: count_list_append)
    ultimately show False using eq by simp
  qed
  then have "nm = a @ x" using split_at_sign [OF eq] assms by simp
  then show "suffix x nm" by (simp add: suffix_def)
next
  assume "suffix x nm"
  then obtain a where "nm = a @ x" by (auto simp: suffix_def)
  then have "nm @ ''='' @ v = a @ (x @ ''='') @ v" by simp
  then show "sublist (x @ ''='') (nm @ ''='' @ v)" unfolding sublist_def by blast
qed

definition plain_names :: "'t ParamStruct list \<Rightarrow> bool" where
  "plain_names ps \<longleftrightarrow> list_all (\<lambda>pr. list_all (\<lambda>v. CHR ''='' \<notin> set v) (p_OptionsList pr)) ps"

lemma find_cong: "(\<And>x. x \<in> set xs \<Longrightarrow> P x = Q x) \<Longrightarrow> List.find P xs = List.find Q xs"
  by (induction xs) auto

text \<open>So the parameter depends on the name alone, whatever its letters are and whatever value follows.\<close>

lemma names_no_sign:
  assumes "plain_names ps" "z \<in> set (concat (map (\<lambda>pr. map (\<lambda>v. (pr, StringToLowerCase v @ ''='')) (p_OptionsList pr)) ps))"
  shows "\<exists>x. CHR ''='' \<notin> set x \<and> snd z = StringToLowerCase x @ ''=''"
proof -
  obtain pr v where "pr \<in> set ps" "v \<in> set (p_OptionsList pr)" "z = (pr, StringToLowerCase v @ ''='')" using assms(2) by auto
  then show ?thesis using assms(1) by (intro exI [of _ v]) (auto simp: plain_names_def list_all_iff)
qed

lemma find_param_named:
  assumes "CHR ''='' \<notin> set nm" "CHR ''='' \<notin> set v" "plain_names ps"
  shows "find_param (nm @ ''='' @ v) ps = find_param (StringToLowerCase nm @ ''='') ps"
proof -
  have low: "StringToLowerCase ''='' = ''=''" by code_simp
  have same: "str_find (StringToLowerCase (nm @ ''='' @ v)) (StringToLowerCase x @ ''='') = None
      \<longleftrightarrow> str_find (StringToLowerCase (StringToLowerCase nm @ ''='')) (StringToLowerCase x @ ''='') = None" if "CHR ''='' \<notin> set x" for x
    unfolding str_find_None lower_append low lower_lower
    using sublist_named [of "StringToLowerCase nm" "StringToLowerCase v" "StringToLowerCase x"]
      sublist_named [of "StringToLowerCase nm" "[]" "StringToLowerCase x"] that assms(1,2) by simp
  show ?thesis unfolding find_param_def
  proof (rule find_cong)
    fix z assume "z \<in> set (concat (map (\<lambda>pr. map (\<lambda>v. (pr, StringToLowerCase v @ ''='')) (p_OptionsList pr)) ps))"
    from names_no_sign [OF assms(3) this] obtain x where x: "CHR ''='' \<notin> set x" "snd z = StringToLowerCase x @ ''=''" by blast
    show "(case z of (pr, c) \<Rightarrow> str_find (StringToLowerCase (nm @ ''='' @ v)) c \<noteq> None)
      = (case z of (pr, c) \<Rightarrow> str_find (StringToLowerCase (StringToLowerCase nm @ ''='')) c \<noteq> None)"
      using same [OF x(1)] by (simp only: case_prod_beta x(2))
  qed
qed

lemma find_append: "List.find P (xs @ ys) = (case List.find P xs of None \<Rightarrow> List.find P ys | Some x \<Rightarrow> Some x)"
  by (induction xs) auto

lemma find_param_append:
  "find_param arg (ps @ qs) = (case find_param arg ps of None \<Rightarrow> find_param arg qs | Some x \<Rightarrow> Some x)"
  by (simp only: find_param_def map_append concat_append find_append)

lemma find_param_no_sign: "CHR ''='' \<notin> set arg \<Longrightarrow> find_param arg ps = None"
proof -
  assume a: "CHR ''='' \<notin> set arg"
  have "\<not> sublist (x @ ''='') (StringToLowerCase arg)" for x
    using a set_mono_sublist [of "x @ ''=''" "StringToLowerCase arg"] by auto
  then show ?thesis by (auto simp: find_param_def str_find_None find_None_iff)
qed

lemma find_switch_sign:
  assumes "CHR ''='' \<in> set arg" "list_all (\<lambda>s. list_all (\<lambda>v. CHR ''='' \<notin> set v) (sw_OptionsList s)) ss"
  shows "find_switch arg ss = None"
proof -
  have "StringToLowerCase arg \<noteq> StringToLowerCase v" if "CHR ''='' \<notin> set v" for v
    using assms(1) that by (metis eq_sign_lower)
  then show ?thesis using assms(2) by (auto simp: find_switch_def find_None_iff list_all_iff list_ex_iff)
qed

section \<open>Storing values\<close>

text \<open>The segments of printed values. A delimiter is a single character that occurs in no value, or there is one value.\<close>

definition values_ok :: "string \<Rightarrow> string list \<Rightarrow> bool" where
  "values_ok delim segs \<longleftrightarrow> segs \<noteq> [] \<and> list_all (\<lambda>s. s \<noteq> []) segs
     \<and> (case delim of [] \<Rightarrow> length segs = 1 | [c] \<Rightarrow> list_all (\<lambda>s. c \<notin> set s) segs | _ \<Rightarrow> False)"

fun store_segments :: "'t ParamStruct \<Rightarrow> nat \<Rightarrow> string list \<Rightarrow> ('t \<Rightarrow> opt_value) \<Rightarrow> ('t \<Rightarrow> opt_value) option" where
  "store_segments pr i [] opts = Some opts"
| "store_segments pr i (s # ss) opts = do {
     opts \<leftarrow> store_segment pr i (if p_IgnoreCase pr then StringToLowerCase s else s) opts;
     store_segments pr (i + 1) ss opts }"

lemma next_segment_last: "delim = [] \<or> (\<exists>c. delim = [c] \<and> c \<notin> set s) \<Longrightarrow> next_segment delim s = (s, [])"
  by (auto simp: next_segment_def str_find_char_None [symmetric] split: option.splits)

lemma next_segment_more: "c \<notin> set s \<Longrightarrow> next_segment [c] (s @ c # r) = (s, r)"
  by (simp add: next_segment_def str_find_append)

lemma extract_printed:
  assumes "values_ok (p_Delimiter pr) segs"
  shows "extract_segments pr i (join_with (p_Delimiter pr) segs) opts
    = map_option (Pair (i + length segs)) (store_segments pr i segs opts)"
  using assms
proof (induction segs arbitrary: i opts)
  case (Cons s ss)
  let ?d = "p_Delimiter pr"
  have ne: "s \<noteq> []" using Cons.prems by (simp add: values_ok_def)
  have fin: "extract_segments pr j [] o1 = Some (j, o1)" for j o1 by (subst extract_segments.simps) simp
  show ?case
  proof (cases "ss = []")
    case True
    then have "next_segment ?d s = (s, [])" using Cons.prems
      by (intro next_segment_last) (auto simp: values_ok_def split: list.splits)
    then show ?thesis using True ne
      by (subst extract_segments.simps) (auto simp: fin Let_def split: bind_splits)
  next
    case False
    obtain c where c: "?d = [c]" "c \<notin> set s" using Cons.prems False
      by (auto simp: values_ok_def split: list.splits)
    have ok: "values_ok ?d ss" using Cons.prems False c by (simp add: values_ok_def)
    have j: "join_with ?d (s # ss) = s @ c # join_with ?d ss" using False c by (simp add: join_with_Cons)
    have n: "next_segment ?d (s @ c # join_with ?d ss) = (s, join_with ?d ss)" using c by (simp add: next_segment_more)
    show ?thesis unfolding j using ne
      by (subst extract_segments.simps) (auto simp: n Cons.IH [OF ok] Let_def option.map_comp o_def split: bind_splits)
  qed
qed (simp add: values_ok_def)

text \<open>A parameter changes nothing but its target, and what becomes of it depends on its old value alone.\<close>

definition segment_value :: "'t ParamStruct \<Rightarrow> nat \<Rightarrow> string \<Rightarrow> opt_value \<Rightarrow> opt_value option" where
  "segment_value pr i seg v =
     (case (p_Type pr, v) of
        (NONE, v) \<Rightarrow> Some v
      | (STRING, Strings xs) \<Rightarrow> map_option Strings (store_at i seg xs)
      | (INTEGER, Ints xs) \<Rightarrow> do { n \<leftarrow> stoi seg; map_option Ints (store_at i n xs) }
      | (STRING_VECTOR, StringVector xs) \<Rightarrow> Some (StringVector (xs @ [seg]))
      | (INTEGER_VECTOR, IntVector xs) \<Rightarrow> do { n \<leftarrow> stoi seg; Some (IntVector (xs @ [n])) }
      | (PATH, Paths xs) \<Rightarrow> map_option Paths (store_at i seg xs)
      | _ \<Rightarrow> None)"

fun segments_value :: "'t ParamStruct \<Rightarrow> nat \<Rightarrow> string list \<Rightarrow> opt_value \<Rightarrow> opt_value option" where
  "segments_value pr i [] v = Some v"
| "segments_value pr i (s # ss) v = do {
     v \<leftarrow> segment_value pr i (if p_IgnoreCase pr then StringToLowerCase s else s) v;
     segments_value pr (i + 1) ss v }"

lemma store_segment_value:
  "store_segment pr i seg opts = map_option (\<lambda>v. opts(p_Target pr := v)) (segment_value pr i seg (opts (p_Target pr)))"
  by (auto simp: store_segment_def segment_value_def Let_def fun_upd_idem split: ArgumentTypes.splits opt_value.splits option.splits bind_splits)

lemma store_segments_value:
  "store_segments pr i ss opts = map_option (\<lambda>v. opts(p_Target pr := v)) (segments_value pr i ss (opts (p_Target pr)))"
proof (induction ss arbitrary: i opts)
  case (Cons s ss)
  have upd: "fun_upd (opts(p_Target pr := w)) (p_Target pr) = fun_upd opts (p_Target pr)" for w by (simp add: fun_eq_iff)
  show ?case
    by (cases "segment_value pr i (if p_IgnoreCase pr then StringToLowerCase s else s) (opts (p_Target pr))")
      (simp_all add: store_segment_value Cons.IH upd del: fun_upd_apply, simp_all)
qed simp

section \<open>Settings on the command line\<close>

datatype 't setting = Set_switch "'t SwitchStruct" string | Set_param "'t ParamStruct" string "string list"

fun setting_text :: "'t setting \<Rightarrow> string" where
  "setting_text (Set_switch s nm) = nm"
| "setting_text (Set_param pr nm segs) = nm @ ''='' @ join_with (p_Delimiter pr) segs"

fun setting_target :: "'t setting \<Rightarrow> 't" where
  "setting_target (Set_switch s nm) = sw_Target s"
| "setting_target (Set_param pr nm segs) = p_Target pr"

fun setting_value :: "'t setting \<Rightarrow> opt_value \<Rightarrow> opt_value option" where
  "setting_value (Set_switch s nm) v = Some (Flag True)"
| "setting_value (Set_param pr nm segs) v = segments_value pr 0 segs v"

fun set_all :: "'t setting list \<Rightarrow> ('t \<Rightarrow> opt_value) \<Rightarrow> ('t \<Rightarrow> opt_value) option" where
  "set_all [] opts = Some opts"
| "set_all (s # ss) opts = do {
     v \<leftarrow> setting_value s (opts (setting_target s));
     set_all ss (opts(setting_target s := v)) }"

definition params_of :: "string \<Rightarrow> 't CommandParserImpl \<Rightarrow> 't ParamStruct list" where
  "params_of nm p = GlobalParams p @ CommandSpecificSettings p nm @ CommandSpecificParams p nm"

definition switches_of :: "string \<Rightarrow> 't CommandParserImpl \<Rightarrow> 't SwitchStruct list" where
  "switches_of nm p = GlobalSwitches p @ CommandSpecificSwitches p nm"

text \<open>The settings of a command, the names in any letters.\<close>

fun setting_ok :: "string \<Rightarrow> 't CommandParserImpl \<Rightarrow> 't setting \<Rightarrow> bool" where
  "setting_ok cmd p (Set_switch s nm) \<longleftrightarrow> s \<in> set (switches_of cmd p) \<and> StringToLowerCase nm \<in> set (map StringToLowerCase (sw_OptionsList s))"
| "setting_ok cmd p (Set_param pr nm segs) \<longleftrightarrow> pr \<in> set (params_of cmd p) \<and> StringToLowerCase nm \<in> set (map StringToLowerCase (p_OptionsList pr))
     \<and> values_ok (p_Delimiter pr) segs \<and> list_all (\<lambda>s. CHR ''='' \<notin> set s) segs"

text \<open>Tables in which every name leads to its own entry.\<close>

definition tables_ok :: "string \<Rightarrow> 't CommandParserImpl \<Rightarrow> bool" where
  "tables_ok cmd p \<longleftrightarrow> plain_names (params_of cmd p) \<and> list_all (\<lambda>pr. p_Delimiter pr \<noteq> ''='') (params_of cmd p)
     \<and> list_all (\<lambda>s. list_all (\<lambda>v. CHR ''='' \<notin> set v) (sw_OptionsList s)) (switches_of cmd p)
     \<and> list_all (\<lambda>pr. list_all (\<lambda>v. find_param (StringToLowerCase v @ ''='') (params_of cmd p) = Some (pr, StringToLowerCase v @ ''=''))
          (p_OptionsList pr)) (params_of cmd p)
     \<and> list_all (\<lambda>s. list_all (\<lambda>v. find_switch v (switches_of cmd p) = Some s) (sw_OptionsList s)) (switches_of cmd p)"

lemma process_with_sign:
  assumes "GetCurrentCommand p = Some c" "cmd = StringToLowerCase (CommandName c)" "CHR ''='' \<in> set arg"
    and "list_all (\<lambda>s. list_all (\<lambda>v. CHR ''='' \<notin> set v) (sw_OptionsList s)) (switches_of cmd p)"
  shows "ProcessSingleCommand arg p
    = (case find_param arg (params_of cmd p) of Some prc \<Rightarrow> take_param arg prc p | None \<Rightarrow> Some (False, p))"
proof -
  have "find_switch arg (GlobalSwitches p) = None" "find_switch arg (CommandSpecificSwitches p cmd) = None"
    using assms(3,4) by (auto simp: switches_of_def intro: find_switch_sign)
  moreover have "CurrentCommandNumber p \<noteq> 0" using assms(1) by (auto simp: GetCurrentCommand_def split: if_splits)
  ultimately show ?thesis using assms(1,2)
    by (auto simp: ProcessSingleCommand_def CheckForGlobalOptions_def CheckForCommandSpecificOptions_def params_of_def
        find_param_append take_param_def split: option.splits bind_splits)
qed

lemma find_switch_append:
  "find_switch arg (xs @ ys) = (case find_switch arg xs of None \<Rightarrow> find_switch arg ys | Some s \<Rightarrow> Some s)"
  by (simp only: find_switch_def find_append)

lemma process_without_sign:
  assumes "GetCurrentCommand p = Some c" "cmd = StringToLowerCase (CommandName c)" "CHR ''='' \<notin> set arg"
  shows "ProcessSingleCommand arg p
    = Some (case find_switch arg (switches_of cmd p) of Some s \<Rightarrow> (True, take_switch s p) | None \<Rightarrow> (False, p))"
proof -
  have "CurrentCommandNumber p \<noteq> 0" using assms(1) by (auto simp: GetCurrentCommand_def split: if_splits)
  then show ?thesis using assms(1,2)
    by (auto simp: ProcessSingleCommand_def CheckForGlobalOptions_def CheckForCommandSpecificOptions_def switches_of_def
        find_param_no_sign [OF assms(3)] find_switch_append split: option.splits)
qed

lemma process_setting:
  assumes "GetCurrentCommand p = Some c" "cmd = StringToLowerCase (CommandName c)" "tables_ok cmd p" "setting_ok cmd p s"
  shows "ProcessSingleCommand (setting_text s) p
    = map_option (\<lambda>v. (True, p\<lparr>Options := (Options p)(setting_target s := v)\<rparr>)) (setting_value s (Options p (setting_target s)))"
proof (cases s)
  case (Set_switch w nm)
  obtain v where v: "v \<in> set (sw_OptionsList w)" "StringToLowerCase nm = StringToLowerCase v" "w \<in> set (switches_of cmd p)"
    using assms(4) Set_switch by auto
  then have "CHR ''='' \<notin> set v" "find_switch v (switches_of cmd p) = Some w" using assms(3) by (auto simp: tables_ok_def list_all_iff)
  then have "CHR ''='' \<notin> set nm" "find_switch nm (switches_of cmd p) = Some w"
    using v(2) eq_sign_lower [of nm] eq_sign_lower [of v] by (auto simp: find_switch_def)
  then show ?thesis using process_without_sign [OF assms(1,2)] Set_switch by (simp add: take_switch_def)
next
  case (Set_param pr nm segs)
  let ?v = "join_with (p_Delimiter pr) segs"
  obtain v where v: "v \<in> set (p_OptionsList pr)" "StringToLowerCase nm = StringToLowerCase v" "pr \<in> set (params_of cmd p)"
    using assms(4) Set_param by auto
  have segs: "values_ok (p_Delimiter pr) segs" "list_all (\<lambda>s. CHR ''='' \<notin> set s) segs" using assms(4) Set_param by auto
  have d: "CHR ''='' \<notin> set (p_Delimiter pr)"
    using segs(1) v(3) assms(3) by (auto simp: values_ok_def tables_ok_def list_all_iff split: list.splits)
  have j: "CHR ''='' \<notin> set ?v"
    using segs(2) d by (induction "p_Delimiter pr" segs rule: join_with.induct) auto
  have "CHR ''='' \<notin> set v" using v assms(3) by (auto simp: tables_ok_def plain_names_def list_all_iff)
  then have nm: "CHR ''='' \<notin> set nm" using v(2) by (metis eq_sign_lower)
  have "find_param (nm @ ''='' @ ?v) (params_of cmd p) = Some (pr, StringToLowerCase nm @ ''='')"
  proof -
    have "plain_names (params_of cmd p)" using assms(3) by (simp add: tables_ok_def)
    then show ?thesis using find_param_named [OF nm j, of "params_of cmd p"] assms(3) v by (simp add: tables_ok_def list_all_iff)
  qed
  then have "ProcessSingleCommand (setting_text s) p = take_param (setting_text s) (pr, StringToLowerCase nm @ ''='') p"
    using process_with_sign [OF assms(1,2), of "setting_text s"] assms(3) Set_param by (simp add: tables_ok_def)
  then show ?thesis using Set_param
    by (cases "segments_value pr 0 segs (Options p (p_Target pr))")
      (simp_all add: take_param_def ExtractAndStoreParamInfo_def extract_printed [OF segs(1)] store_segments_value)
qed

lemma tables_updates [simp]:
  "params_of cmd (p\<lparr>Options := f\<rparr>) = params_of cmd p" "params_of cmd (p\<lparr>RawArguments := r\<rparr>) = params_of cmd p"
  "switches_of cmd (p\<lparr>Options := f\<rparr>) = switches_of cmd p" "switches_of cmd (p\<lparr>RawArguments := r\<rparr>) = switches_of cmd p"
  "GetCurrentCommand (p\<lparr>Options := f\<rparr>) = GetCurrentCommand p" "GetCurrentCommand (p\<lparr>RawArguments := r\<rparr>) = GetCurrentCommand p"
  by (simp_all add: params_of_def switches_of_def GetCurrentCommand_def)

lemma ok_updates [simp]:
  "tables_ok cmd (p\<lparr>Options := f\<rparr>) = tables_ok cmd p" "tables_ok cmd (p\<lparr>RawArguments := r\<rparr>) = tables_ok cmd p"
  "setting_ok cmd (p\<lparr>Options := f\<rparr>) s = setting_ok cmd p s" "setting_ok cmd (p\<lparr>RawArguments := r\<rparr>) s = setting_ok cmd p s"
  by (simp_all add: tables_ok_def) (cases s; simp)+

lemma parse_settings:
  assumes "GetCurrentCommand p = Some c" "cmd = StringToLowerCase (CommandName c)" "tables_ok cmd p" "list_all (setting_ok cmd p) ss"
  shows "ParseCommands constraint (map setting_text ss) p
    = do { opts \<leftarrow> set_all ss (Options p); constraint (p\<lparr>RawArguments := RawArguments p @ map setting_text ss, Options := opts\<rparr>) }"
  using assms
proof (induction ss arbitrary: p)
  case (Cons s ss)
  let ?p = "p\<lparr>RawArguments := RawArguments p @ [setting_text s]\<rparr>"
  have step: "ProcessSingleCommand (setting_text s) ?p
    = map_option (\<lambda>v. (True, ?p\<lparr>Options := (Options ?p)(setting_target s := v)\<rparr>)) (setting_value s (Options ?p (setting_target s)))"
    using Cons.prems by (intro process_setting) auto
  show ?case
  proof (cases "setting_value s (Options p (setting_target s))")
    case (Some v)
    let ?q = "?p\<lparr>Options := (Options p)(setting_target s := v)\<rparr>"
    have "ParseCommands constraint (map setting_text ss) ?q
      = do { opts \<leftarrow> set_all ss (Options ?q); constraint (?q\<lparr>RawArguments := RawArguments ?q @ map setting_text ss, Options := opts\<rparr>) }"
      using Cons.prems by (intro Cons.IH) simp_all
    then show ?thesis using step Some by simp
  qed (use step in simp)
qed simp

text \<open>Settings of different targets may come in any order.\<close>

definition setting_values :: "'t setting list \<Rightarrow> ('t \<Rightarrow> opt_value) \<Rightarrow> ('t \<times> opt_value option) list" where
  "setting_values ss opts = map (\<lambda>s. (setting_target s, setting_value s (opts (setting_target s)))) ss"

lemma set_all_values:
  assumes "distinct (map setting_target ss)"
  shows "set_all ss opts = (if None \<in> snd ` set (setting_values ss opts) then None
    else Some (\<lambda>t. case map_of (setting_values ss opts) t of Some (Some v) \<Rightarrow> v | _ \<Rightarrow> opts t))"
  using assms
proof (induction ss arbitrary: opts)
  case (Cons s ss)
  let ?t = "setting_target s"
  show ?case
  proof (cases "setting_value s (opts ?t)")
    case None
    then show ?thesis by (simp add: setting_values_def)
  next
    case (Some v)
    have same: "setting_values ss (opts(?t := v)) = setting_values ss opts"
    proof -
      have "setting_target x \<noteq> ?t" if "x \<in> set ss" for x
        using Cons.prems imageI [OF that, of setting_target] by auto
      then show ?thesis by (simp add: setting_values_def)
    qed
    have "map_of (setting_values ss opts) ?t = None"
      using Cons.prems by (auto simp: map_of_eq_None_iff setting_values_def)
    moreover have "setting_values (s # ss) opts = (?t, Some v) # setting_values ss opts"
      using Some by (simp add: setting_values_def)
    moreover have "set_all ss (opts(?t := v)) = (if None \<in> snd ` set (setting_values ss opts) then None
        else Some (\<lambda>t. case map_of (setting_values ss opts) t of Some (Some w) \<Rightarrow> w | _ \<Rightarrow> (opts(?t := v)) t))"
    proof -
      have "distinct (map setting_target ss)" using Cons.prems by simp
      from Cons.IH [OF this, of "opts(?t := v)", unfolded same] show ?thesis .
    qed
    ultimately show ?thesis using Some by (auto simp: fun_eq_iff split: option.splits)
  qed
qed (simp add: setting_values_def)

lemma set_all_any_order:
  assumes "mset ss = mset ss'" "distinct (map setting_target ss)"
  shows "set_all ss opts = set_all ss' opts"
proof -
  have d: "distinct (map setting_target ss')" using assms by (metis mset_eq_imp_distinct_iff mset_map)
  have "set (setting_values ss opts) = set (setting_values ss' opts)"
    by (simp add: setting_values_def mset_eq_setD [OF assms(1)])
  moreover from this have "map_of (setting_values ss opts) = map_of (setting_values ss' opts)"
    using assms(2) d by (subst map_of_inject_set) (simp_all add: setting_values_def o_def)
  ultimately show ?thesis using assms(2) d by (simp add: set_all_values)
qed

section \<open>A first argument that is no command\<close>

lemma unknown_argument_undefined:
  assumes "CurrentCommandNumber p = 0" "find_param arg (GlobalParams p) = None" "find_switch arg (GlobalSwitches p) = None"
    and "CommandNameToNumberLookup p (StringToLowerCase arg) = None"
  shows "ProcessSingleCommand arg p = None"
  using assms by (simp add: ProcessSingleCommand_def CheckForGlobalOptions_def CheckForCommandChange_def
      CheckForCommandSpecificOptions_def GetCurrentCommand_def)

section \<open>Lines of the help\<close>

lemma space_upto_bounds: "space_upto s k = Some j \<Longrightarrow> j \<le> k \<and> j < length s"
proof (induction k arbitrary: j)
  case 0
  then show ?case by (subst (asm) space_upto.simps) (auto split: if_splits)
next
  case (Suc k)
  show ?case
  proof (cases "s ! Suc k = CHR '' ''")
    case False
    then have "space_upto s k = Some j" using Suc.prems by (subst (asm) space_upto.simps) (auto split: if_splits)
    with Suc.IH show ?thesis by fastforce
  qed (use Suc.prems in \<open>subst (asm) space_upto.simps, auto split: if_splits\<close>)
qed

lemma text_upto_bounds: "text_upto s k = Some j \<Longrightarrow> j \<le> k"
proof (induction k arbitrary: j)
  case 0
  then show ?case by (subst (asm) text_upto.simps) (auto split: if_splits)
next
  case (Suc k)
  show ?case
  proof (cases "s ! Suc k \<noteq> CHR '' ''")
    case False
    then have "text_upto s k = Some j" using Suc.prems by (subst (asm) text_upto.simps) (auto split: if_splits)
    with Suc.IH show ?thesis by fastforce
  qed (use Suc.prems in \<open>subst (asm) text_upto.simps, auto split: if_splits\<close>)
qed

lemma split_size_bounds:
  assumes "split_size m s = Some n"
  shows "2 \<le> n \<and> n \<le> m + 2"
proof -
  obtain k j where k: "space_upto s (nat (to_uint32 (int m + 1))) = Some k" "k \<noteq> 0" "text_upto s (k - 1) = Some j" "n = j + 2"
    using assms by (auto simp: split_size_def split: bind_splits if_splits)
  have "to_uint32 (int m + 1) \<le> int m + 1" by (simp add: to_uint32_def zmod_le_nonneg_dividend)
  then have "nat (to_uint32 (int m + 1)) \<le> m + 1" by linarith
  then show ?thesis using space_upto_bounds [OF k(1)] text_upto_bounds [OF k(3)] k(2,4) by linarith
qed

text \<open>The lines are pieces of the text in order, none longer than the limit and two.\<close>

lemma wrap_line_pieces:
  assumes "wrap_line limit m s = Some ls" "limit \<le> m + 1"
  shows "concat ls = s \<and> ls \<noteq> [] \<and> list_all (\<lambda>l. length l \<le> m + 2) ls"
  using assms
proof (induction limit m s arbitrary: ls rule: wrap_line.induct)
  case (1 limit m s)
  show ?case
  proof (cases "length s > limit")
    case True
    then obtain n ls' where n: "split_size m s = Some n" "wrap_line limit m (drop n s) = Some ls'" "ls = take n s # ls'"
      using "1.prems"(1) by (subst (asm) wrap_line.simps) (auto split: option.splits)
    with "1.IH" [OF True n(1) n(2) "1.prems"(2)] split_size_bounds [OF n(1)] show ?thesis by (auto simp: min_le_iff_disj)
  next
    case False
    then have "ls = [s]" using "1.prems"(1) by (subst (asm) wrap_line.simps) auto
    then show ?thesis using False "1.prems"(2) by simp
  qed
qed

lemma wrap_lines_pieces:
  assumes "wrap_lines m cs = Some ls" "cs \<noteq> []"
  shows "concat ls = concat (map clean_line cs) \<and> ls \<noteq> [] \<and> list_all (\<lambda>l. length l \<le> m + 2) ls"
  using assms
proof (induction m cs arbitrary: ls rule: wrap_lines.induct)
  case (2 m l)
  have "to_uint32 (int m + 1) \<le> int m + 1" by (simp add: to_uint32_def zmod_le_nonneg_dividend)
  then have "nat (to_uint32 (int m + 1)) \<le> m + 1" by linarith
  then show ?case using wrap_line_pieces "2.prems"(1) by simp
next
  case (3 m l l' ls')
  then obtain xs ys where "wrap_line m m (clean_line l) = Some xs" "wrap_lines m (l' # ls') = Some ys" "ls = xs @ ys"
    by (auto split: bind_splits)
  then show ?case using wrap_line_pieces [of m m "clean_line l" xs] "3.IH" by simp
qed simp

lemma clean_line_set: "c \<in> set (clean_line s) \<Longrightarrow> c \<noteq> LF \<and> c \<noteq> CR"
  by (simp add: clean_line_def)

lemma clean_line_id: "LF \<notin> set s \<Longrightarrow> CR \<notin> set s \<Longrightarrow> clean_line s = s"
  by (auto simp: clean_line_def intro!: filter_True)

text \<open>
  The help text keeps every character of the message but carriage returns and newlines: the lines printed begin with
  the header and then with the indentation, and the rest of them put together is the message. No line is longer than the limit
  and two characters.
\<close>

theorem help_text_kept:
  assumes "FormatHelpMessage w header content = Some out" "LF \<notin> set header"
  shows "\<exists>l ls. lines_of out = (header @ replicate (w - length header) (CHR '' '') @ l) # map (\<lambda>x. replicate w (CHR '' '') @ x) ls
    \<and> concat (l # ls) = concat (map clean_line (lines_of content))
    \<and> list_all (\<lambda>x. length x \<le> max_line w + 2) (l # ls)"
proof -
  obtain l ls where w: "wrap_lines (max_line w) (lines_of content) = Some (l # ls)"
    "out = join_with [LF] ((header @ replicate (w - length header) (CHR '' '') @ clean_line l)
       # map (\<lambda>x. replicate w (CHR '' '') @ clean_line x) ls)"
    using assms(1) by (auto simp: FormatHelpMessage_def split: bind_splits list.splits)
  note pieces = wrap_lines_pieces [OF w(1)]
  have "c \<noteq> LF \<and> c \<noteq> CR" if "x \<in> set (l # ls)" "c \<in> set x" for x c
  proof -
    have "c \<in> set (concat (l # ls))" using that by auto
    moreover have "concat (l # ls) = concat (map clean_line (lines_of content))" using pieces by simp
    ultimately have "c \<in> set (concat (map clean_line (lines_of content)))" by metis
    then show ?thesis using clean_line_set by auto
  qed
  then have clean: "clean_line x = x" "LF \<notin> set x" if "x \<in> set (l # ls)" for x
    using that by (auto intro: clean_line_id)
  have m: "map (\<lambda>x. replicate w (CHR '' '') @ clean_line x) ls = map (\<lambda>x. replicate w (CHR '' '') @ x) ls"
    by (rule map_cong) (use clean in simp_all)
  have out: "out = join_with [LF] ((header @ replicate (w - length header) (CHR '' '') @ l) # map (\<lambda>x. replicate w (CHR '' '') @ x) ls)"
    unfolding w(2) m using clean(1) [of l] by simp
  have "lines_of out = (header @ replicate (w - length header) (CHR '' '') @ l) # map (\<lambda>x. replicate w (CHR '' '') @ x) ls"
    unfolding out using assms(2) clean(2) by (intro join_with_lines) (auto simp: list_all_iff)
  then show ?thesis using pieces by auto
qed

text \<open>A line that is not the last one and one character too long makes the help throw.\<close>

lemma help_line_one_too_long:
  assumes "length s = m + 1" "m + 1 < 2 ^ 32"
  shows "wrap_line m m s = None"
proof -
  have "nat (to_uint32 (int m + 1)) = m + 1" using assms(2) by (simp add: to_uint32_def)
  then have "space_upto s (nat (to_uint32 (int m + 1))) = None" using assms(1) by (subst space_upto.simps) simp
  then show ?thesis using assms(1) by (subst wrap_line.simps) (simp add: split_size_def)
qed

theorem help_text_kept_witness:
  "\<exists>out l ls. FormatHelpMessage 100 ''-v'' ''Turn on logging'' = Some out
    \<and> lines_of out = (''-v'' @ replicate (100 - length ''-v'') (CHR '' '') @ l) # map (\<lambda>x. replicate 100 (CHR '' '') @ x) ls
    \<and> concat (l # ls) = concat (map clean_line (lines_of ''Turn on logging''))"
proof -
  have f: "FormatHelpMessage 100 ''-v'' ''Turn on logging''
    = Some (''-v'' @ replicate 98 (CHR '' '') @ ''Turn on '' @ [LF] @ replicate 100 (CHR '' '') @ ''logging'')"
    (is "_ = Some ?out") by code_simp
  have "LF \<notin> set ''-v''" by code_simp
  from help_text_kept [OF f this] f show ?thesis by blast
qed

end
