(* ===== verification/IddCommand.thy ===== *)
theory IddCommand
  imports CommandParser
begin

text \<open>
  The commands and options of the driver set-up tool, \<open>sources/apps/idd-setup-tool/IddSetupToolCommandParser.cpp\<close>: the tables
  the constructor builds, with their texts, and the constraints on what was parsed. The description of
  \<open>uninstall\<close> announces four strings and passes three, a comma being missing between two of them: \<open>stray\<close> is what the read
  behind the arguments finds, nothing when it is not a string.
\<close>

section \<open>Options\<close>

datatype idd_option =
    Verbose | Yes | Help | InstallIdd | UninstallIdd | TrustInf | PairIdd | ForceNoUninstall | ForceNoPair | InfPath
  | Resolutions | Scale | RearrangeDisplays | AdaptersToDisable | DisplaysToDisable | AdaptersToEnable | DisplaysToEnable
  | ShowIddCount | ShowAdaptersInfo | ShowDisplaysInfo | IndentationLevel | PostActionDelay | DumpConfiguration

fun idd_options :: "idd_option \<Rightarrow> opt_value" where
  "idd_options InfPath = Paths [[]]"
| "idd_options Resolutions = Ints [0, 0]"
| "idd_options Scale = Ints [0]"
| "idd_options AdaptersToDisable = StringVector []"
| "idd_options DisplaysToDisable = StringVector []"
| "idd_options AdaptersToEnable = StringVector []"
| "idd_options DisplaysToEnable = StringVector []"
| "idd_options ShowIddCount = Strings [[]]"
| "idd_options ShowAdaptersInfo = Strings [[]]"
| "idd_options ShowDisplaysInfo = Strings [[]]"
| "idd_options IndentationLevel = Ints [0]"
| "idd_options PostActionDelay = Ints [2000]"
| "idd_options _ = Flag False"

fun flag_of :: "opt_value \<Rightarrow> bool" where
  "flag_of (Flag b) = b"
| "flag_of _ = False"

fun int_at :: "nat \<Rightarrow> opt_value \<Rightarrow> int" where
  "int_at i (Ints xs) = xs ! i"
| "int_at i _ = 0"

fun string_of :: "opt_value \<Rightarrow> string" where
  "string_of (Strings xs) = xs ! 0"
| "string_of (Paths xs) = xs ! 0"
| "string_of _ = []"

fun strings_of :: "opt_value \<Rightarrow> string list" where
  "strings_of (StringVector xs) = xs"
| "strings_of _ = []"

section \<open>Tables\<close>

abbreviation tool :: string where "tool \<equiv> ''idd-setup-tool.exe''"

definition add_globals :: "idd_option CommandParserImpl \<Rightarrow> idd_option CommandParserImpl option" where
  "add_globals p = do {
     p \<leftarrow> AddGlobalSwitch Verbose ''Turn on additional logging (default: off)'' 2 [''-v'', ''--verbose''] p;
     p \<leftarrow> AddGlobalSwitch Help ''Print help'' 2 [''-h'', ''--help''] p;
     p \<leftarrow> AddGlobalSwitch Yes ''Assume \"yes\" on all prompts (default: off)'' 2 [''-y'', ''--yes''] p;
     p \<leftarrow> AddGlobalParam PostActionDelay INTEGER True [] 1 ''Applies the specified delay (in milliseconds) after every action that changes display or adapter states (default: 2000ms)'' 1 [''--delay''] p;
     p \<leftarrow> AddGlobalParam IndentationLevel INTEGER True [] 1 ''Offset all output from this tool by this amount'' 1 [''--indentation''] p;
     let p = p\<lparr>GlobalParams := on_last SetHidden_param (GlobalParams p)\<rparr>;
     p \<leftarrow> AddGlobalSwitch DumpConfiguration ''Causes tool to append values of all configuration options interpreted by this command parser to the file idd_setup_tool_dumped_configuration_values.csv.'' 1 [''--dump-configuration-values''] p;
     let p = p\<lparr>GlobalSwitches := on_last SetHidden_switch (GlobalSwitches p)\<rparr>;
     AddGlobalBugs 6
       [''Some functions of this tool do not work in non-interactive shells. A list of known commands that require interactive shells is below; but overall this tool is not validated in non-interactive shell.'',
        '' - \"'' @ tool @ '' set\" scaling change functionality.'',
        '' - \"'' @ tool @ '' install\" scaling change functionality.'',
        [],
        ''Some functions of this tool have a known instability when running operations immediately after enabling or disabling adapters.'',
        ''In our testing this is resolved by including a small delay between sensitive actions which is applied by default (2000ms) if an adapter has been disabled or enabled. However this can be set to zero or increased if required by using the \"--delay=<VALUE>\" parameter.''] p }"

definition add_commands :: "idd_option CommandParserImpl \<Rightarrow> idd_option CommandParserImpl" where
  "add_commands p =
     fold (\<lambda>(nm, text). AddCommand nm text)
       [(''install'', ''Installs IDD''), (''uninstall'', ''Uninstalls IDD''), (''set'', ''Configure adapter(s) settings''),
        (''enable'', ''Enable adapters or displays''), (''disable'', ''Disable adapters or displays''),
        (''pair'', ''Pair adapters to IDD displays''), (''rearrange'', ''Rearrange available displays''),
        (''show'', ''Show information related to IDD setup'')] p"

abbreviation adapter_patterns :: string where "adapter_patterns \<equiv> ''specified adapter (options: msft, idd, flex)''"

abbreviation display_patterns :: string where "display_patterns \<equiv> ''specified display (options: non-flex, msft, idd, virtio, non-idd)''"

definition add_install_options :: "idd_option CommandParserImpl \<Rightarrow> idd_option CommandParserImpl option" where
  "add_install_options p = do {
     let c = ''install'';
     p \<leftarrow> AddCommandSpecificParam c InfPath PATH False [] 1 (''Location of IDD driver (IddSampleDriver.inf) to install (default: $bindir'' @ [CHR 0x5C] @ ''idd'' @ [CHR 0x5C] @ '')'') 1 [''--location''] p;
     p \<leftarrow> AddCommandSpecificSwitch c TrustInf ''Extract certificate and add it to the trusted store (default: no)'' 1 [''--trust''] p;
     p \<leftarrow> AddCommandSpecificParam c Scale INTEGER True [] 1 ''Configure specified scaling for the display (default: use system default)'' 1 [''--scale''] p;
     p \<leftarrow> AddCommandSpecificParam c Resolutions INTEGER True ''x'' 2 ''Configure specified resolution for the display (default: use system default)'' 1 [''--resolution''] p;
     p \<leftarrow> AddCommandSpecificSwitch c RearrangeDisplays ''Rearrange displays horizontally, set leftmost as primary'' 1 [''--rearrange''] p;
     p \<leftarrow> AddCommandSpecificParam c AdaptersToDisable STRING_VECTOR True '','' 0 (''Disable '' @ adapter_patterns) 1 [''--disable-adapter''] p;
     p \<leftarrow> AddCommandSpecificParam c DisplaysToDisable STRING_VECTOR True '','' 0 (''Disable '' @ display_patterns) 1 [''--disable-display''] p;
     p \<leftarrow> AddCommandSpecificSwitch c ForceNoUninstall ''Perform installation with no uninstall step'' 1 [''--force-no-uninstall''] p;
     let p = p\<lparr>CommandSpecificSwitches := (CommandSpecificSwitches p)(c := on_last SetHidden_switch (CommandSpecificSwitches p c))\<rparr>;
     p \<leftarrow> AddCommandSpecificSwitch c ForceNoPair ''Perform installation with no pair step'' 1 [''--force-no-pair''] p;
     Some (p\<lparr>CommandSpecificSwitches := (CommandSpecificSwitches p)(c := on_last SetHidden_switch (CommandSpecificSwitches p c))\<rparr>) }"

definition add_other_options :: "idd_option CommandParserImpl \<Rightarrow> idd_option CommandParserImpl option" where
  "add_other_options p = do {
     p \<leftarrow> AddCommandSpecificParam ''uninstall'' AdaptersToEnable STRING_VECTOR True '','' 0 ''Enable specified adapter after IDD uninstallation (options: msft, idd, flex)'' 1 [''--enable-adapter''] p;
     p \<leftarrow> AddCommandSpecificParam ''uninstall'' DisplaysToEnable STRING_VECTOR True '','' 0 ''Enable specified display after IDD uninstallation (options: non-flex, msft, idd, virtio, non-idd)'' 1 [''--enable-display''] p;
     p \<leftarrow> AddCommandSpecificSetting ''set'' Scale INTEGER True [] 1 ''Configure specified scaling for the display'' 1 [''scale''] p;
     p \<leftarrow> AddCommandSpecificSetting ''set'' Resolutions INTEGER True ''x'' 2 ''Configure specified resolution for the display'' 1 [''resolution''] p;
     p \<leftarrow> AddCommandSpecificSetting ''enable'' AdaptersToEnable STRING_VECTOR True '','' 0 (''Enable '' @ adapter_patterns) 1 [''adapter''] p;
     p \<leftarrow> AddCommandSpecificSetting ''enable'' DisplaysToEnable STRING_VECTOR True '','' 0 (''Enable '' @ display_patterns) 1 [''display''] p;
     p \<leftarrow> AddCommandSpecificSetting ''disable'' AdaptersToDisable STRING_VECTOR True '','' 0 (''Disable '' @ adapter_patterns) 1 [''adapter''] p;
     p \<leftarrow> AddCommandSpecificSetting ''disable'' DisplaysToDisable STRING_VECTOR True '','' 0 (''Disable '' @ display_patterns) 1 [''display''] p;
     p \<leftarrow> AddCommandSpecificParam ''show'' ShowIddCount STRING True [] 1 ''If this option is \"yes\" then print number of IDD-compatible adapters on the system (default: yes)'' 1 [''--count''] p;
     p \<leftarrow> AddCommandSpecificParam ''show'' ShowAdaptersInfo STRING True [] 1 ''If this option is \"yes\" then print some information on adapters (default: yes)'' 1 [''--adapters''] p;
     AddCommandSpecificParam ''show'' ShowDisplaysInfo STRING True [] 1 ''If this option is \"yes\" then print some information on displays (default: yes)'' 1 [''--displays''] p }"

definition pattern_lines :: "string list" where
  "pattern_lines =
     ['' - non-flex = All except Intel Data Center GPU Flex'',
      '' - msft     = Microsoft Basic Adapter'',
      '' - virtio   = Red Hat VirtIO GPU DOD controller and Red Hat QXL controller'',
      '' - idd      = Intel IddSampleDriver Device'',
      '' - flex     = Intel Data Center GPU Flex Series'',
      '' - non-idd  = All except Intel IddSampleDriver Device'',
      ''Specific displays and adapters can be targeted by supplying one of the above patterns with an index (e.g. idd1 disable only the first idd display or adapter).'',
      [CHR 0x27] @ ''show'' @ [CHR 0x27] @ '' command can be used to enumerate the full list of patterns that will affect each adapter or display.'',
      ''Default ordering of this tool is:'']"

definition add_descriptions :: "string list \<Rightarrow> idd_option CommandParserImpl \<Rightarrow> idd_option CommandParserImpl option" where
  "add_descriptions stray p = do {
     p \<leftarrow> AddGlobalDescription 3
       [''The order in which arguments are supplied to this tool is not important, with the exception of the <command> argument which must come before any arguments specific to that command.'',
        [],
        ''All options and modes in this tool are case insensitive; though the values provided to these options (e.g. a path to an INF file) may still be case sensitive.''] p;
     p \<leftarrow> AddCommandSpecificDescription ''install'' 12
       [''Installs IDD display for each IDD compatible adapter.'',
        ''This will uninstall any previously installed IDD displays prior to installation of new IDD displays.'',
        [],
        ''Pairing is done automatically following installation.'',
        ''See \"idd-setup-tool.exe pair --help\" for more details on pairing.'',
        [],
        ''Using \"--resolution\" or \"--scale\" you can configure any installed IDD displays resolution.'',
        ''This behaves identical to \"idd-setup-tool.exe set\" in terms of behavior.'',
        ''See \"idd-setup-tool.exe set --help\" for more details on setting IDD resolution and scaling.'',
        [],
        ''Using \"--disable-adapter\" or \"--disable-display\" you can disable specific adapters or displays specified by the pattern.'',
        ''See \"idd-setup-tool.exe disable --help\" for more details on adapter and display disabling, as well as the detailed list of supported patterns.''] p;
     p \<leftarrow> AddCommandSpecificDescription ''uninstall'' 4
       ([''Uninstalls any detected IDD display.'',
         ''Using \"--enable-adapter\" or \"--enable-display\" you can enable specific adapters or displays specified by the pattern.'',
         ''See \"idd-setup-tool.exe enable --help\" for more details on adapter and display enabling, as well as the detailed list of supported patterns.''] @ stray) p;
     p \<leftarrow> AddCommandSpecificDescription ''set'' 6
       [''Configures given setting for available IDD displays.'',
        [],
        ''Mind that if the order in which these settings are set is important, this should be done by execution of \"idd-setup-tool.exe set\" a few times consecutively'',
        ''Default ordering of this tool is:'',
        '' - Resolution'',
        '' - Scaling''] p;
     p \<leftarrow> AddCommandSpecificDescription ''enable'' 15
       ([''Enables specified adapters/displays.'', [], ''Using \"adapter\" or \"display\" you can enable adapters or displays specified by a pattern:'']
        @ pattern_lines @ ['' - Enable adapters'', '' - Enable displays'', ''Note: Some of these patterns are display or adapter only.'']) p;
     p \<leftarrow> AddCommandSpecificDescription ''disable'' 15
       ([''Disables specified adapters/displays.'', [], ''Using \"adapter\" or \"display\" you can disable adapters or displays specified by a pattern:'']
        @ pattern_lines @ ['' - Disable adapters'', '' - Disable displays'', ''Note: Some of these patterns are display or adapter only.'']) p;
     p \<leftarrow> AddCommandSpecificDescription ''pair'' 2
       [''Loops through IDD displays and adapters and pairs each IDD display with next IDD compatible adapter.'',
        ''If there are more displays than adapters, adapters loop starts anew so some adapters will be assigned with few displays.''] p;
     p \<leftarrow> AddCommandSpecificBugs ''pair'' 9
       [''This command will likely re-enable MSFT basic display (and perhaps any other disabled displays).'',
        ''It is recommended to disable any unwanted displays after running this command - or any other commands that run'',
        ''IDD paring such as install.'',
        [],
        ''Pairing should preserve over reboot. Its our bug that it'' @ [CHR 0x27] @ ''s not. As a workaround \"pair\" command must be re-run'',
        ''anytime the following occurs:'',
        '' - IDD Driver is disabled/enabled'',
        '' - GFX Driver is disabled/enabled'',
        '' - System is rebooted''] p;
     p \<leftarrow> AddCommandSpecificDescription ''rearrange'' 1
       [''Rearranges displays horizontally, and sets the leftmost display as the primary.''] p;
     AddCommandSpecificDescription ''show'' 2
       [''Prints information on adapters or displays.'',
        ''Along with information about each display and adapter the list of adapter and display enabling and disabling patterns that will affect each device is also displayed.''] p }"

definition add_tables :: "idd_option CommandParserImpl \<Rightarrow> idd_option CommandParserImpl option" where
  "add_tables p = do {
     p \<leftarrow> add_globals p;
     p \<leftarrow> add_install_options (add_commands p);
     add_other_options p }"

definition IddSetupToolCommandParser :: "string list \<Rightarrow> idd_option CommandParserImpl option" where
  "IddSetupToolCommandParser stray = do {
     p \<leftarrow> add_tables (command_parser tool idd_options);
     add_descriptions stray p }"

section \<open>Constraints\<close>

text \<open>
  The file system is a parameter: the default path, and whether the three driver files are in a directory. The process
  ends with 0 after the help was shown, and with -1 after an error. Writing the configuration values to
  a file changes nothing of the state and is a function of its own.
\<close>

abbreviation idd_flag :: "idd_option \<Rightarrow> idd_option CommandParserImpl \<Rightarrow> bool" where
  "idd_flag f p \<equiv> flag_of (Options p f)"

definition set_flag :: "idd_option \<Rightarrow> idd_option CommandParserImpl \<Rightarrow> idd_option CommandParserImpl" where
  "set_flag f p = p\<lparr>Options := (Options p)(f := Flag True)\<rparr>"

definition default_yes :: "idd_option \<Rightarrow> idd_option CommandParserImpl \<Rightarrow> idd_option CommandParserImpl" where
  "default_yes f p = (if string_of (Options p f) = [] then p\<lparr>Options := (Options p)(f := Strings [''yes''])\<rparr> else p)"

definition needs_setting :: "string \<Rightarrow> idd_option CommandParserImpl \<Rightarrow> bool" where
  "needs_setting nm p \<longleftrightarrow>
     (nm = ''set'' \<and> int_at 0 (Options p Resolutions) = 0 \<and> int_at 0 (Options p Scale) = 0)
   \<or> (nm = ''enable'' \<and> strings_of (Options p AdaptersToEnable) = [] \<and> strings_of (Options p DisplaysToEnable) = [])
   \<or> (nm = ''disable'' \<and> strings_of (Options p AdaptersToDisable) = [] \<and> strings_of (Options p DisplaysToDisable) = [])"

definition command_modes :: "string \<Rightarrow> idd_option CommandParserImpl \<Rightarrow> idd_option CommandParserImpl" where
  "command_modes nm p =
     (if nm = ''install''
      then let p = (if \<not> idd_flag ForceNoUninstall p then set_flag UninstallIdd p else p);
               p = set_flag InstallIdd p
           in if \<not> idd_flag ForceNoPair p then set_flag PairIdd p else p
      else if nm = ''uninstall'' then set_flag UninstallIdd p
      else if nm = ''pair'' then set_flag PairIdd p
      else if nm = ''rearrange'' then set_flag RearrangeDisplays p
      else if nm = ''show'' then default_yes ShowIddCount (default_yes ShowDisplaysInfo (default_yes ShowAdaptersInfo p))
      else p)"

definition ConstraintFunction ::
  "string \<Rightarrow> (string \<Rightarrow> bool) \<Rightarrow> idd_option CommandParserImpl \<Rightarrow> (bool \<times> idd_option CommandParserImpl) outcome option" where
  "ConstraintFunction default_path idd_ok p =
     (case (idd_flag Help p, GetCurrentCommand p) of
        (False, Some c) \<Rightarrow>
          (let nm = StringToLowerCase (CommandName c)
           in if needs_setting nm p then Some (Exit (-1))
              else let p = command_modes nm p
                   in if idd_flag InstallIdd p \<or> idd_flag TrustInf p
                      then let path = (if string_of (Options p InfPath) = [] then default_path else string_of (Options p InfPath));
                               p = p\<lparr>Options := (Options p)(InfPath := Paths [path])\<rparr>
                           in Some (if idd_ok path then Ret (True, p) else Exit (-1))
                      else Some (Ret (True, p)))
      | _ \<Rightarrow> do { _ \<leftarrow> ShowHelpMessage (nat (to_uint32 (int_at 0 (Options p IndentationLevel)))) p; Some (Exit 0) })"

definition flag_text :: "bool \<Rightarrow> string" where
  "flag_text b = (if b then ''1'' else ''0'')"

definition dump_columns :: "string list" where
  "dump_columns = [''CL'', ''Verbose'', ''Yes'', ''Help'', ''InstallIdd'', ''UninstallIdd'', ''TrustInf'', ''PairIdd'', ''ForceNoUninstall'',
     ''ForceNoPair'', ''InfPath'', ''Resolutions.Width'', ''Resolutions.Height'', ''Scale'', ''RearrangeDisplays'', ''AdaptersToDisable'',
     ''DisplaysToDisable'', ''AdaptersToEnable'', ''DisplaysToEnable'', ''ShowIddCount'', ''ShowAdaptersInfo'', ''ShowDisplaysInfo'',
     ''IndentationLevel'', ''PostActionDelay'']"

text \<open>
  The values go to the end of a file, behind a line of titles when it is new. The path is given to a stream of narrow characters
  as a pointer to wide ones, which prints its address, \<open>addr\<close>.
\<close>

definition dump_values :: "string \<Rightarrow> idd_option CommandParserImpl \<Rightarrow> string list" where
  "dump_values addr p =
     (let v = Options p; f = (\<lambda>x. flag_text (flag_of (v x)))
      in [join_with '' '' (RawArguments p), f Verbose, f Yes, f Help, f InstallIdd, f UninstallIdd, f TrustInf, f PairIdd,
          f ForceNoUninstall, f ForceNoPair, addr, dec_of_int (int_at 0 (v Resolutions)),
          dec_of_int (int_at 1 (v Resolutions)), dec_of_int (int_at 0 (v Scale)), f RearrangeDisplays,
          join_with ''|'' (strings_of (v AdaptersToDisable)), join_with ''|'' (strings_of (v DisplaysToDisable)),
          join_with ''|'' (strings_of (v AdaptersToEnable)), join_with ''|'' (strings_of (v DisplaysToEnable)),
          string_of (v ShowIddCount), string_of (v ShowAdaptersInfo), string_of (v ShowDisplaysInfo),
          dec_of_int (to_uint32 (int_at 0 (v IndentationLevel))), dec_of_int (to_uint32 (int_at 0 (v PostActionDelay)))])"

definition DumpConfigurationValues :: "string \<Rightarrow> idd_option CommandParserImpl \<Rightarrow> string option \<Rightarrow> string" where
  "DumpConfigurationValues addr p file =
     (case file of None \<Rightarrow> join_with '','' dump_columns @ [LF] | Some s \<Rightarrow> s) @ join_with '','' (dump_values addr p) @ [LF]"

end
