(* ===== verification/IddCommandProps.thy ===== *)
theory IddCommandProps
  imports IddCommand CommandParserProps
begin

text \<open>
  What the driver set-up tool makes of its command line: every list of settings of a command is parsed as written, in
  any order and in any letters; what is accepted or undefined although it should be refused.
\<close>

section \<open>The tables the constructor builds\<close>

lemma raise_counter_same [simp]:
  "CurrentCommandNumber (raise_counter k n p) = CurrentCommandNumber p" "GlobalDescription (raise_counter k n p) = GlobalDescription p"
  "GlobalBugs (raise_counter k n p) = GlobalBugs p" "Commands (raise_counter k n p) = Commands p"
  "CommandNumberToNameLookup (raise_counter k n p) = CommandNumberToNameLookup p"
  "CommandNameToNumberLookup (raise_counter k n p) = CommandNameToNumberLookup p"
  "GlobalSwitches (raise_counter k n p) = GlobalSwitches p" "GlobalParams (raise_counter k n p) = GlobalParams p"
  "CommandSpecificSettings (raise_counter k n p) = CommandSpecificSettings p"
  "CommandSpecificSwitches (raise_counter k n p) = CommandSpecificSwitches p"
  "CommandSpecificParams (raise_counter k n p) = CommandSpecificParams p"
  "ToolName (raise_counter k n p) = ToolName p" "RawArguments (raise_counter k n p) = RawArguments p" "Options (raise_counter k n p) = Options p"
  by (simp_all add: raise_counter_def)

lemma command_names [simp]:
  "StringToLowerCase ''install'' = ''install''" "StringToLowerCase ''uninstall'' = ''uninstall''" "StringToLowerCase ''set'' = ''set''"
  "StringToLowerCase ''enable'' = ''enable''" "StringToLowerCase ''disable'' = ''disable''" "StringToLowerCase ''pair'' = ''pair''"
  "StringToLowerCase ''rearrange'' = ''rearrange''" "StringToLowerCase ''show'' = ''show''"
  by code_simp+

definition idd_commands :: "string list" where
  "idd_commands = [''install'', ''uninstall'', ''set'', ''enable'', ''disable'', ''pair'', ''rearrange'', ''show'']"

text \<open>The part of the state that decides about arguments.\<close>

definition parse_view :: "'t CommandParserImpl \<Rightarrow> _" where
  "parse_view p = (CurrentCommandNumber p, map CommandName (Commands p), CommandNameToNumberLookup p, GlobalSwitches p, GlobalParams p,
     CommandSpecificSettings p, CommandSpecificSwitches p, CommandSpecificParams p, RawArguments p, Options p)"

lemma update_command_view:
  assumes "update_command nm f p = Some p'" "\<And>c. CommandName (f c) = CommandName c"
  shows "parse_view p' = parse_view p"
proof -
  have "map CommandName (xs[i := f (xs ! i)]) = map CommandName xs" for xs i
    using assms(2) by (cases "i < length xs") (simp_all add: map_update list_update_same_conv list_update_beyond)
  then show ?thesis using assms(1) by (auto simp: update_command_def parse_view_def split: bind_splits if_splits)
qed

lemma description_views:
  "AddGlobalDescription n xs p = Some p' \<Longrightarrow> parse_view p' = parse_view p"
  "AddCommandSpecificDescription nm n xs p = Some p' \<Longrightarrow> parse_view p' = parse_view p"
  "AddCommandSpecificBugs nm n xs p = Some p' \<Longrightarrow> parse_view p' = parse_view p"
  by (auto simp: AddGlobalDescription_def AddCommandSpecificDescription_def AddCommandSpecificBugs_def parse_view_def split: bind_splits)
    (auto simp: parse_view_def dest: update_command_view)

lemma add_descriptions_view: "add_descriptions stray p = Some p' \<Longrightarrow> parse_view p' = parse_view p"
  unfolding add_descriptions_def by (auto dest!: description_views split: bind_splits)

definition idd_tables :: "idd_option CommandParserImpl" where
  "idd_tables = the (add_tables (command_parser tool idd_options))"

lemma add_tables_defined: "add_tables (command_parser tool idd_options) = Some idd_tables"
proof -
  have "add_tables (command_parser tool idd_options) \<noteq> None" by code_simp
  then show ?thesis by (auto simp: idd_tables_def)
qed

lemma idd_tables_ok: "list_all (\<lambda>cmd. tables_ok cmd idd_tables) idd_commands"
  by code_simp

lemma idd_tables_numbers:
  "map (CommandNameToNumberLookup idd_tables) idd_commands = map Some [1..<9] \<and> map CommandName (Commands idd_tables) = idd_commands
    \<and> CurrentCommandNumber idd_tables = 0 \<and> RawArguments idd_tables = []"
  by code_simp

definition kept :: "'t CommandParserImpl \<Rightarrow> _" where
  "kept p = (Options p, CommandNameToNumberLookup p, Commands p)"

lemma add_keeps:
  "AddGlobalSwitch tg h n xs p = Some p' \<Longrightarrow> kept p' = kept p"
  "AddGlobalParam tg ty i d k h n xs p = Some p' \<Longrightarrow> kept p' = kept p"
  "AddCommandSpecificSetting c tg ty i d k h n xs p = Some p' \<Longrightarrow> kept p' = kept p"
  "AddCommandSpecificParam c tg ty i d k h n xs p = Some p' \<Longrightarrow> kept p' = kept p"
  "AddCommandSpecificSwitch c tg h n xs p = Some p' \<Longrightarrow> kept p' = kept p"
  "AddGlobalBugs n xs p = Some p' \<Longrightarrow> kept p' = kept p"
  "kept (p\<lparr>GlobalParams := u\<rparr>) = kept p" "kept (p\<lparr>GlobalSwitches := v\<rparr>) = kept p" "kept (p\<lparr>CommandSpecificSwitches := w\<rparr>) = kept p"
  by (auto simp: AddGlobalSwitch_def AddGlobalParam_def AddCommandSpecificSetting_def AddCommandSpecificParam_def
      AddCommandSpecificSwitch_def AddGlobalBugs_def Let_def kept_def split: bind_splits)

lemma tables_keep:
  "add_globals p = Some p' \<Longrightarrow> kept p' = kept p"
  "add_install_options p = Some p' \<Longrightarrow> kept p' = kept p"
  "add_other_options p = Some p' \<Longrightarrow> kept p' = kept p"
  unfolding add_globals_def add_install_options_def add_other_options_def
  by (auto dest!: add_keeps(1-6) simp: Let_def add_keeps(7-9) split: bind_splits)

lemma add_commands_kept:
  "Options (add_commands p) = Options p"
  "CommandNameToNumberLookup (add_commands p) =
     CommandNameToNumberLookup p ++ map_of (rev (zip idd_commands [length (Commands p) + 1..<length (Commands p) + 9]))"
  by (simp_all add: add_commands_def AddCommand_def Let_def idd_commands_def fun_eq_iff map_add_def upt_rec)

lemma idd_tables_kept: "Options idd_tables = idd_options" "CommandNameToNumberLookup idd_tables = map_of (rev (zip idd_commands [1..<9]))"
proof -
  obtain p1 p2 where "add_globals (command_parser tool idd_options) = Some p1" "add_install_options (add_commands p1) = Some p2"
    "add_other_options p2 = Some idd_tables" using add_tables_defined by (auto simp: add_tables_def split: bind_splits)
  note p = this
  have "kept idd_tables = kept (add_commands p1)" using tables_keep(3) [OF p(3)] tables_keep(2) [OF p(2)] by simp
  moreover have "kept p1 = kept (command_parser tool idd_options)" by (rule tables_keep(1) [OF p(1)])
  ultimately show "Options idd_tables = idd_options" "CommandNameToNumberLookup idd_tables = map_of (rev (zip idd_commands [1..<9]))"
    by (simp_all add: kept_def command_parser_def add_commands_kept del: upt_Suc)
qed

section \<open>Settings in any order\<close>

lemma parse_view_tables:
  assumes "parse_view p = parse_view q"
  shows "params_of cmd p = params_of cmd q" "switches_of cmd p = switches_of cmd q" "CommandNameToNumberLookup p = CommandNameToNumberLookup q"
    "map CommandName (Commands p) = map CommandName (Commands q)" "Options p = Options q" "RawArguments p = RawArguments q"
    "CurrentCommandNumber p = CurrentCommandNumber q"
  using assms by (simp_all add: parse_view_def params_of_def switches_of_def)

lemma tables_ok_view:
  assumes "parse_view p = parse_view q"
  shows "tables_ok cmd p = tables_ok cmd q"
  unfolding tables_ok_def parse_view_tables(1,2) [OF assms] ..

lemma idd_parser_view: "IddSetupToolCommandParser stray = Some p \<Longrightarrow> parse_view p = parse_view idd_tables"
proof -
  assume "IddSetupToolCommandParser stray = Some p"
  then have "add_descriptions stray idd_tables = Some p" by (simp add: IddSetupToolCommandParser_def add_tables_defined)
  then show ?thesis by (rule add_descriptions_view)
qed

text \<open>A command in any letters is the current command afterwards.\<close>

lemma process_command:
  assumes "IddSetupToolCommandParser stray = Some p" "StringToLowerCase word = cmd" "cmd \<in> set idd_commands"
  shows "\<exists>n c. ProcessSingleCommand word (p\<lparr>RawArguments := r\<rparr>) = Some (True, p\<lparr>RawArguments := r, CurrentCommandNumber := n\<rparr>)
    \<and> GetCurrentCommand (p\<lparr>RawArguments := r, CurrentCommandNumber := n\<rparr>) = Some c \<and> StringToLowerCase (CommandName c) = cmd"
proof -
  note v = parse_view_tables [OF idd_parser_view [OF assms(1)]]
  have none: "list_all (\<lambda>cmd. find_switch cmd (GlobalSwitches idd_tables) = None \<and> CHR ''='' \<notin> set cmd \<and> StringToLowerCase cmd = cmd) idd_commands"
    by code_simp
  obtain i where i: "i < length idd_commands" "cmd = idd_commands ! i" using assms(3) by (metis in_set_conv_nth)
  have "find_switch word ss = find_switch cmd ss" for ss :: "idd_option SwitchStruct list"
    using assms(2) none assms(3) by (auto simp: find_switch_def list_all_iff)
  moreover have "CHR ''='' \<notin> set word" using none assms(2,3) eq_sign_lower [of word] by (auto simp: list_all_iff)
  moreover have "GlobalSwitches p = GlobalSwitches idd_tables" using idd_parser_view [OF assms(1)] by (simp add: parse_view_def)
  ultimately have g: "CheckForGlobalOptions word (p\<lparr>RawArguments := r\<rparr>) = Some (False, p\<lparr>RawArguments := r\<rparr>)"
    using none assms(3) by (auto simp: CheckForGlobalOptions_def find_param_no_sign list_all_iff)
  have "map (CommandNameToNumberLookup p) idd_commands ! i = map Some [1..<9] ! i" using idd_tables_numbers v(3) by simp
  moreover have "i < 8" using i(1) by (simp add: idd_commands_def)
  then have "map Some [1..<9] ! i = Some (i + 1)" by (subst nth_map) (simp_all del: upt_Suc)
  ultimately have num: "CommandNameToNumberLookup p cmd = Some (i + 1)" using i by simp
  have names: "map CommandName (Commands p) = idd_commands" using idd_tables_numbers v(4) by simp
  then have "CommandName (Commands p ! i) = cmd" using i by (metis length_map nth_map)
  then show ?thesis using g num assms(2) none assms(3) v(7) idd_tables_numbers
    by (auto simp: ProcessSingleCommand_def CheckForCommandChange_def GetCurrentCommand_def list_all_iff intro!: exI [of _ "i + 1"])
qed

lemma parse_command_settings:
  assumes "IddSetupToolCommandParser stray = Some p" "StringToLowerCase word = cmd" "cmd \<in> set idd_commands"
    and "list_all (setting_ok cmd p) ss" "distinct (map setting_target ss)" "mset ss' = mset ss"
  shows "\<exists>n c. GetCurrentCommand (p\<lparr>CurrentCommandNumber := n\<rparr>) = Some c \<and> StringToLowerCase (CommandName c) = cmd
    \<and> ParseCommands constraint (word # map setting_text ss') p
      = do { opts \<leftarrow> set_all ss idd_options;
             constraint (p\<lparr>CurrentCommandNumber := n, RawArguments := word # map setting_text ss', Options := opts\<rparr>) }"
proof -
  note view = idd_parser_view [OF assms(1)]
  note v = parse_view_tables [OF view]
  have raw: "RawArguments p = []" using v(6) idd_tables_numbers by simp
  obtain n c where n: "ProcessSingleCommand word (p\<lparr>RawArguments := [word]\<rparr>) = Some (True, p\<lparr>RawArguments := [word], CurrentCommandNumber := n\<rparr>)"
    "GetCurrentCommand (p\<lparr>RawArguments := [word], CurrentCommandNumber := n\<rparr>) = Some c" "StringToLowerCase (CommandName c) = cmd"
    using process_command [OF assms(1-3), of "[word]"] by blast
  let ?q = "p\<lparr>RawArguments := [word], CurrentCommandNumber := n\<rparr>"
  have q: "params_of cmd ?q = params_of cmd p" "switches_of cmd ?q = switches_of cmd p" for cmd
    by (simp_all add: params_of_def switches_of_def)
  have "tables_ok cmd ?q" using idd_tables_ok assms(3) tables_ok_view [OF view] by (simp add: list_all_iff tables_ok_def q)
  moreover have "setting_ok cmd ?q s = setting_ok cmd p s" for s by (cases s) (simp_all add: q)
  then have "list_all (setting_ok cmd ?q) ss'" using assms(4) mset_eq_setD [OF assms(6)] by (simp add: list_all_iff)
  ultimately have "ParseCommands constraint (map setting_text ss') ?q
    = do { opts \<leftarrow> set_all ss' (Options ?q); constraint (?q\<lparr>RawArguments := RawArguments ?q @ map setting_text ss', Options := opts\<rparr>) }"
    using n(2,3) by (intro parse_settings) auto
  moreover have "set_all ss' (Options ?q) = set_all ss idd_options"
    using set_all_any_order [OF assms(6) [symmetric] assms(5)] v(5) idd_tables_kept(1) by simp
  ultimately have "ParseCommands constraint (word # map setting_text ss') p
      = do { opts \<leftarrow> set_all ss idd_options;
             constraint (p\<lparr>CurrentCommandNumber := n, RawArguments := word # map setting_text ss', Options := opts\<rparr>) }"
    using n(1) raw by simp
  moreover have "GetCurrentCommand (p\<lparr>CurrentCommandNumber := n\<rparr>) = Some c" using n(2) by (auto simp: GetCurrentCommand_def split: if_splits)
  ultimately show ?thesis using n(3) by blast
qed

text \<open>
  C33. The tool understands what its help promises: a command and then any settings of it, the names of both in any letters and the settings
  in any order, set exactly the options they name, each to its values.
\<close>

theorem settings_parsed_in_any_order:
  assumes "IddSetupToolCommandParser stray = Some p" "StringToLowerCase word = cmd" "cmd \<in> set idd_commands"
    and "list_all (setting_ok cmd p) ss" "distinct (map setting_target ss)" "mset ss' = mset ss"
  shows "\<exists>n c. GetCurrentCommand (p\<lparr>CurrentCommandNumber := n\<rparr>) = Some c \<and> StringToLowerCase (CommandName c) = cmd
    \<and> ParseCommands constraint (word # map setting_text ss') p
      = do { opts \<leftarrow> set_all ss idd_options;
             constraint (p\<lparr>CurrentCommandNumber := n, RawArguments := word # map setting_text ss', Options := opts\<rparr>) }"
  using assms by (rule parse_command_settings)

text \<open>A resolution and a scale for the displays, in either order.\<close>

definition scale_param :: "idd_option ParamStruct" where
  "scale_param = CommandSpecificSettings idd_tables ''set'' ! 0"

definition resolution_param :: "idd_option ParamStruct" where
  "resolution_param = CommandSpecificSettings idd_tables ''set'' ! 1"

lemma set_table:
  "map (\<lambda>pr. (p_Target pr, p_Type pr, p_Delimiter pr, p_IgnoreCase pr, p_OptionsList pr)) (CommandSpecificSettings idd_tables ''set'')
    = [(Scale, INTEGER, [], True, [''scale'']), (Resolutions, INTEGER, ''x'', True, [''resolution''])]"
  by code_simp

lemma set_params:
  "p_Target scale_param = Scale" "p_Type scale_param = INTEGER" "p_Delimiter scale_param = []" "p_IgnoreCase scale_param"
  "p_OptionsList scale_param = [''scale'']"
  "p_Target resolution_param = Resolutions" "p_Type resolution_param = INTEGER" "p_Delimiter resolution_param = ''x''"
  "p_IgnoreCase resolution_param" "p_OptionsList resolution_param = [''resolution'']"
  using set_table by (auto simp: scale_param_def resolution_param_def map_eq_Cons_conv)

lemma set_params_in:
  assumes "IddSetupToolCommandParser stray = Some p"
  shows "scale_param \<in> set (params_of ''set'' p)" "resolution_param \<in> set (params_of ''set'' p)"
proof -
  have "length (CommandSpecificSettings idd_tables ''set'') = 2" using arg_cong [OF set_table, of length] by simp
  then show "scale_param \<in> set (params_of ''set'' p)" "resolution_param \<in> set (params_of ''set'' p)"
    unfolding parse_view_tables(1) [OF idd_parser_view [OF assms]] by (simp_all add: params_of_def scale_param_def resolution_param_def)
qed

lemma idd_parser_made: obtains p where "IddSetupToolCommandParser [''x''] = Some p"
proof -
  have "IddSetupToolCommandParser [''x''] \<noteq> None" by code_simp
  then show ?thesis using that by auto
qed

abbreviation accepted :: "idd_option CommandParserImpl \<Rightarrow> (bool \<times> idd_option CommandParserImpl) outcome option" where
  "accepted q \<equiv> Some (Ret (True, q))"

theorem settings_parsed_in_any_order_witness:
  "\<exists>p q c. IddSetupToolCommandParser [''x''] = Some p
    \<and> ParseCommands accepted [''SET'', ''Scale=150'', ''resolution=1920x1080''] p = accepted q
    \<and> GetCurrentCommand (p\<lparr>CurrentCommandNumber := CurrentCommandNumber q\<rparr>) = Some c \<and> StringToLowerCase (CommandName c) = ''set''
    \<and> Options q = idd_options(Resolutions := Ints [1920, 1080], Scale := Ints [150])"
proof -
  obtain p where p: "IddSetupToolCommandParser [''x''] = Some p" by (rule idd_parser_made)
  let ?r = "Set_param resolution_param ''resolution'' [''1920'', ''1080'']" and ?s = "Set_param scale_param ''Scale'' [''150'']"
  have t: "setting_text ?r = ''resolution=1920x1080''" "setting_text ?s = ''Scale=150''" by (simp_all add: set_params)
  have names: "StringToLowerCase ''SET'' = ''set''" "''set'' \<in> set idd_commands" "StringToLowerCase ''Scale'' = ''scale''"
    "StringToLowerCase ''scale'' = ''scale''" "StringToLowerCase ''150'' = ''150''" "StringToLowerCase ''1920'' = ''1920''"
    "StringToLowerCase ''1080'' = ''1080''" "stoi ''150'' = Some 150" "stoi ''1920'' = Some 1920" "stoi ''1080'' = Some 1080" by code_simp+
  have "list_all (setting_ok ''set'' p) [?r, ?s]"
    using set_params_in [OF p] by (simp add: set_params values_ok_def names)
  moreover have "distinct (map setting_target [?r, ?s])" by (simp add: set_params)
  moreover have "mset [?s, ?r] = mset [?r, ?s]" by simp
  ultimately obtain n c where c: "GetCurrentCommand (p\<lparr>CurrentCommandNumber := n\<rparr>) = Some c" "StringToLowerCase (CommandName c) = ''set''"
    and parsed: "ParseCommands accepted (''SET'' # map setting_text [?s, ?r]) p
      = do { opts \<leftarrow> set_all [?r, ?s] idd_options;
             accepted (p\<lparr>CurrentCommandNumber := n, RawArguments := ''SET'' # map setting_text [?s, ?r], Options := opts\<rparr>) }"
    using settings_parsed_in_any_order [OF p names(1,2), of "[?r, ?s]" "[?s, ?r]" accepted] by blast
  have opts: "set_all [?r, ?s] idd_options = Some (idd_options(Resolutions := Ints [1920, 1080], Scale := Ints [150]))"
    by (simp add: set_params segment_value_def store_at_def names)
  let ?q = "p\<lparr>CurrentCommandNumber := n, RawArguments := ''SET'' # map setting_text [?s, ?r],
    Options := idd_options(Resolutions := Ints [1920, 1080], Scale := Ints [150])\<rparr>"
  have "ParseCommands accepted [''SET'', ''Scale=150'', ''resolution=1920x1080''] p = accepted ?q"
    using parsed unfolding opts list.map t by (simp del: ParseCommands.simps)
  then show ?thesis using p c by (intro exI [of _ p] exI [of _ ?q] exI [of _ c]) (simp del: ParseCommands.simps)
qed

text \<open>Without the stray argument the constructor itself is not defined.\<close>

lemma constructor_undefined: "IddSetupToolCommandParser [] = None"
  by code_simp

section \<open>Arguments that should be refused\<close>

text \<open>
  The tool means to print a message for an argument it does not know. Before a command is chosen every such argument makes it
  read in front of the table of commands instead.
\<close>

theorem unknown_word_undefined:
  assumes "IddSetupToolCommandParser stray = Some p" "CHR ''='' \<notin> set word" "StringToLowerCase word \<notin> set idd_commands"
    and "StringToLowerCase word \<notin> {''-v'', ''--verbose'', ''-h'', ''--help'', ''-y'', ''--yes'', ''--dump-configuration-values''}"
  shows "ParseCommands constraint (word # args) p = None"
proof -
  note view = idd_parser_view [OF assms(1)]
  note v = parse_view_tables [OF view]
  have sw: "GlobalSwitches p = GlobalSwitches idd_tables" using view by (simp add: parse_view_def)
  have names: "map StringToLowerCase (concat (map sw_OptionsList (GlobalSwitches idd_tables)))
    = [''-v'', ''--verbose'', ''-h'', ''--help'', ''-y'', ''--yes'', ''--dump-configuration-values'']" by code_simp
  have "find_switch word (GlobalSwitches p) = None"
  proof (rule ccontr)
    assume "\<not> ?thesis"
    then obtain s o1 where "s \<in> set (GlobalSwitches idd_tables)" "o1 \<in> set (sw_OptionsList s)" "StringToLowerCase word = StringToLowerCase o1"
      unfolding find_switch_def sw find_None_iff by (auto simp: list_ex_iff)
    then have "StringToLowerCase word \<in> set (map StringToLowerCase (concat (map sw_OptionsList (GlobalSwitches idd_tables))))" by auto
    then show False using assms(4) unfolding names by simp
  qed
  moreover have "CommandNameToNumberLookup idd_tables x = None" if "x \<notin> set idd_commands" for x
    using that unfolding idd_tables_kept(2) map_of_eq_None_iff by (auto dest: set_zip_leftD)
  ultimately have "ProcessSingleCommand word (p\<lparr>RawArguments := r\<rparr>) = None" for r
    using assms(2,3) v(3,7) idd_tables_numbers by (intro unknown_argument_undefined) (simp_all add: find_param_no_sign)
  then show ?thesis by simp
qed

theorem unknown_word_undefined_witness:
  "\<exists>p. IddSetupToolCommandParser [''x''] = Some p \<and> ParseCommands accepted [''instal'', ''--trust''] p = None"
proof -
  obtain p where p: "IddSetupToolCommandParser [''x''] = Some p" by (rule idd_parser_made)
  have "CHR ''='' \<notin> set ''instal''" "StringToLowerCase ''instal'' \<notin> set idd_commands"
    "StringToLowerCase ''instal'' \<notin> {''-v'', ''--verbose'', ''-h'', ''--help'', ''-y'', ''--yes'', ''--dump-configuration-values''}"
    by code_simp+
  from unknown_word_undefined [OF p this] p show ?thesis by blast
qed

lemma lower_dec: "StringToLowerCase (dec_of_nat w) = dec_of_nat w"
proof -
  have "tolower c = c" if "c \<in> set (dec_of_nat w)" for c
    using dec_of_nat_set [OF that] chr_digit_cases by (fastforce simp: tolower_def nat_of_chr_def)
  then show ?thesis by (simp add: StringToLowerCase_def map_idI)
qed

lemma stoi_dec: "int w \<le> INT_MAX \<Longrightarrow> stoi (dec_of_nat w) = Some (int w)"
proof -
  assume "int w \<le> INT_MAX"
  moreover have "is_digit 10 c" if "dec_of_nat w = c # s" for c s
    using dec_of_nat_hd [OF that] by (auto simp: is_digit_def)
  ultimately show ?thesis using dropWhile_space_dec [of w "[]"] strtol_sign_dec [of w] digits_run_dec [of w]
    by (auto simp: stoi_def chk32_def INT_MIN_def Let_def split: list.splits)
qed

lemma segment_dec:
  assumes "int w \<le> INT_MAX"
  shows "segments_value resolution_param i (dec_of_nat w # ss) (Ints xs)
    = do { ys \<leftarrow> store_at i (int w) xs; segments_value resolution_param (i + 1) ss (Ints ys) }"
  using assms by (cases "store_at i (int w) xs") (simp_all add: segment_value_def set_params lower_dec stoi_dec)

lemma list_two_cases:
  obtains "xs = []" | x where "xs = [x]" | x y where "xs = [x, y]" | x y z zs where "xs = x # y # z # zs"
  by (metis list.exhaust)

text \<open>
  A resolution has a width and a height. How many numbers were given is compared with how many are needed, the difference is
  reported, and the argument is taken nevertheless: one number sets a width with the height left at 0, and a third number is
  written behind the end of the array.
\<close>

theorem resolution_count_unchecked:
  assumes "IddSetupToolCommandParser stray = Some p" "ws \<noteq> []" "\<forall>w\<in>set ws. int w \<le> INT_MAX"
  shows "\<exists>n. ParseCommands constraint [''set'', ''resolution='' @ join_with ''x'' (map dec_of_nat ws)] p
    = (if length ws \<le> 2
       then constraint (p\<lparr>CurrentCommandNumber := n, RawArguments := [''set'', ''resolution='' @ join_with ''x'' (map dec_of_nat ws)],
              Options := idd_options(Resolutions := Ints (map int ws @ drop (length ws) [0, 0]))\<rparr>)
       else None)"
proof -
  let ?r = "Set_param resolution_param ''resolution'' (map dec_of_nat ws)"
  have plain: "CHR ''='' \<notin> set (dec_of_nat w)" "CHR ''x'' \<notin> set (dec_of_nat w)" for w
    by (auto dest!: dec_of_nat_set, insert chr_digit_cases, fastforce+)
  have name: "StringToLowerCase ''resolution'' = ''resolution''" by code_simp
  have ok: "list_all (setting_ok ''set'' p) [?r]"
    using set_params_in [OF assms(1)] assms(2) by (auto simp: set_params values_ok_def list_all_iff plain name)
  have cmd: "''set'' \<in> set idd_commands" by code_simp
  obtain n where "ParseCommands constraint [''set'', setting_text ?r] p
    = do { opts \<leftarrow> set_all [?r] idd_options;
           constraint (p\<lparr>CurrentCommandNumber := n, RawArguments := [''set'', setting_text ?r], Options := opts\<rparr>) }"
    using parse_command_settings [OF assms(1) command_names(3) cmd ok, of "[?r]" constraint] by auto
  moreover have "setting_text ?r = ''resolution='' @ join_with ''x'' (map dec_of_nat ws)" by (simp add: set_params)
  moreover have "segments_value resolution_param 0 (map dec_of_nat ws) (Ints [0, 0])
    = (if length ws \<le> 2 then Some (Ints (map int ws @ drop (length ws) [0, 0])) else None)"
    using assms(3) by (cases ws rule: list_two_cases) (auto simp: segment_dec set_params store_at_def simp del: segments_value.simps(2))
  ultimately show ?thesis by (auto simp: set_params)
qed

theorem resolution_count_unchecked_witness:
  "\<exists>p q. IddSetupToolCommandParser [''x''] = Some p
    \<and> ParseCommands accepted [''set'', ''resolution=1920''] p = accepted q \<and> Options q Resolutions = Ints [1920, 0]
    \<and> ParseCommands accepted [''set'', ''resolution=1x2x3''] p = None"
proof -
  obtain p where p: "IddSetupToolCommandParser [''x''] = Some p" by (rule idd_parser_made)
  have t: "join_with ''x'' (map dec_of_nat [1920]) = ''1920''" "join_with ''x'' (map dec_of_nat [1, 2, 3]) = ''1x2x3''" by code_simp+
  show ?thesis
    using p resolution_count_unchecked [OF p, of "[1920]" accepted] resolution_count_unchecked [OF p, of "[1, 2, 3]" accepted]
    unfolding t by (auto simp: INT_MAX_def)
qed

end
