(* ===== verification/IddMachine.thy ===== *)
theory IddMachine
  imports IddUtility "HOL-Library.Word"
begin

text \<open>
  What the driver set-up tool sees of Windows. Every call that changes something is recorded in a history; what a call
  answers, and what a query returns, are functions of the history, given by a parameter of all operations. An operation
  takes the history so far and gives its result, or the exception it throws, with the history afterwards. Printing is left out.
  The theory also holds the pattern tables that \<open>EnableDisableAdapters.cpp\<close> and \<open>RearrangeDisplays.cpp\<close> keep alike.
\<close>

unbundle bit_operations_syntax

section \<open>Calls\<close>

type_synonym LUID = "32 word \<times> 32 word"

record DEVMODE =
  dm_x :: "32 word"
  dm_y :: "32 word"
  dmPelsWidth :: "32 word"
  dmPelsHeight :: "32 word"
  dmFields :: "32 word"

datatype install_scope = DICS_FLAG_GLOBAL | DICS_FLAG_CONFIGSPECIFIC

datatype api_call =
    ChangeDisplaySettingsEx "string option" "DEVMODE option" "32 word"
  | SetDpiScale LUID "32 word" "32 word"
  | SetStateChange string bool install_scope
  | CallPropertyChange string
  | GetInstallParams string
  | RemoveDevice string
  | SetupCall string string
  | RegSetSupport string
  | RunProcess string
  | OpenDevice string
  | UpdateLuid string LUID
  | SleepFor nat

type_synonym history = "api_call list"

datatype idd_error = Thrown | Undefined | Hangs

section \<open>Queries\<close>

record DISPLAY_DEVICE =
  DeviceName :: string
  DeviceString :: string
  DeviceKey :: string
  StateFlags :: "32 word"

datatype reg_type = REG_SZ | REG_MULTI_SZ | REG_OTHER

record device =
  dv_id :: "string option"
  dv_friendly :: "(reg_type \<times> string) option"
  dv_description :: "(reg_type \<times> string) option"
  dv_hardware :: "(reg_type \<times> string) option"

datatype output_technology = INDIRECT_WIRED | INDIRECT_VIRTUAL | OTHER_TECHNOLOGY

record path_info =
  pi_technology :: output_technology
  pi_adapter :: LUID
  pi_source :: "32 word"

datatype query_result = Sizes_failed | No_paths | Query_failed "path_info list" | Query_done "path_info list"

text \<open>
  \<open>w_adapters\<close>: the display classes with their devices, \<open>None\<close> when an enumeration fails; \<open>w_paths\<close>: what the two queries
  for display paths return once the buffers are large enough, for all paths or the active ones; \<open>w_registry\<close>: the values of a key, \<open>None\<close>
  when it cannot be opened and for a value that cannot be read.
\<close>

record windows =
  w_answer :: "history \<Rightarrow> api_call \<Rightarrow> int"
  w_adapters :: "history \<Rightarrow> (nat \<times> device list) list option"
  w_displays :: "history \<Rightarrow> DISPLAY_DEVICE list"
  w_current :: "history \<Rightarrow> string \<Rightarrow> DEVMODE option"
  w_stored :: "history \<Rightarrow> string \<Rightarrow> DEVMODE option"
  w_modes :: "history \<Rightarrow> string \<Rightarrow> DEVMODE list"
  w_registry :: "history \<Rightarrow> string \<Rightarrow> (string \<times> string) option list option"
  w_subkeys :: "history \<Rightarrow> string \<Rightarrow> string option list option"
  w_paths :: "history \<Rightarrow> bool \<Rightarrow> query_result"
  w_dxgi :: "history \<Rightarrow> (nat \<times> LUID) list option"
  w_idd_paths :: "history \<Rightarrow> string list option"
  w_dpi :: "history \<Rightarrow> LUID \<Rightarrow> 32 word \<Rightarrow> (int \<times> int \<times> int) option"
  w_output :: "history \<Rightarrow> string"

section \<open>Operations\<close>

type_synonym 'a act = "history \<Rightarrow> (idd_error + 'a) \<times> history"

definition give :: "'a \<Rightarrow> 'a act" where
  "give x h = (Inr x, h)"

definition fail :: "idd_error \<Rightarrow> 'a act" where
  "fail e h = (Inl e, h)"

definition act_bind :: "'a act \<Rightarrow> ('a \<Rightarrow> 'b act) \<Rightarrow> 'b act" where
  "act_bind f g h = (case f h of (Inl e, h') \<Rightarrow> (Inl e, h') | (Inr x, h') \<Rightarrow> g x h')"

text \<open>A query, and a call with its answer.\<close>

definition look :: "(history \<Rightarrow> 'a) \<Rightarrow> 'a act" where
  "look f h = (Inr (f h), h)"

definition invoke :: "windows \<Rightarrow> api_call \<Rightarrow> int act" where
  "invoke w c h = (Inr (w_answer w h c), h @ [c])"

text \<open>A call that has to succeed, \<open>GetLastErrorAndThrow\<close> otherwise.\<close>

definition demand :: "windows \<Rightarrow> api_call \<Rightarrow> unit act" where
  "demand w c = act_bind (invoke w c) (\<lambda>r. if r \<noteq> 0 then give () else fail Thrown)"

fun each :: "('a \<Rightarrow> unit act) \<Rightarrow> 'a list \<Rightarrow> unit act" where
  "each f [] = give ()"
| "each f (x # xs) = act_bind (f x) (\<lambda>_. each f xs)"

definition of_option :: "'a option \<Rightarrow> 'a act" where
  "of_option v = (case v of None \<Rightarrow> fail Thrown | Some x \<Rightarrow> give x)"

section \<open>Patterns\<close>

text \<open>The devices each pattern hits, in the order they are enumerated; the count of a pattern is their number.\<close>

record pattern_table =
  PatternMatchCounts :: "string \<rightharpoonup> nat"
  IndexedPatterns :: "string \<rightharpoonup> string list"

definition no_patterns :: pattern_table where
  "no_patterns = \<lparr>PatternMatchCounts = Map.empty, IndexedPatterns = Map.empty\<rparr>"

definition note_match :: "string \<Rightarrow> string \<Rightarrow> pattern_table \<Rightarrow> pattern_table" where
  "note_match abbr dev t =
     (let t = (case PatternMatchCounts t abbr of
                 None \<Rightarrow> \<lparr>PatternMatchCounts = (PatternMatchCounts t)(abbr \<mapsto> 1), IndexedPatterns = (IndexedPatterns t)(abbr \<mapsto> [])\<rparr>
               | Some n \<Rightarrow> t\<lparr>PatternMatchCounts := (PatternMatchCounts t)(abbr \<mapsto> n + 1)\<rparr>)
      in t\<lparr>IndexedPatterns := (IndexedPatterns t)(abbr \<mapsto> (case IndexedPatterns t abbr of None \<Rightarrow> [] | Some ds \<Rightarrow> ds) @ [dev])\<rparr>)"

definition pattern_count :: "pattern_table \<Rightarrow> string \<Rightarrow> nat" where
  "pattern_count t abbr = (case PatternMatchCounts t abbr of None \<Rightarrow> 0 | Some n \<Rightarrow> n)"

text \<open>What one pattern of the table selects: nothing, all its devices, or the one with an index.\<close>

datatype selection = No_match | All_devices | One_device string

definition select_devices :: "string \<Rightarrow> string \<Rightarrow> pattern_table \<Rightarrow> selection option" where
  "select_devices pattern abbr t =
     (if str_find pattern abbr = Some 0
      then if length abbr < length pattern
           then let index_string = drop (length abbr) pattern
                in if list_all (\<lambda>c. str_find ''0123456789'' [c] \<noteq> None) index_string
                   then do {
                     n \<leftarrow> stoi index_string;
                     if n < 1 \<or> int (pattern_count t abbr) < n then Some No_match
                     else do { ds \<leftarrow> IndexedPatterns t abbr; Some (One_device (ds ! nat (n - 1))) } }
                   else Some No_match
           else Some All_devices
      else Some No_match)"

text \<open>The first pattern that selects something.\<close>

fun find_pattern ::
  "string \<Rightarrow> pattern_table \<Rightarrow> EnableDisablePatternStruct list \<Rightarrow> (EnableDisablePatternStruct \<times> string) option option" where
  "find_pattern pattern t [] = Some None"
| "find_pattern pattern t (e # es) =
     (case select_devices pattern (Abbreviation e) t of
        None \<Rightarrow> None
      | Some No_match \<Rightarrow> find_pattern pattern t es
      | Some All_devices \<Rightarrow> Some (Some (e, []))
      | Some (One_device d) \<Rightarrow> Some (Some (e, d)))"

text \<open>One sub-pattern against the description or the id of a device.\<close>

definition hits :: "ENABLE_DISABLE_PATTERN_TYPES \<Rightarrow> string \<Rightarrow> bool \<Rightarrow> string \<Rightarrow> string \<Rightarrow> bool" where
  "hits ty pattern inverted name dev_id =
     (case ty of
        DESCRIPTION \<Rightarrow> CheckIfStringContainsPattern name pattern True \<noteq> inverted
      | VENDOR_AND_DEVICE_ID \<Rightarrow> CheckIfStringContainsPattern dev_id pattern True \<noteq> inverted)"

section \<open>Facts\<close>

lemma give_simp [simp]: "give x h = (Inr x, h)" by (simp add: give_def)

lemma fail_simp [simp]: "fail e h = (Inl e, h)" by (simp add: fail_def)

lemma look_simp [simp]: "look f h = (Inr (f h), h)" by (simp add: look_def)

lemma invoke_simp [simp]: "invoke w c h = (Inr (w_answer w h c), h @ [c])" by (simp add: invoke_def)

lemma act_bind_simps [simp]:
  "f h = (Inl e, h') \<Longrightarrow> act_bind f g h = (Inl e, h')"
  "f h = (Inr x, h') \<Longrightarrow> act_bind f g h = g x h'"
  by (simp_all add: act_bind_def)

lemma act_bind_cases:
  assumes "act_bind f g h = (r, h')"
  obtains e where "f h = (Inl e, h')" "r = Inl e" | x h1 where "f h = (Inr x, h1)" "g x h1 = (r, h')"
  using assms by (auto simp: act_bind_def split: prod.splits sum.splits)

text \<open>The counts are the lengths of the lists, so an index that was checked is inside.\<close>

definition table_ok :: "pattern_table \<Rightarrow> bool" where
  "table_ok t \<longleftrightarrow> PatternMatchCounts t = (\<lambda>a. map_option length (IndexedPatterns t a))"

lemma table_ok_no_patterns [simp]: "table_ok no_patterns"
  by (simp add: table_ok_def no_patterns_def)

lemma note_match_ok: "table_ok t \<Longrightarrow> table_ok (note_match abbr d t)"
  by (auto simp: table_ok_def note_match_def Let_def fun_eq_iff split: option.splits)

lemma note_match_devices:
  assumes "table_ok t"
  shows "IndexedPatterns (note_match a d t) b
    = (if a = b then Some ((case IndexedPatterns t a of None \<Rightarrow> [] | Some ds \<Rightarrow> ds) @ [d]) else IndexedPatterns t b)"
  using assms by (auto simp: table_ok_def note_match_def Let_def fun_eq_iff split: option.splits)

end
