(* ===== verification/IddAdapters.thy ===== *)
theory IddAdapters
  imports IddMachine
begin

text \<open>
  The display adapters as the set-up tool handles them, \<open>sources/apps/idd-setup-tool/EnableDisableAdapters.cpp\<close>:
  listing them, counting the ones an indirect display can be paired with, and enabling or disabling those a pattern selects.
\<close>

section \<open>Properties of a device\<close>

text \<open>
  A property is read into a buffer of 513 characters, or into one of the size that is needed; the string has the whole buffer,
  the zeros behind the text too. Only when the first buffer is too small is the type looked at.
\<close>

definition GetDeviceStringProperty :: "(reg_type \<times> string) option \<Rightarrow> string option" where
  "GetDeviceStringProperty v =
     (case v of
        None \<Rightarrow> None
      | Some (ty, s) \<Rightarrow>
          if length s \<le> 513 then Some (take 512 (s @ replicate 513 NUL) @ [NUL])
          else if ty = REG_OTHER then None
          else Some (s @ [NUL]))"

definition GetDeviceDescription :: "device \<Rightarrow> string option" where
  "GetDeviceDescription d =
     (case GetDeviceStringProperty (dv_friendly d) of
        Some s \<Rightarrow> Some s
      | None \<Rightarrow> GetDeviceStringProperty (dv_description d))"

definition GetDeviceHardwareID :: "device \<Rightarrow> string option" where
  "GetDeviceHardwareID d = GetDeviceStringProperty (dv_hardware d)"

definition GetDeviceID :: "device \<Rightarrow> string" where
  "GetDeviceID d = (case dv_id d of None \<Rightarrow> ''?'' | Some s \<Rightarrow> s)"

section \<open>The list of adapters\<close>

record Adapter =
  devID :: string
  devName :: string
  devHardwareID :: string
  devGuid :: nat
  devIndex :: nat

definition CheckAdapterPatternMatches :: "string \<Rightarrow> string \<Rightarrow> pattern_table \<Rightarrow> pattern_table" where
  "CheckAdapterPatternMatches device_name device_id t =
     fold (\<lambda>e t. if list_ex (\<lambda>sub. hits (PatternType e) sub (IsAnInvertedTarget e) device_name device_id) (AdaptersToMatch e)
                 then note_match (Abbreviation e) device_id t else t)
       SupportedEnableDisablePatterns t"

definition read_adapter :: "nat \<Rightarrow> nat \<Rightarrow> device \<Rightarrow> Adapter option" where
  "read_adapter guid i d = do {
     name \<leftarrow> GetDeviceDescription d;
     hw \<leftarrow> GetDeviceHardwareID d;
     Some \<lparr>devID = GetDeviceID d, devName = name, devHardwareID = hw, devGuid = guid, devIndex = i\<rparr> }"

definition class_adapters :: "nat \<times> device list \<Rightarrow> Adapter option list" where
  "class_adapters c = map (\<lambda>(i, d). read_adapter (fst c) i d) (zip [0..<length (snd c)] (snd c))"

definition GetAdapterList :: "(nat \<times> device list) list option \<Rightarrow> (Adapter list \<times> pattern_table) option" where
  "GetAdapterList classes = do {
     cs \<leftarrow> classes;
     let as = concat (map class_adapters cs);
     if None \<in> set as then None
     else let as = map the as
          in Some (as, fold (\<lambda>a. CheckAdapterPatternMatches (devName a) (devID a)) as no_patterns) }"

definition idd_compatible :: "Adapter \<Rightarrow> bool" where
  "idd_compatible a =
     (let hardware_id = StringToLowerCase (devHardwareID a)
      in str_find hardware_id ''ven_8086'' \<noteq> None \<and> str_find hardware_id ''dev_56c1'' \<noteq> None
       \<or> str_find hardware_id ''ven_8086'' \<noteq> None \<and> str_find hardware_id ''dev_56c0'' \<noteq> None)"

definition GetNumIddCompatibleAdapters :: "Adapter list \<Rightarrow> nat" where
  "GetNumIddCompatibleAdapters adapter_list = length (filter idd_compatible adapter_list)"

section \<open>Enabling and disabling\<close>

record adapter_target_info_t =
  at_pattern :: string
  at_is_an_inverted_target :: bool
  at_target_device_id :: string
  at_pattern_type :: ENABLE_DISABLE_PATTERN_TYPES

definition ChangeAdapterState :: "windows \<Rightarrow> Adapter \<Rightarrow> bool \<Rightarrow> bool \<Rightarrow> unit act" where
  "ChangeAdapterState w dev bEnable verbose =
     act_bind (look (\<lambda>h. do { cs \<leftarrow> w_adapters w h; map_of cs (devGuid dev) })) (\<lambda>found.
     case found of
       None \<Rightarrow> fail Thrown
     | Some ds \<Rightarrow>
         if devID dev \<notin> set (map GetDeviceID ds) then fail Thrown
         else act_bind
           (if bEnable
            then act_bind (invoke w (SetStateChange (devID dev) True DICS_FLAG_GLOBAL)) (\<lambda>r.
                 if r \<noteq> 0 then act_bind (invoke w (CallPropertyChange (devID dev))) (\<lambda>_. give ()) else give ())
            else give ()) (\<lambda>_.
           act_bind (demand w (SetStateChange (devID dev) bEnable DICS_FLAG_CONFIGSPECIFIC)) (\<lambda>_.
           act_bind (demand w (CallPropertyChange (devID dev))) (\<lambda>_.
           if verbose then demand w (GetInstallParams (devID dev)) else give ()))))"

text \<open>The specific adapter is meant when its id is at the start of the id that was looked up.\<close>

definition adapter_meant :: "adapter_target_info_t \<Rightarrow> Adapter \<Rightarrow> bool" where
  "adapter_meant ti a \<longleftrightarrow>
     hits (at_pattern_type ti) (at_pattern ti) (at_is_an_inverted_target ti) (devName a) (devID a)
     \<and> \<not> (at_target_device_id ti \<noteq> [] \<and> str_find (at_target_device_id ti) (devID a) \<noteq> Some 0)"

definition EnableDisableAdapter :: "windows \<Rightarrow> Adapter list \<Rightarrow> adapter_target_info_t \<Rightarrow> bool \<Rightarrow> bool \<Rightarrow> unit act" where
  "EnableDisableAdapter w adapter_list ti enable verbose =
     each (\<lambda>a. if adapter_meant ti a then ChangeAdapterState w a enable verbose else give ()) adapter_list"

definition EnableDisableDisplayAdapterManager :: "windows \<Rightarrow> string \<Rightarrow> bool \<Rightarrow> bool \<Rightarrow> unit act" where
  "EnableDisableDisplayAdapterManager w pattern verbose enable =
     act_bind (look (\<lambda>h. GetAdapterList (w_adapters w h))) (\<lambda>listed.
     act_bind (of_option listed) (\<lambda>(adapter_list, t).
     act_bind (of_option (find_pattern (StringToLowerCase pattern) t SupportedEnableDisablePatterns)) (\<lambda>found.
     case found of
       None \<Rightarrow> give ()
     | Some (e, target) \<Rightarrow>
         each (\<lambda>sub. EnableDisableAdapter w adapter_list
                \<lparr>at_pattern = sub, at_is_an_inverted_target = IsAnInvertedTarget e, at_target_device_id = target,
                 at_pattern_type = PatternType e\<rparr> enable verbose)
           (AdaptersToMatch e))))"

definition DisableDisplayAdapter :: "windows \<Rightarrow> string \<Rightarrow> bool \<Rightarrow> unit act" where
  "DisableDisplayAdapter w pattern verbose = EnableDisableDisplayAdapterManager w pattern verbose False"

definition EnableDisplayAdapter :: "windows \<Rightarrow> string \<Rightarrow> bool \<Rightarrow> unit act" where
  "EnableDisplayAdapter w pattern verbose = EnableDisableDisplayAdapterManager w pattern verbose True"

end
