(* ===== verification/IddDisplays.thy ===== *)
theory IddDisplays
  imports IddMachine
begin

text \<open>
  The displays as the set-up tool handles them: \<open>RearrangeDisplays.cpp\<close> (the query of their settings, putting them side by side,
  enabling and disabling those a pattern selects) and \<open>ChangeDisplaySettings.cpp\<close> (scaling and resolution) of
  \<open>sources/apps/idd-setup-tool\<close>. Positions and sizes are the 32-bit words of \<open>DEVMODE\<close>; a call for a single display only stores what the
  call without a display applies.
\<close>

section \<open>The displays and their settings\<close>

definition EraseFromStartOfString :: "string \<Rightarrow> string \<Rightarrow> string" where
  "EraseFromStartOfString main_str to_erase =
     (if str_find (StringToLowerCase main_str) (StringToLowerCase to_erase) \<noteq> Some 0 then main_str
      else drop (length to_erase) main_str)"

definition registry_prefix :: string where
  "registry_prefix = (let b = [CHR 0x5C] in b @ ''REGISTRY'' @ b @ ''MACHINE'' @ b)"

definition LookupDeviceIDForDisplay :: "(string \<Rightarrow> (string \<times> string) option list option) \<Rightarrow> string \<Rightarrow> string" where
  "LookupDeviceIDForDisplay registry device_key =
     (case registry (EraseFromStartOfString device_key registry_prefix) of
        None \<Rightarrow> []
      | Some vs \<Rightarrow>
          fold (\<lambda>v dev_id. case v of
                  Some (name, data) \<Rightarrow> if StringToLowerCase name = ''matchingdeviceid'' then data else dev_id
                | None \<Rightarrow> dev_id) vs [])"

text \<open>The description is compared with every kind of pattern first.\<close>

definition CheckDisplayPatternMatches :: "string \<Rightarrow> string \<Rightarrow> string \<Rightarrow> pattern_table \<Rightarrow> pattern_table" where
  "CheckDisplayPatternMatches device_string device_id device_name t =
     fold (\<lambda>e t. if list_ex (\<lambda>sub. CheckIfStringContainsPattern device_string sub True \<noteq> IsAnInvertedTarget e
                      \<or> hits (PatternType e) sub (IsAnInvertedTarget e) device_string device_id) (DisplaysToMatch e)
                 then note_match (Abbreviation e) device_name t else t)
       SupportedEnableDisablePatterns t"

type_synonym list_of_settings = "(DISPLAY_DEVICE \<times> DEVMODE) list"

abbreviation DISPLAY_DEVICE_ATTACHED_TO_DESKTOP :: "32 word" where "DISPLAY_DEVICE_ATTACHED_TO_DESKTOP \<equiv> 1"

definition attached :: "DISPLAY_DEVICE \<Rightarrow> bool" where
  "attached d \<longleftrightarrow> StateFlags d AND DISPLAY_DEVICE_ATTACHED_TO_DESKTOP \<noteq> 0"

definition display_settings :: "windows \<Rightarrow> history \<Rightarrow> bool \<Rightarrow> DISPLAY_DEVICE \<Rightarrow> DEVMODE option" where
  "display_settings w h extract_only_attached d =
     (if attached d then w_current w h (DeviceName d)
      else if \<not> extract_only_attached then w_stored w h (DeviceName d) else None)"

definition QueryActiveSettings :: "windows \<Rightarrow> history \<Rightarrow> bool \<Rightarrow> list_of_settings \<times> pattern_table" where
  "QueryActiveSettings w h extract_only_attached =
     (let ds = w_displays w h
      in (List.map_filter (\<lambda>d. map_option (Pair d) (display_settings w h extract_only_attached d)) ds,
          fold (\<lambda>d. CheckDisplayPatternMatches (DeviceString d) (LookupDeviceIDForDisplay (w_registry w h) (DeviceKey d)) (DeviceName d))
            ds no_patterns))"

section \<open>Side by side\<close>

abbreviation CDS_UPDATEREGISTRY :: "32 word" where "CDS_UPDATEREGISTRY \<equiv> 0x1"
abbreviation CDS_SET_PRIMARY :: "32 word" where "CDS_SET_PRIMARY \<equiv> 0x10"
abbreviation CDS_NORESET :: "32 word" where "CDS_NORESET \<equiv> 0x10000000"

abbreviation (input) DISP_CHANGE_SUCCESSFUL :: int where "DISP_CHANGE_SUCCESSFUL \<equiv> 0"

definition CheckAndPrintDisplayChangeStatus :: "int \<Rightarrow> bool" where
  "CheckAndPrintDisplayChangeStatus sts \<longleftrightarrow> sts = DISP_CHANGE_SUCCESSFUL"

text \<open>A display change whose status is checked: -1 ends the operation, otherwise it goes on.\<close>

definition change_display :: "windows \<Rightarrow> string option \<Rightarrow> DEVMODE option \<Rightarrow> 32 word \<Rightarrow> int act \<Rightarrow> int act" where
  "change_display w name mode flags go_on =
     act_bind (invoke w (ChangeDisplaySettingsEx name mode flags)) (\<lambda>ret.
     if CheckAndPrintDisplayChangeStatus ret then go_on else give (-1))"

definition apply_changes :: "windows \<Rightarrow> int act" where
  "apply_changes w = change_display w None None 0 (give 0)"

fun place_right_of :: "windows \<Rightarrow> DEVMODE \<Rightarrow> list_of_settings \<Rightarrow> int act" where
  "place_right_of w previous [] = apply_changes w"
| "place_right_of w previous ((d, mode) # rest) =
     (let mode = mode\<lparr>dm_x := dm_x previous + dmPelsWidth previous\<rparr>
      in change_display w (Some (DeviceName d)) (Some mode) (CDS_UPDATEREGISTRY OR CDS_NORESET) (place_right_of w mode rest))"

definition RearrangeDisplays :: "windows \<Rightarrow> list_of_settings \<Rightarrow> int act" where
  "RearrangeDisplays w active_settings =
     (case active_settings of
        [] \<Rightarrow> give (-1)
      | (d, mode) # rest \<Rightarrow>
          let mode = mode\<lparr>dm_x := 0, dm_y := 0\<rparr>
          in change_display w (Some (DeviceName d)) (Some mode) (CDS_SET_PRIMARY OR CDS_UPDATEREGISTRY OR CDS_NORESET)
               (place_right_of w mode rest))"

section \<open>Enabling and disabling\<close>

record display_target_info_t =
  dt_pattern :: string
  dt_is_an_inverted_target :: bool
  dt_target_device_name :: string
  dt_pattern_type :: ENABLE_DISABLE_PATTERN_TYPES
  dt_default_width :: int
  dt_default_height :: int

definition display_meant :: "display_target_info_t \<Rightarrow> DISPLAY_DEVICE \<Rightarrow> string \<Rightarrow> bool" where
  "display_meant ti d device_id \<longleftrightarrow>
     hits (dt_pattern_type ti) (dt_pattern ti) (dt_is_an_inverted_target ti) (DeviceString d) device_id
     \<and> \<not> (dt_target_device_name ti \<noteq> [] \<and> str_find (dt_target_device_name ti) (DeviceName d) \<noteq> Some 0)"

fun change_meant :: "windows \<Rightarrow> display_target_info_t \<Rightarrow> list_of_settings \<Rightarrow> int act" where
  "change_meant w ti [] = apply_changes w"
| "change_meant w ti ((d, mode) # rest) =
     act_bind (look (\<lambda>h. LookupDeviceIDForDisplay (w_registry w h) (DeviceKey d))) (\<lambda>device_id.
     if display_meant ti d device_id
     then change_display w (Some (DeviceName d))
            (Some (mode\<lparr>dmPelsWidth := word_of_int (dt_default_width ti), dmPelsHeight := word_of_int (dt_default_height ti)\<rparr>))
            (CDS_UPDATEREGISTRY OR CDS_NORESET) (change_meant w ti rest)
     else change_meant w ti rest)"

definition EnableDisableDisplay :: "windows \<Rightarrow> list_of_settings \<Rightarrow> display_target_info_t \<Rightarrow> int act" where
  "EnableDisableDisplay w active_settings ti =
     (if active_settings = [] then give (-1) else change_meant w ti active_settings)"

definition default_size :: "ENABLE_DISABLE_PATTERN_TYPES \<Rightarrow> string \<Rightarrow> bool \<Rightarrow> int \<times> int" where
  "default_size ty sub enable =
     (if enable
      then case DisplayToResolutionMap sub of
             Some r \<Rightarrow> if res_type r = ty then (res_width r, res_height r) else (1920, 1080)
           | None \<Rightarrow> (1920, 1080)
      else (0, 0))"

fun display_subs :: "windows \<Rightarrow> list_of_settings \<Rightarrow> EnableDisablePatternStruct \<Rightarrow> string \<Rightarrow> bool \<Rightarrow> string list \<Rightarrow> int \<Rightarrow> int act" where
  "display_subs w active_settings e target enable [] status = give status"
| "display_subs w active_settings e target enable (sub # subs) status =
     act_bind (EnableDisableDisplay w active_settings
         \<lparr>dt_pattern = sub, dt_is_an_inverted_target = IsAnInvertedTarget e, dt_target_device_name = target, dt_pattern_type = PatternType e,
          dt_default_width = fst (default_size (PatternType e) sub enable), dt_default_height = snd (default_size (PatternType e) sub enable)\<rparr>)
       (\<lambda>r. display_subs w active_settings e target enable subs (status AND r))"

definition EnableDisableDisplayManager :: "windows \<Rightarrow> string \<Rightarrow> list_of_settings \<times> pattern_table \<Rightarrow> bool \<Rightarrow> int act" where
  "EnableDisableDisplayManager w pattern queried enable =
     act_bind (of_option (find_pattern (StringToLowerCase pattern) (snd queried) SupportedEnableDisablePatterns)) (\<lambda>found.
     case found of
       None \<Rightarrow> give 1
     | Some (e, target) \<Rightarrow> display_subs w (fst queried) e target enable (DisplaysToMatch e) 1)"

definition DisableDisplay :: "windows \<Rightarrow> string \<Rightarrow> list_of_settings \<times> pattern_table \<Rightarrow> int act" where
  "DisableDisplay w pattern queried = EnableDisableDisplayManager w pattern queried False"

definition EnableDisplay :: "windows \<Rightarrow> string \<Rightarrow> list_of_settings \<times> pattern_table \<Rightarrow> int act" where
  "EnableDisplay w pattern queried = EnableDisableDisplayManager w pattern queried True"

section \<open>Scaling\<close>

definition known_dpi :: "nat list" where
  "known_dpi = [100, 125, 150, 175, 200, 225, 250, 300, 350, 400, 450, 500]"

record DPIScalingInfo =
  dpi_minimum :: nat
  dpi_maximum :: nat
  dpi_current :: nat
  dpi_recommended :: nat

text \<open>
  The three steps are 32-bit integers relative to the recommended value; the bound is computed with 64 bits without sign. \<open>None\<close> is
  the exception; the size of the smallest integer and a range upside down are not defined, and an index outside the table neither.
\<close>

definition GetDPIScalingInfo :: "(int \<times> int \<times> int) option \<Rightarrow> (idd_error + DPIScalingInfo)" where
  "GetDPIScalingInfo answer =
     (case answer of
        None \<Rightarrow> Inl Thrown
      | Some (lo, cur, hi) \<Rightarrow>
          if hi < lo \<or> lo = - (2 ^ 31) then Inl Undefined
          else let cur = max lo (min cur hi); min_abs = abs lo
               in if int (length known_dpi) < (min_abs + hi + 1) mod 2 ^ 64 then Inl Thrown
                  else if 0 \<le> min_abs + cur \<and> min_abs + cur < int (length known_dpi) \<and> min_abs < int (length known_dpi)
                    \<and> 0 \<le> min_abs + hi \<and> min_abs + hi < int (length known_dpi)
                  then Inr \<lparr>dpi_minimum = 100, dpi_maximum = known_dpi ! nat (min_abs + hi), dpi_current = known_dpi ! nat (min_abs + cur),
                            dpi_recommended = known_dpi ! nat min_abs\<rparr>
                  else Inl Undefined)"

definition dpi_info :: "windows \<Rightarrow> LUID \<Rightarrow> 32 word \<Rightarrow> DPIScalingInfo act" where
  "dpi_info w adapter source =
     act_bind (look (\<lambda>h. GetDPIScalingInfo (w_dpi w h adapter source))) (\<lambda>r. case r of Inl e \<Rightarrow> fail e | Inr i \<Rightarrow> give i)"

definition index_in :: "nat \<Rightarrow> nat list \<Rightarrow> nat option" where
  "index_in x xs = (let i = length (takeWhile (\<lambda>y. y \<noteq> x) xs) in if i < length xs then Some i else None)"

definition SetDPIScaling :: "windows \<Rightarrow> LUID \<Rightarrow> 32 word \<Rightarrow> nat \<Rightarrow> unit act" where
  "SetDPIScaling w adapter source dpi_to_set =
     act_bind (dpi_info w adapter source) (\<lambda>info.
     let dpi_to_set = max (dpi_minimum info) (min dpi_to_set (dpi_maximum info))
     in if dpi_to_set = dpi_current info then give ()
        else case (index_in dpi_to_set known_dpi, index_in (dpi_recommended info) known_dpi) of
               (Some i, Some j) \<Rightarrow>
                 act_bind (invoke w (SetDpiScale adapter source (word_of_int (int i - int j)))) (\<lambda>res.
                 if res = 0 then give () else fail Thrown)
             | _ \<Rightarrow> fail Thrown)"

definition SetDisplayDPI :: "windows \<Rightarrow> nat \<Rightarrow> bool \<Rightarrow> unit act" where
  "SetDisplayDPI w dpi_to_set verbose =
     act_bind (look (\<lambda>h. w_paths w h False)) (\<lambda>q.
     case q of
       Query_done ps \<Rightarrow>
         each (\<lambda>p.
           act_bind (if verbose then act_bind (dpi_info w (pi_adapter p) (pi_source p)) (\<lambda>_. give ()) else give ()) (\<lambda>_.
           act_bind (SetDPIScaling w (pi_adapter p) (pi_source p) dpi_to_set) (\<lambda>_.
           if verbose then act_bind (dpi_info w (pi_adapter p) (pi_source p)) (\<lambda>_. give ()) else give ()))) ps
     | _ \<Rightarrow> fail Thrown)"

section \<open>Resolution\<close>

abbreviation DM_PELSWIDTH :: "32 word" where "DM_PELSWIDTH \<equiv> 0x80000"
abbreviation DM_PELSHEIGHT :: "32 word" where "DM_PELSHEIGHT \<equiv> 0x100000"

definition SetDisplayResolution :: "windows \<Rightarrow> 32 word \<Rightarrow> 32 word \<Rightarrow> unit act" where
  "SetDisplayResolution w width height =
     act_bind (look (w_displays w)) (\<lambda>ds.
     each (\<lambda>d.
       act_bind (look (\<lambda>h. list_ex (\<lambda>m. dmPelsWidth m = width \<and> dmPelsHeight m = height) (w_modes w h (DeviceName d)))) (\<lambda>supported.
       if DeviceString d = ''Intel IddSampleDriver Device'' \<and> supported
       then act_bind (invoke w (ChangeDisplaySettingsEx (Some (DeviceName d))
              (Some \<lparr>dm_x = 0, dm_y = 0, dmPelsWidth = width, dmPelsHeight = height, dmFields = DM_PELSWIDTH OR DM_PELSHEIGHT\<rparr>) 0))
              (\<lambda>_. give ())
       else give ())) ds)"

end
