(* ===== verification/IddInstall.thy ===== *)
theory IddInstall
  imports IddMachine
begin

text \<open>
  Installing, removing and pairing the display driver, \<open>InstallIDD.cpp\<close> and \<open>PairIdd.cpp\<close> of \<open>sources/apps/idd-setup-tool\<close>, with
  \<open>RunSystemCommand\<close> and \<open>OpenKeyAndEnumerateInfo\<close> of \<open>Utility.cpp\<close>.
\<close>

section \<open>Running a command\<close>

text \<open>
  The output of the child is read after it has ended, at most 4095 characters; with no output at all the loop that peeks
  for it never ends. A last newline is taken away.
\<close>

definition RunSystemCommand :: "windows \<Rightarrow> string \<Rightarrow> (bool \<times> string) act" where
  "RunSystemCommand w cmdline =
     act_bind (invoke w (SetupCall ''CreatePipe'' ''stdin'')) (\<lambda>r.
     if r = 0 then give (False, []) else
     act_bind (invoke w (SetupCall ''CreatePipe'' ''stdout'')) (\<lambda>r.
     if r = 0 then give (False, []) else
     act_bind (invoke w (RunProcess cmdline)) (\<lambda>r.
     if r = 0 then give (False, []) else
     act_bind (look (w_output w)) (\<lambda>out.
     if out = [] then fail Hangs
     else let result = takeWhile (\<lambda>c. c \<noteq> NUL) (take 4095 out)
          in give (True, if result \<noteq> [] \<and> last result = LF then butlast result else result)))))"

definition TrustIDD :: "windows \<Rightarrow> string \<Rightarrow> string \<Rightarrow> bool act" where
  "TrustIDD w exe_dir inf_path =
     (let b = [CHR 0x5C]; quoted = (\<lambda>s. [CHR 0x27] @ s @ [CHR 0x27])
      in act_bind (RunSystemCommand w (''powershell -NoProfile -ExecutionPolicy Unrestricted -Command '' @ [CHR 0x22] @ ''& ''
           @ quoted (exe_dir @ b @ ''install_certificate.ps1'') @ '' -driverFile '' @ quoted (inf_path @ b @ ''iddsampledriver.cat'') @ [CHR 0x22]))
         (\<lambda>(ok, results). give ok))"

section \<open>Removing\<close>

text \<open>The strings of a list that is stored with a zero behind each and one behind the last.\<close>

function multi_sz :: "string \<Rightarrow> string list" where
  "multi_sz s = (let x = takeWhile (\<lambda>c. c \<noteq> NUL) s in if x = [] then [] else x # multi_sz (drop (length x + 1) s))"
  by pat_completeness auto
termination by (relation "measure length") (auto simp: takeWhile_eq_Nil_iff intro: diff_less)

declare multi_sz.simps [simp del]

definition GetMultiSzDevProperty :: "(reg_type \<times> string) option \<Rightarrow> string list" where
  "GetMultiSzDevProperty v =
     (case v of Some (REG_MULTI_SZ, s) \<Rightarrow> if s = [] then [] else multi_sz s | _ \<Rightarrow> [])"

abbreviation idd_hardware_id :: string where
  "idd_hardware_id \<equiv> ''root'' @ [CHR 0x5C] @ ''iddsampledriver''"

fun remove_devices :: "windows \<Rightarrow> device list \<Rightarrow> bool \<Rightarrow> nat \<Rightarrow> (bool \<times> nat) act" where
  "remove_devices w [] result count = give (result, count)"
| "remove_devices w (d # ds) result count =
     (if idd_hardware_id \<notin> set (GetMultiSzDevProperty (dv_hardware d)) then remove_devices w ds result count
      else let i = (case dv_id d of None \<Rightarrow> [] | Some s \<Rightarrow> s)
           in act_bind (invoke w (SetupCall ''SetClassInstallParams'' i)) (\<lambda>r.
              if r = 0 then remove_devices w ds False count
              else act_bind (invoke w (RemoveDevice i)) (\<lambda>r.
                   if r = 0 then remove_devices w ds False count
                   else remove_devices w ds result (count + 1))))"

text \<open>\<open>DISPLAY_GUID\<close> is the class of the display adapters.\<close>

definition UninstallIDD :: "windows \<Rightarrow> nat \<Rightarrow> bool act" where
  "UninstallIDD w DISPLAY_GUID =
     act_bind (look (\<lambda>h. do { cs \<leftarrow> w_adapters w h; map_of cs DISPLAY_GUID })) (\<lambda>found.
     case found of
       None \<Rightarrow> give False
     | Some ds \<Rightarrow> act_bind (remove_devices w ds True 0) (\<lambda>(result, count). give result))"

section \<open>Installing\<close>

definition InstallIDD :: "windows \<Rightarrow> string \<Rightarrow> string \<Rightarrow> bool act" where
  "InstallIDD w inf_path HWID =
     (let inf = inf_path @ [CHR 0x5C] @ ''IddSampleDriver.inf''
      in if HWID = [] then fail Thrown
         else act_bind (each (demand w)
           [SetupCall ''SetupDiGetINFClass'' inf, SetupCall ''SetupDiCreateDeviceInfoList'' inf, SetupCall ''SetupDiCreateDeviceInfo'' inf,
            SetupCall ''SetupDiSetDeviceRegistryProperty'' HWID, SetupCall ''SetupDiCallClassInstaller'' HWID,
            SetupCall ''LoadLibrary'' ''newdev.dll'', SetupCall ''GetProcAddress'' ''UpdateDriverForPlugAndPlayDevicesW'',
            SetupCall ''UpdateDriverForPlugAndPlayDevices'' (HWID @ '' '' @ inf)]) (\<lambda>_. give True))"

definition class_key :: string where
  "class_key = (let b = [CHR 0x5C] in ''SYSTEM'' @ b @ ''CurrentControlSet'' @ b @ ''Control'' @ b @ ''Class'' @ b
     @ ''{4d36e968-e325-11ce-bfc1-08002be10318}'')"

definition is_flex_value :: "string \<times> string \<Rightarrow> bool" where
  "is_flex_value v \<longleftrightarrow> StringToLowerCase (fst v) = ''matchingdeviceid''
     \<and> (str_find (StringToLowerCase (snd v)) ''ven_8086&dev_56c1'' \<noteq> None \<or> str_find (StringToLowerCase (snd v)) ''ven_8086&dev_56c0'' \<noteq> None)"

definition set_support :: "windows \<Rightarrow> string option \<Rightarrow> unit act" where
  "set_support w sub =
     (case sub of
        None \<Rightarrow> give ()
      | Some name \<Rightarrow>
          act_bind (look (\<lambda>h. w_registry w h (class_key @ [CHR 0x5C] @ name))) (\<lambda>values.
          case values of
            None \<Rightarrow> give ()
          | Some vs \<Rightarrow>
              if list_ex (\<lambda>v. case v of Some nv \<Rightarrow> is_flex_value nv | None \<Rightarrow> False) vs
              then act_bind (invoke w (RegSetSupport name)) (\<lambda>_. give ())
              else give ()))"

definition SetIDDRegisterKeys :: "windows \<Rightarrow> bool act" where
  "SetIDDRegisterKeys w =
     act_bind (look (\<lambda>h. w_subkeys w h class_key)) (\<lambda>keys.
     case keys of
       None \<Rightarrow> give False
     | Some [] \<Rightarrow> give False
     | Some ks \<Rightarrow> act_bind (each (set_support w) ks) (\<lambda>_. give True))"

section \<open>Pairing\<close>

abbreviation MSFT_BASIC_DISPLAY_ADAPTER :: nat where "MSFT_BASIC_DISPLAY_ADAPTER \<equiv> 0x1414"

definition IsIddAdapter :: "LUID list \<Rightarrow> LUID \<Rightarrow> bool" where
  "IsIddAdapter IddLUIDs luid = list_ex (\<lambda>l. fst luid = fst l \<and> snd luid = snd l) IddLUIDs"

definition IsIddPath :: "output_technology \<Rightarrow> bool" where
  "IsIddPath VotType \<longleftrightarrow> VotType = INDIRECT_WIRED \<or> VotType = INDIRECT_VIRTUAL"

text \<open>The two lists of LUIDs; after a failure the ones found before are kept.\<close>

definition GetAdapterLUIDs :: "query_result \<Rightarrow> (nat \<times> LUID) list option \<Rightarrow> LUID list \<times> LUID list" where
  "GetAdapterLUIDs q dxgi =
     (case q of
        Sizes_failed \<Rightarrow> ([], [])
      | _ \<Rightarrow>
          let paths = (case q of Query_failed ps \<Rightarrow> ps | Query_done ps \<Rightarrow> ps | _ \<Rightarrow> []);
              IddLUIDs = map pi_adapter (filter (\<lambda>p. IsIddPath (pi_technology p)) paths)
          in case dxgi of
               None \<Rightarrow> (IddLUIDs, [])
             | Some as \<Rightarrow>
                 (IddLUIDs, filter (\<lambda>l. \<not> IsIddAdapter IddLUIDs l)
                    (map snd (filter (\<lambda>(vendor, l). vendor \<noteq> MSFT_BASIC_DISPLAY_ADAPTER) as))))"

definition OpenVirtualDisplay :: "windows \<Rightarrow> string \<Rightarrow> bool act" where
  "OpenVirtualDisplay w path =
     (if path = [] then give False else act_bind (invoke w (OpenDevice path)) (\<lambda>r. give (r \<noteq> 0)))"

definition UpdateAdapterLUID :: "windows \<Rightarrow> string \<Rightarrow> LUID \<Rightarrow> bool act" where
  "UpdateAdapterLUID w path luid = act_bind (invoke w (UpdateLuid path luid)) (\<lambda>r. give (r = 1))"

definition pair_one :: "windows \<Rightarrow> LUID list \<Rightarrow> nat \<times> string \<Rightarrow> unit act" where
  "pair_one w GpuLUIDs = (\<lambda>(i, path).
     act_bind (OpenVirtualDisplay w path) (\<lambda>ok.
     if \<not> ok then give ()
     else if GpuLUIDs = [] then fail Undefined
     else act_bind (UpdateAdapterLUID w path (GpuLUIDs ! (i mod length GpuLUIDs))) (\<lambda>_. give ())))"

definition PairIddLUIDsToGpuLUIDs :: "windows \<Rightarrow> unit act" where
  "PairIddLUIDsToGpuLUIDs w =
     act_bind (look (\<lambda>h. snd (GetAdapterLUIDs (w_paths w h True) (w_dxgi w h)))) (\<lambda>GpuLUIDs.
     act_bind (look (\<lambda>h. case w_idd_paths w h of None \<Rightarrow> [] | Some ps \<Rightarrow> ps)) (\<lambda>path.
     each (pair_one w GpuLUIDs) (zip [0..<length path] path)))"

end
