(* ===== verification/IddMain.thy ===== *)
theory IddMain
  imports IddCommand IddAdapters IddDisplays IddInstall
begin

text \<open>
  \<open>main\<close> of the driver set-up tool, \<open>sources/apps/idd-setup-tool/idd-setup-tool.cpp\<close>: the steps in their order, the delay before displays
  are changed once adapters were, and what is returned. A step that returns -1 ends the run; an exception is caught and gives -1.
\<close>

section \<open>Steps\<close>

type_synonym tool_options = "idd_option \<Rightarrow> opt_value"

definition says_yes :: "idd_option \<Rightarrow> tool_options \<Rightarrow> bool" where
  "says_yes f opts \<longleftrightarrow> StringToLowerCase (string_of (opts f)) = ''yes''"

text \<open>
  A step gets whether a delay is due and says whether one is due after it; \<open>None\<close> ends the run with -1.
\<close>

type_synonym step = "bool \<Rightarrow> bool option act"

definition ApplyExecutionDelayBeforeDisplayChange :: "windows \<Rightarrow> tool_options \<Rightarrow> unit act" where
  "ApplyExecutionDelayBeforeDisplayChange w opts =
     (let ms = to_uint32 (int_at 0 (opts PostActionDelay))
      in if 0 < ms then act_bind (invoke w (SleepFor (nat ms))) (\<lambda>_. give ()) else give ())"

definition delay_if_due :: "windows \<Rightarrow> tool_options \<Rightarrow> bool \<Rightarrow> bool act" where
  "delay_if_due w opts due =
     (if due then act_bind (ApplyExecutionDelayBeforeDisplayChange w opts) (\<lambda>_. give False) else give False)"

definition uninstall_step :: "windows \<Rightarrow> nat \<Rightarrow> tool_options \<Rightarrow> step" where
  "uninstall_step w DISPLAY_GUID opts due =
     (if flag_of (opts UninstallIdd) then act_bind (UninstallIDD w DISPLAY_GUID) (\<lambda>ok. give (if ok then Some due else None))
      else give (Some due))"

definition show_step :: "windows \<Rightarrow> tool_options \<Rightarrow> step" where
  "show_step w opts due =
     (if says_yes ShowAdaptersInfo opts \<or> says_yes ShowIddCount opts
      then act_bind (look (\<lambda>h. GetAdapterList (w_adapters w h))) (\<lambda>listed. act_bind (of_option listed) (\<lambda>_. give (Some due)))
      else give (Some due))"

definition trust_step :: "windows \<Rightarrow> string \<Rightarrow> tool_options \<Rightarrow> step" where
  "trust_step w exe_dir opts due =
     (if flag_of (opts TrustInf)
      then act_bind (TrustIDD w exe_dir (string_of (opts InfPath))) (\<lambda>ok. give (if ok then Some due else None))
      else give (Some due))"

definition restart_adapters :: "windows \<Rightarrow> bool \<Rightarrow> unit act" where
  "restart_adapters w verbose =
     act_bind (DisableDisplayAdapter w ''idd'' verbose) (\<lambda>_.
     act_bind (DisableDisplayAdapter w ''flex'' verbose) (\<lambda>_.
     act_bind (EnableDisplayAdapter w ''flex'' verbose) (\<lambda>_.
     EnableDisplayAdapter w ''idd'' verbose)))"

definition install_step :: "windows \<Rightarrow> tool_options \<Rightarrow> step" where
  "install_step w opts due =
     (if \<not> flag_of (opts InstallIdd) then give (Some due)
      else act_bind (look (\<lambda>h. GetAdapterList (w_adapters w h))) (\<lambda>listed.
           act_bind (of_option listed) (\<lambda>(adapter_list, _).
           act_bind (each (\<lambda>_. act_bind (InstallIDD w (string_of (opts InfPath)) idd_hardware_id) (\<lambda>_. give ()))
                      [0..<GetNumIddCompatibleAdapters adapter_list]) (\<lambda>_.
           act_bind (SetIDDRegisterKeys w) (\<lambda>ok.
           if \<not> ok then give None
           else act_bind (restart_adapters w (flag_of (opts Verbose))) (\<lambda>_. give (Some True)))))))"

definition pair_step :: "windows \<Rightarrow> tool_options \<Rightarrow> step" where
  "pair_step w opts due =
     (if flag_of (opts PairIdd) then act_bind (PairIddLUIDsToGpuLUIDs w) (\<lambda>_. give (Some due)) else give (Some due))"

text \<open>Patterns until one returns other than 0.\<close>

fun each_pattern :: "(string \<Rightarrow> int act) \<Rightarrow> string list \<Rightarrow> bool act" where
  "each_pattern f [] = give True"
| "each_pattern f (p # ps) = act_bind (f p) (\<lambda>r. if r \<noteq> 0 then give False else each_pattern f ps)"

definition display_step :: "windows \<Rightarrow> tool_options \<Rightarrow> idd_option \<Rightarrow> bool \<Rightarrow> step" where
  "display_step w opts which enable due =
     (if strings_of (opts which) = [] then give (Some due)
      else act_bind (delay_if_due w opts due) (\<lambda>due.
           act_bind (look (\<lambda>h. QueryActiveSettings w h (\<not> enable))) (\<lambda>queried.
           act_bind (each_pattern (\<lambda>p. EnableDisableDisplayManager w p queried enable) (strings_of (opts which))) (\<lambda>ok.
           give (if ok then Some due else None)))))"

definition adapter_step :: "windows \<Rightarrow> tool_options \<Rightarrow> idd_option \<Rightarrow> bool \<Rightarrow> step" where
  "adapter_step w opts which enable due =
     (if strings_of (opts which) = [] then give (Some due)
      else act_bind (each (\<lambda>p. EnableDisableDisplayAdapterManager w p (flag_of (opts Verbose)) enable) (strings_of (opts which)))
           (\<lambda>_. give (Some True)))"

definition resolution_step :: "windows \<Rightarrow> tool_options \<Rightarrow> step" where
  "resolution_step w opts due =
     (if int_at 0 (opts Resolutions) \<noteq> 0 \<and> int_at 1 (opts Resolutions) \<noteq> 0
      then act_bind (delay_if_due w opts due) (\<lambda>due.
           act_bind (SetDisplayResolution w (word_of_int (int_at 0 (opts Resolutions))) (word_of_int (int_at 1 (opts Resolutions)))) (\<lambda>_.
           give (Some due)))
      else give (Some due))"

definition rearrange_step :: "windows \<Rightarrow> tool_options \<Rightarrow> step" where
  "rearrange_step w opts due =
     (if flag_of (opts idd_option.RearrangeDisplays)
      then act_bind (delay_if_due w opts due) (\<lambda>due.
           act_bind (look (\<lambda>h. fst (QueryActiveSettings w h True))) (\<lambda>active_settings.
           act_bind (RearrangeDisplays w active_settings) (\<lambda>r. give (if r \<noteq> 0 then None else Some due))))
      else give (Some due))"

definition scale_step :: "windows \<Rightarrow> tool_options \<Rightarrow> step" where
  "scale_step w opts due =
     (if int_at 0 (opts Scale) \<noteq> 0
      then act_bind (delay_if_due w opts due) (\<lambda>due.
           act_bind (SetDisplayDPI w (nat (to_uint32 (int_at 0 (opts Scale)))) (flag_of (opts Verbose))) (\<lambda>_. give (Some due)))
      else give (Some due))"

definition tool_steps :: "windows \<Rightarrow> nat \<Rightarrow> string \<Rightarrow> tool_options \<Rightarrow> step list" where
  "tool_steps w DISPLAY_GUID exe_dir opts =
     [uninstall_step w DISPLAY_GUID opts, show_step w opts, trust_step w exe_dir opts, install_step w opts, pair_step w opts,
      display_step w opts DisplaysToDisable False, adapter_step w opts AdaptersToDisable False,
      adapter_step w opts AdaptersToEnable True, display_step w opts DisplaysToEnable True, resolution_step w opts,
      rearrange_step w opts, scale_step w opts]"

fun run_steps :: "step list \<Rightarrow> bool \<Rightarrow> int act" where
  "run_steps [] due = give 0"
| "run_steps (s # ss) due = act_bind (s due) (\<lambda>r. case r of None \<Rightarrow> give (-1) | Some due \<Rightarrow> run_steps ss due)"

definition main_run :: "windows \<Rightarrow> nat \<Rightarrow> string \<Rightarrow> tool_options \<Rightarrow> int act" where
  "main_run w DISPLAY_GUID exe_dir opts h =
     (case run_steps (tool_steps w DISPLAY_GUID exe_dir opts) False h of
        (Inl Thrown, h') \<Rightarrow> (Inr (-1), h')
      | r \<Rightarrow> r)"

text \<open>The whole tool: the exit code and what it changed; \<open>None\<close> when reading the command line is not defined.\<close>

definition idd_main ::
  "windows \<Rightarrow> nat \<Rightarrow> string \<Rightarrow> (string \<Rightarrow> bool) \<Rightarrow> string list \<Rightarrow> string list \<Rightarrow> ((idd_error + int) \<times> history) option" where
  "idd_main w DISPLAY_GUID exe_dir idd_ok stray argv = do {
     p \<leftarrow> IddSetupToolCommandParser stray;
     r \<leftarrow> ParseCommands (ConstraintFunction (exe_dir @ [CHR 0x5C] @ ''idd'') idd_ok) argv p;
     Some (case r of
             Exit n \<Rightarrow> (Inr n, [])
           | Ret (False, p) \<Rightarrow> (Inr (-1), [])
           | Ret (True, p) \<Rightarrow> main_run w DISPLAY_GUID exe_dir (Options p) []) }"

end
