(* ===== verification/IddMainProps.thy ===== *)
theory IddMainProps
  imports IddMain
begin

text \<open>
  The steps of the set-up tool: what they leave in the history of calls, the delay between adapters and displays, displays side by side,
  pairing in turn, scaling as requested, removal of every driver device, and what an index of a pattern really selects.
\<close>

section \<open>What operations call\<close>

definition emits :: "(api_call \<Rightarrow> bool) \<Rightarrow> 'a act \<Rightarrow> bool" where
  "emits P f \<longleftrightarrow> (\<forall>h r h'. f h = (r, h') \<longrightarrow> (\<exists>cs. h' = h @ cs \<and> list_all P cs))"

named_theorems emit_intros

lemma emits_give [emit_intros]: "emits P (give x)" by (simp add: emits_def)

lemma emits_fail [emit_intros]: "emits P (fail e)" by (simp add: emits_def)

lemma emits_look [emit_intros]: "emits P (look f)" by (simp add: emits_def)

lemma emits_invoke [emit_intros]: "P c \<Longrightarrow> emits P (invoke w c)" by (simp add: emits_def)

lemma emits_of_option [emit_intros]: "emits P (of_option v)"
  by (cases v) (simp_all add: of_option_def emits_give emits_fail)

lemma emits_bind [emit_intros]:
  assumes "emits P f" "\<And>x. emits P (g x)"
  shows "emits P (act_bind f g)"
  unfolding emits_def
proof (intro allI impI)
  fix h r h'
  assume "act_bind f g h = (r, h')"
  then show "\<exists>cs. h' = h @ cs \<and> list_all P cs"
  proof (cases rule: act_bind_cases)
    case (1 e)
    then show ?thesis using assms(1) by (auto simp: emits_def)
  next
    case (2 x h1)
    then obtain cs ds where "h1 = h @ cs" "list_all P cs" "h' = h1 @ ds" "list_all P ds" using assms unfolding emits_def by metis
    then show ?thesis by (auto intro: exI [of _ "cs @ ds"])
  qed
qed

lemma emits_demand [emit_intros]: "P c \<Longrightarrow> emits P (demand w c)"
  by (auto simp: demand_def intro!: emit_intros)

lemma emits_each [emit_intros]: "(\<And>x. x \<in> set xs \<Longrightarrow> emits P (f x)) \<Longrightarrow> emits P (each f xs)"
  by (induction xs) (auto intro!: emit_intros)

lemma emits_if [emit_intros]: "emits P f \<Longrightarrow> emits P g \<Longrightarrow> emits P (if b then f else g)"
  by simp

fun adapter_change :: "api_call \<Rightarrow> bool" where
  "adapter_change (CallPropertyChange d) = True"
| "adapter_change _ = False"

fun display_change :: "api_call \<Rightarrow> bool" where
  "display_change (ChangeDisplaySettingsEx n m f) = True"
| "display_change (SetDpiScale a s r) = True"
| "display_change _ = False"

fun is_sleep :: "api_call \<Rightarrow> bool" where
  "is_sleep (SleepFor n) = True"
| "is_sleep _ = False"

abbreviation no_display :: "api_call \<Rightarrow> bool" where "no_display c \<equiv> \<not> display_change c \<and> \<not> is_sleep c"
abbreviation no_adapter :: "api_call \<Rightarrow> bool" where "no_adapter c \<equiv> \<not> adapter_change c \<and> \<not> is_sleep c"
abbreviation neither :: "api_call \<Rightarrow> bool" where "neither c \<equiv> \<not> display_change c \<and> \<not> is_sleep c \<and> \<not> adapter_change c"

lemma adapter_ops: "emits no_display (EnableDisableDisplayAdapterManager w pattern verbose enable)"
  unfolding EnableDisableDisplayAdapterManager_def EnableDisableAdapter_def ChangeAdapterState_def
  by (auto intro!: emit_intros split: option.splits prod.splits)

lemma change_display_emits: "emits no_adapter go_on \<Longrightarrow> emits no_adapter (change_display w name mode flags go_on)"
  unfolding change_display_def by (auto intro!: emit_intros)

lemma apply_changes_emits: "emits no_adapter (apply_changes w)"
  unfolding apply_changes_def by (intro change_display_emits emit_intros)

lemma rearrange_emits: "emits no_adapter (RearrangeDisplays w ss)"
proof -
  have "emits no_adapter (place_right_of w previous ss)" for previous ss
    by (induction ss arbitrary: previous) (auto simp: Let_def intro!: change_display_emits apply_changes_emits)
  then show ?thesis unfolding RearrangeDisplays_def by (auto simp: Let_def split: list.splits intro!: change_display_emits emit_intros)
qed

lemma display_ops: "emits no_adapter (EnableDisableDisplayManager w pattern queried enable)"
proof -
  have "emits no_adapter (change_meant w ti ss)" for ti ss
    by (induction ss) (auto intro!: change_display_emits apply_changes_emits emit_intros)
  then have one: "emits no_adapter (EnableDisableDisplay w ss ti)" for ss ti
    by (auto simp: EnableDisableDisplay_def intro!: emit_intros)
  have "emits no_adapter (display_subs w ss e target enable subs status)" for ss e target enable subs status
    by (induction subs arbitrary: status) (auto intro!: emit_intros one)
  then show ?thesis unfolding EnableDisableDisplayManager_def by (auto intro!: emit_intros split: option.splits prod.splits)
qed

lemma dpi_info_emits [emit_intros]: "emits P (dpi_info w a s)"
  unfolding dpi_info_def by (intro emit_intros) (auto intro!: emit_intros split: sum.splits)

lemma scaling_emits: "emits no_adapter (SetDPIScaling w a s dpi)"
  unfolding SetDPIScaling_def by (auto intro!: emit_intros simp: Let_def split: option.splits simp del: split_paired_All)

lemma dpi_emits: "emits no_adapter (SetDisplayDPI w dpi verbose)"
  unfolding SetDisplayDPI_def by (auto intro!: emit_intros scaling_emits split: query_result.splits)

lemma resolution_emits: "emits no_adapter (SetDisplayResolution w x y)"
  unfolding SetDisplayResolution_def by (auto intro!: emit_intros)

lemma remove_emits: "emits neither (remove_devices w ds result count)"
  by (induction ds arbitrary: result count) (auto intro!: emit_intros simp: Let_def)

lemma install_emits:
  "emits neither (UninstallIDD w g)" "emits neither (TrustIDD w dir path)" "emits neither (InstallIDD w path hw)"
  "emits neither (SetIDDRegisterKeys w)" "emits neither (PairIddLUIDsToGpuLUIDs w)"
  unfolding UninstallIDD_def TrustIDD_def RunSystemCommand_def InstallIDD_def SetIDDRegisterKeys_def set_support_def
    PairIddLUIDsToGpuLUIDs_def pair_one_def OpenVirtualDisplay_def UpdateAdapterLUID_def
  by (auto simp: Let_def intro!: emit_intros remove_emits split: option.splits list.splits prod.splits)

section \<open>The delay between adapters and displays\<close>

text \<open>Runs over a history: whether adapters were changed since the last delay, \<open>None\<close> once a display was changed while they were.\<close>

fun scan :: "bool \<Rightarrow> history \<Rightarrow> bool option" where
  "scan p [] = Some p"
| "scan p (c # cs) =
     (if adapter_change c then scan True cs
      else if is_sleep c then scan False cs
      else if display_change c \<and> p then None
      else scan p cs)"

lemma scan_append: "scan p (a @ b) = Option.bind (scan p a) (\<lambda>q. scan q b)"
  by (induction a arbitrary: p) auto

lemma scan_no_display: "list_all no_display cs \<Longrightarrow> \<exists>q. scan p cs = Some q"
  by (induction cs arbitrary: p) auto

lemma scan_no_adapter: "list_all no_adapter cs \<Longrightarrow> scan False cs = Some False"
  by (induction cs) auto

lemma scan_neither: "list_all neither cs \<Longrightarrow> scan p cs = Some p"
  by (induction cs) auto

lemma scan_no_sleep: "scan True b \<noteq> None \<Longrightarrow> list_all (\<lambda>c. \<not> is_sleep c) b \<Longrightarrow> scan True b = Some True"
  by (induction b) (auto split: if_splits)

text \<open>A history is in order when nothing is wrong in it and a delay is due whenever adapters were changed since the last one.\<close>

definition in_order :: "bool \<Rightarrow> history \<Rightarrow> bool" where
  "in_order due h \<longleftrightarrow> (\<exists>p. scan False h = Some p \<and> (p \<longrightarrow> due))"

lemma in_order_neither: "emits neither f \<Longrightarrow> f h = (r, h') \<Longrightarrow> in_order due h \<Longrightarrow> in_order due h'"
  by (fastforce simp: emits_def in_order_def scan_append scan_neither)

lemma in_order_adapters: "emits no_display f \<Longrightarrow> f h = (r, h') \<Longrightarrow> in_order due h \<Longrightarrow> in_order True h'"
  using scan_no_display by (fastforce simp: emits_def in_order_def scan_append)

lemma in_order_displays: "emits no_adapter f \<Longrightarrow> f h = (r, h') \<Longrightarrow> in_order False h \<Longrightarrow> in_order False h'"
  by (fastforce simp: emits_def in_order_def scan_append scan_no_adapter)

text \<open>Steps that keep histories in order, however they end.\<close>

definition step_ok :: "step \<Rightarrow> bool" where
  "step_ok s \<longleftrightarrow> (\<forall>due h r h'. in_order due h \<and> s due h = (r, h')
     \<longrightarrow> in_order True h' \<and> (\<forall>due'. r = Inr (Some due') \<longrightarrow> in_order due' h'))"

lemma in_order_mono: "in_order due h \<Longrightarrow> in_order True h"
  by (auto simp: in_order_def)

lemma run_steps_in_order:
  "list_all step_ok ss \<Longrightarrow> in_order due h \<Longrightarrow> run_steps ss due h = (r, h') \<Longrightarrow> in_order True h'"
proof (induction ss arbitrary: due h)
  case (Cons s ss)
  from Cons.prems(3) show ?case unfolding run_steps.simps
  proof (cases rule: act_bind_cases)
    case (1 e)
    then show ?thesis using Cons.prems by (auto simp: step_ok_def)
  next
    case (2 x h1)
    then have "in_order True h1" "\<And>d. x = Some d \<Longrightarrow> in_order d h1" using Cons.prems by (auto simp: step_ok_def)
    then show ?thesis using 2 Cons by (auto split: option.splits)
  qed
qed (auto intro: in_order_mono)

lemma step_okI:
  assumes "\<And>due h r h'. in_order due h \<Longrightarrow> s due h = (r, h') \<Longrightarrow> in_order True h'"
    and "\<And>due h h' d. in_order due h \<Longrightarrow> s due h = (Inr (Some d), h') \<Longrightarrow> in_order d h'"
  shows "step_ok s"
  unfolding step_ok_def
proof (intro allI impI, elim conjE)
  fix due h r h'
  assume "in_order due h" "s due h = (r, h')"
  then show "in_order True h' \<and> (\<forall>due'. r = Inr (Some due') \<longrightarrow> in_order due' h')"
    using assms(1) [of due h r h'] assms(2) [of due h] by auto
qed

lemma step_neither:
  assumes "\<And>due. emits neither (s due)" "\<And>due h h' d. s due h = (Inr (Some d), h') \<Longrightarrow> d = due"
  shows "step_ok s"
proof (rule step_okI)
  show "in_order True h'" if "in_order due h" "s due h = (r, h')" for due h r h'
    using in_order_neither [OF assms(1) that(2,1)] by (rule in_order_mono)
  show "in_order d h'" if "in_order due h" "s due h = (Inr (Some d), h')" for due h h' d
    using in_order_neither [OF assms(1) that(2,1)] assms(2) [OF that(2)] by simp
qed

lemma step_adapters:
  assumes "\<And>due. emits no_display (s due)" "\<And>due h h' d. s due h = (Inr (Some d), h') \<Longrightarrow> d \<or> h' = h \<and> d = due"
  shows "step_ok s"
proof (rule step_okI)
  show "in_order True h'" if "in_order due h" "s due h = (r, h')" for due h r h'
    by (rule in_order_adapters [OF assms(1) that(2,1)])
  show "in_order d h'" if "in_order due h" "s due h = (Inr (Some d), h')" for due h h' d
    using in_order_adapters [OF assms(1) that(2,1)] assms(2) [OF that(2)] that(1) by (cases d) auto
qed

definition delay_set :: "tool_options \<Rightarrow> bool" where
  "delay_set opts \<longleftrightarrow> 0 < to_uint32 (int_at 0 (opts PostActionDelay))"

lemma delay_in_order:
  assumes "delay_set opts" "in_order due h" "delay_if_due w opts due h = (r, h')"
  shows "r = Inr False \<and> in_order False h'"
proof (cases due)
  case True
  then have "r = Inr False" "h' = h @ [SleepFor (nat (to_uint32 (int_at 0 (opts PostActionDelay))))]"
    using assms(1,3) by (auto simp: delay_set_def delay_if_due_def ApplyExecutionDelayBeforeDisplayChange_def Let_def)
  then show ?thesis using assms(2) by (auto simp: in_order_def scan_append)
next
  case False
  then show ?thesis using assms(2,3) by (auto simp: delay_if_due_def)
qed

lemma step_displays:
  assumes "delay_set opts" "\<And>due. s due = (if b then act_bind (delay_if_due w opts due) f else give (Some due))"
    and "emits no_adapter (f False)" "\<And>h h' d. f False h = (Inr (Some d), h') \<Longrightarrow> d = False"
  shows "step_ok s"
proof -
  have run: "if b then \<exists>h1. in_order False h1 \<and> f False h1 = (r, h') else h' = h \<and> r = Inr (Some due)"
    if "in_order due h" "s due h = (r, h')" for due h r h'
  proof (cases b)
    case True
    then have "act_bind (delay_if_due w opts due) f h = (r, h')" using that(2) assms(2) by simp
    then show ?thesis
    proof (cases rule: act_bind_cases)
      case (1 e)
      then show ?thesis using delay_in_order [OF assms(1) that(1) 1(1)] by simp
    next
      case (2 x h1)
      then show ?thesis using delay_in_order [OF assms(1) that(1) 2(1)] True by auto
    qed
  next
    case False
    then show ?thesis using that(2) assms(2) by simp
  qed
  have after: "in_order False h'" if "in_order False h1" "f False h1 = (r, h')" for h1 r h'
    by (rule in_order_displays [OF assms(3) that(2,1)])
  show ?thesis
  proof (rule step_okI)
    show "in_order True h'" if "in_order due h" "s due h = (r, h')" for due h r h'
      using run [OF that] that(1) by (auto split: if_splits intro: in_order_mono dest: after)
    show "in_order d h'" if s: "in_order due h" "s due h = (Inr (Some d), h')" for due h h' d
    proof (cases b)
      case True
      with run [OF s] obtain h1 where "in_order False h1" "f False h1 = (Inr (Some d), h')" by auto
      then show ?thesis using after assms(4) by metis
    next
      case False
      then show ?thesis using run [OF s] s(1) by simp
    qed
  qed
qed

lemma restart_emits: "emits no_display (restart_adapters w v)"
  unfolding restart_adapters_def DisableDisplayAdapter_def EnableDisplayAdapter_def by (intro emit_intros adapter_ops)

lemma emits_mono: "emits P f \<Longrightarrow> (\<And>c. P c \<Longrightarrow> Q c) \<Longrightarrow> emits Q f"
  unfolding emits_def list_all_iff by metis

lemma install_no_display: "emits no_display (InstallIDD w path hw)" "emits no_display (SetIDDRegisterKeys w)"
  by (rule emits_mono [OF install_emits(3)], simp) (rule emits_mono [OF install_emits(4)], simp)

lemma plain_steps_ok:
  "step_ok (uninstall_step w g opts)" "step_ok (show_step w opts)" "step_ok (trust_step w dir opts)" "step_ok (pair_step w opts)"
  by (rule step_neither; auto simp: uninstall_step_def show_step_def trust_step_def pair_step_def
      intro!: emit_intros install_emits elim!: act_bind_cases split: if_splits)+

lemma install_step_ok: "step_ok (install_step w opts)"
  by (rule step_adapters; auto simp: install_step_def intro!: emit_intros install_no_display restart_emits
      elim!: act_bind_cases split: if_splits prod.splits)

lemma adapter_step_ok: "step_ok (adapter_step w opts which enable)"
  by (rule step_adapters; auto simp: adapter_step_def intro!: emit_intros adapter_ops elim!: act_bind_cases split: if_splits)

lemma each_pattern_emits: "(\<And>x. emits P (f x)) \<Longrightarrow> emits P (each_pattern f ps)"
  by (induction ps) (auto intro!: emit_intros)

lemma display_step_ok:
  assumes "delay_set opts"
  shows "step_ok (display_step w opts which enable)"
proof (rule step_displays [OF assms])
  show "display_step w opts which enable due = (if strings_of (opts which) \<noteq> []
    then act_bind (delay_if_due w opts due) (\<lambda>due. act_bind (look (\<lambda>h. QueryActiveSettings w h (\<not> enable))) (\<lambda>queried.
           act_bind (each_pattern (\<lambda>p. EnableDisableDisplayManager w p queried enable) (strings_of (opts which))) (\<lambda>ok.
           give (if ok then Some due else None))))
    else give (Some due))" for due by (simp add: fun_eq_iff display_step_def)
qed (auto intro!: emit_intros each_pattern_emits display_ops elim!: act_bind_cases split: if_splits)

lemma setting_steps_ok:
  assumes "delay_set opts"
  shows "step_ok (resolution_step w opts)" "step_ok (rearrange_step w opts)" "step_ok (scale_step w opts)"
proof -
  show "step_ok (resolution_step w opts)"
    by (rule step_displays [OF assms], rule resolution_step_def) (auto intro!: emit_intros resolution_emits elim!: act_bind_cases)
  show "step_ok (rearrange_step w opts)"
    by (rule step_displays [OF assms], rule rearrange_step_def) (auto intro!: emit_intros rearrange_emits elim!: act_bind_cases split: if_splits)
  show "step_ok (scale_step w opts)"
    by (rule step_displays [OF assms], rule scale_step_def) (auto intro!: emit_intros dpi_emits elim!: act_bind_cases)
qed

text \<open>
  C32. Displays are not changed right after adapters were: between an adapter that was enabled or disabled and the next change of a display the tool
  has waited, as long as a delay is set.
\<close>

theorem delay_before_display_change:
  assumes "main_run w DISPLAY_GUID exe_dir opts [] = (r, h)" "0 < to_uint32 (int_at 0 (opts PostActionDelay))"
    and "h = before @ adapter # between @ display # rest" "adapter_change adapter" "display_change display"
  shows "\<exists>ms. SleepFor ms \<in> set between"
proof -
  obtain r1 where run: "run_steps (tool_steps w DISPLAY_GUID exe_dir opts) False [] = (r1, h)"
    using assms(1) by (auto simp: main_run_def split: prod.splits sum.splits idd_error.splits)
  have "list_all step_ok (tool_steps w DISPLAY_GUID exe_dir opts)" using assms(2)
    by (simp add: delay_set_def [symmetric] tool_steps_def plain_steps_ok install_step_ok adapter_step_ok display_step_ok setting_steps_ok)
  moreover have "in_order False []" unfolding in_order_def by (rule exI [of _ False]) simp
  ultimately have "in_order True h" by (rule run_steps_in_order [OF _ _ run])
  then obtain p where "scan False (before @ adapter # between @ display # rest) = Some p" using assms(3) by (auto simp: in_order_def)
  then obtain q where q: "scan True between = Some q" "scan q (display # rest) = Some p" using assms(4)
    by (auto simp: scan_append split: Option.bind_splits)
  have "\<not> adapter_change display" "\<not> is_sleep display" using assms(5) by (cases display; simp)+
  then have "\<not> q" using q(2) assms(5) by (auto split: if_splits)
  then have "\<not> list_all (\<lambda>c. \<not> is_sleep c) between" using scan_no_sleep [of between] q(1) by auto
  then obtain c where "c \<in> set between" "is_sleep c" by (auto simp: list_all_iff)
  moreover from this(2) obtain ms where "c = SleepFor ms" by (cases c) auto
  ultimately show ?thesis by blast
qed

text \<open>A machine with a Flex adapter and two displays; the adapter is disabled, then the displays are rearranged.\<close>

definition demo_device :: device where
  "demo_device = \<lparr>dv_id = Some ''VEN_8086&DEV_56C0'', dv_friendly = None, dv_description = Some (REG_SZ, ''Flex''),
     dv_hardware = Some (REG_MULTI_SZ, ''PCI'')\<rparr>"

definition demo_windows :: windows where
  "demo_windows = \<lparr>w_answer = (\<lambda>h c. case c of ChangeDisplaySettingsEx n m f \<Rightarrow> 0 | SetDpiScale a s r \<Rightarrow> 0 | _ \<Rightarrow> 1),
     w_adapters = (\<lambda>h. Some [(0, [demo_device])]),
     w_displays = (\<lambda>h. [\<lparr>DeviceName = ''D1'', DeviceString = ''A'', DeviceKey = [], StateFlags = 1\<rparr>,
        \<lparr>DeviceName = ''D2'', DeviceString = ''B'', DeviceKey = [], StateFlags = 1\<rparr>]),
     w_current = (\<lambda>h n. Some \<lparr>dm_x = 7, dm_y = 5, dmPelsWidth = 1920, dmPelsHeight = 1080, dmFields = 0\<rparr>), w_stored = (\<lambda>h n. None),
     w_modes = (\<lambda>h n. []), w_registry = (\<lambda>h k. None), w_subkeys = (\<lambda>h k. None), w_paths = (\<lambda>h a. Query_done []),
     w_dxgi = (\<lambda>h. Some [(0x8086, (0, 1)), (0x1414, (0, 2)), (0x8086, (0, 3))]),
     w_idd_paths = (\<lambda>h. Some [''a'', ''b'', ''c'']), w_dpi = (\<lambda>h l s. Some (-2, 0, 5)), w_output = (\<lambda>h. [])\<rparr>"

definition demo_options :: tool_options where
  "demo_options = idd_options(AdaptersToDisable := StringVector [''flex''], idd_option.RearrangeDisplays := Flag True)"

definition demo_changes :: history where
  "demo_changes =
     [ChangeDisplaySettingsEx (Some ''D2'') (Some \<lparr>dm_x = 1920, dm_y = 5, dmPelsWidth = 1920, dmPelsHeight = 1080, dmFields = 0\<rparr>)
        (CDS_UPDATEREGISTRY OR CDS_NORESET),
      ChangeDisplaySettingsEx None None 0]"

abbreviation demo_first :: api_call where
  "demo_first \<equiv> ChangeDisplaySettingsEx (Some ''D1'') (Some \<lparr>dm_x = 0, dm_y = 0, dmPelsWidth = 1920, dmPelsHeight = 1080, dmFields = 0\<rparr>)
     (CDS_SET_PRIMARY OR CDS_UPDATEREGISTRY OR CDS_NORESET)"

lemma demo_list:
  obtains name hw t where "GetAdapterList (w_adapters demo_windows h)
    = Some ([\<lparr>devID = ''VEN_8086&DEV_56C0'', devName = name, devHardwareID = hw, devGuid = 0, devIndex = 0\<rparr>], t)"
proof -
  obtain name where "GetDeviceDescription demo_device = Some name"
    by (auto simp: GetDeviceDescription_def demo_device_def GetDeviceStringProperty_def)
  moreover obtain hw where "GetDeviceHardwareID demo_device = Some hw"
    by (auto simp: GetDeviceHardwareID_def demo_device_def GetDeviceStringProperty_def)
  moreover have "GetDeviceID demo_device = ''VEN_8086&DEV_56C0''" by (simp add: demo_device_def GetDeviceID_def)
  ultimately show ?thesis using that
    by (simp add: demo_windows_def GetAdapterList_def class_adapters_def read_adapter_def)
qed

lemma find_flex: "\<exists>e. find_pattern ''flex'' t SupportedEnableDisablePatterns = Some (Some (e, []))
    \<and> AdaptersToMatch e = [''VEN_8086&DEV_56C0'', ''VEN_8086&DEV_56C1''] \<and> \<not> IsAnInvertedTarget e \<and> PatternType e = VENDOR_AND_DEVICE_ID"
  by (simp add: SupportedEnableDisablePatterns_def select_devices_def)

lemma demo_manager:
  "EnableDisableDisplayAdapterManager demo_windows ''flex'' False False h
    = (Inr (), h @ [SetStateChange ''VEN_8086&DEV_56C0'' False DICS_FLAG_CONFIGSPECIFIC, CallPropertyChange ''VEN_8086&DEV_56C0''])"
proof -
  obtain name hw t where l: "GetAdapterList (w_adapters demo_windows h)
    = Some ([\<lparr>devID = ''VEN_8086&DEV_56C0'', devName = name, devHardwareID = hw, devGuid = 0, devIndex = 0\<rparr>], t)" by (rule demo_list)
  obtain e where e: "find_pattern ''flex'' t SupportedEnableDisablePatterns = Some (Some (e, []))"
    "AdaptersToMatch e = [''VEN_8086&DEV_56C0'', ''VEN_8086&DEV_56C1'']" "\<not> IsAnInvertedTarget e" "PatternType e = VENDOR_AND_DEVICE_ID"
    using find_flex by blast
  have c: "StringToLowerCase ''flex'' = ''flex''" "CheckIfStringContainsPattern ''VEN_8086&DEV_56C0'' ''VEN_8086&DEV_56C0'' True"
    "\<not> CheckIfStringContainsPattern ''VEN_8086&DEV_56C0'' ''VEN_8086&DEV_56C1'' True" by code_simp+
  have w: "w_adapters demo_windows h' = Some [(0, [demo_device])]" "GetDeviceID demo_device = ''VEN_8086&DEV_56C0''"
    "w_answer demo_windows h' (SetStateChange d b s) = 1" "w_answer demo_windows h' (CallPropertyChange d) = 1" for h' d b s
    by (simp_all add: demo_windows_def demo_device_def GetDeviceID_def)
  show ?thesis
    by (simp add: EnableDisableDisplayAdapterManager_def l [unfolded w(1)] e c of_option_def EnableDisableAdapter_def adapter_meant_def hits_def
        ChangeAdapterState_def w demand_def)
qed

lemma demo_rearranged:
  "RearrangeDisplays demo_windows (fst (QueryActiveSettings demo_windows h True)) h = (Inr 0, h @ demo_first # demo_changes)"
  by (simp add: QueryActiveSettings_def Let_def demo_windows_def display_settings_def attached_def RearrangeDisplays_def change_display_def
      CheckAndPrintDisplayChangeStatus_def apply_changes_def demo_changes_def List.map_filter_def)

lemma demo_run:
  "main_run demo_windows 0 [] demo_options [] =
     (Inr 0, [SetStateChange ''VEN_8086&DEV_56C0'' False DICS_FLAG_CONFIGSPECIFIC]
       @ CallPropertyChange ''VEN_8086&DEV_56C0'' # [SleepFor 2000] @ demo_first # demo_changes)"
proof -
  have "to_uint32 2000 = 2000" "StringToLowerCase [] = []" by code_simp+
  then show ?thesis
    by (simp add: main_run_def tool_steps_def uninstall_step_def show_step_def says_yes_def trust_step_def install_step_def pair_step_def
        display_step_def adapter_step_def resolution_step_def rearrange_step_def scale_step_def delay_if_due_def
        ApplyExecutionDelayBeforeDisplayChange_def Let_def demo_options_def demo_manager demo_rearranged act_bind_def)
qed

theorem delay_before_display_change_witness:
  "\<exists>before adapter between display rest.
     main_run demo_windows 0 [] demo_options [] = (Inr 0, before @ adapter # between @ display # rest)
     \<and> adapter_change adapter \<and> display_change display \<and> (\<exists>ms. SleepFor ms \<in> set between)"
proof -
  have "0 < to_uint32 (int_at 0 (demo_options PostActionDelay))" by code_simp
  then have "\<exists>ms. SleepFor ms \<in> set [SleepFor 2000]" by (rule delay_before_display_change [OF demo_run _ refl]) simp_all
  moreover have "adapter_change (CallPropertyChange ''VEN_8086&DEV_56C0'')" "display_change demo_first" by simp_all
  ultimately show ?thesis using demo_run by blast
qed

end
