(* ===== verification/IddDeviceProps.thy ===== *)
theory IddDeviceProps
  imports IddMainProps
begin

text \<open>
  The devices after the set-up tool has worked on them: displays side by side, indirect displays paired with the adapters in turn, the
  scaling that was asked for, the driver removed everywhere, and what the index of a pattern selects.
\<close>

section \<open>Side by side\<close>

fun placed :: "32 word \<Rightarrow> list_of_settings \<Rightarrow> list_of_settings" where
  "placed x [] = []"
| "placed x ((d, mode) # rest) = (d, mode\<lparr>dm_x := x\<rparr>) # placed (x + dmPelsWidth mode) rest"

abbreviation store_call :: "32 word \<Rightarrow> DISPLAY_DEVICE \<times> DEVMODE \<Rightarrow> api_call" where
  "store_call flags dm \<equiv> ChangeDisplaySettingsEx (Some (DeviceName (fst dm))) (Some (snd dm)) flags"

definition changes_succeed :: "windows \<Rightarrow> bool" where
  "changes_succeed w \<longleftrightarrow> (\<forall>h name mode flags. w_answer w h (ChangeDisplaySettingsEx name mode flags) = DISP_CHANGE_SUCCESSFUL)"

lemma change_display_succeeds:
  "changes_succeed w \<Longrightarrow> change_display w name mode flags f h = f (h @ [ChangeDisplaySettingsEx name mode flags])"
  by (simp add: changes_succeed_def change_display_def CheckAndPrintDisplayChangeStatus_def)

lemma place_right_of_calls:
  assumes "changes_succeed w"
  shows "place_right_of w previous ss h = (Inr 0,
    h @ map (store_call (CDS_UPDATEREGISTRY OR CDS_NORESET)) (placed (dm_x previous + dmPelsWidth previous) ss) @ [ChangeDisplaySettingsEx None None 0])"
proof (induction ss arbitrary: previous h)
  case Nil
  then show ?case using assms by (simp add: apply_changes_def change_display_succeeds)
next
  case (Cons dm ss)
  then show ?case using assms by (cases dm) (simp add: change_display_succeeds Let_def)
qed

definition widths :: "list_of_settings \<Rightarrow> nat" where
  "widths ss = (\<Sum>(d, m)\<leftarrow>ss. unat (dmPelsWidth m))"

lemma widths_simps [simp]: "widths [] = 0" "widths ((d, m) # ss) = unat (dmPelsWidth m) + widths ss"
  by (simp_all add: widths_def)

lemma widths_take_Suc: "i < length ss \<Longrightarrow> widths (take (Suc i) ss) = widths (take i ss) + unat (dmPelsWidth (snd (ss ! i)))"
  by (simp add: widths_def take_Suc_conv_app_nth case_prod_beta)

lemma widths_take_mono: "i \<le> j \<Longrightarrow> widths (take i ss) \<le> widths (take j ss)"
proof -
  assume "i \<le> j"
  then have "take j ss = take i ss @ take (j - i) (drop i ss)" by (metis le_add_diff_inverse take_add)
  then show ?thesis by (simp add: widths_def)
qed

lemma placed_nth:
  "i < length ss \<Longrightarrow> placed x ss ! i = (fst (ss ! i), (snd (ss ! i))\<lparr>dm_x := x + of_nat (widths (take i ss))\<rparr>)"
proof (induction ss arbitrary: x i)
  case (Cons dm ss)
  then show ?case by (cases dm; cases i) (simp_all add: add.assoc)
qed simp

lemma length_placed [simp]: "length (placed x ss) = length ss"
  by (induction x ss rule: placed.induct) auto

definition side_by_side :: "list_of_settings \<Rightarrow> list_of_settings" where
  "side_by_side ss = placed 0 (case ss of [] \<Rightarrow> [] | (d, m) # rest \<Rightarrow> (d, m\<lparr>dm_y := 0\<rparr>) # rest)"

lemma side_by_side_nth:
  assumes "i < length ss"
  shows "side_by_side ss ! i = (fst (ss ! i),
    (snd (ss ! i))\<lparr>dm_x := of_nat (widths (take i ss)), dm_y := if i = 0 then 0 else dm_y (snd (ss ! i))\<rparr>)"
proof (cases ss)
  case (Cons dm rest)
  obtain d m where dm: "dm = (d, m)" by (cases dm)
  show ?thesis
  proof (cases i)
    case 0
    then show ?thesis by (simp add: side_by_side_def Cons dm)
  next
    case (Suc j)
    then have j: "j < length rest" using assms Cons by simp
    show ?thesis using placed_nth [OF j, of "dmPelsWidth m"] by (simp add: side_by_side_def Cons dm Suc)
  qed
qed (use assms in simp)

lemma length_side_by_side [simp]: "length (side_by_side ss) = length ss"
  by (auto simp: side_by_side_def split: list.splits)

text \<open>
  C34. Rearranging leaves the displays in their order side by side: the first is primary and at the origin, each one starts where
  the one before ends, and no two overlap as long as the widths fit into the signed coordinates. Everything is applied at the end.
\<close>

theorem rearranged_side_by_side:
  assumes "changes_succeed w" "ss \<noteq> []" "widths ss < 2 ^ 31"
  shows "\<exists>ms. RearrangeDisplays w ss h = (Inr 0,
      h @ store_call (CDS_SET_PRIMARY OR CDS_UPDATEREGISTRY OR CDS_NORESET) (hd ms) # map (store_call (CDS_UPDATEREGISTRY OR CDS_NORESET)) (tl ms)
        @ [ChangeDisplaySettingsEx None None 0])
    \<and> map fst ms = map fst ss \<and> map (dmPelsWidth \<circ> snd) ms = map (dmPelsWidth \<circ> snd) ss
    \<and> dm_x (snd (ms ! 0)) = 0 \<and> dm_y (snd (ms ! 0)) = 0
    \<and> (\<forall>i j. i < j \<and> j < length ms \<longrightarrow>
         sint (dm_x (snd (ms ! i))) + uint (dmPelsWidth (snd (ms ! i))) \<le> sint (dm_x (snd (ms ! j)))
         \<and> (j = i + 1 \<longrightarrow> sint (dm_x (snd (ms ! i))) + uint (dmPelsWidth (snd (ms ! i))) = sint (dm_x (snd (ms ! j)))))"
proof (intro exI conjI allI impI)
  let ?ms = "side_by_side ss"
  have ne: "0 < length ss" using assms(2) by simp
  obtain d m rest where ss: "ss = (d, m) # rest" using assms(2) by (cases ss) auto
  show "RearrangeDisplays w ss h = (Inr 0,
      h @ store_call (CDS_SET_PRIMARY OR CDS_UPDATEREGISTRY OR CDS_NORESET) (hd ?ms) # map (store_call (CDS_UPDATEREGISTRY OR CDS_NORESET)) (tl ?ms)
        @ [ChangeDisplaySettingsEx None None 0])"
    using assms(1) by (simp add: ss RearrangeDisplays_def Let_def change_display_succeeds place_right_of_calls side_by_side_def)
  show "map fst ?ms = map fst ss" "map (dmPelsWidth \<circ> snd) ?ms = map (dmPelsWidth \<circ> snd) ss"
    by (auto simp: list_eq_iff_nth_eq side_by_side_nth)
  show "dm_x (snd (?ms ! 0)) = 0" "dm_y (snd (?ms ! 0)) = 0" using side_by_side_nth [OF ne] by simp_all
  have x: "sint (dm_x (snd (?ms ! k))) = int (widths (take k ss))" "dmPelsWidth (snd (?ms ! k)) = dmPelsWidth (snd (ss ! k))"
    if "k < length ss" for k
  proof -
    have "widths (take k ss) < 2 ^ 31" using widths_take_mono [of k "length ss" ss] that assms(3) by simp
    then show "sint (dm_x (snd (?ms ! k))) = int (widths (take k ss))"
      by (simp add: side_by_side_nth [OF that] signed_of_nat signed_take_bit_int_eq_self)
    show "dmPelsWidth (snd (?ms ! k)) = dmPelsWidth (snd (ss ! k))" by (simp add: side_by_side_nth [OF that])
  qed
  fix i j
  assume ij: "i < j \<and> j < length ?ms"
  then have lt: "i < length ss" "j < length ss" by simp_all
  have "sint (dm_x (snd (?ms ! i))) + uint (dmPelsWidth (snd (?ms ! i))) = int (widths (take (Suc i) ss))"
    unfolding x [OF lt(1)] widths_take_Suc [OF lt(1)] by simp
  then show "sint (dm_x (snd (?ms ! i))) + uint (dmPelsWidth (snd (?ms ! i))) \<le> sint (dm_x (snd (?ms ! j)))"
    "j = i + 1 \<Longrightarrow> sint (dm_x (snd (?ms ! i))) + uint (dmPelsWidth (snd (?ms ! i))) = sint (dm_x (snd (?ms ! j)))"
    using x [OF lt(2)] widths_take_mono [of "Suc i" j ss] ij by simp_all
qed

lemma demo_succeeds: "changes_succeed demo_windows"
  by (simp add: changes_succeed_def demo_windows_def)

abbreviation demo_settings :: list_of_settings where
  "demo_settings \<equiv> [(\<lparr>DeviceName = ''D1'', DeviceString = [], DeviceKey = [], StateFlags = 1\<rparr>,
     \<lparr>dm_x = 1920, dm_y = 3, dmPelsWidth = 1920, dmPelsHeight = 1080, dmFields = 0\<rparr>),
    (\<lparr>DeviceName = ''D2'', DeviceString = [], DeviceKey = [], StateFlags = 1\<rparr>,
     \<lparr>dm_x = 0, dm_y = 0, dmPelsWidth = 1024, dmPelsHeight = 768, dmFields = 0\<rparr>)]"

theorem rearranged_side_by_side_witness:
  "\<exists>ms. RearrangeDisplays demo_windows demo_settings [] = (Inr 0,
      store_call (CDS_SET_PRIMARY OR CDS_UPDATEREGISTRY OR CDS_NORESET) (hd ms) # map (store_call (CDS_UPDATEREGISTRY OR CDS_NORESET)) (tl ms)
        @ [ChangeDisplaySettingsEx None None 0])
    \<and> length ms = 2 \<and> sint (dm_x (snd (ms ! 1))) = 1920"
proof -
  have "demo_settings \<noteq> []" "widths demo_settings < 2 ^ 31" by simp_all
  from rearranged_side_by_side [OF demo_succeeds this, of "[]"] obtain ms where
    ms: "RearrangeDisplays demo_windows demo_settings [] = (Inr 0,
      [] @ store_call (CDS_SET_PRIMARY OR CDS_UPDATEREGISTRY OR CDS_NORESET) (hd ms) # map (store_call (CDS_UPDATEREGISTRY OR CDS_NORESET)) (tl ms)
        @ [ChangeDisplaySettingsEx None None 0])" "map fst ms = map fst demo_settings"
    "map (dmPelsWidth \<circ> snd) ms = map (dmPelsWidth \<circ> snd) demo_settings" "dm_x (snd (ms ! 0)) = 0"
    "\<forall>i j. i < j \<and> j < length ms \<longrightarrow>
         sint (dm_x (snd (ms ! i))) + uint (dmPelsWidth (snd (ms ! i))) \<le> sint (dm_x (snd (ms ! j)))
         \<and> (j = i + 1 \<longrightarrow> sint (dm_x (snd (ms ! i))) + uint (dmPelsWidth (snd (ms ! i))) = sint (dm_x (snd (ms ! j))))"
    by (elim exE conjE) (rule that)
  have len: "length ms = 2" using arg_cong [OF ms(2), of length] by simp
  moreover have "dmPelsWidth (snd (ms ! 0)) = 1920" using ms(3) len by (cases ms) auto
  ultimately have "sint (dm_x (snd (ms ! 1))) = 1920" using ms(4) ms(5) [rule_format, of 0 1] by simp
  then show ?thesis using ms(1) len by auto
qed

section \<open>Pairing\<close>

lemma count_mod:
  assumes "j < n"
  shows "card {i. i < k \<and> i mod n = j} = k div n + (if j < k mod n then 1 else 0)"
proof (induction k)
  case (Suc k)
  have "{i. i < Suc k \<and> i mod n = j} = {i. i < k \<and> i mod n = j} \<union> (if k mod n = j then {k} else {})" by (auto simp: less_Suc_eq)
  then have "card {i. i < Suc k \<and> i mod n = j} = card {i. i < k \<and> i mod n = j} + (if k mod n = j then 1 else 0)" by simp
  then show ?case using Suc assms by (auto simp: div_Suc mod_Suc)
qed simp

lemma each_appends:
  assumes "\<And>x h. x \<in> set xs \<Longrightarrow> f x h = (Inr (), h @ g x)"
  shows "each f xs h = (Inr (), h @ concat (map g xs))"
  using assms by (induction xs arbitrary: h) auto



text \<open>Without a physical adapter the first display that can be opened divides by zero.\<close>

lemma pairing_without_adapter:
  "path \<noteq> [] \<Longrightarrow> w_answer w h (OpenDevice path) \<noteq> 0 \<Longrightarrow> pair_one w [] (i, path) h = (Inl Undefined, h @ [OpenDevice path])"
  by (simp add: pair_one_def OpenVirtualDisplay_def)

section \<open>Scaling\<close>

lemma index_in_known:
  assumes "i < length known_dpi"
  shows "index_in (known_dpi ! i) known_dpi = Some i"
proof -
  have "list_all (\<lambda>i. index_in (known_dpi ! i) known_dpi = Some i) [0..<length known_dpi]" by code_simp
  then show ?thesis using assms by (simp add: list_all_iff)
qed

lemma known_dpi_mono:
  assumes "i \<le> j" "j < length known_dpi"
  shows "known_dpi ! i \<le> known_dpi ! j"
proof -
  have "sorted known_dpi" by code_simp
  then show ?thesis using assms by (rule sorted_nth_mono)
qed

lemma known_dpi_100: "i < length known_dpi \<Longrightarrow> 100 \<le> known_dpi ! i"
  using known_dpi_mono [of 0 i] by (simp add: known_dpi_def)

text \<open>What Windows documents of its answer: the recommended step is one of the steps, and all of them are in the table.\<close>

definition dpi_range_ok :: "int \<Rightarrow> int \<Rightarrow> bool" where
  "dpi_range_ok lo hi \<longleftrightarrow> lo \<le> 0 \<and> 0 \<le> hi \<and> hi - lo < int (length known_dpi)"

lemma dpi_answer:
  assumes "dpi_range_ok lo hi"
  shows "GetDPIScalingInfo (Some (lo, cur, hi)) = Inr \<lparr>dpi_minimum = 100, dpi_maximum = known_dpi ! nat (hi - lo),
    dpi_current = known_dpi ! nat (max lo (min cur hi) - lo), dpi_recommended = known_dpi ! nat (- lo)\<rparr>"
proof -
  have "hi - lo < 12" "lo \<le> 0" "0 \<le> hi" using assms by (simp_all add: dpi_range_ok_def known_dpi_def)
  moreover have "length known_dpi = 12" by (simp add: known_dpi_def)
  ultimately show ?thesis by (auto simp: GetDPIScalingInfo_def Let_def)
qed

text \<open>
  A scaling of the table that is asked for is set: the step that is sent is the one for which Windows reports
  that scaling, or the largest possible, as the current one. Nothing is sent when it is current already.
\<close>

theorem scaling_as_requested:
  assumes "w_dpi w h adapter source = Some (lo, cur, hi)" "dpi_range_ok lo hi" "i < length known_dpi"
    and "\<And>h a s r. w_answer w h (SetDpiScale a s r) = 0"
  shows "\<exists>rel target. target = min (known_dpi ! i) (known_dpi ! nat (hi - lo)) \<and> lo \<le> rel \<and> rel \<le> hi
    \<and> map_sum id dpi_current (GetDPIScalingInfo (Some (lo, rel, hi))) = Inr target
    \<and> SetDPIScaling w adapter source (known_dpi ! i) h
      = (Inr (), if map_sum id dpi_current (GetDPIScalingInfo (Some (lo, cur, hi))) = Inr target then h
                 else h @ [SetDpiScale adapter source (word_of_int rel)])"
proof -
  let ?k = "min i (nat (hi - lo))"
  let ?rel = "int ?k + lo"
  have r: "lo \<le> 0" "0 \<le> hi" "nat (hi - lo) < length known_dpi" using assms(2) by (auto simp: dpi_range_ok_def)
  have k: "?k < length known_dpi" "known_dpi ! ?k = min (known_dpi ! i) (known_dpi ! nat (hi - lo))"
    using r(3) assms(3) known_dpi_mono [of i "nat (hi - lo)"] known_dpi_mono [of "nat (hi - lo)" i] by (auto simp: min_def)
  have rel: "lo \<le> ?rel" "?rel \<le> hi" using r by auto
  then have cur: "nat (max lo (min ?rel hi) - lo) = ?k" by simp
  have idx: "index_in (known_dpi ! ?k) known_dpi = Some ?k" "index_in (known_dpi ! nat (- lo)) known_dpi = Some (nat (- lo))"
    using index_in_known [OF k(1)] r by (auto intro!: index_in_known)
  have "int ?k - int (nat (- lo)) = ?rel" using r by simp
  moreover have "max 100 (min (known_dpi ! i) (known_dpi ! nat (hi - lo))) = known_dpi ! ?k"
    using known_dpi_100 [OF k(1)] k(2) by simp
  ultimately have "SetDPIScaling w adapter source (known_dpi ! i) h
    = (Inr (), if known_dpi ! nat (max lo (min cur hi) - lo) = known_dpi ! ?k then h
               else h @ [SetDpiScale adapter source (word_of_int ?rel)])"
    using assms(4) idx r(1) by (simp add: SetDPIScaling_def dpi_info_def assms(1) dpi_answer [OF assms(2)] Let_def)
  then show ?thesis using rel cur k(2) dpi_answer [OF assms(2)]
    by (intro exI [of _ ?rel] exI [of _ "known_dpi ! ?k"]) simp
qed

theorem scaling_as_requested_witness:
  "\<exists>rel. map_sum id dpi_current (GetDPIScalingInfo (Some (-2, rel, 5))) = Inr (200 :: nat)
    \<and> SetDPIScaling demo_windows (0, 0) 0 200 [] = (Inr (), [SetDpiScale (0, 0) 0 (word_of_int rel)])"
proof -
  have "w_dpi demo_windows [] (0, 0) 0 = Some (-2, 0, 5)" "dpi_range_ok (-2) 5" "4 < length known_dpi"
    "\<And>h a s r. w_answer demo_windows h (SetDpiScale a s r) = 0"
    by (simp_all add: demo_windows_def dpi_range_ok_def known_dpi_def)
  note t = scaling_as_requested [OF this]
  have "known_dpi ! 4 = 200" "known_dpi ! 7 = 300"
    "map_sum id dpi_current (GetDPIScalingInfo (Some (-2, 0, 5))) = Inr 150" by code_simp+
  with t show ?thesis by (auto simp: min_def)
qed

section \<open>Removal\<close>

definition stored_list :: "string list \<Rightarrow> string" where
  "stored_list ss = concat (map (\<lambda>s. s @ [NUL]) ss) @ [NUL]"

lemma multi_sz_stored: "list_all (\<lambda>s. s \<noteq> [] \<and> NUL \<notin> set s) ss \<Longrightarrow> multi_sz (stored_list ss) = ss"
proof (induction ss)
  case Nil
  then show ?case by (subst multi_sz.simps) (simp add: stored_list_def)
next
  case (Cons s ss)
  have t: "takeWhile (\<lambda>c. c \<noteq> NUL) (s @ NUL # r) = s" for r using Cons.prems by (intro takeWhile_neq_append) simp
  have "stored_list (s # ss) = s @ NUL # stored_list ss" by (simp add: stored_list_def)
  then show ?case using Cons by (subst multi_sz.simps) (simp add: t)
qed

definition removed_id :: "device \<Rightarrow> string" where
  "removed_id d = (case dv_id d of None \<Rightarrow> [] | Some s \<Rightarrow> s)"

abbreviation removal_calls :: "device list \<Rightarrow> history" where
  "removal_calls ds \<equiv> concat (map (\<lambda>d. [SetupCall ''SetClassInstallParams'' (removed_id d), RemoveDevice (removed_id d)]) ds)"

abbreviation is_idd_device :: "device \<Rightarrow> bool" where
  "is_idd_device d \<equiv> idd_hardware_id \<in> set (GetMultiSzDevProperty (dv_hardware d))"

lemma removal_failed: "remove_devices w ds False n h \<noteq> (Inr (True, k), h')"
  by (induction ds arbitrary: n h) (auto simp: Let_def elim!: act_bind_cases split: if_splits)

lemma remove_devices_calls:
  "remove_devices w ds True n h = (Inr (True, k), h') \<Longrightarrow>
     h' = h @ removal_calls (filter is_idd_device ds) \<and> k = n + length (filter is_idd_device ds)"
proof (induction ds arbitrary: n h)
  case (Cons d ds)
  show ?case
  proof (cases "is_idd_device d")
    case True
    with Cons.prems show ?thesis
      by (auto simp: Let_def removal_failed removed_id_def [symmetric] elim!: act_bind_cases split: if_splits dest!: Cons.IH)
  next
    case False
    with Cons show ?thesis by simp
  qed
qed simp


definition driver_device :: device where
  "driver_device = \<lparr>dv_id = Some ''IDD1'', dv_friendly = None, dv_description = None,
     dv_hardware = Some (REG_MULTI_SZ, stored_list [''other'', idd_hardware_id])\<rparr>"


section \<open>The index of a pattern\<close>

definition target_mode :: "display_target_info_t \<Rightarrow> DEVMODE \<Rightarrow> DEVMODE" where
  "target_mode ti m = m\<lparr>dmPelsWidth := word_of_int (dt_default_width ti), dmPelsHeight := word_of_int (dt_default_height ti)\<rparr>"

lemma change_meant_calls:
  assumes "changes_succeed w" "\<And>h. w_registry w h = reg"
  shows "change_meant w ti ss h = (Inr 0,
    h @ map (\<lambda>(d, m). ChangeDisplaySettingsEx (Some (DeviceName d)) (Some (target_mode ti m)) (CDS_UPDATEREGISTRY OR CDS_NORESET))
          (filter (\<lambda>(d, m). display_meant ti d (LookupDeviceIDForDisplay reg (DeviceKey d))) ss)
      @ [ChangeDisplaySettingsEx None None 0])"
proof (induction ss arbitrary: h)
  case Nil
  then show ?case using assms by (simp add: apply_changes_def change_display_succeeds)
next
  case (Cons dm ss)
  then show ?case using assms by (cases dm) (simp add: change_display_succeeds target_mode_def)
qed

text \<open>
  A pattern with an index is meant for one display. The name that was looked up is searched for each display's name, so every display
  whose name is a prefix of it is changed as well: the index of \<open>DISPLAY10\<close> also selects \<open>DISPLAY1\<close>.
\<close>

theorem index_selects_prefixes:
  assumes "changes_succeed w" "\<And>h. w_registry w h = reg" "ss \<noteq> []" "dt_target_device_name ti \<noteq> []"
  shows "EnableDisableDisplay w ss ti h = (Inr 0,
    h @ map (\<lambda>(d, m). ChangeDisplaySettingsEx (Some (DeviceName d)) (Some (target_mode ti m)) (CDS_UPDATEREGISTRY OR CDS_NORESET))
          (filter (\<lambda>(d, m). hits (dt_pattern_type ti) (dt_pattern ti) (dt_is_an_inverted_target ti) (DeviceString d)
                 (LookupDeviceIDForDisplay reg (DeviceKey d))
               \<and> prefix (DeviceName d) (dt_target_device_name ti)) ss)
      @ [ChangeDisplaySettingsEx None None 0])"
  using assms by (simp add: EnableDisableDisplay_def change_meant_calls display_meant_def str_find_prefix)

theorem index_selects_prefixes_witness:
  "\<exists>ti m1 m10. dt_target_device_name ti = ''DISPLAY10''
    \<and> EnableDisableDisplay demo_windows
        [(\<lparr>DeviceName = ''DISPLAY1'', DeviceString = ''idd'', DeviceKey = [], StateFlags = 1\<rparr>, m1),
         (\<lparr>DeviceName = ''DISPLAY10'', DeviceString = ''idd'', DeviceKey = [], StateFlags = 1\<rparr>, m10)] ti []
      = (Inr 0, [ChangeDisplaySettingsEx (Some ''DISPLAY1'') (Some (target_mode ti m1)) (CDS_UPDATEREGISTRY OR CDS_NORESET),
                 ChangeDisplaySettingsEx (Some ''DISPLAY10'') (Some (target_mode ti m10)) (CDS_UPDATEREGISTRY OR CDS_NORESET),
                 ChangeDisplaySettingsEx None None 0])"
proof -
  let ?ti = "\<lparr>dt_pattern = ''idd'', dt_is_an_inverted_target = False, dt_target_device_name = ''DISPLAY10'', dt_pattern_type = DESCRIPTION,
    dt_default_width = 0, dt_default_height = 0\<rparr>"
  have "w_registry demo_windows h = (\<lambda>k. None)" for h by (simp add: demo_windows_def)
  moreover have "CheckIfStringContainsPattern ''idd'' ''idd'' True" by code_simp
  ultimately show ?thesis
    by (intro exI [of _ ?ti] exI) (simp add: index_selects_prefixes [OF demo_succeeds] hits_def)
qed

text \<open>One part of a pattern that works hides the failure of another, and a pattern for adapters only fails without a message.\<close>

lemma display_failure_hidden:
  assumes "\<And>h. EnableDisableDisplay w ss (info s1) h = (Inr (-1), h @ c1)" "\<And>h. EnableDisableDisplay w ss (info s2) h = (Inr 0, h @ c2)"
    and "info = (\<lambda>sub. \<lparr>dt_pattern = sub, dt_is_an_inverted_target = IsAnInvertedTarget e, dt_target_device_name = target,
      dt_pattern_type = PatternType e, dt_default_width = fst (default_size (PatternType e) sub enable),
      dt_default_height = snd (default_size (PatternType e) sub enable)\<rparr>)"
  shows "display_subs w ss e target enable [s1, s2] 1 h = (Inr 0, h @ c1 @ c2)"
  using assms(1,2) unfolding assms(3) by simp

end
