(* ===== verification/Spec2Isabelle.thy ===== *)
theory Spec2Isabelle
  imports ConfProps GaCommonProps DpipeProps CtrlMsg CtrlQueue Rtspconf CtrlServer Asource
    GetOptsProps VsourceProps Encoder Vconverter SockProps IrrvProps ReceiverProps
    MuxProps VideoDemuxProps EncoderCliProps TcaeProps TransCoderProps TransRunProps
    CommandParserProps IddCommandProps IddDeviceProps
begin

text \<open>
  \<^bold>\<open>Verification of the cloud streaming stack.\<close> All paths below are relative to \<open>src/sources\<close>.

  \<^bold>\<open>The program.\<close> The streamer (\<open>streamer/\<close>) captures a screen and sound on a server, has the pictures
  encoded and hands the packets to a sink server; it receives control messages from a client and replays them.
  The encoder server (\<open>encoder/\<close>) is a process of its own that encodes surfaces and serves the stream over
  local sockets; the streamer's module \<open>streamer/module/irrv-receiver\<close> is its client. A run of the streamer
  reads options from the command line and a configuration file, derives the session configuration, sets up the
  audio and video sources on frame pipes, loads the modules, and lets the encoder bridge start and stop the
  encoders with the first and the last client.

  \<^bold>\<open>Foundations.\<close>
  \<^item> \<open>Prelude\<close>: C integers and their conversions, buffers addressed by offset, list facts; \<open>buf_simps\<close>.
  \<^item> \<open>StdMap\<close>: \<open>std::map\<close> with its iterators; the contract is the locale \<open>std_map\<close>, interpreted on the
    ordered association lists the models use.
  \<^item> \<open>CString\<close>: the C string functions the sources call, with the round trip of decimal printing and \<open>strtol\<close>.
  \<^item> \<open>Fifo\<close>: the contract of queues, the locale \<open>fifo\<close>, which speaks of whole sequences of operations. It is
    interpreted on the frame pipe (\<open>DpipeProps\<close>), the control queue (\<open>CtrlQueue\<close>) and the audio buffer
    (\<open>Asource\<close>).

  \<^bold>\<open>The streamer's core\<close>, \<open>streamer/core/\<close>.
  \<^item> \<open>ConfVar\<close>, \<open>Conf\<close> (\<open>ga-confvar.cpp\<close>, \<open>ga-conf.cpp\<close>): variables with a value, a map and an iterator;
    the global store with its loader, parser, readers, writers and enumerations. \<open>ConfFacts\<close> and \<open>ConfProps\<close>:
    the store's invariant over every history of calls, what loading a printed configuration gives, loading of
    files that include one another, enumeration, and the operations that do more than they say.
  \<^item> \<open>GaCommon\<close> (\<open>ga-common.cpp\<close>), \<open>GaCommonProps\<close>: time, allocation, logging names, statistics, start codes,
    cropping, sample sizes, with their bounds.
  \<^item> \<open>Dpipe\<close> (\<open>dpipe.cpp\<close>), \<open>DpipeProps\<close>: buffers on a heap linked through their fields, pipes with two chains,
    the registry. Invariant over interleavings of well-behaved clients, refinement of a queue, creation that
    succeeds or leaves nothing, destruction that frees what was allocated, loads that return.
  \<^item> \<open>CtrlMsg\<close> (\<open>ctrl-msg.cpp\<close>): system messages as bytes, dispatch, round trip of a network report.
  \<^item> \<open>CtrlQueue\<close>, \<open>CtrlServer\<close> (\<open>controller.cpp\<close>): the ring of messages as a queue; the server's handshake
    and its reassembly of messages from the stream, the client's sender.
  \<^item> \<open>Rtspconf\<close> (\<open>rtspconf.cpp\<close>): the session configuration and the stages of its parser; what a parse that
    returns 0 guarantees.
  \<^item> \<open>Asource\<close> (\<open>asource.cpp\<close>): audio buffers, filler, reader, registry of clients.
  \<^item> \<open>GetOpts\<close> (\<open>ga-get-opts.cpp\<close>), \<open>GetOptsProps\<close>: the option classes and the parser, shown to accept
    exactly the printed command lines.
  \<^item> \<open>Vsource\<close> (\<open>vsource.cpp\<close>), \<open>VsourceProps\<close>: the table of video sources; frames lie inside the memory of
    the pipe's buffers they are initialised in.
  \<^item> \<open>GaModule\<close> (\<open>ga-module.cpp\<close>): modules as tables of functions, packets with side data in a memory.
  \<^item> \<open>Encoder\<close> (\<open>encoder-common.cpp\<close>): the bridge; the modules see whole sessions, one while there are clients.
  \<^item> \<open>Vconverter\<close> (\<open>vconverter.cpp\<close>): the cache of converters; its key type is an instance of \<open>linorder\<close>.

  \<^bold>\<open>The encoder server and its client.\<close>
  \<^item> \<open>SockServer\<close> (\<open>encoder/sock_util/\<close>), \<open>SockProps\<close>: the table of descriptors, the contract of which is the
    locale \<open>slot_table\<close>; the loops that send and receive blocks; a block arrives as it was sent.
  \<^item> \<open>Streamer\<close> (\<open>encoder/shared/IrrStreamer.cpp\<close>, \<open>stream.cpp\<close>): clients, flags and settings.
  \<^item> \<open>VideoDemux\<close> (\<open>encoder/shared/CIrrVideoDemux.cpp\<close>), \<open>VideoDemuxProps\<close>: the place of the newest frame between the
    thread that receives frames and the encoder; a read gives the newest frame, controls go out once, and a fixed rate
    is not exceeded.
  \<^item> \<open>RuntimeWriter\<close> (\<open>encoder/shared/utils/IORuntimeWriter.cpp\<close>), \<open>RuntimeWriterProps\<close>: recording by two threads; the
    calls return and the file holds what was submitted, under every schedule. \<open>StreamWriter\<close>
    (\<open>IOStreamWriter.cpp\<close>): the file mode.
  \<^item> \<open>CallbackMux\<close> (\<open>encoder/shared/CCallbackMux.cpp\<close>), \<open>MuxProps\<close>: packets go to the clients and to the recording
    unless transmission is paused; what a poll keeps is the locale \<open>poll_keeps\<close>, interpreted twice.
  \<^item> \<open>EncodeOptions\<close> (\<open>encoder/shared/encoder.cpp\<close>, \<open>ProfileLevel.h\<close>), \<open>EncodeOptionsProps\<close>: the options of the
    encoder and their check; accepted options are consistent and a fixed point of the check. \<open>CNumber\<close> holds \<open>atoi\<close>,
    \<open>atof\<close> and the rounding of doubles and floats they need.
  \<^item> \<open>EncoderCli\<close> (\<open>encoder/server/cli.cpp\<close>, \<open>main.cpp\<close>), \<open>EncoderCliProps\<close>: the command line with
    \<open>getopt_long_only\<close>, default rates and the start of the program; options are read back however written, default rates pass
    the check, and the server starts with consistent options only.
  \<^item> \<open>CDouble\<close>: the operations on doubles, each rounded. \<open>NetPred\<close> (\<open>encoder/shared/tcae/net_pred.cpp\<close>),
    \<open>NetPredProps\<close>: the model of the network that adaptive encoding predicts frame sizes with; no update divides by
    zero, the prediction is bounded, and a quiet network brings the original targets back. \<open>Tcae\<close>
    (\<open>enc_frame_settings_predictor.cpp\<close>, \<open>CTcaeWrapper.cpp\<close>), \<open>TcaeProps\<close>: reports, target sizes and dropped
    frames; targets stay within the limits for every history, and frames are dropped in short runs only.
  \<^item> \<open>CFFEncoder\<close> (\<open>encoder/shared/CFFEncoder.cpp\<close>): the wrapper of an FFmpeg encoder.
  \<^item> \<open>TransCoder\<close>, \<open>TransOutput\<close>, \<open>TransRun\<close> (\<open>encoder/shared/CTransCoder.cpp\<close>): the settings, the output half of a round
    (encoders, packets, screen capture), and the whole round with decoding and filters. \<open>TransCoderProps\<close>: settings are
    applied once with their last value, the encoder follows the codec, hardware errors. \<open>TransRunProps\<close>: packets are
    multiplexed in order, captures are made at every interval, a new resolution is applied; what the output keeps of
    the state is stated in the locales \<open>drain_keeps\<close> and \<open>out_keeps\<close>, interpreted for three views of it.
  \<^item> \<open>Irrv\<close> (\<open>encoder/shared/irrv/irrv_protocol.cpp\<close>), \<open>IrrvProps\<close>: authentication, control messages and frames;
    frames leave and control messages are obeyed on authenticated connections only.
  \<^item> \<open>Receiver\<close> (\<open>streamer/module/irrv-receiver/\<close>), \<open>ReceiverProps\<close>: the other end of the protocol, and both
    ends together: settings reach the streamer, the key is accepted, frames reach packets.

  \<^bold>\<open>The driver set-up tool\<close>, \<open>apps/idd-setup-tool/\<close>.
  \<^item> \<open>IddUtility\<close> (\<open>Utility.cpp\<close>): searching, splitting and indenting strings, the tables of patterns and resolutions.
  \<^item> \<open>CommandParser\<close> (\<open>CommandParserImpl.cpp\<close>), \<open>CommandParserProps\<close>: the tables of commands and options, the reading of
    arguments and the help; help keeps its text, printed settings are read back. \<open>IddCommand\<close>
    (\<open>IddSetupToolCommandParser.cpp\<close>), \<open>IddCommandProps\<close>: the tool's own tables; settings in any order, and what is
    accepted or undefined although it should be refused.
  \<^item> \<open>IddMachine\<close>: Windows as a parameter, operations as functions on the history of calls, and the pattern tables.
    \<open>IddAdapters\<close> (\<open>EnableDisableAdapters.cpp\<close>), \<open>IddDisplays\<close> (\<open>RearrangeDisplays.cpp\<close>,
    \<open>ChangeDisplaySettings.cpp\<close>), \<open>IddInstall\<close> (\<open>InstallIDD.cpp\<close>, \<open>PairIdd.cpp\<close>) and \<open>IddMain\<close>
    (\<open>idd-setup-tool.cpp\<close>): the operations and the steps of \<open>main\<close>. \<open>IddMainProps\<close>: which calls an operation can make,
    and the delay between adapters and displays. \<open>IddDeviceProps\<close>: displays side by side, pairing in turn, scaling, removal.

  \<^bold>\<open>How effects are modelled.\<close> A global variable or object is a record that operations take and return. Memory
  is a map from addresses, 0 being NULL; what \<open>malloc\<close> returns is an argument. \<open>None\<close> is an access the
  language does not define, an exception nobody catches, or, for the loops on sockets, not having returned.
  Calls that leave the repository (the kernel, a module's functions, the transcoder) are arguments: finite
  scripts of answers, or functions on a state of the outside world; the calls themselves are kept in lists.
  Operations under one lock are atomic steps, and interleavings of threads are sequences of such steps.

  A \<open>double\<close> or \<open>float\<close> is a rational number, and every operation on it is rounded to the nearest one with the precision
  of the type; the largest exponent is not modelled, and a division by zero is \<open>None\<close>.

  \<^bold>\<open>Bounds.\<close> \<open>ga_conf_load\<close> recurses with a file open at each level; its first argument is the number of
  files the process may still open, a limit of the program and not only of the model. A receive or send loop
  consumes an answer of its script in each round; a script that ends before the loop does gives \<open>None\<close>, and the
  theorems that a loop returns say which scripts suffice: a clock that passes the time limit, or pieces that add
  up to the block. All other loops recurse on their data.

  \<^bold>\<open>Not modelled.\<close> Picture processing, surfaces and capture (\<open>streamer/capture\<close>), which drive Direct3D and oneVPL;
  starting, stopping and writing in \<open>IrrStreamer.cpp\<close>; the hardware frame contexts and latency timers of the transcoder;
  FFmpeg itself, whose answers are parameters; the WebRTC module, the input replay module, the display
  driver and the portability layer, which consist of calls to libraries and to Windows; the
  applications and tests. Of the modelled files: the parts for the \<open>FFMPEG_v42\<close> and memory-sharing builds, readers of floating
  point numbers in \<open>ga-conf.cpp\<close>, log and dump files, scale factors that are doubles, and the Windows-only senders of the
  bridge.
\<close>

end
